(* ===== verification/Prelude.thy ===== *)
theory Prelude
  imports Main "HOL-Library.Char_ord" "HOL-Library.List_Lexorder" "HOL-Library.Sublist"
begin

text \<open>
  What every component of the development shares: the result type in which a Python
  call either raises (\<open>Inl\<close>) or returns (\<open>Inr\<close>), the exceptions of the program, the
  string operations of Python that the program uses (\<open>strip\<close>, \<open>split\<close>, \<open>replace\<close>,
  \<open>startswith\<close>, the character classes of its regular expressions), and the tables of
  rows that stand for the tables of its SQLite database, in rowid order.

  A Python string is a \<open>string\<close>: a list of code points below 256. The theorems read it
  as ASCII text; on it Unicode NFC normalisation is the identity and \<open>casefold\<close> is
  ASCII lower-casing.
\<close>

named_theorems py_simps \<open>unfolding rules of the Python operations\<close>

section \<open>Exceptions and results\<close>

text \<open>The exception classes that the modelled code raises or catches.\<close>

datatype exn_class =
    ValueErr | KeyErr | IntegrityErr | TypeErr
  | ResourceIdentityErr | LeaseEnvelopeErr | LeaseErr | RuntimeLeaseErr | RuntimeErr
  | JobErr | BusErr | RoutingErr | UsageEvidenceErr | UsagePolicyErr | ContextErr
  | ChannelConflictErr | ChannelForbiddenErr | IdentityErr | CapacityErr | OverflowErr | AttributeErr
  | BindErr | ChecklistErr | HarnessErr | OSErr | DependencyErr | RecoveryErr | ReconcileErr | SplitErr | ReceiptErr

text \<open>
  An exception is its class and the fixed part of its message (the values that the
  f-strings interpolate are left out).
\<close>

datatype exn = Exn (exn_cls: exn_class) (exn_msg: string)

type_synonym 'a result = "exn + 'a"

abbreviation raise :: "exn_class \<Rightarrow> string \<Rightarrow> 'a result" where
  "raise c m \<equiv> Inl (Exn c m)"

definition bindE :: "'a result \<Rightarrow> ('a \<Rightarrow> 'b result) \<Rightarrow> 'b result" where
  "bindE m f = (case m of Inl e \<Rightarrow> Inl e | Inr x \<Rightarrow> f x)"

text \<open>\<open>try: m except c: raise c' msg\<close>.\<close>

definition reraise :: "exn_class \<Rightarrow> exn_class \<Rightarrow> string \<Rightarrow> 'a result \<Rightarrow> 'a result" where
  "reraise c c' msg m =
     (case m of Inl e \<Rightarrow> (if exn_cls e = c then raise c' msg else Inl e) | Inr x \<Rightarrow> Inr x)"

definition is_ok :: "'a result \<Rightarrow> bool" where
  "is_ok m = (case m of Inl _ \<Rightarrow> False | Inr _ \<Rightarrow> True)"

lemma bindE_simps [simp]: "bindE (Inl e) f = Inl e" "bindE (Inr x) f = f x"
  by (simp_all add: bindE_def)

lemma bindE_eq_Inr: "bindE m f = Inr y \<longleftrightarrow> (\<exists>x. m = Inr x \<and> f x = Inr y)"
  by (cases m) simp_all

lemma bindE_eq_InrE [elim!]:
  assumes "bindE m f = Inr y"
  obtains x where "m = Inr x" "f x = Inr y"
  using assms by (auto simp: bindE_eq_Inr)

lemma bindE_eq_Inl:
  "bindE m f = Inl e \<longleftrightarrow> m = Inl e \<or> (\<exists>x. m = Inr x \<and> f x = Inl e)"
  by (cases m) simp_all

lemma reraise_simps [simp]:
  "reraise c c' msg (Inr x) = Inr x"
  "reraise c c' msg (raise c m) = raise c' msg"
  by (simp_all add: reraise_def)

lemma reraise_eq_Inr [simp]: "reraise c c' msg m = Inr x \<longleftrightarrow> m = Inr x"
  by (cases m) (auto simp: reraise_def)

lemma is_ok_simps [simp]: "is_ok (Inl e) = False" "is_ok (Inr x) = True"
  by (simp_all add: is_ok_def)

lemma is_ok_iff: "is_ok m \<longleftrightarrow> (\<exists>x. m = Inr x)"
  by (cases m) auto

text \<open>\<open>m\<close> raises nothing but exceptions of class \<open>c\<close>.\<close>

definition errs :: "exn_class \<Rightarrow> 'a result \<Rightarrow> bool" where
  "errs c m \<longleftrightarrow> (\<forall>e. m = Inl e \<longrightarrow> exn_cls e = c)"

named_theorems errs_intros \<open>which exceptions a call raises\<close>

lemma errs_simps [simp]: "errs c (Inr x)" "errs c (raise d m) \<longleftrightarrow> c = d"
  by (auto simp: errs_def)

lemma errs_rules [errs_intros]:
  "errs c (Inr x)" "errs c (raise c msg)"
  "errs c m \<Longrightarrow> (\<And>x. m = Inr x \<Longrightarrow> errs c (f x)) \<Longrightarrow> errs c (bindE m f)"
  "errs c k \<Longrightarrow> errs d (reraise c d msg k)"
  "(b \<Longrightarrow> errs c m) \<Longrightarrow> (\<not> b \<Longrightarrow> errs c m') \<Longrightarrow> errs c (if b then m else m')"
  by (auto simp: errs_def bindE_eq_Inl reraise_def split: sum.splits)

lemma errs_option [errs_intros]:
  "(x = None \<Longrightarrow> errs c a) \<Longrightarrow> (\<And>y. x = Some y \<Longrightarrow> errs c (b y)) \<Longrightarrow> errs c (case x of None \<Rightarrow> a | Some y \<Rightarrow> b y)"
  by (cases x) auto

lemma errs_prod [errs_intros]:
  "(\<And>y z. x = (y, z) \<Longrightarrow> errs c (b y z)) \<Longrightarrow> errs c (case x of (y, z) \<Rightarrow> b y z)"
  by (cases x) auto

lemma errs_let [errs_intros]: "(\<And>y. y = x \<Longrightarrow> errs c (f y)) \<Longrightarrow> errs c (Let x f)"
  by simp

text \<open>A Python loop that validates each item and stops at the first that raises.\<close>

fun mapE :: "('a \<Rightarrow> 'b result) \<Rightarrow> 'a list \<Rightarrow> 'b list result" where
  "mapE f [] = Inr []"
| "mapE f (x # xs) = bindE (f x) (\<lambda>y. bindE (mapE f xs) (\<lambda>ys. Inr (y # ys)))"

lemma mapE_eq_Inr: "mapE f xs = Inr ys \<longleftrightarrow> list_all2 (\<lambda>x y. f x = Inr y) xs ys"
proof (induction xs arbitrary: ys)
  case Nil
  then show ?case by auto
next
  case (Cons x xs)
  then show ?case by (cases ys) (auto simp: bindE_eq_Inr)
qed

lemma mapE_map_Inr: "(\<And>x. x \<in> set xs \<Longrightarrow> f (g x) = Inr (h x)) \<Longrightarrow> mapE f (map g xs) = Inr (map h xs)"
  by (induction xs) auto

lemma mapE_length: "mapE f xs = Inr ys \<Longrightarrow> length ys = length xs"
  by (auto simp: mapE_eq_Inr dest: list_all2_lengthD)

lemma errs_mapE [errs_intros]: "(\<And>x. errs c (f x)) \<Longrightarrow> errs c (mapE f xs)"
  by (induction xs) (auto intro: errs_intros)

section \<open>Strings\<close>

definition sp_chars :: "char list" where
  "sp_chars = [CHR 0x09, CHR 0x0A, CHR 0x0B, CHR 0x0C, CHR 0x0D, CHR 0x1C, CHR 0x1D, CHR 0x1E,
     CHR 0x1F, CHR 0x20]"

text \<open>\<open>str.isspace\<close> on one ASCII character, and \<open>str.strip\<close>.\<close>

definition is_space :: "char \<Rightarrow> bool" where
  "is_space c = List.member sp_chars c"

definition strip :: "string \<Rightarrow> string" where
  "strip s = rev (dropWhile is_space (rev (dropWhile is_space s)))"

definition rstrip_ch :: "char \<Rightarrow> string \<Rightarrow> string" where
  "rstrip_ch c s = rev (dropWhile (\<lambda>x. x = c) (rev s))"

definition strip_ch :: "char \<Rightarrow> string \<Rightarrow> string" where
  "strip_ch c s = rstrip_ch c (dropWhile (\<lambda>x. x = c) s)"

definition startswith :: "string \<Rightarrow> string \<Rightarrow> bool" where
  "startswith s p = prefix p s"

definition replace_ch :: "char \<Rightarrow> char \<Rightarrow> string \<Rightarrow> string" where
  "replace_ch a b s = map (\<lambda>c. if c = a then b else c) s"

fun split_ch :: "char \<Rightarrow> string \<Rightarrow> string list" where
  "split_ch sep [] = [[]]"
| "split_ch sep (c # cs) =
     (if c = sep then [] # split_ch sep cs
      else (case split_ch sep cs of [] \<Rightarrow> [[c]] | w # ws \<Rightarrow> (c # w) # ws))"

fun join_ch :: "char \<Rightarrow> string list \<Rightarrow> string" where
  "join_ch sep [] = []"
| "join_ch sep [w] = w"
| "join_ch sep (w # ws) = w @ sep # join_ch sep ws"

definition lower_char :: "char \<Rightarrow> char" where
  "lower_char c = (if 65 \<le> (of_char c :: nat) \<and> (of_char c :: nat) \<le> 90
                   then char_of ((of_char c :: nat) + 32) else c)"

definition upper_char :: "char \<Rightarrow> char" where
  "upper_char c = (if 97 \<le> (of_char c :: nat) \<and> (of_char c :: nat) \<le> 122
                   then char_of ((of_char c :: nat) - 32) else c)"

definition lower :: "string \<Rightarrow> string" where
  "lower = map lower_char"

definition upper :: "string \<Rightarrow> string" where
  "upper = map upper_char"

definition is_control :: "char \<Rightarrow> bool" where
  "is_control c = ((of_char c :: nat) < 32 \<or> (of_char c :: nat) = 127)"

definition has_control :: "string \<Rightarrow> bool" where
  "has_control s = list_ex is_control s"

definition is_digit :: "char \<Rightarrow> bool" where
  "is_digit c = (48 \<le> (of_char c :: nat) \<and> (of_char c :: nat) \<le> 57)"

definition is_lower_hex :: "char \<Rightarrow> bool" where
  "is_lower_hex c = (is_digit c \<or> 97 \<le> (of_char c :: nat) \<and> (of_char c :: nat) \<le> 102)"

definition is_alpha :: "char \<Rightarrow> bool" where
  "is_alpha c = (65 \<le> (of_char c :: nat) \<and> (of_char c :: nat) \<le> 90
                 \<or> 97 \<le> (of_char c :: nat) \<and> (of_char c :: nat) \<le> 122)"

text \<open>
  \<open>re.compile("^...$").match(s)\<close>: without \<open>re.MULTILINE\<close> the \<open>$\<close> of Python also
  matches just before a newline that ends the string, so a string that matches
  stays matched with one newline appended.
\<close>

definition chomp :: "string \<Rightarrow> string" where
  "chomp s = (if s \<noteq> [] \<and> last s = CHR 0x0A then butlast s else s)"

definition re_match :: "(string \<Rightarrow> bool) \<Rightarrow> string \<Rightarrow> bool" where
  "re_match body s = (body s \<or> body (chomp s))"

definition safe_label_char :: "char \<Rightarrow> bool" where
  "safe_label_char c = (is_alpha c \<or> is_digit c \<or> c = CHR ''_'' \<or> c = CHR ''.'' \<or> c = CHR ''-'')"

definition safe_label_body :: "string \<Rightarrow> bool" where
  "safe_label_body s = (s \<noteq> [] \<and> list_all safe_label_char s)"

definition hex64_body :: "string \<Rightarrow> bool" where
  "hex64_body s = (length s = 64 \<and> list_all is_lower_hex s)"

definition sha256_prefix :: string where
  "sha256_prefix = ''sha256:''"

definition digest_body :: "string \<Rightarrow> bool" where
  "digest_body s = (take 7 s = sha256_prefix \<and> hex64_body (drop 7 s))"

lemma replace_ch_idem: "replace_ch a b (replace_ch a b s) = replace_ch a b s"
  by (auto simp: replace_ch_def)

lemma replace_ch_not_in: "a \<noteq> b \<Longrightarrow> a \<notin> set (replace_ch a b s)"
  by (auto simp: replace_ch_def)

lemma replace_ch_absent: "a \<notin> set s \<Longrightarrow> replace_ch a b s = s"
  by (induction s) (auto simp: replace_ch_def)

lemma split_ch_ne [simp]: "split_ch c s \<noteq> []"
  by (cases s) (auto split: list.splits)

lemma split_ch_no_sep: "w \<in> set (split_ch c s) \<Longrightarrow> c \<notin> set w"
proof (induction s arbitrary: w)
  case Nil
  then show ?case by simp
next
  case (Cons x s)
  then show ?case by (cases "split_ch c s") (auto split: if_splits)
qed

lemma split_ch_absent: "c \<notin> set s \<Longrightarrow> split_ch c s = [s]"
  by (induction s) auto

lemma split_ch_append_sep: "c \<notin> set w \<Longrightarrow> split_ch c (w @ c # s) = w # split_ch c s"
  by (induction w) auto

lemma join_ch_Cons: "ws \<noteq> [] \<Longrightarrow> join_ch c (w # ws) = w @ c # join_ch c ws"
  by (cases ws) auto

lemma join_split_ch [simp]: "join_ch c (split_ch c s) = s"
proof (induction s)
  case Nil
  then show ?case by simp
next
  case (Cons x s)
  obtain w ws where eq: "split_ch c s = w # ws" by (cases "split_ch c s") auto
  show ?case
  proof (cases "x = c")
    case True
    with Cons show ?thesis by (simp add: join_ch_Cons)
  next
    case False
    with Cons eq show ?thesis by (cases ws) auto
  qed
qed

lemma split_join_ch: "ws \<noteq> [] \<Longrightarrow> (\<And>w. w \<in> set ws \<Longrightarrow> c \<notin> set w) \<Longrightarrow> split_ch c (join_ch c ws) = ws"
proof (induction ws)
  case Nil
  then show ?case by simp
next
  case (Cons w ws)
  then show ?case
    by (cases ws) (auto simp: split_ch_absent split_ch_append_sep)
qed

lemma split_ch_inj: "split_ch c s = split_ch c t \<Longrightarrow> s = t"
  by (metis join_split_ch)

lemma startswith_iff: "startswith s p \<longleftrightarrow> (\<exists>t. s = p @ t)"
  by (simp add: startswith_def prefix_def)

lemma startswith_refl [simp]: "startswith s s"
  by (simp add: startswith_def)

lemma rstrip_ch_snoc [simp]: "rstrip_ch c (s @ [x]) = (if x = c then rstrip_ch c s else s @ [x])"
  by (simp add: rstrip_ch_def)

lemma rstrip_ch_Nil [simp]: "rstrip_ch c [] = []"
  by (simp add: rstrip_ch_def)

lemma rstrip_ch_id: "s = [] \<or> last s \<noteq> c \<Longrightarrow> rstrip_ch c s = s"
  by (cases s rule: rev_cases) auto

lemma chomp_id: "s = [] \<or> last s \<noteq> CHR 0x0A \<Longrightarrow> chomp s = s"
  by (auto simp: chomp_def)

lemma re_match_bodyI: "body s \<Longrightarrow> re_match body s"
  by (simp add: re_match_def)

lemma strip_Nil [simp]: "strip [] = []"
  by (simp add: strip_def)

lemma strip_id_iff:
  "strip s = s \<longleftrightarrow> s = [] \<or> (\<not> is_space (hd s) \<and> \<not> is_space (last s))"
proof (cases "s = []")
  case False
  show ?thesis
  proof
    assume eq: "strip s = s"
    have len: "length (dropWhile is_space s) \<le> length s" by (rule length_dropWhile_le)
    have "length (strip s) \<le> length (dropWhile is_space s)"
      by (metis length_dropWhile_le length_rev strip_def)
    with eq len have "length (dropWhile is_space s) = length s" by simp
    moreover have tw: "takeWhile is_space s @ dropWhile is_space s = s" by simp
    then have "length (takeWhile is_space s) + length (dropWhile is_space s) = length s"
      by (metis length_append)
    ultimately have "takeWhile is_space s = []" by simp
    with tw have d: "dropWhile is_space s = s" by simp
    with eq have "rev (dropWhile is_space (rev s)) = s" by (simp add: strip_def)
    then have r: "dropWhile is_space (rev s) = rev s" by (metis rev_rev_ident)
    from d False have "\<not> is_space (hd s)" by (metis hd_dropWhile)
    moreover from r False have "\<not> is_space (last s)"
      by (metis hd_dropWhile hd_rev rev_is_Nil_conv)
    ultimately show "s = [] \<or> (\<not> is_space (hd s) \<and> \<not> is_space (last s))" by simp
  next
    assume "s = [] \<or> (\<not> is_space (hd s) \<and> \<not> is_space (last s))"
    with False have "dropWhile is_space s = s" "dropWhile is_space (rev s) = rev s"
      by (auto simp: dropWhile_eq_self_iff hd_rev)
    then show "strip s = s" by (simp add: strip_def)
  qed
qed simp

lemma strip_ne: "\<exists>c \<in> set s. \<not> is_space c \<Longrightarrow> strip s \<noteq> []"
proof -
  assume "\<exists>c \<in> set s. \<not> is_space c"
  then obtain c where c: "c \<in> set s" "\<not> is_space c" by blast
  let ?d = "dropWhile is_space s"
  have ne: "?d \<noteq> []" using c by (simp add: dropWhile_eq_Nil_conv) blast
  then have "\<not> is_space (hd ?d)" by (rule hd_dropWhile)
  moreover have "hd ?d \<in> set (rev ?d)" using ne by simp
  ultimately have "dropWhile is_space (rev ?d) \<noteq> []" by (simp only: dropWhile_eq_Nil_conv) blast
  then show ?thesis by (simp add: strip_def)
qed

lemma strip_strip_ne: "strip s \<noteq> [] \<Longrightarrow> strip (strip s) \<noteq> []"
proof (rule strip_ne)
  assume ne: "strip s \<noteq> []"
  let ?d = "dropWhile is_space (rev (dropWhile is_space s))"
  from ne have d: "?d \<noteq> []" by (simp add: strip_def)
  then have "\<not> is_space (hd ?d)" by (rule hd_dropWhile)
  moreover from d have "hd ?d \<in> set (strip s)" by (simp add: strip_def)
  ultimately show "\<exists>c \<in> set (strip s). \<not> is_space c" by blast
qed

section \<open>Paths\<close>

text \<open>\<open>str(Path(s))\<close> and \<open>Path(a) / b\<close> of \<open>pathlib\<close>.\<close>

definition path_root :: "string \<Rightarrow> string" where
  "path_root s = (if startswith s ''//'' \<and> \<not> startswith s ''///'' then ''//''
                  else if startswith s ''/'' then ''/'' else [])"

definition path_parts :: "string \<Rightarrow> string list" where
  "path_parts s = filter (\<lambda>w. w \<noteq> [] \<and> w \<noteq> ''.'') (split_ch (CHR ''/'') s)"

definition path_of :: "string \<Rightarrow> string list \<Rightarrow> string" where
  "path_of root parts = (if root = [] \<and> parts = [] then ''.'' else root @ join_ch (CHR ''/'') parts)"

definition path_str :: "string \<Rightarrow> string" where
  "path_str s = path_of (path_root s) (path_parts s)"

definition path_join :: "string \<Rightarrow> string \<Rightarrow> string" where
  "path_join a b = (if path_root b \<noteq> [] then path_str b else path_of (path_root a) (path_parts a @ path_parts b))"

section \<open>Tables\<close>

text \<open>
  A table is the list of its rows in rowid order. \<open>SELECT * ... WHERE p\<close> with
  \<open>fetchone\<close> is \<^const>\<open>find\<close>, \<open>fetchall\<close> is \<^const>\<open>filter\<close>, \<open>UPDATE ... WHERE p\<close>
  is \<open>update_where\<close>, and its \<open>rowcount\<close> the number of rows that satisfy \<open>p\<close>.
\<close>

definition update_where :: "('r \<Rightarrow> bool) \<Rightarrow> ('r \<Rightarrow> 'r) \<Rightarrow> 'r list \<Rightarrow> 'r list" where
  "update_where p f rows = map (\<lambda>r. if p r then f r else r) rows"

definition rowcount :: "('r \<Rightarrow> bool) \<Rightarrow> 'r list \<Rightarrow> nat" where
  "rowcount p rows = length (filter p rows)"

lemma set_update_where: "set (update_where p f rows) = (\<lambda>r. if p r then f r else r) ` set rows"
  by (simp add: update_where_def)

lemma length_update_where [simp]: "length (update_where p f rows) = length rows"
  by (simp add: update_where_def)

lemma update_where_none: "(\<And>r. r \<in> set rows \<Longrightarrow> \<not> p r) \<Longrightarrow> update_where p f rows = rows"
  by (induction rows) (auto simp: update_where_def)

lemma update_where_False [simp]: "update_where (\<lambda>r. False) f rows = rows"
  by (simp add: update_where_def)

lemma map_update_where:
  "(\<And>r. r \<in> set rows \<Longrightarrow> p r \<Longrightarrow> g (f r) = g r) \<Longrightarrow> map g (update_where p f rows) = map g rows"
  by (auto simp: update_where_def)

lemma rowcount_0_iff: "rowcount p rows = 0 \<longleftrightarrow> (\<forall>r \<in> set rows. \<not> p r)"
  by (simp add: rowcount_def filter_empty_conv)

lemma find_Some_in: "find p rows = Some r \<Longrightarrow> r \<in> set rows \<and> p r"
  by (auto simp: find_Some_iff)

lemma find_None_notin: "find p rows = None \<longleftrightarrow> (\<forall>r \<in> set rows. \<not> p r)"
  by (induction rows) auto

lemma find_append: "find p (xs @ ys) = (case find p xs of None \<Rightarrow> find p ys | Some r \<Rightarrow> Some r)"
  by (induction xs) auto

text \<open>Under a primary key, \<open>WHERE key = k\<close> finds the one row that has it.\<close>

lemma find_key_iff:
  assumes "distinct (map key rows)"
  shows "find (\<lambda>r. key r = k) rows = Some r \<longleftrightarrow> r \<in> set rows \<and> key r = k"
proof
  assume "find (\<lambda>r. key r = k) rows = Some r"
  then show "r \<in> set rows \<and> key r = k" by (rule find_Some_in)
next
  assume r: "r \<in> set rows \<and> key r = k"
  then have "find (\<lambda>r. key r = k) rows \<noteq> None" by (auto simp: find_None_notin)
  then obtain r' where r': "find (\<lambda>r. key r = k) rows = Some r'" by auto
  then have "r' \<in> set rows" "key r' = k" by (auto dest: find_Some_in)
  with r assms have "r' = r" by (auto simp: distinct_map inj_on_def)
  with r' show "find (\<lambda>r. key r = k) rows = Some r" by simp
qed

lemma find_update_where_key:
  assumes "\<And>r. key (f r) = key r"
  shows "find (\<lambda>r. key r = k) (update_where (\<lambda>r. key r = k') f rows) =
     (if k = k' then map_option f (find (\<lambda>r. key r = k) rows) else find (\<lambda>r. key r = k) rows)"
  by (induction rows) (auto simp: update_where_def assms)

lemma distinct_keys_append: "distinct (map key rows) \<Longrightarrow> find (\<lambda>r. key r = key x) rows = None
    \<Longrightarrow> distinct (map key (rows @ [x]))"
  by (auto simp: find_None_notin)

lemma length_filter_update_le:
  assumes "\<And>x. x \<in> set xs \<Longrightarrow> P (if q x then f x else x) \<Longrightarrow> Q x"
  shows "length (filter P (update_where q f xs)) \<le> length (filter Q xs)"
  using assms by (induction xs) (auto simp: update_where_def)

lemma in_update_where: "y \<in> set (update_where p f xs) \<longleftrightarrow> (\<exists>x \<in> set xs. y = (if p x then f x else x))"
  by (auto simp: set_update_where)

section \<open>Contracts shared by the components\<close>

text \<open>
  A transition system with an invariant: what holds at the start and is kept by every step
  holds in every reachable state.
\<close>

locale invariant_system =
  fixes start :: "'s \<Rightarrow> bool"
    and step :: "'s \<Rightarrow> 's \<Rightarrow> bool"
    and inv :: "'s \<Rightarrow> bool"
  assumes inv_start: "start s \<Longrightarrow> inv s"
    and inv_step: "inv s \<Longrightarrow> step s s' \<Longrightarrow> inv s'"
begin

lemma inv_run: "step\<^sup>*\<^sup>* s s' \<Longrightarrow> inv s \<Longrightarrow> inv s'"
  by (induction rule: rtranclp_induct) (auto intro: inv_step)

lemma inv_reachable: "start s \<Longrightarrow> step\<^sup>*\<^sup>* s s' \<Longrightarrow> inv s'"
  by (rule inv_run) (auto intro: inv_start)

text \<open>What the steps keep from invariant states on, they keep along a run.\<close>

lemma run_keeps:
  assumes "step\<^sup>*\<^sup>* s s'" "inv s" "P s" "\<And>a b. inv a \<Longrightarrow> P a \<Longrightarrow> step a b \<Longrightarrow> P b"
  shows "P s'"
proof -
  have "inv s' \<and> P s'" using assms(1)
    by (induction rule: rtranclp_induct) (use assms inv_step in blast)+
  then show ?thesis ..
qed

end

text \<open>Such a system that refines a specification: each step is a step of it, seen through \<open>abs\<close>.\<close>

locale refined_system = invariant_system start step inv
  for start :: "'s \<Rightarrow> bool" and step :: "'s \<Rightarrow> 's \<Rightarrow> bool" and inv :: "'s \<Rightarrow> bool" +
  fixes abs_state :: "'s \<Rightarrow> 'a"
    and abs_step :: "'a \<Rightarrow> 'a \<Rightarrow> bool"
  assumes simulates: "inv s \<Longrightarrow> step s s' \<Longrightarrow> abs_step (abs_state s) (abs_state s')"
begin

lemma run_simulates:
  assumes "step\<^sup>*\<^sup>* s s'" "inv s"
  shows "abs_step\<^sup>*\<^sup>* (abs_state s) (abs_state s')"
  using assms by (induction rule: rtranclp_induct) (auto intro: rtranclp.rtrancl_into_rtrancl simulates inv_run)

end

text \<open>
  A register whose entries carry a version: a step leaves the entry of a key as it is or
  replaces it by one of a higher version, so a version stands for one entry for ever.
\<close>

locale versioned_register =
  fixes current :: "'s \<Rightarrow> 'k \<Rightarrow> 'v option"
    and version :: "'v \<Rightarrow> int"
    and step :: "'s \<Rightarrow> 's \<Rightarrow> bool"
  assumes step_current: "step s s' \<Longrightarrow> current s k = Some v \<Longrightarrow>
    \<exists>v'. current s' k = Some v' \<and> (v' = v \<or> version v < version v')"
begin

lemma run_current:
  assumes "step\<^sup>*\<^sup>* s s'" "current s k = Some v"
  shows "\<exists>v'. current s' k = Some v' \<and> (v' = v \<or> version v < version v')"
  using assms
proof (induction rule: rtranclp_induct)
  case (step s1 s2)
  then obtain v1 where v1: "current s1 k = Some v1" "v1 = v \<or> version v < version v1" by blast
  from step_current [OF step.hyps(2) v1(1)] v1(2) show ?case by fastforce
qed simp

lemma same_version:
  assumes "step\<^sup>*\<^sup>* s s'" "current s k = Some v" "current s' k = Some v'" "version v' \<le> version v"
  shows "v' = v"
  using run_current [OF assms(1,2)] assms(3,4) by fastforce

end

text \<open>
  A canonical codec: \<open>decode\<close> accepts what \<open>encode\<close> writes for well-formed values and
  gives the value back, so the encoding is injective on them.
\<close>

locale codec =
  fixes wf :: "'a \<Rightarrow> bool" and encode :: "'a \<Rightarrow> 'b" and decode :: "'b \<Rightarrow> 'a result"
  assumes decode_encode: "wf x \<Longrightarrow> decode (encode x) = Inr x"
begin

lemma encode_inj: "wf x \<Longrightarrow> wf y \<Longrightarrow> encode x = encode y \<Longrightarrow> x = y"
  by (metis decode_encode sum.inject(2))

lemma encode_accepted: "wf x \<Longrightarrow> is_ok (decode (encode x))"
  by (simp add: decode_encode)

end

text \<open>
  A ledger written under idempotency keys: the first write of a key inserts a row and says
  so, any later successful write of the same key returns that row and changes nothing.
\<close>

locale keyed_ledger =
  fixes good_key :: "'k \<Rightarrow> bool"
    and lookup :: "'s \<Rightarrow> 'k \<Rightarrow> 'r option"
    and put :: "'k \<Rightarrow> 'a \<Rightarrow> 's \<Rightarrow> (('r \<times> bool) \<times> 's) result"
  assumes put_present: "good_key k \<Longrightarrow> lookup s k = Some r \<Longrightarrow> put k a s = Inr y \<Longrightarrow> y = ((r, False), s)"
    and put_absent: "good_key k \<Longrightarrow> lookup s k = None \<Longrightarrow> put k a s = Inr ((r, c), s') \<Longrightarrow>
      c \<and> lookup s' k = Some r \<and> (\<forall>k'. k' \<noteq> k \<longrightarrow> lookup s' k' = lookup s k')"
begin

lemma put_lookup: "good_key k \<Longrightarrow> put k a s = Inr ((r, c), s') \<Longrightarrow> lookup s' k = Some r"
  by (cases "lookup s k") (auto dest: put_present put_absent)

lemma put_created_iff: "good_key k \<Longrightarrow> put k a s = Inr ((r, c), s') \<Longrightarrow> c \<longleftrightarrow> lookup s k = None"
  by (cases "lookup s k") (auto dest: put_present put_absent)

lemma put_keeps: "good_key k \<Longrightarrow> put k a s = Inr ((r, c), s') \<Longrightarrow> lookup s k' = Some r' \<Longrightarrow> lookup s' k' = Some r'"
  using put_present [of k s _ a] put_absent [of k s a r c s'] by (cases "lookup s k"; cases "k' = k") auto

lemma put_again:
  assumes "good_key k" "put k a s = Inr ((r, c), s')" "put k b s' = Inr y"
  shows "y = ((r, False), s')"
  by (rule put_present [OF assms(1) put_lookup [OF assms(1,2)] assms(3)])

end

end
