(* ===== verification/PyValues.thy ===== *)
theory PyValues
  imports Prelude
begin

text \<open>
  The dynamically typed values that the program's validators receive (\<open>Any\<close>, decoded
  JSON), Python's equality and truth on them, and the canonical JSON
  (\<open>json.dumps(v, ensure_ascii=False, sort_keys=True, separators=(",", ":"))\<close>) over
  which every digest of the program is computed. A dict is its list of entries in
  insertion order; a repeated key is shadowed by its first entry.
\<close>

section \<open>Values\<close>

text \<open>A float occurs only as a value that is not an integer; it is kept as its \<open>repr\<close>.\<close>

datatype pyval =
    PyNone
  | PyBool bool
  | PyInt int
  | PyFloat string
  | PyStr string
  | PyList "pyval list"
  | PyDict "(string \<times> pyval) list"

definition dget :: "(string \<times> pyval) list \<Rightarrow> string \<Rightarrow> pyval" where
  "dget d k = (case map_of d k of None \<Rightarrow> PyNone | Some v \<Rightarrow> v)"

definition dkeys :: "(string \<times> pyval) list \<Rightarrow> string set" where
  "dkeys d = fst ` set d"

text \<open>\<open>d[k] = v\<close> keeps the position of a key that is present.\<close>

fun dset :: "string \<Rightarrow> pyval \<Rightarrow> (string \<times> pyval) list \<Rightarrow> (string \<times> pyval) list" where
  "dset k v [] = [(k, v)]"
| "dset k v ((k', w) # d) = (if k' = k then (k', v) # d else (k', w) # dset k v d)"

definition dpop :: "string \<Rightarrow> (string \<times> pyval) list \<Rightarrow> (string \<times> pyval) list" where
  "dpop k d = filter (\<lambda>(k', w). k' \<noteq> k) d"

definition dupdate :: "(string \<times> pyval) list \<Rightarrow> (string \<times> pyval) list \<Rightarrow> (string \<times> pyval) list" where
  "dupdate d e = foldl (\<lambda>acc (k, v). dset k v acc) d e"

fun truthy :: "pyval \<Rightarrow> bool" where
  "truthy PyNone = False"
| "truthy (PyBool b) = b"
| "truthy (PyInt i) = (i \<noteq> 0)"
| "truthy (PyFloat r) = (r \<noteq> ''0.0'' \<and> r \<noteq> ''-0.0'')"
| "truthy (PyStr s) = (s \<noteq> [])"
| "truthy (PyList xs) = (xs \<noteq> [])"
| "truthy (PyDict d) = (d \<noteq> [])"

text \<open>\<open>a or b\<close>.\<close>

definition por :: "pyval \<Rightarrow> pyval \<Rightarrow> pyval" where
  "por a b = (if truthy a then a else b)"

fun opt_str :: "string option \<Rightarrow> pyval" where
  "opt_str None = PyNone"
| "opt_str (Some s) = PyStr s"

fun opt_int :: "int option \<Rightarrow> pyval" where
  "opt_int None = PyNone"
| "opt_int (Some i) = PyInt i"

text \<open>\<open>isinstance(v, int) and not isinstance(v, bool)\<close>.\<close>

fun as_int :: "pyval \<Rightarrow> int option" where
  "as_int (PyInt i) = Some i"
| "as_int _ = None"

fun as_str :: "pyval \<Rightarrow> string option" where
  "as_str (PyStr s) = Some s"
| "as_str _ = None"

fun as_list :: "pyval \<Rightarrow> pyval list option" where
  "as_list (PyList xs) = Some xs"
| "as_list _ = None"

fun as_dict :: "pyval \<Rightarrow> (string \<times> pyval) list option" where
  "as_dict (PyDict d) = Some d"
| "as_dict _ = None"

lemma as_int_Some [simp]: "as_int v = Some i \<longleftrightarrow> v = PyInt i"
  by (cases v) auto

lemma as_str_Some [simp]: "as_str v = Some s \<longleftrightarrow> v = PyStr s"
  by (cases v) auto

lemma as_list_Some [simp]: "as_list v = Some xs \<longleftrightarrow> v = PyList xs"
  by (cases v) auto

lemma as_dict_Some [simp]: "as_dict v = Some d \<longleftrightarrow> v = PyDict d"
  by (cases v) auto

lemma opt_str_inj [simp]: "opt_str a = opt_str b \<longleftrightarrow> a = b"
  by (cases a; cases b) auto

lemma opt_int_inj [simp]: "opt_int a = opt_int b \<longleftrightarrow> a = b"
  by (cases a; cases b) auto

lemma opt_str_eq_simps [simp]:
  "opt_str a = PyNone \<longleftrightarrow> a = None" "PyNone = opt_str a \<longleftrightarrow> a = None"
  "opt_str a = PyStr s \<longleftrightarrow> a = Some s" "PyStr s = opt_str a \<longleftrightarrow> a = Some s"
  by (cases a; auto)+

lemma dget_Cons [simp]: "dget ((k, v) # d) k' = (if k = k' then v else dget d k')"
  by (simp add: dget_def)

lemma dget_Nil [simp]: "dget [] k = PyNone"
  by (simp add: dget_def)

lemma dget_dset: "dget (dset k v d) k' = (if k = k' then v else dget d k')"
  by (induction d) (auto simp: dget_def)

lemma dkeys_Cons [simp]: "dkeys ((k, v) # d) = insert k (dkeys d)" "dkeys [] = {}"
  by (simp_all add: dkeys_def)

lemma dkeys_dset: "dkeys (dset k v d) = insert k (dkeys d)"
  by (induction k v d rule: dset.induct) auto

lemma dget_dpop: "dget (dpop k d) k' = (if k = k' then PyNone else dget d k')"
  by (induction d) (auto simp: dpop_def dget_def)

lemma dkeys_dpop: "dkeys (dpop k d) = dkeys d - {k}"
  by (auto simp: dpop_def dkeys_def image_iff)

section \<open>Canonical JSON\<close>

definition hex_digit :: "nat \<Rightarrow> char" where
  "hex_digit n = (if n < 10 then char_of (48 + n) else char_of (87 + n))"

text \<open>\<open>ESCAPE_DCT\<close> and \<open>\u00XX\<close> for the other control characters below 0x20.\<close>

definition json_esc :: "char \<Rightarrow> string" where
  "json_esc c =
     (if c = CHR 0x5C then [CHR 0x5C, CHR 0x5C]
      else if c = CHR 0x22 then [CHR 0x5C, CHR 0x22]
      else if c = CHR 0x08 then [CHR 0x5C, CHR ''b'']
      else if c = CHR 0x0C then [CHR 0x5C, CHR ''f'']
      else if c = CHR 0x0A then [CHR 0x5C, CHR ''n'']
      else if c = CHR 0x0D then [CHR 0x5C, CHR ''r'']
      else if c = CHR 0x09 then [CHR 0x5C, CHR ''t'']
      else if (of_char c :: nat) < 32 then
        [CHR 0x5C, CHR ''u'', CHR ''0'', CHR ''0'',
         hex_digit ((of_char c :: nat) div 16), hex_digit ((of_char c :: nat) mod 16)]
      else [c])"

definition json_str :: "string \<Rightarrow> string" where
  "json_str s = CHR 0x22 # concat (map json_esc s) @ [CHR 0x22]"

fun dec_nat :: "nat \<Rightarrow> string" where
  "dec_nat n = (if n < 10 then [char_of (48 + n)] else dec_nat (n div 10) @ [char_of (48 + n mod 10)])"

declare dec_nat.simps [simp del]

definition dec_int :: "int \<Rightarrow> string" where
  "dec_int i = (if i < 0 then CHR ''-'' # dec_nat (nat (- i)) else dec_nat (nat i))"

text \<open>
  \<open>v == n\<close> for a small integer constant: \<open>True == 1\<close> and \<open>1.0 == 1\<close> in Python.
\<close>

fun eq_int :: "pyval \<Rightarrow> int \<Rightarrow> bool" where
  "eq_int (PyInt i) n = (i = n)"
| "eq_int (PyBool b) n = ((if b then 1 else 0) = n)"
| "eq_int (PyFloat r) n = (r = dec_int n @ ''.0'' \<or> n = 0 \<and> r = ''-0.0'')"
| "eq_int _ n = False"

fun commas :: "string list \<Rightarrow> string" where
  "commas [] = []"
| "commas [w] = w"
| "commas (w # ws) = w @ CHR '','' # commas ws"

fun json :: "pyval \<Rightarrow> string" where
  "json PyNone = ''null''"
| "json (PyBool b) = (if b then ''true'' else ''false'')"
| "json (PyInt i) = dec_int i"
| "json (PyFloat r) = r"
| "json (PyStr s) = json_str s"
| "json (PyList xs) = CHR ''['' # commas (map json xs) @ '']''"
| "json (PyDict d) = CHR 0x7B #
     commas (map (\<lambda>(k, v). json_str k @ CHR '':'' # v)
       (sort_key fst (map (\<lambda>(k, v). (k, json v)) d))) @ [CHR 0x7D]"

text \<open>
  \<open>hashlib.sha256(s.encode("utf-8")).hexdigest()\<close> is the parameter \<open>H\<close> of the
  definitions that use it; what they rely on is its shape.
\<close>

definition hexdigest_shape :: "(string \<Rightarrow> string) \<Rightarrow> bool" where
  "hexdigest_shape H = (\<forall>s. hex64_body (H s))"

definition digest_of :: "(string \<Rightarrow> string) \<Rightarrow> pyval \<Rightarrow> string" where
  "digest_of H v = sha256_prefix @ H (json v)"

lemma digest_of_shape: "hexdigest_shape H \<Longrightarrow> re_match digest_body (digest_of H v)"
  by (rule re_match_bodyI) (simp add: digest_of_def digest_body_def hexdigest_shape_def sha256_prefix_def)

lemma hexdigest_shape_const: "hexdigest_shape (\<lambda>_. replicate 64 (CHR ''0''))"
  by (simp add: hexdigest_shape_def hex64_body_def is_lower_hex_def is_digit_def list_all_iff)

section \<open>JSON strings are uniquely readable\<close>

lemma hex_digit_inj: "m < 16 \<Longrightarrow> n < 16 \<Longrightarrow> hex_digit m = hex_digit n \<longleftrightarrow> m = n"
  by (auto simp: hex_digit_def split: if_splits)

lemma json_esc_ne [simp]: "json_esc c \<noteq> []"
  by (simp add: json_esc_def)

lemma json_esc_hd: "hd (json_esc c) \<noteq> CHR 0x22"
  by (simp add: json_esc_def)

lemma json_esc_plain: "hd (json_esc c) \<noteq> CHR 0x5C \<Longrightarrow> json_esc c = [c]"
  by (auto simp: json_esc_def split: if_splits)

lemma of_char_div_mod_inj:
  assumes "(of_char c :: nat) div 16 = of_char d div 16" "(of_char c :: nat) mod 16 = of_char d mod 16"
  shows "c = d"
proof -
  from assms have "(of_char c :: nat) = of_char d" by (metis div_mult_mod_eq)
  then show ?thesis by simp
qed

lemma json_esc_unique: "json_esc c @ x = json_esc d @ y \<Longrightarrow> c = d \<and> x = y"
  by (auto simp: json_esc_def hex_digit_inj intro: of_char_div_mod_inj split: if_splits)

lemma json_chars_unique:
  "concat (map json_esc s) @ CHR 0x22 # x = concat (map json_esc t) @ CHR 0x22 # y \<Longrightarrow> s = t \<and> x = y"
proof (induction s arbitrary: t)
  case Nil
  then show ?case
    by (cases t) (use json_esc_hd json_esc_ne in \<open>auto simp: append_eq_Cons_conv Cons_eq_append_conv, (metis list.sel(1))+\<close>)
next
  case (Cons c s)
  show ?case
  proof (cases t)
    case Nil
    with Cons.prems have "json_esc c @ concat (map json_esc s) @ CHR 0x22 # x = CHR 0x22 # y" by simp
    then have "hd (json_esc c) = CHR 0x22" by (metis hd_append2 json_esc_ne list.sel(1))
    with json_esc_hd show ?thesis by blast
  next
    case (Cons d t')
    with Cons.prems have "json_esc c @ (concat (map json_esc s) @ CHR 0x22 # x) =
        json_esc d @ (concat (map json_esc t') @ CHR 0x22 # y)" by simp
    then have "c = d" and "concat (map json_esc s) @ CHR 0x22 # x = concat (map json_esc t') @ CHR 0x22 # y"
      using json_esc_unique by blast+
    with Cons.IH Cons show ?thesis by blast
  qed
qed

lemma json_str_unique: "json_str s @ x = json_str t @ y \<Longrightarrow> s = t \<and> x = y"
  using json_chars_unique [of s x t y] by (simp add: json_str_def)

lemma json_str_inj [simp]: "json_str s = json_str t \<longleftrightarrow> s = t"
  using json_str_unique [of s "[]" t "[]"] by auto

lemma json_opt_str_unique:
  "json (opt_str a) @ x = json (opt_str b) @ y \<Longrightarrow> a = b \<and> x = y"
proof (cases a; cases b)
  fix s t
  assume "json (opt_str a) @ x = json (opt_str b) @ y" "a = Some s" "b = Some t"
  then show ?thesis by (auto dest: json_str_unique)
qed (auto simp: json_str_def)

lemma json_str_hd: "json_str s @ x \<noteq> CHR '']'' # y"
  by (simp add: json_str_def)

lemma commas_Cons: "ws \<noteq> [] \<Longrightarrow> commas (w # ws) = w @ CHR '','' # commas ws"
  by (cases ws) auto

lemma json_str_commas_unique:
  "commas (map json_str xs) @ CHR '']'' # x = commas (map json_str ys) @ CHR '']'' # y \<Longrightarrow> xs = ys \<and> x = y"
proof (induction xs arbitrary: ys)
  case Nil
  show ?case
  proof (cases ys)
    case (Cons b bs)
    with Nil show ?thesis by (cases bs) (auto simp: json_str_def)
  qed (use Nil in auto)
next
  case (Cons a as)
  show ?case
  proof (cases ys)
    case Nil
    with Cons.prems show ?thesis by (cases as) (auto simp: json_str_def)
  next
    case ys: (Cons b bs)
    show ?thesis
    proof (cases "as = [] \<or> bs = []")
      case True
      with Cons.prems show ?thesis
        by (cases as; cases bs) (auto simp: ys dest!: json_str_unique)
    next
      case False
      with Cons.prems have "json_str a @ (CHR '','' # commas (map json_str as) @ CHR '']'' # x) =
          json_str b @ (CHR '','' # commas (map json_str bs) @ CHR '']'' # y)"
        by (simp add: ys commas_Cons)
      then have "a = b" "commas (map json_str as) @ CHR '']'' # x = commas (map json_str bs) @ CHR '']'' # y"
        using json_str_unique by blast+
      with Cons.IH ys show ?thesis by blast
    qed
  qed
qed

lemma json_str_list_unique:
  "json (PyList (map PyStr xs)) @ x = json (PyList (map PyStr ys)) @ y \<Longrightarrow> xs = ys \<and> x = y"
  using json_str_commas_unique [of xs x ys y] by (simp add: comp_def)

lemmas json_uniques = json_str_unique json_opt_str_unique json_str_list_unique


section \<open>\<open>str\<close> and \<open>repr\<close>\<close>

definition quote_char :: "string \<Rightarrow> char" where
  "quote_char s = (if CHR 0x27 \<in> set s \<and> CHR 0x22 \<notin> set s then CHR 0x22 else CHR 0x27)"

definition repr_char :: "char \<Rightarrow> char \<Rightarrow> string" where
  "repr_char q c =
     (let n = (of_char c :: nat) in
      if c = q \<or> n = 92 then [CHR 0x5C, c]
      else if n = 9 then [CHR 0x5C, CHR ''t'']
      else if n = 10 then [CHR 0x5C, CHR ''n'']
      else if n = 13 then [CHR 0x5C, CHR ''r'']
      else if n < 32 \<or> 127 \<le> n \<and> n \<le> 160 \<or> n = 173 then
        [CHR 0x5C, CHR ''x'', hex_digit (n div 16), hex_digit (n mod 16)]
      else [c])"

definition repr_str :: "string \<Rightarrow> string" where
  "repr_str s = quote_char s # concat (map (repr_char (quote_char s)) s) @ [quote_char s]"

fun comma_spaced :: "string list \<Rightarrow> string" where
  "comma_spaced [] = []"
| "comma_spaced [w] = w"
| "comma_spaced (w # ws) = w @ '', '' @ comma_spaced ws"

fun py_repr :: "pyval \<Rightarrow> string" where
  "py_repr PyNone = ''None''"
| "py_repr (PyBool b) = (if b then ''True'' else ''False'')"
| "py_repr (PyInt i) = dec_int i"
| "py_repr (PyFloat r) = r"
| "py_repr (PyStr s) = repr_str s"
| "py_repr (PyList xs) = CHR ''['' # comma_spaced (map py_repr xs) @ '']''"
| "py_repr (PyDict d) = CHR 0x7B # comma_spaced (map (\<lambda>(k, w). repr_str k @ '': '' @ w)
     (map (\<lambda>(k, v). (k, py_repr v)) d)) @ [CHR 0x7D]"

definition py_str :: "pyval \<Rightarrow> string" where
  "py_str v = (case as_str v of Some s \<Rightarrow> s | None \<Rightarrow> py_repr v)"

lemma py_str_PyStr [simp]: "py_str (PyStr s) = s"
  by (simp add: py_str_def)

section \<open>Iteration and comparison\<close>

text \<open>\<open>d.get(k, v)\<close>, and \<open>for x in v\<close> over a value of any type.\<close>

definition dget_or :: "(string \<times> pyval) list \<Rightarrow> string \<Rightarrow> pyval \<Rightarrow> pyval" where
  "dget_or d k v = (case map_of d k of None \<Rightarrow> v | Some w \<Rightarrow> w)"

fun py_iter :: "pyval \<Rightarrow> pyval list result" where
  "py_iter (PyList xs) = Inr xs"
| "py_iter (PyDict d) = Inr (map (\<lambda>(k, v). PyStr k) d)"
| "py_iter (PyStr s) = Inr (map (\<lambda>c. PyStr [c]) s)"
| "py_iter v = raise TypeErr ''object is not iterable''"

text \<open>\<open>==\<close>. A float that is a whole number is written with \<open>.0\<close>, and equals that integer.\<close>

fun num_text :: "pyval \<Rightarrow> string option" where
  "num_text (PyInt i) = Some (dec_int i)"
| "num_text (PyBool b) = Some (if b then ''1'' else ''0'')"
| "num_text (PyFloat r) =
     (if r = ''nan'' then None else if r = ''-0.0'' then Some ''0''
      else if drop (length r - 2) r = ''.0'' then Some (take (length r - 2) r) else Some r)"
| "num_text v = None"

function (sequential) py_eq :: "pyval \<Rightarrow> pyval \<Rightarrow> bool" where
  "py_eq (PyStr a) v = (v = PyStr a)"
| "py_eq PyNone v = (v = PyNone)"
| "py_eq (PyList xs) v = (case as_list v of None \<Rightarrow> False
     | Some ys \<Rightarrow> length xs = length ys \<and> list_all (\<lambda>(x, y). py_eq x y) (zip xs ys))"
| "py_eq (PyDict d) v = (case as_dict v of None \<Rightarrow> False
     | Some e \<Rightarrow> list_all (\<lambda>(k, w). List.member (map fst d) k) e \<and>
         list_all (\<lambda>(k, x). List.member (map fst e) k \<and> py_eq x (dget e k)) d)"
| "py_eq v w = (case num_text v of None \<Rightarrow> False | Some n \<Rightarrow> num_text w = Some n)"
  by pat_completeness auto

termination
proof (relation "measure (size \<circ> fst)", goal_cases)
  case (2 xs v ys z x y)
  then have "x \<in> set xs" by (auto dest: set_zip_leftD)
  then show ?case by (auto dest: size_list_estimation' [where f = size])
next
  case (3 d v e z k x)
  then have "(k, x) \<in> set d" by auto
  then have "size x < Suc (size_list (size_prod (\<lambda>x. 0) size) d)"
    by (induction d) auto
  then show ?case by simp
qed simp

text \<open>The sorted names that two dicts differ in: added, updated, removed and unchanged.\<close>

definition dict_diff ::
  "(string \<times> 'v) list \<Rightarrow> (string \<times> 'v) list \<Rightarrow> string list \<times> string list \<times> string list \<times> string list" where
  "dict_diff before after =
     (let names = (\<lambda>v. sort (remdups (map fst v)));
          old = map_of before; new = map_of after
      in (filter (\<lambda>n. old n = None) (names after), filter (\<lambda>n. old n \<noteq> None \<and> old n \<noteq> new n) (names after),
          filter (\<lambda>n. new n = None) (names before), filter (\<lambda>n. old n = new n) (names after)))"

end
