(* ===== verification/Resources.thy ===== *)
theory Resources
  imports PyValues
begin

text \<open>
  \<^verbatim>\<open>src/coordinate/execution_resources.py\<close>: the purely lexical identity of a worktree on
  an execution host. A path is normalised by flavour (POSIX, Windows drive, UNC), a
  host and a normalised path make a resource, and the SHA-256 digest of its canonical
  JSON is the key under which leases exclude each other. Sibling worktrees are
  admitted by containment in allowlisted roots.

  \<open>posixpath.normpath\<close>, \<open>ntpath.splitroot\<close> and \<open>ntpath.normpath\<close> are the functions of
  the standard library that the module calls.
\<close>

section \<open>Constants and character tests\<close>

definition RESOURCE_CONTRACT_VERSION :: int where "RESOURCE_CONTRACT_VERSION = 1"
definition MAX_PATH_LEN :: nat where "MAX_PATH_LEN = 4096"
definition MAX_HOST_ID_LEN :: nat where "MAX_HOST_ID_LEN = 64"

abbreviation slash :: char where "slash \<equiv> CHR ''/''"
abbreviation bslash :: char where "bslash \<equiv> CHR 0x5C"

record worktree_resource =
  wr_host_id :: string
  wr_normalized_path :: string

definition canonical_dict :: "worktree_resource \<Rightarrow> pyval" where
  "canonical_dict r = PyDict
     [(''contract_version'', PyInt RESOURCE_CONTRACT_VERSION),
      (''resource_kind'', PyStr ''worktree''),
      (''host_id'', PyStr (wr_host_id r)),
      (''normalized_path'', PyStr (wr_normalized_path r))]"

definition validate_host_id :: "pyval \<Rightarrow> string result" where
  "validate_host_id v =
     (case as_str v of
        None \<Rightarrow> raise ResourceIdentityErr ''host_id must be a string''
      | Some h \<Rightarrow>
          if h = [] then raise ResourceIdentityErr ''host_id is required''
          else if h \<noteq> strip h then
            raise ResourceIdentityErr ''host_id must not have surrounding whitespace''
          else if length h > MAX_HOST_ID_LEN then
            raise ResourceIdentityErr ''host_id exceeds characters''
          else if has_control h then
            raise ResourceIdentityErr ''host_id contains control characters''
          else Inr h)"

fun is_windows_drive :: "string \<Rightarrow> bool" where
  "is_windows_drive (a # b # _) = (is_alpha a \<and> b = CHR '':'')"
| "is_windows_drive _ = False"

definition is_windows_unc :: "string \<Rightarrow> bool" where
  "is_windows_unc p = (length p \<ge> 2 \<and> (take 2 p = [bslash, bslash] \<or> take 2 p = [slash, slash]))"

definition has_traversal_segments :: "string \<Rightarrow> bool" where
  "has_traversal_segments p =
     list_ex (\<lambda>seg. seg = ''.'' \<or> seg = ''..'') (split_ch slash (replace_ch bslash slash p))"

datatype flavour = Posix | Drive | Unc

definition path_flavour :: "string \<Rightarrow> flavour" where
  "path_flavour n =
     (if startswith n [bslash, bslash] then Unc
      else if length n \<ge> 2 \<and> n ! 1 = CHR '':'' then Drive else Posix)"

definition is_filesystem_root :: "string \<Rightarrow> bool" where
  "is_filesystem_root n =
     (if n = [slash] then True
      else if length n = 3 \<and> n ! 1 = CHR '':'' \<and> n ! 2 = bslash then True
      else if startswith n [bslash, bslash] then
        length (filter (\<lambda>part. part \<noteq> []) (split_ch bslash n)) \<le> 2
      else False)"

definition normalize_control_path_separators :: "string \<Rightarrow> string" where
  "normalize_control_path_separators p = replace_ch bslash slash p"

datatype worktree_class = Control | Host_native

definition classify_worktree_raw_path :: "string \<Rightarrow> string \<Rightarrow> worktree_class" where
  "classify_worktree_raw_path control_root raw_path =
     (let control = rstrip_ch slash (normalize_control_path_separators control_root);
          raw = normalize_control_path_separators raw_path
      in if raw = control then Control
         else if startswith raw (control @ [slash]) then Control
         else Host_native)"

definition flavour_sep :: "string \<Rightarrow> char" where
  "flavour_sep root = (if path_flavour root = Posix then slash else bslash)"

definition is_strict_descendant :: "string \<Rightarrow> string \<Rightarrow> bool" where
  "is_strict_descendant candidate root =
     (if candidate = root then False
      else let sep = flavour_sep root in startswith candidate (rstrip_ch sep root @ [sep]))"

section \<open>Normalisation\<close>

text \<open>\<open>posixpath.normpath\<close>: the loop over the components, with \<open>new_comps\<close> reversed.\<close>

fun posix_comps :: "bool \<Rightarrow> string list \<Rightarrow> string list \<Rightarrow> string list" where
  "posix_comps rooted acc [] = rev acc"
| "posix_comps rooted acc (c # cs) =
     (if c = [] \<or> c = ''.'' then posix_comps rooted acc cs
      else if c \<noteq> ''..'' \<or> (\<not> rooted \<and> acc = []) \<or> (acc \<noteq> [] \<and> hd acc = ''..'')
        then posix_comps rooted (c # acc) cs
      else posix_comps rooted (tl acc) cs)"

definition posix_normpath :: "string \<Rightarrow> string" where
  "posix_normpath path =
     (if path = [] then ''.''
      else
        let initial = (if startswith path [slash]
              then (if startswith path [slash, slash] \<and> \<not> startswith path [slash, slash, slash]
                    then 2 else 1)
              else (0::nat));
            body = join_ch slash (posix_comps (initial > 0) [] (split_ch slash path));
            res = replicate initial slash @ body
        in if res = [] then ''.'' else res)"

text \<open>\<open>ntpath.splitroot\<close> on a path whose separators are already backslashes.\<close>

fun find_sep :: "char \<Rightarrow> string \<Rightarrow> nat option" where
  "find_sep c [] = None"
| "find_sep c (x # xs) = (if x = c then Some 0 else map_option Suc (find_sep c xs))"

definition unc_prefix :: string where
  "unc_prefix = [bslash, bslash, CHR ''?'', bslash, CHR ''U'', CHR ''N'', CHR ''C'', bslash]"

definition nt_splitroot :: "string \<Rightarrow> string \<times> string \<times> string" where
  "nt_splitroot p =
     (if take 1 p = [bslash] then
        (if take 1 (drop 1 p) = [bslash] then
           (let start = (if upper (take 8 p) = unc_prefix then 8 else 2) in
            (case find_sep bslash (drop start p) of
               None \<Rightarrow> (p, [], [])
             | Some i \<Rightarrow>
                 (case find_sep bslash (drop (start + i + 1) p) of
                    None \<Rightarrow> (p, [], [])
                  | Some j \<Rightarrow> (let e = start + i + 1 + j in (take e p, [p ! e], drop (e + 1) p)))))
         else ([], take 1 p, drop 1 p))
      else if take 1 (drop 1 p) = '':'' then
        (if take 1 (drop 2 p) = [bslash] then (take 2 p, [bslash], drop 3 p)
         else (take 2 p, [], drop 2 p))
      else ([], [], p))"

text \<open>
  \<open>ntpath.normpath\<close>: its \<open>while\<close> loop deletes empty and \<open>.\<close> components, a \<open>..\<close>
  with the component before it, and a leading \<open>..\<close> of a rooted path. The components
  already kept are \<open>acc\<close>, reversed.
\<close>

fun nt_comps :: "bool \<Rightarrow> string list \<Rightarrow> string list \<Rightarrow> string list" where
  "nt_comps rooted acc [] = rev acc"
| "nt_comps rooted acc (c # cs) =
     (if c = [] \<or> c = ''.'' then nt_comps rooted acc cs
      else if c = ''..'' then
        (if acc \<noteq> [] \<and> hd acc \<noteq> ''..'' then nt_comps rooted (tl acc) cs
         else if acc = [] \<and> rooted then nt_comps rooted acc cs
         else nt_comps rooted (c # acc) cs)
      else nt_comps rooted (c # acc) cs)"

definition nt_normpath :: "string \<Rightarrow> string" where
  "nt_normpath path =
     (let (drive, root, rest) = nt_splitroot (replace_ch slash bslash path);
          prefix = drive @ root;
          comps = nt_comps (root \<noteq> []) [] (split_ch bslash rest)
      in if prefix = [] \<and> comps = [] then ''.'' else prefix @ join_ch bslash comps)"

definition normalize_worktree_path :: "string \<Rightarrow> string result" where
  "normalize_worktree_path path0 =
     (let path = strip path0 in
      if path = [] then raise ResourceIdentityErr ''path is required''
      else if length path > MAX_PATH_LEN then raise ResourceIdentityErr ''path exceeds characters''
      else if has_control path then
        raise ResourceIdentityErr ''path contains control characters''
      else if is_windows_unc path then
        (let n = nt_normpath path in
         if n = ''.'' \<or> n = [] then raise ResourceIdentityErr ''UNC path collapsed to relative''
         else Inr (lower (replace_ch slash bslash n)))
      else if is_windows_drive path then
        (if length path = 2 \<or> path ! 2 \<noteq> bslash \<and> path ! 2 \<noteq> slash then
           raise ResourceIdentityErr ''Windows drive path must be absolute''
         else
           (let n = nt_normpath path in
            if n = ''.'' \<or> n = [] then
              raise ResourceIdentityErr ''drive path collapsed to relative''
            else
              (let m = replace_ch slash bslash n in
               Inr (lower (lower_char (hd m) # CHR '':'' # drop 2 m)))))
      else if \<not> startswith path [slash] then
        raise ResourceIdentityErr ''POSIX path must be absolute''
      else
        (let n = posix_normpath path in
         if n = ''.'' then raise ResourceIdentityErr ''path collapsed to relative''
         else Inr (if n = [] then [slash] else n)))"

definition normalize_host_native_worktree_path :: "pyval \<Rightarrow> string result" where
  "normalize_host_native_worktree_path v =
     (case as_str v of
        None \<Rightarrow> raise ResourceIdentityErr ''path is required''
      | Some p \<Rightarrow>
          if p = [] then raise ResourceIdentityErr ''path is required''
          else if has_control p then
            raise ResourceIdentityErr ''path contains control characters''
          else if has_traversal_segments p then
            raise ResourceIdentityErr ''path contains traversal components''
          else normalize_worktree_path p)"

section \<open>Allowlisted roots\<close>

definition validate_worktree_root :: "string \<Rightarrow> string \<Rightarrow> string result" where
  "validate_worktree_root workspace_path root =
     bindE (normalize_host_native_worktree_path (PyStr root)) (\<lambda>n.
       if is_filesystem_root n then
         raise ResourceIdentityErr ''root must not be a filesystem/drive/share root''
       else bindE (normalize_worktree_path workspace_path) (\<lambda>w.
         if path_flavour n \<noteq> path_flavour w then
           raise ResourceIdentityErr ''root path flavour must match workspace_path''
         else if n = w \<or> is_strict_descendant w n then
           raise ResourceIdentityErr
             ''root must not be the canonical workspace_path or an ancestor''
         else Inr n))"

definition resolve_allowlisted_worktree_path :: "string \<Rightarrow> string list \<Rightarrow> string result" where
  "resolve_allowlisted_worktree_path path roots =
     bindE (normalize_host_native_worktree_path (PyStr path)) (\<lambda>n.
       if list_ex (is_strict_descendant n) roots then Inr n
       else raise ResourceIdentityErr ''path is outside every configured worktree root'')"

text \<open>The shared loop of the write path (\<open>dedupe\<close>) and of the stored-canonical read.\<close>

fun worktree_root_loop ::
  "string \<Rightarrow> bool \<Rightarrow> string list \<Rightarrow> pyval list \<Rightarrow> string list result" where
  "worktree_root_loop ws dedupe out [] = Inr (rev out)"
| "worktree_root_loop ws dedupe out (item # items) =
     (case as_str item of
        None \<Rightarrow> raise ValueErr ''entries must be strings''
      | Some s \<Rightarrow>
          bindE (reraise ResourceIdentityErr ValueErr ''invalid entry'' (validate_worktree_root ws s)) (\<lambda>n.
            if \<not> dedupe \<and> n \<noteq> s then raise ValueErr ''entry is not canonical''
            else if List.member out n then
              (if \<not> dedupe then raise ValueErr ''contains duplicate''
               else worktree_root_loop ws dedupe out items)
            else worktree_root_loop ws dedupe (n # out) items))"

definition normalize_worktree_root_list :: "string \<Rightarrow> bool \<Rightarrow> pyval list \<Rightarrow> string list result" where
  "normalize_worktree_root_list ws dedupe items = worktree_root_loop ws dedupe [] items"

text \<open>The stored column, already decoded from JSON; \<open>None\<close> for SQL NULL.\<close>

definition parse_normalized_worktree_roots :: "string \<Rightarrow> pyval option \<Rightarrow> string list result" where
  "parse_normalized_worktree_roots ws raw =
     (case raw of
        None \<Rightarrow> Inr []
      | Some v \<Rightarrow>
          (case as_list v of
             None \<Rightarrow> raise ValueErr ''worktree_roots_json must be a JSON array of strings''
           | Some items \<Rightarrow> normalize_worktree_root_list ws False items))"

definition check_worktree_containment_policy ::
  "string \<Rightarrow> string \<Rightarrow> string list \<Rightarrow> string result" where
  "check_worktree_containment_policy worktree_path canonical_workspace_path roots =
     bindE (normalize_worktree_path worktree_path) (\<lambda>n.
       bindE (normalize_worktree_path canonical_workspace_path) (\<lambda>c.
         if n = c \<or> is_strict_descendant n c then Inr n
         else if list_ex (is_strict_descendant n) roots then Inr n
         else raise ResourceIdentityErr
           ''worktree path is not contained in the canonical checkout or any root''))"

section \<open>Resource keys\<close>

definition build_worktree_resource :: "string \<Rightarrow> string \<Rightarrow> worktree_resource result" where
  "build_worktree_resource host_id worktree_path =
     bindE (validate_host_id (PyStr host_id)) (\<lambda>h.
       bindE (normalize_worktree_path worktree_path) (\<lambda>n.
         Inr \<lparr>wr_host_id = h, wr_normalized_path = n\<rparr>))"

definition compute_resource_key :: "(string \<Rightarrow> string) \<Rightarrow> worktree_resource \<Rightarrow> string" where
  "compute_resource_key H r = digest_of H (canonical_dict r)"

text \<open>
  \<open>validate_resource_key_matches\<close> on the object that \<open>_validate_stored_resource\<close>
  builds from a lease row: the contract version is the constant, the other three
  fields are the columns.
\<close>

definition validate_resource_key_matches ::
  "(string \<Rightarrow> string) \<Rightarrow> string \<Rightarrow> string \<Rightarrow> string \<Rightarrow> string \<Rightarrow> unit result" where
  "validate_resource_key_matches H resource_kind host_id normalized_path resource_key =
     (if \<not> re_match digest_body resource_key then
        raise ResourceIdentityErr ''resource_key must be sha256:<64 lowercase hex>''
      else if resource_kind \<noteq> ''worktree'' then
        raise ResourceIdentityErr ''resource_kind must be worktree''
      else bindE (validate_host_id (PyStr host_id)) (\<lambda>h.
        bindE (normalize_worktree_path normalized_path) (\<lambda>n.
          if n \<noteq> normalized_path then
            raise ResourceIdentityErr ''normalized_path is not canonical''
          else if resource_key \<noteq> compute_resource_key H \<lparr>wr_host_id = h, wr_normalized_path = n\<rparr> then
            raise ResourceIdentityErr ''resource digest mismatch''
          else Inr ())))"

section \<open>Errors\<close>

lemma errs_resources [errs_intros]:
  "errs ResourceIdentityErr (validate_host_id v)"
  "errs ResourceIdentityErr (normalize_worktree_path p)"
  "errs ResourceIdentityErr (build_worktree_resource h p)"
  "errs ResourceIdentityErr (validate_resource_key_matches H k h p key)"
proof -
  show h: "errs ResourceIdentityErr (validate_host_id v)" for v
    unfolding validate_host_id_def by (intro errs_intros)
  show n: "errs ResourceIdentityErr (normalize_worktree_path p)" for p
    unfolding normalize_worktree_path_def by (intro errs_intros)
  show "errs ResourceIdentityErr (build_worktree_resource h p)"
    unfolding build_worktree_resource_def by (intro errs_intros h n)
  show "errs ResourceIdentityErr (validate_resource_key_matches H k h p key)"
    unfolding validate_resource_key_matches_def by (intro errs_intros h n)
qed

section \<open>Components of a normalised path\<close>

definition good_seg :: "string \<Rightarrow> bool" where
  "good_seg w = (w \<noteq> [] \<and> w \<noteq> ''.'' \<and> w \<noteq> ''..'')"

definition weight :: "string list \<Rightarrow> nat" where
  "weight ws = sum_list (map (\<lambda>w. Suc (length w)) ws)"

text \<open>
  The component loop of both \<open>normpath\<close>s on a rooted path, as the one function that
  they compute there.
\<close>

fun rooted_comps :: "string list \<Rightarrow> string list \<Rightarrow> string list" where
  "rooted_comps acc [] = rev acc"
| "rooted_comps acc (c # cs) =
     (if c = [] \<or> c = ''.'' then rooted_comps acc cs
      else if c = ''..'' then rooted_comps (tl acc) cs
      else rooted_comps (c # acc) cs)"

lemma good_tl: "list_all good_seg acc \<Longrightarrow> list_all good_seg (tl acc)"
  by (cases acc) auto

lemma posix_comps_rooted: "list_all good_seg acc \<Longrightarrow> posix_comps True acc cs = rooted_comps acc cs"
proof (induction acc cs rule: rooted_comps.induct)
  case (2 acc c cs)
  then show ?case by (cases acc) (auto simp: good_seg_def)
qed simp

lemma nt_comps_rooted: "list_all good_seg acc \<Longrightarrow> nt_comps True acc cs = rooted_comps acc cs"
proof (induction acc cs rule: rooted_comps.induct)
  case (2 acc c cs)
  then show ?case by (cases acc) (auto simp: good_seg_def)
qed simp

lemma rooted_comps_good: "list_all good_seg acc \<Longrightarrow> list_all good_seg (rooted_comps acc cs)"
  by (induction acc cs rule: rooted_comps.induct) (auto simp: good_tl good_seg_def)

lemma rooted_comps_id: "list_all good_seg cs \<Longrightarrow> rooted_comps acc cs = rev acc @ cs"
  by (induction acc cs rule: rooted_comps.induct) (auto simp: good_seg_def)

lemma rooted_comps_subset: "set (rooted_comps acc cs) \<subseteq> set acc \<union> set cs"
proof (induction acc cs rule: rooted_comps.induct)
  case (2 acc c cs)
  then show ?case by (cases acc) auto
qed simp

lemma weight_simps [simp]: "weight [] = 0" "weight (w # ws) = Suc (length w) + weight ws"
  "weight (xs @ ys) = weight xs + weight ys" "weight (rev xs) = weight xs"
  by (simp_all add: weight_def sum_list_rev rev_map flip: rev_map)

lemma rooted_comps_weight: "weight (rooted_comps acc cs) \<le> weight acc + weight cs"
proof (induction acc cs rule: rooted_comps.induct)
  case (2 acc c cs)
  then show ?case by (cases acc) auto
qed simp

lemma weight_split: "weight (split_ch c s) = Suc (length s)"
proof (induction s)
  case (Cons x s)
  then show ?case by (cases "split_ch c s") auto
qed simp

lemma length_join_weight: "length (join_ch c ws) \<le> weight ws"
  by (induction c ws rule: join_ch.induct) auto

lemma length_join_weight1: "ws \<noteq> [] \<Longrightarrow> Suc (length (join_ch c ws)) = weight ws"
  by (induction c ws rule: join_ch.induct) auto

lemma set_join_ch: "set (join_ch c ws) \<subseteq> insert c (\<Union> (set ` set ws))"
  by (induction c ws rule: join_ch.induct) auto

lemma set_split_ch: "w \<in> set (split_ch c s) \<Longrightarrow> set w \<subseteq> set s"
proof -
  have "\<forall>w \<in> set (split_ch c s). set w \<subseteq> set s"
  proof (induction s)
    case (Cons x s)
    then show ?case by (cases "split_ch c s") auto
  qed simp
  then show "w \<in> set (split_ch c s) \<Longrightarrow> set w \<subseteq> set s" by blast
qed

section \<open>What normalisation returns\<close>

definition posix_canonical :: "string \<Rightarrow> string list \<Rightarrow> bool" where
  "posix_canonical q cs = (q = slash # join_ch slash cs \<and> list_all good_seg cs
     \<and> list_all (\<lambda>w. slash \<notin> set w) cs)"

definition drive_canonical :: "string \<Rightarrow> char \<Rightarrow> string list \<Rightarrow> bool" where
  "drive_canonical q d cs = (q = d # CHR '':'' # bslash # join_ch bslash cs \<and> is_alpha d
     \<and> list_all good_seg cs \<and> list_all (\<lambda>w. bslash \<notin> set w) cs \<and> lower q = q \<and> slash \<notin> set q)"

lemma rooted_comps_no_sep:
  "list_all (\<lambda>w. c \<notin> set w) (rooted_comps [] (split_ch c s))"
  using rooted_comps_subset [of "[]" "split_ch c s"] by (auto simp: list_all_iff dest: split_ch_no_sep)

lemma posix_normpath_eq:
  assumes "startswith p [slash]" "\<not> startswith p [slash, slash]"
  shows "posix_normpath p = slash # join_ch slash (rooted_comps [] (split_ch slash p))"
  using assms by (auto simp: posix_normpath_def posix_comps_rooted startswith_iff Let_def)

lemma posix_normpath_canonical:
  assumes "startswith p [slash]" "\<not> startswith p [slash, slash]"
  shows "posix_canonical (posix_normpath p) (rooted_comps [] (split_ch slash p))"
  using assms by (simp add: posix_canonical_def posix_normpath_eq rooted_comps_good rooted_comps_no_sep)

lemma join_good_hd:
  assumes "list_all good_seg cs" "list_all (\<lambda>w. c \<notin> set w) cs"
  shows "join_ch c cs = [] \<or> hd (join_ch c cs) \<noteq> c"
  using assms by (induction c cs rule: join_ch.induct) (auto simp: good_seg_def hd_append neq_Nil_conv)

lemma posix_canonical_fixed:
  assumes "posix_canonical q cs"
  shows "startswith q [slash]" "\<not> startswith q [slash, slash]" "posix_normpath q = q"
    "rooted_comps [] (split_ch slash q) = cs"
proof -
  from assms have q: "q = slash # join_ch slash cs" and good: "list_all good_seg cs"
    and sep: "list_all (\<lambda>w. slash \<notin> set w) cs" by (simp_all add: posix_canonical_def)
  show s1: "startswith q [slash]" by (simp add: q startswith_iff)
  show s2: "\<not> startswith q [slash, slash]"
    using join_good_hd [OF good sep] by (auto simp: q startswith_iff)
  have "split_ch slash q = [] # split_ch slash (join_ch slash cs)" by (simp add: q)
  moreover have "rooted_comps [] (split_ch slash (join_ch slash cs)) = cs"
  proof (cases "cs = []")
    case False
    then have "split_ch slash (join_ch slash cs) = cs"
      using sep by (intro split_join_ch) (auto simp: list_all_iff)
    then show ?thesis using good by (simp add: rooted_comps_id)
  qed simp
  ultimately show c: "rooted_comps [] (split_ch slash q) = cs" by simp
  show "posix_normpath q = q" unfolding posix_normpath_eq [OF s1 s2] c by (simp only: q)
qed

lemma posix_canonical_unique: "posix_canonical q cs \<Longrightarrow> posix_canonical q cs' \<Longrightarrow> cs = cs'"
  by (metis posix_canonical_fixed(4))

lemma join_ch_prefix_iff:
  assumes "as \<noteq> []" "list_all (\<lambda>w. c \<notin> set w) as" "list_all (\<lambda>w. c \<notin> set w) bs" "bs \<noteq> []"
  shows "(\<exists>t. join_ch c bs = join_ch c as @ c # t) \<longleftrightarrow> (\<exists>ds. ds \<noteq> [] \<and> bs = as @ ds)"
proof
  assume "\<exists>t. join_ch c bs = join_ch c as @ c # t"
  then obtain t where t: "join_ch c bs = join_ch c as @ c # t" by blast
  have "join_ch c as @ c # t = join_ch c (as @ split_ch c t)"
    using assms(1)
  proof (induction c as rule: join_ch.induct)
    case (2 sep w)
    then show ?case by (simp add: join_ch_Cons)
  next
    case (3 sep w v va)
    then show ?case by (simp add: join_ch_Cons)
  qed simp
  with t have "join_ch c bs = join_ch c (as @ split_ch c t)" by simp
  moreover have "split_ch c (join_ch c bs) = bs"
    by (rule split_join_ch) (use assms in \<open>auto simp: list_all_iff\<close>)
  moreover have "split_ch c (join_ch c (as @ split_ch c t)) = as @ split_ch c t"
  proof (rule split_join_ch)
    fix w assume "w \<in> set (as @ split_ch c t)"
    then show "c \<notin> set w" using assms(2) split_ch_no_sep [of w c t] by (auto simp: list_all_iff)
  qed (simp add: assms(1))
  ultimately have "bs = as @ split_ch c t" by metis
  then show "\<exists>ds. ds \<noteq> [] \<and> bs = as @ ds" by auto
next
  assume "\<exists>ds. ds \<noteq> [] \<and> bs = as @ ds"
  then obtain ds where ds: "ds \<noteq> []" "bs = as @ ds" by blast
  have "join_ch c (as @ ds) = join_ch c as @ c # join_ch c ds"
    using assms(1) ds(1)
  proof (induction c as rule: join_ch.induct)
    case (2 sep w)
    then show ?case by (simp add: join_ch_Cons)
  next
    case (3 sep w v va)
    then show ?case by (simp add: join_ch_Cons)
  qed simp
  with ds show "\<exists>t. join_ch c bs = join_ch c as @ c # t" by auto
qed

lemma join_good_last:
  assumes "list_all good_seg cs" "list_all (\<lambda>w. c \<notin> set w) cs" "cs \<noteq> []"
  shows "join_ch c cs \<noteq> [] \<and> last (join_ch c cs) \<noteq> c"
  using assms by (induction c cs rule: join_ch.induct) (auto simp: good_seg_def)

text \<open>Containment of normalised POSIX paths is the strict prefix order of their components.\<close>

lemma posix_descendant_iff:
  assumes c: "posix_canonical p ps" and r: "posix_canonical q qs" and f: "path_flavour q = Posix"
  shows "is_strict_descendant p q \<longleftrightarrow> strict_prefix qs ps"
proof -
  from c r have p: "p = slash # join_ch slash ps" and q: "q = slash # join_ch slash qs"
    and gp: "list_all good_seg ps" "list_all (\<lambda>w. slash \<notin> set w) ps"
    and gq: "list_all good_seg qs" "list_all (\<lambda>w. slash \<notin> set w) qs"
    by (simp_all add: posix_canonical_def)
  have inj: "p = q \<longleftrightarrow> ps = qs" using c r posix_canonical_unique by (auto simp: p q)
  have emp: "ps = [] \<longleftrightarrow> join_ch slash ps = []" using join_good_last [OF gp] by auto
  show ?thesis
  proof (cases "qs = []")
    case True
    then have "rstrip_ch slash q = []" by (simp add: q rstrip_ch_def)
    then have "is_strict_descendant p q \<longleftrightarrow> p \<noteq> q"
      using f by (auto simp: is_strict_descendant_def flavour_sep_def p startswith_iff Let_def)
    with inj True show ?thesis by (auto simp: strict_prefix_def)
  next
    case False
    with join_good_last [OF gq] have "last q \<noteq> slash" by (auto simp: q)
    then have rs: "rstrip_ch slash q = q" by (simp add: rstrip_ch_id)
    have "is_strict_descendant p q \<longleftrightarrow> p \<noteq> q \<and> startswith p (q @ [slash])"
      using f rs by (simp add: is_strict_descendant_def flavour_sep_def Let_def)
    also have "\<dots> \<longleftrightarrow> (\<exists>t. join_ch slash ps = join_ch slash qs @ slash # t)"
      by (auto simp: startswith_iff p q)
    also have "\<dots> \<longleftrightarrow> (\<exists>ds. ds \<noteq> [] \<and> ps = qs @ ds)"
    proof (cases "ps = []")
      case True
      then show ?thesis using False by (auto dest: arg_cong [where f = length])
    next
      case ne: False
      show ?thesis by (rule join_ch_prefix_iff [OF False gq(2) gp(2) ne])
    qed
    also have "\<dots> \<longleftrightarrow> strict_prefix qs ps" by (auto simp: strict_prefix_def prefix_def)
    finally show ?thesis .
  qed
qed


lemma lower_char_eqD: "lower_char c = d \<Longrightarrow> \<not> (97 \<le> (of_char d :: nat) \<and> (of_char d :: nat) \<le> 122) \<Longrightarrow> c = d"
  by (auto simp: lower_char_def split: if_splits)

lemma lower_char_punct [simp]:
  "lower_char c = bslash \<longleftrightarrow> c = bslash" "lower_char c = slash \<longleftrightarrow> c = slash"
  "lower_char c = CHR '':'' \<longleftrightarrow> c = CHR '':''" "lower_char c = CHR ''.'' \<longleftrightarrow> c = CHR ''.''"
  by (auto dest: lower_char_eqD) (simp_all add: lower_char_def)

lemma lower_char_punct_sym [simp]: "bslash = lower_char c \<longleftrightarrow> c = bslash" "slash = lower_char c \<longleftrightarrow> c = slash"
  by (metis lower_char_punct)+

lemma lower_char_const [simp]: "lower_char bslash = bslash" "lower_char (CHR '':'') = CHR '':''"
  by (simp_all add: lower_char_def)

lemma lower_char_idem [simp]: "lower_char (lower_char c) = lower_char c"
  by (auto simp: lower_char_def)

lemma lower_idem [simp]: "lower (lower s) = lower s"
  by (simp add: lower_def)

lemma is_control_lower [simp]: "is_control (lower_char c) = is_control c"
  by (auto simp: lower_char_def is_control_def)

lemma is_alpha_lower [simp]: "is_alpha (lower_char c) = is_alpha c"
  by (auto simp: lower_char_def is_alpha_def)

lemma lower_Cons [simp]: "lower (c # s) = lower_char c # lower s" "lower [] = []"
  by (simp_all add: lower_def)

lemma length_lower [simp]: "length (lower s) = length s"
  by (simp add: lower_def)

lemma lower_append: "lower (s @ t) = lower s @ lower t"
  by (simp add: lower_def)

lemma in_lower_punct [simp]: "bslash \<in> set (lower s) \<longleftrightarrow> bslash \<in> set s" "slash \<in> set (lower s) \<longleftrightarrow> slash \<in> set s"
  by (auto simp: lower_def image_iff)

lemma good_seg_lower [simp]: "good_seg (lower w) = good_seg w"
proof -
  have "lower w = ''.'' \<longleftrightarrow> w = ''.''" by (cases w) (auto simp: lower_def)
  moreover have "lower w = ''..'' \<longleftrightarrow> w = ''..''" by (auto simp: lower_def map_eq_Cons_conv)
  ultimately show ?thesis by (auto simp: good_seg_def lower_def)
qed

lemma lower_join: "lower (join_ch bslash ws) = join_ch bslash (map lower ws)"
  by (induction bslash ws rule: join_ch.induct) (auto simp: lower_append)

lemma has_control_iff: "has_control s \<longleftrightarrow> (\<exists>c \<in> set s. is_control c)"
  by (auto simp: has_control_def list_ex_iff)

lemma has_control_lower [simp]: "has_control (lower s) = has_control s"
  by (auto simp: has_control_iff lower_def)

lemma rooted_join_subset: "set (join_ch c (rooted_comps [] (split_ch c s))) \<subseteq> insert c (set s)"
proof -
  have "set w \<subseteq> set s" if "w \<in> set (rooted_comps [] (split_ch c s))" for w
    by (rule set_split_ch [of w c]) (use that rooted_comps_subset [of "[]" "split_ch c s"] in auto)
  then show ?thesis using set_join_ch [of c "rooted_comps [] (split_ch c s)"] by blast
qed

lemma rooted_join_length: "length (join_ch c (rooted_comps [] (split_ch c s))) \<le> length s"
proof (cases "rooted_comps [] (split_ch c s) = []")
  case False
  from length_join_weight1 [OF this, of c] rooted_comps_weight [of "[]" "split_ch c s"] weight_split [of c s]
  show ?thesis by simp
qed simp

definition norm_form :: "string \<Rightarrow> bool" where
  "norm_form q \<longleftrightarrow> length q \<le> MAX_PATH_LEN \<and> \<not> has_control q \<and>
     ((\<exists>cs. posix_canonical q cs) \<or> (\<exists>d cs. drive_canonical q d cs))"

lemma posix_rooted_split:
  assumes "startswith p [slash]" shows "\<exists>p'. p = slash # p' \<and> split_ch slash p = [] # split_ch slash p'"
  using assms by (auto simp: startswith_iff)

lemma posix_norm_form:
  assumes "startswith p [slash]" "\<not> startswith p [slash, slash]" "length p \<le> MAX_PATH_LEN" "\<not> has_control p"
  shows "norm_form (posix_normpath p)"
proof -
  from posix_rooted_split [OF assms(1)] obtain p' where p: "p = slash # p'" and
    sp: "split_ch slash p = [] # split_ch slash p'" by blast
  have eq: "posix_normpath p = slash # join_ch slash (rooted_comps [] (split_ch slash p'))"
    using posix_normpath_eq [OF assms(1,2)] sp by simp
  have "set (posix_normpath p) \<subseteq> set p" unfolding eq using rooted_join_subset [of slash p'] by (auto simp: p)
  then have "\<not> has_control (posix_normpath p)" using assms(4) by (auto simp: has_control_iff)
  moreover have "length (posix_normpath p) \<le> length p" unfolding eq using rooted_join_length [of slash p'] by (simp add: p)
  ultimately show ?thesis
    using posix_normpath_canonical [OF assms(1,2)] assms(3) by (auto simp: norm_form_def)
qed

lemma nt_normpath_drive:
  assumes "is_alpha a" "x = bslash \<or> x = slash"
  shows "nt_normpath (a # CHR '':'' # x # rest) =
     a # CHR '':'' # bslash # join_ch bslash (rooted_comps [] (split_ch bslash (replace_ch slash bslash rest)))"
proof -
  from assms(1) have a: "a \<noteq> bslash" "a \<noteq> slash" by (auto simp: is_alpha_def)
  have r: "replace_ch slash bslash (a # CHR '':'' # x # rest) = a # CHR '':'' # bslash # replace_ch slash bslash rest"
    using a assms(2) by (auto simp: replace_ch_def)
  show ?thesis using a by (simp add: nt_normpath_def r nt_splitroot_def nt_comps_rooted eval_nat_numeral)
qed

lemma drive_norm_form:
  assumes "is_alpha a" "x = bslash \<or> x = slash" "length (a # CHR '':'' # x # rest) \<le> MAX_PATH_LEN"
    "\<not> has_control (a # CHR '':'' # x # rest)"
    and n: "n = nt_normpath (a # CHR '':'' # x # rest)"
  shows "norm_form (lower (lower_char (hd (replace_ch slash bslash n)) # CHR '':'' # drop 2 (replace_ch slash bslash n)))"
proof -
  let ?r = "replace_ch slash bslash rest" and ?cs = "rooted_comps [] (split_ch bslash (replace_ch slash bslash rest))"
  from n have n': "n = a # CHR '':'' # bslash # join_ch bslash ?cs" using nt_normpath_drive [OF assms(1,2)] by simp
  have sub: "set (join_ch bslash ?cs) \<subseteq> insert bslash (set ?r)" by (rule rooted_join_subset)
  have "slash \<notin> set ?r" by (rule replace_ch_not_in) simp
  with sub have ns: "slash \<notin> set (join_ch bslash ?cs)" by auto
  from assms(1) have a: "a \<noteq> bslash" "a \<noteq> slash" by (auto simp: is_alpha_def)
  have nm: "replace_ch slash bslash n = n" using ns a by (intro replace_ch_absent) (auto simp: n')
  define q where "q = lower (lower_char (hd n) # CHR '':'' # drop 2 n)"
  have q: "q = lower_char a # CHR '':'' # bslash # join_ch bslash (map lower ?cs)"
    by (simp add: q_def n' lower_join)
  have "set ?r \<subseteq> insert bslash (set rest)" by (auto simp: replace_ch_def)
  with sub have "set (join_ch bslash ?cs) \<subseteq> insert bslash (set rest)" by auto
  then have nc: "\<not> has_control (join_ch bslash ?cs)"
    using assms(4) by (auto simp: has_control_iff is_control_def)
  have nc2: "\<not> has_control q"
  proof -
    have "q = lower (a # CHR '':'' # bslash # join_ch bslash ?cs)" by (simp add: q lower_join)
    moreover have "\<not> has_control (a # CHR '':'' # bslash # join_ch bslash ?cs)"
      using nc assms(4) by (simp add: has_control_def is_control_def)
    ultimately show ?thesis by (metis has_control_lower)
  qed
  have len: "length q \<le> MAX_PATH_LEN"
    using assms(3) rooted_join_length [of bslash ?r] by (simp add: q lower_join [symmetric] replace_ch_def)
  have "drive_canonical q (lower_char a) (map lower ?cs)"
    unfolding drive_canonical_def
    using assms(1) rooted_comps_good [of "[]" "split_ch bslash ?r"] rooted_comps_no_sep [of bslash ?r] ns a
    by (auto simp: q list_all_iff lower_join [symmetric])
  with nc2 len have "norm_form q" by (auto simp: norm_form_def)
  then show ?thesis by (simp add: nm q_def)
qed


lemma drive_shape:
  assumes "is_windows_drive s" "\<not> (length s = 2 \<or> s ! 2 \<noteq> bslash \<and> s ! 2 \<noteq> slash)"
  shows "\<exists>a x rest. s = a # CHR '':'' # x # rest \<and> is_alpha a \<and> (x = bslash \<or> x = slash)"
proof (cases s rule: is_windows_drive.cases)
  case (1 a b r)
  with assms show ?thesis by (cases r) auto
qed (use assms in auto)

lemma normalize_norm_form:
  assumes n: "normalize_worktree_path p = Inr q" and u: "\<not> is_windows_unc (strip p)"
  shows "norm_form q"
proof -
  let ?p = "strip p"
  from n have ne: "?p \<noteq> []" and len: "length ?p \<le> MAX_PATH_LEN" and nc: "\<not> has_control ?p"
    by (auto simp: normalize_worktree_path_def Let_def split: if_splits)
  show ?thesis
  proof (cases "is_windows_drive ?p")
    case True
    with n u ne len nc have l: "\<not> (length ?p = 2 \<or> ?p ! 2 \<noteq> bslash \<and> ?p ! 2 \<noteq> slash)"
      by (auto simp: normalize_worktree_path_def Let_def split: if_splits)
    from True l obtain a x rest where p: "?p = a # CHR '':'' # x # rest" and a: "is_alpha a"
      and x: "x = bslash \<or> x = slash"
      using drive_shape by blast
    from n u ne len nc True l have
      "q = (let m = replace_ch slash bslash (nt_normpath ?p) in lower (lower_char (hd m) # CHR '':'' # drop 2 m))"
      by (auto simp: normalize_worktree_path_def Let_def split: if_splits)
    then show ?thesis using drive_norm_form [OF a x, of rest] len nc by (simp add: p Let_def)
  next
    case False
    with n u ne len nc have sl: "startswith ?p [slash]"
      by (auto simp: normalize_worktree_path_def Let_def split: if_splits)
    have ns: "\<not> startswith ?p [slash, slash]"
      using u by (auto simp: is_windows_unc_def startswith_iff)
    from n u ne len nc False sl have "q = posix_normpath ?p"
      using posix_normpath_eq [OF sl ns]
      by (auto simp: normalize_worktree_path_def Let_def split: if_splits)
    with posix_norm_form [OF sl ns len nc] show ?thesis by simp
  qed
qed

lemma posix_not_unc:
  assumes "posix_canonical q cs"
  shows "\<not> is_windows_unc q"
proof -
  obtain q' where q: "q = slash # q'" using assms by (simp add: posix_canonical_def)
  with posix_canonical_fixed(2) [OF assms] show ?thesis
    by (cases q') (auto simp: is_windows_unc_def startswith_iff)
qed

lemma norm_form_fixed:
  assumes "norm_form q" "strip q = q"
  shows "normalize_worktree_path q = Inr q" "\<not> is_windows_unc q"
proof -
  from assms(1) have len: "length q \<le> MAX_PATH_LEN" and nc: "\<not> has_control q"
    and form: "(\<exists>cs. posix_canonical q cs) \<or> (\<exists>d cs. drive_canonical q d cs)"
    by (auto simp: norm_form_def)
  from form show "normalize_worktree_path q = Inr q"
  proof (elim disjE exE)
    fix cs assume c: "posix_canonical q cs"
    note f = posix_canonical_fixed [OF c]
    from f(1) obtain q' where q: "q = slash # q'" by (auto simp: startswith_iff)
    have "\<not> is_windows_unc q" by (rule posix_not_unc) (rule c)
    moreover have "\<not> is_windows_drive q" by (cases q') (auto simp: q is_alpha_def)
    ultimately show "normalize_worktree_path q = Inr q"
      using f len nc by (simp add: normalize_worktree_path_def assms(2)) (simp add: q)
  next
    fix d cs assume c: "drive_canonical q d cs"
    then have q: "q = d # CHR '':'' # bslash # join_ch bslash cs" and d: "is_alpha d"
      and low: "lower q = q" and ns: "slash \<notin> set q"
      and good: "list_all good_seg cs" and sep: "list_all (\<lambda>w. bslash \<notin> set w) cs"
      unfolding drive_canonical_def by blast+
    from d have u: "\<not> is_windows_unc q" by (auto simp: is_windows_unc_def q is_alpha_def)
    have "rooted_comps [] (split_ch bslash (join_ch bslash cs)) = cs"
    proof (cases "cs = []")
      case False
      then have "split_ch bslash (join_ch bslash cs) = cs"
        by (rule split_join_ch) (use sep in \<open>auto simp: list_all_iff\<close>)
      then show ?thesis using good by (simp add: rooted_comps_id)
    qed simp
    moreover have "replace_ch slash bslash (join_ch bslash cs) = join_ch bslash cs"
      by (rule replace_ch_absent) (use ns in \<open>simp add: q\<close>)
    ultimately have n: "nt_normpath q = q" using nt_normpath_drive [OF d, of bslash "join_ch bslash cs"] by (simp add: q)
    have r: "replace_ch slash bslash q = q" by (rule replace_ch_absent) (rule ns)
    have "lower_char d = d" using low by (simp add: q)
    then have l: "lower (lower_char (hd q) # CHR '':'' # drop 2 q) = q" using low by (simp add: q)
    have dr: "is_windows_drive q" using d by (simp add: q)
    have "length q \<noteq> 2" "q ! 2 = bslash" "q \<noteq> []" "q \<noteq> ''.''" by (simp_all add: q)
    then show "normalize_worktree_path q = Inr q"
      by (simp add: normalize_worktree_path_def assms(2) len[THEN leD] nc u dr n r Let_def l [unfolded lower_Cons lower_char_idem lower_char_const])
  qed
  from form show "\<not> is_windows_unc q"
  proof (elim disjE exE)
    fix d cs assume "drive_canonical q d cs"
    then show ?thesis by (auto simp: is_windows_unc_def drive_canonical_def is_alpha_def)
  qed (rule posix_not_unc)
qed



lemma norm_form_posix:
  assumes "norm_form q" "path_flavour q = Posix"
  shows "\<exists>cs. posix_canonical q cs"
  using assms by (auto simp: norm_form_def drive_canonical_def path_flavour_def startswith_iff split: if_splits)

lemma norm_form_not_Unc: "norm_form q \<Longrightarrow> path_flavour q \<noteq> Unc"
proof
  assume n: "norm_form q" and u: "path_flavour q = Unc"
  then obtain t where t: "q = bslash # bslash # t" by (auto simp: path_flavour_def startswith_iff split: if_splits)
  from n show False by (auto simp: norm_form_def t posix_canonical_def drive_canonical_def)
qed

lemma take_ge2: "2 \<le> n \<Longrightarrow> \<exists>t'. take n (a # b # t) = a # b # t'"
  by (cases n; cases "n - 1") auto

lemma normalize_unc_flavour:
  assumes "normalize_worktree_path p = Inr q" "is_windows_unc (strip p)"
  shows "path_flavour q = Unc"
proof -
  let ?p = "replace_ch slash bslash (strip p)"
  from assms(2) obtain a b r where p: "strip p = a # b # r" and ab: "(a = bslash \<or> a = slash) \<and> (b = bslash \<or> b = slash)"
    by (cases "strip p"; cases "tl (strip p)") (auto simp: is_windows_unc_def)
  then have p2: "?p = bslash # bslash # replace_ch slash bslash r" by (auto simp: replace_ch_def)
  have "\<exists>t. fst (nt_splitroot ?p) = bslash # bslash # t"
    by (auto simp: nt_splitroot_def p2 Let_def intro!: take_ge2 split: option.splits)
  then obtain t where "fst (nt_splitroot ?p) = bslash # bslash # t" by blast
  moreover obtain drive root rest where "nt_splitroot ?p = (drive, root, rest)"
    by (cases "nt_splitroot ?p") auto
  ultimately obtain t' where n: "nt_normpath (strip p) = bslash # bslash # t'"
    by (simp add: nt_normpath_def)
  with assms have "q = lower (replace_ch slash bslash (bslash # bslash # t'))"
    by (auto simp: normalize_worktree_path_def Let_def split: if_splits)
  then show ?thesis by (simp add: path_flavour_def startswith_iff replace_ch_def lower_def)
qed

text \<open>No normal form is longer than its path.\<close>

lemma join_ch_length: "length (join_ch c xs) = sum_list (map (\<lambda>w. Suc (length w)) xs) - 1"
  by (induction c xs rule: join_ch.induct) auto

lemma nt_comps_length:
  "sum_list (map (\<lambda>w. Suc (length w)) (nt_comps rooted acc cs))
     \<le> sum_list (map (\<lambda>w. Suc (length w)) acc) + sum_list (map (\<lambda>w. Suc (length w)) cs)"
proof (induction rooted acc cs rule: nt_comps.induct)
  case (1 rooted acc)
  show ?case by (simp add: rev_map [symmetric] sum_list_rev)
next
  case (2 rooted acc c cs)
  have "sum_list (map (\<lambda>w. Suc (length w)) (tl acc)) \<le> sum_list (map (\<lambda>w. Suc (length w)) acc)" by (cases acc) auto
  with 2 show ?case by auto
qed

lemma find_sep_bound: "find_sep c s = Some i \<Longrightarrow> i < length s"
  by (induction s arbitrary: i) (auto split: if_splits)

lemma nt_splitroot_length:
  assumes "nt_splitroot p = (d, r, t)"
  shows "length d + length r + length t \<le> length p"
  using assms
  by (auto simp: nt_splitroot_def Let_def min_def dest!: find_sep_bound split: if_splits option.splits)

lemma nt_normpath_length:
  assumes "p \<noteq> []"
  shows "length (nt_normpath p) \<le> length p"
proof -
  obtain d r t where s: "nt_splitroot (replace_ch slash bslash p) = (d, r, t)" by (rule prod_cases3)
  from nt_splitroot_length [OF s] have l: "length d + length r + length t \<le> length p" by (simp add: replace_ch_def)
  have "sum_list (map (\<lambda>w. Suc (length w)) (split_ch bslash t)) \<le> Suc (length t)"
    using join_ch_length [of bslash "split_ch bslash t"] by simp
  with nt_comps_length [of "r \<noteq> []" "[]" "split_ch bslash t"]
  have "length (join_ch bslash (nt_comps (r \<noteq> []) [] (split_ch bslash t))) \<le> length t" by (simp add: join_ch_length)
  moreover have "Suc 0 \<le> length p" using assms by (cases p) simp_all
  ultimately show ?thesis using l unfolding nt_normpath_def s Let_def prod.case by auto
qed

lemma normalize_length:
  assumes "normalize_worktree_path p = Inr q"
  shows "1 \<le> length q \<and> length q \<le> MAX_PATH_LEN"
proof (cases "is_windows_unc (strip p)")
  case True
  with assms have l: "length (strip p) \<le> MAX_PATH_LEN" "strip p \<noteq> []"
    and n: "nt_normpath (strip p) \<noteq> []" "q = lower (replace_ch slash bslash (nt_normpath (strip p)))"
    by (auto simp: normalize_worktree_path_def Let_def split: if_splits)
  have "length q = length (nt_normpath (strip p))" by (simp add: n(2) lower_def replace_ch_def)
  with n(1) l nt_normpath_length [OF l(2)] show ?thesis by (cases "nt_normpath (strip p)") auto
next
  case False
  from normalize_norm_form [OF assms False] show ?thesis
    by (auto simp: norm_form_def posix_canonical_def drive_canonical_def)
qed

lemma normalize_idem:
  assumes "normalize_worktree_path p = Inr q" "path_flavour q \<noteq> Unc" "strip q = q"
  shows "normalize_worktree_path q = Inr q"
proof -
  have "\<not> is_windows_unc (strip p)" using normalize_unc_flavour assms(1,2) by blast
  then have "norm_form q" by (rule normalize_norm_form [OF assms(1)])
  then show ?thesis using assms(3) by (rule norm_form_fixed(1))
qed

text \<open>
  Normalisation is idempotent on POSIX and drive paths: a normalised path that
  \<open>strip\<close> leaves alone is its own normal form, so the canonicality check of a stored
  path accepts what the write path produced.
\<close>

theorem normalize_worktree_path_idem:
  assumes "normalize_worktree_path p = Inr q" "path_flavour q \<noteq> Unc" "strip q = q"
  shows "normalize_worktree_path q = Inr q"
  using assms by (rule normalize_idem)

theorem normalize_worktree_path_idem_witness:
  "normalize_worktree_path ''/srv//wt/./a/../b/'' = Inr ''/srv/wt/b'' \<and> normalize_worktree_path ''/srv/wt/b'' = Inr ''/srv/wt/b''"
proof -
  have 1: "normalize_worktree_path ''/srv//wt/./a/../b/'' = Inr ''/srv/wt/b''" by code_simp
  have 2: "path_flavour ''/srv/wt/b'' \<noteq> Unc" by code_simp
  have 3: "strip ''/srv/wt/b'' = ''/srv/wt/b''" by code_simp
  from 1 normalize_worktree_path_idem [OF 1 2 3] show ?thesis by blast
qed

text \<open>
  C15: containment of normalised POSIX paths is exactly the strict prefix order on path
  components: no normalised path escapes a root by \<open>..\<close>, by a repeated separator or by
  sharing the root's textual prefix.
\<close>

theorem strict_descendant_components:
  assumes "normalize_worktree_path p = Inr c" "normalize_worktree_path r = Inr root"
    and "path_flavour c = Posix" "path_flavour root = Posix"
  shows "is_strict_descendant c root \<longleftrightarrow>
    strict_prefix (rooted_comps [] (split_ch slash root)) (rooted_comps [] (split_ch slash c))"
proof -
  have "norm_form x" if "normalize_worktree_path y = Inr x" "path_flavour x = Posix" for x y
    using normalize_norm_form [OF that(1)] normalize_unc_flavour [OF that(1)] that(2) by fastforce
  with assms obtain cs rs where "posix_canonical c cs" "posix_canonical root rs"
    using norm_form_posix by meson
  with posix_descendant_iff [OF this assms(4)] posix_canonical_fixed(4) show ?thesis by metis
qed


lemma strict_descendant_components_witness:
  "is_strict_descendant ''/srv/wt/b'' ''/srv/wt'' \<and> \<not> is_strict_descendant ''/srv/wt-other'' ''/srv/wt''"
proof -
  have n: "normalize_worktree_path ''/srv/wt/b'' = Inr ''/srv/wt/b''"
    "normalize_worktree_path ''/srv/wt'' = Inr ''/srv/wt''"
    "normalize_worktree_path ''/srv/wt-other'' = Inr ''/srv/wt-other''" by code_simp+
  have f: "path_flavour ''/srv/wt/b'' = Posix" "path_flavour ''/srv/wt'' = Posix"
    "path_flavour ''/srv/wt-other'' = Posix" by code_simp+
  have 1: "strict_prefix (rooted_comps [] (split_ch slash ''/srv/wt''))
      (rooted_comps [] (split_ch slash ''/srv/wt/b''))"
    by (simp add: strict_prefix_def)
  have 2: "\<not> strict_prefix (rooted_comps [] (split_ch slash ''/srv/wt''))
      (rooted_comps [] (split_ch slash ''/srv/wt-other''))"
    by (simp add: strict_prefix_def)
  show ?thesis
    using strict_descendant_components [OF n(1) n(2) f(1) f(2)] 1
      strict_descendant_components [OF n(3) n(2) f(3) f(2)] 2 by simp
qed

lemma validate_worktree_root_idem:
  assumes v: "validate_worktree_root ws s = Inr n" and w: "normalize_worktree_path ws = Inr w" "path_flavour w \<noteq> Unc"
    and st: "strip n = n" and tr: "\<not> has_traversal_segments n"
  shows "validate_worktree_root ws n = Inr n"
proof -
  from v w have h: "normalize_worktree_path s = Inr n" "path_flavour n = path_flavour w"
    by (auto simp: validate_worktree_root_def normalize_host_native_worktree_path_def bindE_eq_Inr split: if_splits)
  then have nf: "norm_form n"
    using normalize_norm_form [OF h(1)] normalize_unc_flavour [OF h(1)] w(2) by auto
  then have "normalize_worktree_path n = Inr n" using st by (rule norm_form_fixed)
  moreover have "n \<noteq> []" "\<not> has_control n"
    using nf by (auto simp: norm_form_def posix_canonical_def drive_canonical_def)
  ultimately have "normalize_host_native_worktree_path (PyStr n) = Inr n"
    using tr by (simp add: normalize_host_native_worktree_path_def)
  with v show ?thesis
    by (auto simp: validate_worktree_root_def bindE_eq_Inr split: if_splits)
qed

text \<open>A canonical path has no traversal segments.\<close>

lemma posix_split_good:
  assumes "posix_canonical q cs" "bslash \<notin> set q"
  shows "\<not> has_traversal_segments q"
proof -
  from assms(1) have q: "q = slash # join_ch slash cs" and g: "list_all good_seg cs"
    and s: "list_all (\<lambda>w. slash \<notin> set w) cs" by (simp_all add: posix_canonical_def)
  have "replace_ch bslash slash q = q" using assms(2) by (rule replace_ch_absent)
  moreover have "split_ch slash (join_ch slash cs) = (if cs = [] then [[]] else cs)"
    using s by (auto simp: list_all_iff intro: split_join_ch)
  ultimately show ?thesis
    using g by (auto simp: has_traversal_segments_def q list_ex_iff list_all_iff good_seg_def)
qed

lemma worktree_root_loop_out:
  assumes "worktree_root_loop ws d out items = Inr res"
  shows "\<exists>new. res = rev out @ new \<and> (\<forall>n \<in> set new. \<exists>s. validate_worktree_root ws s = Inr n) \<and>
    distinct new \<and> set new \<inter> set out = {}"
  using assms
proof (induction ws d out items rule: worktree_root_loop.induct)
  case (2 ws dedupe out item items)
  from "2.prems" obtain s n where s: "item = PyStr s" "validate_worktree_root ws s = Inr n"
    by (auto split: option.splits)
  show ?case
  proof (cases "List.member out n")
    case True
    with "2.prems" s have "worktree_root_loop ws dedupe out items = Inr res" by (auto split: if_splits)
    with "2.IH"(1) [of s n] s True "2.prems" show ?thesis by (auto split: if_splits)
  next
    case False
    with "2.prems" s have "worktree_root_loop ws dedupe (n # out) items = Inr res" by (auto split: if_splits)
    with "2.IH"(2) [of s n] s False "2.prems" obtain new where
      new: "res = rev (n # out) @ new" "\<forall>n \<in> set new. \<exists>s. validate_worktree_root ws s = Inr n"
        "distinct new" "set new \<inter> set (n # out) = {}" by (auto split: if_splits)
    with s False show ?thesis by (intro exI [of _ "n # new"]) auto
  qed
qed simp

lemma worktree_root_loop_canonical:
  assumes "\<forall>n \<in> set ns. validate_worktree_root ws n = Inr n" "distinct ns" "set ns \<inter> set out = {}"
  shows "worktree_root_loop ws d out (map PyStr ns) = Inr (rev out @ ns)"
  using assms by (induction ns arbitrary: out) auto

text \<open>
  What the profile write path stores, the stored-canonical read returns unchanged:
  deduplicated, order kept, every entry its own normal form. It needs that \<open>strip\<close>
  leaves the stored roots alone (see the next theorem) and a POSIX workspace whose
  roots contain no backslash.
\<close>

theorem worktree_roots_write_read:
  assumes "normalize_worktree_root_list ws True items = Inr roots"
    and "normalize_worktree_path ws = Inr w" "path_flavour w = Posix"
    and "\<forall>r \<in> set roots. strip r = r \<and> bslash \<notin> set r"
  shows "parse_normalized_worktree_roots ws (Some (PyList (map PyStr roots))) = Inr roots \<and> distinct roots"
proof -
  from worktree_root_loop_out [of ws True "[]" items roots] assms(1)
  have v: "\<forall>n \<in> set roots. \<exists>s. validate_worktree_root ws s = Inr n" and d: "distinct roots"
    by (auto simp: normalize_worktree_root_list_def)
  have "validate_worktree_root ws n = Inr n" if n: "n \<in> set roots" for n
  proof -
    from v n obtain s where s: "validate_worktree_root ws s = Inr n" by blast
    then have h: "normalize_worktree_path s = Inr n" "path_flavour n = path_flavour w"
      using assms(2) by (auto simp: validate_worktree_root_def normalize_host_native_worktree_path_def
          bindE_eq_Inr split: if_splits)
    then have "norm_form n" using normalize_norm_form [OF h(1)] normalize_unc_flavour [OF h(1)] assms(3) by auto
    then obtain cs where "posix_canonical n cs" using norm_form_posix h(2) assms(3) by auto
    then have "\<not> has_traversal_segments n" using assms(4) n by (intro posix_split_good) auto
    with s assms n show ?thesis by (intro validate_worktree_root_idem) auto
  qed
  with d show ?thesis
    by (simp add: parse_normalized_worktree_roots_def normalize_worktree_root_list_def worktree_root_loop_canonical)
qed

theorem worktree_roots_write_read_witness:
  "parse_normalized_worktree_roots ''/srv/main'' (Some (PyList (map PyStr [''/srv/wt'', ''/srv/x'']))) =
     Inr [''/srv/wt'', ''/srv/x'']"
proof -
  have 1: "normalize_worktree_root_list ''/srv/main'' True [PyStr ''/srv//wt'', PyStr ''/srv/x/'', PyStr ''/srv/wt''] =
    Inr [''/srv/wt'', ''/srv/x'']" by code_simp
  have 2: "normalize_worktree_path ''/srv/main'' = Inr ''/srv/main''" by code_simp
  have 3: "path_flavour ''/srv/main'' = Posix" by code_simp
  have 4: "\<forall>r \<in> set [''/srv/wt'', ''/srv/x'']. strip r = r \<and> bslash \<notin> set r" by code_simp
  from worktree_roots_write_read [OF 1 2 3 4] show ?thesis by blast
qed

text \<open>
  Without that condition the code contradicts itself: a path whose last component
  is dropped can leave trailing white space behind, so the resource that the write
  path builds is rejected by the check of stored resources under the very key that
  was computed for it.
\<close>

theorem built_resource_rejected:
  assumes "hexdigest_shape H"
  shows "\<exists>r. build_worktree_resource ''h1'' ''/srv/wt /.'' = Inr r \<and>
    validate_resource_key_matches H ''worktree'' (wr_host_id r) (wr_normalized_path r) (compute_resource_key H r) =
      raise ResourceIdentityErr ''normalized_path is not canonical''"
proof -
  have 1: "validate_host_id (PyStr ''h1'') = Inr ''h1''" by code_simp
  have 2: "normalize_worktree_path ''/srv/wt /.'' = Inr ''/srv/wt ''" by code_simp
  have 3: "normalize_worktree_path ''/srv/wt '' = Inr ''/srv/wt''" by code_simp
  show ?thesis
    using assms by (simp add: build_worktree_resource_def 1 2 3 validate_resource_key_matches_def
        compute_resource_key_def digest_of_shape)
qed

theorem built_resource_rejected_witness:
  "\<exists>r. build_worktree_resource ''h1'' ''/srv/wt /.'' = Inr r \<and> wr_normalized_path r = ''/srv/wt ''"
proof -
  have "normalize_worktree_path ''/srv/wt /.'' = Inr ''/srv/wt ''" by code_simp
  with built_resource_rejected [OF hexdigest_shape_const] show ?thesis
    by (auto simp: build_worktree_resource_def bindE_eq_Inr)
qed

lemma worktree_resource_eta [simp]:
  "\<lparr>wr_host_id = wr_host_id r, wr_normalized_path = wr_normalized_path r\<rparr> = r"
  by (cases r) simp

lemma built_resource_accepted:
  assumes "hexdigest_shape H" "build_worktree_resource h p = Inr r"
    "path_flavour (wr_normalized_path r) \<noteq> Unc" "strip (wr_normalized_path r) = wr_normalized_path r"
  shows "validate_resource_key_matches H ''worktree'' (wr_host_id r) (wr_normalized_path r)
    (compute_resource_key H r) = Inr ()"
proof -
  from assms(2) have r: "validate_host_id (PyStr h) = Inr (wr_host_id r)"
    "normalize_worktree_path p = Inr (wr_normalized_path r)"
    by (auto simp: build_worktree_resource_def bindE_eq_Inr)
  then have h: "h = wr_host_id r" by (auto simp: validate_host_id_def split: if_splits)
  with r have "validate_host_id (PyStr (wr_host_id r)) = Inr (wr_host_id r)" by simp
  then show ?thesis
  using assms by (simp add: validate_resource_key_matches_def compute_resource_key_def digest_of_shape
      normalize_idem [OF r(2) assms(3,4)])
qed

lemma json_canonical_dict:
  "json (canonical_dict r) = CHR 0x7B # json_str ''contract_version'' @ CHR '':'' # dec_int 1 @ CHR '','' #
     json_str ''host_id'' @ CHR '':'' # json_str (wr_host_id r) @ CHR '','' #
     json_str ''normalized_path'' @ CHR '':'' # json_str (wr_normalized_path r) @ CHR '','' #
     json_str ''resource_kind'' @ CHR '':'' # json_str ''worktree'' @ [CHR 0x7D]"
  by (simp add: canonical_dict_def RESOURCE_CONTRACT_VERSION_def sort_key_def)

lemma canonical_dict_inj: "json (canonical_dict r) = json (canonical_dict s) \<Longrightarrow> r = s"
  unfolding json_canonical_dict by (auto dest!: json_str_unique)

text \<open>
  Two worktrees with the same resource key are the same host and path, or they
  exhibit a collision of SHA-256: leases never exclude distinct worktrees for a reason
  inside this code.
\<close>

theorem resource_key_identifies:
  "compute_resource_key H r = compute_resource_key H s \<longleftrightarrow>
     r = s \<or> (json (canonical_dict r) \<noteq> json (canonical_dict s) \<and> H (json (canonical_dict r)) = H (json (canonical_dict s)))"
  using canonical_dict_inj by (auto simp: compute_resource_key_def digest_of_def)


end
