(* ===== verification/Timestamps.thy ===== *)
theory Timestamps
  imports Prelude
begin

text \<open>
  The time stamps of the program (\<^verbatim>\<open>src/coordinate/db_support.py\<close> \<open>utc_now\<close>,
  \<open>_compute_expires\<close> of \<^verbatim>\<open>execution_leases.py\<close>, \<^verbatim>\<open>agent_liveness.py\<close>): strings
  \<open>YYYY-MM-DDTHH:MM:SSZ\<close>, which the code and its SQL compare as strings. The theory
  gives the calendar arithmetic of \<open>datetime\<close> behind them and shows that comparing the
  strings is comparing the instants, so the other theories keep a time stamp as the
  \<open>int\<close> number of seconds it stands for.
\<close>

section \<open>The calendar of \<open>datetime\<close>\<close>

record civil =
  cyear :: nat
  cmonth :: nat
  cday :: nat
  chour :: nat
  cminute :: nat
  csecond :: nat

definition is_leap :: "nat \<Rightarrow> bool" where
  "is_leap y = (y mod 4 = 0 \<and> (y mod 100 \<noteq> 0 \<or> y mod 400 = 0))"

definition days_before_year :: "nat \<Rightarrow> nat" where
  "days_before_year y = (let z = y - 1 in z * 365 + z div 4 + z div 400 - z div 100)"

definition year_len :: "nat \<Rightarrow> nat" where
  "year_len y = (if is_leap y then 366 else 365)"

definition month_lens :: "nat \<Rightarrow> nat list" where
  "month_lens y = [31, if is_leap y then 29 else 28, 31, 30, 31, 30, 31, 31, 30, 31, 30, 31]"

definition days_before_month :: "nat \<Rightarrow> nat \<Rightarrow> nat" where
  "days_before_month y m = sum_list (take (m - 1) (month_lens y))"

definition ymd2ord :: "nat \<Rightarrow> nat \<Rightarrow> nat \<Rightarrow> nat" where
  "ymd2ord y m d = days_before_year y + days_before_month y m + d"

definition valid_civil :: "civil \<Rightarrow> bool" where
  "valid_civil c = (1 \<le> cyear c \<and> cyear c \<le> 9999 \<and> 1 \<le> cmonth c \<and> cmonth c \<le> 12 \<and>
     1 \<le> cday c \<and> cday c \<le> month_lens (cyear c) ! (cmonth c - 1) \<and>
     chour c \<le> 23 \<and> cminute c \<le> 59 \<and> csecond c \<le> 59)"

definition civil_secs :: "civil \<Rightarrow> nat" where
  "civil_secs c = ((ymd2ord (cyear c) (cmonth c) (cday c) * 24 + chour c) * 60 + cminute c) * 60 + csecond c"

text \<open>\<open>_ord2ymd\<close>: the year by 400-, 100-, 4- and 1-year cycles, then the month.\<close>

fun find_month :: "nat list \<Rightarrow> nat \<Rightarrow> nat \<Rightarrow> nat \<times> nat" where
  "find_month [] m n = (m, n + 1)"
| "find_month (l # ls) m n = (if n < l then (m, n + 1) else find_month ls (Suc m) (n - l))"

definition ord2ymd :: "nat \<Rightarrow> nat \<times> nat \<times> nat" where
  "ord2ymd n0 =
     (let n = n0 - 1; n400 = n div 146097; r400 = n mod 146097;
          n100 = r400 div 36524; r100 = r400 mod 36524;
          n4 = r100 div 1461; r4 = r100 mod 1461; n1 = r4 div 365; r1 = r4 mod 365;
          year = n400 * 400 + 1 + n100 * 100 + n4 * 4 + n1
      in if n1 = 4 \<or> n100 = 4 then (year - 1, 12, 31)
         else (let (m, d) = find_month (month_lens year) 1 r1 in (year, m, d)))"

definition secs_civil :: "nat \<Rightarrow> civil" where
  "secs_civil t =
     (let (y, m, d) = ord2ymd (t div 86400); r = t mod 86400
      in \<lparr>cyear = y, cmonth = m, cday = d, chour = r div 3600, cminute = r mod 3600 div 60, csecond = r mod 60\<rparr>)"

section \<open>ISO strings\<close>

definition dig :: "nat \<Rightarrow> char" where
  "dig n = char_of (48 + n mod 10)"

definition d2 :: "nat \<Rightarrow> string" where
  "d2 n = [dig (n div 10), dig n]"

definition d4 :: "nat \<Rightarrow> string" where
  "d4 n = [dig (n div 1000), dig (n div 100), dig (n div 10), dig n]"

definition iso_civil :: "civil \<Rightarrow> string" where
  "iso_civil c = d4 (cyear c) @ ''-'' @ d2 (cmonth c) @ ''-'' @ d2 (cday c) @ ''T'' @
     d2 (chour c) @ '':'' @ d2 (cminute c) @ '':'' @ d2 (csecond c) @ ''Z''"

text \<open>\<open>.isoformat().replace("+00:00", "Z")\<close> of an instant, without microseconds.\<close>

definition iso_of :: "nat \<Rightarrow> string" where
  "iso_of t = iso_civil (secs_civil t)"

definition undig :: "char \<Rightarrow> nat" where
  "undig c = of_char c - 48"

definition ts_body :: "string \<Rightarrow> bool" where
  "ts_body s = (length s = 20 \<and>
     list_all is_digit (map (nth s) [0, 1, 2, 3, 5, 6, 8, 9, 11, 12, 14, 15, 17, 18]) \<and>
     s ! 4 = CHR ''-'' \<and> s ! 7 = CHR ''-'' \<and> s ! 10 = CHR ''T'' \<and> s ! 13 = CHR '':'' \<and>
     s ! 16 = CHR '':'' \<and> s ! 19 = CHR ''Z'')"

definition num2 :: "string \<Rightarrow> nat \<Rightarrow> nat" where
  "num2 s i = undig (s ! i) * 10 + undig (s ! Suc i)"

definition read_civil :: "string \<Rightarrow> civil" where
  "read_civil s = \<lparr>cyear = num2 s 0 * 100 + num2 s 2, cmonth = num2 s 5, cday = num2 s 8,
     chour = num2 s 11, cminute = num2 s 14, csecond = num2 s 17\<rparr>"

text \<open>
  \<open>datetime.strptime(s, "%Y-%m-%dT%H:%M:%SZ")\<close> on a string that already matched the
  fixed-width pattern: \<open>None\<close> where it raises \<open>ValueError\<close> (a trailing newline, a
  field out of range).
\<close>

definition parse_iso :: "string \<Rightarrow> nat option" where
  "parse_iso s = (if ts_body s \<and> valid_civil (read_civil s) then Some (civil_secs (read_civil s)) else None)"

text \<open>\<open>_compute_expires\<close> on the strings.\<close>

definition compute_expires_iso :: "string \<Rightarrow> nat \<Rightarrow> string option" where
  "compute_expires_iso acquired ttl = map_option (\<lambda>t. iso_of (t + ttl)) (parse_iso acquired)"

section \<open>Days\<close>

lemma Suc_div_step: "0 < n \<Longrightarrow> Suc z div n = z div n + (if Suc z mod n = 0 then 1 else 0)"
  by (simp add: div_Suc mod_Suc)

lemma div_mod_of: "x = q * n + r \<Longrightarrow> r < n \<Longrightarrow> x div n = q \<and> x mod n = (r::nat)"
  by simp

lemma mod_0_mono: "(y::nat) mod 400 = 0 \<Longrightarrow> y mod 100 = 0" "y mod 100 = 0 \<Longrightarrow> y mod 4 = 0"
proof -
  have "(100::nat) dvd 400" "(4::nat) dvd 100" by simp_all
  then show "y mod 400 = 0 \<Longrightarrow> y mod 100 = 0" "y mod 100 = 0 \<Longrightarrow> y mod 4 = 0"
    by (metis dvd_trans mod_eq_0_iff_dvd)+
qed

lemma div_100_le_4: "(z::nat) div 100 \<le> z div 4"
  by (simp add: div_le_mono2)

lemma days_before_year_Suc: "1 \<le> y \<Longrightarrow> days_before_year (Suc y) = days_before_year y + year_len y"
proof -
  assume y: "1 \<le> y"
  then obtain z where z: "y = Suc z" by (cases y) auto
  define q4 q100 q400 where "q4 = z div 4" and "q100 = z div 100" and "q400 = z div 400"
  have le: "q100 \<le> q4" unfolding q4_def q100_def by (rule div_100_le_4)
  have a: "Suc z div 4 = q4 + (if Suc z mod 4 = 0 then 1 else 0)" unfolding q4_def by (rule Suc_div_step) simp
  have b: "Suc z div 100 = q100 + (if Suc z mod 100 = 0 then 1 else 0)" unfolding q100_def by (rule Suc_div_step) simp
  have c: "Suc z div 400 = q400 + (if Suc z mod 400 = 0 then 1 else 0)" unfolding q400_def by (rule Suc_div_step) simp
  have m1: "Suc z mod 400 = 0 \<Longrightarrow> Suc z mod 100 = 0" and m2: "Suc z mod 100 = 0 \<Longrightarrow> Suc z mod 4 = 0"
    by (rule mod_0_mono, assumption)+
  have l: "days_before_year (Suc (Suc z)) =
      Suc z * 365 + (q4 + (if Suc z mod 4 = 0 then 1 else 0)) + (q400 + (if Suc z mod 400 = 0 then 1 else 0))
        - (q100 + (if Suc z mod 100 = 0 then 1 else 0))"
    by (simp only: days_before_year_def Let_def diff_Suc_1 a b c)
  have r: "days_before_year (Suc z) = z * 365 + q4 + q400 - q100"
    by (simp only: days_before_year_def Let_def diff_Suc_1 q4_def q100_def q400_def)
  show ?thesis
    unfolding z l r year_len_def is_leap_def using le m1 m2
    by (cases "Suc z mod 4 = 0"; cases "Suc z mod 100 = 0"; cases "Suc z mod 400 = 0") simp_all
qed

lemma days_before_year_mono: "1 \<le> y \<Longrightarrow> y < y' \<Longrightarrow> days_before_year y + year_len y \<le> days_before_year y'"
proof (induction y')
  case (Suc z)
  then show ?case
    using days_before_year_Suc [of z] days_before_year_Suc [of y] by (cases "y = z") auto
qed simp

lemma month_cases:
  fixes m :: nat
  assumes "1 \<le> m" "m \<le> 12"
  shows "m = 1 \<or> m = 2 \<or> m = 3 \<or> m = 4 \<or> m = 5 \<or> m = 6 \<or> m = 7 \<or> m = 8 \<or> m = 9 \<or> m = 10 \<or> m = 11 \<or> m = 12"
  using assms by presburger

lemma days_before_month_mono:
  assumes "1 \<le> m" "m < m'" "m' \<le> 12"
  shows "days_before_month y m + month_lens y ! (m - 1) \<le> days_before_month y m'"
  using month_cases [of m] month_cases [of m'] assms
  by (auto simp: days_before_month_def month_lens_def)

lemma days_in_year:
  assumes "1 \<le> m" "m \<le> 12"
  shows "days_before_month y m + month_lens y ! (m - 1) \<le> year_len y"
  using month_cases [OF assms] by (auto simp: days_before_month_def month_lens_def year_len_def)

lemma ymd2ord_less:
  assumes v: "1 \<le> y" "1 \<le> m" "m \<le> 12" "d \<le> month_lens y ! (m - 1)" "1 \<le> m'" "m' \<le> 12" "1 \<le> d'"
    and lt: "y < y' \<or> (y = y' \<and> (m < m' \<or> (m = m' \<and> d < d')))"
  shows "ymd2ord y m d < ymd2ord y' m' d'"
  using lt
proof (elim disjE conjE)
  assume "y < y'"
  then show ?thesis
    using days_before_year_mono [OF v(1)] days_in_year [OF v(2,3), of y] v by (fastforce simp: ymd2ord_def)
next
  assume "y = y'" "m < m'"
  then show ?thesis using days_before_month_mono [OF v(2) _ v(6), of y] v by (fastforce simp: ymd2ord_def)
qed (simp add: ymd2ord_def)

definition civil_less :: "civil \<Rightarrow> civil \<Rightarrow> bool" where
  "civil_less a b =
     (cyear a < cyear b \<or> cyear a = cyear b \<and> (cmonth a < cmonth b \<or> cmonth a = cmonth b \<and>
       (cday a < cday b \<or> cday a = cday b \<and> (chour a < chour b \<or> chour a = chour b \<and>
         (cminute a < cminute b \<or> cminute a = cminute b \<and> csecond a < csecond b)))))"

lemma radix_less: "(a::nat) < b \<Longrightarrow> r < k \<Longrightarrow> a * k + r < b * k + s"
proof -
  assume "a < b" "r < k"
  then have "a * k + r < Suc a * k" by simp
  also have "\<dots> \<le> b * k" using \<open>a < b\<close> by (intro mult_le_mono1) simp
  finally show ?thesis by simp
qed

lemma radix_lex:
  "(a::nat) < b \<or> a = b \<and> (r < s \<or> r = s \<and> P) \<Longrightarrow> r < k \<Longrightarrow> a * k + r < b * k + s \<or> a * k + r = b * k + s \<and> P"
  by (auto intro: radix_less)

lemma civil_less_secs:
  assumes "valid_civil a" "valid_civil b" "civil_less a b"
  shows "civil_secs a < civil_secs b"
proof -
  let ?da = "ymd2ord (cyear a) (cmonth a) (cday a)" and ?db = "ymd2ord (cyear b) (cmonth b) (cday b)"
  have "?da < ?db \<or> ?da = ?db \<and> (chour a < chour b \<or> chour a = chour b \<and>
         (cminute a < cminute b \<or> cminute a = cminute b \<and> csecond a < csecond b))"
    using assms ymd2ord_less [of "cyear a" "cmonth a" "cday a" "cmonth b" "cday b" "cyear b"]
    by (auto simp: civil_less_def valid_civil_def)
  moreover have b: "chour a < 24" "cminute a < 60" "csecond a < 60"
    using assms(1) by (simp_all add: valid_civil_def)
  ultimately have "?da < ?db \<or> ?da = ?db \<and> (chour a < chour b \<or> chour a = chour b \<and>
      (cminute a < cminute b \<or> cminute a = cminute b \<and> (csecond a < csecond b \<or> csecond a = csecond b \<and> False)))"
    by simp
  from radix_lex [OF radix_lex [OF radix_lex [OF this b(1)] b(2)] b(3)] show ?thesis
    unfolding civil_secs_def by simp
qed

lemma lex_total: "\<not> ((a::nat) < b \<or> a = b \<and> P) \<Longrightarrow> \<not> (b < a \<or> b = a \<and> Q) \<Longrightarrow> a = b \<and> \<not> P \<and> \<not> Q"
  by auto

lemma civil_less_total: "a \<noteq> b \<Longrightarrow> civil_less a b \<or> civil_less b a"
proof (rule ccontr)
  assume "a \<noteq> b" "\<not> (civil_less a b \<or> civil_less b a)"
  then have n: "\<not> civil_less a b" "\<not> civil_less b a" by simp_all
  note y = lex_total [OF n [unfolded civil_less_def]]
  note m = lex_total [OF y [THEN conjunct2, THEN conjunct1] y [THEN conjunct2, THEN conjunct2]]
  note d = lex_total [OF m [THEN conjunct2, THEN conjunct1] m [THEN conjunct2, THEN conjunct2]]
  note h = lex_total [OF d [THEN conjunct2, THEN conjunct1] d [THEN conjunct2, THEN conjunct2]]
  note i = lex_total [OF h [THEN conjunct2, THEN conjunct1] h [THEN conjunct2, THEN conjunct2]]
  from y m d h i have "a = b" by (intro civil.equality) auto
  with \<open>a \<noteq> b\<close> show False by simp
qed

lemma civil_secs_less_iff:
  assumes "valid_civil a" "valid_civil b"
  shows "civil_secs a < civil_secs b \<longleftrightarrow> civil_less a b"
  using assms civil_less_secs [of a b] civil_less_secs [of b a] civil_less_total [of a b] by fastforce

lemma civil_secs_inj: "valid_civil a \<Longrightarrow> valid_civil b \<Longrightarrow> civil_secs a = civil_secs b \<Longrightarrow> a = b"
  using civil_less_secs [of a b] civil_less_secs [of b a] civil_less_total [of a b] by fastforce

section \<open>The inverse calendar\<close>

lemma find_month_sum:
  assumes "n < sum_list ls" "find_month ls m n = (m', d)"
  shows "m \<le> m' \<and> m' < m + length ls \<and> sum_list (take (m' - m) ls) + d = n + 1 \<and> 1 \<le> d \<and> d \<le> ls ! (m' - m)"
  using assms
proof (induction ls m n rule: find_month.induct)
  case (2 l ls m n)
  show ?case
  proof (cases "n < l")
    case False
    with "2.prems" have p: "n - l < sum_list ls" "find_month ls (Suc m) (n - l) = (m', d)" by auto
    from "2.IH" [OF False p] have ih: "Suc m \<le> m'" "m' < Suc m + length ls"
      "sum_list (take (m' - Suc m) ls) + d = n - l + 1" "1 \<le> d" "d \<le> ls ! (m' - Suc m)" by auto
    then have "m' - m = Suc (m' - Suc m)" by simp
    with ih False show ?thesis by simp
  qed (use "2.prems" in auto)
qed simp

lemma sum_month_lens: "sum_list (month_lens y) = year_len y"
  by (simp add: month_lens_def year_len_def)

lemma year_of_cycles:
  fixes a b c e :: nat
  assumes "b \<le> 3" "c \<le> 24" "e \<le> 3"
  defines "y \<equiv> a * 400 + 1 + b * 100 + c * 4 + e"
  shows "days_before_year y = a * 146097 + b * 36524 + c * 1461 + e * 365"
    and "is_leap y \<longleftrightarrow> e = 3 \<and> (c \<noteq> 24 \<or> b = 3)"
proof -
  have z: "y - 1 = a * 400 + b * 100 + c * 4 + e" by (simp add: y_def)
  have "(y - 1) div 4 = a * 100 + b * 25 + c \<and> (y - 1) mod 4 = e"
    unfolding z by (rule div_mod_of) (use assms(3) in simp_all)
  then have d4: "(y - 1) div 4 = a * 100 + b * 25 + c" ..
  have "(y - 1) div 100 = a * 4 + b \<and> (y - 1) mod 100 = c * 4 + e"
    unfolding z by (rule div_mod_of) (use assms(2,3) in simp_all)
  then have d100: "(y - 1) div 100 = a * 4 + b" ..
  have "(y - 1) div 400 = a \<and> (y - 1) mod 400 = b * 100 + c * 4 + e"
    unfolding z by (rule div_mod_of) (use assms(1-3) in simp_all)
  then have d400: "(y - 1) div 400 = a" ..
  show "days_before_year y = a * 146097 + b * 36524 + c * 1461 + e * 365"
    unfolding days_before_year_def Let_def d4 d100 d400 unfolding z by simp
  have zn: "y = Suc (y - 1)" by (simp add: y_def)
  have m4: "y mod 4 = 0 \<longleftrightarrow> e = 3"
    using \<open>_ \<and> (y - 1) mod 4 = e\<close> assms(3) by (subst zn) (simp add: mod_Suc)
  have m100: "y mod 100 = 0 \<longleftrightarrow> e = 3 \<and> c = 24"
    using \<open>_ \<and> (y - 1) mod 100 = c * 4 + e\<close> assms(2,3) by (subst zn) (auto simp: mod_Suc)
  have m400: "y mod 400 = 0 \<longleftrightarrow> e = 3 \<and> c = 24 \<and> b = 3"
    using \<open>_ \<and> (y - 1) mod 400 = b * 100 + c * 4 + e\<close> assms(1-3) by (subst zn) (auto simp: mod_Suc)
  show "is_leap y \<longleftrightarrow> e = 3 \<and> (c \<noteq> 24 \<or> b = 3)" unfolding is_leap_def m4 m100 m400 by blast
qed

definition valid_ymd :: "nat \<Rightarrow> nat \<Rightarrow> nat \<Rightarrow> bool" where
  "valid_ymd y m d = (1 \<le> y \<and> 1 \<le> m \<and> m \<le> 12 \<and> 1 \<le> d \<and> d \<le> month_lens y ! (m - 1))"

lemma december: "days_before_month y 12 = year_len y - 31" "month_lens y ! (12 - 1) = 31"
  by (simp_all add: days_before_month_def month_lens_def year_len_def)

lemma ord2ymd_cycles:
  assumes n: "n = a * 146097 + b * 36524 + c * 1461 + e * 365 + r1 + 1"
    and r: "b * 36524 + c * 1461 + e * 365 + r1 < 146097" "c * 1461 + e * 365 + r1 < 36524"
      "e * 365 + r1 < 1461" "r1 < 365"
  shows "ord2ymd n = (let year = a * 400 + 1 + b * 100 + c * 4 + e in
     if e = 4 \<or> b = 4 then (year - 1, 12, 31)
     else (let (m, d) = find_month (month_lens year) 1 r1 in (year, m, d)))"
proof -
  have 1: "(n - 1) div 146097 = a" "(n - 1) mod 146097 = b * 36524 + c * 1461 + e * 365 + r1"
    using div_mod_of [of "n - 1" a 146097 "b * 36524 + c * 1461 + e * 365 + r1"] r(1) by (simp_all add: n)
  have 2: "(b * 36524 + c * 1461 + e * 365 + r1) div 36524 = b"
    "(b * 36524 + c * 1461 + e * 365 + r1) mod 36524 = c * 1461 + e * 365 + r1"
    using div_mod_of [of "b * 36524 + c * 1461 + e * 365 + r1" b 36524 "c * 1461 + e * 365 + r1"] r(2)
    by (simp_all only: add.assoc simp_thms)
  have 3: "(c * 1461 + e * 365 + r1) div 1461 = c" "(c * 1461 + e * 365 + r1) mod 1461 = e * 365 + r1"
    using div_mod_of [of "c * 1461 + e * 365 + r1" c 1461 "e * 365 + r1"] r(3)
    by (simp_all only: add.assoc simp_thms)
  have 4: "(e * 365 + r1) div 365 = e" "(e * 365 + r1) mod 365 = r1"
    using div_mod_of [of _ e 365 r1] r(4) by simp_all
  show ?thesis unfolding ord2ymd_def Let_def 1 2 3 4 by simp
qed

lemma ord2ymd_correct:
  assumes "1 \<le> n"
  shows "case ord2ymd n of (y, m, d) \<Rightarrow> ymd2ord y m d = n \<and> valid_ymd y m d"
proof -
  define k where "k = n - 1"
  define a where "a = k div 146097"
  define b where "b = k mod 146097 div 36524"
  define c where "c = k mod 146097 mod 36524 div 1461"
  define e where "e = k mod 146097 mod 36524 mod 1461 div 365"
  define r1 where "r1 = k mod 146097 mod 36524 mod 1461 mod 365"
  have e4: "k mod 146097 mod 36524 mod 1461 = e * 365 + r1" by (simp add: e_def r1_def)
  then have e3: "k mod 146097 mod 36524 = c * 1461 + e * 365 + r1"
    using div_mult_mod_eq [of "k mod 146097 mod 36524" 1461] by (simp add: c_def)
  then have e2: "k mod 146097 = b * 36524 + c * 1461 + e * 365 + r1"
    using div_mult_mod_eq [of "k mod 146097" 36524] by (simp add: b_def)
  then have k: "k = a * 146097 + b * 36524 + c * 1461 + e * 365 + r1"
    using div_mult_mod_eq [of k 146097] by (simp add: a_def)
  with assms have n: "n = a * 146097 + b * 36524 + c * 1461 + e * 365 + r1 + 1" by (simp add: k_def)
  have r: "b * 36524 + c * 1461 + e * 365 + r1 < 146097" "c * 1461 + e * 365 + r1 < 36524"
      "e * 365 + r1 < 1461" "r1 < 365"
    unfolding e2 [symmetric] e3 [symmetric] e4 [symmetric] by (simp_all add: r1_def)
  from r have le: "b \<le> 4" "c \<le> 24" "e \<le> 4" by linarith+
  let ?y = "a * 400 + 1 + b * 100 + c * 4 + e"
  note o = ord2ymd_cycles [OF n r]
  consider "b = 4" | "b \<noteq> 4" "e = 4" | "b \<noteq> 4" "e \<noteq> 4" by blast
  then show ?thesis
  proof cases
    case 1
    with r(1) have z: "c = 0" "e = 0" "r1 = 0" by linarith+
    have y: "?y - 1 = a * 400 + 1 + 3 * 100 + 24 * 4 + 3" using 1 z by simp
    from o have ord: "ord2ymd n = (?y - 1, 12, 31)" using 1 by (simp add: Let_def)
    note c = year_of_cycles [of 3 24 3 a, simplified]
    show ?thesis unfolding ord y prod.case ymd2ord_def valid_ymd_def december
      using c 1 z n by (simp add: year_len_def)
  next
    case 2
    with r(2,3) have z: "r1 = 0" "c \<noteq> 24" by linarith+
    from 2 have b3: "b \<le> 3" using le by simp
    have y: "?y - 1 = a * 400 + 1 + b * 100 + c * 4 + 3" using 2 by simp
    from o have ord: "ord2ymd n = (?y - 1, 12, 31)" using 2 by (simp add: Let_def)
    note c = year_of_cycles [of b c 3 a, OF b3 le(2), simplified]
    show ?thesis unfolding ord y prod.case ymd2ord_def valid_ymd_def december
      using c 2 z n by (simp add: year_len_def)
  next
    case 3
    then have b3: "b \<le> 3" "e \<le> 3" using le by simp_all
    obtain m d where md: "find_month (month_lens ?y) 1 r1 = (m, d)" by fastforce
    with o 3 have ord: "ord2ymd n = (?y, m, d)" by (simp add: Let_def)
    have "r1 < sum_list (month_lens ?y)" using r(4) by (simp add: sum_month_lens year_len_def)
    from find_month_sum [OF this md] have fm: "1 \<le> m" "m \<le> 12" "days_before_month ?y m + d = r1 + 1" "1 \<le> d"
      "d \<le> month_lens ?y ! (m - 1)" by (auto simp: days_before_month_def month_lens_def)
    show ?thesis unfolding ord prod.case ymd2ord_def valid_ymd_def
      using year_of_cycles(1) [OF b3(1) le(2) b3(2), of a] fm n by simp
  qed
qed

section \<open>Instants and their strings\<close>

text \<open>The instants of the years 1 to 9999, in seconds from the day before 0001-01-01.\<close>

definition in_calendar :: "nat \<Rightarrow> bool" where
  "in_calendar t = (86400 \<le> t \<and> t < 3652060 * 86400)"

lemma secs_civil_inverse:
  assumes "in_calendar t"
  shows "valid_civil (secs_civil t)" "civil_secs (secs_civil t) = t"
proof -
  obtain y m d where o: "ord2ymd (t div 86400) = (y, m, d)" by (cases "ord2ymd (t div 86400)") auto
  have "1 \<le> t div 86400" using div_le_mono [of 86400 t 86400] assms by (simp add: in_calendar_def)
  from ord2ymd_correct [OF this] o have od: "ymd2ord y m d = t div 86400" and v: "valid_ymd y m d" by auto
  have y: "y \<le> 9999"
  proof (rule ccontr)
    assume "\<not> y \<le> 9999"
    then have "days_before_year 10000 \<le> days_before_year y"
      using days_before_year_mono [of 10000 y] by (cases "y = 10000") auto
    moreover have "days_before_year 10000 = 3652059" by (simp add: days_before_year_def)
    ultimately have "3652060 \<le> t div 86400" using od v by (simp add: ymd2ord_def valid_ymd_def)
    then show False using assms less_mult_imp_div_less [of t 3652060 86400] by (simp add: in_calendar_def)
  qed
  have r: "t mod 86400 div 3600 \<le> 23" "t mod 86400 mod 3600 div 60 \<le> 59" "t mod 86400 mod 60 \<le> 59"
  proof -
    have "t mod 86400 < 24 * 3600" by simp
    then have "t mod 86400 div 3600 < 24" by (rule less_mult_imp_div_less)
    then show "t mod 86400 div 3600 \<le> 23" by simp
    have "t mod 86400 mod 3600 < 60 * 60" by simp
    then have "t mod 86400 mod 3600 div 60 < 60" by (rule less_mult_imp_div_less)
    then show "t mod 86400 mod 3600 div 60 \<le> 59" by simp
    have "t mod 86400 mod 60 < 60" by simp
    then show "t mod 86400 mod 60 \<le> 59" by simp
  qed
  show "valid_civil (secs_civil t)"
    using v y r by (simp add: secs_civil_def o valid_civil_def valid_ymd_def Let_def)
  have h: "t mod 86400 = (t mod 86400 div 3600 * 60 + t mod 86400 mod 3600 div 60) * 60 + t mod 86400 mod 60"
  proof -
    have "t mod 86400 mod 3600 mod 60 = t mod 86400 mod 60" by (rule mod_mod_cancel) simp
    then show ?thesis
      using div_mult_mod_eq [of "t mod 86400" 3600] div_mult_mod_eq [of "t mod 86400 mod 3600" 60]
      by (simp only: algebra_simps)
  qed
  have "civil_secs (secs_civil t) = t div 86400 * 86400 +
      ((t mod 86400 div 3600 * 60 + t mod 86400 mod 3600 div 60) * 60 + t mod 86400 mod 60)"
    by (simp add: secs_civil_def o civil_secs_def od Let_def del: mod_mod_cancel)
  also have "\<dots> = t div 86400 * 86400 + t mod 86400" unfolding h [symmetric] ..
  finally have "civil_secs (secs_civil t) = t div 86400 * 86400 + t mod 86400" .
  then show "civil_secs (secs_civil t) = t" by simp
qed

lemma of_char_dig [simp]: "(of_char (dig n) :: nat) = 48 + n mod 10"
proof -
  have "48 + n mod 10 < 256" using mod_less_divisor [of 10 n] by linarith
  then show ?thesis by (simp add: dig_def)
qed

lemma dig_less_iff [simp]: "dig m < dig n \<longleftrightarrow> m mod 10 < n mod 10"
  by (simp add: less_char_def)

lemma dig_eq_iff [simp]: "dig m = dig n \<longleftrightarrow> m mod 10 = n mod 10"
  by (metis add_left_cancel of_char_dig dig_def mod_mod_trivial)

lemma is_digit_dig [simp]: "is_digit (dig n)"
  using mod_less_divisor [of 10 n] by (simp add: is_digit_def)

lemma undig_dig [simp]: "undig (dig n) = n mod 10"
  by (simp add: undig_def)

lemma d2_less_iff:
  assumes "m < 100" "n < 100"
  shows "d2 m @ x < d2 n @ y \<longleftrightarrow> m < n \<or> m = n \<and> x < y"
proof -
  have m: "m = 10 * (m div 10) + m mod 10" and n: "n = 10 * (n div 10) + n mod 10" by simp_all
  have "m div 10 < 10" "n div 10 < 10" using assms by (simp_all add: less_mult_imp_div_less)
  moreover have "m mod 10 < 10" "n mod 10 < 10" by simp_all
  ultimately show ?thesis
    unfolding d2_def by (simp add: less_list_code) (use m n in linarith)
qed

lemma eq10: "(m::nat) = n \<longleftrightarrow> m div 10 = n div 10 \<and> m mod 10 = n mod 10"
  by (metis div_mult_mod_eq)

lemma lex10: "(m::nat) < n \<longleftrightarrow> m div 10 < n div 10 \<or> m div 10 = n div 10 \<and> m mod 10 < n mod 10"
proof (cases "m div 10" "n div 10" rule: linorder_cases)
  case less
  then show ?thesis by (metis div_le_mono leD not_le_imp_less)
next
  case equal
  then show ?thesis by (metis add_less_cancel_left div_mult_mod_eq less_irrefl)
next
  case greater
  then show ?thesis by (metis div_le_mono leD less_imp_le order_less_irrefl)
qed

lemma d4_less_iff:
  assumes "m < 10000" "n < 10000"
  shows "d4 m @ x < d4 n @ y \<longleftrightarrow> m < n \<or> m = n \<and> x < y"
proof -
  have q: "k div 10 div 10 = k div 100" "k div 100 div 10 = k div 1000" for k :: nat
    by (simp_all flip: div_mult2_eq)
  have b: "k div 1000 mod 10 = k div 1000" if "k < 10000" for k :: nat
    using that by (simp add: less_mult_imp_div_less)
  have l: "m < n \<longleftrightarrow> m div 1000 < n div 1000 \<or> m div 1000 = n div 1000 \<and>
      (m div 100 mod 10 < n div 100 mod 10 \<or> m div 100 mod 10 = n div 100 mod 10 \<and>
        (m div 10 mod 10 < n div 10 mod 10 \<or> m div 10 mod 10 = n div 10 mod 10 \<and> m mod 10 < n mod 10))"
    using lex10 [of m n] lex10 [of "m div 10" "n div 10"] lex10 [of "m div 100" "n div 100"]
      eq10 [of "m div 10" "n div 10"] eq10 [of "m div 100" "n div 100"] unfolding q by blast
  have e: "m = n \<longleftrightarrow> m div 1000 = n div 1000 \<and> m div 100 mod 10 = n div 100 mod 10 \<and>
      m div 10 mod 10 = n div 10 mod 10 \<and> m mod 10 = n mod 10"
    using eq10 [of m n] eq10 [of "m div 10" "n div 10"] eq10 [of "m div 100" "n div 100"] unfolding q by blast
  show ?thesis unfolding l e by (auto simp: d4_def b [OF assms(1)] b [OF assms(2)])
qed

lemma valid_civil_bounds:
  assumes "valid_civil c"
  shows "cyear c < 10000" "cmonth c < 100" "cday c < 100" "chour c < 100" "cminute c < 100" "csecond c < 100"
proof -
  have "month_lens (cyear c) ! (cmonth c - 1) \<le> 31"
    using month_cases [of "cmonth c"] assms by (auto simp: valid_civil_def month_lens_def)
  with assms show "cyear c < 10000" "cmonth c < 100" "cday c < 100" "chour c < 100" "cminute c < 100" "csecond c < 100"
    by (auto simp: valid_civil_def)
qed

lemma iso_civil_less_iff:
  assumes "valid_civil a" "valid_civil b"
  shows "iso_civil a < iso_civil b \<longleftrightarrow> civil_less a b"
  using valid_civil_bounds [OF assms(1)] valid_civil_bounds [OF assms(2)]
  by (simp add: iso_civil_def civil_less_def d4_less_iff d2_less_iff)

lemma num2_d2: "n < 100 \<Longrightarrow> n div 10 mod 10 * 10 + n mod 10 = (n::nat)"
  by (simp add: less_mult_imp_div_less)

lemma num4_d4: "1000 * (n div 1000) + n div 100 mod 10 * 100 + (n div 10 mod 10 * 10 + n mod 10) = (n::nat)"
proof -
  have q: "n div 10 div 10 = n div 100" "n div 100 div 10 = n div 1000" by (simp_all flip: div_mult2_eq)
  show ?thesis
    using div_mult_mod_eq [of n 10] div_mult_mod_eq [of "n div 10" 10] div_mult_mod_eq [of "n div 100" 10]
    unfolding q by linarith
qed

lemma read_iso_civil:
  assumes "valid_civil c"
  shows "read_civil (iso_civil c) = c"
  using valid_civil_bounds [OF assms]
  by (cases c) (simp add: read_civil_def iso_civil_def d4_def d2_def num2_def nth_append num2_d2 num4_d4
      del: mod_mult_self4 mult_Suc_right)

lemma ts_body_iso [simp]: "ts_body (iso_civil c)"
  by (simp add: ts_body_def iso_civil_def d4_def d2_def nth_append)

lemma parse_iso_civil: "valid_civil c \<Longrightarrow> parse_iso (iso_civil c) = Some (civil_secs c)"
  by (simp add: parse_iso_def read_iso_civil)

lemma valid_civil_in_calendar:
  assumes "valid_civil c"
  shows "in_calendar (civil_secs c)"
proof -
  let ?n = "ymd2ord (cyear c) (cmonth c) (cday c)"
  have m: "1 \<le> cmonth c" "cmonth c \<le> 12" and y: "1 \<le> cyear c" "cyear c \<le> 9999"
    and d: "1 \<le> cday c" "cday c \<le> month_lens (cyear c) ! (cmonth c - 1)"
    and t: "chour c \<le> 23" "cminute c \<le> 59" "csecond c \<le> 59"
    using assms by (simp_all add: valid_civil_def)
  have "days_before_year (cyear c) + year_len (cyear c) \<le> days_before_year 10000"
    by (rule days_before_year_mono) (use y in simp_all)
  also have "days_before_year 10000 = 3652059" by (simp add: days_before_year_def)
  finally have "?n \<le> 3652059" using days_in_year [OF m, of "cyear c"] d by (simp add: ymd2ord_def)
  moreover have "1 \<le> ?n" using d by (simp add: ymd2ord_def)
  moreover have "(chour c * 60 + cminute c) * 60 + csecond c < 86400" using t unfolding add_mult_distrib by linarith
  ultimately have "86400 \<le> ?n * 86400 + ((chour c * 60 + cminute c) * 60 + csecond c)"
    "?n * 86400 + ((chour c * 60 + cminute c) * 60 + csecond c) < 3652060 * 86400" by linarith+
  moreover have "civil_secs c = ?n * 86400 + ((chour c * 60 + cminute c) * 60 + csecond c)"
    by (simp add: civil_secs_def algebra_simps)
  ultimately show ?thesis by (simp add: in_calendar_def)
qed

lemma secs_civil_of:
  assumes "valid_civil c" shows "secs_civil (civil_secs c) = c"
proof -
  have v: "valid_civil (secs_civil (civil_secs c))" "civil_secs (secs_civil (civil_secs c)) = civil_secs c"
    using secs_civil_inverse [OF valid_civil_in_calendar [OF assms]] by simp_all
  show ?thesis by (rule civil_secs_inj [OF v(1) assms v(2)])
qed

lemma parse_iso_of: "in_calendar t \<Longrightarrow> parse_iso (iso_of t) = Some t"
  using secs_civil_inverse [of t] by (simp add: iso_of_def parse_iso_civil)

lemma parse_iso_in_calendar: "parse_iso s = Some t \<Longrightarrow> in_calendar t"
  by (auto simp: parse_iso_def valid_civil_in_calendar split: if_splits)

lemma iso_of_less_iff: "in_calendar s \<Longrightarrow> in_calendar t \<Longrightarrow> iso_of s < iso_of t \<longleftrightarrow> s < t"
  using secs_civil_inverse [of s] secs_civil_inverse [of t]
  by (simp add: iso_of_def iso_civil_less_iff flip: civil_secs_less_iff)

section \<open>Properties\<close>

text \<open>
  Comparing two time stamps as strings, as the SQL of the lease table and the
  Python code do, is comparing the instants they stand for.
\<close>

theorem timestamp_string_order:
  assumes "in_calendar s" "in_calendar t"
  shows "(iso_of s < iso_of t \<longleftrightarrow> s < t) \<and> (iso_of s \<le> iso_of t \<longleftrightarrow> s \<le> t) \<and> (iso_of s = iso_of t \<longleftrightarrow> s = t)"
  using iso_of_less_iff [OF assms] iso_of_less_iff [OF assms(2,1)] by (auto simp: not_less [symmetric])

theorem timestamp_string_order_witness: "iso_of 86400 < iso_of 90061"
  using timestamp_string_order [of 86400 90061] by (simp add: in_calendar_def)

text \<open>
  \<open>_compute_expires\<close> on a well-formed time stamp yields the time stamp exactly
  \<open>ttl\<close> seconds later, which reads back as that instant and is later as a string
  whenever the TTL is positive.
\<close>

theorem compute_expires_adds_ttl:
  assumes "parse_iso acquired = Some t" "in_calendar (t + ttl)"
  shows "\<exists>e. compute_expires_iso acquired ttl = Some e \<and> parse_iso e = Some (t + ttl) \<and>
    (0 < ttl \<longrightarrow> iso_of t < e)"
  using assms iso_of_less_iff [OF parse_iso_in_calendar [OF assms(1)] assms(2)] parse_iso_of [OF assms(2)]
  by (simp add: compute_expires_iso_def)

theorem compute_expires_adds_ttl_witness:
  "\<exists>e. compute_expires_iso ''2024-02-28T23:59:30Z'' 60 = Some e \<and> iso_of 63844847970 < e"
proof -
  have 1: "parse_iso ''2024-02-28T23:59:30Z'' = Some 63844847970"
    by (simp add: parse_iso_def ts_body_def is_digit_def read_civil_def num2_def undig_def valid_civil_def
        month_lens_def is_leap_def civil_secs_def ymd2ord_def days_before_year_def days_before_month_def Let_def)
  have 2: "in_calendar (63844847970 + 60)" by (simp add: in_calendar_def)
  from compute_expires_adds_ttl [OF 1 2] show ?thesis by auto
qed

end
