(* ===== verification/Envelope.thy ===== *)
theory Envelope
  imports Resources Timestamps
begin

text \<open>
  \<^verbatim>\<open>src/coordinate/lease_envelope.py\<close>: the strict parser of the v1 \<open>execution_lease\<close>
  envelope, the contract between the coordinator and the agents, with its cross-links
  to the execution context and the executor binding; and \<open>build_lease_envelope\<close> of
  \<^verbatim>\<open>execution_leases.py\<close>, which writes the envelopes that it reads.
\<close>

section \<open>Field validators\<close>

definition MIN_TTL_SECONDS :: int where "MIN_TTL_SECONDS = 30"
definition MAX_TTL_SECONDS :: int where "MAX_TTL_SECONDS = 600"
definition MAX_CONCURRENT_JOBS :: int where "MAX_CONCURRENT_JOBS = 32"
definition MAX_LABEL_LEN :: nat where "MAX_LABEL_LEN = 256"
definition LEASE_CONTRACT_VERSION :: int where "LEASE_CONTRACT_VERSION = 1"

definition V1_ENVELOPE_KEYS :: "string list" where
  "V1_ENVELOPE_KEYS = [''contract_version'', ''lease_id'', ''job_id'', ''attempt_token'', ''agent_id'',
     ''runner_profile_id'', ''host_id'', ''resource_kind'', ''resource_key'', ''normalized_path'',
     ''capacity_policy_id'', ''max_concurrent_jobs'', ''acquired_at'', ''expires_at'', ''server_now'',
     ''ttl_seconds'', ''renew_interval_seconds'']"

record execution_lease =
  el_lease_id :: string
  el_job_id :: string
  el_attempt_token :: int
  el_agent_id :: string
  el_runner_profile_id :: string
  el_host_id :: string
  el_resource_kind :: string
  el_resource_key :: string
  el_normalized_path :: string
  el_capacity_policy_id :: string
  el_max_concurrent_jobs :: int
  el_acquired_at :: string
  el_expires_at :: string
  el_server_now :: string
  el_ttl_seconds :: int
  el_renew_interval_seconds :: int

definition env_isabs :: "string \<Rightarrow> bool" where
  "env_isabs p =
     (startswith p [slash] \<or>
      (length p \<ge> 3 \<and> is_alpha (p ! 0) \<and> p ! 1 = CHR '':'' \<and> (p ! 2 = bslash \<or> p ! 2 = slash)) \<or>
      startswith p [bslash, bslash] \<or> startswith p [slash, slash])"

definition env_required_string :: "string \<Rightarrow> pyval \<Rightarrow> string result" where
  "env_required_string label v =
     (case as_str v of
        None \<Rightarrow> raise LeaseEnvelopeErr (label @ '' is required'')
      | Some s \<Rightarrow>
          if s = [] then raise LeaseEnvelopeErr (label @ '' is required'')
          else if strip s = [] then raise LeaseEnvelopeErr (label @ '' must be a non-empty string'')
          else Inr s)"

definition env_bounded_label :: "string \<Rightarrow> pyval \<Rightarrow> string result" where
  "env_bounded_label label v = bindE (env_required_string label v) (\<lambda>s.
     if length s > MAX_LABEL_LEN then raise LeaseEnvelopeErr (label @ '' exceeds characters'')
     else if \<not> re_match safe_label_body s then
       raise LeaseEnvelopeErr (label @ '' contains unsafe characters'')
     else Inr s)"

definition lease_id_body :: "string \<Rightarrow> bool" where
  "lease_id_body s = (length s = 36 \<and>
     list_all (\<lambda>i. if i = 8 \<or> i = 13 \<or> i = 18 \<or> i = 23 then s ! i = CHR ''-'' else is_lower_hex (s ! i)) [0..<36])"

definition env_lease_id :: "pyval \<Rightarrow> string result" where
  "env_lease_id v = bindE (env_required_string ''lease_id'' v) (\<lambda>s.
     if \<not> re_match lease_id_body s then raise LeaseEnvelopeErr ''lease_id must be a lowercase UUID''
     else Inr s)"

definition env_digest :: "string \<Rightarrow> pyval \<Rightarrow> string result" where
  "env_digest label v = bindE (env_required_string label v) (\<lambda>s.
     if \<not> re_match digest_body s then raise LeaseEnvelopeErr (label @ '' must be sha256:<64-hex>'')
     else Inr s)"

text \<open>The string stays the value; \<open>parse_iso\<close> is what \<open>strptime\<close> accepts.\<close>

definition env_timestamp :: "string \<Rightarrow> pyval \<Rightarrow> string result" where
  "env_timestamp label v = bindE (env_required_string label v) (\<lambda>s.
     if \<not> re_match ts_body s then
       raise LeaseEnvelopeErr (label @ '' must be ISO-UTC timestamp ending in Z'')
     else if parse_iso s = None then
       raise LeaseEnvelopeErr (label @ '' is not a valid timestamp'')
     else Inr s)"

definition env_path :: "string \<Rightarrow> pyval \<Rightarrow> string result" where
  "env_path label v = bindE (env_required_string label v) (\<lambda>s.
     if List.member s (CHR 0x00) \<or> List.member s (CHR 0x0A) \<or> List.member s (CHR 0x0D) then
       raise LeaseEnvelopeErr (label @ '' contains NUL or newline'')
     else if \<not> env_isabs s then raise LeaseEnvelopeErr (label @ '' must be absolute'')
     else if has_traversal_segments s then
       raise LeaseEnvelopeErr (label @ '' contains traversal'')
     else Inr s)"

definition env_positive_int :: "string \<Rightarrow> pyval \<Rightarrow> int result" where
  "env_positive_int label v =
     (case as_int v of
        None \<Rightarrow> raise LeaseEnvelopeErr (label @ '' must be an integer'')
      | Some i \<Rightarrow> if i \<le> 0 then raise LeaseEnvelopeErr (label @ '' must be positive'') else Inr i)"

definition env_ttl :: "pyval \<Rightarrow> int result" where
  "env_ttl v = bindE (env_positive_int ''ttl_seconds'' v) (\<lambda>ttl.
     if ttl < MIN_TTL_SECONDS \<or> ttl > MAX_TTL_SECONDS then
       raise LeaseEnvelopeErr ''ttl_seconds must be between bounds''
     else Inr ttl)"

definition env_max_concurrent_jobs :: "pyval \<Rightarrow> int result" where
  "env_max_concurrent_jobs v = bindE (env_positive_int ''max_concurrent_jobs'' v) (\<lambda>n.
     if n > MAX_CONCURRENT_JOBS then raise LeaseEnvelopeErr ''max_concurrent_jobs must be <= bound''
     else Inr n)"

definition env_contract_version :: "pyval \<Rightarrow> int result" where
  "env_contract_version v =
     (case as_int v of
        None \<Rightarrow> raise LeaseEnvelopeErr ''contract_version must be an integer''
      | Some i \<Rightarrow> if i \<noteq> LEASE_CONTRACT_VERSION then
          raise LeaseEnvelopeErr ''execution_lease contract_version is not supported'' else Inr i)"

definition env_resource_kind :: "pyval \<Rightarrow> string result" where
  "env_resource_kind v = bindE (env_required_string ''resource_kind'' v) (\<lambda>s.
     if s \<noteq> ''worktree'' then raise LeaseEnvelopeErr ''resource_kind must be worktree'' else Inr s)"

section \<open>Parsing\<close>

text \<open>The consistency checks between the fields, after every field is valid.\<close>

definition env_consistent :: "execution_lease \<Rightarrow> unit result" where
  "env_consistent l =
     (if el_renew_interval_seconds l \<ge> el_ttl_seconds l then
        raise LeaseEnvelopeErr ''renew_interval_seconds must be < ttl_seconds''
      else
        (let acquired = int (the (parse_iso (el_acquired_at l)));
             expires = int (the (parse_iso (el_expires_at l)));
             server = int (the (parse_iso (el_server_now l)))
         in if expires \<le> acquired then raise LeaseEnvelopeErr ''expires_at must be after acquired_at''
            else if expires - acquired \<noteq> el_ttl_seconds l then
              raise LeaseEnvelopeErr ''ttl_seconds does not match acquired_at/expires_at interval''
            else if server < acquired then
              raise LeaseEnvelopeErr ''server_now must not be before acquired_at''
            else if server \<ge> expires then
              raise LeaseEnvelopeErr ''server_now must be before expires_at''
            else Inr ()))"

definition parse_execution_lease :: "pyval \<Rightarrow> execution_lease result" where
  "parse_execution_lease v =
     (case as_dict v of
        None \<Rightarrow> raise LeaseEnvelopeErr ''execution_lease must be an object''
      | Some d \<Rightarrow>
        if dkeys d \<noteq> set V1_ENVELOPE_KEYS then
          raise LeaseEnvelopeErr ''execution_lease has incorrect keys''
        else
        bindE (env_contract_version (dget d ''contract_version'')) (\<lambda>_.
        bindE (env_lease_id (dget d ''lease_id'')) (\<lambda>lease_id.
        bindE (env_required_string ''job_id'' (dget d ''job_id'')) (\<lambda>job_id.
        bindE (env_positive_int ''attempt_token'' (dget d ''attempt_token'')) (\<lambda>attempt_token.
        bindE (env_bounded_label ''agent_id'' (dget d ''agent_id'')) (\<lambda>agent_id.
        bindE (env_bounded_label ''runner_profile_id'' (dget d ''runner_profile_id'')) (\<lambda>runner.
        bindE (env_bounded_label ''host_id'' (dget d ''host_id'')) (\<lambda>host_id.
        bindE (env_resource_kind (dget d ''resource_kind'')) (\<lambda>kind.
        bindE (env_digest ''resource_key'' (dget d ''resource_key'')) (\<lambda>key.
        bindE (env_path ''normalized_path'' (dget d ''normalized_path'')) (\<lambda>path.
        bindE (env_digest ''capacity_policy_id'' (dget d ''capacity_policy_id'')) (\<lambda>policy.
        bindE (env_max_concurrent_jobs (dget d ''max_concurrent_jobs'')) (\<lambda>mcj.
        bindE (env_timestamp ''acquired_at'' (dget d ''acquired_at'')) (\<lambda>acquired.
        bindE (env_timestamp ''expires_at'' (dget d ''expires_at'')) (\<lambda>expires.
        bindE (env_timestamp ''server_now'' (dget d ''server_now'')) (\<lambda>server_now.
        bindE (env_ttl (dget d ''ttl_seconds'')) (\<lambda>ttl.
        bindE (env_positive_int ''renew_interval_seconds'' (dget d ''renew_interval_seconds'')) (\<lambda>renew.
        let l = \<lparr>el_lease_id = lease_id, el_job_id = job_id, el_attempt_token = attempt_token,
                 el_agent_id = agent_id, el_runner_profile_id = runner, el_host_id = host_id,
                 el_resource_kind = kind, el_resource_key = key, el_normalized_path = path,
                 el_capacity_policy_id = policy, el_max_concurrent_jobs = mcj,
                 el_acquired_at = acquired, el_expires_at = expires, el_server_now = server_now,
                 el_ttl_seconds = ttl, el_renew_interval_seconds = renew\<rparr>
        in bindE (env_consistent l) (\<lambda>_. Inr l)))))))))))))))))))"

text \<open>\<open>build_lease_envelope\<close>: the dict it writes, from the values of one lease row.\<close>

definition build_lease_envelope :: "execution_lease \<Rightarrow> pyval" where
  "build_lease_envelope l = PyDict
     [(''contract_version'', PyInt LEASE_CONTRACT_VERSION), (''lease_id'', PyStr (el_lease_id l)),
      (''job_id'', PyStr (el_job_id l)), (''attempt_token'', PyInt (el_attempt_token l)),
      (''agent_id'', PyStr (el_agent_id l)), (''runner_profile_id'', PyStr (el_runner_profile_id l)),
      (''host_id'', PyStr (el_host_id l)), (''resource_kind'', PyStr (el_resource_kind l)),
      (''resource_key'', PyStr (el_resource_key l)), (''normalized_path'', PyStr (el_normalized_path l)),
      (''capacity_policy_id'', PyStr (el_capacity_policy_id l)),
      (''max_concurrent_jobs'', PyInt (el_max_concurrent_jobs l)),
      (''acquired_at'', PyStr (el_acquired_at l)), (''expires_at'', PyStr (el_expires_at l)),
      (''server_now'', PyStr (el_server_now l)), (''ttl_seconds'', PyInt (el_ttl_seconds l)),
      (''renew_interval_seconds'', PyInt (el_renew_interval_seconds l))]"

section \<open>Cross-links\<close>

text \<open>\<open>d.get(k) != s\<close> for a string \<open>s\<close>.\<close>

definition get_ne :: "(string \<times> pyval) list \<Rightarrow> string \<Rightarrow> string \<Rightarrow> bool" where
  "get_ne d k s = (dget d k \<noteq> PyStr s)"

definition env_check_context :: "execution_lease \<Rightarrow> pyval \<Rightarrow> unit result" where
  "env_check_context l v =
     (if v = PyNone then Inr ()
      else case as_dict v of
        None \<Rightarrow> raise LeaseEnvelopeErr ''execution_context must be a dict for lease cross-check''
      | Some c \<Rightarrow>
          if get_ne c ''job_id'' (el_job_id l) then
            raise LeaseEnvelopeErr ''lease job_id does not match execution_context.job_id''
          else if get_ne c ''assigned_agent'' (el_agent_id l) then
            raise LeaseEnvelopeErr ''lease agent_id does not match execution_context.assigned_agent''
          else if get_ne c ''host_id'' (el_host_id l) then
            raise LeaseEnvelopeErr ''lease host_id does not match execution_context.host_id''
          else if get_ne c ''worktree_path'' (el_normalized_path l) then
            raise LeaseEnvelopeErr ''lease normalized_path does not match execution_context.worktree_path''
          else Inr ())"

definition env_check_binding :: "execution_lease \<Rightarrow> pyval \<Rightarrow> unit result" where
  "env_check_binding l v =
     (if v = PyNone then Inr ()
      else case as_dict v of
        None \<Rightarrow> raise LeaseEnvelopeErr ''executor_binding must be a dict for lease cross-check''
      | Some b \<Rightarrow>
          if get_ne b ''executor_instance_id'' (el_agent_id l) then
            raise LeaseEnvelopeErr ''lease agent_id does not match executor_binding.executor_instance_id''
          else if get_ne b ''runner_profile_id'' (el_runner_profile_id l) then
            raise LeaseEnvelopeErr ''lease runner_profile_id does not match executor_binding.runner_profile_id''
          else Inr ())"

definition validate_execution_lease ::
  "(string \<Rightarrow> string) \<Rightarrow> pyval \<Rightarrow> string option \<Rightarrow> string option \<Rightarrow> int option \<Rightarrow> pyval \<Rightarrow> pyval
   \<Rightarrow> execution_lease result" where
  "validate_execution_lease H data expected_agent expected_job expected_token context binding =
     bindE (parse_execution_lease data) (\<lambda>l.
       if expected_agent \<noteq> None \<and> expected_agent \<noteq> Some (el_agent_id l) then
         raise LeaseEnvelopeErr ''lease agent_id mismatch''
       else if expected_job \<noteq> None \<and> expected_job \<noteq> Some (el_job_id l) then
         raise LeaseEnvelopeErr ''lease job_id mismatch''
       else if expected_token \<noteq> None \<and> expected_token \<noteq> Some (el_attempt_token l) then
         raise LeaseEnvelopeErr ''lease attempt_token mismatch''
       else bindE (reraise ResourceIdentityErr LeaseEnvelopeErr ''invalid resource identity''
                (build_worktree_resource (el_host_id l) (el_normalized_path l))) (\<lambda>r.
         if wr_normalized_path r \<noteq> el_normalized_path l then
           raise LeaseEnvelopeErr ''normalized_path is not canonical''
         else if el_resource_key l \<noteq> compute_resource_key H r then
           raise LeaseEnvelopeErr ''lease resource_key does not match normalized_path''
         else bindE (env_check_context l context) (\<lambda>_.
              bindE (env_check_binding l binding) (\<lambda>_. Inr l))))"

section \<open>What the validators accept\<close>

lemma env_required_string_iff:
  "env_required_string label v = Inr s \<longleftrightarrow> v = PyStr s \<and> strip s \<noteq> []"
  by (cases v) (auto simp: env_required_string_def)

lemma safe_label_not_space: "safe_label_char c \<Longrightarrow> \<not> is_space c"
  by (auto simp: safe_label_char_def is_alpha_def is_digit_def is_space_def sp_chars_def)

lemma safe_label_strip: "safe_label_body t \<Longrightarrow> strip (t @ x) \<noteq> []"
  by (rule strip_ne) (cases t; auto simp: safe_label_body_def dest: safe_label_not_space)

lemma chomp_cases: "chomp s = s \<or> s = chomp s @ [CHR 0x0A]"
proof (cases "s \<noteq> [] \<and> last s = CHR 0x0A")
  case True
  then have "s = butlast s @ [CHR 0x0A]" using append_butlast_last_id [of s] by metis
  with True show ?thesis by (simp add: chomp_def)
next
  case False
  then show ?thesis unfolding chomp_def by metis
qed

lemma re_match_iff:
  assumes "\<And>t. body t \<Longrightarrow> t = [] \<or> last t \<noteq> CHR 0x0A"
  shows "re_match body s \<longleftrightarrow> (\<exists>t. body t \<and> (s = t \<or> s = t @ [CHR 0x0A]))"
proof
  assume "re_match body s"
  then show "\<exists>t. body t \<and> (s = t \<or> s = t @ [CHR 0x0A])"
    using chomp_cases [of s] by (auto simp: re_match_def)
next
  assume "\<exists>t. body t \<and> (s = t \<or> s = t @ [CHR 0x0A])"
  then show "re_match body s" by (auto simp: re_match_def chomp_def)
qed

lemma safe_label_last: "safe_label_body t \<Longrightarrow> t = [] \<or> last t \<noteq> CHR 0x0A"
  by (cases t rule: rev_cases) (auto simp: safe_label_body_def safe_label_char_def is_alpha_def is_digit_def)

lemma env_bounded_label_iff:
  "env_bounded_label label v = Inr s \<longleftrightarrow>
     v = PyStr s \<and> length s \<le> MAX_LABEL_LEN \<and> (\<exists>t. safe_label_body t \<and> (s = t \<or> s = t @ [CHR 0x0A]))"
  using safe_label_strip [of _ "[]"] safe_label_strip
  by (auto simp: env_bounded_label_def bindE_eq_Inr env_required_string_iff
      re_match_iff [OF safe_label_last] not_less)

lemma env_positive_int_iff: "env_positive_int label v = Inr i \<longleftrightarrow> v = PyInt i \<and> 0 < i"
  by (cases v) (auto simp: env_positive_int_def)

lemma env_ttl_iff: "env_ttl v = Inr i \<longleftrightarrow> v = PyInt i \<and> 30 \<le> i \<and> i \<le> 600"
  by (cases v) (auto simp: env_ttl_def env_positive_int_def MIN_TTL_SECONDS_def MAX_TTL_SECONDS_def)

lemma env_mcj_iff: "env_max_concurrent_jobs v = Inr i \<longleftrightarrow> v = PyInt i \<and> 0 < i \<and> i \<le> 32"
  by (cases v) (auto simp: env_max_concurrent_jobs_def env_positive_int_def MAX_CONCURRENT_JOBS_def)

lemma env_version_iff: "env_contract_version v = Inr i \<longleftrightarrow> v = PyInt 1 \<and> i = 1"
  by (cases v) (auto simp: env_contract_version_def LEASE_CONTRACT_VERSION_def)

lemma env_timestamp_iff: "env_timestamp label v = Inr s \<longleftrightarrow> v = PyStr s \<and> strip s \<noteq> [] \<and> parse_iso s \<noteq> None"
  by (auto simp: env_timestamp_def bindE_eq_Inr env_required_string_iff parse_iso_def re_match_def)

lemma env_lease_id_iff: "env_lease_id v = Inr s \<longleftrightarrow> v = PyStr s \<and> strip s \<noteq> [] \<and> re_match lease_id_body s"
  by (auto simp: env_lease_id_def bindE_eq_Inr env_required_string_iff)

lemma env_digest_iff: "env_digest label v = Inr s \<longleftrightarrow> v = PyStr s \<and> strip s \<noteq> [] \<and> re_match digest_body s"
  by (auto simp: env_digest_def bindE_eq_Inr env_required_string_iff)

lemma env_kind_iff: "env_resource_kind v = Inr s \<longleftrightarrow> v = PyStr ''worktree'' \<and> s = ''worktree''"
proof -
  have "strip ''worktree'' \<noteq> []" by code_simp
  then show ?thesis by (auto simp: env_resource_kind_def bindE_eq_Inr env_required_string_iff)
qed

lemma env_path_iff: "env_path label v = Inr s \<longleftrightarrow> v = PyStr s \<and> strip s \<noteq> [] \<and>
    CHR 0x00 \<notin> set s \<and> CHR 0x0A \<notin> set s \<and> CHR 0x0D \<notin> set s \<and> env_isabs s \<and> \<not> has_traversal_segments s"
  by (auto simp: env_path_def bindE_eq_Inr env_required_string_iff)

lemmas env_iffs = env_required_string_iff env_bounded_label_iff env_positive_int_iff env_ttl_iff env_mcj_iff
  env_version_iff env_timestamp_iff env_lease_id_iff env_digest_iff env_kind_iff env_path_iff

text \<open>A well-formed envelope: what the parser's checks say, in one predicate.\<close>

definition env_label :: "string \<Rightarrow> bool" where
  "env_label s \<longleftrightarrow> length s \<le> MAX_LABEL_LEN \<and> (\<exists>t. safe_label_body t \<and> (s = t \<or> s = t @ [CHR 0x0A]))"

definition wf_lease :: "execution_lease \<Rightarrow> bool" where
  "wf_lease l \<longleftrightarrow>
     strip (el_lease_id l) \<noteq> [] \<and> re_match lease_id_body (el_lease_id l) \<and> strip (el_job_id l) \<noteq> [] \<and>
     0 < el_attempt_token l \<and> env_label (el_agent_id l) \<and> env_label (el_runner_profile_id l) \<and>
     env_label (el_host_id l) \<and> el_resource_kind l = ''worktree'' \<and>
     strip (el_resource_key l) \<noteq> [] \<and> re_match digest_body (el_resource_key l) \<and>
     env_path ''normalized_path'' (PyStr (el_normalized_path l)) = Inr (el_normalized_path l) \<and>
     strip (el_capacity_policy_id l) \<noteq> [] \<and> re_match digest_body (el_capacity_policy_id l) \<and>
     0 < el_max_concurrent_jobs l \<and> el_max_concurrent_jobs l \<le> 32 \<and>
     0 < el_renew_interval_seconds l \<and> el_renew_interval_seconds l < el_ttl_seconds l \<and>
     30 \<le> el_ttl_seconds l \<and> el_ttl_seconds l \<le> 600 \<and>
     strip (el_acquired_at l) \<noteq> [] \<and> strip (el_expires_at l) \<noteq> [] \<and> strip (el_server_now l) \<noteq> [] \<and>
     (\<exists>a e n. parse_iso (el_acquired_at l) = Some a \<and> parse_iso (el_expires_at l) = Some e \<and>
        parse_iso (el_server_now l) = Some n \<and> int e = int a + el_ttl_seconds l \<and> a \<le> n \<and> n < e)"

lemma env_consistent_iff:
  assumes "parse_iso (el_acquired_at l) = Some a" "parse_iso (el_expires_at l) = Some e"
    "parse_iso (el_server_now l) = Some n" "0 < el_ttl_seconds l"
  shows "env_consistent l = Inr () \<longleftrightarrow>
    el_renew_interval_seconds l < el_ttl_seconds l \<and> int e = int a + el_ttl_seconds l \<and> a \<le> n \<and> n < e"
  using assms by (auto simp: env_consistent_def Let_def)

section \<open>The envelope is a codec\<close>

lemma dkeys_envelope: "build_lease_envelope l = PyDict d \<Longrightarrow> dkeys d = set V1_ENVELOPE_KEYS"
  by (auto simp: build_lease_envelope_def V1_ENVELOPE_KEYS_def)

lemma env_iso_re: "parse_iso s \<noteq> None \<Longrightarrow> re_match ts_body s"
  by (auto simp: parse_iso_def re_match_def split: if_splits)

lemma parse_wf_lease:
  assumes "wf_lease l"
  shows "parse_execution_lease (build_lease_envelope l) = Inr l"
proof -
  obtain a e n where t: "parse_iso (el_acquired_at l) = Some a" "parse_iso (el_expires_at l) = Some e"
      "parse_iso (el_server_now l) = Some n" "int e = int a + el_ttl_seconds l" "a \<le> n" "n < e"
    using assms unfolding wf_lease_def by blast
  have c: "env_consistent l = Inr ()"
    using t assms by (subst env_consistent_iff [OF t(1-3)]) (auto simp: wf_lease_def)
  have f:
    "env_contract_version (PyInt LEASE_CONTRACT_VERSION) = Inr 1"
    "env_lease_id (PyStr (el_lease_id l)) = Inr (el_lease_id l)"
    "env_required_string ''job_id'' (PyStr (el_job_id l)) = Inr (el_job_id l)"
    "env_positive_int ''attempt_token'' (PyInt (el_attempt_token l)) = Inr (el_attempt_token l)"
    "env_bounded_label ''agent_id'' (PyStr (el_agent_id l)) = Inr (el_agent_id l)"
    "env_bounded_label ''runner_profile_id'' (PyStr (el_runner_profile_id l)) = Inr (el_runner_profile_id l)"
    "env_bounded_label ''host_id'' (PyStr (el_host_id l)) = Inr (el_host_id l)"
    "env_resource_kind (PyStr (el_resource_kind l)) = Inr (el_resource_kind l)"
    "env_digest ''resource_key'' (PyStr (el_resource_key l)) = Inr (el_resource_key l)"
    "env_path ''normalized_path'' (PyStr (el_normalized_path l)) = Inr (el_normalized_path l)"
    "env_digest ''capacity_policy_id'' (PyStr (el_capacity_policy_id l)) = Inr (el_capacity_policy_id l)"
    "env_max_concurrent_jobs (PyInt (el_max_concurrent_jobs l)) = Inr (el_max_concurrent_jobs l)"
    "env_timestamp ''acquired_at'' (PyStr (el_acquired_at l)) = Inr (el_acquired_at l)"
    "env_timestamp ''expires_at'' (PyStr (el_expires_at l)) = Inr (el_expires_at l)"
    "env_timestamp ''server_now'' (PyStr (el_server_now l)) = Inr (el_server_now l)"
    "env_ttl (PyInt (el_ttl_seconds l)) = Inr (el_ttl_seconds l)"
    "env_positive_int ''renew_interval_seconds'' (PyInt (el_renew_interval_seconds l)) =
       Inr (el_renew_interval_seconds l)"
    using assms t
    by (simp_all add: wf_lease_def env_iffs env_label_def LEASE_CONTRACT_VERSION_def)
  show ?thesis
    using f c by (cases l) (simp add: parse_execution_lease_def build_lease_envelope_def
      V1_ENVELOPE_KEYS_def insert_commute Let_def)
qed

lemma parse_sound:
  assumes "parse_execution_lease v = Inr l"
  shows "wf_lease l"
proof -
  obtain d where "v = PyDict d" using assms by (auto simp: parse_execution_lease_def split: option.splits)
  with assms show ?thesis
    apply (cases l)
    apply (simp add: parse_execution_lease_def bindE_eq_Inr Let_def env_iffs split: if_splits)
    apply (elim exE conjE)
    apply (simp add: wf_lease_def env_label_def env_iffs env_consistent_def Let_def split: if_splits)
    apply (intro conjI)
       apply blast+
    done
qed

interpretation lease_codec: codec wf_lease build_lease_envelope parse_execution_lease
  by unfold_locales (rule parse_wf_lease)

section \<open>Properties\<close>

text \<open>
  C29: The writer and the parser of the lease envelope agree exactly: the dict that
  \<open>build_lease_envelope\<close> writes for a lease is parsed back to the same lease if and only
  if every field of the lease is well formed and the three times and the ttl fit together.
\<close>

theorem lease_envelope_roundtrip:
  "parse_execution_lease (build_lease_envelope l) = Inr l \<longleftrightarrow> wf_lease l"
  using parse_sound by (auto intro: lease_codec.decode_encode)

text \<open>
  C35: An accepted envelope is a lease that is running: its ttl is between 30 and 600
  seconds and is the distance from acquisition to expiry, the agent renews strictly within
  it, the server's clock lies inside the lease, and the agent's concurrency is bounded by
  32, whatever value was parsed.
\<close>

theorem parsed_lease_is_live:
  assumes "parse_execution_lease v = Inr l"
  shows "\<exists>a n. parse_iso (el_acquired_at l) = Some a \<and> parse_iso (el_server_now l) = Some n \<and>
    parse_iso (el_expires_at l) = Some (a + nat (el_ttl_seconds l)) \<and>
    a \<le> n \<and> n < a + nat (el_ttl_seconds l) \<and>
    el_ttl_seconds l \<in> {30..600} \<and> el_renew_interval_seconds l \<in> {1..<el_ttl_seconds l} \<and>
    el_max_concurrent_jobs l \<in> {1..32} \<and> 0 < el_attempt_token l"
proof -
  from assms have w: "wf_lease l" by (rule parse_sound)
  then obtain a e n where t: "parse_iso (el_acquired_at l) = Some a" "parse_iso (el_expires_at l) = Some e"
      "parse_iso (el_server_now l) = Some n" "int e = int a + el_ttl_seconds l" "a \<le> n" "n < e"
    unfolding wf_lease_def by blast
  have "e = a + nat (el_ttl_seconds l)" using t(4) w unfolding wf_lease_def by linarith
  with t w show ?thesis unfolding wf_lease_def by auto
qed

definition sample_lease :: execution_lease where
  "sample_lease = \<lparr>el_lease_id = ''01234567-89ab-cdef-0123-456789abcdef'', el_job_id = ''job-1'',
     el_attempt_token = 2, el_agent_id = ''claude.1'', el_runner_profile_id = ''runner_a'',
     el_host_id = ''host-1'', el_resource_kind = ''worktree'',
     el_resource_key = sha256_prefix @ replicate 64 (CHR ''a''), el_normalized_path = slash # ''srv'',
     el_capacity_policy_id = sha256_prefix @ replicate 64 (CHR ''b''), el_max_concurrent_jobs = 4,
     el_acquired_at = ''2024-02-29T23:59:30Z'', el_expires_at = ''2024-03-01T00:00:30Z'',
     el_server_now = ''2024-02-29T23:59:30Z'', el_ttl_seconds = 60, el_renew_interval_seconds = 20\<rparr>"

lemma sample_times:
  "parse_iso ''2024-02-29T23:59:30Z'' = Some 63844934370"
  "parse_iso ''2024-03-01T00:00:30Z'' = Some 63844934430"
  by (simp_all add: parse_iso_def ts_body_def is_digit_def read_civil_def num2_def undig_def valid_civil_def
      month_lens_def is_leap_def civil_secs_def ymd2ord_def days_before_year_def days_before_month_def Let_def)

lemma sample_fields:
  "strip (el_lease_id sample_lease) \<noteq> [] \<and> re_match lease_id_body (el_lease_id sample_lease) \<and>
   strip (el_job_id sample_lease) \<noteq> []"
  "env_bounded_label [] (PyStr (el_agent_id sample_lease)) = Inr (el_agent_id sample_lease)"
  "env_bounded_label [] (PyStr (el_runner_profile_id sample_lease)) = Inr (el_runner_profile_id sample_lease)"
  "env_bounded_label [] (PyStr (el_host_id sample_lease)) = Inr (el_host_id sample_lease)"
  "env_digest [] (PyStr (el_resource_key sample_lease)) = Inr (el_resource_key sample_lease)"
  "env_digest [] (PyStr (el_capacity_policy_id sample_lease)) = Inr (el_capacity_policy_id sample_lease)"
  "env_path ''normalized_path'' (PyStr (el_normalized_path sample_lease)) = Inr (el_normalized_path sample_lease)"
  "strip (el_acquired_at sample_lease) \<noteq> [] \<and> strip (el_expires_at sample_lease) \<noteq> [] \<and>
   strip (el_server_now sample_lease) \<noteq> []"
  by code_simp+

lemma sample_lease_parses: "parse_execution_lease (build_lease_envelope sample_lease) = Inr sample_lease"
proof (rule parse_wf_lease)
  have "\<exists>a e n. parse_iso (el_acquired_at sample_lease) = Some a \<and> parse_iso (el_expires_at sample_lease) = Some e \<and>
      parse_iso (el_server_now sample_lease) = Some n \<and>
      int e = int a + el_ttl_seconds sample_lease \<and> a \<le> n \<and> n < e"
    by (simp add: sample_times sample_lease_def)
  moreover have "0 < el_attempt_token sample_lease" "el_resource_kind sample_lease = ''worktree''"
      "0 < el_max_concurrent_jobs sample_lease" "el_max_concurrent_jobs sample_lease \<le> 32"
      "0 < el_renew_interval_seconds sample_lease"
      "el_renew_interval_seconds sample_lease < el_ttl_seconds sample_lease"
      "30 \<le> el_ttl_seconds sample_lease" "el_ttl_seconds sample_lease \<le> 600"
    by (simp_all add: sample_lease_def)
  ultimately show "wf_lease sample_lease"
    using sample_fields by (simp add: wf_lease_def env_iffs env_label_def)
qed

theorem parsed_lease_is_live_witness:
  "\<exists>a. parse_iso ''2024-02-29T23:59:30Z'' = Some a \<and> parse_iso ''2024-03-01T00:00:30Z'' = Some (a + 60)"
  using parsed_lease_is_live [OF sample_lease_parses] by (auto simp: sample_lease_def)

text \<open>
  Every label that the parser accepts without a trailing newline it also accepts with
  one: the \<open>$\<close> of the pattern of \<open>_bounded_label\<close> matches before a final newline, which the
  class of safe characters was meant to exclude.
\<close>

theorem bounded_label_newline:
  assumes "env_bounded_label label (PyStr s) = Inr s" "length s < MAX_LABEL_LEN" "last s \<noteq> CHR 0x0A"
  shows "env_bounded_label label (PyStr (s @ [CHR 0x0A])) = Inr (s @ [CHR 0x0A])"
proof -
  from assms obtain t where t: "safe_label_body t" "s = t \<or> s = t @ [CHR 0x0A]"
    by (auto simp: env_bounded_label_iff)
  with assms(3) have "s = t" by auto
  with t(1) assms(2) show ?thesis unfolding env_bounded_label_iff by auto
qed

theorem bounded_label_newline_witness:
  "env_bounded_label ''host_id'' (PyStr (''h1'' @ [CHR 0x0A])) = Inr (''h1'' @ [CHR 0x0A])"
  by (rule bounded_label_newline; code_simp)

text \<open>
  A validated envelope is bound to its attempt and to its worktree: agent, job and
  fencing token are the expected ones, the resource key is recomputed from host and path and
  the path is canonical, and where the claim carries an execution context or an executor
  binding, its job, agent, host, worktree path and runner profile are those of the lease.
\<close>

theorem validated_lease_bound:
  assumes "validate_execution_lease H data (Some agent) (Some job) (Some token) context binding = Inr l"
  shows "parse_execution_lease data = Inr l \<and> el_agent_id l = agent \<and> el_job_id l = job \<and>
    el_attempt_token l = token \<and>
    (\<exists>r. build_worktree_resource (el_host_id l) (el_normalized_path l) = Inr r \<and>
       wr_normalized_path r = el_normalized_path l \<and> compute_resource_key H r = el_resource_key l) \<and>
    (\<forall>c. context = PyDict c \<longrightarrow> dget c ''job_id'' = PyStr job \<and> dget c ''assigned_agent'' = PyStr agent \<and>
       dget c ''host_id'' = PyStr (el_host_id l) \<and> dget c ''worktree_path'' = PyStr (el_normalized_path l)) \<and>
    (\<forall>b. binding = PyDict b \<longrightarrow> dget b ''executor_instance_id'' = PyStr agent \<and>
       dget b ''runner_profile_id'' = PyStr (el_runner_profile_id l))"
  using assms
  by (auto simp: validate_execution_lease_def env_check_context_def env_check_binding_def get_ne_def
      split: if_splits)

definition sample_H :: "string \<Rightarrow> string" where "sample_H s = replicate 64 (CHR ''a'')"

theorem validated_lease_bound_witness:
  "\<exists>r. build_worktree_resource ''host-1'' (slash # ''srv'') = Inr r \<and>
     compute_resource_key sample_H r = sha256_prefix @ replicate 64 (CHR ''a'')"
proof -
  have "validate_execution_lease sample_H (build_lease_envelope sample_lease) (Some ''claude.1'')
      (Some ''job-1'') (Some 2) (PyDict [(''job_id'', PyStr ''job-1''), (''assigned_agent'', PyStr ''claude.1''),
        (''host_id'', PyStr ''host-1''), (''worktree_path'', PyStr (slash # ''srv''))])
      (PyDict [(''executor_instance_id'', PyStr ''claude.1''), (''runner_profile_id'', PyStr ''runner_a'')])
      = Inr sample_lease"
  proof -
    have "build_worktree_resource (el_host_id sample_lease) (el_normalized_path sample_lease) =
        Inr \<lparr>wr_host_id = ''host-1'', wr_normalized_path = slash # ''srv''\<rparr>" by code_simp
    then show ?thesis
      by (simp add: validate_execution_lease_def sample_lease_parses compute_resource_key_def digest_of_def
          sample_H_def env_check_context_def env_check_binding_def get_ne_def) (simp add: sample_lease_def)
  qed
  from validated_lease_bound [OF this] show ?thesis by (auto simp: sample_lease_def)
qed

end
