(* ===== verification/ExecContext.thy ===== *)
theory ExecContext
  imports Resources
begin

text \<open>
  \<^verbatim>\<open>src/coordinate/execution_context.py\<close>: the digest-bound execution context of a
  managed job. \<open>resolve_execution_context_v1\<close> builds it from the workspace, the profile of
  the workspace on the agent's host and the origin of the request;
  \<open>validate_execution_context_snapshot\<close> reads the stored snapshot back and recomputes its
  digest. The workspace and its host profile are the dataclasses of \<^verbatim>\<open>db.py\<close>.
\<close>

section \<open>Data\<close>

definition CONTRACT_VERSION :: int where "CONTRACT_VERSION = 1"
definition MAX_SCOPE_LEN :: nat where "MAX_SCOPE_LEN = 256"
definition MAX_LEGACY_SCOPES :: nat where "MAX_LEGACY_SCOPES = 10"

definition V1_SNAPSHOT_KEYS :: "string list" where
  "V1_SNAPSHOT_KEYS = [''assigned_agent'', ''branch'', ''contract_version'', ''context_id'',
     ''harness_root'', ''host_id'', ''job_id'', ''legacy_scope_ids'', ''log_handle'',
     ''session_scope_id'', ''task_id'', ''worktree_path'', ''workspace_id'', ''workspace_path'']"

definition LOG_HANDLE_KEYS :: "string list" where
  "LOG_HANDLE_KEYS = [''kind'', ''job_id'', ''logs_path'']"

record workspace =
  ws_id :: string
  ws_name :: string
  ws_path :: string
  ws_harness_root :: string
  ws_harnessctl_path :: "string option"
  ws_default_bus :: "string option"
  ws_default_destination :: "string option"
  ws_base_branch :: "string option"
  ws_branch_namespace :: "string option"

record host_profile =
  hp_workspace_id :: string
  hp_host_id :: string
  hp_workspace_path :: string
  hp_harness_root :: "string option"
  hp_worktree_roots :: "string list"

text \<open>The frozen log handle: its \<open>kind\<close> is the constant \<open>coordinate_job\<close>.\<close>

record log_handle =
  lh_job_id :: string
  lh_logs_path :: "string option"

record execution_context =
  ec_context_id :: string
  ec_job_id :: string
  ec_workspace_id :: string
  ec_task_id :: "string option"
  ec_assigned_agent :: string
  ec_host_id :: string
  ec_workspace_path :: string
  ec_worktree_path :: string
  ec_harness_root :: string
  ec_branch :: "string option"
  ec_session_scope_id :: string
  ec_legacy_scope_ids :: "string list"
  ec_log_handle :: log_handle

definition log_handle_dict :: "log_handle \<Rightarrow> pyval" where
  "log_handle_dict h = PyDict [(''kind'', PyStr ''coordinate_job''), (''job_id'', PyStr (lh_job_id h)),
     (''logs_path'', opt_str (lh_logs_path h))]"

definition to_dict :: "execution_context \<Rightarrow> pyval" where
  "to_dict c = PyDict
     [(''contract_version'', PyInt CONTRACT_VERSION), (''context_id'', PyStr (ec_context_id c)),
      (''job_id'', PyStr (ec_job_id c)), (''workspace_id'', PyStr (ec_workspace_id c)),
      (''task_id'', opt_str (ec_task_id c)), (''assigned_agent'', PyStr (ec_assigned_agent c)),
      (''host_id'', PyStr (ec_host_id c)), (''workspace_path'', PyStr (ec_workspace_path c)),
      (''worktree_path'', PyStr (ec_worktree_path c)), (''harness_root'', PyStr (ec_harness_root c)),
      (''branch'', opt_str (ec_branch c)), (''session_scope_id'', PyStr (ec_session_scope_id c)),
      (''legacy_scope_ids'', PyList (map PyStr (ec_legacy_scope_ids c))),
      (''log_handle'', log_handle_dict (ec_log_handle c))]"

definition canonical_snapshot_dict :: "execution_context \<Rightarrow> pyval" where
  "canonical_snapshot_dict c = PyDict
     [(''assigned_agent'', PyStr (ec_assigned_agent c)), (''branch'', opt_str (ec_branch c)),
      (''contract_version'', PyInt CONTRACT_VERSION), (''harness_root'', PyStr (ec_harness_root c)),
      (''host_id'', PyStr (ec_host_id c)), (''job_id'', PyStr (ec_job_id c)),
      (''legacy_scope_ids'', PyList (map PyStr (ec_legacy_scope_ids c))),
      (''log_handle'', log_handle_dict (ec_log_handle c)),
      (''session_scope_id'', PyStr (ec_session_scope_id c)), (''task_id'', opt_str (ec_task_id c)),
      (''worktree_path'', PyStr (ec_worktree_path c)), (''workspace_id'', PyStr (ec_workspace_id c)),
      (''workspace_path'', PyStr (ec_workspace_path c))]"

definition compute_context_id :: "(string \<Rightarrow> string) \<Rightarrow> pyval \<Rightarrow> string" where
  "compute_context_id H canonical = digest_of H canonical"

section \<open>Paths and scopes\<close>

definition ctx_isabs :: "string \<Rightarrow> bool" where
  "ctx_isabs p =
     (startswith p [slash] \<or>
      (length p \<ge> 3 \<and> is_alpha (p ! 0) \<and> p ! 1 = CHR '':'' \<and> (p ! 2 = bslash \<or> p ! 2 = slash)) \<or>
      startswith p [bslash, bslash])"

definition has_nul_newline :: "string \<Rightarrow> bool" where
  "has_nul_newline p = (List.member p (CHR 0x00) \<or> List.member p (CHR 0x0A) \<or> List.member p (CHR 0x0D))"

definition has_traversal :: "string list \<Rightarrow> bool" where
  "has_traversal segs = list_ex (\<lambda>s. s = ''..'' \<or> s = ''.'') segs"

definition ctx_path :: "string \<Rightarrow> pyval \<Rightarrow> string result" where
  "ctx_path label v =
     (case as_str v of
        None \<Rightarrow> raise ContextErr (label @ '' is required'')
      | Some p \<Rightarrow>
          if p = [] then raise ContextErr (label @ '' is required'')
          else if has_nul_newline p then raise ContextErr (label @ '' contains NUL or newline'')
          else if \<not> ctx_isabs p then raise ContextErr (label @ '' must be absolute'')
          else if has_traversal (split_ch slash (replace_ch bslash slash p)) then
            raise ContextErr (label @ '' contains traversal'')
          else Inr p)"

definition host_separator :: "string \<Rightarrow> char" where
  "host_separator host_root =
     (if List.member host_root bslash \<or> (length host_root \<ge> 2 \<and> host_root ! 1 = CHR '':'') then bslash else slash)"

definition join_host_path :: "string \<Rightarrow> string \<Rightarrow> string result" where
  "join_host_path host_root relative_path =
     (if relative_path = [] then Inr host_root
      else let sep = host_separator host_root;
               rel = strip_ch sep (replace_ch bslash sep (replace_ch slash sep relative_path))
           in if has_traversal (split_ch sep rel) then
                raise ContextErr ''relative path contains traversal''
              else Inr (rstrip_ch sep host_root @ [sep] @ rel))"

definition map_foreign_path :: "string \<Rightarrow> string \<Rightarrow> string \<Rightarrow> string result" where
  "map_foreign_path control_root0 host_root path_text =
     (if path_text = [] then Inr path_text
      else if has_nul_newline path_text then raise ContextErr ''path contains NUL or newline''
      else if \<not> ctx_isabs path_text then raise ContextErr ''path must be absolute under workspace''
      else let control_root = rstrip_ch slash (normalize_control_path_separators control_root0);
               normalized = normalize_control_path_separators path_text
           in if has_traversal (split_ch slash normalized) then
                raise ContextErr ''path contains traversal''
              else if normalized = control_root then Inr host_root
              else if startswith normalized (control_root @ [slash]) then
                join_host_path host_root (drop (length (control_root @ [slash])) normalized)
              else raise ContextErr ''path is outside control workspace'')"

definition scope_char :: "char \<Rightarrow> bool" where
  "scope_char c = (is_alpha c \<or> is_digit c \<or> c = CHR ''_'' \<or> c = CHR ''.'' \<or> c = CHR '':'' \<or>
     c = CHR ''/'' \<or> c = CHR ''-'')"

definition scope_body :: "string \<Rightarrow> bool" where
  "scope_body s = (s \<noteq> [] \<and> list_all scope_char s)"

definition ctx_scope :: "string \<Rightarrow> pyval \<Rightarrow> string result" where
  "ctx_scope label v =
     (case as_str v of
        None \<Rightarrow> raise ContextErr (label @ '' is required'')
      | Some s \<Rightarrow>
          if s = [] then raise ContextErr (label @ '' is required'')
          else if length s > MAX_SCOPE_LEN \<or> \<not> re_match scope_body s then
            raise ContextErr (label @ '' contains unsafe characters or is too long'')
          else Inr s)"

text \<open>The loop over \<open>legacy_scope_ids\<close> of the origin: a scope already seen is skipped.\<close>

fun origin_legacy :: "string list \<Rightarrow> pyval list \<Rightarrow> string list result" where
  "origin_legacy seen [] = Inr []"
| "origin_legacy seen (item # items) =
     bindE (ctx_scope ''origin.legacy_scope_ids item'' item) (\<lambda>scoped.
       if List.member seen scoped then origin_legacy seen items
       else bindE (origin_legacy (scoped # seen) items) (\<lambda>rest. Inr (scoped # rest)))"

definition parse_origin_scope ::
  "(string \<times> pyval) list \<Rightarrow> string \<Rightarrow> string option \<Rightarrow> (string \<times> string list) result" where
  "parse_origin_scope origin workspace_id task_id =
     bindE (case task_id of
              Some t \<Rightarrow> if t \<noteq> [] then Inr (''task:'' @ workspace_id @ '':'' @ t)
                        else ctx_scope ''origin.session_scope_id'' (dget origin ''session_scope_id'')
            | None \<Rightarrow> ctx_scope ''origin.session_scope_id'' (dget origin ''session_scope_id'')) (\<lambda>session.
       let raw = dget origin ''legacy_scope_ids'' in
       if raw = PyNone then Inr (session, [])
       else case as_list raw of
         None \<Rightarrow> raise ContextErr ''origin.legacy_scope_ids must be a list''
       | Some items \<Rightarrow>
           if length items > MAX_LEGACY_SCOPES then raise ContextErr ''origin.legacy_scope_ids exceeds bound''
           else bindE (origin_legacy [session] items) (\<lambda>legacy. Inr (session, legacy)))"

section \<open>Resolving\<close>

text \<open>The first branch candidate that is not blank, stripped.\<close>

fun pick_branch :: "pyval list \<Rightarrow> string option" where
  "pick_branch [] = None"
| "pick_branch (v # vs) =
     (case as_str v of
        Some s \<Rightarrow> if strip s \<noteq> [] then Some (strip s) else pick_branch vs
      | None \<Rightarrow> pick_branch vs)"

definition branch_candidates ::
  "string option \<Rightarrow> (string \<times> pyval) list option \<Rightarrow> workspace \<Rightarrow> pyval list" where
  "branch_candidates job_branch task ws =
     [opt_str job_branch, (case task of Some t \<Rightarrow> dget t ''branch'' | None \<Rightarrow> PyNone),
      opt_str (ws_base_branch ws)]"

definition resolve_task_id :: "(string \<times> pyval) list option \<Rightarrow> string option result" where
  "resolve_task_id task =
     (case task of
        None \<Rightarrow> Inr None
      | Some t \<Rightarrow>
          (case as_str (dget t ''task_id'') of
             None \<Rightarrow> raise ContextErr ''task mirror has no task_id''
           | Some s \<Rightarrow> if s = [] then raise ContextErr ''task mirror has no task_id'' else Inr (Some s)))"

definition resolve_worktree_path ::
  "workspace \<Rightarrow> host_profile \<Rightarrow> string \<Rightarrow> string option \<Rightarrow> string result" where
  "resolve_worktree_path ws profile workspace_path job_worktree_path =
     bindE (case job_worktree_path of
              None \<Rightarrow> Inr workspace_path
            | Some p \<Rightarrow>
                (case classify_worktree_raw_path (ws_path ws) p of
                   Control \<Rightarrow> map_foreign_path (ws_path ws) workspace_path p
                 | Host_native \<Rightarrow>
                     reraise ResourceIdentityErr ContextErr ''worktree_path is invalid''
                       (resolve_allowlisted_worktree_path p (hp_worktree_roots profile)))) (\<lambda>wt0.
     bindE (ctx_path ''worktree_path'' (PyStr (if wt0 = [] then workspace_path else wt0))) (\<lambda>wt.
       reraise ResourceIdentityErr ContextErr ''worktree_path is invalid'' (normalize_worktree_path wt)))"

definition resolve_harness_root :: "workspace \<Rightarrow> host_profile \<Rightarrow> string \<Rightarrow> string result" where
  "resolve_harness_root ws profile workspace_path =
     (case hp_harness_root profile of
        Some h \<Rightarrow> if h \<noteq> [] then ctx_path ''harness_root'' (PyStr h)
          else bindE (map_foreign_path (ws_path ws) workspace_path (ws_harness_root ws)) (\<lambda>r.
            bindE (if ctx_isabs r then Inr r else join_host_path workspace_path r) (\<lambda>r'.
              ctx_path ''harness_root'' (PyStr r')))
      | None \<Rightarrow>
          bindE (map_foreign_path (ws_path ws) workspace_path (ws_harness_root ws)) (\<lambda>r.
            bindE (if ctx_isabs r then Inr r else join_host_path workspace_path r) (\<lambda>r'.
              ctx_path ''harness_root'' (PyStr r'))))"

definition resolve_logs_path :: "workspace \<Rightarrow> string \<Rightarrow> string option \<Rightarrow> string option result" where
  "resolve_logs_path ws workspace_path job_logs_path =
     (case job_logs_path of
        None \<Rightarrow> Inr None
      | Some p \<Rightarrow> bindE (map_foreign_path (ws_path ws) workspace_path p) (\<lambda>m.
          bindE (ctx_path ''logs_path'' (PyStr m)) (\<lambda>l. Inr (Some l))))"

definition resolve_execution_context_v1 ::
  "(string \<Rightarrow> string) \<Rightarrow> string \<Rightarrow> workspace \<Rightarrow> (string \<times> pyval) list option \<Rightarrow> string \<Rightarrow> string
   \<Rightarrow> host_profile \<Rightarrow> pyval \<Rightarrow> string option \<Rightarrow> string option \<Rightarrow> string option
   \<Rightarrow> execution_context result" where
  "resolve_execution_context_v1 H job_id ws task assigned_agent host_id profile origin
       job_branch job_worktree_path job_logs_path =
     (if job_id = [] then raise ContextErr ''job_id is required''
      else if assigned_agent = [] then raise ContextErr ''assigned_agent is required''
      else if strip host_id = [] then raise ContextErr ''agent host_id is required''
      else if strip (hp_workspace_path profile) = [] then
        raise ContextErr ''workspace host profile workspace_path is required''
      else
      bindE (resolve_task_id task) (\<lambda>task_id.
      case as_dict origin of
        None \<Rightarrow> raise ContextErr ''origin must be a dict''
      | Some o_dict \<Rightarrow>
      bindE (parse_origin_scope o_dict (ws_id ws) task_id) (\<lambda>(session, legacy).
      let branch = pick_branch (branch_candidates job_branch task ws) in
      bindE (ctx_path ''workspace_path'' (PyStr (hp_workspace_path profile))) (\<lambda>workspace_path.
      bindE (resolve_worktree_path ws profile workspace_path job_worktree_path) (\<lambda>worktree_path.
      bindE (resolve_harness_root ws profile workspace_path) (\<lambda>harness_root.
      bindE (resolve_logs_path ws workspace_path job_logs_path) (\<lambda>logs_path.
      let ctx = \<lparr>ec_context_id = [], ec_job_id = job_id, ec_workspace_id = ws_id ws,
                 ec_task_id = task_id, ec_assigned_agent = assigned_agent, ec_host_id = host_id,
                 ec_workspace_path = workspace_path, ec_worktree_path = worktree_path,
                 ec_harness_root = harness_root, ec_branch = branch,
                 ec_session_scope_id = session, ec_legacy_scope_ids = legacy,
                 ec_log_handle = \<lparr>lh_job_id = job_id, lh_logs_path = logs_path\<rparr>\<rparr>
      in Inr (ctx\<lparr>ec_context_id := compute_context_id H (canonical_snapshot_dict ctx)\<rparr>))))))))"

section \<open>Validating a stored snapshot\<close>

definition ctx_string_or_none :: "string \<Rightarrow> pyval \<Rightarrow> string option result" where
  "ctx_string_or_none label v =
     (if v = PyNone then Inr None
      else case as_str v of
        None \<Rightarrow> raise ContextErr (label @ '' must be a string or null'')
      | Some s \<Rightarrow> if strip s = [] then raise ContextErr (label @ '' must be a non-empty string or null'')
                  else Inr (Some s))"

definition ctx_required_string :: "string \<Rightarrow> pyval \<Rightarrow> string result" where
  "ctx_required_string label v =
     (case as_str v of
        None \<Rightarrow> raise ContextErr (label @ '' is required'')
      | Some s \<Rightarrow>
          if s = [] then raise ContextErr (label @ '' is required'')
          else if strip s = [] then raise ContextErr (label @ '' must be a non-empty string'')
          else Inr s)"

definition ctx_log_handle :: "string \<Rightarrow> pyval \<Rightarrow> log_handle result" where
  "ctx_log_handle expected_job_id v =
     (case as_dict v of
        None \<Rightarrow> raise ContextErr ''log_handle must be an object''
      | Some d \<Rightarrow>
          if dkeys d \<noteq> set LOG_HANDLE_KEYS then raise ContextErr ''log_handle has incorrect keys''
          else if dget d ''kind'' \<noteq> PyStr ''coordinate_job'' then
            raise ContextErr ''log_handle.kind must be coordinate_job''
          else (case as_str (dget d ''job_id'') of
             None \<Rightarrow> raise ContextErr ''log_handle.job_id is required''
           | Some j \<Rightarrow>
               if j = [] then raise ContextErr ''log_handle.job_id is required''
               else if j \<noteq> expected_job_id then raise ContextErr ''log_handle.job_id mismatch''
               else let logs = dget d ''logs_path'' in
                 if logs = PyNone then Inr \<lparr>lh_job_id = j, lh_logs_path = None\<rparr>
                 else (case as_str logs of
                    None \<Rightarrow> raise ContextErr ''log_handle.logs_path must be a non-empty string or null''
                  | Some p \<Rightarrow>
                      if p = [] then
                        raise ContextErr ''log_handle.logs_path must be a non-empty string or null''
                      else bindE (ctx_path ''log_handle.logs_path'' logs) (\<lambda>_.
                        Inr \<lparr>lh_job_id = j, lh_logs_path = Some p\<rparr>))))"

text \<open>The loop over the stored legacy scopes: a repeated scope is an error.\<close>

fun snapshot_legacy :: "string \<Rightarrow> string list \<Rightarrow> pyval list \<Rightarrow> string list result" where
  "snapshot_legacy session seen [] = Inr []"
| "snapshot_legacy session seen (item # items) =
     bindE (ctx_scope ''execution_context.legacy_scope_ids item'' item) (\<lambda>scoped.
       if List.member seen scoped \<or> scoped = session then
         raise ContextErr ''execution_context.legacy_scope_ids contains duplicate''
       else bindE (snapshot_legacy session (scoped # seen) items) (\<lambda>rest. Inr (scoped # rest)))"

definition expect :: "string option \<Rightarrow> string option \<Rightarrow> string \<Rightarrow> unit result" where
  "expect wanted actual label =
     (if wanted \<noteq> None \<and> actual \<noteq> wanted then raise ContextErr (label @ '' mismatch'') else Inr ())"

definition parse_snapshot :: "(string \<Rightarrow> string) \<Rightarrow> pyval \<Rightarrow> execution_context result" where
  "parse_snapshot H data =
     (case as_dict data of
        None \<Rightarrow> raise ContextErr ''execution_context must be an object''
      | Some d \<Rightarrow>
        if dkeys d \<noteq> set V1_SNAPSHOT_KEYS then raise ContextErr ''execution_context has incorrect keys''
        else if \<not> eq_int (dget d ''contract_version'') CONTRACT_VERSION then
          raise ContextErr ''execution_context contract_version must be 1''
        else
        bindE (case as_str (dget d ''context_id'') of
                 None \<Rightarrow> raise ContextErr ''execution_context.context_id must be sha256:<64-hex>''
               | Some s \<Rightarrow> if re_match digest_body s then Inr s
                   else raise ContextErr ''execution_context.context_id must be sha256:<64-hex>'') (\<lambda>supplied.
        bindE (ctx_required_string ''execution_context.job_id'' (dget d ''job_id'')) (\<lambda>job_id.
        bindE (ctx_required_string ''execution_context.workspace_id'' (dget d ''workspace_id'')) (\<lambda>workspace_id.
        bindE (ctx_required_string ''execution_context.assigned_agent'' (dget d ''assigned_agent'')) (\<lambda>agent.
        bindE (ctx_required_string ''execution_context.host_id'' (dget d ''host_id'')) (\<lambda>host_id.
        bindE (ctx_path ''execution_context.workspace_path'' (dget d ''workspace_path'')) (\<lambda>workspace_path.
        bindE (ctx_path ''execution_context.worktree_path'' (dget d ''worktree_path'')) (\<lambda>worktree_path.
        bindE (ctx_path ''execution_context.harness_root'' (dget d ''harness_root'')) (\<lambda>harness_root.
        bindE (ctx_scope ''execution_context.session_scope_id'' (dget d ''session_scope_id'')) (\<lambda>session.
        bindE (ctx_string_or_none ''execution_context.branch'' (dget d ''branch'')) (\<lambda>branch.
        bindE (ctx_string_or_none ''execution_context.task_id'' (dget d ''task_id'')) (\<lambda>task_id.
        bindE (case as_list (dget d ''legacy_scope_ids'') of
                 None \<Rightarrow> raise ContextErr ''execution_context.legacy_scope_ids must be a list''
               | Some items \<Rightarrow>
                   if length items > MAX_LEGACY_SCOPES then
                     raise ContextErr ''execution_context.legacy_scope_ids exceeds bound''
                   else snapshot_legacy session [] items) (\<lambda>legacy.
        bindE (ctx_log_handle job_id (dget d ''log_handle'')) (\<lambda>handle.
        let ctx = \<lparr>ec_context_id = [], ec_job_id = job_id, ec_workspace_id = workspace_id,
                   ec_task_id = task_id, ec_assigned_agent = agent, ec_host_id = host_id,
                   ec_workspace_path = workspace_path, ec_worktree_path = worktree_path,
                   ec_harness_root = harness_root, ec_branch = branch,
                   ec_session_scope_id = session, ec_legacy_scope_ids = legacy,
                   ec_log_handle = handle\<rparr>
        in if compute_context_id H (canonical_snapshot_dict ctx) \<noteq> supplied then
             raise ContextErr ''execution_context digest mismatch''
           else Inr (ctx\<lparr>ec_context_id := supplied\<rparr>)))))))))))))))"

definition validate_execution_context_snapshot ::
  "(string \<Rightarrow> string) \<Rightarrow> pyval \<Rightarrow> string option \<Rightarrow> string option \<Rightarrow> string option \<Rightarrow> string option
   \<Rightarrow> string option \<Rightarrow> execution_context result" where
  "validate_execution_context_snapshot H data job_id workspace_id task_id assigned_agent host_id =
     bindE (parse_snapshot H data) (\<lambda>ctx.
     bindE (expect job_id (Some (ec_job_id ctx)) ''execution_context job_id'') (\<lambda>_.
     bindE (expect workspace_id (Some (ec_workspace_id ctx)) ''execution_context workspace_id'') (\<lambda>_.
     bindE (expect assigned_agent (Some (ec_assigned_agent ctx)) ''execution_context assigned_agent'') (\<lambda>_.
     bindE (expect host_id (Some (ec_host_id ctx)) ''execution_context host_id'') (\<lambda>_.
     bindE (expect task_id (ec_task_id ctx) ''execution_context task_id'') (\<lambda>_. Inr ctx))))))"

definition context_matches_origin ::
  "execution_context \<Rightarrow> (string \<times> pyval) list \<Rightarrow> string \<Rightarrow> string option \<Rightarrow> bool" where
  "context_matches_origin ctx origin workspace_id task_id =
     (case parse_origin_scope origin workspace_id task_id of
        Inl _ \<Rightarrow> False
      | Inr (session, legacy) \<Rightarrow> ec_session_scope_id ctx = session \<and> ec_legacy_scope_ids ctx = legacy)"

definition execution_context_dict_matches :: "(string \<Rightarrow> string) \<Rightarrow> pyval \<Rightarrow> pyval \<Rightarrow> bool result" where
  "execution_context_dict_matches H snapshot other =
     bindE (parse_snapshot H snapshot) (\<lambda>a. bindE (parse_snapshot H other) (\<lambda>b.
       Inr (canonical_snapshot_dict a = canonical_snapshot_dict b)))"

section \<open>Errors\<close>

lemma errs_fields [errs_intros]:
  "errs ContextErr (ctx_path l v)" "errs ContextErr (ctx_scope l v)" "errs ContextErr (ctx_string_or_none l v)"
  "errs ContextErr (ctx_required_string l v)" "errs ContextErr (expect a b l)"
  unfolding ctx_path_def ctx_scope_def ctx_string_or_none_def ctx_required_string_def expect_def
  by (intro errs_intros)+

lemma errs_log_handle [errs_intros]: "errs ContextErr (ctx_log_handle j v)"
  unfolding ctx_log_handle_def by (intro errs_intros)

lemma errs_snapshot_legacy [errs_intros]: "errs ContextErr (snapshot_legacy sc seen items)"
  by (induction sc seen items rule: snapshot_legacy.induct) (auto intro!: errs_intros)

lemma errs_snapshot [errs_intros]: "errs ContextErr (validate_execution_context_snapshot H v j w t a h)"
  unfolding validate_execution_context_snapshot_def parse_snapshot_def by (intro errs_intros)

section \<open>What the validators accept\<close>

definition path_ok :: "string \<Rightarrow> bool" where
  "path_ok p \<longleftrightarrow> p \<noteq> [] \<and> \<not> has_nul_newline p \<and> ctx_isabs p \<and>
     \<not> has_traversal (split_ch slash (replace_ch bslash slash p))"

definition scope_ok :: "string \<Rightarrow> bool" where
  "scope_ok s \<longleftrightarrow> s \<noteq> [] \<and> length s \<le> MAX_SCOPE_LEN \<and> re_match scope_body s"

lemma ctx_path_iff: "ctx_path label v = Inr p \<longleftrightarrow> v = PyStr p \<and> path_ok p"
  by (cases v) (auto simp: ctx_path_def path_ok_def)

lemma ctx_scope_iff: "ctx_scope label v = Inr s \<longleftrightarrow> v = PyStr s \<and> scope_ok s"
  by (cases v) (auto simp: ctx_scope_def scope_ok_def)

lemma ctx_required_iff: "ctx_required_string label v = Inr s \<longleftrightarrow> v = PyStr s \<and> strip s \<noteq> []"
  by (cases v) (auto simp: ctx_required_string_def)

lemma ctx_string_or_none_iff:
  "ctx_string_or_none label v = Inr s \<longleftrightarrow> v = opt_str s \<and> (\<forall>t. s = Some t \<longrightarrow> strip t \<noteq> [])"
  by (cases v; cases s) (auto simp: ctx_string_or_none_def)

lemma ctx_log_handle_dict:
  "ctx_log_handle j (log_handle_dict h) =
     (if lh_job_id h = [] then raise ContextErr ''log_handle.job_id is required''
      else if lh_job_id h \<noteq> j then raise ContextErr ''log_handle.job_id mismatch''
      else case lh_logs_path h of None \<Rightarrow> Inr h
        | Some p \<Rightarrow> if p = [] then
              raise ContextErr ''log_handle.logs_path must be a non-empty string or null''
            else bindE (ctx_path ''log_handle.logs_path'' (PyStr p)) (\<lambda>_. Inr h))"
  by (cases h; cases "lh_logs_path h")
    (simp_all add: ctx_log_handle_def log_handle_dict_def LOG_HANDLE_KEYS_def Let_def)

lemma ctx_log_handle_iff:
  "ctx_log_handle j (log_handle_dict h) = Inr h' \<longleftrightarrow>
     h' = h \<and> lh_job_id h = j \<and> j \<noteq> [] \<and> (\<forall>p. lh_logs_path h = Some p \<longrightarrow> path_ok p)"
  unfolding ctx_log_handle_dict
  by (cases "lh_logs_path h") (auto simp: bindE_eq_Inr ctx_path_iff path_ok_def)

lemma ctx_log_handle_sound:
  assumes "ctx_log_handle j v = Inr h"
  shows "lh_job_id h = j \<and> j \<noteq> [] \<and> (\<forall>p. lh_logs_path h = Some p \<longrightarrow> path_ok p)"
  using assms by (auto simp: ctx_log_handle_def Let_def ctx_path_iff bindE_eq_Inr split: option.splits if_splits)

lemma snapshot_legacy_iff:
  "snapshot_legacy session seen items = Inr ls \<longleftrightarrow>
     items = map PyStr ls \<and> (\<forall>l \<in> set ls. scope_ok l) \<and> distinct ls \<and>
     session \<notin> set ls \<and> set ls \<inter> set seen = {}"
proof (induction items arbitrary: seen ls)
  case (Cons v items)
  show ?case
  proof (cases ls)
    case Nil
    then show ?thesis by (auto simp: bindE_eq_Inr split: if_splits)
  next
    case (Cons l ls')
    then show ?thesis
      by (auto simp: bindE_eq_Inr ctx_scope_iff Cons.IH)
  qed
qed auto

definition wf_context :: "(string \<Rightarrow> string) \<Rightarrow> execution_context \<Rightarrow> bool" where
  "wf_context H c \<longleftrightarrow>
     ec_context_id c = compute_context_id H (canonical_snapshot_dict c) \<and>
     re_match digest_body (ec_context_id c) \<and>
     strip (ec_job_id c) \<noteq> [] \<and> strip (ec_workspace_id c) \<noteq> [] \<and> strip (ec_assigned_agent c) \<noteq> [] \<and>
     strip (ec_host_id c) \<noteq> [] \<and> path_ok (ec_workspace_path c) \<and> path_ok (ec_worktree_path c) \<and>
     path_ok (ec_harness_root c) \<and> scope_ok (ec_session_scope_id c) \<and>
     (\<forall>b. ec_branch c = Some b \<longrightarrow> strip b \<noteq> []) \<and> (\<forall>t. ec_task_id c = Some t \<longrightarrow> strip t \<noteq> []) \<and>
     length (ec_legacy_scope_ids c) \<le> MAX_LEGACY_SCOPES \<and> (\<forall>l \<in> set (ec_legacy_scope_ids c). scope_ok l) \<and>
     distinct (ec_legacy_scope_ids c) \<and> ec_session_scope_id c \<notin> set (ec_legacy_scope_ids c) \<and>
     lh_job_id (ec_log_handle c) = ec_job_id c \<and>
     (\<forall>p. lh_logs_path (ec_log_handle c) = Some p \<longrightarrow> path_ok p)"

lemma canonical_ignores_id [simp]:
  "canonical_snapshot_dict (c\<lparr>ec_context_id := i\<rparr>) = canonical_snapshot_dict c"
  by (simp add: canonical_snapshot_dict_def)

lemma parse_wf_context:
  assumes "wf_context H c"
  shows "parse_snapshot H (to_dict c) = Inr c"
proof -
  have ne: "ec_job_id c \<noteq> []" using assms by (auto simp: wf_context_def)
  have f:
    "\<And>x. ctx_required_string x (PyStr (ec_job_id c)) = Inr (ec_job_id c)"
    "\<And>x. ctx_required_string x (PyStr (ec_workspace_id c)) = Inr (ec_workspace_id c)"
    "\<And>x. ctx_required_string x (PyStr (ec_assigned_agent c)) = Inr (ec_assigned_agent c)"
    "\<And>x. ctx_required_string x (PyStr (ec_host_id c)) = Inr (ec_host_id c)"
    "\<And>x. ctx_path x (PyStr (ec_workspace_path c)) = Inr (ec_workspace_path c)"
    "\<And>x. ctx_path x (PyStr (ec_worktree_path c)) = Inr (ec_worktree_path c)"
    "\<And>x. ctx_path x (PyStr (ec_harness_root c)) = Inr (ec_harness_root c)"
    "\<And>x. ctx_scope x (PyStr (ec_session_scope_id c)) = Inr (ec_session_scope_id c)"
    "\<And>x. ctx_string_or_none x (opt_str (ec_branch c)) = Inr (ec_branch c)"
    "\<And>x. ctx_string_or_none x (opt_str (ec_task_id c)) = Inr (ec_task_id c)"
    "snapshot_legacy (ec_session_scope_id c) [] (map PyStr (ec_legacy_scope_ids c)) = Inr (ec_legacy_scope_ids c)"
    "ctx_log_handle (ec_job_id c) (log_handle_dict (ec_log_handle c)) = Inr (ec_log_handle c)"
    using assms ne
    by (simp_all add: wf_context_def ctx_required_iff ctx_path_iff ctx_scope_iff ctx_string_or_none_iff
        snapshot_legacy_iff ctx_log_handle_iff)
  have g: "re_match digest_body (ec_context_id c)" "length (ec_legacy_scope_ids c) \<le> MAX_LEGACY_SCOPES"
    "ec_context_id c = compute_context_id H (canonical_snapshot_dict c)"
    using assms unfolding wf_context_def by blast+
  then have "compute_context_id H (canonical_snapshot_dict (c\<lparr>ec_context_id := []\<rparr>)) = ec_context_id c"
    by simp
  note g = g(1,2) this
  from f g show ?thesis
    by (cases c) (simp add: parse_snapshot_def to_dict_def V1_SNAPSHOT_KEYS_def insert_commute Let_def
        CONTRACT_VERSION_def)
qed

lemma parse_snapshot_sound:
  assumes "parse_snapshot H v = Inr c"
  shows "wf_context H c"
proof -
  obtain d where "v = PyDict d" using assms by (auto simp: parse_snapshot_def split: option.splits)
  with assms show ?thesis
    apply (cases c)
    apply (simp add: parse_snapshot_def bindE_eq_Inr Let_def ctx_required_iff ctx_path_iff ctx_scope_iff
        ctx_string_or_none_iff snapshot_legacy_iff split: if_splits option.splits)
    apply (elim exE conjE)
    apply (frule ctx_log_handle_sound)
    apply (auto simp: wf_context_def canonical_snapshot_dict_def)
    done
qed

interpretation context_codec: codec "wf_context H" to_dict "parse_snapshot H" for H
  by unfold_locales (rule parse_wf_context)

section \<open>The digest binds the context\<close>

lemma json_log_handle:
  "json (log_handle_dict h) = CHR 0x7B # json_str ''job_id'' @ CHR '':'' # json_str (lh_job_id h) @ CHR '','' #
     json_str ''kind'' @ CHR '':'' # json_str ''coordinate_job'' @ CHR '','' #
     json_str ''logs_path'' @ CHR '':'' # json (opt_str (lh_logs_path h)) @ [CHR 0x7D]"
  by (simp add: log_handle_dict_def sort_key_def)

lemma json_log_handle_unique:
  "json (log_handle_dict h) @ x = json (log_handle_dict h') @ y \<Longrightarrow> h = h' \<and> x = y"
  unfolding json_log_handle
  by (cases h; cases h') (auto dest!: json_uniques)

lemma json_canonical_snapshot:
  "json (canonical_snapshot_dict c) = CHR 0x7B #
     json_str ''assigned_agent'' @ CHR '':'' # json_str (ec_assigned_agent c) @ CHR '','' #
     json_str ''branch'' @ CHR '':'' # json (opt_str (ec_branch c)) @ CHR '','' #
     json_str ''contract_version'' @ CHR '':'' # dec_int 1 @ CHR '','' #
     json_str ''harness_root'' @ CHR '':'' # json_str (ec_harness_root c) @ CHR '','' #
     json_str ''host_id'' @ CHR '':'' # json_str (ec_host_id c) @ CHR '','' #
     json_str ''job_id'' @ CHR '':'' # json_str (ec_job_id c) @ CHR '','' #
     json_str ''legacy_scope_ids'' @ CHR '':'' # json (PyList (map PyStr (ec_legacy_scope_ids c))) @ CHR '','' #
     json_str ''log_handle'' @ CHR '':'' # json (log_handle_dict (ec_log_handle c)) @ CHR '','' #
     json_str ''session_scope_id'' @ CHR '':'' # json_str (ec_session_scope_id c) @ CHR '','' #
     json_str ''task_id'' @ CHR '':'' # json (opt_str (ec_task_id c)) @ CHR '','' #
     json_str ''workspace_id'' @ CHR '':'' # json_str (ec_workspace_id c) @ CHR '','' #
     json_str ''workspace_path'' @ CHR '':'' # json_str (ec_workspace_path c) @ CHR '','' #
     json_str ''worktree_path'' @ CHR '':'' # json_str (ec_worktree_path c) @ [CHR 0x7D]"
  by (simp add: canonical_snapshot_dict_def CONTRACT_VERSION_def sort_key_def)

lemma canonical_snapshot_inj:
  assumes "json (canonical_snapshot_dict c) = json (canonical_snapshot_dict d)" "ec_context_id c = ec_context_id d"
  shows "c = d"
proof -
  note eq = assms(1) [unfolded json_canonical_snapshot]
  show ?thesis using eq assms(2)
    by (cases c; cases d) (auto dest!: json_uniques json_log_handle_unique simp del: json.simps)
qed

section \<open>Where a worktree can be\<close>

lemma split_ch_append: "split_ch c (a @ c # b) = split_ch c a @ split_ch c b"
proof (induction a)
  case (Cons x a)
  then show ?case by (cases "split_ch c a") auto
qed simp

lemma rooted_comps_append: "rooted_comps acc (xs @ ys) = rooted_comps (rev (rooted_comps acc xs)) ys"
  by (induction acc xs rule: rooted_comps.induct) auto

lemma rooted_comps_no_traversal:
  "\<not> has_traversal ys \<Longrightarrow> rooted_comps acc ys = rev acc @ filter (\<lambda>w. w \<noteq> []) ys"
  by (induction ys arbitrary: acc) (auto simp: has_traversal_def)

lemma set_strip_ch: "set (strip_ch c s) \<subseteq> set s"
  by (auto simp: strip_ch_def rstrip_ch_def dest!: set_dropWhileD)

lemma posix_canonical_rstrip:
  assumes "posix_canonical wp cs" "cs \<noteq> []"
  shows "rstrip_ch slash wp = wp"
proof (rule rstrip_ch_id)
  from assms have "join_ch slash cs \<noteq> [] \<and> last (join_ch slash cs) \<noteq> slash"
    by (intro join_good_last) (simp_all add: posix_canonical_def)
  then show "wp = [] \<or> last wp \<noteq> slash" using assms by (simp add: posix_canonical_def)
qed

text \<open>Normalising a canonical root extended by a clean relative path.\<close>

lemma normalize_extended:
  assumes c: "posix_canonical wp cs" "cs \<noteq> []" and f: "path_flavour wp = Posix"
    and t: "\<not> has_traversal (split_ch slash R)" and sp: "\<And>x. x \<in> set R \<Longrightarrow> \<not> is_space x"
    and n: "normalize_worktree_path (wp @ slash # R) = Inr q"
  shows "q = wp \<or> is_strict_descendant q wp"
proof -
  let ?m = "wp @ slash # R" and ?ds = "filter (\<lambda>w. w \<noteq> []) (split_ch slash R)"
  from c(1) obtain w where wp: "wp = slash # w" by (simp add: posix_canonical_def)
  have "\<not> is_space slash" by (simp add: is_space_def sp_chars_def)
  moreover have "last ?m = slash \<or> last ?m \<in> set R" by auto
  ultimately have "\<not> is_space (hd ?m) \<and> \<not> is_space (last ?m)" using sp wp by auto
  then have st: "strip ?m = ?m" unfolding strip_id_iff by blast
  have ns: "\<not> startswith wp [slash, slash]" using posix_canonical_fixed(2) [OF c(1)] .
  have w: "w \<noteq> []" using c posix_canonical_rstrip [OF c] by (auto simp: wp rstrip_ch_def)
  then have ns2: "\<not> startswith ?m [slash, slash]" "startswith ?m [slash]"
    using ns by (auto simp: wp startswith_iff Cons_eq_append_conv neq_Nil_conv)
  have u: "\<not> is_windows_unc ?m" using ns2 w by (auto simp: is_windows_unc_def startswith_iff wp neq_Nil_conv)
  have d: "\<not> is_windows_drive ?m" using w by (auto simp: wp is_alpha_def neq_Nil_conv)
  have q: "q = posix_normpath ?m" using n st u d ns2 posix_normpath_eq [OF ns2(2,1)]
    by (auto simp: normalize_worktree_path_def Let_def split: if_splits)
  have comps: "rooted_comps [] (split_ch slash ?m) = cs @ ?ds"
    by (simp add: split_ch_append rooted_comps_append posix_canonical_fixed(4) [OF c(1)]
        rooted_comps_no_traversal [OF t])
  have q': "posix_canonical q (cs @ ?ds)"
    using posix_normpath_canonical [OF ns2(2,1)] unfolding q comps .
  show ?thesis
  proof (cases "?ds = []")
    case True
    then show ?thesis using q' c(1) by (simp add: posix_canonical_def)
  next
    case False
    then have "strict_prefix cs (cs @ ?ds)" by (simp add: strict_prefix_def)
    with posix_descendant_iff [OF q' c(1) f] show ?thesis by blast
  qed
qed

lemma drop_startswith: "startswith s p \<Longrightarrow> s = p @ drop (length p) s"
  by (auto simp: startswith_iff)

lemma control_branch_contained:
  assumes c: "posix_canonical wp cs" "cs \<noteq> []" and f: "path_flavour wp = Posix" "bslash \<notin> set wp"
    and sp: "strip wp = wp" "\<And>x. x \<in> set p \<Longrightarrow> \<not> is_space x"
    and m: "map_foreign_path control wp p = Inr m" "p \<noteq> []" "normalize_worktree_path m = Inr q"
  shows "q = wp \<or> is_strict_descendant q wp"
proof -
  let ?n = "normalize_control_path_separators p"
  let ?c = "rstrip_ch slash (normalize_control_path_separators control)"
  have self: "m = wp \<Longrightarrow> ?thesis"
  proof -
    assume "m = wp"
    moreover have "normalize_worktree_path wp = Inr wp" if l: "length wp \<le> MAX_PATH_LEN" "\<not> has_control wp"
      using norm_form_fixed(1) [OF _ sp(1)] c(1) l by (auto simp: norm_form_def)
    moreover have "length wp \<le> MAX_PATH_LEN \<and> \<not> has_control wp" if "normalize_worktree_path wp = Inr q"
      using that sp(1) by (auto simp: normalize_worktree_path_def Let_def split: if_splits)
    ultimately show ?thesis using m(3) by auto
  qed
  have cases: "?n = ?c \<or> startswith ?n (?c @ [slash]) \<and>
      join_host_path wp (drop (length (?c @ [slash])) ?n) = Inr m"
    and m1: "?n = ?c \<Longrightarrow> m = wp"
    using m(1,2) by (auto simp: map_foreign_path_def Let_def split: if_splits)
  show ?thesis
  proof (cases "?n = ?c")
    case True
    then show ?thesis by (rule self [OF m1])
  next
    case False
    let ?rel = "drop (length (?c @ [slash])) ?n"
    from False cases have j: "join_host_path wp ?rel = Inr m" by blast
    show ?thesis
    proof (cases "?rel = []")
      case True
      with j show ?thesis by (intro self) (simp add: join_host_path_def)
    next
      case ne: False
      have sep: "host_separator wp = slash"
        using f by (auto simp: host_separator_def path_flavour_def split: if_splits)
      let ?R = "strip_ch slash (replace_ch bslash slash (replace_ch slash slash ?rel))"
      from j ne sep posix_canonical_rstrip [OF c] have mm: "m = wp @ slash # ?R"
        and t: "\<not> has_traversal (split_ch slash ?R)"
        by (auto simp: join_host_path_def Let_def split: if_splits)
      have "set ?R \<subseteq> insert slash (set p)"
        using set_strip_ch [of slash "replace_ch bslash slash (replace_ch slash slash ?rel)"]
        by (auto simp: replace_ch_def normalize_control_path_separators_def dest!: in_set_dropD split: if_splits)
      moreover have "\<not> is_space slash" by (simp add: is_space_def sp_chars_def)
      ultimately have "\<And>x. x \<in> set ?R \<Longrightarrow> \<not> is_space x" using sp(2) by blast
      from normalize_extended [OF c f(1) t this m(3) [unfolded mm]] show ?thesis .
    qed
  qed
qed

section \<open>What is resolved\<close>

lemma origin_legacy_sound:
  "origin_legacy seen items = Inr ls \<Longrightarrow> (\<forall>l \<in> set ls. scope_ok l) \<and> distinct ls \<and>
     set ls \<inter> set seen = {} \<and> length ls \<le> length items"
proof (induction items arbitrary: seen ls)
  case (Cons v items)
  from Cons.prems obtain s where v: "v = PyStr s" "scope_ok s"
    and r: "(if List.member seen s then origin_legacy seen items
       else bindE (origin_legacy (s # seen) items) (\<lambda>rest. Inr (s # rest))) = Inr ls"
    by (auto simp: bindE_eq_Inr ctx_scope_iff)
  show ?case
  proof (cases "s \<in> set seen")
    case True
    with r Cons.IH [of seen ls] show ?thesis by auto
  next
    case False
    with r obtain rest where "origin_legacy (s # seen) items = Inr rest" "ls = s # rest"
      by (auto simp: bindE_eq_Inr)
    with Cons.IH [of "s # seen" rest] False v show ?thesis by auto
  qed
qed simp

lemma parse_origin_scope_sound:
  assumes "parse_origin_scope origin wid tid = Inr (session, legacy)"
  shows "(case tid of Some t \<Rightarrow> t \<noteq> [] \<longrightarrow> session = ''task:'' @ wid @ '':'' @ t | None \<Rightarrow> scope_ok session) \<and>
    length legacy \<le> MAX_LEGACY_SCOPES \<and> (\<forall>l \<in> set legacy. scope_ok l) \<and> distinct legacy \<and> session \<notin> set legacy"
  using assms
  by (auto simp: parse_origin_scope_def bindE_eq_Inr Let_def ctx_scope_iff split: if_splits option.splits
      dest!: origin_legacy_sound)

lemma pick_branch_nonblank: "pick_branch vs = Some b \<Longrightarrow> strip b \<noteq> []"
  by (induction vs) (auto split: option.splits if_splits dest: strip_strip_ne)

lemma resolve_worktree_normal:
  "resolve_worktree_path ws profile wp jw = Inr q \<Longrightarrow> \<exists>m. path_ok m \<and> normalize_worktree_path m = Inr q"
  by (auto simp: resolve_worktree_path_def bindE_eq_Inr ctx_path_iff)

lemma resolve_harness_ok: "resolve_harness_root ws profile wp = Inr q \<Longrightarrow> path_ok q"
  by (auto simp: resolve_harness_root_def bindE_eq_Inr ctx_path_iff split: option.splits if_splits)

lemma resolve_logs_ok: "resolve_logs_path ws wp jl = Inr (Some q) \<Longrightarrow> path_ok q"
  by (auto simp: resolve_logs_path_def bindE_eq_Inr ctx_path_iff split: option.splits)

lemma resolve_fields:
  assumes "resolve_execution_context_v1 H job_id ws task agent host profile origin jb jw jl = Inr c"
  shows "\<exists>o_dict. origin = PyDict o_dict \<and>
    parse_origin_scope o_dict (ws_id ws) (ec_task_id c) = Inr (ec_session_scope_id c, ec_legacy_scope_ids c) \<and>
    resolve_task_id task = Inr (ec_task_id c) \<and>
    ec_job_id c = job_id \<and> job_id \<noteq> [] \<and> ec_workspace_id c = ws_id ws \<and> ec_assigned_agent c = agent \<and>
    agent \<noteq> [] \<and> ec_host_id c = host \<and> strip host \<noteq> [] \<and>
    ec_workspace_path c = hp_workspace_path profile \<and> path_ok (ec_workspace_path c) \<and>
    resolve_worktree_path ws profile (ec_workspace_path c) jw = Inr (ec_worktree_path c) \<and>
    resolve_harness_root ws profile (ec_workspace_path c) = Inr (ec_harness_root c) \<and>
    lh_job_id (ec_log_handle c) = job_id \<and>
    resolve_logs_path ws (ec_workspace_path c) jl = Inr (lh_logs_path (ec_log_handle c)) \<and>
    ec_branch c = pick_branch (branch_candidates jb task ws) \<and>
    ec_context_id c = compute_context_id H (canonical_snapshot_dict c)"
  using assms
  apply (simp add: resolve_execution_context_v1_def bindE_eq_Inr Let_def ctx_path_iff
      split: if_splits option.splits)
  apply (elim exE conjE)
  apply (auto simp: bindE_eq_Inr canonical_snapshot_dict_def)
  done

lemma validate_snapshot_iff:
  "validate_execution_context_snapshot H v j w t a h = Inr c \<longleftrightarrow> parse_snapshot H v = Inr c \<and>
     (\<forall>x. j = Some x \<longrightarrow> ec_job_id c = x) \<and> (\<forall>x. w = Some x \<longrightarrow> ec_workspace_id c = x) \<and>
     (\<forall>x. t = Some x \<longrightarrow> ec_task_id c = Some x) \<and> (\<forall>x. a = Some x \<longrightarrow> ec_assigned_agent c = x) \<and>
     (\<forall>x. h = Some x \<longrightarrow> ec_host_id c = x)"
  by (cases j; cases w; cases t; cases a; cases h)
    (auto simp: validate_execution_context_snapshot_def bindE_eq_Inr expect_def)

lemma resolved_wf_iff:
  assumes "hexdigest_shape H"
    "resolve_execution_context_v1 H job_id ws task agent host profile origin jb jw jl = Inr c"
  shows "wf_context H c \<longleftrightarrow> strip job_id \<noteq> [] \<and> strip (ws_id ws) \<noteq> [] \<and> strip agent \<noteq> [] \<and>
    scope_ok (ec_session_scope_id c) \<and> (\<forall>t. ec_task_id c = Some t \<longrightarrow> strip t \<noteq> []) \<and>
    path_ok (ec_worktree_path c)"
proof -
  note f = resolve_fields [OF assms(2)]
  have 1: "re_match digest_body (ec_context_id c)"
    using f digest_of_shape [OF assms(1)] by (auto simp: compute_context_id_def)
  have 2: "\<forall>b. ec_branch c = Some b \<longrightarrow> strip b \<noteq> []" using f by (metis pick_branch_nonblank)
  have 3: "path_ok (ec_harness_root c)" using f resolve_harness_ok by blast
  have 4: "\<forall>p. lh_logs_path (ec_log_handle c) = Some p \<longrightarrow> path_ok p" using f resolve_logs_ok by auto
  have 5: "length (ec_legacy_scope_ids c) \<le> MAX_LEGACY_SCOPES \<and> (\<forall>l \<in> set (ec_legacy_scope_ids c). scope_ok l) \<and>
      distinct (ec_legacy_scope_ids c) \<and> ec_session_scope_id c \<notin> set (ec_legacy_scope_ids c)"
    using f parse_origin_scope_sound by blast
  show ?thesis using f 1 2 3 4 5 unfolding wf_context_def by auto
qed

section \<open>Properties\<close>

text \<open>
  C30: The serialised snapshot of a context is accepted, as that same context, exactly when
  every field is well formed and its \<open>context_id\<close> is the digest of its canonical form.
\<close>

theorem context_snapshot_roundtrip:
  "validate_execution_context_snapshot H (to_dict c) None None None None None = Inr c \<longleftrightarrow> wf_context H c"
  unfolding validate_snapshot_iff using parse_snapshot_sound by (auto intro: context_codec.decode_encode)

text \<open>
  The context id binds every field: two stored snapshots that both validate under the
  same id are the same context, or they exhibit a collision of SHA-256.
\<close>

theorem context_id_binds:
  assumes "validate_execution_context_snapshot H a j w t g h = Inr c"
    and "validate_execution_context_snapshot H b j' w' t' g' h' = Inr d"
    and "ec_context_id c = ec_context_id d"
  shows "c = d \<or> (json (canonical_snapshot_dict c) \<noteq> json (canonical_snapshot_dict d) \<and>
     H (json (canonical_snapshot_dict c)) = H (json (canonical_snapshot_dict d)))"
proof -
  from assms(1,2) have "wf_context H c" "wf_context H d"
    by (auto simp: validate_snapshot_iff intro: parse_snapshot_sound)
  then have "ec_context_id c = compute_context_id H (canonical_snapshot_dict c)"
    "ec_context_id d = compute_context_id H (canonical_snapshot_dict d)"
    unfolding wf_context_def by blast+
  with assms(3) have "H (json (canonical_snapshot_dict c)) = H (json (canonical_snapshot_dict d))"
    by (simp add: compute_context_id_def digest_of_def)
  with canonical_snapshot_inj [OF _ assms(3)] show ?thesis by blast
qed

definition ctx_H :: "string \<Rightarrow> string" where "ctx_H s = replicate 64 (CHR ''a'')"

definition sample_ws :: workspace where
  "sample_ws = \<lparr>ws_id = ''w1'', ws_name = ''w'', ws_path = ''/ctl/ws'', ws_harness_root = ''/ctl/ws/harness'',
     ws_harnessctl_path = None, ws_default_bus = None, ws_default_destination = None,
     ws_base_branch = Some ''main'', ws_branch_namespace = None\<rparr>"

definition sample_profile :: host_profile where
  "sample_profile = \<lparr>hp_workspace_id = ''w1'', hp_host_id = ''h1'', hp_workspace_path = ''/srv/repo'',
     hp_harness_root = None, hp_worktree_roots = [''/srv/wt'']\<rparr>"

definition sample_context :: execution_context where
  "sample_context = \<lparr>ec_context_id = sha256_prefix @ replicate 64 (CHR ''a''), ec_job_id = ''j1'',
     ec_workspace_id = ''w1'', ec_task_id = Some ''T1'', ec_assigned_agent = ''a1'', ec_host_id = ''h1'',
     ec_workspace_path = ''/srv/repo'', ec_worktree_path = ''/srv/wt/T1'', ec_harness_root = ''/srv/repo/harness'',
     ec_branch = Some ''main'', ec_session_scope_id = ''task:w1:T1'', ec_legacy_scope_ids = [''thread:9''],
     ec_log_handle = \<lparr>lh_job_id = ''j1'', lh_logs_path = None\<rparr>\<rparr>"

definition sample_origin :: pyval where
  "sample_origin = PyDict [(''session_scope_id'', PyStr ''elsewhere''),
     (''legacy_scope_ids'', PyList [PyStr ''thread:9'', PyStr ''task:w1:T1'', PyStr ''thread:9''])]"

lemma sample_resolved:
  "resolve_execution_context_v1 ctx_H ''j1'' sample_ws (Some [(''task_id'', PyStr ''T1'')]) ''a1'' ''h1''
     sample_profile sample_origin None (Some ''/srv/wt//T1/'') None = Inr sample_context"
  by code_simp

lemma sample_context_valid:
  "validate_execution_context_snapshot ctx_H (to_dict sample_context) None None None None None = Inr sample_context"
  by code_simp

definition other_context :: execution_context where
  "other_context = sample_context\<lparr>ec_assigned_agent := ''a2''\<rparr>"

lemma other_context_valid:
  "validate_execution_context_snapshot ctx_H (to_dict other_context) None None None None None = Inr other_context"
  by code_simp

theorem context_id_binds_witness:
  "json (canonical_snapshot_dict sample_context) \<noteq> json (canonical_snapshot_dict other_context)"
proof -
  have "ec_context_id sample_context = ec_context_id other_context" "sample_context \<noteq> other_context"
    by (simp_all add: other_context_def sample_context_def)
  with context_id_binds [OF sample_context_valid other_context_valid] show ?thesis by blast
qed

text \<open>
  C14: A resolved context is what its inputs say: job, workspace, agent and host are the
  arguments, its scopes are the ones of the origin, the scope of a task job is the canonical
  \<open>task:workspace:task\<close> whatever the origin claims, and its worktree path is normalised.
\<close>

theorem resolved_context_authority:
  assumes "resolve_execution_context_v1 H job_id ws task agent host profile (PyDict origin) jb jw jl = Inr c"
  shows "ec_job_id c = job_id \<and> ec_workspace_id c = ws_id ws \<and> ec_assigned_agent c = agent \<and> ec_host_id c = host \<and>
    context_matches_origin c origin (ws_id ws) (ec_task_id c) \<and>
    (\<forall>t. ec_task_id c = Some t \<longrightarrow> ec_session_scope_id c = ''task:'' @ ws_id ws @ '':'' @ t) \<and>
    distinct (ec_session_scope_id c # ec_legacy_scope_ids c) \<and>
    (\<exists>p. normalize_worktree_path p = Inr (ec_worktree_path c))"
proof -
  note f = resolve_fields [OF assms]
  have "ec_task_id c = Some t \<Longrightarrow> t \<noteq> []" for t
    using f by (auto simp: resolve_task_id_def split: option.splits if_splits)
  moreover have "\<exists>p. normalize_worktree_path p = Inr (ec_worktree_path c)" using f resolve_worktree_normal by blast
  ultimately show ?thesis
    using f parse_origin_scope_sound [of origin "ws_id ws" "ec_task_id c"]
    by (auto simp: context_matches_origin_def)
qed

theorem resolved_context_authority_witness:
  "context_matches_origin sample_context [(''session_scope_id'', PyStr ''elsewhere''),
     (''legacy_scope_ids'', PyList [PyStr ''thread:9'', PyStr ''task:w1:T1'', PyStr ''thread:9''])] ''w1'' (Some ''T1'')"
  using resolved_context_authority [OF sample_resolved [unfolded sample_origin_def]]
  by (simp add: sample_context_def sample_ws_def)

text \<open>
  When a resolved context is later accepted for the job that it was resolved for: the
  identifiers must not be blank, the session scope must be in the safe alphabet and at most
  256 long, and the path must survive the lexical check a second time. \<open>resolve\<close> checks none
  of these for a task's scope, so a task id with a space resolves to a context that the
  claim rejects.
\<close>

theorem resolved_context_accepted:
  assumes "hexdigest_shape H"
    "resolve_execution_context_v1 H job_id ws task agent host profile origin jb jw jl = Inr c"
  shows "validate_execution_context_snapshot H (to_dict c) (Some job_id) (Some (ws_id ws)) None (Some agent) (Some host) = Inr c \<longleftrightarrow>
    strip job_id \<noteq> [] \<and> strip (ws_id ws) \<noteq> [] \<and> strip agent \<noteq> [] \<and>
    scope_ok (ec_session_scope_id c) \<and> (\<forall>t. ec_task_id c = Some t \<longrightarrow> strip t \<noteq> []) \<and>
    path_ok (ec_worktree_path c)"
  using resolve_fields [OF assms(2)] resolved_wf_iff [OF assms] parse_snapshot_sound [of H "to_dict c" c]
    parse_wf_context [of H c] unfolding validate_snapshot_iff by blast

definition spaced_context :: execution_context where
  "spaced_context = sample_context\<lparr>ec_task_id := Some ''T 1'', ec_session_scope_id := ''task:w1:T 1'',
     ec_legacy_scope_ids := []\<rparr>"

lemma spaced_resolved:
  "resolve_execution_context_v1 ctx_H ''j1'' sample_ws (Some [(''task_id'', PyStr ''T 1'')]) ''a1'' ''h1''
     sample_profile (PyDict []) None (Some ''/srv/wt//T1/'') None = Inr spaced_context"
  by code_simp

lemma ctx_H_shape: "hexdigest_shape ctx_H"
  by (simp add: ctx_H_def [abs_def] hexdigest_shape_def hex64_body_def is_lower_hex_def is_digit_def list_all_iff)

theorem resolved_context_accepted_witness:
  "validate_execution_context_snapshot ctx_H (to_dict spaced_context) (Some ''j1'') (Some ''w1'') None (Some ''a1'')
     (Some ''h1'') \<noteq> Inr spaced_context"
proof -
  have "\<not> scope_ok (ec_session_scope_id spaced_context)" by code_simp
  with resolved_context_accepted [OF ctx_H_shape spaced_resolved] show ?thesis by (simp add: sample_ws_def)
qed

lemma strip_no_space: "(\<And>x. x \<in> set p \<Longrightarrow> \<not> is_space x) \<Longrightarrow> strip p = p"
  by (cases "p = []") (auto simp: strip_id_iff)

lemma slash_no_space: "\<not> is_space slash"
  by code_simp

lemma rooted_descendant:
  assumes "posix_canonical r rs" "rs \<noteq> []" "path_flavour r = Posix" "is_strict_descendant m r"
  shows "\<exists>t. m = slash # t"
proof -
  from assms(1) have r: "r = slash # join_ch slash rs" by (simp add: posix_canonical_def)
  have "rstrip_ch slash r = [] \<or> (\<exists>u. rstrip_ch slash r = slash # u)"
    by (auto simp: r rstrip_ch_def dropWhile_append intro: rev_rev_ident [symmetric])
  with assms(3,4) show ?thesis
    by (auto simp: is_strict_descendant_def flavour_sep_def startswith_iff Let_def split: if_splits)
qed

text \<open>
  A normal form that starts with a slash is a canonical POSIX path, made of characters of the
  path that was normalised.
\<close>

lemma normalize_rooted:
  assumes n: "normalize_worktree_path p = Inr (slash # t)"
  shows "norm_form (slash # t)" "\<exists>cs. posix_canonical (slash # t) cs" "set t \<subseteq> insert slash (set (strip p))"
proof -
  have u: "\<not> is_windows_unc (strip p)"
    using normalize_unc_flavour [OF n] by (auto simp: path_flavour_def startswith_iff split: if_splits)
  with normalize_norm_form [OF n] show nf: "norm_form (slash # t)" by blast
  from nf show "\<exists>cs. posix_canonical (slash # t) cs"
    by (auto simp: norm_form_def drive_canonical_def is_alpha_def)
  have "\<not> is_windows_drive (strip p)"
  proof
    assume d: "is_windows_drive (strip p)"
    with n u have l: "\<not> (length (strip p) = 2 \<or> strip p ! 2 \<noteq> bslash \<and> strip p ! 2 \<noteq> slash)"
      by (auto simp: normalize_worktree_path_def Let_def split: if_splits)
    from drive_shape [OF d l] obtain a x rest where p: "strip p = a # CHR '':'' # x # rest" "is_alpha a" "x = bslash \<or> x = slash"
      by blast
    from n u d l have "slash # t = (let m = replace_ch slash bslash (nt_normpath (strip p)) in lower (lower_char (hd m) # CHR '':'' # drop 2 m))"
      by (auto simp: normalize_worktree_path_def Let_def split: if_splits)
    then have "slash = lower_char (lower_char (if a = slash then bslash else a))"
      by (simp add: p(1) nt_normpath_drive [OF p(2,3)] replace_ch_def lower_def Let_def)
    moreover have "a \<noteq> slash" using p(2) by (auto simp: is_alpha_def)
    ultimately show False by simp
  qed
  with n u have sl: "startswith (strip p) [slash]"
    by (auto simp: normalize_worktree_path_def Let_def split: if_splits)
  have ns: "\<not> startswith (strip p) [slash, slash]" using u by (auto simp: is_windows_unc_def startswith_iff)
  have "slash # t = posix_normpath (strip p)"
    using n u sl \<open>\<not> is_windows_drive (strip p)\<close> posix_normpath_eq [OF sl ns]
    by (auto simp: normalize_worktree_path_def Let_def split: if_splits)
  then show "set t \<subseteq> insert slash (set (strip p))"
    using posix_normpath_eq [OF sl ns] rooted_join_subset [of slash "strip p"] by auto
qed

text \<open>The roots that a stored profile gives are canonical, when the workspace is a POSIX path.\<close>

lemma stored_root_canonical:
  assumes "parse_normalized_worktree_roots wp raw = Inr roots" "root \<in> set roots" "posix_canonical wp cs" "path_flavour wp = Posix"
    "strip wp = wp"
  shows "\<exists>rs. posix_canonical root rs \<and> path_flavour root = Posix \<and> rs \<noteq> []"
proof -
  obtain items where "worktree_root_loop wp False [] items = Inr roots"
    using assms(1,2) by (auto simp: parse_normalized_worktree_roots_def normalize_worktree_root_list_def split: option.splits)
  from worktree_root_loop_out [OF this] assms(2) obtain s where "validate_worktree_root wp s = Inr root" by auto
  then obtain w where w: "normalize_worktree_path s = Inr root" "\<not> is_filesystem_root root" "normalize_worktree_path wp = Inr w"
    "path_flavour root = path_flavour w"
    by (auto simp: validate_worktree_root_def normalize_host_native_worktree_path_def bindE_eq_Inr split: if_splits)
  from w(3) have "length wp \<le> MAX_PATH_LEN" "\<not> has_control wp"
    unfolding normalize_worktree_path_def Let_def assms(5) by (auto split: if_splits)
  with assms(3) have "norm_form wp" by (auto simp: norm_form_def)
  from norm_form_fixed(1) [OF this assms(5)] w(3) have "w = wp" by simp
  with w(4) assms(4) have f: "path_flavour root = Posix" by simp
  have "norm_form root" using normalize_norm_form [OF w(1)] normalize_unc_flavour [OF w(1)] f by fastforce
  with norm_form_posix f obtain rs where rs: "posix_canonical root rs" by blast
  with w(2) have "rs \<noteq> []" by (auto simp: is_filesystem_root_def posix_canonical_def)
  with rs f show ?thesis by blast
qed

text \<open>
  C11: Where a job's worktree can be, in path components. For a path without white space, a
  canonical POSIX host workspace other than \<open>/\<close>, and the worktree roots that the read of the profile's
  column gives, the resolved worktree is a canonical path (no empty, \<open>.\<close> or \<open>..\<close> component) whose
  components extend those of the host's workspace, or strictly extend those of one of the roots.
\<close>

theorem worktree_contained:
  assumes "resolve_worktree_path ws profile wp (Some p) = Inr q"
    and "parse_normalized_worktree_roots wp raw = Inr (hp_worktree_roots profile)"
    and "posix_canonical wp cs" "cs \<noteq> []" "path_flavour wp = Posix" "bslash \<notin> set wp" "strip wp = wp"
    and "p \<noteq> []" "\<And>x. x \<in> set p \<Longrightarrow> \<not> is_space x"
  shows "\<exists>qs. posix_canonical q qs \<and>
    (prefix cs qs \<or> (\<exists>root \<in> set (hp_worktree_roots profile). \<exists>rs. posix_canonical root rs \<and> strict_prefix rs qs))"
proof (cases "classify_worktree_raw_path (ws_path ws) p")
  case Control
  with assms(1) obtain m where m: "map_foreign_path (ws_path ws) wp p = Inr m"
      "normalize_worktree_path (if m = [] then wp else m) = Inr q"
    by (auto simp: resolve_worktree_path_def bindE_eq_Inr ctx_path_iff)
  have "m \<noteq> []"
    using m(1) assms(3,8) by (auto simp: map_foreign_path_def join_host_path_def Let_def posix_canonical_def split: if_splits)
  with m have q: "normalize_worktree_path m = Inr q" by simp
  from control_branch_contained [OF assms(3-7,9) m(1) assms(8) q] show ?thesis
  proof
    assume "q = wp"
    with assms(3) show ?thesis by auto
  next
    assume d: "is_strict_descendant q wp"
    then obtain t where t: "q = slash # t" using rooted_descendant [OF assms(3-5)] by blast
    from normalize_rooted(2) [OF q [unfolded t]] obtain qs where "posix_canonical q qs" by (auto simp: t)
    with posix_descendant_iff [OF this assms(3,5)] d show ?thesis by (auto simp: strict_prefix_def)
  qed
next
  case Host_native
  with assms(1) obtain m where m: "resolve_allowlisted_worktree_path p (hp_worktree_roots profile) = Inr m"
      "normalize_worktree_path (if m = [] then wp else m) = Inr q"
    by (auto simp: resolve_worktree_path_def bindE_eq_Inr ctx_path_iff)
  then obtain root where r: "root \<in> set (hp_worktree_roots profile)" "is_strict_descendant m root"
      and n: "normalize_worktree_path p = Inr m"
    by (auto simp: resolve_allowlisted_worktree_path_def normalize_host_native_worktree_path_def bindE_eq_Inr list_ex_iff split: if_splits)
  from stored_root_canonical [OF assms(2) r(1) assms(3,5,7)] obtain rs where
    rs: "posix_canonical root rs" "path_flavour root = Posix" "rs \<noteq> []" by blast
  from rooted_descendant [OF rs(1,3,2) r(2)] obtain t where t: "m = slash # t" by blast
  from normalize_rooted [OF n [unfolded t]] obtain ms where ms: "posix_canonical m ms" "set t \<subseteq> insert slash (set (strip p))"
    "norm_form m"
    by (auto simp: t)
  have sp: "strip p = p" using assms(9) strip_no_space by blast
  have "strip m = m" using ms(2) assms(9) by (intro strip_no_space) (auto simp: t sp slash_no_space)
  with ms(3) have "normalize_worktree_path m = Inr m" by (intro norm_form_fixed)
  with m(2) have "q = m" by (simp add: t)
  with posix_descendant_iff [OF ms(1) rs(1,2)] r ms(1) rs(1) show ?thesis by blast
qed

theorem worktree_contained_witness:
  "\<exists>qs. posix_canonical ''/srv/wt/T1'' qs \<and> (prefix [''srv'', ''repo''] qs \<or>
     (\<exists>root \<in> set (hp_worktree_roots sample_profile). \<exists>rs. posix_canonical root rs \<and> strict_prefix rs qs))"
proof -
  have r: "resolve_worktree_path sample_ws sample_profile ''/srv/repo'' (Some ''/srv//wt/T1/'') = Inr ''/srv/wt/T1''" by code_simp
  have p: "parse_normalized_worktree_roots ''/srv/repo'' (Some (PyList [PyStr ''/srv/wt''])) = Inr (hp_worktree_roots sample_profile)"
    by code_simp
  have "posix_canonical ''/srv/repo'' [''srv'', ''repo'']" "path_flavour ''/srv/repo'' = Posix" "strip ''/srv/repo'' = ''/srv/repo''"
    "list_all (\<lambda>x. \<not> is_space x) ''/srv//wt/T1/''"
    by code_simp+
  then show ?thesis by (intro worktree_contained [OF r p, of "[''srv'', ''repo'']"]) (auto simp: list_all_iff)
qed

text \<open>
  The guard against \<open>..\<close> looks at the raw segments, and normalisation strips white
  space first: a control path that ends in \<open>.. \<close> passes the guard and resolves to the
  parent of the host workspace, outside of it.
\<close>

theorem worktree_escapes_workspace:
  "resolve_worktree_path sample_ws sample_profile ''/srv/repo'' (Some ''/ctl/ws/.. '') = Inr ''/srv''"
  by code_simp

end
