(* ===== verification/Store.thy ===== *)
theory Store
  imports ExecContext "HOL-Library.Product_Lexorder"
begin

text \<open>
  The database of the coordinator and the primitives of \<^verbatim>\<open>db.py\<close> and
  \<^verbatim>\<open>job_repository.py\<close> over it. Each table of \<^verbatim>\<open>schema.py\<close> that the development uses is a
  list of rows in rowid order; a violated constraint of the schema is \<open>IntegrityErr\<close>. An
  operation takes the values that it reads from its environment (the clock, a fresh UUID)
  as arguments and returns its result with the new database, or raises; a raise leaves the
  database as it was, which is what the rollback of its transaction does. A time stamp is
  its number of seconds: comparing the strings is comparing the numbers (\<open>Timestamps\<close>).

  A JSON column is the value that was written: \<open>_json_dumps\<close> writes it canonically and the
  readers get it back. A column text that is not JSON, which no writer of the program
  produces, is \<open>None\<close> where a reader handles it.
\<close>

type_synonym timestamp = nat

section \<open>Rows\<close>

record agent_row =
  ag_id :: string
  ag_name :: string
  ag_role :: "string option"
  ag_capabilities :: pyval
  ag_online_state :: string
  ag_current_load :: int
  ag_host_id :: "string option"
  ag_client_type :: "string option"
  ag_last_seen_at :: "timestamp option"
  ag_created_at :: timestamp
  ag_updated_at :: timestamp

record runner_row =
  rn_id :: string
  rn_runner_type :: string
  rn_command :: string
  rn_working_directory_strategy :: string
  rn_supports_stream_attach :: bool
  rn_env :: pyval

record job_row =
  jb_id :: string
  jb_workspace_id :: "string option"
  jb_task_id :: "string option"
  jb_runner_profile_id :: "string option"
  jb_assigned_agent :: "string option"
  jb_status :: string
  jb_prompt_path :: "string option"
  jb_branch :: "string option"
  jb_worktree_path :: "string option"
  jb_terminal_session_id :: "string option"
  jb_logs_path :: "string option"
  jb_attempt_count :: int
  jb_timeout_seconds :: "int option"
  jb_payload_json :: "pyval option"
  jb_result_json :: "pyval option"
  jb_created_at :: timestamp
  jb_started_at :: "timestamp option"
  jb_completed_at :: "timestamp option"
  jb_last_activity_at :: "timestamp option"
  jb_progress_json :: "pyval option"
  jb_recoverable :: bool
  jb_updated_at :: timestamp

record event_row =
  ev_id :: string
  ev_workspace_id :: "string option"
  ev_event_type :: string
  ev_actor :: string
  ev_target :: "string option"
  ev_task_id :: "string option"
  ev_causation_id :: "string option"
  ev_idempotency_key :: string
  ev_payload :: pyval
  ev_created_at :: timestamp

record delivery_row =
  dl_id :: string
  dl_event_id :: "string option"
  dl_platform :: string
  dl_destination :: string
  dl_message_key :: string
  dl_status :: string
  dl_platform_message_id :: "string option"
  dl_attempt_count :: int
  dl_last_error :: "string option"
  dl_payload :: pyval
  dl_created_at :: timestamp
  dl_updated_at :: timestamp

record task_row =
  tk_workspace_id :: string
  tk_task_id :: string
  tk_phase :: "string option"
  tk_owner :: "string option"
  tk_branch :: "string option"
  tk_pr :: "string option"
  tk_last_event_id :: "string option"
  tk_payload :: pyval
  tk_updated_at :: timestamp

datatype lease_status = Active | Released | Expired

record lease_row =
  lr_lease_id :: string
  lr_job_id :: string
  lr_attempt_token :: int
  lr_agent_id :: string
  lr_runner_profile_id :: string
  lr_host_id :: string
  lr_resource_kind :: string
  lr_resource_key :: string
  lr_normalized_path :: string
  lr_capacity_policy_id :: string
  lr_max_concurrent_jobs :: int
  lr_status :: lease_status
  lr_acquired_at :: timestamp
  lr_renewed_at :: timestamp
  lr_expires_at :: timestamp
  lr_released_at :: "timestamp option"
  lr_release_reason :: "string option"

record capacity_row =
  cp_agent_id :: string
  cp_source_id :: string
  cp_source_version :: int
  cp_catalog_hash :: string
  cp_capacity_policy_id :: string
  cp_max_concurrent_jobs :: int

record binding_row =
  cb_platform :: string
  cb_channel_id :: string
  cb_workspace_id :: string
  cb_bound_at :: timestamp

record usage_row =
  us_job_id :: string
  us_attempt_token :: int
  us_workspace_id :: "string option"
  us_task_id :: "string option"
  us_evidence :: pyval
  us_evidence_digest :: string
  us_observed_tokens :: "int option"
  us_provider_cost_microusd :: "int option"
  us_completeness :: string
  us_terminal_event_id :: "string option"
  us_event_created :: bool
  us_recorded_at :: timestamp

record warning_row =
  wp_workspace_id :: string
  wp_task_id :: string
  wp_revision :: int
  wp_observed_tokens_threshold :: int
  wp_enabled :: bool
  wp_created_at :: timestamp
  wp_updated_at :: timestamp

record profile_row =
  pf_workspace_id :: string
  pf_host_id :: string
  pf_workspace_path :: string
  pf_harness_root :: "string option"
  pf_worktree_roots :: "pyval option"
  pf_created_at :: timestamp
  pf_updated_at :: timestamp

text \<open>An entry kind is one of \<open>authoritative\<close>, \<open>override\<close> and \<open>legacy\<close>.\<close>

record registry_row =
  rg_workspace_id :: string
  rg_agent_name :: string
  rg_entry_kind :: string
  rg_discord_user_id :: string
  rg_display_name :: string
  rg_agent_type :: string
  rg_actor :: "string option"
  rg_reason :: "string option"
  rg_expires_at :: "timestamp option"
  rg_created_at :: timestamp
  rg_updated_at :: timestamp

record registry_source_row =
  rs_workspace_id :: string
  rs_source_id :: string
  rs_source_version :: int
  rs_source_hash :: string
  rs_source_path :: "string option"
  rs_synced_by :: "string option"
  rs_synced_at :: timestamp

text \<open>The columns \<open>agents_json\<close> and \<open>agent_registry_revision\<close> of \<open>workspaces\<close>.\<close>

record registry_head_row =
  rh_workspace_id :: string
  rh_agents :: pyval
  rh_revision :: int

record catalog_source_row =
  cs_source_id :: string
  cs_source_version :: int
  cs_catalog_hash :: string
  cs_source_path :: "string option"
  cs_updated_at :: timestamp

record definition_row =
  df_id :: string
  df_source_id :: string
  df_provider :: string
  df_adapter :: string
  df_capabilities :: "string list"
  df_created_at :: timestamp
  df_updated_at :: timestamp

record instance_row =
  ib_agent_id :: string
  ib_source_id :: string
  ib_executor_definition_id :: string
  ib_runner_profile_id :: string
  ib_enabled :: bool
  ib_created_at :: timestamp
  ib_updated_at :: timestamp

record split_row =
  so_operation_id :: string
  so_contract_version :: int
  so_operation_kind :: string
  so_workspace_id :: string
  so_target_kind :: string
  so_target_id :: string
  so_source_kind :: "string option"
  so_source_id :: "string option"
  so_input_fingerprint :: string
  so_before_fingerprint :: string
  so_after_fingerprint :: string
  so_status :: string
  so_record_event_id :: "string option"
  so_created_at :: timestamp
  so_updated_at :: timestamp

record db =
  db_workspaces :: "workspace list"
  db_agents :: "agent_row list"
  db_runner_profiles :: "runner_row list"
  db_jobs :: "job_row list"
  db_events :: "event_row list"
  db_deliveries :: "delivery_row list"
  db_tasks :: "task_row list"
  db_leases :: "lease_row list"
  db_capacity :: "capacity_row list"
  db_bindings :: "binding_row list"
  db_usage :: "usage_row list"
  db_warnings :: "warning_row list"
  db_profiles :: "profile_row list"
  db_registry :: "registry_row list"
  db_registry_sources :: "registry_source_row list"
  db_registry_heads :: "registry_head_row list"
  db_catalog_sources :: "catalog_source_row list"
  db_definitions :: "definition_row list"
  db_instances :: "instance_row list"
  db_splits :: "split_row list"

text \<open>\<open>_json_dumps(value)\<close> writes \<open>value or {}\<close>.\<close>

definition json_col :: "pyval \<Rightarrow> pyval" where
  "json_col v = (if truthy v then v else PyDict [])"

text \<open>An integer that SQLite binds; \<^verbatim>\<open>sqlite3\<close> raises \<open>OverflowError\<close> for any other.\<close>

definition int64 :: "int \<Rightarrow> bool" where
  "int64 i \<longleftrightarrow> - (2 ^ 63) \<le> i \<and> i \<le> 2 ^ 63 - 1"

definition get_workspace :: "db \<Rightarrow> string \<Rightarrow> workspace option" where
  "get_workspace s wid = find (\<lambda>w. ws_id w = wid) (db_workspaces s)"

definition workspace_exists :: "db \<Rightarrow> string \<Rightarrow> bool" where
  "workspace_exists s wid = list_ex (\<lambda>w. ws_id w = wid) (db_workspaces s)"

text \<open>A nullable foreign key into \<open>workspaces\<close>.\<close>

definition workspace_fk :: "db \<Rightarrow> string option \<Rightarrow> bool" where
  "workspace_fk s w = (case w of None \<Rightarrow> True | Some wid \<Rightarrow> workspace_exists s wid)"

definition get_runner_profile :: "db \<Rightarrow> string \<Rightarrow> runner_row option" where
  "get_runner_profile s pid = find (\<lambda>r. rn_id r = pid) (db_runner_profiles s)"

definition list_runner_profiles :: "db \<Rightarrow> runner_row list" where
  "list_runner_profiles s = sort_key rn_id (db_runner_profiles s)"

definition get_agent :: "db \<Rightarrow> string \<Rightarrow> agent_row option" where
  "get_agent s aid = find (\<lambda>a. ag_id a = aid) (db_agents s)"

text \<open>\<open>WorkspaceHostProfile.from_row\<close>: the stored roots are validated when they are read.\<close>

definition profile_of_row :: "profile_row \<Rightarrow> host_profile result" where
  "profile_of_row r =
     bindE (parse_normalized_worktree_roots (pf_workspace_path r) (pf_worktree_roots r)) (\<lambda>roots.
       Inr \<lparr>hp_workspace_id = pf_workspace_id r, hp_host_id = pf_host_id r,
            hp_workspace_path = pf_workspace_path r, hp_harness_root = pf_harness_root r,
            hp_worktree_roots = roots\<rparr>)"

definition get_workspace_host_profile :: "db \<Rightarrow> string \<Rightarrow> string \<Rightarrow> host_profile option result" where
  "get_workspace_host_profile s wid host =
     (case find (\<lambda>r. pf_workspace_id r = wid \<and> pf_host_id r = host) (db_profiles s) of
        None \<Rightarrow> Inr None
      | Some r \<Rightarrow> bindE (profile_of_row r) (\<lambda>p. Inr (Some p)))"

definition list_workspace_host_profiles :: "db \<Rightarrow> string \<Rightarrow> host_profile list result" where
  "list_workspace_host_profiles s wid =
     mapE profile_of_row (sort_key pf_host_id (filter (\<lambda>r. pf_workspace_id r = wid) (db_profiles s)))"

text \<open>
  \<open>upsert_workspace_host_profile\<close>: without roots the stored ones are kept, but validated against
  the new path. The remaining columns are plain data and not kept.
\<close>

definition upsert_workspace_host_profile ::
  "timestamp \<Rightarrow> string \<Rightarrow> string \<Rightarrow> string \<Rightarrow> string option \<Rightarrow> pyval \<Rightarrow> db \<Rightarrow> (host_profile option \<times> db) result" where
  "upsert_workspace_host_profile now wid host path harness_root roots s =
     (if get_workspace s wid = None then raise ValueErr ''unknown workspace''
      else if strip host = [] then raise ValueErr ''host_id is required''
      else if strip path = [] then raise ValueErr ''workspace_path is required''
      else
        bindE (if roots = PyNone then
                 bindE (get_workspace_host_profile s wid host) (\<lambda>existing.
                   let preserved = (case existing of None \<Rightarrow> [] | Some p \<Rightarrow> hp_worktree_roots p) in
                   if preserved = [] then Inr []
                   else normalize_worktree_root_list path True (map PyStr preserved))
               else case as_list roots of
                      None \<Rightarrow> raise ValueErr ''worktree_roots must be a list of path strings''
                    | Some items \<Rightarrow> normalize_worktree_root_list path True items) (\<lambda>normalized.
          let row = \<lparr>pf_workspace_id = wid, pf_host_id = host, pf_workspace_path = path, pf_harness_root = harness_root,
                     pf_worktree_roots = Some (PyList (map PyStr normalized)), pf_created_at = now, pf_updated_at = now\<rparr>;
              here = (\<lambda>r. pf_workspace_id r = wid \<and> pf_host_id r = host);
              s' = (if list_ex here (db_profiles s)
                    then s\<lparr>db_profiles := update_where here (\<lambda>r. row\<lparr>pf_created_at := pf_created_at r\<rparr>) (db_profiles s)\<rparr>
                    else s\<lparr>db_profiles := db_profiles s @ [row]\<rparr>)
          in bindE (get_workspace_host_profile s' wid host) (\<lambda>p. Inr (p, s'))))"

section \<open>Events\<close>

definition get_event :: "db \<Rightarrow> string \<Rightarrow> event_row result" where
  "get_event s eid =
     (case find (\<lambda>e. ev_id e = eid) (db_events s) of
        None \<Rightarrow> raise KeyErr ''event'' | Some e \<Rightarrow> Inr e)"

definition get_event_by_idempotency_key :: "db \<Rightarrow> string \<Rightarrow> event_row option" where
  "get_event_by_idempotency_key s key = find (\<lambda>e. ev_idempotency_key e = key) (db_events s)"

definition list_events :: "db \<Rightarrow> string option \<Rightarrow> event_row list" where
  "list_events s wid =
     (case wid of
        Some w \<Rightarrow> if w = [] then db_events s else filter (\<lambda>e. ev_workspace_id e = Some w) (db_events s)
      | None \<Rightarrow> db_events s)"

text \<open>The arguments of \<open>append_event\<close> but for the key.\<close>

record new_event =
  ne_event_type :: string
  ne_actor :: string
  ne_workspace_id :: "string option"
  ne_target :: "string option"
  ne_task_id :: "string option"
  ne_causation_id :: "string option"
  ne_payload :: pyval

definition event_of :: "string \<Rightarrow> timestamp \<Rightarrow> string \<Rightarrow> new_event \<Rightarrow> event_row" where
  "event_of uuid now key a =
     \<lparr>ev_id = uuid, ev_workspace_id = ne_workspace_id a, ev_event_type = ne_event_type a,
      ev_actor = ne_actor a, ev_target = ne_target a, ev_task_id = ne_task_id a,
      ev_causation_id = ne_causation_id a, ev_idempotency_key = key,
      ev_payload = json_col (ne_payload a), ev_created_at = now\<rparr>"

text \<open>The INSERT: primary key, UNIQUE key and the foreign key into \<open>workspaces\<close>.\<close>

definition insert_event :: "event_row \<Rightarrow> db \<Rightarrow> db result" where
  "insert_event e s =
     (if list_ex (\<lambda>x. ev_id x = ev_id e) (db_events s) then raise IntegrityErr ''events.id''
      else if list_ex (\<lambda>x. ev_idempotency_key x = ev_idempotency_key e) (db_events s) then
        raise IntegrityErr ''events.idempotency_key''
      else if \<not> workspace_fk s (ev_workspace_id e) then raise IntegrityErr ''events.workspace_id''
      else Inr (s\<lparr>db_events := db_events s @ [e]\<rparr>))"

text \<open>\<open>idempotency_key or event_id\<close>.\<close>

definition event_key :: "string \<Rightarrow> string option \<Rightarrow> string" where
  "event_key uuid k = (case k of Some x \<Rightarrow> if x = [] then uuid else x | None \<Rightarrow> uuid)"

definition append_event ::
  "string \<Rightarrow> timestamp \<Rightarrow> string option \<Rightarrow> new_event \<Rightarrow> db \<Rightarrow> ((event_row \<times> bool) \<times> db) result" where
  "append_event uuid now idempotency_key a s =
     (let key = event_key uuid idempotency_key;
          e = event_of uuid now key a
      in case insert_event e s of
           Inr s' \<Rightarrow> Inr ((e, True), s')
         | Inl exc \<Rightarrow>
             (case get_event_by_idempotency_key s key of
                None \<Rightarrow> Inl exc
              | Some row \<Rightarrow> Inr ((row, False), s)))"

text \<open>
  \<open>json_extract(payload_json, '$.key') = ?\<close> with a text parameter: SQLite compares a string
  field, or the compact JSON of an object or array field, with the text; a number, a boolean
  and a null never equal a text.
\<close>

fun extract_text :: "pyval \<Rightarrow> string option" where
  "extract_text (PyStr s) = Some s"
| "extract_text (PyList xs) = Some (json (PyList xs))"
| "extract_text (PyDict d) = Some (json (PyDict d))"
| "extract_text _ = None"

fun spaced :: "string list \<Rightarrow> string" where
  "spaced [] = []"
| "spaced [w] = w"
| "spaced (w # ws) = w @ '', '' @ spaced ws"

text \<open>\<open>json.dumps(value)\<close> with the default separators and key order.\<close>

fun json_default :: "pyval \<Rightarrow> string" where
  "json_default (PyList xs) = CHR ''['' # spaced (map json_default xs) @ '']''"
| "json_default (PyDict d) = CHR 0x7B #
     spaced (map (\<lambda>(k, v). json_str k @ '': '' @ v) (map (\<lambda>(k, v). (k, json_default v)) d)) @ [CHR 0x7D]"
| "json_default v = json v"

definition payload_param :: "pyval \<Rightarrow> string" where
  "payload_param v = (case as_str v of Some s \<Rightarrow> s | None \<Rightarrow> json_default v)"

definition payload_key_body :: "string \<Rightarrow> bool" where
  "payload_key_body k = (k \<noteq> [] \<and> (is_alpha (hd k) \<or> hd k = CHR ''_'') \<and>
     list_all (\<lambda>c. is_alpha c \<or> is_digit c \<or> c = CHR ''_'') (tl k))"

definition validate_payload_key :: "string \<Rightarrow> string result" where
  "validate_payload_key k =
     (if k = [] \<or> \<not> re_match payload_key_body k then raise ValueErr ''invalid payload key'' else Inr k)"

definition dict_of :: "pyval \<Rightarrow> (string \<times> pyval) list" where
  "dict_of v = (case as_dict v of Some d \<Rightarrow> d | None \<Rightarrow> [])"

definition find_events ::
  "db \<Rightarrow> string option \<Rightarrow> string option \<Rightarrow> string option \<Rightarrow> (string \<times> pyval) option \<Rightarrow> event_row list result" where
  "find_events s event_type workspace_id task_id payload =
     bindE (case payload of None \<Rightarrow> Inr [] | Some (k, v) \<Rightarrow> validate_payload_key k) (\<lambda>_.
       Inr (filter (\<lambda>e.
         (event_type = None \<or> event_type = Some (ev_event_type e)) \<and>
         (workspace_id = None \<or> workspace_id = ev_workspace_id e) \<and>
         (task_id = None \<or> task_id = ev_task_id e) \<and>
         (case payload of None \<Rightarrow> True
          | Some (k, v) \<Rightarrow> extract_text (dget (dict_of (ev_payload e)) k) = Some (payload_param v)))
         (db_events s)))"

definition latest_event ::
  "db \<Rightarrow> string option \<Rightarrow> string option \<Rightarrow> string option \<Rightarrow> (string \<times> pyval) option \<Rightarrow> event_row option result" where
  "latest_event s event_type workspace_id task_id payload =
     bindE (find_events s event_type workspace_id task_id payload) (\<lambda>rows.
       Inr (if rows = [] then None else Some (last rows)))"

section \<open>Deliveries\<close>

definition get_delivery :: "db \<Rightarrow> string \<Rightarrow> delivery_row result" where
  "get_delivery s did =
     (case find (\<lambda>d. dl_id d = did) (db_deliveries s) of
        None \<Rightarrow> raise KeyErr ''delivery'' | Some d \<Rightarrow> Inr d)"

definition delivery_by_key :: "db \<Rightarrow> string \<Rightarrow> delivery_row option" where
  "delivery_by_key s key = find (\<lambda>d. dl_message_key d = key) (db_deliveries s)"

record new_delivery =
  nd_platform :: string
  nd_destination :: string
  nd_payload :: pyval
  nd_event_id :: "string option"

definition delivery_of :: "string \<Rightarrow> timestamp \<Rightarrow> string \<Rightarrow> new_delivery \<Rightarrow> delivery_row" where
  "delivery_of did now key a =
     \<lparr>dl_id = did, dl_event_id = nd_event_id a, dl_platform = nd_platform a,
      dl_destination = nd_destination a, dl_message_key = key, dl_status = ''pending'',
      dl_platform_message_id = None, dl_attempt_count = 0, dl_last_error = None,
      dl_payload = json_col (nd_payload a), dl_created_at = now, dl_updated_at = now\<rparr>"

definition create_delivery ::
  "string \<Rightarrow> timestamp \<Rightarrow> string \<Rightarrow> new_delivery \<Rightarrow> db \<Rightarrow> ((delivery_row \<times> bool) \<times> db) result" where
  "create_delivery did now message_key a s =
     bindE (case nd_event_id a of None \<Rightarrow> Inr () | Some e \<Rightarrow> bindE (get_event s e) (\<lambda>_. Inr ())) (\<lambda>_.
       let d = delivery_of did now message_key a in
       if list_ex (\<lambda>x. dl_id x = did) (db_deliveries s) \<or> list_ex (\<lambda>x. dl_message_key x = message_key) (db_deliveries s)
       then (case delivery_by_key s message_key of
               None \<Rightarrow> raise IntegrityErr ''deliveries.id''
             | Some row \<Rightarrow> Inr ((row, False), s))
       else Inr ((d, True), s\<lparr>db_deliveries := db_deliveries s @ [d]\<rparr>))"

definition delivery_type_match :: "string option \<Rightarrow> delivery_row \<Rightarrow> bool" where
  "delivery_type_match t d =
     (if t = Some ''dry_run'' then dl_platform d = ''stdout'' \<and> dl_destination d = ''local''
      else if t = Some ''live'' then dl_platform d \<noteq> ''stdout'' \<or> dl_destination d \<noteq> ''local''
      else True)"

definition list_deliveries ::
  "db \<Rightarrow> string option \<Rightarrow> string option \<Rightarrow> string option \<Rightarrow> delivery_row list" where
  "list_deliveries s status platform delivery_type =
     filter (\<lambda>d. (case status of Some x \<Rightarrow> x = [] \<or> dl_status d = x | None \<Rightarrow> True) \<and>
        (case platform of Some x \<Rightarrow> x = [] \<or> dl_platform d = x | None \<Rightarrow> True) \<and>
        delivery_type_match delivery_type d) (db_deliveries s)"

section \<open>Task mirrors\<close>

definition get_task_mirror :: "db \<Rightarrow> string \<Rightarrow> string \<Rightarrow> task_row option" where
  "get_task_mirror s wid tid = find (\<lambda>t. tk_workspace_id t = wid \<and> tk_task_id t = tid) (db_tasks s)"

definition list_task_mirrors :: "db \<Rightarrow> string option \<Rightarrow> task_row list" where
  "list_task_mirrors s wid =
     (case wid of
        Some w \<Rightarrow> if w = [] then sort_key (\<lambda>t. (tk_workspace_id t, tk_task_id t)) (db_tasks s)
                  else sort_key tk_task_id (filter (\<lambda>t. tk_workspace_id t = w) (db_tasks s))
      | None \<Rightarrow> sort_key (\<lambda>t. (tk_workspace_id t, tk_task_id t)) (db_tasks s))"

text \<open>
  The unique indexes of \<open>tasks\<close>: an open task owns its branch, a task owns its pull request.
\<close>

definition task_conflict :: "task_row \<Rightarrow> task_row \<Rightarrow> bool" where
  "task_conflict a b =
     (tk_workspace_id a = tk_workspace_id b \<and> tk_task_id a \<noteq> tk_task_id b \<and>
      (tk_branch a \<noteq> None \<and> tk_branch a = tk_branch b \<and>
         tk_phase a \<noteq> Some ''closed'' \<and> tk_phase b \<noteq> Some ''closed'' \<or>
       tk_pr a \<noteq> None \<and> tk_pr a = tk_pr b))"

definition write_task :: "task_row \<Rightarrow> db \<Rightarrow> db result" where
  "write_task t s =
     (if \<not> workspace_exists s (tk_workspace_id t) then raise IntegrityErr ''tasks.workspace_id''
      else if (case tk_last_event_id t of None \<Rightarrow> False | Some e \<Rightarrow> \<not> list_ex (\<lambda>x. ev_id x = e) (db_events s))
        then raise IntegrityErr ''tasks.last_event_id''
      else if list_ex (task_conflict t) (db_tasks s) then raise IntegrityErr ''tasks unique index''
      else if get_task_mirror s (tk_workspace_id t) (tk_task_id t) = None then
        Inr (s\<lparr>db_tasks := db_tasks s @ [t]\<rparr>)
      else Inr (s\<lparr>db_tasks := update_where
        (\<lambda>x. tk_workspace_id x = tk_workspace_id t \<and> tk_task_id x = tk_task_id t) (\<lambda>_. t) (db_tasks s)\<rparr>))"

text \<open>
  The row to write carries every argument; its \<open>tk_updated_at\<close> is the clock. The JSON texts
  are compared, as the code does.
\<close>

definition upsert_task_mirror :: "task_row \<Rightarrow> db \<Rightarrow> ((task_row \<times> string) \<times> db) result" where
  "upsert_task_mirror t0 s =
     (let t = t0\<lparr>tk_payload := json_col (tk_payload t0)\<rparr> in
      case get_task_mirror s (tk_workspace_id t) (tk_task_id t) of
        Some x \<Rightarrow>
          if tk_phase x = tk_phase t \<and> tk_owner x = tk_owner t \<and> tk_branch x = tk_branch t \<and>
             tk_pr x = tk_pr t \<and> tk_last_event_id x = tk_last_event_id t \<and>
             json (tk_payload x) = json (tk_payload t)
          then Inr ((x, ''unchanged''), s)
          else bindE (write_task t s) (\<lambda>s'. Inr ((t, ''updated''), s'))
      | None \<Rightarrow> bindE (write_task t s) (\<lambda>s'. Inr ((t, ''created''), s')))"

definition task_events :: "db \<Rightarrow> string \<Rightarrow> string \<Rightarrow> event_row list" where
  "task_events s wid tid = rev (filter (\<lambda>e. ev_workspace_id e = Some wid \<and> ev_task_id e = Some tid) (db_events s))"

definition list_task_recovery_events :: "db \<Rightarrow> string \<Rightarrow> string \<Rightarrow> nat \<Rightarrow> event_row list" where
  "list_task_recovery_events s wid tid limit = take limit (task_events s wid tid)"

definition latest_task_assignment :: "db \<Rightarrow> string \<Rightarrow> string \<Rightarrow> event_row option" where
  "latest_task_assignment s wid tid = find (\<lambda>e. ev_event_type e = ''assignment.accepted'') (task_events s wid tid)"

definition latest_task_decision :: "db \<Rightarrow> string \<Rightarrow> string \<Rightarrow> event_row option" where
  "latest_task_decision s wid tid =
     find (\<lambda>e. ''decision'' \<in> dkeys (dict_of (ev_payload e))) (task_events s wid tid)"

section \<open>Split operations\<close>

definition get_split_operation :: "db \<Rightarrow> string \<Rightarrow> split_row option" where
  "get_split_operation s oid = find (\<lambda>r. so_operation_id r = oid) (db_splits s)"

definition event_fk :: "db \<Rightarrow> string option \<Rightarrow> bool" where
  "event_fk s e = (case e of None \<Rightarrow> True | Some x \<Rightarrow> list_ex (\<lambda>r. ev_id r = x) (db_events s))"

definition insert_split_operation :: "split_row \<Rightarrow> db \<Rightarrow> db result" where
  "insert_split_operation r s =
     (if list_ex (\<lambda>x. so_operation_id x = so_operation_id r) (db_splits s) then raise IntegrityErr ''split_operations.operation_id''
      else if \<not> workspace_exists s (so_workspace_id r) then raise IntegrityErr ''split_operations.workspace_id''
      else if \<not> event_fk s (so_record_event_id r) then raise IntegrityErr ''split_operations.record_event_id''
      else Inr (s\<lparr>db_splits := db_splits s @ [r]\<rparr>))"

definition update_split_operation_event :: "timestamp \<Rightarrow> string \<Rightarrow> string \<Rightarrow> db \<Rightarrow> db result" where
  "update_split_operation_event now oid eid s =
     (if list_ex (\<lambda>x. so_operation_id x = oid) (db_splits s) \<and> \<not> event_fk s (Some eid) then raise IntegrityErr ''split_operations.record_event_id''
      else Inr (s\<lparr>db_splits := update_where (\<lambda>r. so_operation_id r = oid)
        (\<lambda>r. r\<lparr>so_record_event_id := Some eid, so_updated_at := now\<rparr>) (db_splits s)\<rparr>))"

text \<open>An argument \<open>None\<close> does not filter. The rows come in the order of their creation.\<close>

definition list_split_operations ::
  "db \<Rightarrow> string option \<Rightarrow> string option \<Rightarrow> string option \<Rightarrow> string option \<Rightarrow> string option \<Rightarrow> string option \<Rightarrow> split_row list" where
  "list_split_operations s wid tk tid sk sid status =
     (let ok = (\<lambda>want have. want = None \<or> want = have) in
      sort_key so_created_at (filter (\<lambda>r. ok wid (Some (so_workspace_id r)) \<and> ok tk (Some (so_target_kind r)) \<and>
        ok tid (Some (so_target_id r)) \<and> (sk = None \<or> so_source_kind r = sk) \<and> (sid = None \<or> so_source_id r = sid) \<and>
        ok status (Some (so_status r))) (db_splits s)))"

section \<open>The event and delivery ledgers\<close>

definition event_inv :: "db \<Rightarrow> bool" where
  "event_inv s \<longleftrightarrow> distinct (map ev_id (db_events s)) \<and> distinct (map ev_idempotency_key (db_events s)) \<and>
     (\<forall>e \<in> set (db_events s). workspace_fk s (ev_workspace_id e))"

lemma list_ex_key_iff: "list_ex (\<lambda>x. f x = k) xs \<longleftrightarrow> k \<in> f ` set xs"
  by (auto simp: list_ex_iff)

lemma insert_event_Inr:
  "insert_event e s = Inr s' \<longleftrightarrow> s' = s\<lparr>db_events := db_events s @ [e]\<rparr> \<and>
     ev_id e \<notin> ev_id ` set (db_events s) \<and> ev_idempotency_key e \<notin> ev_idempotency_key ` set (db_events s) \<and>
     workspace_fk s (ev_workspace_id e)"
  by (auto simp: insert_event_def list_ex_key_iff)

lemma event_by_key_None: "get_event_by_idempotency_key s k = None \<longleftrightarrow> k \<notin> ev_idempotency_key ` set (db_events s)"
  by (auto simp: get_event_by_idempotency_key_def find_None_notin)

lemma event_of_sel [simp]:
  "ev_id (event_of u t k a) = u" "ev_idempotency_key (event_of u t k a) = k"
  "ev_workspace_id (event_of u t k a) = ne_workspace_id a" "ev_event_type (event_of u t k a) = ne_event_type a"
  "ev_payload (event_of u t k a) = json_col (ne_payload a)" "ev_task_id (event_of u t k a) = ne_task_id a"
  by (simp_all add: event_of_def)

text \<open>The two ways in which \<open>append_event\<close> returns.\<close>

lemma append_event_cases:
  "append_event uuid now k a s = Inr ((e, c), s') \<longleftrightarrow>
     (c \<and> e = event_of uuid now (event_key uuid k) a \<and> s' = s\<lparr>db_events := db_events s @ [e]\<rparr> \<and>
        uuid \<notin> ev_id ` set (db_events s) \<and> event_key uuid k \<notin> ev_idempotency_key ` set (db_events s) \<and>
        workspace_fk s (ne_workspace_id a)) \<or>
     (\<not> c \<and> s' = s \<and> get_event_by_idempotency_key s (event_key uuid k) = Some e)"
proof -
  have key: "event_key uuid k \<in> ev_idempotency_key ` set (db_events s)"
    if "get_event_by_idempotency_key s (event_key uuid k) = Some e" for e
    using that by (metis event_by_key_None option.distinct(1))
  let ?e = "event_of uuid now (event_key uuid k) a"
  have "append_event uuid now k a s =
    (case insert_event ?e s of Inr s' \<Rightarrow> Inr ((?e, True), s')
     | Inl exc \<Rightarrow> (case get_event_by_idempotency_key s (event_key uuid k) of None \<Rightarrow> Inl exc | Some row \<Rightarrow> Inr ((row, False), s)))"
    by (simp add: append_event_def Let_def)
  then show ?thesis
    using key insert_event_Inr [of ?e s] by (auto split: sum.splits option.splits)
qed

lemma append_event_created:
  assumes "append_event uuid now k a s = Inr ((e, True), s')"
  shows "e = event_of uuid now (event_key uuid k) a" "s' = s\<lparr>db_events := db_events s @ [e]\<rparr>"
  using assms by (auto simp: append_event_cases)

lemma append_event_prefix: "append_event uuid now k a s = Inr ((e, c), s') \<Longrightarrow> \<exists>es. s' = s\<lparr>db_events := db_events s @ es\<rparr>"
  unfolding append_event_cases by (auto intro: exI [of _ "[]"])

lemma append_event_inv: "event_inv s \<Longrightarrow> append_event uuid now k a s = Inr ((e, c), s') \<Longrightarrow> event_inv s'"
  unfolding append_event_cases event_inv_def
  by (auto simp: workspace_fk_def workspace_exists_def split: option.splits)

lemma event_by_key_append:
  "get_event_by_idempotency_key (s\<lparr>db_events := db_events s @ es\<rparr>) k =
     (case get_event_by_idempotency_key s k of Some e \<Rightarrow> Some e | None \<Rightarrow> find (\<lambda>e. ev_idempotency_key e = k) es)"
  by (simp add: get_event_by_idempotency_key_def find_append split: option.splits)

lemma append_event_keeps:
  "append_event uuid now k a s = Inr ((e, c), s') \<Longrightarrow> get_event_by_idempotency_key s x = Some r \<Longrightarrow>
     get_event_by_idempotency_key s' x = Some r"
  by (auto dest!: append_event_prefix simp: event_by_key_append)

interpretation event_ledger: keyed_ledger "\<lambda>k. k \<noteq> []" get_event_by_idempotency_key
  "\<lambda>k (uuid, now, a). append_event uuid now (Some k) a"
proof unfold_locales
  fix k :: string and s :: db and r y and a :: "string \<times> timestamp \<times> new_event"
  assume k: "k \<noteq> []" and l: "get_event_by_idempotency_key s k = Some r"
    and p: "(case a of (uuid, now, a) \<Rightarrow> append_event uuid now (Some k) a) s = Inr y"
  obtain uuid now b e c s' where "a = (uuid, now, b)" "y = ((e, c), s')" by (cases a; cases y) auto
  with p l k show "y = ((r, False), s)"
    using event_by_key_None [of s k] by (auto simp: append_event_cases event_key_def)
next
  fix k :: string and s s' :: db and r c and a :: "string \<times> timestamp \<times> new_event"
  assume k: "k \<noteq> []" and l: "get_event_by_idempotency_key s k = None"
    and p: "(case a of (uuid, now, a) \<Rightarrow> append_event uuid now (Some k) a) s = Inr ((r, c), s')"
  obtain uuid now b where "a = (uuid, now, b)" by (cases a) auto
  with p l k show "c \<and> get_event_by_idempotency_key s' k = Some r \<and>
      (\<forall>k'. k' \<noteq> k \<longrightarrow> get_event_by_idempotency_key s' k' = get_event_by_idempotency_key s k')"
    by (auto simp: append_event_cases event_key_def event_by_key_append split: option.splits)
qed

lemma delivery_by_key_append:
  "delivery_by_key (s\<lparr>db_deliveries := db_deliveries s @ ds\<rparr>) k =
     (case delivery_by_key s k of Some d \<Rightarrow> Some d | None \<Rightarrow> find (\<lambda>d. dl_message_key d = k) ds)"
  by (simp add: delivery_by_key_def find_append split: option.splits)

lemma delivery_by_key_None: "delivery_by_key s k = None \<longleftrightarrow> k \<notin> dl_message_key ` set (db_deliveries s)"
  by (auto simp: delivery_by_key_def find_None_notin)

lemma delivery_of_sel [simp]:
  "dl_id (delivery_of u t k a) = u" "dl_message_key (delivery_of u t k a) = k"
  "dl_status (delivery_of u t k a) = ''pending''" "dl_attempt_count (delivery_of u t k a) = 0"
  "dl_payload (delivery_of u t k a) = json_col (nd_payload a)" "dl_platform (delivery_of u t k a) = nd_platform a"
  "dl_destination (delivery_of u t k a) = nd_destination a"
  by (simp_all add: delivery_of_def)

lemma create_delivery_cases:
  "create_delivery did now k a s = Inr ((d, c), s') \<longleftrightarrow>
     (case nd_event_id a of None \<Rightarrow> True | Some e \<Rightarrow> is_ok (get_event s e)) \<and>
     (c \<and> d = delivery_of did now k a \<and> s' = s\<lparr>db_deliveries := db_deliveries s @ [d]\<rparr> \<and>
        did \<notin> dl_id ` set (db_deliveries s) \<and> k \<notin> dl_message_key ` set (db_deliveries s) \<or>
      \<not> c \<and> s' = s \<and> delivery_by_key s k = Some d)"
proof -
  have "delivery_by_key s k = Some d \<Longrightarrow> k \<in> dl_message_key ` set (db_deliveries s)" for d
    by (metis delivery_by_key_None option.distinct(1))
  then show ?thesis
    by (auto simp: create_delivery_def bindE_eq_Inr is_ok_iff Let_def list_ex_key_iff split: option.splits if_splits)
qed

interpretation delivery_ledger: keyed_ledger "\<lambda>_. True" delivery_by_key
  "\<lambda>k (did, now, a). create_delivery did now k a"
proof unfold_locales
  fix k :: string and s :: db and r y and a :: "string \<times> timestamp \<times> new_delivery"
  assume l: "delivery_by_key s k = Some r"
    and p: "(case a of (did, now, a) \<Rightarrow> create_delivery did now k a) s = Inr y"
  obtain did now b e c s' where "a = (did, now, b)" "y = ((e, c), s')" by (cases a; cases y) auto
  with p l show "y = ((r, False), s)"
    using delivery_by_key_None [of s k] by (auto simp: create_delivery_cases)
next
  fix k :: string and s s' :: db and r c and a :: "string \<times> timestamp \<times> new_delivery"
  assume l: "delivery_by_key s k = None"
    and p: "(case a of (did, now, a) \<Rightarrow> create_delivery did now k a) s = Inr ((r, c), s')"
  obtain did now b where "a = (did, now, b)" by (cases a) auto
  with p l show "c \<and> delivery_by_key s' k = Some r \<and>
      (\<forall>k'. k' \<noteq> k \<longrightarrow> delivery_by_key s' k' = delivery_by_key s k')"
    by (auto simp: create_delivery_cases delivery_by_key_append split: option.splits)
qed

section \<open>Task mirrors\<close>

definition task_inv :: "db \<Rightarrow> bool" where
  "task_inv s \<longleftrightarrow> distinct (map (\<lambda>t. (tk_workspace_id t, tk_task_id t)) (db_tasks s)) \<and>
     (\<forall>a \<in> set (db_tasks s). \<forall>b \<in> set (db_tasks s). \<not> task_conflict a b) \<and>
     (\<forall>a \<in> set (db_tasks s). workspace_exists s (tk_workspace_id a))"

lemma task_conflict_sym: "task_conflict a b = task_conflict b a"
  by (auto simp: task_conflict_def)

lemma task_conflict_self: "\<not> task_conflict a a"
  by (simp add: task_conflict_def)

lemma get_task_mirror_None:
  "get_task_mirror s w t = None \<longleftrightarrow> (w, t) \<notin> (\<lambda>x. (tk_workspace_id x, tk_task_id x)) ` set (db_tasks s)"
  by (auto simp: get_task_mirror_def find_None_notin)

lemma write_task_Inr:
  assumes "write_task t s = Inr s'"
  shows "workspace_exists s (tk_workspace_id t) \<and> (\<forall>x \<in> set (db_tasks s). \<not> task_conflict t x) \<and>
    db_workspaces s' = db_workspaces s \<and>
    db_tasks s' = (if get_task_mirror s (tk_workspace_id t) (tk_task_id t) = None then db_tasks s @ [t]
      else update_where (\<lambda>x. (tk_workspace_id x, tk_task_id x) = (tk_workspace_id t, tk_task_id t)) (\<lambda>_. t) (db_tasks s))"
  using assms by (auto simp: write_task_def list_ex_iff split: if_splits)

lemma write_task_inv:
  assumes "task_inv s" "write_task t s = Inr s'"
  shows "task_inv s'"
proof -
  note w = write_task_Inr [OF assms(2)]
  let ?k = "\<lambda>x. (tk_workspace_id x, tk_task_id x)"
  have e: "workspace_exists s' = workspace_exists s" using w by (simp add: workspace_exists_def fun_eq_iff)
  show ?thesis
  proof (cases "get_task_mirror s (tk_workspace_id t) (tk_task_id t) = None")
    case True
    with w have d: "db_tasks s' = db_tasks s @ [t]" by simp
    from True have "?k t \<notin> ?k ` set (db_tasks s)" unfolding get_task_mirror_None .
    with assms(1) w e show ?thesis
      unfolding task_inv_def d by (auto simp: task_conflict_self) (metis task_conflict_sym)
  next
    case False
    with w have d: "db_tasks s' = update_where (\<lambda>x. ?k x = ?k t) (\<lambda>_. t) (db_tasks s)" by simp
    have m: "map ?k (update_where (\<lambda>x. ?k x = ?k t) (\<lambda>_. t) (db_tasks s)) = map ?k (db_tasks s)"
      by (rule map_update_where) simp
    have sub: "x \<in> set (db_tasks s') \<Longrightarrow> x = t \<or> x \<in> set (db_tasks s)" for x
      unfolding d set_update_where by auto
    have "\<not> task_conflict a b" if "a \<in> set (db_tasks s')" "b \<in> set (db_tasks s')" for a b
      using sub [OF that(1)] sub [OF that(2)] w assms(1) task_conflict_sym task_conflict_self
      unfolding task_inv_def by metis
    moreover have "workspace_exists s' (tk_workspace_id a)" if "a \<in> set (db_tasks s')" for a
      using sub [OF that] w assms(1) e unfolding task_inv_def by auto
    moreover have "distinct (map ?k (db_tasks s'))" using assms(1) unfolding d m task_inv_def by blast
    ultimately show ?thesis unfolding task_inv_def by blast
  qed
qed

lemma write_task_get:
  assumes "write_task t s = Inr s'"
  shows "get_task_mirror s' w i = (if w = tk_workspace_id t \<and> i = tk_task_id t then Some t else get_task_mirror s w i)"
proof -
  let ?k = "\<lambda>x. (tk_workspace_id x, tk_task_id x)"
  have g: "get_task_mirror s w i = find (\<lambda>x. ?k x = (w, i)) (db_tasks s)" for s w i
    by (simp add: get_task_mirror_def)
  show ?thesis
  proof (cases "get_task_mirror s (tk_workspace_id t) (tk_task_id t)")
    case None
    with write_task_Inr [OF assms] have "db_tasks s' = db_tasks s @ [t]" by simp
    with None show ?thesis by (auto simp: get_task_mirror_def find_append split: option.splits)
  next
    case (Some x)
    with write_task_Inr [OF assms]
    have d: "db_tasks s' = update_where (\<lambda>x. ?k x = ?k t) (\<lambda>_. t) (db_tasks s)" by simp
    have "find (\<lambda>x. ?k x = k) (update_where (\<lambda>x. ?k x = ?k t) (\<lambda>_. t) xs) =
       (if k = ?k t then map_option (\<lambda>_. t) (find (\<lambda>x. ?k x = k) xs) else find (\<lambda>x. ?k x = k) xs)" for k xs
      by (induction xs) (auto simp: update_where_def)
    then show ?thesis using Some unfolding g d by auto
  qed
qed

section \<open>Properties\<close>

text \<open>A sequence of appends by any callers; those that raise leave the database alone.\<close>

fun append_all :: "(string \<times> timestamp \<times> string option \<times> new_event) list \<Rightarrow> db \<Rightarrow> db" where
  "append_all [] s = s"
| "append_all ((u, t, k, a) # as) s =
     append_all as (case append_event u t k a s of Inl _ \<Rightarrow> s | Inr (_, s') \<Rightarrow> s')"

lemma append_all_keeps:
  "get_event_by_idempotency_key s x = Some r \<Longrightarrow> get_event_by_idempotency_key (append_all as s) x = Some r"
proof (induction as s rule: append_all.induct)
  case (2 u t k a as s)
  show ?case
  proof (cases "append_event u t k a s")
    case (Inl e)
    with 2 show ?thesis by simp
  next
    case (Inr y)
    obtain e c s' where y: "y = ((e, c), s')" by (cases y) auto
    from append_event_keeps [OF Inr [unfolded y] "2.prems"] "2.IH" Inr y show ?thesis by simp
  qed
qed simp

text \<open>
  C37: An idempotency key names one event for ever: after a call has returned an event under
  a key, any later call with that key, after any other appends and whatever its arguments,
  returns that same event, reports it as not created and changes nothing.
\<close>

theorem append_event_once:
  assumes "append_event u t (Some k) a s = Inr ((e, c), s')" "k \<noteq> []"
  shows "append_event v t' (Some k) b (append_all as s') = Inr ((e, False), append_all as s')"
proof -
  have "get_event_by_idempotency_key s' k = Some e"
    using event_ledger.put_lookup [of k "(u, t, a)" s e c s'] assms by simp
  then have g: "get_event_by_idempotency_key (append_all as s') k = Some e" by (rule append_all_keeps)
  have "\<not> (\<exists>x. insert_event (event_of v t' k b) (append_all as s') = Inr x)"
    using event_by_key_None [of "append_all as s'" k] g by (auto simp: insert_event_Inr)
  then obtain exc where "insert_event (event_of v t' k b) (append_all as s') = Inl exc"
    by (cases "insert_event (event_of v t' k b) (append_all as s')") auto
  with g assms(2) show ?thesis by (simp add: append_event_def event_key_def Let_def)
qed

definition empty_db :: db where
  "empty_db = \<lparr>db_workspaces = [], db_agents = [], db_runner_profiles = [], db_jobs = [], db_events = [],
     db_deliveries = [], db_tasks = [], db_leases = [], db_capacity = [], db_bindings = [], db_usage = [],
     db_warnings = [], db_profiles = [], db_registry = [], db_registry_sources = [], db_registry_heads = [],
     db_catalog_sources = [], db_definitions = [], db_instances = [],
     db_splits = []\<rparr>"

definition plain_event :: "string \<Rightarrow> new_event" where
  "plain_event t = \<lparr>ne_event_type = t, ne_actor = ''op'', ne_workspace_id = None, ne_target = None,
     ne_task_id = None, ne_causation_id = None, ne_payload = PyDict [(''n'', PyInt 5)]\<rparr>"

theorem append_event_once_witness:
  "append_event ''e3'' 9 (Some ''k'') (plain_event ''z'')
     (append_all [(''e2'', 8, None, plain_event ''y'')] (empty_db\<lparr>db_events := [event_of ''e1'' 7 ''k'' (plain_event ''x'')]\<rparr>))
   = Inr ((event_of ''e1'' 7 ''k'' (plain_event ''x''), False),
     append_all [(''e2'', 8, None, plain_event ''y'')] (empty_db\<lparr>db_events := [event_of ''e1'' 7 ''k'' (plain_event ''x'')]\<rparr>))"
proof (rule append_event_once)
  show "append_event ''e1'' 7 (Some ''k'') (plain_event ''x'') empty_db =
    Inr ((event_of ''e1'' 7 ''k'' (plain_event ''x''), True), empty_db\<lparr>db_events := [event_of ''e1'' 7 ''k'' (plain_event ''x'')]\<rparr>)"
    by (simp add: append_event_def event_key_def insert_event_def empty_db_def workspace_fk_def plain_event_def event_of_def Let_def)
qed simp

text \<open>
  \<open>find_events\<close> with a number as the payload value finds no event whose field is that
  number: the parameter is bound as text, and SQLite compares a JSON number with a text as
  different. It finds only the events whose field is the numeral as a string.
\<close>

theorem find_events_number:
  assumes "find_events s et w t (Some (k, PyInt i)) = Inr rows" "e \<in> set rows"
  shows "dget (dict_of (ev_payload e)) k = PyStr (dec_int i)"
proof -
  from assms have x: "extract_text (dget (dict_of (ev_payload e)) k) = Some (dec_int i)"
    by (auto simp: find_events_def bindE_eq_Inr payload_param_def)
  have "hd (dec_int i) \<noteq> CHR ''['' \<and> hd (dec_int i) \<noteq> CHR 0x7B"
  proof -
    have d: "48 \<le> (of_char (hd (dec_nat n)) :: nat) \<and> (of_char (hd (dec_nat n)) :: nat) \<le> 57" for n
    proof (induction n rule: dec_nat.induct)
      case (1 n)
      have ne: "dec_nat m \<noteq> []" for m by (subst dec_nat.simps) simp
      show ?case
      proof (cases "n < 10")
        case True
        then show ?thesis unfolding dec_nat.simps [of n] by simp
      next
        case False
        then show ?thesis using 1 [OF False] ne unfolding dec_nat.simps [of n] by (simp add: hd_append)
      qed
    qed
    show ?thesis using d [of "nat i"] by (auto simp: dec_int_def)
  qed
  then show ?thesis using x
    by (cases "dget (dict_of (ev_payload e)) k") (auto dest: arg_cong [where f = hd])
qed

theorem find_events_number_witness:
  "find_events (empty_db\<lparr>db_events := [event_of ''e1'' 7 ''k'' (plain_event ''x'')]\<rparr>) None None None (Some (''n'', PyInt 5)) = Inr []"
proof -
  let ?s = "empty_db\<lparr>db_events := [event_of ''e1'' 7 ''k'' (plain_event ''x'')]\<rparr>"
  have "validate_payload_key ''n'' = Inr ''n''" by code_simp
  then obtain rows where r: "find_events ?s None None None (Some (''n'', PyInt 5)) = Inr rows"
    and sub: "set rows \<subseteq> {event_of ''e1'' 7 ''k'' (plain_event ''x'')}"
    by (auto simp: find_events_def empty_db_def)
  have "event_of ''e1'' 7 ''k'' (plain_event ''x'') \<notin> set rows"
    using find_events_number [OF r, of "event_of ''e1'' 7 ''k'' (plain_event ''x'')"]
    by (auto simp: plain_event_def json_col_def dict_of_def)
  with sub have "rows = []" by (cases rows) auto
  with r show ?thesis by simp
qed

text \<open>
  \<open>upsert_task_mirror\<close> keeps one row per task, an open task's branch and a task's pull
  request to itself, stores what it was given for the task and nothing else, and a second
  identical call reports \<open>unchanged\<close> and writes nothing.
\<close>

theorem upsert_task_mirror_correct:
  assumes "task_inv s" "upsert_task_mirror t s = Inr ((row, what), s')"
  shows "task_inv s' \<and>
    get_task_mirror s' (tk_workspace_id t) (tk_task_id t) = Some row \<and>
    json (tk_payload row) = json (json_col (tk_payload t)) \<and> tk_phase row = tk_phase t \<and> tk_owner row = tk_owner t \<and>
    tk_branch row = tk_branch t \<and> tk_pr row = tk_pr t \<and>
    (\<forall>w i. (w, i) \<noteq> (tk_workspace_id t, tk_task_id t) \<longrightarrow> get_task_mirror s' w i = get_task_mirror s w i) \<and>
    (what = ''created'' \<longleftrightarrow> get_task_mirror s (tk_workspace_id t) (tk_task_id t) = None) \<and>
    upsert_task_mirror t s' = Inr ((row, ''unchanged''), s')"
proof -
  let ?t = "t\<lparr>tk_payload := json_col (tk_payload t)\<rparr>"
  let ?g = "get_task_mirror s (tk_workspace_id t) (tk_task_id t)"
  let ?same = "\<lambda>x. tk_phase x = tk_phase t \<and> tk_owner x = tk_owner t \<and> tk_branch x = tk_branch t \<and> tk_pr x = tk_pr t \<and>
       tk_last_event_id x = tk_last_event_id t \<and> json (tk_payload x) = json (json_col (tk_payload t))"
  have u: "upsert_task_mirror t s = (case get_task_mirror s (tk_workspace_id t) (tk_task_id t) of
      Some x \<Rightarrow> if ?same x then Inr ((x, ''unchanged''), s)
        else bindE (write_task ?t s) (\<lambda>s'. Inr ((?t, ''updated''), s'))
    | None \<Rightarrow> bindE (write_task ?t s) (\<lambda>s'. Inr ((?t, ''created''), s')))" for s
    by (cases "get_task_mirror s (tk_workspace_id t) (tk_task_id t)") (simp_all add: upsert_task_mirror_def Let_def)
  show ?thesis
  proof (cases "\<exists>x. ?g = Some x \<and> ?same x")
    case True
    then obtain x where x: "?g = Some x" "?same x" by blast
    then have "row = x \<and> what = ''unchanged'' \<and> s' = s" using assms(2) by (simp add: u)
    with x assms show ?thesis by simp
  next
    case False
    then have w: "write_task ?t s = Inr s' \<and> row = ?t \<and> (what = ''created'' \<longleftrightarrow> ?g = None)"
      using assms(2) by (cases ?g) (auto simp: u bindE_eq_Inr)
    have g: "get_task_mirror s' w i = (if w = tk_workspace_id t \<and> i = tk_task_id t then Some ?t else get_task_mirror s w i)" for w i
      using write_task_get [of ?t s s'] w by simp
    then have "upsert_task_mirror t s' = Inr ((row, ''unchanged''), s')" using w by (simp add: u)
    then show ?thesis using write_task_inv [OF assms(1), of ?t s'] w g by simp
  qed
qed

definition sample_task :: task_row where
  "sample_task = \<lparr>tk_workspace_id = ''w1'', tk_task_id = ''T1'', tk_phase = Some ''open'', tk_owner = None,
     tk_branch = Some ''b'', tk_pr = None, tk_last_event_id = None, tk_payload = PyDict [(''n'', PyInt 5)], tk_updated_at = 3\<rparr>"

theorem upsert_task_mirror_correct_witness:
  "\<exists>s'. upsert_task_mirror sample_task (empty_db\<lparr>db_workspaces := [sample_ws]\<rparr>) = Inr ((sample_task, ''created''), s') \<and>
     upsert_task_mirror sample_task s' = Inr ((sample_task, ''unchanged''), s')"
proof -
  let ?s = "empty_db\<lparr>db_workspaces := [sample_ws]\<rparr>"
  have i: "task_inv ?s" by (simp add: task_inv_def empty_db_def)
  have u: "upsert_task_mirror sample_task ?s = Inr ((sample_task, ''created''), ?s\<lparr>db_tasks := [sample_task]\<rparr>)"
    by (simp add: upsert_task_mirror_def sample_task_def empty_db_def get_task_mirror_def write_task_def
        workspace_exists_def sample_ws_def json_col_def Let_def)
  show ?thesis using u upsert_task_mirror_correct [OF i u] by blast
qed

end
