(* ===== verification/JobStore.thy ===== *)
theory JobStore
  imports Store
begin

text \<open>
  \<^verbatim>\<open>src/coordinate/job_repository.py\<close>: creating, reading and finishing job rows.
  \<open>_absolute_path\<close> resolves a path on the control host's file system; it is the parameter
  \<open>A base path\<close> of the operations that call it.
\<close>

record new_job =
  nj_workspace_id :: "string option"
  nj_task_id :: "string option"
  nj_runner_profile_id :: "string option"
  nj_assigned_agent :: "string option"
  nj_prompt_path :: "string option"
  nj_branch :: "string option"
  nj_worktree_path :: "string option"
  nj_terminal_session_id :: "string option"
  nj_logs_path :: "string option"
  nj_timeout_seconds :: "int option"
  nj_payload :: pyval
  nj_authoritative_worktree_path :: bool

text \<open>\<open>f(x) if x else None\<close> on an optional string.\<close>

definition map_truthy :: "(string \<Rightarrow> string) \<Rightarrow> string option \<Rightarrow> string option" where
  "map_truthy f x = (case x of None \<Rightarrow> None | Some v \<Rightarrow> if v = [] then None else Some (f v))"

definition or_str :: "string option \<Rightarrow> string option \<Rightarrow> string option" where
  "or_str a b = (case a of None \<Rightarrow> b | Some v \<Rightarrow> if v = [] then b else Some v)"

definition find_job :: "db \<Rightarrow> string \<Rightarrow> job_row option" where
  "find_job s jid = find (\<lambda>j. jb_id j = jid) (db_jobs s)"

definition get_job :: "db \<Rightarrow> string \<Rightarrow> job_row result" where
  "get_job s jid = (case find_job s jid of None \<Rightarrow> raise KeyErr ''job'' | Some j \<Rightarrow> Inr j)"

definition job_of ::
  "(string option \<Rightarrow> string \<Rightarrow> string) \<Rightarrow> string \<Rightarrow> timestamp \<Rightarrow> string \<Rightarrow> new_job \<Rightarrow> job_row" where
  "job_of A jid now workspace_path a =
     \<lparr>jb_id = jid, jb_workspace_id = nj_workspace_id a, jb_task_id = nj_task_id a,
      jb_runner_profile_id = nj_runner_profile_id a,
      jb_assigned_agent = or_str (nj_assigned_agent a) (nj_runner_profile_id a),
      jb_status = ''pending'', jb_prompt_path = map_truthy (A (Some workspace_path)) (nj_prompt_path a),
      jb_branch = nj_branch a,
      jb_worktree_path = map_truthy
        (if nj_authoritative_worktree_path a then id else A (Some workspace_path)) (nj_worktree_path a),
      jb_terminal_session_id = nj_terminal_session_id a,
      jb_logs_path = map_truthy (A (Some workspace_path)) (nj_logs_path a),
      jb_attempt_count = 0, jb_timeout_seconds = nj_timeout_seconds a,
      jb_payload_json = Some (json_col (nj_payload a)), jb_result_json = None, jb_created_at = now,
      jb_started_at = None, jb_completed_at = None, jb_last_activity_at = None,
      jb_progress_json = None, jb_recoverable = False, jb_updated_at = now\<rparr>"

text \<open>\<open>job_id or str(uuid.uuid4())\<close> is the argument \<open>jid\<close>.\<close>

definition create_job ::
  "(string option \<Rightarrow> string \<Rightarrow> string) \<Rightarrow> string \<Rightarrow> timestamp \<Rightarrow> new_job \<Rightarrow> db \<Rightarrow> (job_row \<times> db) result" where
  "create_job A jid now a s =
     (case (case nj_workspace_id a of None \<Rightarrow> None | Some w \<Rightarrow> get_workspace s w) of
        None \<Rightarrow> raise ValueErr ''unknown workspace''
      | Some ws \<Rightarrow>
          (case (case nj_runner_profile_id a of None \<Rightarrow> None | Some r \<Rightarrow> get_runner_profile s r) of
             None \<Rightarrow> raise ValueErr ''unknown runner profile''
           | Some r \<Rightarrow>
               if list_ex (\<lambda>j. jb_id j = jid) (db_jobs s) then raise IntegrityErr ''jobs.id''
               else let j = job_of A jid now (ws_path ws) a
                    in Inr (j, s\<lparr>db_jobs := db_jobs s @ [j]\<rparr>)))"

definition list_jobs :: "db \<Rightarrow> string option \<Rightarrow> string option \<Rightarrow> job_row list" where
  "list_jobs s workspace_id status =
     sort_key (\<lambda>j. (jb_created_at j, jb_id j))
       (filter (\<lambda>j. (case workspace_id of Some w \<Rightarrow> w = [] \<or> jb_workspace_id j = Some w | None \<Rightarrow> True) \<and>
                    (case status of Some x \<Rightarrow> x = [] \<or> jb_status j = x | None \<Rightarrow> True)) (db_jobs s))"

definition update_job :: "string \<Rightarrow> (job_row \<Rightarrow> job_row) \<Rightarrow> db \<Rightarrow> db" where
  "update_job jid f s = s\<lparr>db_jobs := update_where (\<lambda>j. jb_id j = jid) f (db_jobs s)\<rparr>"

text \<open>
  A \<open>SELECT\<close> opens no transaction: a function that reads a row before its first write decides on the
  database \<open>r\<close> of that reading, and other connections may commit before it writes to \<open>s\<close>.
\<close>

definition mark_job_started ::
  "(string option \<Rightarrow> string \<Rightarrow> string) \<Rightarrow> timestamp \<Rightarrow> string \<Rightarrow> string \<Rightarrow> db \<Rightarrow> db \<Rightarrow> (job_row \<times> db) result" where
  "mark_job_started A now jid logs_path r s =
     bindE (get_job r jid) (\<lambda>job.
       let s' = update_job jid (\<lambda>j. j\<lparr>jb_status := ''running'', jb_attempt_count := jb_attempt_count job + 1,
             jb_logs_path := Some (A None logs_path), jb_started_at := Some now, jb_updated_at := now\<rparr>) s
       in bindE (get_job s' jid) (\<lambda>j. Inr (j, s')))"

definition mark_job_completed ::
  "timestamp \<Rightarrow> string \<Rightarrow> string \<Rightarrow> pyval \<Rightarrow> db \<Rightarrow> (job_row \<times> db) result" where
  "mark_job_completed now jid status result s =
     (if status \<noteq> ''done'' \<and> status \<noteq> ''failed'' then
        raise ValueErr ''job completion status must be done or failed''
      else
        let p = (\<lambda>j. jb_id j = jid \<and> jb_status j = ''running'');
            s' = s\<lparr>db_jobs := update_where p (\<lambda>j. j\<lparr>jb_status := status, jb_result_json := Some (json_col result),
                   jb_completed_at := Some now, jb_updated_at := now\<rparr>) (db_jobs s)\<rparr>
        in if rowcount p (db_jobs s) = 0 then
             bindE (get_job s' jid) (\<lambda>j.
               if jb_status j = ''cancelled'' then Inr (j, s')
               else raise ValueErr ''only running jobs can be completed'')
           else bindE (get_job s' jid) (\<lambda>j. Inr (j, s')))"

text \<open>\<open>json.loads(result_json) if result_json else {}\<close>, an object or else the empty one.\<close>

definition result_dict :: "job_row \<Rightarrow> (string \<times> pyval) list" where
  "result_dict j = (case jb_result_json j of None \<Rightarrow> [] | Some v \<Rightarrow> dict_of v)"

text \<open>The \<open>UPDATE\<close> names the row only: it does not look at the status again.\<close>

definition mark_job_cancelled :: "timestamp \<Rightarrow> string \<Rightarrow> string option \<Rightarrow> db \<Rightarrow> db \<Rightarrow> (job_row \<times> db) result" where
  "mark_job_cancelled now jid reason r s =
     bindE (get_job r jid) (\<lambda>job.
       if jb_status job = ''cancelled'' then Inr (job, s)
       else if jb_status job = ''done'' \<or> jb_status job = ''failed'' then
         raise ValueErr ''completed jobs cannot be cancelled''
       else
         let r = dupdate (result_dict job) [(''cancelled'', PyBool True), (''cancel_reason'', opt_str reason),
                   (''previous_status'', PyStr (jb_status job))];
             s' = update_job jid (\<lambda>j. j\<lparr>jb_status := ''cancelled'', jb_result_json := Some (json_col (PyDict r)),
                    jb_completed_at := Some now, jb_updated_at := now\<rparr>) s
         in bindE (get_job s' jid) (\<lambda>j. Inr (j, s')))"

section \<open>Lemmas\<close>

lemma get_job_Inr: "get_job s jid = Inr j \<longleftrightarrow> find_job s jid = Some j"
  by (auto simp: get_job_def split: option.splits)

lemma find_job_id: "find_job s jid = Some j \<Longrightarrow> jb_id j = jid \<and> j \<in> set (db_jobs s)"
  by (auto simp: find_job_def dest: find_Some_in)

lemma find_update_job:
  assumes "\<And>j. jb_id (f j) = jb_id j"
  shows "find_job (update_job jid f s) x = (if x = jid then map_option f (find_job s x) else find_job s x)"
  by (simp add: find_job_def update_job_def find_update_where_key [of jb_id, OF assms])

lemma update_job_sel [simp]:
  "db_workspaces (update_job i f s) = db_workspaces s" "db_events (update_job i f s) = db_events s"
  "db_leases (update_job i f s) = db_leases s" "db_deliveries (update_job i f s) = db_deliveries s"
  "db_agents (update_job i f s) = db_agents s" "db_runner_profiles (update_job i f s) = db_runner_profiles s"
  "db_capacity (update_job i f s) = db_capacity s" "db_usage (update_job i f s) = db_usage s"
  by (simp_all add: update_job_def)

end
