(* ===== verification/Leases.thy ===== *)
theory Leases
  imports JobStore Envelope
begin

text \<open>
  \<^verbatim>\<open>src/coordinate/execution_leases.py\<close>: the lease of one attempt of a job on one
  worktree, with the constraints of the table \<open>execution_attempt_leases\<close> of \<^verbatim>\<open>schema.py\<close> and the
  capacity policy of \<^verbatim>\<open>executor_capacity.py\<close> that a reservation reads. A lease is reserved,
  renewed while it is active and unexpired, and ends released or expired.

  A function that reads the clock twice takes the two readings. \<open>H\<close> is the SHA-256
  hexdigest. The functions return the whole row; the dict of the code is a projection of it.
\<close>

section \<open>Constants and validators\<close>

definition MIN_TTL :: int where "MIN_TTL = 30"
definition MAX_TTL :: int where "MAX_TTL = 600"
definition MAX_RELEASE_REASON_LEN :: nat where "MAX_RELEASE_REASON_LEN = 256"
definition LEASE_REAP_BATCH_SIZE :: int where "LEASE_REAP_BATCH_SIZE = 100"

definition validate_attempt_token :: "pyval \<Rightarrow> int result" where
  "validate_attempt_token v =
     (case as_int v of
        None \<Rightarrow> raise LeaseErr ''attempt_token must be an integer''
      | Some i \<Rightarrow> if i \<le> 0 then raise LeaseErr ''attempt_token must be a positive integer'' else Inr i)"

definition validate_release_reason :: "pyval \<Rightarrow> string result" where
  "validate_release_reason v =
     (case as_str v of
        None \<Rightarrow> raise LeaseErr ''release reason must be a Unicode string''
      | Some s \<Rightarrow>
          if s = [] then raise LeaseErr ''release reason must not be empty''
          else if s \<noteq> strip s then raise LeaseErr ''release reason must not have surrounding whitespace''
          else if length s > MAX_RELEASE_REASON_LEN then raise LeaseErr ''release reason exceeds characters''
          else if has_control s then raise LeaseErr ''release reason contains control characters''
          else Inr s)"

definition validate_stored_resource :: "(string \<Rightarrow> string) \<Rightarrow> lease_row \<Rightarrow> unit result" where
  "validate_stored_resource H l =
     reraise ResourceIdentityErr LeaseErr ''stored lease resource snapshot is tampered''
       (validate_resource_key_matches H (lr_resource_kind l) (lr_host_id l) (lr_normalized_path l) (lr_resource_key l))"

definition validate_ttl :: "pyval \<Rightarrow> int result" where
  "validate_ttl v =
     (case as_int v of
        None \<Rightarrow> raise LeaseErr ''TTL must be an integer''
      | Some i \<Rightarrow> if i < MIN_TTL \<or> i > MAX_TTL then raise LeaseErr ''TTL must be between bounds'' else Inr i)"

definition validate_lease_id :: "pyval \<Rightarrow> string result" where
  "validate_lease_id v =
     (case as_str v of
        None \<Rightarrow> raise LeaseErr ''lease_id must be a non-empty string''
      | Some s \<Rightarrow> if s = [] then raise LeaseErr ''lease_id must be a non-empty string'' else Inr s)"

text \<open>Validates each row in turn, as the loops over \<open>_validate_stored_resource\<close> do.\<close>

definition validate_all :: "(string \<Rightarrow> string) \<Rightarrow> lease_row list \<Rightarrow> unit result" where
  "validate_all H rows = bindE (mapE (validate_stored_resource H) rows) (\<lambda>_. Inr ())"

section \<open>Queries\<close>

definition active_unexpired :: "timestamp \<Rightarrow> lease_row \<Rightarrow> bool" where
  "active_unexpired now l = (lr_status l = Active \<and> lr_expires_at l > now)"

definition count_active_leases_for_agent :: "(string \<Rightarrow> string) \<Rightarrow> timestamp \<Rightarrow> db \<Rightarrow> string \<Rightarrow> nat result" where
  "count_active_leases_for_agent H now s agent =
     (let rows = filter (\<lambda>l. lr_agent_id l = agent \<and> lr_status l = Active \<and> lr_expires_at l > now) (db_leases s)
      in bindE (validate_all H rows) (\<lambda>_. Inr (length rows)))"

definition first_valid :: "(string \<Rightarrow> string) \<Rightarrow> lease_row list \<Rightarrow> lease_row option result" where
  "first_valid H rows =
     (if rows = [] then Inr None else bindE (validate_all H rows) (\<lambda>_. Inr (Some (hd rows))))"

definition find_active_resource_lease :: "(string \<Rightarrow> string) \<Rightarrow> db \<Rightarrow> string \<Rightarrow> lease_row option result" where
  "find_active_resource_lease H s key =
     first_valid H (filter (\<lambda>l. lr_resource_key l = key \<and> lr_status l = Active) (db_leases s))"

definition find_active_unexpired_resource_lease ::
  "(string \<Rightarrow> string) \<Rightarrow> timestamp \<Rightarrow> db \<Rightarrow> string \<Rightarrow> lease_row option result" where
  "find_active_unexpired_resource_lease H now s key =
     first_valid H (filter (\<lambda>l. lr_resource_key l = key \<and> lr_status l = Active \<and> lr_expires_at l > now) (db_leases s))"

text \<open>SQL's \<open>LIMIT\<close>: a negative limit is no limit.\<close>

definition sql_limit :: "int \<Rightarrow> 'a list \<Rightarrow> 'a list" where
  "sql_limit n xs = (if n < 0 then xs else take (nat n) xs)"

definition find_due_active_leases :: "(string \<Rightarrow> string) \<Rightarrow> db \<Rightarrow> timestamp \<Rightarrow> int \<Rightarrow> lease_row list result" where
  "find_due_active_leases H s now limit =
     (let rows = sql_limit limit (sort_key lr_expires_at
            (filter (\<lambda>l. lr_status l = Active \<and> lr_expires_at l \<le> now) (db_leases s)))
      in bindE (validate_all H rows) (\<lambda>_. Inr rows))"

definition attempt_has_any_lease :: "db \<Rightarrow> string \<Rightarrow> int \<Rightarrow> bool" where
  "attempt_has_any_lease s job token =
     list_ex (\<lambda>l. lr_job_id l = job \<and> lr_attempt_token l = token) (db_leases s)"

definition find_lease :: "db \<Rightarrow> string \<Rightarrow> lease_row option" where
  "find_lease s lid = find (\<lambda>l. lr_lease_id l = lid) (db_leases s)"

definition require_active_unexpired_lease ::
  "(string \<Rightarrow> string) \<Rightarrow> timestamp \<Rightarrow> db \<Rightarrow> pyval \<Rightarrow> string \<Rightarrow> pyval \<Rightarrow> string \<Rightarrow> lease_row result" where
  "require_active_unexpired_lease H now s lease_id job_id attempt_token agent_id =
     bindE (validate_lease_id lease_id) (\<lambda>lid.
     bindE (validate_attempt_token attempt_token) (\<lambda>token.
     case find_lease s lid of
       None \<Rightarrow> raise LeaseErr ''lease not found''
     | Some l \<Rightarrow>
       bindE (validate_stored_resource H l) (\<lambda>_.
         if lr_job_id l \<noteq> job_id then raise LeaseErr ''lease job_id mismatch''
         else if lr_attempt_token l \<noteq> token then raise LeaseErr ''lease attempt_token mismatch''
         else if lr_agent_id l \<noteq> agent_id then raise LeaseErr ''lease agent_id mismatch''
         else if lr_status l \<noteq> Active then raise LeaseErr ''lease is not active''
         else if lr_expires_at l \<le> now then raise LeaseErr ''lease has expired''
         else Inr l)))"

definition job_attempt_lease :: "db \<Rightarrow> string \<Rightarrow> int \<Rightarrow> lease_row option" where
  "job_attempt_lease s job token = find (\<lambda>l. lr_job_id l = job \<and> lr_attempt_token l = token) (db_leases s)"

definition immutable_lease_fields_match ::
  "lease_row \<Rightarrow> string \<Rightarrow> string \<Rightarrow> string \<Rightarrow> string \<Rightarrow> string \<Rightarrow> int \<Rightarrow> bool" where
  "immutable_lease_fields_match l agent_id runner_profile_id host_id resource_key capacity_policy_id max_jobs =
     (lr_agent_id l = agent_id \<and> lr_runner_profile_id l = runner_profile_id \<and> lr_host_id l = host_id \<and>
      lr_resource_key l = resource_key \<and> lr_capacity_policy_id l = capacity_policy_id \<and>
      lr_max_concurrent_jobs l = max_jobs)"

definition get_attempt_lease :: "(string \<Rightarrow> string) \<Rightarrow> db \<Rightarrow> string \<Rightarrow> lease_row option result" where
  "get_attempt_lease H s lid =
     (case find_lease s lid of
        None \<Rightarrow> Inr None
      | Some l \<Rightarrow> bindE (validate_stored_resource H l) (\<lambda>_. Inr (Some l)))"

definition list_active_leases_for_agent :: "(string \<Rightarrow> string) \<Rightarrow> db \<Rightarrow> string \<Rightarrow> lease_row list result" where
  "list_active_leases_for_agent H s agent =
     (let rows = sort_key lr_acquired_at (filter (\<lambda>l. lr_agent_id l = agent \<and> lr_status l = Active) (db_leases s))
      in bindE (validate_all H rows) (\<lambda>_. Inr rows))"

section \<open>Capacity policies\<close>

definition get_capacity_policy :: "db \<Rightarrow> string \<Rightarrow> capacity_row option" where
  "get_capacity_policy s agent = find (\<lambda>p. cp_agent_id p = agent) (db_capacity s)"

definition resolve_capacity_policy :: "db \<Rightarrow> string \<Rightarrow> capacity_row option" where
  "resolve_capacity_policy s agent = get_capacity_policy s agent"

section \<open>The table\<close>

text \<open>The CHECK constraints of the table.\<close>

definition sha256_check :: "string \<Rightarrow> bool" where
  "sha256_check k = (take 7 k = sha256_prefix \<and> length k = 71)"

definition lease_checks :: "lease_row \<Rightarrow> bool" where
  "lease_checks l =
     (lr_attempt_token l > 0 \<and> 1 \<le> length (lr_host_id l) \<and> length (lr_host_id l) \<le> 64 \<and>
      lr_resource_kind l = ''worktree'' \<and> sha256_check (lr_resource_key l) \<and>
      1 \<le> length (lr_normalized_path l) \<and> length (lr_normalized_path l) \<le> 4096 \<and>
      sha256_check (lr_capacity_policy_id l) \<and>
      1 \<le> lr_max_concurrent_jobs l \<and> lr_max_concurrent_jobs l \<le> 32 \<and>
      (lr_status l = Released \<longleftrightarrow> lr_released_at l \<noteq> None) \<and>
      (lr_status l = Released \<longleftrightarrow> lr_release_reason l \<noteq> None) \<and>
      (case lr_release_reason l of None \<Rightarrow> True | Some r \<Rightarrow> 1 \<le> length r \<and> length r \<le> 256) \<and>
      lr_acquired_at l \<le> lr_renewed_at l \<and> lr_renewed_at l \<le> lr_expires_at l \<and>
      (case lr_released_at l of None \<Rightarrow> True | Some t \<Rightarrow> lr_acquired_at l \<le> t))"

definition insert_lease :: "lease_row \<Rightarrow> db \<Rightarrow> db result" where
  "insert_lease l s =
     (if \<not> lease_checks l then raise IntegrityErr ''CHECK''
      else if list_ex (\<lambda>x. lr_lease_id x = lr_lease_id l) (db_leases s) then raise IntegrityErr ''lease_id''
      else if attempt_has_any_lease s (lr_job_id l) (lr_attempt_token l) then
        raise IntegrityErr ''UNIQUE(job_id, attempt_token)''
      else if lr_status l = Active \<and>
          list_ex (\<lambda>x. lr_resource_key x = lr_resource_key l \<and> lr_status x = Active) (db_leases s) then
        raise IntegrityErr ''active resource index''
      else if find_job s (lr_job_id l) = None \<or> get_agent s (lr_agent_id l) = None \<or>
          get_runner_profile s (lr_runner_profile_id l) = None then raise IntegrityErr ''FOREIGN KEY''
      else Inr (s\<lparr>db_leases := db_leases s @ [l]\<rparr>))"

text \<open>\<open>UPDATE ... WHERE p\<close>: the checks are evaluated on the new rows.\<close>

definition update_leases :: "(lease_row \<Rightarrow> bool) \<Rightarrow> (lease_row \<Rightarrow> lease_row) \<Rightarrow> db \<Rightarrow> db result" where
  "update_leases p f s =
     (if list_all lease_checks (map f (filter p (db_leases s)))
      then Inr (s\<lparr>db_leases := update_where p f (db_leases s)\<rparr>)
      else raise IntegrityErr ''CHECK'')"

section \<open>Operations\<close>

text \<open>The execution context of the job, from its payload.\<close>

definition job_context :: "(string \<Rightarrow> string) \<Rightarrow> job_row \<Rightarrow> string \<Rightarrow> string \<Rightarrow> execution_context result" where
  "job_context H job agent_id host_id =
     (case jb_payload_json job of
        None \<Rightarrow> raise LeaseErr ''job payload_json is not valid JSON''
      | Some payload \<Rightarrow>
          (case as_dict payload of
             None \<Rightarrow> raise LeaseErr ''job payload_json must be an object''
           | Some d \<Rightarrow>
               if dget d ''execution_context'' = PyNone then
                 raise LeaseErr ''job payload_json.execution_context is required''
               else reraise ContextErr LeaseErr ''invalid execution context''
                 (validate_execution_context_snapshot H (dget d ''execution_context'') (Some (jb_id job))
                    (jb_workspace_id job) None (Some agent_id) (Some host_id))))"

text \<open>
  What \<open>reserve_attempt_lease\<close> checks before it looks at the lease table: the arguments, the
  job, its execution context, the capacity policy and the identity of the resource.
\<close>

definition reserve_authority ::
  "(string \<Rightarrow> string) \<Rightarrow> string \<Rightarrow> pyval \<Rightarrow> string \<Rightarrow> string \<Rightarrow> string \<Rightarrow> string \<Rightarrow> pyval \<Rightarrow> db
   \<Rightarrow> (int \<times> int \<times> capacity_row \<times> worktree_resource) result" where
  "reserve_authority H job_id attempt_token agent_id runner_profile_id host_id worktree_path ttl_seconds s =
     bindE (validate_ttl ttl_seconds) (\<lambda>ttl.
     bindE (validate_attempt_token attempt_token) (\<lambda>token.
     case find_job s job_id of
       None \<Rightarrow> raise LeaseErr ''job not found''
     | Some job \<Rightarrow>
       if or_str (jb_runner_profile_id job) None = None then raise LeaseErr ''job has no runner_profile_id''
       else if jb_attempt_count job \<noteq> token then raise LeaseErr ''job attempt_count mismatch''
       else if jb_assigned_agent job \<noteq> Some agent_id then raise LeaseErr ''job assigned_agent mismatch''
       else if jb_runner_profile_id job \<noteq> Some runner_profile_id then
         raise LeaseErr ''job runner_profile_id mismatch''
       else
       bindE (job_context H job agent_id host_id) (\<lambda>snapshot.
       case resolve_capacity_policy s agent_id of
         None \<Rightarrow> raise LeaseErr ''no capacity policy for agent''
       | Some policy \<Rightarrow>
         bindE (reraise ResourceIdentityErr LeaseErr ''invalid resource identity''
                  (build_worktree_resource host_id worktree_path)) (\<lambda>resource.
         bindE (reraise ResourceIdentityErr LeaseErr ''execution context worktree_path is invalid''
                  (build_worktree_resource host_id (ec_worktree_path snapshot))) (\<lambda>expected.
         if wr_normalized_path resource \<noteq> wr_normalized_path expected then
           raise LeaseErr ''worktree_path resource mismatch''
         else Inr (token, ttl, policy, resource))))))"

definition reserve_attempt_lease ::
  "(string \<Rightarrow> string) \<Rightarrow> string \<Rightarrow> timestamp \<Rightarrow> timestamp \<Rightarrow> string \<Rightarrow> pyval \<Rightarrow> string \<Rightarrow> string \<Rightarrow> string \<Rightarrow> string
   \<Rightarrow> pyval \<Rightarrow> db \<Rightarrow> ((lease_row \<times> bool) \<times> db) result" where
  "reserve_attempt_lease H uuid now now' job_id attempt_token agent_id runner_profile_id host_id worktree_path
       ttl_seconds s =
     bindE (reserve_authority H job_id attempt_token agent_id runner_profile_id host_id worktree_path
              ttl_seconds s) (\<lambda>(token, ttl, policy, resource).
       let key = compute_resource_key H resource in
       case job_attempt_lease s job_id token of
         Some existing \<Rightarrow>
           bindE (validate_stored_resource H existing) (\<lambda>_.
             if \<not> immutable_lease_fields_match existing agent_id runner_profile_id host_id key
                   (cp_capacity_policy_id policy) (cp_max_concurrent_jobs policy) then
               raise LeaseErr ''conflicting lease replay''
             else Inr ((existing, True), s))
       | None \<Rightarrow>
           bindE (find_active_resource_lease H s key) (\<lambda>active.
           case active of
             Some a \<Rightarrow>
               if lr_expires_at a \<le> now then raise LeaseErr ''resource blocked by due lease''
               else raise LeaseErr ''resource collision''
           | None \<Rightarrow>
               bindE (count_active_leases_for_agent H now' s agent_id) (\<lambda>n.
               if int n \<ge> cp_max_concurrent_jobs policy then raise LeaseErr ''capacity exhausted for agent''
               else if get_agent s agent_id = None then raise LeaseErr ''agent not found''
               else if get_runner_profile s runner_profile_id = None then
                 raise LeaseErr ''runner profile not found''
               else
                 let l = \<lparr>lr_lease_id = uuid, lr_job_id = job_id, lr_attempt_token = token,
                          lr_agent_id = agent_id, lr_runner_profile_id = runner_profile_id,
                          lr_host_id = host_id, lr_resource_kind = ''worktree'', lr_resource_key = key,
                          lr_normalized_path = wr_normalized_path resource,
                          lr_capacity_policy_id = cp_capacity_policy_id policy,
                          lr_max_concurrent_jobs = cp_max_concurrent_jobs policy, lr_status = Active,
                          lr_acquired_at = now, lr_renewed_at = now, lr_expires_at = now + nat ttl,
                          lr_released_at = None, lr_release_reason = None\<rparr>
                 in bindE (insert_lease l s) (\<lambda>s'. Inr ((l, False), s')))))"

definition renew_attempt_lease ::
  "(string \<Rightarrow> string) \<Rightarrow> timestamp \<Rightarrow> timestamp \<Rightarrow> pyval \<Rightarrow> string \<Rightarrow> pyval \<Rightarrow> string \<Rightarrow> pyval \<Rightarrow> db
   \<Rightarrow> (lease_row \<times> db) result" where
  "renew_attempt_lease H now now' lease_id job_id attempt_token agent_id ttl_seconds s =
     bindE (validate_ttl ttl_seconds) (\<lambda>ttl.
     bindE (require_active_unexpired_lease H now s lease_id job_id attempt_token agent_id) (\<lambda>lease.
       let new_expires = now' + nat ttl in
       if new_expires \<le> lr_expires_at lease then raise LeaseErr ''renewal must advance expires_at''
       else
         let f = (\<lambda>l. l\<lparr>lr_renewed_at := now', lr_expires_at := new_expires\<rparr>)
         in bindE (update_leases (\<lambda>l. lr_lease_id l = lr_lease_id lease) f s) (\<lambda>s'. Inr (f lease, s'))))"

text \<open>The tuple checks that \<open>release\<close> and \<open>expire\<close> share.\<close>

definition lease_of_tuple ::
  "(string \<Rightarrow> string) \<Rightarrow> db \<Rightarrow> string \<Rightarrow> string \<Rightarrow> int \<Rightarrow> string \<Rightarrow> lease_row result" where
  "lease_of_tuple H s lid job_id token agent_id =
     (case find_lease s lid of
        None \<Rightarrow> raise LeaseErr ''lease not found''
      | Some l \<Rightarrow>
          bindE (validate_stored_resource H l) (\<lambda>_.
            if lr_job_id l \<noteq> job_id then raise LeaseErr ''job_id mismatch''
            else if lr_attempt_token l \<noteq> token then raise LeaseErr ''attempt_token mismatch''
            else if lr_agent_id l \<noteq> agent_id then raise LeaseErr ''agent_id mismatch''
            else Inr l))"

text \<open>
  The row is read from \<open>r\<close> and the \<open>UPDATE\<close> goes to \<open>s\<close>. They are the same database when the caller
  already holds the write lock, as a report does; a cancellation does not (\<open>cancel_job\<close>).
\<close>

definition release_attempt_lease_from ::
  "(string \<Rightarrow> string) \<Rightarrow> timestamp \<Rightarrow> pyval \<Rightarrow> string \<Rightarrow> pyval \<Rightarrow> string \<Rightarrow> pyval \<Rightarrow> db \<Rightarrow> db \<Rightarrow> (lease_row \<times> db) result" where
  "release_attempt_lease_from H now lease_id job_id attempt_token agent_id reason0 r s =
     bindE (validate_lease_id lease_id) (\<lambda>lid.
     bindE (validate_release_reason reason0) (\<lambda>reason.
     bindE (validate_attempt_token attempt_token) (\<lambda>token.
     bindE (lease_of_tuple H r lid job_id token agent_id) (\<lambda>lease.
       if lr_status lease = Released then
         (if lr_release_reason lease \<noteq> Some reason then
            raise LeaseErr ''lease already released with different reason''
          else Inr (lease, s))
       else if lr_status lease = Expired then raise LeaseErr ''lease is already expired''
       else
         let f = (\<lambda>l. l\<lparr>lr_status := Released, lr_released_at := Some now, lr_release_reason := Some reason\<rparr>)
         in bindE (update_leases (\<lambda>l. lr_lease_id l = lid) f s) (\<lambda>s'. Inr (f lease, s'))))))"

definition release_attempt_lease ::
  "(string \<Rightarrow> string) \<Rightarrow> timestamp \<Rightarrow> pyval \<Rightarrow> string \<Rightarrow> pyval \<Rightarrow> string \<Rightarrow> pyval \<Rightarrow> db \<Rightarrow> (lease_row \<times> db) result" where
  "release_attempt_lease H now lease_id job_id attempt_token agent_id reason0 s =
     release_attempt_lease_from H now lease_id job_id attempt_token agent_id reason0 s s"

definition expire_attempt_lease ::
  "(string \<Rightarrow> string) \<Rightarrow> pyval \<Rightarrow> string \<Rightarrow> pyval \<Rightarrow> string \<Rightarrow> db \<Rightarrow> (lease_row \<times> db) result" where
  "expire_attempt_lease H lease_id job_id attempt_token agent_id s =
     bindE (validate_lease_id lease_id) (\<lambda>lid.
     bindE (validate_attempt_token attempt_token) (\<lambda>token.
     bindE (lease_of_tuple H s lid job_id token agent_id) (\<lambda>lease.
       if lr_status lease = Expired then Inr (lease, s)
       else if lr_status lease = Released then raise LeaseErr ''lease is already released''
       else
         let f = (\<lambda>l. l\<lparr>lr_status := Expired\<rparr>)
         in bindE (update_leases (\<lambda>l. lr_lease_id l = lid) f s) (\<lambda>s'. Inr (f lease, s')))))"

text \<open>\<open>due_before or _utc_now()\<close> is the argument \<open>now\<close>.\<close>

definition expire_due_attempt_leases ::
  "(string \<Rightarrow> string) \<Rightarrow> timestamp \<Rightarrow> db \<Rightarrow> (string list \<times> db) result" where
  "expire_due_attempt_leases H now s =
     (let rows = filter (\<lambda>l. lr_status l = Active \<and> lr_expires_at l \<le> now) (db_leases s);
          ids = map lr_lease_id rows
      in bindE (validate_all H rows) (\<lambda>_.
           if ids = [] then Inr ([], s)
           else bindE (update_leases (\<lambda>l. List.member ids (lr_lease_id l)) (\<lambda>l. l\<lparr>lr_status := Expired\<rparr>) s) (\<lambda>s'.
             Inr (map lr_lease_id (filter (\<lambda>l. List.member ids (lr_lease_id l)) (db_leases s)), s'))))"

section \<open>Errors\<close>

lemma errs_lease_fields [errs_intros]:
  "errs LeaseErr (validate_ttl v)" "errs LeaseErr (validate_attempt_token v)" "errs LeaseErr (validate_lease_id v)"
  "errs LeaseErr (validate_release_reason v)" "errs LeaseErr (validate_stored_resource H l)"
  "errs LeaseErr (validate_all H ls)"
  unfolding validate_ttl_def validate_attempt_token_def validate_lease_id_def validate_release_reason_def
    validate_stored_resource_def validate_all_def
  by (intro errs_intros)+

lemma errs_lease_queries [errs_intros]:
  "errs LeaseErr (count_active_leases_for_agent H now s a)" "errs LeaseErr (find_active_resource_lease H s k)"
  "errs LeaseErr (find_due_active_leases H s now lim)" "errs LeaseErr (job_context H jb a h)"
  "errs LeaseErr (require_active_unexpired_lease H now s lid j tok a)" "errs LeaseErr (lease_of_tuple H s i j tk a)"
  unfolding count_active_leases_for_agent_def find_active_resource_lease_def first_valid_def job_context_def
    find_due_active_leases_def require_active_unexpired_lease_def lease_of_tuple_def
  by (intro errs_intros)+

lemma errs_reserve_authority [errs_intros]: "errs LeaseErr (reserve_authority H j tok a r h w ttl s)"
  unfolding reserve_authority_def by (intro errs_intros)

section \<open>What the operations do\<close>

lemma validate_ttl_Inr: "validate_ttl v = Inr i \<longleftrightarrow> v = PyInt i \<and> 30 \<le> i \<and> i \<le> 600"
  by (cases v) (auto simp: validate_ttl_def MIN_TTL_def MAX_TTL_def)

lemma validate_attempt_token_Inr: "validate_attempt_token v = Inr i \<longleftrightarrow> v = PyInt i \<and> 0 < i"
  by (cases v) (auto simp: validate_attempt_token_def)

lemma validate_lease_id_Inr: "validate_lease_id v = Inr x \<longleftrightarrow> v = PyStr x \<and> x \<noteq> []"
  by (cases v) (auto simp: validate_lease_id_def)

lemma validate_release_reason_Inr: "validate_release_reason v = Inr x \<longleftrightarrow> v = PyStr x \<and>
    x \<noteq> [] \<and> x = strip x \<and> length x \<le> 256 \<and> \<not> has_control x"
  by (cases v) (auto simp: validate_release_reason_def MAX_RELEASE_REASON_LEN_def)

lemmas lease_validators = validate_ttl_Inr validate_attempt_token_Inr validate_lease_id_Inr validate_release_reason_Inr

lemma find_lease_in: "find_lease s lid = Some l \<Longrightarrow> l \<in> set (db_leases s) \<and> lr_lease_id l = lid"
  by (auto simp: find_lease_def dest: find_Some_in)

lemma update_leases_Inr: "update_leases p f s = Inr s' \<longleftrightarrow>
    s' = s\<lparr>db_leases := update_where p f (db_leases s)\<rparr> \<and> (\<forall>l \<in> set (db_leases s). p l \<longrightarrow> lease_checks (f l))"
  by (auto simp: update_leases_def list_all_iff)

lemma insert_lease_Inr: "insert_lease l s = Inr s' \<longleftrightarrow>
    s' = s\<lparr>db_leases := db_leases s @ [l]\<rparr> \<and> lease_checks l \<and> lr_lease_id l \<notin> lr_lease_id ` set (db_leases s) \<and>
    \<not> attempt_has_any_lease s (lr_job_id l) (lr_attempt_token l) \<and>
    (lr_status l = Active \<longrightarrow> (\<forall>x \<in> set (db_leases s). lr_status x = Active \<longrightarrow> lr_resource_key x \<noteq> lr_resource_key l)) \<and>
    find_job s (lr_job_id l) \<noteq> None \<and> get_agent s (lr_agent_id l) \<noteq> None \<and>
    get_runner_profile s (lr_runner_profile_id l) \<noteq> None"
proof -
  have "list_ex (\<lambda>x. lr_lease_id x = lr_lease_id l) (db_leases s) \<longleftrightarrow> lr_lease_id l \<in> lr_lease_id ` set (db_leases s)"
    by (rule list_ex_key_iff)
  moreover have "list_ex (\<lambda>x. lr_resource_key x = lr_resource_key l \<and> lr_status x = Active) (db_leases s) \<longleftrightarrow>
      \<not> (\<forall>x \<in> set (db_leases s). lr_status x = Active \<longrightarrow> lr_resource_key x \<noteq> lr_resource_key l)"
    by (auto simp: list_ex_iff)
  ultimately show ?thesis unfolding insert_lease_def by auto
qed

lemma require_lease_Inr:
  "require_active_unexpired_lease H now s lease_id job_id attempt_token agent_id = Inr l \<longleftrightarrow>
     (\<exists>lid token. lease_id = PyStr lid \<and> lid \<noteq> [] \<and> attempt_token = PyInt token \<and> 0 < token \<and>
       find_lease s lid = Some l \<and> validate_stored_resource H l = Inr () \<and> lr_job_id l = job_id \<and>
       lr_attempt_token l = token \<and> lr_agent_id l = agent_id \<and> lr_status l = Active \<and> now < lr_expires_at l)"
proof (cases "\<exists>lid token. lease_id = PyStr lid \<and> attempt_token = PyInt token")
  case True
  then obtain lid token where v: "lease_id = PyStr lid" "attempt_token = PyInt token" by blast
  show ?thesis
    by (cases "find_lease s lid") (auto simp: v require_active_unexpired_lease_def validate_lease_id_def
        validate_attempt_token_def bindE_eq_Inr not_le)
next
  case False
  then show ?thesis by (auto simp: require_active_unexpired_lease_def bindE_eq_Inr lease_validators)
qed

lemma lease_of_tuple_Inr:
  "lease_of_tuple H s lid job token agent = Inr l \<longleftrightarrow> find_lease s lid = Some l \<and>
     validate_stored_resource H l = Inr () \<and> lr_job_id l = job \<and> lr_attempt_token l = token \<and> lr_agent_id l = agent"
  by (auto simp: lease_of_tuple_def bindE_eq_Inr split: option.splits)

lemma count_Inr: "count_active_leases_for_agent H now s agent = Inr n \<Longrightarrow>
    n = length (filter (\<lambda>l. lr_agent_id l = agent \<and> active_unexpired now l) (db_leases s))"
  by (auto simp: count_active_leases_for_agent_def active_unexpired_def bindE_eq_Inr Let_def)

lemma find_active_None: "find_active_resource_lease H s key = Inr None \<longleftrightarrow>
    (\<forall>l \<in> set (db_leases s). lr_resource_key l = key \<longrightarrow> lr_status l \<noteq> Active)"
  by (auto simp: find_active_resource_lease_def first_valid_def bindE_eq_Inr filter_empty_conv)

lemma reserve_authority_Inr:
  assumes "reserve_authority H job_id tok agent_id runner host worktree ttl_v s = Inr (token, ttl, policy, resource)"
  shows "tok = PyInt token \<and> 0 < token \<and> ttl_v = PyInt ttl \<and> 30 \<le> ttl \<and> ttl \<le> 600 \<and>
    (\<exists>job ctx. find_job s job_id = Some job \<and> jb_attempt_count job = token \<and> jb_assigned_agent job = Some agent_id \<and>
       jb_runner_profile_id job = Some runner \<and> job_context H job agent_id host = Inr ctx \<and>
       (\<exists>r. build_worktree_resource host (ec_worktree_path ctx) = Inr r \<and> wr_normalized_path r = wr_normalized_path resource)) \<and>
    resolve_capacity_policy s agent_id = Some policy \<and> build_worktree_resource host worktree = Inr resource"
proof -
  from assms have v: "validate_ttl ttl_v = Inr ttl" "validate_attempt_token tok = Inr token"
    by (auto simp: reserve_authority_def bindE_eq_Inr split: option.splits if_splits)
  note r = assms [unfolded reserve_authority_def v bindE_simps]
  from r obtain job where j: "find_job s job_id = Some job" by (cases "find_job s job_id") auto
  from r j obtain ctx where c: "job_context H job agent_id host = Inr ctx" by (auto split: if_splits)
  from r j c have p: "resolve_capacity_policy s agent_id = Some policy"
    by (cases "resolve_capacity_policy s agent_id") (auto split: if_splits)
  from r j c p v show ?thesis by (auto simp: lease_validators split: if_splits)
qed

text \<open>The lease that a fresh reservation inserts, and when it does.\<close>

definition fresh_lease ::
  "(string \<Rightarrow> string) \<Rightarrow> string \<Rightarrow> timestamp \<Rightarrow> timestamp \<Rightarrow> string \<Rightarrow> int \<Rightarrow> string \<Rightarrow> string \<Rightarrow> string \<Rightarrow> string \<Rightarrow> int
   \<Rightarrow> db \<Rightarrow> lease_row \<Rightarrow> bool" where
  "fresh_lease H uuid now now' job_id token agent_id runner host worktree ttl s l \<longleftrightarrow>
     (\<exists>policy resource. resolve_capacity_policy s agent_id = Some policy \<and>
        build_worktree_resource host worktree = Inr resource \<and>
        length (filter (\<lambda>x. lr_agent_id x = agent_id \<and> active_unexpired now' x) (db_leases s)) < nat (cp_max_concurrent_jobs policy) \<and>
        (\<forall>x \<in> set (db_leases s). lr_resource_key x = compute_resource_key H resource \<longrightarrow> lr_status x \<noteq> Active) \<and>
        job_attempt_lease s job_id token = None \<and>
        l = \<lparr>lr_lease_id = uuid, lr_job_id = job_id, lr_attempt_token = token,
             lr_agent_id = agent_id, lr_runner_profile_id = runner, lr_host_id = host,
             lr_resource_kind = ''worktree'', lr_resource_key = compute_resource_key H resource,
             lr_normalized_path = wr_normalized_path resource,
             lr_capacity_policy_id = cp_capacity_policy_id policy,
             lr_max_concurrent_jobs = cp_max_concurrent_jobs policy, lr_status = Active,
             lr_acquired_at = now, lr_renewed_at = now, lr_expires_at = now + nat ttl,
             lr_released_at = None, lr_release_reason = None\<rparr>)"

lemma reserve_cases:
  assumes "reserve_attempt_lease H uuid now now' job_id tok agent_id runner host worktree ttl_v s = Inr ((l, replayed), s')"
  shows "\<exists>token ttl policy resource.
    reserve_authority H job_id tok agent_id runner host worktree ttl_v s = Inr (token, ttl, policy, resource) \<and>
    (replayed \<and> s' = s \<and> job_attempt_lease s job_id token = Some l \<and> validate_stored_resource H l = Inr () \<and>
       immutable_lease_fields_match l agent_id runner host (compute_resource_key H resource)
         (cp_capacity_policy_id policy) (cp_max_concurrent_jobs policy) \<or>
     \<not> replayed \<and> insert_lease l s = Inr s' \<and> fresh_lease H uuid now now' job_id token agent_id runner host worktree ttl s l \<and>
       immutable_lease_fields_match l agent_id runner host (compute_resource_key H resource)
         (cp_capacity_policy_id policy) (cp_max_concurrent_jobs policy) \<and>
       lr_host_id l = wr_host_id resource \<and> lr_normalized_path l = wr_normalized_path resource)"
proof -
  from assms obtain token ttl policy resource where
    au: "reserve_authority H job_id tok agent_id runner host worktree ttl_v s = Inr (token, ttl, policy, resource)"
    by (auto simp: reserve_attempt_lease_def)
  let ?key = "compute_resource_key H resource"
  note r = assms [unfolded reserve_attempt_lease_def au bindE_simps prod.case Let_def]
  have p: "resolve_capacity_policy s agent_id = Some policy" "build_worktree_resource host worktree = Inr resource"
    using reserve_authority_Inr [OF au] by blast+
  show ?thesis
  proof (cases "job_attempt_lease s job_id token")
    case (Some x)
    with r au show ?thesis by (auto split: if_splits)
  next
    case None
    from r None obtain a where a: "find_active_resource_lease H s ?key = Inr a" by auto
    from r None a have aN: "a = None" by (cases a) (auto split: if_splits)
    from r None a aN obtain n where n: "count_active_leases_for_agent H now' s agent_id = Inr n" by auto
    from r None a aN n have ins: "int n < cp_max_concurrent_jobs policy" "\<not> replayed" "insert_lease l s = Inr s'"
      "l = \<lparr>lr_lease_id = uuid, lr_job_id = job_id, lr_attempt_token = token,
             lr_agent_id = agent_id, lr_runner_profile_id = runner, lr_host_id = host,
             lr_resource_kind = ''worktree'', lr_resource_key = ?key,
             lr_normalized_path = wr_normalized_path resource,
             lr_capacity_policy_id = cp_capacity_policy_id policy,
             lr_max_concurrent_jobs = cp_max_concurrent_jobs policy, lr_status = Active,
             lr_acquired_at = now, lr_renewed_at = now, lr_expires_at = now + nat ttl,
             lr_released_at = None, lr_release_reason = None\<rparr>"
      by (auto simp: bindE_eq_Inr split: if_splits)
    have f: "fresh_lease H uuid now now' job_id token agent_id runner host worktree ttl s l"
      unfolding fresh_lease_def
      using p None a aN find_active_None [of H s ?key] count_Inr [OF n] ins
      by (intro exI [of _ policy] exI [of _ resource]) (simp add: zless_nat_eq_int_zless)
    have "host = wr_host_id resource" using p(2)
      by (auto simp: build_worktree_resource_def bindE_eq_Inr validate_host_id_def split: if_splits)
    with au f ins show ?thesis by (auto simp: immutable_lease_fields_match_def)
  qed
qed

lemma renew_Inr:
  "renew_attempt_lease H now now' lease_id job_id tok agent_id ttl_v s = Inr (l, s') \<longleftrightarrow>
     (\<exists>ttl lease. ttl_v = PyInt ttl \<and> 30 \<le> ttl \<and> ttl \<le> 600 \<and>
       require_active_unexpired_lease H now s lease_id job_id tok agent_id = Inr lease \<and>
       lr_expires_at lease < now' + nat ttl \<and>
       l = lease\<lparr>lr_renewed_at := now', lr_expires_at := now' + nat ttl\<rparr> \<and>
       update_leases (\<lambda>x. lr_lease_id x = lr_lease_id lease)
         (\<lambda>x. x\<lparr>lr_renewed_at := now', lr_expires_at := now' + nat ttl\<rparr>) s = Inr s')"
proof (cases "\<exists>ttl. validate_ttl ttl_v = Inr ttl")
  case True
  then obtain ttl where v: "validate_ttl ttl_v = Inr ttl" by blast
  then have t: "ttl_v = PyInt ttl" "30 \<le> ttl" "ttl \<le> 600" by (simp_all add: validate_ttl_Inr)
  show ?thesis
    using t v by (cases "require_active_unexpired_lease H now s lease_id job_id tok agent_id")
      (auto simp: renew_attempt_lease_def t(1) bindE_eq_Inr Let_def not_le)
next
  case False
  then show ?thesis by (auto simp: renew_attempt_lease_def bindE_eq_Inr validate_ttl_Inr)
qed

lemma release_from_Inr:
  assumes "release_attempt_lease_from H now lease_id job_id tok agent_id reason_v r s = Inr (l, s')"
  shows "\<exists>lid token reason lease. lease_id = PyStr lid \<and> tok = PyInt token \<and> 0 < token \<and> reason_v = PyStr reason \<and>
    validate_release_reason reason_v = Inr reason \<and> lease_of_tuple H r lid job_id token agent_id = Inr lease \<and>
    (lr_status lease = Released \<and> lr_release_reason lease = Some reason \<and> l = lease \<and> s' = s \<or>
     lr_status lease = Active \<and>
     l = lease\<lparr>lr_status := Released, lr_released_at := Some now, lr_release_reason := Some reason\<rparr> \<and>
     update_leases (\<lambda>x. lr_lease_id x = lid)
       (\<lambda>x. x\<lparr>lr_status := Released, lr_released_at := Some now, lr_release_reason := Some reason\<rparr>) s = Inr s')"
proof -
  from assms obtain lid reason token lease where v: "validate_lease_id lease_id = Inr lid"
      "validate_release_reason reason_v = Inr reason" "validate_attempt_token tok = Inr token"
      "lease_of_tuple H r lid job_id token agent_id = Inr lease"
    unfolding release_attempt_lease_from_def by blast
  with assms show ?thesis
    by (cases "lr_status lease")
      (auto simp: release_attempt_lease_from_def lease_validators bindE_eq_Inr Let_def split: if_splits)
qed

lemma release_Inr:
  assumes "release_attempt_lease H now lease_id job_id tok agent_id reason_v s = Inr (l, s')"
  shows "\<exists>lid token reason lease. lease_id = PyStr lid \<and> tok = PyInt token \<and> 0 < token \<and> reason_v = PyStr reason \<and>
    validate_release_reason reason_v = Inr reason \<and> lease_of_tuple H s lid job_id token agent_id = Inr lease \<and>
    (lr_status lease = Released \<and> lr_release_reason lease = Some reason \<and> l = lease \<and> s' = s \<or>
     lr_status lease = Active \<and>
     l = lease\<lparr>lr_status := Released, lr_released_at := Some now, lr_release_reason := Some reason\<rparr> \<and>
     update_leases (\<lambda>x. lr_lease_id x = lid)
       (\<lambda>x. x\<lparr>lr_status := Released, lr_released_at := Some now, lr_release_reason := Some reason\<rparr>) s = Inr s')"
  using assms unfolding release_attempt_lease_def by (rule release_from_Inr)

lemma expired_fixed [simp]: "lr_status l = Expired \<Longrightarrow> l\<lparr>lr_status := Expired\<rparr> = l"
  by (cases l) simp

lemma expire_Inr:
  assumes "expire_attempt_lease H lease_id job_id tok agent_id s = Inr (l, s')"
  shows "\<exists>lid token lease. lease_id = PyStr lid \<and> tok = PyInt token \<and> 0 < token \<and>
    lease_of_tuple H s lid job_id token agent_id = Inr lease \<and> l = lease\<lparr>lr_status := Expired\<rparr> \<and>
    (lr_status lease = Expired \<and> s' = s \<or>
     lr_status lease = Active \<and>
     update_leases (\<lambda>x. lr_lease_id x = lid) (\<lambda>x. x\<lparr>lr_status := Expired\<rparr>) s = Inr s')"
proof -
  from assms obtain lid token lease where v: "validate_lease_id lease_id = Inr lid"
      "validate_attempt_token tok = Inr token" "lease_of_tuple H s lid job_id token agent_id = Inr lease"
    unfolding expire_attempt_lease_def by blast
  with assms show ?thesis
    by (cases "lr_status lease")
      (auto simp: expire_attempt_lease_def lease_validators bindE_eq_Inr Let_def split: if_splits)
qed

definition due :: "timestamp \<Rightarrow> lease_row \<Rightarrow> bool" where
  "due now l = (lr_status l = Active \<and> lr_expires_at l \<le> now)"

lemma expire_due_Inr:
  assumes "expire_due_attempt_leases H now s = Inr (ids, s')"
  shows "\<exists>p. (\<forall>l \<in> set (db_leases s). p l \<longleftrightarrow> lr_lease_id l \<in> lr_lease_id ` {x \<in> set (db_leases s). due now x}) \<and>
    update_leases p (\<lambda>l. l\<lparr>lr_status := Expired\<rparr>) s = Inr s' \<and> ids = map lr_lease_id (filter p (db_leases s))"
proof -
  let ?ids = "map lr_lease_id (filter (\<lambda>l. lr_status l = Active \<and> lr_expires_at l \<le> now) (db_leases s))"
  let ?p = "\<lambda>l. List.member ?ids (lr_lease_id l)"
  have p: "?p l \<longleftrightarrow> lr_lease_id l \<in> lr_lease_id ` {x \<in> set (db_leases s). due now x}" for l
    by (auto simp: due_def)
  show ?thesis
  proof (cases "?ids = []")
    case True
    then have "\<And>l. \<not> ?p l" by auto
    moreover have "s = s\<lparr>db_leases := db_leases s\<rparr>" by simp
    ultimately show ?thesis using assms True p
      by (intro exI [of _ ?p]) (auto simp: expire_due_attempt_leases_def Let_def bindE_eq_Inr update_leases_Inr)
  next
    case False
    with assms p show ?thesis
      by (intro exI [of _ ?p]) (auto simp: expire_due_attempt_leases_def Let_def bindE_eq_Inr)
  qed
qed

section \<open>The invariant\<close>

definition lease_inv :: "timestamp \<Rightarrow> db \<Rightarrow> bool" where
  "lease_inv now s \<longleftrightarrow>
     distinct (map lr_lease_id (db_leases s)) \<and>
     distinct (map (\<lambda>l. (lr_job_id l, lr_attempt_token l)) (db_leases s)) \<and>
     (\<forall>l \<in> set (db_leases s). lease_checks l \<and> lr_renewed_at l \<le> now) \<and>
     (\<forall>a \<in> set (db_leases s). \<forall>b \<in> set (db_leases s). lr_status a = Active \<and> lr_status b = Active \<and>
        lr_resource_key a = lr_resource_key b \<longrightarrow> a = b)"

definition agent_load :: "timestamp \<Rightarrow> db \<Rightarrow> string \<Rightarrow> nat" where
  "agent_load now s agent = length (filter (\<lambda>l. lr_agent_id l = agent \<and> active_unexpired now l) (db_leases s))"

text \<open>No agent holds more running leases than its policy allows, at \<open>now\<close> and ever after.\<close>

definition capacity_inv :: "timestamp \<Rightarrow> db \<Rightarrow> bool" where
  "capacity_inv now s \<longleftrightarrow>
     (\<forall>agent policy. resolve_capacity_policy s agent = Some policy \<longrightarrow>
        agent_load now s agent \<le> nat (cp_max_concurrent_jobs policy))"

lemma agent_load_mono: "now \<le> now' \<Longrightarrow> agent_load now' s agent \<le> agent_load now s agent"
proof -
  assume "now \<le> now'"
  then have "\<And>l. active_unexpired now' l \<Longrightarrow> active_unexpired now l" by (auto simp: active_unexpired_def)
  then have "length (filter (\<lambda>l. lr_agent_id l = agent \<and> active_unexpired now' l) xs)
      \<le> length (filter (\<lambda>l. lr_agent_id l = agent \<and> active_unexpired now l) xs)" for xs
    by (induction xs) auto
  then show ?thesis by (simp add: agent_load_def)
qed

text \<open>An update that keeps what identifies a lease, and reactivates none, keeps the invariant.\<close>

definition tame :: "(lease_row \<Rightarrow> lease_row) \<Rightarrow> bool" where
  "tame f \<longleftrightarrow> (\<forall>l. lr_lease_id (f l) = lr_lease_id l \<and> lr_job_id (f l) = lr_job_id l \<and>
     lr_attempt_token (f l) = lr_attempt_token l \<and> lr_resource_key (f l) = lr_resource_key l \<and>
     lr_agent_id (f l) = lr_agent_id l \<and> (lr_status (f l) = Active \<longrightarrow> lr_status l = Active))"

lemma tame_updates [intro!, simp]:
  "tame (\<lambda>x. x\<lparr>lr_renewed_at := r, lr_expires_at := e\<rparr>)"
  "tame (\<lambda>x. x\<lparr>lr_status := Expired\<rparr>)"
  "tame (\<lambda>x. x\<lparr>lr_status := Released, lr_released_at := q, lr_release_reason := z\<rparr>)"
  by (simp_all add: tame_def)

lemma update_leases_inv:
  assumes i: "lease_inv now s" and u: "update_leases p f s = Inr s'" and t: "tame f"
    and n: "now \<le> now'" "\<And>l. l \<in> set (db_leases s) \<Longrightarrow> p l \<Longrightarrow> lr_renewed_at (f l) \<le> now'"
  shows "lease_inv now' s'"
proof -
  from u have s': "db_leases s' = update_where p f (db_leases s)"
    and c: "\<And>l. l \<in> set (db_leases s) \<Longrightarrow> p l \<Longrightarrow> lease_checks (f l)"
    unfolding update_leases_Inr by auto
  have m: "map lr_lease_id (update_where p f xs) = map lr_lease_id xs"
    "map (\<lambda>l. (lr_job_id l, lr_attempt_token l)) (update_where p f xs) = map (\<lambda>l. (lr_job_id l, lr_attempt_token l)) xs" for xs
    using t by (auto intro!: map_update_where simp: tame_def)
  have a: "lease_checks l \<and> lr_renewed_at l \<le> now'" if "l \<in> set (db_leases s')" for l
  proof -
    from that obtain x where x: "x \<in> set (db_leases s)" "l = (if p x then f x else x)"
      unfolding s' in_update_where by blast
    with i have "lease_checks x" "lr_renewed_at x \<le> now" unfolding lease_inv_def by auto
    with x n(1) n(2) [of x] c [of x] show ?thesis by auto
  qed
  have st: "\<And>l. lr_status (f l) = Active \<Longrightarrow> lr_status l = Active"
    and key: "\<And>l. lr_resource_key (f l) = lr_resource_key l"
    using t unfolding tame_def by blast+
  have k: "x = y" if "x \<in> set (db_leases s')" "y \<in> set (db_leases s')" "lr_status x = Active" "lr_status y = Active"
    "lr_resource_key x = lr_resource_key y" for x y
  proof -
    from that(1) obtain x0 where x0: "x0 \<in> set (db_leases s)" "x = (if p x0 then f x0 else x0)"
      unfolding s' in_update_where by blast
    from that(2) obtain y0 where y0: "y0 \<in> set (db_leases s)" "y = (if p y0 then f y0 else y0)"
      unfolding s' in_update_where by blast
    have "lr_status x0 = Active" "lr_status y0 = Active" "lr_resource_key x0 = lr_resource_key y0"
      using that(3-5) x0(2) y0(2) st key by (metis, metis, metis)
    with i x0 y0 have "x0 = y0" unfolding lease_inv_def by blast
    with x0 y0 show ?thesis by simp
  qed
  have d: "distinct (map lr_lease_id (db_leases s'))"
    "distinct (map (\<lambda>l. (lr_job_id l, lr_attempt_token l)) (db_leases s'))"
    using i unfolding lease_inv_def s' m by blast+
  show ?thesis unfolding lease_inv_def using a k by (intro conjI d ballI impI) (simp_all only:)
qed

lemma update_leases_load:
  assumes "update_leases p f s = Inr s'" "tame f"
    and "\<And>l. l \<in> set (db_leases s) \<Longrightarrow> p l \<Longrightarrow> active_unexpired now (f l) \<Longrightarrow> active_unexpired now0 l" and "now0 \<le> now"
  shows "agent_load now s' agent \<le> agent_load now0 s agent"
proof -
  have "active_unexpired now l \<Longrightarrow> active_unexpired now0 l" for l using assms(4) by (auto simp: active_unexpired_def)
  then show ?thesis
    using assms(1-3) unfolding agent_load_def update_leases_Inr
    by (auto intro!: length_filter_update_le simp: tame_def split: if_splits)
qed

section \<open>The lease machine\<close>

text \<open>
  A state is the last reading of the clock and the database. A step is one successful
  operation of any caller, with clock readings that do not go back; an operation that
  raises leaves the database alone and is no step.
\<close>

inductive lease_step :: "(string \<Rightarrow> string) \<Rightarrow> timestamp \<times> db \<Rightarrow> timestamp \<times> db \<Rightarrow> bool" for H where
  reserve: "now \<le> t1 \<Longrightarrow> t1 \<le> t2 \<Longrightarrow>
    reserve_attempt_lease H uuid t1 t2 job tok agent runner host wt ttl s = Inr ((l, replayed), s') \<Longrightarrow>
    lease_step H (now, s) (t2, s')"
| renew: "now \<le> t1 \<Longrightarrow> t1 \<le> t2 \<Longrightarrow>
    renew_attempt_lease H t1 t2 lid job tok agent ttl s = Inr (l, s') \<Longrightarrow> lease_step H (now, s) (t2, s')"
| release: "now \<le> t1 \<Longrightarrow>
    release_attempt_lease H t1 lid job tok agent reason s = Inr (l, s') \<Longrightarrow> lease_step H (now, s) (t1, s')"
| expire: "expire_attempt_lease H lid job tok agent s = Inr (l, s') \<Longrightarrow> lease_step H (now, s) (now, s')"
| expire_due: "now \<le> t1 \<Longrightarrow> due_before \<le> t1 \<Longrightarrow>
    expire_due_attempt_leases H due_before s = Inr (ids, s') \<Longrightarrow> lease_step H (now, s) (t1, s')"

inductive_cases lease_stepE: "lease_step H (now, s) (now', s')"

lemma insert_lease_inv:
  assumes "lease_inv now s" "insert_lease l s = Inr s'" "now \<le> now'" "lr_renewed_at l \<le> now'"
  shows "lease_inv now' s'"
proof -
  from assms(2) have s': "db_leases s' = db_leases s @ [l]" and c: "lease_checks l"
    and i: "lr_lease_id l \<notin> lr_lease_id ` set (db_leases s)"
    and j: "\<not> attempt_has_any_lease s (lr_job_id l) (lr_attempt_token l)"
    and k: "lr_status l = Active \<Longrightarrow> x \<in> set (db_leases s) \<Longrightarrow> lr_status x = Active \<Longrightarrow> lr_resource_key x \<noteq> lr_resource_key l" for x
    by (auto simp: insert_lease_Inr)
  from j have j': "(lr_job_id l, lr_attempt_token l) \<notin> (\<lambda>l. (lr_job_id l, lr_attempt_token l)) ` set (db_leases s)"
    by (auto simp: attempt_has_any_lease_def list_ex_iff)
  show ?thesis using assms(1,3,4) c i j' k unfolding lease_inv_def s' by (auto intro: order_trans) metis+
qed

lemma fresh_lease_capacity:
  assumes "capacity_inv now s" "now \<le> t1" "t1 \<le> t2" "insert_lease l s = Inr s'"
    and f: "fresh_lease H uuid t1 t2 job token agent runner host wt ttl s l"
  shows "capacity_inv t2 s'"
proof -
  from f obtain policy where p: "resolve_capacity_policy s agent = Some policy"
      "agent_load t2 s agent < nat (cp_max_concurrent_jobs policy)" "lr_agent_id l = agent"
    unfolding fresh_lease_def agent_load_def by auto
  from assms(4) have s': "s' = s\<lparr>db_leases := db_leases s @ [l]\<rparr>" by (simp add: insert_lease_Inr)
  have load: "agent_load t2 s' a \<le> (if a = agent then Suc (agent_load t2 s a) else agent_load t2 s a)" for a
    using p(3) by (simp add: agent_load_def s')
  show ?thesis unfolding capacity_inv_def
  proof (intro allI impI)
    fix a q assume q: "resolve_capacity_policy s' a = Some q"
    then have q': "resolve_capacity_policy s a = Some q"
      by (simp add: s' resolve_capacity_policy_def get_capacity_policy_def)
    show "agent_load t2 s' a \<le> nat (cp_max_concurrent_jobs q)"
    proof (cases "a = agent")
      case True
      with q' p load [of a] show ?thesis by simp
    next
      case False
      have "agent_load now s a \<le> nat (cp_max_concurrent_jobs q)" using assms(1) q' unfolding capacity_inv_def by blast
      moreover have "agent_load t2 s a \<le> agent_load now s a" by (rule agent_load_mono) (use assms in simp)
      ultimately show ?thesis using load [of a] False by simp
    qed
  qed
qed

lemma capacity_mono: "capacity_inv now s \<Longrightarrow> now \<le> now' \<Longrightarrow> capacity_inv now' s"
  unfolding capacity_inv_def using agent_load_mono order_trans by blast

lemma update_leases_capacity:
  assumes "capacity_inv now s" "update_leases p f s = Inr s'" "tame f" "now \<le> now'"
    and "\<And>l. l \<in> set (db_leases s) \<Longrightarrow> p l \<Longrightarrow> active_unexpired now' (f l) \<Longrightarrow> active_unexpired now l"
  shows "capacity_inv now' s'"
proof -
  have r: "resolve_capacity_policy s' = resolve_capacity_policy s"
    using assms(2) by (auto simp: update_leases_Inr resolve_capacity_policy_def get_capacity_policy_def fun_eq_iff)
  have "agent_load now' s' a \<le> agent_load now s a" for a
    by (rule update_leases_load [OF assms(2,3) _ assms(4)]) (rule assms(5))
  with assms(1) r show ?thesis unfolding capacity_inv_def by (metis order_trans)
qed

lemma lease_inv_mono: "lease_inv now s \<Longrightarrow> now \<le> now' \<Longrightarrow> lease_inv now' s"
  unfolding lease_inv_def by (auto intro: order_trans)

lemma unique_lease_id:
  assumes "lease_inv now s" "find_lease s i = Some l" "x \<in> set (db_leases s)" "lr_lease_id x = i"
  shows "x = l"
proof -
  have d: "distinct (map lr_lease_id (db_leases s))" using assms(1) unfolding lease_inv_def by blast
  from find_key_iff [OF d, of i x] assms show ?thesis by (simp add: find_lease_def)
qed

text \<open>Both invariants at once, and that each operation keeps them.\<close>

definition lease_ok :: "timestamp \<times> db \<Rightarrow> bool" where
  "lease_ok x \<longleftrightarrow> lease_inv (fst x) (snd x) \<and> capacity_inv (fst x) (snd x)"

lemma lease_ok_mono: "lease_ok (now, s) \<Longrightarrow> now \<le> now' \<Longrightarrow> lease_ok (now', s)"
  by (auto simp: lease_ok_def intro: lease_inv_mono capacity_mono)

lemma update_leases_ok:
  assumes "lease_ok (now, s)" "update_leases p f s = Inr s'" "tame f" "now \<le> now'"
    and "\<And>l. l \<in> set (db_leases s) \<Longrightarrow> p l \<Longrightarrow> lr_renewed_at l \<le> now \<Longrightarrow> lr_renewed_at (f l) \<le> now'"
    and "\<And>l. l \<in> set (db_leases s) \<Longrightarrow> p l \<Longrightarrow> active_unexpired now' (f l) \<Longrightarrow> active_unexpired now l"
  shows "lease_ok (now', s')"
proof -
  from assms(1) have "lr_renewed_at l \<le> now" if "l \<in> set (db_leases s)" for l
    using that by (auto simp: lease_ok_def lease_inv_def)
  with assms show ?thesis
    unfolding lease_ok_def
    using update_leases_inv [of now s p f s' now'] update_leases_capacity [of now s p f s' now'] by auto
qed

lemma expired_ok:
  assumes "lease_ok (now, s)" "update_leases p (\<lambda>l. l\<lparr>lr_status := Expired\<rparr>) s = Inr s'" "now \<le> now'"
  shows "lease_ok (now', s')"
  by (rule update_leases_ok [OF assms(1,2) _ assms(3)]) (use assms(3) in \<open>auto simp: active_unexpired_def\<close>)

lemma reserve_ok:
  assumes ok: "lease_ok (now, s)" and t: "now \<le> t1" "t1 \<le> t2"
    and r: "reserve_attempt_lease H uuid t1 t2 job tok agent runner host wt ttl s = Inr ((l, replayed), s')"
  shows "lease_ok (t2, s')"
proof -
  consider "s' = s" | token n where "insert_lease l s = Inr s'" "fresh_lease H uuid t1 t2 job token agent runner host wt n s l"
    using reserve_cases [OF r] by blast
  then show ?thesis
  proof cases
    case 1
    with ok t show ?thesis by (auto intro: lease_ok_mono)
  next
    case 2
    have "lr_renewed_at l \<le> t2" using 2(2) t by (auto simp: fresh_lease_def)
    with 2 ok t show ?thesis
      using insert_lease_inv [of now s l s' t2] fresh_lease_capacity [OF _ t 2(1,2)] by (auto simp: lease_ok_def)
  qed
qed

lemma renew_ok:
  assumes ok: "lease_ok (now, s)" and t: "now \<le> t1" "t1 \<le> t2"
    and r: "renew_attempt_lease H t1 t2 lid job tok agent ttl s = Inr (l, s')"
  shows "lease_ok (t2, s')"
proof -
  from r obtain n lease where u: "update_leases (\<lambda>x. lr_lease_id x = lr_lease_id lease)
      (\<lambda>x. x\<lparr>lr_renewed_at := t2, lr_expires_at := t2 + nat n\<rparr>) s = Inr s'"
    and q: "require_active_unexpired_lease H t1 s lid job tok agent = Inr lease"
    unfolding renew_Inr by blast
  from q obtain i where le: "find_lease s i = Some lease" "lr_status lease = Active" "t1 < lr_expires_at lease"
    unfolding require_lease_Inr by blast
  have "x = lease" if "x \<in> set (db_leases s)" "lr_lease_id x = lr_lease_id lease" for x
    using unique_lease_id [of now s i lease x] ok le that find_lease_in [OF le(1)] by (simp add: lease_ok_def)
  moreover have "active_unexpired now lease" using le t by (simp add: active_unexpired_def)
  ultimately have "active_unexpired now x" if "x \<in> set (db_leases s)" "lr_lease_id x = lr_lease_id lease" for x
    using that by blast
  then show ?thesis
    by (intro update_leases_ok [OF ok u]) (use t in auto)
qed

lemma release_from_ok:
  assumes ok: "lease_ok (now, s)" and t: "now \<le> t1"
    and rel: "release_attempt_lease_from H t1 lid job tok agent reason r s = Inr (l, s')"
  shows "lease_ok (t1, s')"
proof -
  consider "s' = s" | i z where "update_leases (\<lambda>x. lr_lease_id x = i)
       (\<lambda>x. x\<lparr>lr_status := Released, lr_released_at := Some t1, lr_release_reason := Some z\<rparr>) s = Inr s'"
    using release_from_Inr [OF rel] by blast
  then show ?thesis
  proof cases
    case 1
    with ok t show ?thesis by (auto intro: lease_ok_mono)
  next
    case 2
    then show ?thesis by (rule update_leases_ok [OF ok]) (use t in \<open>auto simp: active_unexpired_def\<close>)
  qed
qed

lemma release_ok:
  assumes ok: "lease_ok (now, s)" and t: "now \<le> t1"
    and r: "release_attempt_lease H t1 lid job tok agent reason s = Inr (l, s')"
  shows "lease_ok (t1, s')"
  using release_from_ok [OF ok t r [unfolded release_attempt_lease_def]] .

lemma expire_ok:
  assumes ok: "lease_ok (now, s)" and r: "expire_attempt_lease H lid job tok agent s = Inr (l, s')"
  shows "lease_ok (now, s')"
  using expire_Inr [OF r] ok by (auto intro: expired_ok)

lemma expire_due_ok:
  assumes ok: "lease_ok (now, s)" and t: "now \<le> t1" and r: "expire_due_attempt_leases H d s = Inr (ids, s')"
  shows "lease_ok (t1, s')"
  using expire_due_Inr [OF r] expired_ok [OF ok _ t] by blast

lemma lease_step_ok: "lease_step H x y \<Longrightarrow> lease_ok x \<Longrightarrow> lease_ok y"
  by (induction rule: lease_step.induct)
    (blast intro: reserve_ok, blast intro: renew_ok, blast intro: release_ok, blast intro: expire_ok,
     blast intro: expire_due_ok)

definition lease_start :: "timestamp \<times> db \<Rightarrow> bool" where
  "lease_start x \<longleftrightarrow> db_leases (snd x) = []"

interpretation lease_machine: invariant_system lease_start "lease_step H" lease_ok for H
proof unfold_locales
  fix x assume "lease_start x"
  then show "lease_ok x"
    by (simp add: lease_start_def lease_ok_def lease_inv_def capacity_inv_def agent_load_def)
qed (rule lease_step_ok)

section \<open>Consequences\<close>

lemma update_leases_find:
  assumes "update_leases (\<lambda>x. lr_lease_id x = i) f s = Inr s'" "\<And>l. lr_lease_id (f l) = lr_lease_id l"
  shows "find_lease s' j = (if j = i then map_option f (find_lease s j) else find_lease s j)"
  using assms(1) find_update_where_key [of lr_lease_id f j i "db_leases s", OF assms(2)]
  by (simp add: update_leases_Inr find_lease_def)

lemma update_leases_frame:
  assumes "update_leases p f s = Inr s'"
  shows "s' = s\<lparr>db_leases := db_leases s'\<rparr>"
  using assms by (simp add: update_leases_Inr)

text \<open>The CHECKs hold after each update that the code makes, if the clock does not go back.\<close>

lemma lease_checks_updates:
  assumes "lease_checks l"
  shows "lr_acquired_at l \<le> t \<Longrightarrow> t \<le> e \<Longrightarrow> lr_status l = Active \<Longrightarrow>
      lease_checks (l\<lparr>lr_renewed_at := t, lr_expires_at := e\<rparr>)"
    "lr_status l = Active \<Longrightarrow> lease_checks (l\<lparr>lr_status := Expired\<rparr>)"
    "lr_status l = Expired \<Longrightarrow> lease_checks (l\<lparr>lr_status := Expired\<rparr>)"
    "lr_acquired_at l \<le> t \<Longrightarrow> r \<noteq> [] \<Longrightarrow> length r \<le> 256 \<Longrightarrow>
      lease_checks (l\<lparr>lr_status := Released, lr_released_at := Some t, lr_release_reason := Some r\<rparr>)"
proof -
  have ne: "r \<noteq> [] \<Longrightarrow> Suc 0 \<le> length r" by (cases r) auto
  show "lr_acquired_at l \<le> t \<Longrightarrow> t \<le> e \<Longrightarrow> lr_status l = Active \<Longrightarrow>
      lease_checks (l\<lparr>lr_renewed_at := t, lr_expires_at := e\<rparr>)"
    "lr_status l = Active \<Longrightarrow> lease_checks (l\<lparr>lr_status := Expired\<rparr>)"
    "lr_status l = Expired \<Longrightarrow> lease_checks (l\<lparr>lr_status := Expired\<rparr>)"
    "lr_acquired_at l \<le> t \<Longrightarrow> r \<noteq> [] \<Longrightarrow> length r \<le> 256 \<Longrightarrow>
      lease_checks (l\<lparr>lr_status := Released, lr_released_at := Some t, lr_release_reason := Some r\<rparr>)"
    using assms ne by (simp_all add: lease_checks_def)
qed

lemma lease_inv_row: "lease_ok (now, s) \<Longrightarrow> l \<in> set (db_leases s) \<Longrightarrow> lease_checks l \<and> lr_acquired_at l \<le> now"
  by (auto simp: lease_ok_def lease_inv_def lease_checks_def)

definition policy_wf :: "capacity_row \<Rightarrow> bool" where
  "policy_wf p \<longleftrightarrow> 1 \<le> cp_max_concurrent_jobs p \<and> cp_max_concurrent_jobs p \<le> 32 \<and> sha256_check (cp_capacity_policy_id p)"

lemma built_key_check:
  assumes "hexdigest_shape H" shows "sha256_check (compute_resource_key H r)"
  using assms by (simp add: sha256_check_def compute_resource_key_def digest_of_def hexdigest_shape_def hex64_body_def sha256_prefix_def)

lemma fresh_lease_inserts:
  assumes "hexdigest_shape H" "fresh_lease H uuid t1 t2 job token agent runner host wt ttl s l"
    and "uuid \<notin> lr_lease_id ` set (db_leases s)" "find_job s job \<noteq> None" "get_agent s agent \<noteq> None"
    "get_runner_profile s runner \<noteq> None" "0 < token"
    "\<And>p. resolve_capacity_policy s agent = Some p \<Longrightarrow> policy_wf p"
  shows "is_ok (insert_lease l s)"
proof -
  from assms(2) obtain policy r where f: "resolve_capacity_policy s agent = Some policy"
      "build_worktree_resource host wt = Inr r" "job_attempt_lease s job token = None"
      "\<forall>x \<in> set (db_leases s). lr_resource_key x = compute_resource_key H r \<longrightarrow> lr_status x \<noteq> Active"
    and l: "l = \<lparr>lr_lease_id = uuid, lr_job_id = job, lr_attempt_token = token, lr_agent_id = agent,
      lr_runner_profile_id = runner, lr_host_id = host, lr_resource_kind = ''worktree'',
      lr_resource_key = compute_resource_key H r, lr_normalized_path = wr_normalized_path r,
      lr_capacity_policy_id = cp_capacity_policy_id policy,
      lr_max_concurrent_jobs = cp_max_concurrent_jobs policy, lr_status = Active, lr_acquired_at = t1,
      lr_renewed_at = t1, lr_expires_at = t1 + nat ttl, lr_released_at = None, lr_release_reason = None\<rparr>"
    unfolding fresh_lease_def by blast
  from f(2) have b: "validate_host_id (PyStr host) = Inr (wr_host_id r)" "normalize_worktree_path wt = Inr (wr_normalized_path r)"
    by (auto simp: build_worktree_resource_def bindE_eq_Inr)
  then have "host \<noteq> [] \<and> length host \<le> 64" by (auto simp: validate_host_id_def MAX_HOST_ID_LEN_def split: if_splits)
  then have h: "Suc 0 \<le> length host" "length host \<le> 64" by (cases host; simp)+
  have "lease_checks l"
    using h normalize_length [OF b(2)] assms(7) assms(8) [OF f(1)] built_key_check [OF assms(1), of r]
    by (simp add: lease_checks_def l policy_wf_def MAX_PATH_LEN_def)
  moreover have "\<not> attempt_has_any_lease s job token"
    using f(3) by (simp add: job_attempt_lease_def attempt_has_any_lease_def find_None_notin list_ex_iff)
  ultimately have "insert_lease l s = Inr (s\<lparr>db_leases := db_leases s @ [l]\<rparr>)"
    using assms(3-6) f(4) unfolding insert_lease_Inr by (auto simp: l)
  then show ?thesis by simp
qed

section \<open>A sample database\<close>

definition sample_job :: job_row where
  "sample_job = \<lparr>jb_id = ''j1'', jb_workspace_id = Some ''w1'', jb_task_id = Some ''T1'', jb_runner_profile_id = Some ''r1'',
     jb_assigned_agent = Some ''a1'', jb_status = ''running'', jb_prompt_path = None, jb_branch = None,
     jb_worktree_path = None, jb_terminal_session_id = None, jb_logs_path = None, jb_attempt_count = 1,
     jb_timeout_seconds = None, jb_payload_json = Some (PyDict [(''execution_context'', to_dict sample_context)]),
     jb_result_json = None, jb_created_at = 1, jb_started_at = None, jb_completed_at = None,
     jb_last_activity_at = None, jb_progress_json = None, jb_recoverable = False, jb_updated_at = 1\<rparr>"

definition sample_agent :: agent_row where
  "sample_agent = \<lparr>ag_id = ''a1'', ag_name = ''a1'', ag_role = None,
       ag_capabilities = PyDict [], ag_online_state = ''online'', ag_current_load = 0, ag_host_id = Some ''h1'',
     ag_client_type = None, ag_last_seen_at = None,
       ag_created_at = 1, ag_updated_at = 1\<rparr>"

definition sample_runner :: runner_row where
  "sample_runner = \<lparr>rn_id = ''r1'', rn_runner_type = ''agentd'', rn_command = [], rn_working_directory_strategy = [],
     rn_supports_stream_attach = False, rn_env = PyDict []\<rparr>"

definition sample_policy :: capacity_row where
  "sample_policy = \<lparr>cp_agent_id = ''a1'', cp_source_id = ''s'', cp_source_version = 1, cp_catalog_hash = [],
     cp_capacity_policy_id = sha256_prefix @ replicate 64 (CHR ''b''), cp_max_concurrent_jobs = 1\<rparr>"

definition sample_db :: db where
  "sample_db = empty_db\<lparr>db_workspaces := [sample_ws], db_agents := [sample_agent], db_runner_profiles := [sample_runner],
     db_jobs := [sample_job], db_capacity := [sample_policy]\<rparr>"

definition sample_row :: lease_row where
  "sample_row = \<lparr>lr_lease_id = ''l1'', lr_job_id = ''j1'', lr_attempt_token = 1, lr_agent_id = ''a1'',
     lr_runner_profile_id = ''r1'', lr_host_id = ''h1'', lr_resource_kind = ''worktree'',
     lr_resource_key = sha256_prefix @ replicate 64 (CHR ''a''), lr_normalized_path = ''/srv/wt/T1'',
     lr_capacity_policy_id = sha256_prefix @ replicate 64 (CHR ''b''), lr_max_concurrent_jobs = 1,
     lr_status = Active, lr_acquired_at = 7, lr_renewed_at = 7, lr_expires_at = 37,
     lr_released_at = None, lr_release_reason = None\<rparr>"

lemma sample_reserved:
  "reserve_attempt_lease ctx_H ''l1'' 7 8 ''j1'' (PyInt 1) ''a1'' ''r1'' ''h1'' ''/srv/wt/T1'' (PyInt 30) sample_db
     = Inr ((sample_row, False), sample_db\<lparr>db_leases := [sample_row]\<rparr>)"
  by code_simp

end
