(* ===== verification/LeaseSafety.thy ===== *)
theory LeaseSafety
  imports Leases
begin

text \<open>
  What the lease protocol of \<open>Leases\<close> guarantees: mutual exclusion and capacity in every
  reachable state, fencing of renewals, finality of ended leases, replay of reservations and
  releases, the sweep of due leases, the errors, and the refinement of a lock table.
\<close>

section \<open>Safety of the machine\<close>

text \<open>
  C1: in every state that the operations reach from a database without leases, each worktree
  has at most one active lease and each attempt of a job at most one lease, and no agent holds
  more running leases than its capacity policy allows, now and at any later reading of the clock.
\<close>

theorem leases_safe:
  assumes "lease_start x" "(lease_step H)\<^sup>*\<^sup>* x (now, s)"
  shows "(\<forall>a \<in> set (db_leases s). \<forall>b \<in> set (db_leases s). lr_status a = Active \<and> lr_status b = Active \<and>
      lr_resource_key a = lr_resource_key b \<longrightarrow> a = b) \<and>
    distinct (map (\<lambda>l. (lr_job_id l, lr_attempt_token l)) (db_leases s)) \<and>
    (\<forall>t agent policy. now \<le> t \<longrightarrow> resolve_capacity_policy s agent = Some policy \<longrightarrow>
      agent_load t s agent \<le> nat (cp_max_concurrent_jobs policy))"
proof -
  have ok: "lease_ok (now, s)" by (rule lease_machine.inv_reachable [OF assms])
  then have "lease_inv now s" by (simp add: lease_ok_def)
  moreover have "capacity_inv t s" if "now \<le> t" for t
    using lease_ok_mono [OF ok that] by (simp add: lease_ok_def)
  ultimately show ?thesis unfolding lease_inv_def capacity_inv_def by blast
qed

definition sample_run :: "timestamp \<times> db" where
  "sample_run = (8, sample_db\<lparr>db_leases := [sample_row]\<rparr>)"

lemma sample_start: "lease_start (0, sample_db)"
  by (simp add: lease_start_def sample_db_def empty_db_def)

lemma sample_step: "lease_step ctx_H (0, sample_db) sample_run"
  unfolding sample_run_def by (rule lease_step.reserve [OF _ _ sample_reserved]) simp_all

theorem leases_safe_witness:
  "agent_load 20 (snd sample_run) ''a1'' \<le> 1"
proof -
  have "(lease_step ctx_H)\<^sup>*\<^sup>* (0, sample_db) (8, snd sample_run)"
    using sample_step by (simp add: sample_run_def r_into_rtranclp)
  note safe = leases_safe [OF sample_start this]
  moreover have "resolve_capacity_policy (snd sample_run) ''a1'' = Some sample_policy" by code_simp
  ultimately have "agent_load 20 (snd sample_run) ''a1'' \<le> nat (cp_max_concurrent_jobs sample_policy)" by fastforce
  then show ?thesis by (simp add: sample_policy_def)
qed

text \<open>How the row of one lease may develop: its identity is fixed, its times never go back, its end is final.\<close>

definition lease_after :: "lease_row \<Rightarrow> lease_row \<Rightarrow> bool" where
  "lease_after l l' \<longleftrightarrow>
     l' = l\<lparr>lr_status := lr_status l', lr_renewed_at := lr_renewed_at l', lr_expires_at := lr_expires_at l',
            lr_released_at := lr_released_at l', lr_release_reason := lr_release_reason l'\<rparr> \<and>
     lr_expires_at l \<le> lr_expires_at l' \<and> (lr_status l \<noteq> Active \<longrightarrow> l' = l)"

lemma lease_after_refl [simp]: "lease_after l l"
  by (simp add: lease_after_def)










lemma due_ids:
  assumes "lease_ok (now, s)" "l \<in> set (db_leases s)"
  shows "lr_lease_id l \<in> lr_lease_id ` {x \<in> set (db_leases s). due t x} \<longleftrightarrow> due t l"
proof -
  have "distinct (map lr_lease_id (db_leases s))" using assms(1) by (simp add: lease_ok_def lease_inv_def)
  with assms(2) show ?thesis by (auto simp: distinct_map inj_on_def)
qed




definition sample_run2 :: "timestamp \<times> db" where
  "sample_run2 = (50, sample_db\<lparr>db_leases := [sample_row\<lparr>lr_status := Expired\<rparr>]\<rparr>)"

lemma sample_expired:
  "expire_due_attempt_leases ctx_H 50 (snd sample_run) = Inr ([''l1''], snd sample_run2)"
  by code_simp

lemma sample_run_ok: "lease_ok sample_run"
  by (rule lease_machine.inv_reachable [OF sample_start r_into_rtranclp]) (rule sample_step)




section \<open>Fencing, release and replay\<close>

text \<open>
  C9: a renewal succeeds only for the caller that names the active, unexpired lease together with
  its job, attempt and agent; it extends exactly that row, to a strictly later expiry at most 600
  seconds ahead, and touches nothing else. An agent whose lease ran out or was taken over can
  therefore not renew it.
\<close>

theorem renew_fenced:
  assumes "renew_attempt_lease H t1 t2 lease_id job tok agent ttl_v s = Inr (l, s')"
  shows "\<exists>lid token l0. lease_id = PyStr lid \<and> tok = PyInt token \<and> find_lease s lid = Some l0 \<and>
    lr_job_id l0 = job \<and> lr_attempt_token l0 = token \<and> lr_agent_id l0 = agent \<and> active_unexpired t1 l0 \<and>
    l = l0\<lparr>lr_renewed_at := t2, lr_expires_at := lr_expires_at l\<rparr> \<and>
    lr_expires_at l0 < lr_expires_at l \<and> t2 + 30 \<le> lr_expires_at l \<and> lr_expires_at l \<le> t2 + 600 \<and>
    (\<forall>j. find_lease s' j = (if j = lid then Some l else find_lease s j)) \<and> s' = s\<lparr>db_leases := db_leases s'\<rparr>"
proof -
  from assms obtain ttl l0 where r: "30 \<le> ttl" "ttl \<le> 600" "lr_expires_at l0 < t2 + nat ttl"
      "l = l0\<lparr>lr_renewed_at := t2, lr_expires_at := t2 + nat ttl\<rparr>"
      "require_active_unexpired_lease H t1 s lease_id job tok agent = Inr l0"
    and u: "update_leases (\<lambda>x. lr_lease_id x = lr_lease_id l0)
      (\<lambda>x. x\<lparr>lr_renewed_at := t2, lr_expires_at := t2 + nat ttl\<rparr>) s = Inr s'"
    unfolding renew_Inr by blast
  from r(5) obtain lid token where q: "lease_id = PyStr lid" "tok = PyInt token" "find_lease s lid = Some l0"
      "lr_job_id l0 = job" "lr_attempt_token l0 = token" "lr_agent_id l0 = agent" "lr_status l0 = Active" "t1 < lr_expires_at l0"
    unfolding require_lease_Inr by blast
  have i: "lr_lease_id l0 = lid" using find_lease_in [OF q(3)] by simp
  have "find_lease s' j = (if j = lid then Some l else find_lease s j)" for j
    using update_leases_find [OF u] q(3) r(4) i by simp
  moreover note update_leases_frame [OF u]
  moreover have "30 \<le> nat ttl" "nat ttl \<le> 600" using r(1,2) by simp_all
  ultimately show ?thesis using q r(3,4)
    by (intro exI [of _ lid] exI [of _ token] exI [of _ l0]) (auto simp: active_unexpired_def)
qed

definition sample_renewed :: lease_row where
  "sample_renewed = sample_row\<lparr>lr_renewed_at := 21, lr_expires_at := 61\<rparr>"

lemma sample_renew: "renew_attempt_lease ctx_H 20 21 (PyStr ''l1'') ''j1'' (PyInt 1) ''a1'' (PyInt 40) (snd sample_run)
    = Inr (sample_renewed, sample_db\<lparr>db_leases := [sample_renewed]\<rparr>)"
  by code_simp

theorem renew_fenced_witness:
  "\<exists>l0. find_lease (snd sample_run) ''l1'' = Some l0 \<and> lr_agent_id l0 = ''a1'' \<and> active_unexpired 20 l0"
  using renew_fenced [OF sample_renew] by auto

text \<open>
  Releasing is idempotent and its reason is fixed: after a release the lease is stored as
  released with that reason, the same release later returns the same row and changes nothing, and a
  release with another reason is refused.
\<close>

theorem release_once:
  assumes r: "release_attempt_lease H t lease_id job tok agent (PyStr reason) s = Inr (l, s')"
    and v: "validate_release_reason (PyStr reason') = Inr reason'"
  shows "lr_status l = Released \<and> lr_release_reason l = Some reason \<and> find_lease s' (lr_lease_id l) = Some l \<and>
    release_attempt_lease H t' lease_id job tok agent (PyStr reason') s' =
      (if reason' = reason then Inr (l, s') else raise LeaseErr ''lease already released with different reason'')"
proof -
  from release_Inr [OF r] obtain lid token lease where a: "lease_id = PyStr lid" "tok = PyInt token" "0 < token"
      "validate_release_reason (PyStr reason) = Inr reason" "lease_of_tuple H s lid job token agent = Inr lease"
    and c: "lr_status lease = Released \<and> lr_release_reason lease = Some reason \<and> l = lease \<and> s' = s \<or>
     l = lease\<lparr>lr_status := Released, lr_released_at := Some t, lr_release_reason := Some reason\<rparr> \<and>
     update_leases (\<lambda>x. lr_lease_id x = lid)
       (\<lambda>x. x\<lparr>lr_status := Released, lr_released_at := Some t, lr_release_reason := Some reason\<rparr>) s = Inr s'"
    by (auto simp: validate_release_reason_Inr)
  from a(5) have q: "find_lease s lid = Some lease" "validate_stored_resource H lease = Inr ()" "lr_job_id lease = job"
      "lr_attempt_token lease = token" "lr_agent_id lease = agent" by (simp_all add: lease_of_tuple_Inr)
  have i: "lr_lease_id lease = lid" using find_lease_in [OF q(1)] by simp
  from r have ne: "lid \<noteq> []" by (auto simp: a release_attempt_lease_def release_attempt_lease_from_def validate_lease_id_Inr)
  from c have l: "lr_status l = Released" "lr_release_reason l = Some reason" "lr_lease_id l = lid"
    "find_lease s' lid = Some l" "lr_job_id l = job" "lr_attempt_token l = token" "lr_agent_id l = agent"
    "validate_stored_resource H l = Inr ()"
    using q i update_leases_find [of lid _ s s' lid] by (auto simp: validate_stored_resource_def)
  have "lease_of_tuple H s' lid job token agent = Inr l" using l by (simp add: lease_of_tuple_Inr)
  moreover have "validate_lease_id (PyStr lid) = Inr lid" "validate_attempt_token (PyInt token) = Inr token"
    using ne a(3) by (simp_all add: lease_validators)
  ultimately show ?thesis using l v by (auto simp: release_attempt_lease_def release_attempt_lease_from_def a(1,2))
qed

lemma sample_release: "\<exists>x. release_attempt_lease ctx_H 20 (PyStr ''l1'') ''j1'' (PyInt 1) ''a1'' (PyStr ''done'') (snd sample_run) = Inr x"
proof -
  have "is_ok (release_attempt_lease ctx_H 20 (PyStr ''l1'') ''j1'' (PyInt 1) ''a1'' (PyStr ''done'') (snd sample_run))"
    by code_simp
  then show ?thesis by (simp add: is_ok_iff)
qed

theorem release_once_witness:
  "\<exists>l s'. release_attempt_lease ctx_H 30 (PyStr ''l1'') ''j1'' (PyInt 1) ''a1'' (PyStr ''gone'') s' =
     raise LeaseErr ''lease already released with different reason'' \<and> find_lease s' ''l1'' = Some l"
proof -
  obtain l s' where r: "release_attempt_lease ctx_H 20 (PyStr ''l1'') ''j1'' (PyInt 1) ''a1'' (PyStr ''done'') (snd sample_run) = Inr (l, s')"
    using sample_release by auto
  have v: "validate_release_reason (PyStr ''gone'') = Inr ''gone''" by code_simp
  have "lr_lease_id l = ''l1''" using release_Inr [OF r] by (auto simp: lease_of_tuple_Inr dest: find_lease_in)
  with release_once [OF r v, of 30] show ?thesis by auto
qed

text \<open>
  Reserving is idempotent per attempt: after a reservation the same request, at any later time
  and with any fresh identifier, returns the stored lease marked as a replay and leaves the database
  alone. (For a path that the stored-resource check accepts, see \<open>built_resource_rejected\<close>.)
\<close>

theorem reserve_replay:
  assumes r: "reserve_attempt_lease H uuid t1 t2 job tok agent runner host wt ttl s = Inr ((l, replayed), s')"
    and h: "hexdigest_shape H" and p: "path_flavour (lr_normalized_path l) \<noteq> Unc" "strip (lr_normalized_path l) = lr_normalized_path l"
  shows "reserve_attempt_lease H uuid' t3 t4 job tok agent runner host wt ttl s' = Inr ((l, True), s')"
proof -
  from reserve_cases [OF r] obtain token n policy resource where
      au: "reserve_authority H job tok agent runner host wt ttl s = Inr (token, n, policy, resource)" and
      im: "immutable_lease_fields_match l agent runner host (compute_resource_key H resource)
         (cp_capacity_policy_id policy) (cp_max_concurrent_jobs policy)" and
      c: "s' = s \<and> job_attempt_lease s job token = Some l \<and> validate_stored_resource H l = Inr () \<or>
       insert_lease l s = Inr s' \<and> fresh_lease H uuid t1 t2 job token agent runner host wt n s l \<and>
       lr_host_id l = wr_host_id resource \<and> lr_normalized_path l = wr_normalized_path resource"
    by blast
  have au': "reserve_authority H job tok agent runner host wt ttl s' = Inr (token, n, policy, resource)"
  proof -
    have "find_job s' job = find_job s job" "resolve_capacity_policy s' agent = resolve_capacity_policy s agent"
      using c by (auto simp: insert_lease_Inr find_job_def resolve_capacity_policy_def get_capacity_policy_def)
    then have "reserve_authority H job tok agent runner host wt ttl s' = reserve_authority H job tok agent runner host wt ttl s"
      unfolding reserve_authority_def by (simp only:)
    then show ?thesis using au by simp
  qed
  have "job_attempt_lease s' job token = Some l \<and> validate_stored_resource H l = Inr ()"
    using c
  proof
    assume f: "insert_lease l s = Inr s' \<and> fresh_lease H uuid t1 t2 job token agent runner host wt n s l \<and>
       lr_host_id l = wr_host_id resource \<and> lr_normalized_path l = wr_normalized_path resource"
    then have "job_attempt_lease s' job token = Some l"
      by (auto simp: insert_lease_Inr fresh_lease_def job_attempt_lease_def find_append)
    moreover have b: "build_worktree_resource host wt = Inr resource" using reserve_authority_Inr [OF au] by blast
    moreover have "lr_resource_key l = compute_resource_key H resource" "lr_resource_kind l = ''worktree''"
      using f b by (auto simp: fresh_lease_def)
    ultimately show ?thesis
      using built_resource_accepted [OF h b] f p by (simp add: validate_stored_resource_def)
  qed auto
  then show ?thesis using im by (simp add: reserve_attempt_lease_def au')
qed

theorem reserve_replay_witness:
  "reserve_attempt_lease ctx_H ''l2'' 20 21 ''j1'' (PyInt 1) ''a1'' ''r1'' ''h1'' ''/srv/wt/T1'' (PyInt 30) (snd sample_run)
     = Inr ((sample_row, True), snd sample_run)"
proof -
  have 1: "path_flavour (lr_normalized_path sample_row) \<noteq> Unc" by code_simp
  have 2: "strip (lr_normalized_path sample_row) = lr_normalized_path sample_row" by code_simp
  show ?thesis using reserve_replay [OF sample_reserved ctx_H_shape 1 2] by (simp add: sample_run_def)
qed

text \<open>
  The sweep expires exactly the leases that are active and due: it reports their identifiers,
  marks each of them expired, leaves every other lease and every other table as it was, and
  afterwards no lease is due.
\<close>

theorem expire_due_exact:
  assumes ok: "lease_ok (now, s)" and r: "expire_due_attempt_leases H t s = Inr (ids, s')"
  shows "ids = map lr_lease_id (filter (due t) (db_leases s)) \<and>
    db_leases s' = map (\<lambda>l. if due t l then l\<lparr>lr_status := Expired\<rparr> else l) (db_leases s) \<and>
    (\<forall>l \<in> set (db_leases s'). \<not> due t l) \<and> s' = s\<lparr>db_leases := db_leases s'\<rparr>"
proof -
  from expire_due_Inr [OF r] obtain p where
      p: "\<forall>l \<in> set (db_leases s). p l \<longleftrightarrow> lr_lease_id l \<in> lr_lease_id ` {x \<in> set (db_leases s). due t x}"
    and u: "update_leases p (\<lambda>l. l\<lparr>lr_status := Expired\<rparr>) s = Inr s'"
    and ids: "ids = map lr_lease_id (filter p (db_leases s))" by blast
  have pd: "p l = due t l" if "l \<in> set (db_leases s)" for l using p that due_ids [OF ok that] by blast
  have db: "db_leases s' = map (\<lambda>l. if due t l then l\<lparr>lr_status := Expired\<rparr> else l) (db_leases s)"
    using u pd by (simp add: update_leases_Inr update_where_def)
  have f: "filter p (db_leases s) = filter (due t) (db_leases s)" by (rule filter_cong) (auto simp: pd)
  have n: "\<forall>l \<in> set (db_leases s'). \<not> due t l" unfolding db by (auto simp: due_def)
  show ?thesis by (intro conjI db n update_leases_frame [OF u]) (simp add: ids f)
qed

theorem expire_due_exact_witness:
  "filter (due 50) (db_leases (snd sample_run2)) = []"
proof -
  have "lease_ok (8, snd sample_run)" using sample_run_ok by (simp add: sample_run_def)
  from expire_due_exact [OF this sample_expired, THEN conjunct2, THEN conjunct2, THEN conjunct1]
  show ?thesis unfolding filter_empty_conv .
qed


text \<open>
  A reservation expires nothing: a due lease that was not swept still blocks its worktree (the
  docstring of \<open>reserve_attempt_lease\<close> says that due leases are expired first).
\<close>

lemma due_lease_blocks:
  assumes "reserve_authority H job tok agent runner host wt ttl s = Inr (token, n, policy, resource)"
    "job_attempt_lease s job token = None"
    "find_active_resource_lease H s (compute_resource_key H resource) = Inr (Some a)" "lr_expires_at a \<le> t1"
  shows "reserve_attempt_lease H uuid t1 t2 job tok agent runner host wt ttl s = raise LeaseErr ''resource blocked by due lease''"
  using assms by (simp add: reserve_attempt_lease_def)

section \<open>Errors\<close>

lemma update_leases_total:
  assumes "\<And>l. l \<in> set (db_leases s) \<Longrightarrow> p l \<Longrightarrow> lease_checks (f l)"
  shows "errs c (update_leases p f s)"
  using assms by (auto simp: update_leases_def list_all_iff)

lemma errs_renew:
  assumes ok: "lease_ok (now, s)" and t: "now \<le> t1" "t1 \<le> t2"
  shows "errs LeaseErr (renew_attempt_lease H t1 t2 lid job tok agent ttl s)"
  unfolding renew_attempt_lease_def Let_def
proof (intro errs_intros)
  fix n l assume r: "require_active_unexpired_lease H t1 s lid job tok agent = Inr l"
  show "errs LeaseErr (update_leases (\<lambda>x. lr_lease_id x = lr_lease_id l) (\<lambda>l. l\<lparr>lr_renewed_at := t2, lr_expires_at := t2 + nat n\<rparr>) s)"
  proof (rule update_leases_total)
    fix x assume x: "x \<in> set (db_leases s)" "lr_lease_id x = lr_lease_id l"
    from r obtain i where q: "find_lease s i = Some l" "lr_status l = Active" unfolding require_lease_Inr by blast
    have "lease_inv now s" using ok by (simp add: lease_ok_def)
    then have "x = l" using unique_lease_id [OF _ q(1) x(1)] x(2) find_lease_in [OF q(1)] by simp
    with x q lease_inv_row [OF ok x(1)] t
    show "lease_checks (x\<lparr>lr_renewed_at := t2, lr_expires_at := t2 + nat n\<rparr>)"
      by (intro lease_checks_updates(1)) auto
  qed
qed

lemma errs_update_by_tuple:
  assumes "lease_ok (now, s)" "lease_of_tuple H s i job token agent = Inr l" "lease_checks (f l)"
  shows "errs c (update_leases (\<lambda>x. lr_lease_id x = i) f s)"
proof (rule update_leases_total)
  fix x assume x: "x \<in> set (db_leases s)" "lr_lease_id x = i"
  have "lease_inv now s" "find_lease s i = Some l" using assms(1,2) by (simp_all add: lease_ok_def lease_of_tuple_Inr)
  then show "lease_checks (f x)" using unique_lease_id [OF _ _ x] assms(3) by simp
qed

lemma lease_of_tuple_row:
  assumes "lease_ok (now, s)" "lease_of_tuple H s i job token agent = Inr l"
  shows "lease_checks l \<and> lr_acquired_at l \<le> now"
  using lease_inv_row [OF assms(1)] assms(2) by (auto simp: lease_of_tuple_Inr dest: find_lease_in)

lemma errs_release:
  assumes ok: "lease_ok (now, s)" and t: "now \<le> t1"
  shows "errs LeaseErr (release_attempt_lease H t1 lid job tok agent reason s)"
  unfolding release_attempt_lease_def release_attempt_lease_from_def Let_def
proof (intro errs_intros)
  fix i z token l assume a: "validate_release_reason reason = Inr z" "lease_of_tuple H s i job token agent = Inr l"
  show "errs LeaseErr (update_leases (\<lambda>x. lr_lease_id x = i)
      (\<lambda>l. l\<lparr>lr_status := Released, lr_released_at := Some t1, lr_release_reason := Some z\<rparr>) s)"
    using lease_of_tuple_row [OF ok a(2)] t a(1)
    by (intro errs_update_by_tuple [OF ok a(2)] lease_checks_updates(4)) (auto simp: validate_release_reason_Inr)
qed

lemma errs_expire:
  assumes ok: "lease_ok (now, s)"
  shows "errs LeaseErr (expire_attempt_lease H lid job tok agent s)"
  unfolding expire_attempt_lease_def Let_def
proof (intro errs_intros)
  fix i token l
  assume a: "lease_of_tuple H s i job token agent = Inr l" "lr_status l \<noteq> Expired" "lr_status l \<noteq> Released"
  then have "lr_status l = Active" by (cases "lr_status l") auto
  then show "errs LeaseErr (update_leases (\<lambda>x. lr_lease_id x = i) (\<lambda>l. l\<lparr>lr_status := Expired\<rparr>) s)"
    using lease_of_tuple_row [OF ok a(1)] by (intro errs_update_by_tuple [OF ok a(1)] lease_checks_updates(2)) auto
qed

lemma errs_expire_due:
  assumes ok: "lease_ok (now, s)"
  shows "errs LeaseErr (expire_due_attempt_leases H t s)"
  unfolding expire_due_attempt_leases_def
proof (intro errs_intros)
  fix rows ids
  assume i: "rows = filter (\<lambda>l. lr_status l = Active \<and> lr_expires_at l \<le> t) (db_leases s)" "ids = map lr_lease_id rows"
  show "errs LeaseErr (update_leases (\<lambda>l. List.member ids (lr_lease_id l)) (\<lambda>l. l\<lparr>lr_status := Expired\<rparr>) s)"
  proof (rule update_leases_total)
    fix x assume x: "x \<in> set (db_leases s)" "List.member ids (lr_lease_id x)"
    have "due t x" using due_ids [OF ok x(1), of t] x(2) i by (auto simp: due_def)
    then show "lease_checks (x\<lparr>lr_status := Expired\<rparr>)"
      using lease_inv_row [OF ok x(1)] by (intro lease_checks_updates(2)) (auto simp: due_def)
  qed
qed


lemma errs_reserve:
  assumes h: "hexdigest_shape H" and u: "uuid \<notin> lr_lease_id ` set (db_leases s)"
    and p: "\<forall>q \<in> set (db_capacity s). policy_wf q"
  shows "errs LeaseErr (reserve_attempt_lease H uuid t1 t2 job tok agent runner host wt ttl s)"
  unfolding reserve_attempt_lease_def
proof (intro errs_intros)
  fix x :: "int \<times> int \<times> capacity_row \<times> worktree_resource" and token z n y policy r k a c l
  assume e: "reserve_authority H job tok agent runner host wt ttl s = Inr x" "x = (token, z)" "z = (n, y)" "y = (policy, r)"
    "k = compute_resource_key H r" "job_attempt_lease s job token = None"
    "find_active_resource_lease H s k = Inr a" "a = None"
    "count_active_leases_for_agent H t2 s agent = Inr c" "\<not> cp_max_concurrent_jobs policy \<le> int c"
    "get_agent s agent \<noteq> None" "get_runner_profile s runner \<noteq> None"
    and l: "l = \<lparr>lr_lease_id = uuid, lr_job_id = job, lr_attempt_token = token, lr_agent_id = agent,
       lr_runner_profile_id = runner, lr_host_id = host, lr_resource_kind = ''worktree'', lr_resource_key = k,
       lr_normalized_path = wr_normalized_path r, lr_capacity_policy_id = cp_capacity_policy_id policy,
       lr_max_concurrent_jobs = cp_max_concurrent_jobs policy, lr_status = Active, lr_acquired_at = t1,
       lr_renewed_at = t1, lr_expires_at = t1 + nat n, lr_released_at = None, lr_release_reason = None\<rparr>"
  from e(1-4) have au: "reserve_authority H job tok agent runner host wt ttl s = Inr (token, n, policy, r)" by simp
  note au' = reserve_authority_Inr [OF au]
  from au' have b: "resolve_capacity_policy s agent = Some policy" "build_worktree_resource host wt = Inr r" by blast+
  have f: "fresh_lease H uuid t1 t2 job token agent runner host wt n s l"
    unfolding fresh_lease_def
    using b e(6) e(7) [unfolded e(8) find_active_None] count_Inr [OF e(9)] e(10) l e(5)
    by (intro exI [of _ policy] exI [of _ r]) (simp add: zless_nat_eq_int_zless)
  have "policy_wf q" if "resolve_capacity_policy s agent = Some q" for q
    using that p by (auto simp: resolve_capacity_policy_def get_capacity_policy_def dest: find_Some_in)
  moreover have "find_job s job \<noteq> None" "0 < token" using au' by auto
  ultimately have "is_ok (insert_lease l s)" using fresh_lease_inserts [OF h f u _ e(11,12)] by blast
  then show "errs LeaseErr (insert_lease l s)" by (auto simp: is_ok_iff)
qed

text \<open>
  C27: in a reachable state every refusal of a lease operation is a \<open>LeaseError\<close> of its own: with a
  clock that does not go back, a fresh identifier and stored policies within their bounds, no call of
  a reservation, renewal, release, expiry or sweep ends in a violated constraint of the table.
\<close>

theorem lease_errors:
  assumes "lease_ok (now, s)" "now \<le> t1" "t1 \<le> t2"
    and "hexdigest_shape H" "uuid \<notin> lr_lease_id ` set (db_leases s)" "\<forall>p \<in> set (db_capacity s). policy_wf p"
  shows "errs LeaseErr (reserve_attempt_lease H uuid t1 t2 job tok agent runner host wt ttl s) \<and>
    errs LeaseErr (renew_attempt_lease H t1 t2 lid job' tok' agent' ttl' s) \<and>
    errs LeaseErr (release_attempt_lease H t1 lid job' tok' agent' reason s) \<and>
    errs LeaseErr (expire_attempt_lease H lid job' tok' agent' s) \<and>
    errs LeaseErr (expire_due_attempt_leases H due_before s)"
  by (intro conjI errs_reserve [OF assms(4-6)] errs_renew [OF assms(1-3)] errs_release [OF assms(1,2)]
    errs_expire [OF assms(1)] errs_expire_due [OF assms(1)])

theorem lease_errors_witness:
  "errs LeaseErr (release_attempt_lease ctx_H 20 (PyStr ''l1'') ''j1'' (PyInt 2) ''a1'' (PyStr ''x'') (snd sample_run))"
proof -
  have 1: "lease_ok (8, snd sample_run)" using sample_run_ok by (simp add: sample_run_def)
  have 2: "''l2'' \<notin> lr_lease_id ` set (db_leases (snd sample_run))" by (simp add: sample_run_def sample_row_def)
  have 3: "\<forall>p \<in> set (db_capacity (snd sample_run)). policy_wf p"
    by (simp add: sample_run_def sample_db_def sample_policy_def policy_wf_def sha256_check_def sha256_prefix_def)
  have 5: "(8::nat) \<le> 20" "(20::nat) \<le> 20" by simp_all
  show ?thesis by (rule lease_errors [OF 1 5 ctx_H_shape 2 3, THEN conjunct2, THEN conjunct2, THEN conjunct1])
qed

section \<open>Refinement of a lock table\<close>

text \<open>
  The specification: a map from worktrees to the identifier of the lease that holds them. A
  step takes one free worktree, or frees some.
\<close>

inductive lock_step :: "(string \<rightharpoonup> string) \<Rightarrow> (string \<rightharpoonup> string) \<Rightarrow> bool" where
  take_lock: "m k = None \<Longrightarrow> lock_step m (m(k \<mapsto> i))"
| free_locks: "lock_step m (\<lambda>k. if k \<in> K then None else m k)"

definition holder :: "db \<Rightarrow> string \<rightharpoonup> string" where
  "holder s k = map_option lr_lease_id (find (\<lambda>l. lr_resource_key l = k \<and> lr_status l = Active) (db_leases s))"

lemma holder_append:
  "db_leases s' = db_leases s @ [l] \<Longrightarrow> lr_status l = Active \<Longrightarrow>
    (\<forall>x \<in> set (db_leases s). lr_resource_key x = lr_resource_key l \<longrightarrow> lr_status x \<noteq> Active) \<Longrightarrow>
    holder s (lr_resource_key l) = None \<and> holder s' = (holder s)(lr_resource_key l \<mapsto> lr_lease_id l)"
proof -
  assume a: "db_leases s' = db_leases s @ [l]" "lr_status l = Active"
    and f: "\<forall>x \<in> set (db_leases s). lr_resource_key x = lr_resource_key l \<longrightarrow> lr_status x \<noteq> Active"
  have n: "find (\<lambda>x. lr_resource_key x = lr_resource_key l \<and> lr_status x = Active) (db_leases s) = None"
    using f by (auto simp: find_None_notin)
  show ?thesis
    by (auto simp: holder_def a find_append n fun_eq_iff split: option.splits)
qed

lemma holder_update:
  assumes inv: "lease_inv now s" and u: "update_leases p f s = Inr s'" and t: "tame f"
  shows "\<exists>K. holder s' = (\<lambda>k. if k \<in> K then None else holder s k)"
proof -
  let ?K = "{k. holder s' k = None}"
  have "holder s' k = holder s k" if "holder s' k \<noteq> None" for k
  proof -
    from that obtain l where l: "find (\<lambda>l. lr_resource_key l = k \<and> lr_status l = Active) (db_leases s') = Some l"
      and h: "holder s' k = Some (lr_lease_id l)" unfolding holder_def by auto
    from find_Some_in [OF l] u obtain x where x: "x \<in> set (db_leases s)" "l = (if p x then f x else x)"
        "lr_resource_key l = k" "lr_status l = Active" by (auto simp: update_leases_Inr in_update_where)
    have "lr_resource_key x = k" "lr_status x = Active" "lr_lease_id x = lr_lease_id l"
      using t x unfolding tame_def by (auto split: if_splits)
    moreover have "find (\<lambda>l. lr_resource_key l = k \<and> lr_status l = Active) (db_leases s) = Some x"
    proof -
      have "find (\<lambda>l. lr_resource_key l = k \<and> lr_status l = Active) (db_leases s) \<noteq> None"
        using calculation x(1) by (auto simp: find_None_notin)
      then obtain y where y: "find (\<lambda>l. lr_resource_key l = k \<and> lr_status l = Active) (db_leases s) = Some y" by auto
      from find_Some_in [OF y] calculation x(1) inv have "y = x" unfolding lease_inv_def by metis
      with y show ?thesis by simp
    qed
    ultimately show ?thesis by (simp add: holder_def h [unfolded holder_def] h)
  qed
  then show ?thesis by (intro exI [of _ ?K]) (auto simp: fun_eq_iff)
qed


lemma reserve_locks:
  assumes "reserve_attempt_lease H uuid t1 t2 job tok agent runner host wt ttl s = Inr ((x, r), s')"
  shows "holder s' = holder s \<or> (\<exists>k. holder s k = None \<and> holder s' = (holder s)(k \<mapsto> lr_lease_id x))"
proof -
  consider "s' = s" | token n where "insert_lease x s = Inr s'" "fresh_lease H uuid t1 t2 job token agent runner host wt n s x"
    using reserve_cases [OF assms] by blast
  then show ?thesis
  proof cases
    case 2
    then have "db_leases s' = db_leases s @ [x]" "lr_status x = Active"
      "\<forall>y \<in> set (db_leases s). lr_resource_key y = lr_resource_key x \<longrightarrow> lr_status y \<noteq> Active"
      by (auto simp: insert_lease_Inr fresh_lease_def)
    from holder_append [OF this] show ?thesis by blast
  qed simp
qed

lemma frees_locks:
  assumes "lease_inv now s" "s' = s \<or> update_leases p f s = Inr s' \<and> tame f"
  shows "lock_step (holder s) (holder s')"
proof -
  have "\<exists>K. holder s' = (\<lambda>k. if k \<in> K then None else holder s k)"
    using assms(2)
  proof
    assume "s' = s" then show ?thesis by (intro exI [of _ "{}"]) simp
  next
    assume "update_leases p f s = Inr s' \<and> tame f" then show ?thesis using holder_update [OF assms(1)] by blast
  qed
  then show ?thesis by (auto intro: free_locks)
qed

lemma lease_step_locks: "lease_step H x y \<Longrightarrow> lease_ok x \<Longrightarrow> lock_step (holder (snd x)) (holder (snd y))"
proof (induction rule: lease_step.induct)
  case (reserve now t1 t2 uuid job tok agent runner host wt ttl s l r s')
  from frees_locks [of now s s] reserve.prems have "lock_step (holder s) (holder s)" by (simp add: lease_ok_def)
  with reserve_locks [OF reserve.hyps(3)] show ?case by (metis take_lock snd_conv)
next
  case (renew now t1 t2 lid job tok agent ttl s l s')
  then show ?case using frees_locks [of now s s'] unfolding renew_Inr lease_ok_def by fastforce
next
  case (release now t1 lid job tok agent reason s l s')
  then show ?case using release_Inr [OF release.hyps(2)] frees_locks [of now s s'] unfolding lease_ok_def by fastforce
next
  case (expire lid job tok agent s l s' now)
  then show ?case using expire_Inr [OF expire.hyps(1)] frees_locks [of now s s'] unfolding lease_ok_def by fastforce
next
  case (expire_due now t1 d s ids s')
  then show ?case using expire_due_Inr [OF expire_due.hyps(3)] frees_locks [of now s s'] unfolding lease_ok_def by fastforce
qed

interpretation lease_locks: refined_system lease_start "lease_step H" lease_ok "\<lambda>x. holder (snd x)" lock_step for H
  by unfold_locales (rule lease_step_locks)

text \<open>
  C17: the lease operations refine a lock table: seen as the map from worktrees to the lease
  that holds each of them, any run of the operations is a run of steps that take a free worktree or
  free some, so a worktree never passes from one holder to another without becoming free.
\<close>

theorem leases_refine_locks:
  assumes "lease_start x" "(lease_step H)\<^sup>*\<^sup>* x (now, s)"
  shows "lock_step\<^sup>*\<^sup>* (holder (snd x)) (holder s) \<and>
    (lease_step H (now, s) (now', s') \<longrightarrow> holder s k = Some i \<longrightarrow> holder s' k \<in> {Some i, None})"
proof -
  have ok: "lease_ok x" "lease_ok (now, s)"
    using lease_machine.inv_start [OF assms(1)] lease_machine.inv_reachable [OF assms] by auto
  have "lock_step\<^sup>*\<^sup>* (holder (snd x)) (holder s)" using lease_locks.run_simulates [OF assms(2) ok(1)] by simp
  moreover have "holder s' k \<in> {Some i, None}" if "lease_step H (now, s) (now', s')" "holder s k = Some i"
    using lease_step_locks [OF that(1) ok(2)] that(2) by (auto elim!: lock_step.cases split: if_splits)
  ultimately show ?thesis by blast
qed

theorem leases_refine_locks_witness:
  "lock_step\<^sup>*\<^sup>* (holder sample_db) (holder (snd sample_run)) \<and> holder (snd sample_run) (lr_resource_key sample_row) = Some ''l1''"
proof -
  have "(lease_step ctx_H)\<^sup>*\<^sup>* (0, sample_db) (8, snd sample_run)"
    using sample_step by (simp add: sample_run_def r_into_rtranclp)
  from leases_refine_locks [OF sample_start this] show ?thesis by (simp add: sample_run_def holder_def sample_row_def)
qed

end
