(* ===== verification/Bindings.thy ===== *)
theory Bindings
  imports Store
begin

text \<open>
  The channel bindings of \<^verbatim>\<open>src/coordinate/db.py\<close>: which workspace a Discord or Kook channel
  belongs to. A mutation writes its audit event and the active row in one savepoint. What it
  reads before the savepoint it reads in an earlier transaction, so \<open>bind_channel_workspace\<close>
  and \<open>release_channel_workspace\<close> take two databases: \<open>s0\<close>, which their checks read, and \<open>s\<close>,
  which they write; another connection may have changed anything in between. The arguments are
  strings, or \<open>None\<close>.
\<close>

section \<open>Keys\<close>

definition CHANNEL_BINDING_PLATFORMS :: "string list" where
  "CHANNEL_BINDING_PLATFORMS = [''discord'', ''kook'']"

definition CHANNEL_BINDING_MAX_CODE_POINTS :: nat where
  "CHANNEL_BINDING_MAX_CODE_POINTS = 128"

definition BOUND_EVENT :: string where "BOUND_EVENT = ''channel.binding.bound''"
definition RELEASED_EVENT :: string where "RELEASED_EVENT = ''channel.binding.released''"

definition normalize_channel_platform :: "string \<Rightarrow> string result" where
  "normalize_channel_platform value =
     (let platform = lower (strip value)
      in if \<not> List.member CHANNEL_BINDING_PLATFORMS platform then raise ValueErr ''invalid platform''
         else Inr platform)"

definition normalize_channel_id :: "string \<Rightarrow> string result" where
  "normalize_channel_id c =
     (if c = [] then raise ValueErr ''channel_id is required''
      else if c \<noteq> strip c then raise ValueErr ''channel_id must not have leading/trailing whitespace''
      else if length c > CHANNEL_BINDING_MAX_CODE_POINTS then raise ValueErr ''channel_id exceeds code points''
      else if has_control c then raise ValueErr ''channel_id must not contain control characters''
      else Inr c)"

definition canonical_channel_target :: "string \<Rightarrow> string \<Rightarrow> string" where
  "canonical_channel_target platform channel_id = platform @ '':'' @ channel_id"

definition require_non_empty :: "string option \<Rightarrow> string result" where
  "require_non_empty v =
     (let text = (case v of None \<Rightarrow> [] | Some x \<Rightarrow> strip x)
      in if text = [] then raise ValueErr ''field is required'' else Inr text)"

section \<open>Reads\<close>

definition get_channel_binding_row :: "db \<Rightarrow> string \<Rightarrow> string \<Rightarrow> binding_row option" where
  "get_channel_binding_row s platform channel_id =
     find (\<lambda>b. cb_platform b = platform \<and> cb_channel_id b = channel_id) (db_bindings s)"

definition resolve_channel_workspace :: "db \<Rightarrow> string \<Rightarrow> string \<Rightarrow> binding_row option result" where
  "resolve_channel_workspace s platform channel_id =
     bindE (normalize_channel_platform platform) (\<lambda>p.
     bindE (normalize_channel_id channel_id) (\<lambda>c. Inr (get_channel_binding_row s p c)))"

definition list_channel_bindings :: "db \<Rightarrow> string option \<Rightarrow> string option \<Rightarrow> binding_row list result" where
  "list_channel_bindings s platform workspace_id =
     bindE (case platform of None \<Rightarrow> Inr None | Some p \<Rightarrow> bindE (normalize_channel_platform p) (\<lambda>x. Inr (Some x))) (\<lambda>p.
     bindE (case workspace_id of None \<Rightarrow> Inr None | Some w \<Rightarrow> bindE (require_non_empty (Some w)) (\<lambda>x. Inr (Some x))) (\<lambda>w.
       Inr (sort_key (\<lambda>b. (cb_platform b, cb_channel_id b))
         (filter (\<lambda>b. (p = None \<or> p = Some (cb_platform b)) \<and> (w = None \<or> w = Some (cb_workspace_id b)))
            (db_bindings s)))))"

section \<open>Mutations\<close>

text \<open>The arguments of both mutations, and what their checks make of them.\<close>

record binding_request =
  bq_platform :: string
  bq_channel_id :: string
  bq_workspace_id :: "string option"
  bq_actor :: "string option"
  bq_reason :: "string option"
  bq_idempotency_key :: "string option"

record binding_plan =
  bp_platform :: string
  bp_channel_id :: string
  bp_workspace_id :: string
  bp_actor :: string
  bp_reason :: string
  bp_key :: string

datatype binding_status = Bound | AlreadyBound | Replayed | ReleasedChannel | AlreadyUnbound

record binding_receipt =
  rc_platform :: string
  rc_channel_id :: string
  rc_workspace_id :: string
  rc_target :: string
  rc_idempotency_key :: string
  rc_status :: binding_status
  rc_event_id :: "string option"

definition binding_arguments :: "db \<Rightarrow> binding_request \<Rightarrow> binding_plan result" where
  "binding_arguments s q =
     bindE (normalize_channel_platform (bq_platform q)) (\<lambda>p.
     bindE (normalize_channel_id (bq_channel_id q)) (\<lambda>c.
     bindE (require_non_empty (bq_workspace_id q)) (\<lambda>ws.
     bindE (require_non_empty (bq_actor q)) (\<lambda>actor.
     bindE (require_non_empty (bq_reason q)) (\<lambda>reason.
     bindE (require_non_empty (bq_idempotency_key q)) (\<lambda>key.
       if get_workspace s ws = None then raise ValueErr ''unknown workspace''
       else Inr \<lparr>bp_platform = p, bp_channel_id = c, bp_workspace_id = ws, bp_actor = actor,
                 bp_reason = reason, bp_key = key\<rparr>))))))"

definition plan_target :: "binding_plan \<Rightarrow> string" where
  "plan_target p = canonical_channel_target (bp_platform p) (bp_channel_id p)"

definition plan_payload :: "binding_plan \<Rightarrow> pyval" where
  "plan_payload p = PyDict [(''platform'', PyStr (bp_platform p)), (''channel_id'', PyStr (bp_channel_id p)),
     (''workspace_id'', PyStr (bp_workspace_id p)), (''reason'', PyStr (bp_reason p))]"

definition receipt_of :: "binding_plan \<Rightarrow> binding_status \<Rightarrow> string option \<Rightarrow> binding_receipt" where
  "receipt_of p status event_id =
     \<lparr>rc_platform = bp_platform p, rc_channel_id = bp_channel_id p, rc_workspace_id = bp_workspace_id p,
      rc_target = plan_target p, rc_idempotency_key = bp_key p, rc_status = status, rc_event_id = event_id\<rparr>"

definition plan_event :: "binding_plan \<Rightarrow> string \<Rightarrow> new_event" where
  "plan_event p event_type =
     \<lparr>ne_event_type = event_type, ne_actor = bp_actor p, ne_workspace_id = Some (bp_workspace_id p),
      ne_target = Some (plan_target p), ne_task_id = None, ne_causation_id = None, ne_payload = plan_payload p\<rparr>"

definition assert_channel_binding_event_matches :: "event_row \<Rightarrow> string \<Rightarrow> binding_plan \<Rightarrow> unit result" where
  "assert_channel_binding_event_matches e event_type p =
     (if ev_event_type e = event_type \<and> ev_workspace_id e = Some (bp_workspace_id p) \<and>
         ev_target e = Some (plan_target p) \<and> json (ev_payload e) = json (json_col (plan_payload p))
      then Inr () else raise ValueErr ''idempotency key conflict'')"

definition check_channel_binding_idempotency :: "db \<Rightarrow> string \<Rightarrow> binding_plan \<Rightarrow> event_row option result" where
  "check_channel_binding_idempotency s event_type p =
     (case get_event_by_idempotency_key s (bp_key p) of
        None \<Rightarrow> Inr None
      | Some e \<Rightarrow> bindE (assert_channel_binding_event_matches e event_type p) (\<lambda>_. Inr (Some e)))"

text \<open>What a mutation answers before it opens its savepoint, if it answers.\<close>

definition bind_precheck :: "db \<Rightarrow> binding_plan \<Rightarrow> binding_receipt option result" where
  "bind_precheck s p =
     bindE (check_channel_binding_idempotency s BOUND_EVENT p) (\<lambda>prior.
       case prior of
         Some e \<Rightarrow> Inr (Some (receipt_of p Replayed (Some (ev_id e))))
       | None \<Rightarrow>
           (case get_channel_binding_row s (bp_platform p) (bp_channel_id p) of
              None \<Rightarrow> Inr None
            | Some b \<Rightarrow>
                if cb_workspace_id b = bp_workspace_id p then Inr (Some (receipt_of p AlreadyBound None))
                else raise ValueErr ''channel is already bound to another workspace''))"

definition release_precheck :: "db \<Rightarrow> binding_plan \<Rightarrow> binding_receipt option result" where
  "release_precheck s p =
     bindE (check_channel_binding_idempotency s RELEASED_EVENT p) (\<lambda>prior.
       case prior of
         Some e \<Rightarrow> Inr (Some (receipt_of p Replayed (Some (ev_id e))))
       | None \<Rightarrow>
           (case get_channel_binding_row s (bp_platform p) (bp_channel_id p) of
              None \<Rightarrow> Inr (Some (receipt_of p AlreadyUnbound None))
            | Some b \<Rightarrow>
                if cb_workspace_id b \<noteq> bp_workspace_id p then
                  raise ValueErr ''channel is bound to another workspace''
                else Inr None))"

text \<open>The INSERT with its primary key and the foreign key; the DELETE with its row count.\<close>

definition insert_binding :: "binding_row \<Rightarrow> db \<Rightarrow> db result" where
  "insert_binding b s =
     (if get_channel_binding_row s (cb_platform b) (cb_channel_id b) \<noteq> None then
        raise IntegrityErr ''channel_bindings primary key''
      else if \<not> workspace_exists s (cb_workspace_id b) then raise IntegrityErr ''FOREIGN KEY''
      else Inr (s\<lparr>db_bindings := db_bindings s @ [b]\<rparr>))"

definition delete_binding :: "string \<Rightarrow> string \<Rightarrow> string \<Rightarrow> db \<Rightarrow> db result" where
  "delete_binding platform channel_id ws s =
     (let p = (\<lambda>b. cb_platform b = platform \<and> cb_channel_id b = channel_id \<and> cb_workspace_id b = ws)
      in if rowcount p (db_bindings s) \<noteq> 1 then raise ValueErr ''active row changed concurrently''
         else Inr (s\<lparr>db_bindings := filter (\<lambda>b. \<not> p b) (db_bindings s)\<rparr>))"

text \<open>The savepoint of a mutation: the audit event, then the row unless the key was used meanwhile.\<close>

definition binding_savepoint ::
  "string \<Rightarrow> timestamp \<Rightarrow> string \<Rightarrow> binding_status \<Rightarrow> (db \<Rightarrow> db result) \<Rightarrow> binding_plan \<Rightarrow> db \<Rightarrow> (binding_receipt \<times> db) result" where
  "binding_savepoint uuid now event_type status change p s =
     bindE (append_event uuid now (Some (bp_key p)) (plan_event p event_type) s) (\<lambda>((e, created), s').
       if \<not> created then
         bindE (assert_channel_binding_event_matches e event_type p) (\<lambda>_.
           Inr (receipt_of p Replayed (Some (ev_id e)), s'))
       else bindE (change s') (\<lambda>s''. Inr (receipt_of p status (Some (ev_id e)), s'')))"

definition bind_channel_workspace ::
  "string \<Rightarrow> timestamp \<Rightarrow> timestamp \<Rightarrow> binding_request \<Rightarrow> db \<Rightarrow> db \<Rightarrow> (binding_receipt \<times> db) result" where
  "bind_channel_workspace uuid now now' q s0 s =
     bindE (binding_arguments s0 q) (\<lambda>p.
     bindE (bind_precheck s0 p) (\<lambda>answer.
       case answer of
         Some r \<Rightarrow> Inr (r, s)
       | None \<Rightarrow> binding_savepoint uuid now BOUND_EVENT Bound
           (insert_binding \<lparr>cb_platform = bp_platform p, cb_channel_id = bp_channel_id p,
              cb_workspace_id = bp_workspace_id p, cb_bound_at = now'\<rparr>) p s))"

definition release_channel_workspace ::
  "string \<Rightarrow> timestamp \<Rightarrow> binding_request \<Rightarrow> db \<Rightarrow> db \<Rightarrow> (binding_receipt \<times> db) result" where
  "release_channel_workspace uuid now q s0 s =
     bindE (binding_arguments s0 q) (\<lambda>p.
     bindE (release_precheck s0 p) (\<lambda>answer.
       case answer of
         Some r \<Rightarrow> Inr (r, s)
       | None \<Rightarrow> binding_savepoint uuid now RELEASED_EVENT ReleasedChannel
           (delete_binding (bp_platform p) (bp_channel_id p) (bp_workspace_id p)) p s))"


section \<open>The audit log determines the bindings\<close>

text \<open>
  The specification: the active binding of each channel is what a replay of the audit events
  says, the last \<open>bound\<close> not followed by a \<open>released\<close>.
\<close>

fun replay_event :: "(string \<rightharpoonup> string) \<Rightarrow> event_row \<Rightarrow> (string \<rightharpoonup> string)" where
  "replay_event m e =
     (case (ev_target e, ev_workspace_id e) of
        (Some t, Some w) \<Rightarrow>
          (if ev_event_type e = BOUND_EVENT then m(t \<mapsto> w)
           else if ev_event_type e = RELEASED_EVENT then m(t := None) else m)
      | _ \<Rightarrow> m)"

definition replay :: "event_row list \<Rightarrow> (string \<rightharpoonup> string)" where
  "replay es = foldl replay_event Map.empty es"

definition row_target :: "binding_row \<Rightarrow> string" where
  "row_target b = canonical_channel_target (cb_platform b) (cb_channel_id b)"

definition binding_map :: "db \<Rightarrow> (string \<rightharpoonup> string)" where
  "binding_map s t = map_option cb_workspace_id (find (\<lambda>b. row_target b = t) (db_bindings s))"

definition binding_inv :: "db \<Rightarrow> bool" where
  "binding_inv s \<longleftrightarrow> distinct (map row_target (db_bindings s)) \<and>
     (\<forall>b \<in> set (db_bindings s). cb_platform b \<in> set CHANNEL_BINDING_PLATFORMS) \<and>
     binding_map s = replay (db_events s)"

lemma canonical_target_inj:
  assumes "p \<in> set CHANNEL_BINDING_PLATFORMS" "q \<in> set CHANNEL_BINDING_PLATFORMS"
  shows "canonical_channel_target p c = canonical_channel_target q d \<longleftrightarrow> p = q \<and> c = d"
  using assms by (auto simp: canonical_channel_target_def CHANNEL_BINDING_PLATFORMS_def)

lemma replay_snoc: "replay (es @ [e]) = replay_event (replay es) e"
  by (simp add: replay_def)

lemma replay_other: "ev_event_type e \<noteq> BOUND_EVENT \<Longrightarrow> ev_event_type e \<noteq> RELEASED_EVENT \<Longrightarrow> replay (es @ [e]) = replay es"
  by (simp add: replay_snoc split: option.splits)

lemma event_types_differ [simp]: "BOUND_EVENT \<noteq> RELEASED_EVENT" "RELEASED_EVENT \<noteq> BOUND_EVENT"
  by (simp_all add: BOUND_EVENT_def RELEASED_EVENT_def)

lemma plan_event_replay:
  "replay (es @ [event_of u t k (plan_event p BOUND_EVENT)]) = (replay es)(plan_target p \<mapsto> bp_workspace_id p)"
  "replay (es @ [event_of u t k (plan_event p RELEASED_EVENT)]) = (replay es)(plan_target p := None)"
  by (simp_all add: replay_snoc event_of_def plan_event_def)

lemma binding_arguments_Inr:
  "binding_arguments s q = Inr p \<Longrightarrow> bp_platform p \<in> set CHANNEL_BINDING_PLATFORMS \<and>
     normalize_channel_platform (bq_platform q) = Inr (bp_platform p) \<and> normalize_channel_id (bq_channel_id q) = Inr (bp_channel_id p) \<and>
     require_non_empty (bq_workspace_id q) = Inr (bp_workspace_id p) \<and> require_non_empty (bq_idempotency_key q) = Inr (bp_key p) \<and>
     bp_key p \<noteq> []"
  by (auto simp: binding_arguments_def bindE_eq_Inr normalize_channel_platform_def require_non_empty_def Let_def split: if_splits)

text \<open>Under the invariant a row is found by its target.\<close>

lemma binding_row_target:
  assumes "binding_inv s" "p \<in> set CHANNEL_BINDING_PLATFORMS"
  shows "get_channel_binding_row s p c = find (\<lambda>b. row_target b = canonical_channel_target p c) (db_bindings s)"
  unfolding get_channel_binding_row_def
proof (rule find_cong)
  fix b assume "b \<in> set (db_bindings s)"
  with assms(1) have "cb_platform b \<in> set CHANNEL_BINDING_PLATFORMS" by (simp add: binding_inv_def)
  then show "(cb_platform b = p \<and> cb_channel_id b = c) = (row_target b = canonical_channel_target p c)"
    by (simp add: row_target_def canonical_target_inj [OF _ assms(2)])
qed simp

lemma insert_binding_map:
  assumes i: "binding_inv s" and p: "cb_platform b \<in> set CHANNEL_BINDING_PLATFORMS" and ins: "insert_binding b s' = Inr s''"
    and s': "db_bindings s' = db_bindings s"
  shows "binding_map s'' = (binding_map s)(row_target b \<mapsto> cb_workspace_id b) \<and> db_events s'' = db_events s' \<and>
    distinct (map row_target (db_bindings s'')) \<and> (\<forall>b \<in> set (db_bindings s''). cb_platform b \<in> set CHANNEL_BINDING_PLATFORMS)"
proof -
  have g: "get_channel_binding_row s (cb_platform b) (cb_channel_id b) = None"
    using ins s' by (auto simp: insert_binding_def get_channel_binding_row_def split: if_splits)
  have s'': "s'' = s'\<lparr>db_bindings := db_bindings s @ [b]\<rparr>" using ins s' by (auto simp: insert_binding_def split: if_splits)
  have n: "find (\<lambda>x. row_target x = row_target b) (db_bindings s) = None"
    using g unfolding binding_row_target [OF i p] row_target_def .
  have "distinct (map row_target (db_bindings s @ [b]))"
    using i n by (intro distinct_keys_append) (simp_all add: binding_inv_def)
  moreover have "binding_map s'' = (binding_map s)(row_target b \<mapsto> cb_workspace_id b)"
    using n by (auto simp: binding_map_def s'' find_append fun_eq_iff split: option.splits)
  ultimately show ?thesis using i p by (auto simp: s'' binding_inv_def)
qed

lemma find_filter_key:
  assumes "distinct (map key rows)" "\<And>r. r \<in> set rows \<Longrightarrow> p r \<longleftrightarrow> key r = k \<and> q r" "\<exists>r \<in> set rows. p r"
  shows "find (\<lambda>r. key r = x) (filter (\<lambda>r. \<not> p r) rows) = (if x = k then None else find (\<lambda>r. key r = x) rows)"
  using assms
proof (induction rows)
  case (Cons a rows)
  show ?case
  proof (cases "p a")
    case True
    with Cons.prems(1) Cons.prems(2) [of a] have k: "key a = k" "k \<notin> key ` set rows" by auto
    then have "\<not> p r" if "r \<in> set rows" for r
      using Cons.prems(2) [of r] that by (metis imageI list.set_intros(2))
    then have "filter (\<lambda>r. \<not> p r) rows = rows" by (simp add: filter_id_conv)
    moreover have "find (\<lambda>r. key r = k) rows = None" unfolding find_None_notin using k by (metis imageI)
    ultimately show ?thesis using True k(1) by auto
  next
    case False
    with Cons.prems(3) obtain r where r: "r \<in> set rows" "p r" by auto
    then have "key r = k" using Cons.prems(2) by simp
    moreover have "key a \<noteq> key r" using Cons.prems(1) r(1) by auto
    moreover have "find (\<lambda>r. key r = x) (filter (\<lambda>r. \<not> p r) rows) = (if x = k then None else find (\<lambda>r. key r = x) rows)"
      using Cons.prems r by (intro Cons.IH) auto
    ultimately show ?thesis using False by auto
  qed
qed simp

lemma delete_binding_map:
  assumes i: "binding_inv s" and p: "p \<in> set CHANNEL_BINDING_PLATFORMS" and del: "delete_binding p c ws s' = Inr s''"
    and s': "db_bindings s' = db_bindings s"
  shows "binding_map s'' = (binding_map s)(canonical_channel_target p c := None) \<and> db_events s'' = db_events s' \<and>
    distinct (map row_target (db_bindings s'')) \<and> (\<forall>b \<in> set (db_bindings s''). cb_platform b \<in> set CHANNEL_BINDING_PLATFORMS)"
proof -
  let ?p = "\<lambda>b. cb_platform b = p \<and> cb_channel_id b = c \<and> cb_workspace_id b = ws"
  have r: "rowcount ?p (db_bindings s) = 1" and s'': "s'' = s'\<lparr>db_bindings := filter (\<lambda>b. \<not> ?p b) (db_bindings s)\<rparr>"
    using del by (auto simp: delete_binding_def Let_def s' split: if_splits)
  have e: "\<exists>b \<in> set (db_bindings s). ?p b"
  proof (rule ccontr)
    assume "\<not> ?thesis"
    then have "rowcount ?p (db_bindings s) = 0" unfolding rowcount_0_iff by blast
    with r show False by simp
  qed
  have d: "distinct (map row_target (db_bindings s))" using i by (simp add: binding_inv_def)
  have k: "?p b \<longleftrightarrow> row_target b = canonical_channel_target p c \<and> cb_workspace_id b = ws" if "b \<in> set (db_bindings s)" for b
  proof -
    have "cb_platform b \<in> set CHANNEL_BINDING_PLATFORMS" using i that by (simp add: binding_inv_def)
    then show ?thesis by (auto simp: row_target_def canonical_target_inj [OF _ p])
  qed
  have "binding_map s'' = (binding_map s)(canonical_channel_target p c := None)"
    using find_filter_key [OF d k e] by (auto simp: binding_map_def s'' fun_eq_iff)
  moreover have "distinct (map row_target (filter (\<lambda>b. \<not> ?p b) (db_bindings s)))"
    using d by (rule distinct_map_filter)
  ultimately show ?thesis using i by (auto simp: s'' binding_inv_def)
qed

text \<open>What \<open>append_event\<close> does to the bindings.\<close>

lemma append_event_bindings:
  "append_event u t k a s = Inr ((e, c), s') \<Longrightarrow> db_bindings s' = db_bindings s"
  by (auto simp: append_event_cases)

lemma binding_map_cong: "db_bindings s' = db_bindings s \<Longrightarrow> binding_map s' = binding_map s"
  by (simp add: binding_map_def fun_eq_iff)

lemma binding_savepoint_cases:
  assumes "binding_savepoint u t et st change p s = Inr (r, s')"
  shows "(s' = s \<and> rc_status r = Replayed) \<or>
    (\<exists>s1. db_bindings s1 = db_bindings s \<and> r = receipt_of p st (Some u) \<and> change s1 = Inr s' \<and>
       db_workspaces s1 = db_workspaces s \<and>
       db_events s1 = db_events s @ [event_of u t (event_key u (Some (bp_key p))) (plan_event p et)])"
proof -
  from assms obtain e c s1 where a: "append_event u t (Some (bp_key p)) (plan_event p et) s = Inr ((e, c), s1)"
    unfolding binding_savepoint_def by auto
  note r = assms [unfolded binding_savepoint_def a bindE_simps prod.case]
  show ?thesis
  proof (cases c)
    case False
    with a r have "s1 = s" "s' = s1 \<and> rc_status r = Replayed" by (auto simp: append_event_cases receipt_of_def)
    then show ?thesis by simp
  next
    case True
    with append_event_created [of u t "Some (bp_key p)" "plan_event p et" s e s1] a
    have e: "e = event_of u t (event_key u (Some (bp_key p))) (plan_event p et)" "s1 = s\<lparr>db_events := db_events s @ [e]\<rparr>"
      by simp_all
    from True r have "change s1 = Inr s'" "r = receipt_of p st (Some (ev_id e))" by auto
    with e show ?thesis by (intro disjI2 exI [of _ s1]) simp
  qed
qed

lemma bind_cases:
  assumes "bind_channel_workspace u t t' q s0 s = Inr (r, s')"
  obtains p where "binding_arguments s0 q = Inr p" "s' = s" "bind_precheck s0 p = Inr (Some r)"
  | p where "binding_arguments s0 q = Inr p" "bind_precheck s0 p = Inr None"
    "binding_savepoint u t BOUND_EVENT Bound (insert_binding \<lparr>cb_platform = bp_platform p, cb_channel_id = bp_channel_id p,
       cb_workspace_id = bp_workspace_id p, cb_bound_at = t'\<rparr>) p s = Inr (r, s')"
proof -
  from assms obtain p ans where "binding_arguments s0 q = Inr p" "bind_precheck s0 p = Inr ans"
    unfolding bind_channel_workspace_def by auto
  with assms that show ?thesis by (cases ans) (auto simp: bind_channel_workspace_def)
qed

lemma release_cases:
  assumes "release_channel_workspace u t q s0 s = Inr (r, s')"
  obtains p where "binding_arguments s0 q = Inr p" "s' = s" "release_precheck s0 p = Inr (Some r)"
  | p where "binding_arguments s0 q = Inr p" "release_precheck s0 p = Inr None"
    "binding_savepoint u t RELEASED_EVENT ReleasedChannel
       (delete_binding (bp_platform p) (bp_channel_id p) (bp_workspace_id p)) p s = Inr (r, s')"
proof -
  from assms obtain p ans where "binding_arguments s0 q = Inr p" "release_precheck s0 p = Inr ans"
    unfolding release_channel_workspace_def by auto
  with assms that show ?thesis by (cases ans) (auto simp: release_channel_workspace_def)
qed

lemma bind_inv:
  assumes i: "binding_inv s" and b: "bind_channel_workspace u t t' q s0 s = Inr (r, s')"
  shows "binding_inv s'"
  using b
proof (cases rule: bind_cases)
  case (2 p)
  let ?b = "\<lparr>cb_platform = bp_platform p, cb_channel_id = bp_channel_id p, cb_workspace_id = bp_workspace_id p, cb_bound_at = t'\<rparr>"
  have pl: "cb_platform ?b \<in> set CHANNEL_BINDING_PLATFORMS" using binding_arguments_Inr [OF 2(1)] by simp
  have rt: "row_target ?b = plan_target p" by (simp add: row_target_def plan_target_def)
  from binding_savepoint_cases [OF 2(3)] show ?thesis
  proof
    assume "\<exists>s1. db_bindings s1 = db_bindings s \<and> r = receipt_of p Bound (Some u) \<and> insert_binding ?b s1 = Inr s' \<and>
       db_workspaces s1 = db_workspaces s \<and>
       db_events s1 = db_events s @ [event_of u t (event_key u (Some (bp_key p))) (plan_event p BOUND_EVENT)]"
    then obtain s1 where s1: "db_bindings s1 = db_bindings s" "insert_binding ?b s1 = Inr s'"
        "db_events s1 = db_events s @ [event_of u t (event_key u (Some (bp_key p))) (plan_event p BOUND_EVENT)]" by blast
    from insert_binding_map [OF i pl s1(2,1)] i show ?thesis
      by (simp add: binding_inv_def s1(3) plan_event_replay rt)
  qed (use i in simp)
qed (use i in simp)

lemma release_inv:
  assumes i: "binding_inv s" and b: "release_channel_workspace u t q s0 s = Inr (r, s')"
  shows "binding_inv s'"
  using b
proof (cases rule: release_cases)
  case (2 p)
  have pl: "bp_platform p \<in> set CHANNEL_BINDING_PLATFORMS" using binding_arguments_Inr [OF 2(1)] by simp
  let ?del = "delete_binding (bp_platform p) (bp_channel_id p) (bp_workspace_id p)"
  from binding_savepoint_cases [OF 2(3)] show ?thesis
  proof
    assume "\<exists>s1. db_bindings s1 = db_bindings s \<and> r = receipt_of p ReleasedChannel (Some u) \<and> ?del s1 = Inr s' \<and>
       db_workspaces s1 = db_workspaces s \<and>
       db_events s1 = db_events s @ [event_of u t (event_key u (Some (bp_key p))) (plan_event p RELEASED_EVENT)]"
    then obtain s1 where s1: "db_bindings s1 = db_bindings s" "?del s1 = Inr s'"
        "db_events s1 = db_events s @ [event_of u t (event_key u (Some (bp_key p))) (plan_event p RELEASED_EVENT)]" by blast
    from delete_binding_map [OF i pl s1(2,1)] i show ?thesis
      by (simp add: binding_inv_def s1(3) plan_event_replay plan_target_def)
  qed (use i in simp)
qed (use i in simp)

text \<open>
  A step of the database: a mutation whose checks read any earlier database, or an append of
  any event of another type.
\<close>

inductive binding_step :: "db \<Rightarrow> db \<Rightarrow> bool" where
  bind: "bind_channel_workspace u t t' q s0 s = Inr (r, s') \<Longrightarrow> binding_step s s'"
| release: "release_channel_workspace u t q s0 s = Inr (r, s') \<Longrightarrow> binding_step s s'"
| append: "append_event u t k a s = Inr ((e, c), s') \<Longrightarrow>
    ne_event_type a \<noteq> BOUND_EVENT \<Longrightarrow> ne_event_type a \<noteq> RELEASED_EVENT \<Longrightarrow> binding_step s s'"

lemma binding_step_inv: "binding_step s s' \<Longrightarrow> binding_inv s \<Longrightarrow> binding_inv s'"
proof (induction rule: binding_step.induct)
  case (append u t k a s e c s')
  have "replay (db_events s') = replay (db_events s)"
  proof (cases c)
    case True
    with append_event_created [of u t k a s e s'] append have "e = event_of u t (event_key u k) a" "db_events s' = db_events s @ [e]"
      by simp_all
    with append show ?thesis by (simp add: replay_other)
  qed (use append(1) in \<open>simp add: append_event_cases\<close>)
  moreover have "db_bindings s' = db_bindings s" using append(1) by (rule append_event_bindings)
  moreover from calculation have "binding_map s' = binding_map s" by (intro binding_map_cong)
  ultimately show ?case using append(4) unfolding binding_inv_def by metis
next
  case (bind u t t' q s0 s r s')
  from bind_inv [OF bind(2,1)] show ?case .
next
  case (release u t q s0 s r s')
  from release_inv [OF release(2,1)] show ?case .
qed

definition binding_start :: "db \<Rightarrow> bool" where
  "binding_start s \<longleftrightarrow> db_bindings s = [] \<and> db_events s = []"

interpretation binding_machine: invariant_system binding_start binding_step binding_inv
proof unfold_locales
  fix s assume "binding_start s"
  then show "binding_inv s" by (simp add: binding_start_def binding_inv_def binding_map_def replay_def fun_eq_iff)
qed (rule binding_step_inv)

text \<open>
  C10: the audit log and the table of active bindings never disagree: in every state reached by
  binds and releases, whose checks may have read any stale database, interleaved with other
  events, the workspace of a channel is the one that a replay of the log gives, and a channel has one
  active row at most.
\<close>

theorem bindings_follow_log:
  assumes "binding_start s" "binding_step\<^sup>*\<^sup>* s s'"
  shows "binding_map s' = replay (db_events s') \<and> distinct (map row_target (db_bindings s'))"
  using binding_machine.inv_reachable [OF assms] by (simp add: binding_inv_def)


definition sample_request :: binding_request where
  "sample_request = \<lparr>bq_platform = '' Discord'', bq_channel_id = ''42'', bq_workspace_id = Some ''w1'',
     bq_actor = Some ''op'', bq_reason = Some ''setup'', bq_idempotency_key = Some ''k1''\<rparr>"

definition bindings_db :: db where
  "bindings_db = empty_db\<lparr>db_workspaces := [sample_ws]\<rparr>"

definition bound_db :: db where
  "bound_db = bindings_db\<lparr>db_events := [event_of ''e1'' 5 ''k1'' (plan_event \<lparr>bp_platform = ''discord'',
       bp_channel_id = ''42'', bp_workspace_id = ''w1'', bp_actor = ''op'', bp_reason = ''setup'', bp_key = ''k1''\<rparr> BOUND_EVENT)],
     db_bindings := [\<lparr>cb_platform = ''discord'', cb_channel_id = ''42'', cb_workspace_id = ''w1'', cb_bound_at = 6\<rparr>]\<rparr>"

definition sample_receipt :: binding_receipt where
  "sample_receipt = \<lparr>rc_platform = ''discord'', rc_channel_id = ''42'', rc_workspace_id = ''w1'', rc_target = ''discord:42'',
     rc_idempotency_key = ''k1'', rc_status = Bound, rc_event_id = Some ''e1''\<rparr>"

lemma sample_bind: "bind_channel_workspace ''e1'' 5 6 sample_request bindings_db bindings_db = Inr (sample_receipt, bound_db)"
  by code_simp

theorem bindings_follow_log_witness:
  "replay (db_events bound_db) ''discord:42'' = Some ''w1''"
proof -
  have "binding_start bindings_db" by (simp add: binding_start_def bindings_db_def empty_db_def)
  moreover have "binding_step\<^sup>*\<^sup>* bindings_db bound_db"
    by (rule r_into_rtranclp) (rule binding_step.bind [OF sample_bind])
  ultimately have "binding_map bound_db = replay (db_events bound_db)" using bindings_follow_log by blast
  moreover have "binding_map bound_db ''discord:42'' = Some ''w1''"
    by (simp add: binding_map_def bound_db_def row_target_def canonical_channel_target_def)
  ultimately show ?thesis by simp
qed

section \<open>Retries\<close>

lemma binding_step_keeps:
  assumes "binding_step s s'"
  shows "db_workspaces s' = db_workspaces s \<and> (\<forall>k e. get_event_by_idempotency_key s k = Some e \<longrightarrow>
    get_event_by_idempotency_key s' k = Some e)"
  using assms
proof cases
  case (bind u t t' q s0 r)
  from bind(1) show ?thesis
  proof (cases rule: bind_cases)
    case (2 p)
    from binding_savepoint_cases [OF 2(3)] show ?thesis
      by (auto simp: insert_binding_def get_event_by_idempotency_key_def find_append split: if_splits)
  qed simp
next
  case (release u t q s0 r)
  from release(1) show ?thesis
  proof (cases rule: release_cases)
    case (2 p)
    from binding_savepoint_cases [OF 2(3)] show ?thesis
      by (auto simp: delete_binding_def Let_def get_event_by_idempotency_key_def find_append split: if_splits)
  qed simp
next
  case (append u t k a e c)
  with append_event_keeps [OF append(1)] show ?thesis by (auto simp: append_event_cases)
qed

lemma binding_run_keeps:
  assumes "binding_step\<^sup>*\<^sup>* s s'"
  shows "db_workspaces s' = db_workspaces s \<and> (\<forall>k e. get_event_by_idempotency_key s k = Some e \<longrightarrow>
    get_event_by_idempotency_key s' k = Some e)"
  using assms by (induction rule: rtranclp_induct) (auto dest!: binding_step_keeps)

lemma binding_arguments_cong:
  "binding_arguments s0 q = Inr p \<Longrightarrow> get_workspace s (bp_workspace_id p) \<noteq> None \<Longrightarrow> binding_arguments s q = Inr p"
  by (auto simp: binding_arguments_def bindE_eq_Inr split: if_splits)

lemma binding_event_matches: "assert_channel_binding_event_matches (event_of u t k (plan_event p et)) et p = Inr ()"
  by (simp add: assert_channel_binding_event_matches_def event_of_def plan_event_def)

lemma savepoint_event:
  assumes "binding_savepoint u t et st change p s = Inr (r, s1)" "st \<noteq> Replayed" "rc_status r = st" "bp_key p \<noteq> []"
    and "\<And>a b. change a = Inr b \<Longrightarrow> db_events b = db_events a"
  shows "r = receipt_of p st (Some u) \<and> get_event_by_idempotency_key s1 (bp_key p) = Some (event_of u t (bp_key p) (plan_event p et)) \<and>
    get_workspace s (bp_workspace_id p) \<noteq> None"
proof -
  from assms(1) obtain e c s2 where a: "append_event u t (Some (bp_key p)) (plan_event p et) s = Inr ((e, c), s2)"
    unfolding binding_savepoint_def by auto
  note r = assms(1) [unfolded binding_savepoint_def a bindE_simps prod.case]
  have c: c using r assms(2,3) by (auto simp: receipt_of_def split: if_splits)
  from a c assms(4) have e: "e = event_of u t (bp_key p) (plan_event p et)" "s2 = s\<lparr>db_events := db_events s @ [e]\<rparr>"
      "bp_key p \<notin> ev_idempotency_key ` set (db_events s)" "workspace_fk s (ne_workspace_id (plan_event p et))"
    by (auto simp: append_event_cases event_key_def)
  from r c have ch: "change s2 = Inr s1" "r = receipt_of p st (Some (ev_id e))" by auto
  have "get_event_by_idempotency_key s2 (bp_key p) = Some e"
    using e event_by_key_None [of s "bp_key p"] by (simp add: event_by_key_append)
  then have "get_event_by_idempotency_key s1 (bp_key p) = Some e"
    using assms(5) [OF ch(1)] by (simp add: get_event_by_idempotency_key_def)
  moreover have "get_workspace s (bp_workspace_id p) \<noteq> None"
    using e(4) by (auto simp: workspace_fk_def plan_event_def workspace_exists_def get_workspace_def find_None_notin list_ex_iff)
  ultimately show ?thesis using ch(2) e(1) by simp
qed

lemma bind_retry:
  assumes b: "bind_channel_workspace u t t' q s0 s = Inr (r, s1)" "rc_status r = Bound" and run: "binding_step\<^sup>*\<^sup>* s1 s2"
  shows "bind_channel_workspace v x x' q s2 s3 = Inr (r\<lparr>rc_status := Replayed\<rparr>, s3)"
proof -
  let ?ins = "\<lambda>p. insert_binding \<lparr>cb_platform = bp_platform p, cb_channel_id = bp_channel_id p,
         cb_workspace_id = bp_workspace_id p, cb_bound_at = t'\<rparr>"
  from b(1) obtain p where p: "binding_arguments s0 q = Inr p" "binding_savepoint u t BOUND_EVENT Bound (?ins p) p s = Inr (r, s1)"
  proof (cases rule: bind_cases)
    case (1 p)
    from 1(3) b(2) have False
      by (auto simp: bind_precheck_def bindE_eq_Inr receipt_of_def split: option.splits if_splits)
    then show ?thesis ..
  qed blast
  have k: "bp_key p \<noteq> []" using binding_arguments_Inr [OF p(1)] by blast
  have ev: "db_events b = db_events a" if "?ins p a = Inr b" for a b
    using that by (auto simp: insert_binding_def split: if_splits)
  have e: "r = receipt_of p Bound (Some u)" "get_workspace s (bp_workspace_id p) \<noteq> None"
    "get_event_by_idempotency_key s1 (bp_key p) = Some (event_of u t (bp_key p) (plan_event p BOUND_EVENT))"
    using savepoint_event [OF p(2) _ b(2) k ev] by simp_all
  then have "get_event_by_idempotency_key s2 (bp_key p) = Some (event_of u t (bp_key p) (plan_event p BOUND_EVENT))"
    using binding_run_keeps [OF run] by blast
  moreover have "binding_arguments s2 q = Inr p"
    using e(2) binding_run_keeps [OF run] binding_step_keeps [OF binding_step.bind [OF b(1)]]
    by (intro binding_arguments_cong [OF p(1)]) (simp add: get_workspace_def)
  ultimately show ?thesis
    using e(1) by (simp add: bind_channel_workspace_def bind_precheck_def check_channel_binding_idempotency_def
        binding_event_matches receipt_of_def)
qed

lemma release_retry:
  assumes b: "release_channel_workspace u t q s0 s = Inr (r, s1)" "rc_status r = ReleasedChannel" and run: "binding_step\<^sup>*\<^sup>* s1 s2"
  shows "release_channel_workspace v x q s2 s3 = Inr (r\<lparr>rc_status := Replayed\<rparr>, s3)"
proof -
  let ?del = "\<lambda>p. delete_binding (bp_platform p) (bp_channel_id p) (bp_workspace_id p)"
  from b(1) obtain p where p: "binding_arguments s0 q = Inr p"
      "binding_savepoint u t RELEASED_EVENT ReleasedChannel (?del p) p s = Inr (r, s1)"
  proof (cases rule: release_cases)
    case (1 p)
    from 1(3) b(2) have False
      by (auto simp: release_precheck_def bindE_eq_Inr receipt_of_def split: option.splits if_splits)
    then show ?thesis ..
  qed blast
  have k: "bp_key p \<noteq> []" using binding_arguments_Inr [OF p(1)] by blast
  have ev: "db_events b = db_events a" if "?del p a = Inr b" for a b
    using that by (auto simp: delete_binding_def Let_def split: if_splits)
  have e: "r = receipt_of p ReleasedChannel (Some u)" "get_workspace s (bp_workspace_id p) \<noteq> None"
    "get_event_by_idempotency_key s1 (bp_key p) = Some (event_of u t (bp_key p) (plan_event p RELEASED_EVENT))"
    using savepoint_event [OF p(2) _ b(2) k ev] by simp_all
  then have "get_event_by_idempotency_key s2 (bp_key p) = Some (event_of u t (bp_key p) (plan_event p RELEASED_EVENT))"
    using binding_run_keeps [OF run] by blast
  moreover have "binding_arguments s2 q = Inr p"
    using e(2) binding_run_keeps [OF run] binding_step_keeps [OF binding_step.release [OF b(1)]]
    by (intro binding_arguments_cong [OF p(1)]) (simp add: get_workspace_def)
  ultimately show ?thesis
    using e(1) by (simp add: release_channel_workspace_def release_precheck_def check_channel_binding_idempotency_def
        binding_event_matches receipt_of_def)
qed

text \<open>
  A retried request is answered with the receipt of its first execution and changes nothing,
  whatever happened to the channel in between: retrying a bind does not undo a later release, and
  retrying a release does not remove a later rebind.
\<close>

theorem binding_retries:
  assumes "binding_step\<^sup>*\<^sup>* s1 s2"
  shows "(bind_channel_workspace u t t' q s0 s = Inr (r, s1) \<and> rc_status r = Bound \<longrightarrow>
      bind_channel_workspace v x x' q s2 s3 = Inr (r\<lparr>rc_status := Replayed\<rparr>, s3)) \<and>
    (release_channel_workspace u t q s0 s = Inr (r, s1) \<and> rc_status r = ReleasedChannel \<longrightarrow>
      release_channel_workspace v x q s2 s3 = Inr (r\<lparr>rc_status := Replayed\<rparr>, s3))"
  using bind_retry [OF _ _ assms] release_retry [OF _ _ assms] by blast

theorem binding_retries_witness:
  "bind_channel_workspace ''e2'' 9 9 sample_request bound_db bound_db = Inr (sample_receipt\<lparr>rc_status := Replayed\<rparr>, bound_db)"
proof -
  have "rc_status sample_receipt = Bound" by (simp add: sample_receipt_def)
  with sample_bind binding_retries [of bound_db bound_db] show ?thesis by blast
qed

end
