(* ===== verification/Bus.thy ===== *)
theory Bus
  imports Store
begin

text \<open>
  The message buses of \<^verbatim>\<open>src/coordinate/bus.py\<close>: how each one turns a delivery into a request
  to its platform and the response into a message id. The HTTP client is a parameter that takes
  the URL, the headers and the body and returns the decoded object or raises; \<open>os.environ\<close> is
  the parameter \<open>env\<close> and \<open>uuid.uuid5\<close> the parameter \<open>uuid5\<close>.
\<close>

type_synonym fields = "(string \<times> pyval) list"
type_synonym http_post = "string \<Rightarrow> fields \<Rightarrow> fields \<Rightarrow> fields result"

text \<open>\<open>MessageBus.send(destination, payload, message_key)\<close>: the platform message id.\<close>

type_synonym adapter = "string \<Rightarrow> fields \<Rightarrow> string \<Rightarrow> string result"

section \<open>Message text\<close>

definition message_text :: "fields \<Rightarrow> string result" where
  "message_text payload =
     (let text0 = dget payload ''text'';
          text1 = (if text0 = PyNone then dget payload ''visible_header'' else text0)
      in if text1 = PyNone then raise BusErr ''delivery payload must include text''
         else let text = py_str text1
              in if strip text = [] then raise BusErr ''delivery payload text must not be empty'' else Inr text)"

definition MACHINE_PROTOCOL_PREFIXES :: "string list" where
  "MACHINE_PROTOCOL_PREFIXES = [''[handoff]'', ''[lifecycle]'', ''[agent-report]'']"

definition lstrip :: "string \<Rightarrow> string" where
  "lstrip s = dropWhile is_space s"

definition discord_content :: "fields \<Rightarrow> string result" where
  "discord_content payload =
     bindE (message_text payload) (\<lambda>text.
       if \<not> truthy (dget payload ''embeds'') then Inr text
       else if list_ex (startswith (lower (lstrip text))) MACHINE_PROTOCOL_PREFIXES then Inr text
       else Inr (takeWhile (\<lambda>c. c \<noteq> CHR 0x0A) text))"

definition add_embeds :: "fields \<Rightarrow> fields \<Rightarrow> fields" where
  "add_embeds body payload =
     (if truthy (dget payload ''embeds'') then dset ''embeds'' (dget payload ''embeds'') body else body)"

section \<open>Adapters\<close>

definition stdout_send :: "(string \<Rightarrow> string) \<Rightarrow> adapter" where
  "stdout_send uuid5 destination payload message_key = Inr (''stdout:'' @ uuid5 message_key)"

record discord_bus =
  dbus_token :: string
  dbus_api_base :: string
  dbus_http_post :: http_post
  dbus_channel_http_post :: http_post
  dbus_expected_bot_id :: "string option"

text \<open>\<open>re.fullmatch("[0-9]{1,20}")\<close>, below \<open>2 ^ 64\<close>, not 0 and without leading zeros.\<close>

definition dec_value :: "string \<Rightarrow> nat" where
  "dec_value s = foldl (\<lambda>n c. 10 * n + ((of_char c :: nat) - 48)) 0 s"

definition is_snowflake :: "pyval \<Rightarrow> bool" where
  "is_snowflake v =
     (case as_str v of
        None \<Rightarrow> False
      | Some s \<Rightarrow> s \<noteq> [] \<and> length s \<le> 20 \<and> list_all is_digit s \<and> hd s \<noteq> CHR ''0'' \<and>
          dec_value s \<le> 18446744073709551615)"

text \<open>What of a \<open>channel_io.v1\<close> payload must match the transport before the request.\<close>

definition discord_sender_check :: "string option \<Rightarrow> fields \<Rightarrow> unit result" where
  "discord_sender_check expected payload =
     (if dget payload ''purpose'' = PyStr ''channel_io.v1'' \<and>
         (dget payload ''sender_identity'' \<noteq> PyNone \<or> expected \<noteq> None) then
        (case as_dict (dget payload ''sender_identity'') of
           None \<Rightarrow> raise BusErr ''channel sender binding does not match transport''
         | Some d \<Rightarrow>
             if dget d ''discord_user_id'' \<noteq> opt_str expected then
               raise BusErr ''channel sender binding does not match transport''
             else Inr ())
      else Inr ())"

definition discord_author_check :: "string option \<Rightarrow> fields \<Rightarrow> fields \<Rightarrow> unit result" where
  "discord_author_check expected payload response =
     (if dget payload ''purpose'' = PyStr ''channel_io.v1'' \<and> dget payload ''sender_identity'' \<noteq> PyNone then
        (case as_dict (dget response ''author'') of
           None \<Rightarrow> raise BusErr ''channel response author is unconfirmed''
         | Some a \<Rightarrow>
             if dget a ''id'' \<noteq> opt_str expected \<or> dget a ''bot'' \<noteq> PyBool True then
               raise BusErr ''channel response author is unconfirmed''
             else if \<not> is_snowflake (dget response ''id'') then raise ValueErr ''Invalid Discord identifier.''
             else Inr ())
      else Inr ())"

definition user_agent :: "string \<times> pyval" where
  "user_agent = (''User-Agent'', PyStr ''multi-agent-coordinator/0.1'')"

definition bot_headers :: "string \<Rightarrow> fields" where
  "bot_headers token = [(''Authorization'', PyStr (''Bot '' @ token)), (''Content-Type'', PyStr ''application/json''), user_agent]"

definition discord_body :: "string \<Rightarrow> string \<Rightarrow> fields \<Rightarrow> fields" where
  "discord_body content destination payload =
     (let channel_io = (dget payload ''purpose'' = PyStr ''channel_io.v1'');
          body = add_embeds [(''content'', PyStr content),
            (''allowed_mentions'', if channel_io then PyDict [(''parse'', PyList []), (''replied_user'', PyBool False)]
                                   else PyDict [(''parse'', PyList [])])] payload
      in if channel_io \<and> dget payload ''reply_to_message_id'' \<noteq> PyNone then
           body @ [(''message_reference'', PyDict [(''message_id'', dget payload ''reply_to_message_id''),
             (''channel_id'', PyStr destination), (''fail_if_not_exists'', PyBool True)])]
         else body)"

definition discord_send :: "discord_bus \<Rightarrow> adapter" where
  "discord_send b destination payload message_key =
     (let channel_io = (dget payload ''purpose'' = PyStr ''channel_io.v1'') in
      bindE (discord_sender_check (dbus_expected_bot_id b) payload) (\<lambda>_.
      bindE (if channel_io then Inr ''[multinexus-channel]'' else discord_content payload) (\<lambda>content.
      bindE ((if channel_io then dbus_channel_http_post b else dbus_http_post b)
              ((if channel_io then ''https://discord.com/api/v10'' else dbus_api_base b) @ ''/channels/'' @ destination @ ''/messages'')
              (bot_headers (dbus_token b)) (discord_body content destination payload)) (\<lambda>response.
      bindE (discord_author_check (dbus_expected_bot_id b) payload response) (\<lambda>_.
        if \<not> truthy (dget response ''id'') then raise BusErr ''discord response did not include message id''
        else Inr (''discord:'' @ py_str (dget response ''id'')))))))"

definition kook_send :: "string \<Rightarrow> string \<Rightarrow> http_post \<Rightarrow> adapter" where
  "kook_send token api_base post destination payload message_key =
     bindE (message_text payload) (\<lambda>text.
     bindE (post (api_base @ ''/message/create'') (bot_headers token)
        [(''type'', PyInt 9), (''target_id'', PyStr destination), (''content'', PyStr text), (''nonce'', PyStr message_key)]) (\<lambda>response.
       if \<not> eq_int (dget response ''code'') 0 then raise BusErr ''kook response error''
       else (case as_dict (dget response ''data'') of
               None \<Rightarrow> raise BusErr ''kook response did not include msg_id''
             | Some d \<Rightarrow>
                 if \<not> truthy (dget d ''msg_id'') then raise BusErr ''kook response did not include msg_id''
                 else Inr (''kook:'' @ py_str (dget d ''msg_id'')))))"

definition webhook_send :: "string \<Rightarrow> http_post \<Rightarrow> adapter" where
  "webhook_send webhook_url post destination payload message_key =
     (let mention_users = dget payload ''mention_users'';
          allowed = (if truthy mention_users then PyDict [(''users'', mention_users)] else PyDict [(''parse'', PyList [])])
      in bindE (discord_content payload) (\<lambda>content.
         bindE (post (webhook_url @ ''?wait=true'') [(''Content-Type'', PyStr ''application/json''), user_agent]
           (add_embeds [(''content'', PyStr content), (''username'', PyStr ''coordinator''), (''allowed_mentions'', allowed)] payload))
         (\<lambda>response.
           if \<not> truthy (dget response ''id'') then raise BusErr ''discord webhook response did not include message id''
           else Inr (''discord_webhook:'' @ py_str (dget response ''id'')))))"

section \<open>The bus of a platform\<close>

definition env_token :: "(string \<Rightarrow> string option) \<Rightarrow> string \<Rightarrow> string \<Rightarrow> string result" where
  "env_token env name msg =
     (case env name of None \<Rightarrow> raise BusErr msg | Some t \<Rightarrow> if t = [] then raise BusErr msg else Inr t)"

definition env_default :: "(string \<Rightarrow> string option) \<Rightarrow> string \<Rightarrow> string \<Rightarrow> string" where
  "env_default env name d = (case env name of None \<Rightarrow> d | Some v \<Rightarrow> v)"

definition discord_from_env :: "(string \<Rightarrow> string option) \<Rightarrow> http_post \<Rightarrow> http_post \<Rightarrow> discord_bus result" where
  "discord_from_env env post channel_post =
     bindE (env_token env ''DISCORD_BOT_TOKEN'' ''DISCORD_BOT_TOKEN is required for discord delivery'') (\<lambda>token.
       Inr \<lparr>dbus_token = token,
            dbus_api_base = rstrip_ch (CHR ''/'') (env_default env ''DISCORD_API_BASE'' ''https://discord.com/api/v10''),
            dbus_http_post = post, dbus_channel_http_post = channel_post, dbus_expected_bot_id = None\<rparr>)"

definition kook_from_env :: "(string \<Rightarrow> string option) \<Rightarrow> http_post \<Rightarrow> adapter result" where
  "kook_from_env env post =
     bindE (env_token env ''KOOK_BOT_TOKEN'' ''KOOK_BOT_TOKEN is required for kook delivery'') (\<lambda>token.
       Inr (kook_send token (rstrip_ch (CHR ''/'') (env_default env ''KOOK_API_BASE'' ''https://www.kookapp.cn/api/v3'')) post))"

definition webhook_from_env :: "(string \<Rightarrow> string option) \<Rightarrow> http_post \<Rightarrow> adapter result" where
  "webhook_from_env env post =
     bindE (env_token env ''DISCORD_WEBHOOK_URL'' ''DISCORD_WEBHOOK_URL is required for discord_webhook delivery'') (\<lambda>url.
       Inr (webhook_send (rstrip_ch (CHR ''/'') url) post))"

definition bus_for_platform ::
  "(string \<Rightarrow> string option) \<Rightarrow> (string \<Rightarrow> string) \<Rightarrow> http_post \<Rightarrow> http_post \<Rightarrow> string \<Rightarrow> adapter result" where
  "bus_for_platform env uuid5 post channel_post platform =
     (if platform = ''stdout'' then Inr (stdout_send uuid5)
      else if platform = ''discord'' then
        bindE (discord_from_env env post channel_post) (\<lambda>b. Inr (discord_send b))
      else if platform = ''kook'' then kook_from_env env post
      else if platform = ''discord_webhook'' then webhook_from_env env post
      else raise BusErr ''unsupported bus platform'')"

end
