(* ===== verification/Deliveries.thy ===== *)
theory Deliveries
  imports Bindings Bus
begin

text \<open>
  Sending deliveries: the state changes of \<^verbatim>\<open>src/coordinate/db.py\<close>, the senders of
  \<^verbatim>\<open>src/coordinate/bus.py\<close> and \<^verbatim>\<open>src/coordinate/channel_delivery.py\<close>, and the loop of
  \<^verbatim>\<open>src/coordinate/worker.py\<close>. A generic delivery is retried until it is sent or dead; a
  channel delivery is posted once by whoever reserved it.
\<close>

section \<open>State changes\<close>

definition update_delivery :: "string \<Rightarrow> (delivery_row \<Rightarrow> delivery_row) \<Rightarrow> db \<Rightarrow> db" where
  "update_delivery did f s = s\<lparr>db_deliveries := update_where (\<lambda>d. dl_id d = did) f (db_deliveries s)\<rparr>"

definition mark_delivery_sending :: "timestamp \<Rightarrow> string \<Rightarrow> db \<Rightarrow> (delivery_row \<times> db) result" where
  "mark_delivery_sending now did s =
     bindE (get_delivery s did) (\<lambda>d0.
       let s' = update_delivery did (\<lambda>d. d\<lparr>dl_status := ''sending'', dl_attempt_count := dl_attempt_count d0 + 1,
             dl_last_error := None, dl_updated_at := now\<rparr>) s
       in bindE (get_delivery s' did) (\<lambda>d. Inr (d, s')))"

definition mark_delivery_sent :: "timestamp \<Rightarrow> string \<Rightarrow> string \<Rightarrow> db \<Rightarrow> (delivery_row \<times> db) result" where
  "mark_delivery_sent now did platform_message_id s =
     (let s' = update_delivery did (\<lambda>d. d\<lparr>dl_status := ''sent'', dl_platform_message_id := Some platform_message_id,
            dl_last_error := None, dl_updated_at := now\<rparr>) s
      in bindE (get_delivery s' did) (\<lambda>d. Inr (d, s')))"

definition mark_delivery_failed :: "timestamp \<Rightarrow> string \<Rightarrow> string \<Rightarrow> bool \<Rightarrow> db \<Rightarrow> (delivery_row \<times> db) result" where
  "mark_delivery_failed now did error dead s =
     (let s' = update_delivery did (\<lambda>d. d\<lparr>dl_status := (if dead then ''dead'' else ''failed''),
            dl_last_error := Some error, dl_updated_at := now\<rparr>) s
      in bindE (get_delivery s' did) (\<lambda>d. Inr (d, s')))"

definition is_channel_delivery :: "delivery_row \<Rightarrow> bool" where
  "is_channel_delivery d = (dget (dict_of (dl_payload d)) ''purpose'' = PyStr ''channel_io.v1'')"

definition recover_sending_deliveries ::
  "timestamp \<Rightarrow> string option \<Rightarrow> string \<Rightarrow> db \<Rightarrow> (delivery_row list \<times> db) result" where
  "recover_sending_deliveries now platform reason s =
     (let rows = filter (\<lambda>d. \<not> is_channel_delivery d)
            (filter (\<lambda>d. dl_status d = ''sending'' \<and>
               (case platform of None \<Rightarrow> True | Some p \<Rightarrow> p = [] \<or> dl_platform d = p)) (db_deliveries s));
          s' = fold (\<lambda>row. update_delivery (dl_id row) (\<lambda>d. d\<lparr>dl_status := ''pending'', dl_last_error := Some reason,
                 dl_updated_at := now\<rparr>)) rows s
      in bindE (mapE (\<lambda>row. get_delivery s' (dl_id row)) rows) (\<lambda>out. Inr (out, s')))"

definition default_recover_reason :: string where
  "default_recover_reason = ''recovered from sending state; platform delivery may need audit''"

section \<open>Channel deliveries\<close>

definition inspect_channel_delivery ::
  "db \<Rightarrow> string \<Rightarrow> string \<Rightarrow> string \<Rightarrow> string \<Rightarrow> string \<Rightarrow> delivery_row option result" where
  "inspect_channel_delivery s message_key fingerprint workspace_id platform channel_id =
     bindE (resolve_channel_workspace s platform channel_id) (\<lambda>binding.
     case binding of
       None \<Rightarrow> raise ChannelForbiddenErr ''forbidden''
     | Some b \<Rightarrow>
         if cb_workspace_id b \<noteq> workspace_id then raise ChannelForbiddenErr ''forbidden''
         else
           (case delivery_by_key s message_key of
              None \<Rightarrow> Inr None
            | Some prior \<Rightarrow>
                let existing = dict_of (dl_payload prior) in
                if dget existing ''purpose'' \<noteq> PyStr ''channel_io.v1'' \<or> dget existing ''fingerprint'' \<noteq> PyStr fingerprint
                   \<or> dl_platform prior \<noteq> platform \<or> dl_destination prior \<noteq> channel_id
                then raise ChannelConflictErr ''idempotency_conflict''
                else Inr (Some prior)))"

text \<open>The arguments of a reservation but for the key; \<open>uuid\<close> and \<open>did\<close> are fresh identifiers.\<close>

record channel_request =
  cr_actor :: string
  cr_workspace_id :: string
  cr_platform :: string
  cr_channel_id :: string
  cr_fingerprint :: string
  cr_payload :: "(string \<times> pyval) list"

definition channel_payload :: "channel_request \<Rightarrow> pyval" where
  "channel_payload q = PyDict (dupdate (cr_payload q) [(''purpose'', PyStr ''channel_io.v1''),
     (''fingerprint'', PyStr (cr_fingerprint q)), (''actor'', PyStr (cr_actor q)),
     (''workspace_id'', PyStr (cr_workspace_id q))])"

definition reserve_channel_delivery ::
  "string \<Rightarrow> string \<Rightarrow> timestamp \<Rightarrow> string \<Rightarrow> channel_request \<Rightarrow> db \<Rightarrow> ((delivery_row \<times> bool) \<times> db) result" where
  "reserve_channel_delivery uuid did now message_key q s =
     bindE (inspect_channel_delivery s message_key (cr_fingerprint q) (cr_workspace_id q) (cr_platform q) (cr_channel_id q))
       (\<lambda>prior.
       case prior of
         Some row \<Rightarrow> Inr ((row, False), s)
       | None \<Rightarrow>
         bindE (append_event uuid now (Some (message_key @ '':requested''))
             \<lparr>ne_event_type = ''channel.message.requested'', ne_actor = cr_actor q, ne_workspace_id = Some (cr_workspace_id q),
              ne_target = Some (cr_platform q @ '':'' @ cr_channel_id q), ne_task_id = None, ne_causation_id = None,
              ne_payload = PyDict [(''purpose'', PyStr ''channel_io.v1''), (''fingerprint'', PyStr (cr_fingerprint q))]\<rparr> s)
           (\<lambda>((audit, created), s1).
           if \<not> created then raise ChannelConflictErr ''idempotency_conflict''
           else
             bindE (create_delivery did now message_key \<lparr>nd_platform = cr_platform q, nd_destination = cr_channel_id q,
                 nd_payload = channel_payload q, nd_event_id = Some (ev_id audit)\<rparr> s1) (\<lambda>((row, made), s2).
               if \<not> made then raise ChannelConflictErr ''idempotency_conflict''
               else
                 let p = (\<lambda>d. dl_id d = dl_id row \<and> dl_status d = ''pending'');
                     s3 = s2\<lparr>db_deliveries := update_where p (\<lambda>d. d\<lparr>dl_status := ''sending'',
                            dl_attempt_count := dl_attempt_count d + 1, dl_updated_at := now\<rparr>) (db_deliveries s2)\<rparr>
                 in if rowcount p (db_deliveries s2) \<noteq> 1 then raise RuntimeErr ''channel delivery claim failed''
                    else bindE (get_delivery s3 (dl_id row)) (\<lambda>sending. Inr ((sending, True), s3)))))"

definition finish_channel_delivery ::
  "string \<Rightarrow> timestamp \<Rightarrow> string \<Rightarrow> string option \<Rightarrow> bool \<Rightarrow> db \<Rightarrow> (delivery_row \<times> db) result" where
  "finish_channel_delivery uuid now did platform_message_id rejected s =
     (if rejected = (platform_message_id \<noteq> None) then raise ValueErr ''exactly one channel outcome is required''
      else bindE (get_delivery s did) (\<lambda>row.
        if \<not> is_channel_delivery row \<or> dl_status row \<noteq> ''sending'' then raise ValueErr ''channel delivery is not sending''
        else
          let payload = dict_of (dl_payload row);
              outcome = (if rejected then ''rejected'' else ''sent'') in
          case (as_str (dget payload ''actor''), as_str (dget payload ''workspace_id'')) of
            (Some actor, Some ws) \<Rightarrow>
              bindE (append_event uuid now (Some (dl_message_key row @ '':'' @ outcome))
                  \<lparr>ne_event_type = ''channel.message.'' @ outcome, ne_actor = actor, ne_workspace_id = Some ws,
                   ne_target = Some (dl_platform row @ '':'' @ dl_destination row), ne_task_id = None,
                   ne_causation_id = dl_event_id row,
                   ne_payload = PyDict [(''purpose'', PyStr ''channel_io.v1''), (''delivery_id'', PyStr did),
                     (''platform_message_id'', opt_str platform_message_id)]\<rparr> s) (\<lambda>(_, s1).
                let s2 = s1\<lparr>db_deliveries := update_where (\<lambda>d. dl_id d = did \<and> dl_status d = ''sending'')
                      (\<lambda>d. d\<lparr>dl_status := (if rejected then ''dead'' else ''sent''), dl_platform_message_id := platform_message_id,
                         dl_last_error := (if rejected then Some ''delivery_rejected'' else None), dl_updated_at := now\<rparr>)
                      (db_deliveries s1)\<rparr>
                in bindE (get_delivery s2 did) (\<lambda>receipt. Inr (receipt, s2)))
          | _ \<Rightarrow> raise KeyErr ''actor''))"

section \<open>The generic sender\<close>

text \<open>
  \<open>bus_of\<close> is the given bus, or else \<open>bus_for_platform\<close>. What the adapter raises is caught. The row is checked, marked
  and settled in three commits: other connections do \<open>w 0\<close> after the check and \<open>w 1\<close> while the adapter
  sends. An exception comes with the database as it is then.
\<close>

definition send_delivery_while ::
  "(string \<Rightarrow> adapter result) \<Rightarrow> int \<Rightarrow> timestamp \<Rightarrow> timestamp \<Rightarrow> (nat \<Rightarrow> db \<Rightarrow> db) \<Rightarrow> string \<Rightarrow> db \<Rightarrow> (delivery_row \<times> bool) result \<times> db" where
  "send_delivery_while bus_of max_attempts now now' w did s =
     (case bindE (get_delivery s did) (\<lambda>d.
        if is_channel_delivery d then raise BusErr ''channel one-shot delivery cannot use generic send''
        else if dl_status d \<noteq> ''pending'' \<and> dl_status d \<noteq> ''failed'' then
          raise BusErr ''only pending/failed deliveries can be sent''
        else bus_of (dl_platform d)) of
        Inl e \<Rightarrow> (Inl e, s)
      | Inr adapter \<Rightarrow>
          (case mark_delivery_sending now did (w 0 s) of
             Inl e \<Rightarrow> (Inl e, w 0 s)
           | Inr (sending, s1) \<Rightarrow>
               (case (case adapter (dl_destination sending) (dict_of (dl_payload sending)) (dl_message_key sending) of
                        Inl exc \<Rightarrow> bindE (mark_delivery_failed now' did (exn_msg exc) (dl_attempt_count sending \<ge> max_attempts) (w 1 s1))
                          (\<lambda>(failed, s2). Inr ((failed, False), s2))
                      | Inr mid \<Rightarrow> bindE (mark_delivery_sent now' did mid (w 1 s1)) (\<lambda>(sent, s2). Inr ((sent, True), s2))) of
                  Inl e \<Rightarrow> (Inl e, w 1 s1)
                | Inr (r, s2) \<Rightarrow> (Inr r, s2))))"

text \<open>A send that nothing disturbs: the database of an exception is the one of before, as the row stays.\<close>

definition send_delivery ::
  "(string \<Rightarrow> adapter result) \<Rightarrow> int \<Rightarrow> timestamp \<Rightarrow> timestamp \<Rightarrow> string \<Rightarrow> db \<Rightarrow> ((delivery_row \<times> bool) \<times> db) result" where
  "send_delivery bus_of max_attempts now now' did s =
     (case send_delivery_while bus_of max_attempts now now' (\<lambda>_ x. x) did s of
        (Inl e, _) \<Rightarrow> Inl e
      | (Inr r, s') \<Rightarrow> Inr (r, s'))"

lemma send_delivery_eq:
  "send_delivery bus_of max_attempts now now' did s =
     bindE (get_delivery s did) (\<lambda>d.
       if is_channel_delivery d then raise BusErr ''channel one-shot delivery cannot use generic send''
       else if dl_status d \<noteq> ''pending'' \<and> dl_status d \<noteq> ''failed'' then
         raise BusErr ''only pending/failed deliveries can be sent''
       else bindE (bus_of (dl_platform d)) (\<lambda>adapter.
         bindE (mark_delivery_sending now did s) (\<lambda>(sending, s1).
           case adapter (dl_destination sending) (dict_of (dl_payload sending)) (dl_message_key sending) of
             Inl exc \<Rightarrow>
               bindE (mark_delivery_failed now' did (exn_msg exc) (dl_attempt_count sending \<ge> max_attempts) s1)
                 (\<lambda>(failed, s2). Inr ((failed, False), s2))
           | Inr mid \<Rightarrow>
               bindE (mark_delivery_sent now' did mid s1) (\<lambda>(sent, s2). Inr ((sent, True), s2)))))"
  by (auto simp: send_delivery_def send_delivery_while_def bindE_def split: sum.splits prod.splits if_splits)

text \<open>\<open>xs[:n]\<close>.\<close>

definition slice_to :: "int \<Rightarrow> 'a list \<Rightarrow> 'a list" where
  "slice_to n xs = (if n \<ge> 0 then take (nat n) xs else take (length xs - nat (- n)) xs)"

text \<open>The two queries are one commit each; \<open>r\<close> is what the first reads and \<open>s\<close> what the second reads.\<close>

definition retryable_deliveries :: "db \<Rightarrow> db \<Rightarrow> string option \<Rightarrow> int \<Rightarrow> delivery_row list" where
  "retryable_deliveries r s platform limit =
     (let retryable = filter (\<lambda>d. \<not> is_channel_delivery d)
            (list_deliveries r (Some ''pending'') platform None @ list_deliveries s (Some ''failed'') platform None)
      in slice_to limit (if platform = None then filter (\<lambda>d. dl_platform d \<noteq> ''none'') retryable else retryable))"

record pump_result =
  pr_processed :: nat
  pr_sent :: nat
  pr_failed :: nat
  pr_deliveries :: "delivery_row list"

text \<open>
  The loop over the rows; the \<open>i\<close>-th send happens at \<open>clock i\<close> and finds the buses \<open>net i\<close>. Each send is
  committed. What other connections do to the database is \<open>w\<close>: \<open>w 0 0\<close> before the first query, \<open>w 0 1\<close> before
  the second, \<open>w (i + 1) 0\<close> before the \<open>i\<close>-th send and \<open>w (i + 1) 1\<close>, \<open>w (i + 1) 2\<close> during it.
\<close>

fun pump_loop ::
  "(nat \<Rightarrow> string \<Rightarrow> adapter result) \<Rightarrow> (nat \<Rightarrow> timestamp) \<Rightarrow> (nat \<Rightarrow> nat \<Rightarrow> db \<Rightarrow> db) \<Rightarrow> nat \<Rightarrow> delivery_row list \<Rightarrow> pump_result \<Rightarrow> db \<Rightarrow>
    pump_result result \<times> db" where
  "pump_loop net clock w i [] acc s = (Inr acc, s)"
| "pump_loop net clock w i (d # ds) acc s =
     (case send_delivery_while (net i) 3 (clock i) (clock i) (\<lambda>k. w (Suc i) (Suc k)) (dl_id d) (w (Suc i) 0 s) of
        (Inl e, s') \<Rightarrow> (Inl e, s')
      | (Inr (row, sent), s') \<Rightarrow>
          pump_loop net clock w (Suc i) ds
            (acc\<lparr>pr_deliveries := pr_deliveries acc @ [row],
                 pr_sent := (if sent then Suc (pr_sent acc) else pr_sent acc),
                 pr_failed := (if sent then pr_failed acc else Suc (pr_failed acc))\<rparr>) s')"

definition pump_deliveries ::
  "(nat \<Rightarrow> string \<Rightarrow> adapter result) \<Rightarrow> (nat \<Rightarrow> timestamp) \<Rightarrow> (nat \<Rightarrow> nat \<Rightarrow> db \<Rightarrow> db) \<Rightarrow> timestamp \<Rightarrow> string option \<Rightarrow> int \<Rightarrow> bool \<Rightarrow> db \<Rightarrow>
    pump_result result \<times> db" where
  "pump_deliveries net clock w now platform limit recover s0 =
     (case (if recover then recover_sending_deliveries now platform default_recover_reason s0 else Inr ([], s0)) of
        Inl e \<Rightarrow> (Inl e, s0)
      | Inr (_, s) \<Rightarrow>
          (let r = w 0 0 s; t = w 0 1 r; rows = retryable_deliveries r t platform limit
           in pump_loop net clock w 0 rows \<lparr>pr_processed = length rows, pr_sent = 0, pr_failed = 0, pr_deliveries = []\<rparr> t))"

section \<open>The worker\<close>

record worker_result =
  wk_iterations :: nat
  wk_processed :: nat
  wk_sent :: nat
  wk_failed :: nat
  wk_interrupted :: bool
  wk_results :: "pump_result list"

text \<open>
  The environment of the \<open>i\<close>-th iteration is \<open>env i\<close>: the buses, the clocks, and what other
  connections do to the database before it and during it. The keyboard interrupt comes during the sleep after
  \<open>patience\<close> more iterations.
\<close>

type_synonym iteration = "(nat \<Rightarrow> string \<Rightarrow> adapter result) \<times> (nat \<Rightarrow> timestamp) \<times> timestamp \<times> (db \<Rightarrow> db) \<times> (nat \<Rightarrow> nat \<Rightarrow> db \<Rightarrow> db)"

fun worker_loop ::
  "(nat \<Rightarrow> iteration) \<Rightarrow> string option \<Rightarrow> int \<Rightarrow> nat option \<Rightarrow> bool \<Rightarrow> nat \<Rightarrow> worker_result \<Rightarrow> db \<Rightarrow> worker_result result \<times> db" where
  "worker_loop env platform limit max_iterations recover patience acc s =
     (let i = wk_iterations acc; (net, clock, now, others, w) = env i in
      case pump_deliveries net clock w now platform limit (recover \<and> i = 0) (others s) of
        (Inl e, s') \<Rightarrow> (Inl e, s')
      | (Inr p, s') \<Rightarrow>
          (let acc' = acc\<lparr>wk_iterations := Suc i, wk_processed := wk_processed acc + pr_processed p,
                 wk_sent := wk_sent acc + pr_sent p, wk_failed := wk_failed acc + pr_failed p,
                 wk_results := wk_results acc @ [p]\<rparr>
           in if (case max_iterations of None \<Rightarrow> False | Some m \<Rightarrow> Suc i \<ge> m) then (Inr acc', s')
              else (case patience of
                      0 \<Rightarrow> (Inr (acc'\<lparr>wk_interrupted := True\<rparr>), s')
                    | Suc n \<Rightarrow> worker_loop env platform limit max_iterations recover n acc' s')))"

definition run_delivery_worker ::
  "(nat \<Rightarrow> iteration) \<Rightarrow> string option \<Rightarrow> int \<Rightarrow> int \<Rightarrow> int option \<Rightarrow> bool \<Rightarrow> nat \<Rightarrow> db \<Rightarrow> worker_result result \<times> db" where
  "run_delivery_worker env platform limit interval max_iterations recover patience s =
     (if limit < 1 then (raise ValueErr ''limit must be at least 1'', s)
      else if interval < 0 then (raise ValueErr ''interval must be non-negative'', s)
      else if (case max_iterations of None \<Rightarrow> False | Some m \<Rightarrow> m < 1) then
        (raise ValueErr ''max_iterations must be at least 1'', s)
      else worker_loop env platform limit (map_option nat max_iterations) recover patience
             \<lparr>wk_iterations = 0, wk_processed = 0, wk_sent = 0, wk_failed = 0, wk_interrupted = False, wk_results = []\<rparr> s)"


section \<open>What the operations keep\<close>

text \<open>What no update touches: which deliveries there are, and which of them are channel deliveries.\<close>

definition delivery_profile :: "db \<Rightarrow> (string \<times> bool) list" where
  "delivery_profile s = map (\<lambda>d. (dl_id d, is_channel_delivery d)) (db_deliveries s)"

definition mild :: "(delivery_row \<Rightarrow> delivery_row) \<Rightarrow> bool" where
  "mild f \<longleftrightarrow> (\<forall>d. dl_id (f d) = dl_id d \<and> dl_payload (f d) = dl_payload d \<and> dl_message_key (f d) = dl_message_key d \<and>
     dl_platform (f d) = dl_platform d \<and> dl_destination (f d) = dl_destination d)"

lemma mild_updates [simp]:
  "mild (\<lambda>d. d\<lparr>dl_status := a, dl_attempt_count := n, dl_last_error := e, dl_updated_at := t\<rparr>)"
  "mild (\<lambda>d. d\<lparr>dl_status := a, dl_attempt_count := dl_attempt_count d + 1, dl_updated_at := t\<rparr>)"
  "mild (\<lambda>d. d\<lparr>dl_status := a, dl_platform_message_id := m, dl_last_error := e, dl_updated_at := t\<rparr>)"
  "mild (\<lambda>d. d\<lparr>dl_status := a, dl_last_error := e, dl_updated_at := t\<rparr>)"
  by (simp_all add: mild_def)

lemma update_where_profile:
  "mild f \<Longrightarrow> map (\<lambda>d. (dl_id d, is_channel_delivery d)) (update_where p f ds) = map (\<lambda>d. (dl_id d, is_channel_delivery d)) ds"
  by (rule map_update_where) (simp add: mild_def is_channel_delivery_def)

lemma update_delivery_profile [simp]: "mild f \<Longrightarrow> delivery_profile (update_delivery i f s) = delivery_profile s"
  by (simp add: delivery_profile_def update_delivery_def update_where_profile)

lemma get_delivery_Inr: "get_delivery s did = Inr d \<longleftrightarrow> find (\<lambda>d. dl_id d = did) (db_deliveries s) = Some d"
  by (auto simp: get_delivery_def split: option.splits)

lemma get_update_delivery:
  assumes "mild f"
  shows "get_delivery (update_delivery i f s) j =
     (if j = i then (case get_delivery s j of Inr d \<Rightarrow> Inr (f d) | Inl e \<Rightarrow> Inl e) else get_delivery s j)"
proof -
  have "find (\<lambda>d. dl_id d = j) (update_where (\<lambda>d. dl_id d = i) f (db_deliveries s)) =
     (if j = i then map_option f (find (\<lambda>d. dl_id d = j) (db_deliveries s)) else find (\<lambda>d. dl_id d = j) (db_deliveries s))"
    by (rule find_update_where_key) (use assms in \<open>simp add: mild_def\<close>)
  then show ?thesis by (auto simp: get_delivery_def update_delivery_def split: option.splits)
qed

text \<open>A send, in one equation.\<close>

definition sending_row :: "timestamp \<Rightarrow> delivery_row \<Rightarrow> delivery_row" where
  "sending_row now d = d\<lparr>dl_status := ''sending'', dl_attempt_count := dl_attempt_count d + 1,
     dl_last_error := None, dl_updated_at := now\<rparr>"

definition sent_row :: "int \<Rightarrow> timestamp \<Rightarrow> string result \<Rightarrow> delivery_row \<Rightarrow> delivery_row" where
  "sent_row max_attempts now r d =
     (case r of
        Inl exc \<Rightarrow> d\<lparr>dl_status := (if dl_attempt_count d \<ge> max_attempts then ''dead'' else ''failed''),
                     dl_last_error := Some (exn_msg exc), dl_updated_at := now\<rparr>
      | Inr mid \<Rightarrow> d\<lparr>dl_status := ''sent'', dl_platform_message_id := Some mid, dl_last_error := None, dl_updated_at := now\<rparr>)"

definition retryable :: "delivery_row \<Rightarrow> bool" where
  "retryable d \<longleftrightarrow> \<not> is_channel_delivery d \<and> (dl_status d = ''pending'' \<or> dl_status d = ''failed'')"

lemma mark_sending_Inr:
  "get_delivery s did = Inr d \<Longrightarrow> mark_delivery_sending now did s = Inr (sending_row now d,
     update_delivery did (\<lambda>x. x\<lparr>dl_status := ''sending'', dl_attempt_count := dl_attempt_count d + 1,
       dl_last_error := None, dl_updated_at := now\<rparr>) s)"
  by (simp add: mark_delivery_sending_def get_update_delivery sending_row_def Let_def)

definition send_row :: "int \<Rightarrow> timestamp \<Rightarrow> timestamp \<Rightarrow> string result \<Rightarrow> delivery_row \<Rightarrow> delivery_row \<Rightarrow> delivery_row" where
  "send_row m t t' r d x = sent_row m t' r (x\<lparr>dl_status := ''sending'', dl_attempt_count := dl_attempt_count d + 1,
     dl_last_error := None, dl_updated_at := t\<rparr>)"

lemma mild_send_row [simp]: "mild (send_row m t t' r d)"
  by (cases r) (simp_all add: mild_def send_row_def sent_row_def)

lemma send_row_self: "send_row m t t' r d d = sent_row m t' r (sending_row t d)"
  by (simp add: send_row_def sending_row_def)

lemma update_delivery_twice: "mild f \<Longrightarrow> update_delivery i g (update_delivery i f s) = update_delivery i (\<lambda>d. g (f d)) s"
  by (simp add: update_delivery_def update_where_def mild_def)

lemma mark_failed_Inr:
  "get_delivery s did = Inr d \<Longrightarrow> mark_delivery_failed now did (exn_msg e) (dl_attempt_count d \<ge> m) s =
     Inr (sent_row m now (Inl e) d, update_delivery did (\<lambda>x. x\<lparr>dl_status := (if dl_attempt_count d \<ge> m then ''dead'' else ''failed''),
            dl_last_error := Some (exn_msg e), dl_updated_at := now\<rparr>) s)"
  by (simp add: mark_delivery_failed_def get_update_delivery sent_row_def Let_def)

lemma mark_sent_Inr:
  "get_delivery s did = Inr d \<Longrightarrow> mark_delivery_sent now did mid s =
     Inr (sent_row m now (Inr mid) d, update_delivery did (\<lambda>x. sent_row m now (Inr mid) x) s)"
  by (simp add: mark_delivery_sent_def get_update_delivery sent_row_def Let_def)

lemma send_delivery_ok:
  assumes d: "get_delivery s did = Inr d" "retryable d" "bus_of (dl_platform d) = Inr adapter"
    and r: "adapter (dl_destination d) (dict_of (dl_payload d)) (dl_message_key d) = r"
  shows "send_delivery bus_of m t t' did s =
    Inr ((sent_row m t' r (sending_row t d), is_ok r), update_delivery did (send_row m t t' r d) s)"
proof -
  have g: "\<not> is_channel_delivery d" "\<not> (dl_status d \<noteq> ''pending'' \<and> dl_status d \<noteq> ''failed'')"
    using d(2) by (auto simp: retryable_def)
  let ?f = "\<lambda>x. x\<lparr>dl_status := ''sending'', dl_attempt_count := dl_attempt_count d + 1, dl_last_error := None, dl_updated_at := t\<rparr>"
  let ?s1 = "update_delivery did ?f s"
  have s1: "get_delivery ?s1 did = Inr (sending_row t d)" using d(1) by (simp add: get_update_delivery sending_row_def)
  have r': "adapter (dl_destination (sending_row t d)) (dict_of (dl_payload (sending_row t d))) (dl_message_key (sending_row t d)) = r"
    using r by (simp add: sending_row_def)
  have c: "dl_attempt_count (sending_row t d) = dl_attempt_count d + 1" by (simp add: sending_row_def)
  have start: "send_delivery bus_of m t t' did s = (case r of
      Inl exc \<Rightarrow> bindE (mark_delivery_failed t' did (exn_msg exc) (dl_attempt_count (sending_row t d) \<ge> m) ?s1)
                 (\<lambda>(failed, s2). Inr ((failed, False), s2))
    | Inr mid \<Rightarrow> bindE (mark_delivery_sent t' did mid ?s1) (\<lambda>(sent, s2). Inr ((sent, True), s2)))"
    unfolding send_delivery_eq d(1) bindE_simps d(3) if_not_P [OF g(1)] if_not_P [OF g(2)] mark_sending_Inr [OF d(1)] prod.case r' ..
  show ?thesis
  proof (cases r)
    case (Inl e)
    have u: "update_delivery did (\<lambda>x. x\<lparr>dl_status := (if dl_attempt_count (sending_row t d) \<ge> m then ''dead'' else ''failed''),
            dl_last_error := Some (exn_msg e), dl_updated_at := t'\<rparr>) ?s1 = update_delivery did (send_row m t t' r d) s"
      unfolding update_delivery_twice [OF mild_updates(1)] by (simp add: send_row_def [abs_def] sent_row_def Inl c)
    show ?thesis unfolding start Inl sum.case mark_failed_Inr [OF s1] bindE_simps prod.case u [unfolded Inl] by simp
  next
    case (Inr mid)
    have u: "update_delivery did (\<lambda>x. sent_row m t' (Inr mid) x) ?s1 = update_delivery did (send_row m t t' r d) s"
      unfolding update_delivery_twice [OF mild_updates(1)] by (simp add: send_row_def [abs_def] Inr)
    show ?thesis unfolding start Inr sum.case mark_sent_Inr [OF s1, of _ _ m] bindE_simps prod.case u [unfolded Inr] by simp
  qed
qed

lemma send_delivery_cases:
  assumes "send_delivery bus_of m t t' did s = Inr ((row, sent), s')"
  shows "\<exists>d adapter r. get_delivery s did = Inr d \<and> retryable d \<and> bus_of (dl_platform d) = Inr adapter \<and>
    r = adapter (dl_destination d) (dict_of (dl_payload d)) (dl_message_key d) \<and>
    row = sent_row m t' r (sending_row t d) \<and> sent = is_ok r \<and> s' = update_delivery did (send_row m t t' r d) s"
proof -
  from assms obtain d adapter where d: "get_delivery s did = Inr d" "retryable d" "bus_of (dl_platform d) = Inr adapter"
    by (auto simp: send_delivery_eq bindE_eq_Inr retryable_def split: if_splits)
  let ?r = "adapter (dl_destination d) (dict_of (dl_payload d)) (dl_message_key d)"
  from assms send_delivery_ok [of s did d bus_of adapter ?r m t t'] d show ?thesis by (intro exI [of _ d] exI [of _ adapter] exI [of _ ?r]) simp
qed

text \<open>
  A send beside other connections that leave its row alone. \<open>undisturbed f j\<close>: \<open>f\<close> keeps the delivery \<open>j\<close>.
\<close>

definition undisturbed :: "(db \<Rightarrow> db) \<Rightarrow> string \<Rightarrow> bool" where
  "undisturbed f j \<longleftrightarrow> (\<forall>s. get_delivery (f s) j = get_delivery s j)"

lemma case_error_Inr:
  "(case x of Inl e \<Rightarrow> (Inl e, f e) | Inr y \<Rightarrow> g y) = (Inr r, t) \<longleftrightarrow> (\<exists>y. x = Inr y \<and> g y = (Inr r, t))"
  by (cases x) auto

lemma send_while_quiet:
  assumes "send_delivery_while bus_of m t t' w did s = (Inr (row, sent), s')" "\<And>k. undisturbed (w k) did"
  shows "\<exists>d r. get_delivery s did = Inr d \<and> row = sent_row m t' r (sending_row t d) \<and> sent = is_ok r \<and> get_delivery s' did = Inr row"
    and "\<And>j. j \<noteq> did \<Longrightarrow> (\<And>k. undisturbed (w k) j) \<Longrightarrow> get_delivery s' j = get_delivery s j"
proof -
  note a = assms(1) [unfolded send_delivery_while_def case_error_Inr]
  from a obtain adapter y where "bindE (get_delivery s did) (\<lambda>d.
        if is_channel_delivery d then raise BusErr ''channel one-shot delivery cannot use generic send''
        else if dl_status d \<noteq> ''pending'' \<and> dl_status d \<noteq> ''failed'' then raise BusErr ''only pending/failed deliveries can be sent''
        else bus_of (dl_platform d)) = Inr adapter" and y: "mark_delivery_sending t did (w 0 s) = Inr y"
    and fy: "(case y of (sending, s1) \<Rightarrow>
        (case (case adapter (dl_destination sending) (dict_of (dl_payload sending)) (dl_message_key sending) of
            Inl exc \<Rightarrow> bindE (mark_delivery_failed t' did (exn_msg exc) (dl_attempt_count sending \<ge> m) (w 1 s1)) (\<lambda>(failed, s2). Inr ((failed, False), s2))
          | Inr mid \<Rightarrow> bindE (mark_delivery_sent t' did mid (w 1 s1)) (\<lambda>(sent, s2). Inr ((sent, True), s2))) of
          Inl e \<Rightarrow> (Inl e, w 1 s1) | Inr (r, s2) \<Rightarrow> (Inr r, s2))) = (Inr (row, sent), s')"
    by (elim exE conjE) (rule that)
  from this(1) obtain d where d: "get_delivery s did = Inr d" by (auto simp: bindE_eq_Inr)
  obtain sending s1 where ys: "y = (sending, s1)" by (cases y)
  note m = y [unfolded ys]
  from fy [unfolded ys prod.case case_error_Inr] have f: "(case adapter (dl_destination sending) (dict_of (dl_payload sending)) (dl_message_key sending) of
        Inl exc \<Rightarrow> bindE (mark_delivery_failed t' did (exn_msg exc) (dl_attempt_count sending \<ge> m) (w 1 s1)) (\<lambda>(failed, s2). Inr ((failed, False), s2))
      | Inr mid \<Rightarrow> bindE (mark_delivery_sent t' did mid (w 1 s1)) (\<lambda>(sent, s2). Inr ((sent, True), s2))) = Inr ((row, sent), s')"
    by auto
  let ?r = "adapter (dl_destination sending) (dict_of (dl_payload sending)) (dl_message_key sending)"
  have q: "get_delivery (w k x) did = get_delivery x did" for k x using assms(2) by (simp add: undisturbed_def)
  from mark_sending_Inr [of "w 0 s" did d t] m q d have s: "sending = sending_row t d"
    "s1 = update_delivery did (\<lambda>x. x\<lparr>dl_status := ''sending'', dl_attempt_count := dl_attempt_count d + 1,
       dl_last_error := None, dl_updated_at := t\<rparr>) (w 0 s)" by simp_all
  then have s1: "get_delivery (w 1 s1) did = Inr sending" using q d by (simp add: get_update_delivery sending_row_def)
  obtain g where g: "mild g" "s' = update_delivery did g (w 1 s1)" "row = sent_row m t' ?r sending" "g sending = row" "sent = is_ok ?r"
  proof (cases ?r)
    case (Inl e)
    from f have r: "row = sent_row m t' (Inl e) sending" "sent = False" "s' = update_delivery did (\<lambda>x. x\<lparr>dl_status := (if dl_attempt_count sending \<ge> m then ''dead'' else ''failed''),
            dl_last_error := Some (exn_msg e), dl_updated_at := t'\<rparr>) (w 1 s1)"
      unfolding Inl sum.case mark_failed_Inr [OF s1] bindE_simps by simp_all
    show ?thesis by (rule that [OF _ r(3)]) (simp_all add: r Inl sent_row_def)
  next
    case (Inr mid)
    from f have r: "row = sent_row m t' (Inr mid) sending" "sent" "s' = update_delivery did (\<lambda>x. sent_row m t' (Inr mid) x) (w 1 s1)"
      unfolding Inr sum.case mark_sent_Inr [OF s1, of _ _ m] bindE_simps by simp_all
    have "mild (\<lambda>x. sent_row m t' (Inr mid) x)" by (simp add: mild_def sent_row_def)
    then show ?thesis by (rule that [OF _ r(3)]) (simp_all only: r(1,2) Inr is_ok_simps)
  qed
  have row: "get_delivery s' did = Inr row"
    unfolding g(2) get_update_delivery [OF g(1)] s1 sum.case g(4) by simp
  show "\<exists>d r. get_delivery s did = Inr d \<and> row = sent_row m t' r (sending_row t d) \<and> sent = is_ok r \<and> get_delivery s' did = Inr row"
    using d g(3,5) s(1) row by blast
  show "get_delivery s' j = get_delivery s j" if "j \<noteq> did" "\<And>k. undisturbed (w k) j" for j
    using that by (simp add: g(2) s(2) get_update_delivery [OF g(1)] get_update_delivery [OF mild_updates(1)] undisturbed_def)
qed

end
