(* ===== verification/DeliverySafety.thy ===== *)
theory DeliverySafety
  imports Deliveries
begin

text \<open>
  What the delivery ledger guarantees: a channel message is posted once at most whatever
  crashes and retries happen, and what a pump does to each delivery.
\<close>

section \<open>One POST per channel delivery\<close>

text \<open>
  The system: the database, the channel deliveries that a sender has reserved and not yet
  posted, and the identifiers of the deliveries that were handed to an adapter, in order. A
  process may stop between any two of its commits, and other processes may act there: a send is one step,
  or its mark and POST (\<open>crash_in_send\<close>) and, later or never, its outcome (\<open>settle_sent\<close>, \<open>settle_failed\<close>).
\<close>

record world =
  w_db :: db
  w_claims :: "string list"
  w_posts :: "string list"

inductive world_step :: "world \<Rightarrow> world \<Rightarrow> bool" where
  send: "send_delivery bus_of m t t' did (w_db w) = Inr ((row, sent), s') \<Longrightarrow>
    world_step w (w\<lparr>w_db := s', w_posts := w_posts w @ [did]\<rparr>)"
| crash_in_send: "get_delivery (w_db w) did = Inr d \<Longrightarrow> retryable d \<Longrightarrow>
    mark_delivery_sending t did (w_db w) = Inr (row, s') \<Longrightarrow> posted \<in> {[], [did]} \<Longrightarrow>
    world_step w (w\<lparr>w_db := s', w_posts := w_posts w @ posted\<rparr>)"
| settle_sent: "mark_delivery_sent t did mid (w_db w) = Inr (row, s') \<Longrightarrow> world_step w (w\<lparr>w_db := s'\<rparr>)"
| settle_failed: "mark_delivery_failed t did error dead (w_db w) = Inr (row, s') \<Longrightarrow> world_step w (w\<lparr>w_db := s'\<rparr>)"
| recover: "recover_sending_deliveries t platform reason (w_db w) = Inr (rows, s') \<Longrightarrow> world_step w (w\<lparr>w_db := s'\<rparr>)"
| reserve: "reserve_channel_delivery u did t k q (w_db w) = Inr ((row, claimed), s') \<Longrightarrow>
    world_step w (w\<lparr>w_db := s', w_claims := (if claimed then dl_id row # w_claims w else w_claims w)\<rparr>)"
| post: "did \<in> set (w_claims w) \<Longrightarrow>
    world_step w (w\<lparr>w_claims := remove1 did (w_claims w), w_posts := w_posts w @ [did]\<rparr>)"
| crash_before_post: "world_step w (w\<lparr>w_claims := remove1 did (w_claims w)\<rparr>)"
| finish: "finish_channel_delivery u t did mid rejected (w_db w) = Inr (row, s') \<Longrightarrow> world_step w (w\<lparr>w_db := s'\<rparr>)"
| create: "create_delivery did t k a (w_db w) = Inr ((row, c), s') \<Longrightarrow> world_step w (w\<lparr>w_db := s'\<rparr>)"
| other: "db_deliveries s' = db_deliveries (w_db w) \<Longrightarrow> world_step w (w\<lparr>w_db := s'\<rparr>)"

definition world_inv :: "world \<Rightarrow> bool" where
  "world_inv w \<longleftrightarrow> distinct (map fst (delivery_profile (w_db w))) \<and>
     set (w_claims w) \<union> set (w_posts w) \<subseteq> fst ` set (delivery_profile (w_db w)) \<and>
     (\<forall>i. (i, True) \<in> set (delivery_profile (w_db w)) \<longrightarrow> count_list (w_posts w) i + count_list (w_claims w) i \<le> 1)"

lemma profile_cong: "db_deliveries s' = db_deliveries s \<Longrightarrow> delivery_profile s' = delivery_profile s"
  by (simp add: delivery_profile_def)

lemma profile_update_where:
  "mild f \<Longrightarrow> delivery_profile (s\<lparr>db_deliveries := update_where p f (db_deliveries s)\<rparr>) = delivery_profile s"
  by (simp add: delivery_profile_def update_where_profile)

lemma recover_profile:
  "recover_sending_deliveries t platform reason s = Inr (rows, s') \<Longrightarrow> delivery_profile s' = delivery_profile s"
proof -
  have "delivery_profile (fold (\<lambda>row. update_delivery (dl_id row) (\<lambda>d. d\<lparr>dl_status := ''pending'',
      dl_last_error := Some reason, dl_updated_at := t\<rparr>)) rs x) = delivery_profile x" for rs x
    by (induction rs arbitrary: x) simp_all
  then show "recover_sending_deliveries t platform reason s = Inr (rows, s') \<Longrightarrow> delivery_profile s' = delivery_profile s"
    by (auto simp: recover_sending_deliveries_def Let_def bindE_eq_Inr)
qed

lemma sending_profile: "mark_delivery_sending t did s = Inr (row, s') \<Longrightarrow> delivery_profile s' = delivery_profile s"
  by (auto simp: mark_delivery_sending_def Let_def bindE_eq_Inr)

lemma settle_profile:
  "mark_delivery_sent t did mid s = Inr (row, s') \<Longrightarrow> delivery_profile s' = delivery_profile s"
  "mark_delivery_failed t did error dead s = Inr (row, s') \<Longrightarrow> delivery_profile s' = delivery_profile s"
  by (auto simp: mark_delivery_sent_def mark_delivery_failed_def Let_def bindE_eq_Inr)

lemma get_delivery_profile: "get_delivery s did = Inr d \<Longrightarrow> (did, is_channel_delivery d) \<in> set (delivery_profile s)"
  by (auto simp: get_delivery_Inr delivery_profile_def dest!: find_Some_in)

lemma send_profile:
  assumes "send_delivery bus_of m t t' did s = Inr ((row, sent), s')"
  shows "delivery_profile s' = delivery_profile s \<and> (did, False) \<in> set (delivery_profile s)"
proof -
  from send_delivery_cases [OF assms] obtain d r where "get_delivery s did = Inr d" "retryable d"
      "s' = update_delivery did (send_row m t t' r d) s" by blast
  with get_delivery_profile [of s did d] show ?thesis by (simp add: retryable_def)
qed

lemma create_profile:
  assumes "create_delivery did t k a s = Inr ((row, c), s')"
  shows "\<exists>b. delivery_profile s' = delivery_profile s @ (if c then [(dl_id row, b)] else []) \<and>
    (c \<longrightarrow> dl_id row \<notin> fst ` set (delivery_profile s))"
  using assms by (auto simp: create_delivery_cases delivery_profile_def)

lemma append_event_deliveries: "append_event u t k a s = Inr ((e, c), s') \<Longrightarrow> db_deliveries s' = db_deliveries s"
  by (auto simp: append_event_cases)

lemma finish_profile:
  assumes "finish_channel_delivery u t did mid rejected s = Inr (row, s')"
  shows "delivery_profile s' = delivery_profile s"
proof -
  from assms obtain e c s1 k a where a: "append_event u t k a s = Inr ((e, c), s1)" and
    s': "s' = s1\<lparr>db_deliveries := update_where (\<lambda>d. dl_id d = did \<and> dl_status d = ''sending'')
           (\<lambda>d. d\<lparr>dl_status := (if rejected then ''dead'' else ''sent''), dl_platform_message_id := mid,
              dl_last_error := (if rejected then Some ''delivery_rejected'' else None), dl_updated_at := t\<rparr>) (db_deliveries s1)\<rparr>"
    unfolding finish_channel_delivery_def Let_def
    by (fastforce simp: bindE_eq_Inr split: if_splits option.splits prod.splits)
  have "delivery_profile s' = delivery_profile s1" unfolding s' by (rule profile_update_where) simp
  with profile_cong [OF append_event_deliveries [OF a]] show ?thesis by simp
qed

lemma reserve_profile:
  assumes "reserve_channel_delivery u did t k q s = Inr ((row, claimed), s')"
  shows "\<exists>b. delivery_profile s' = delivery_profile s @ (if claimed then [(dl_id row, b)] else []) \<and>
    (claimed \<longrightarrow> dl_id row \<notin> fst ` set (delivery_profile s))"
proof -
  from assms obtain prior where
    i: "inspect_channel_delivery s k (cr_fingerprint q) (cr_workspace_id q) (cr_platform q) (cr_channel_id q) = Inr prior"
    unfolding reserve_channel_delivery_def by blast
  show ?thesis
  proof (cases prior)
    case (Some x)
    with assms i show ?thesis by (auto simp: reserve_channel_delivery_def)
  next
    case None
    from assms i None obtain e s1 made s2 row' a b where
      a: "append_event u t (Some (k @ '':requested'')) a s = Inr ((e, True), s1)" and
      c: "create_delivery did t k b s1 = Inr ((row', True), s2)" and
      s': "s' = s2\<lparr>db_deliveries := update_where (\<lambda>d. dl_id d = dl_id row' \<and> dl_status d = ''pending'')
             (\<lambda>d. d\<lparr>dl_status := ''sending'', dl_attempt_count := dl_attempt_count d + 1, dl_updated_at := t\<rparr>) (db_deliveries s2)\<rparr>" and
      g: "get_delivery s' (dl_id row') = Inr row" "claimed"
      unfolding reserve_channel_delivery_def Let_def
      by (fastforce simp: bindE_eq_Inr split: if_splits prod.splits)
    have "delivery_profile s' = delivery_profile s2" unfolding s' by (rule profile_update_where) simp
    moreover have "dl_id row = dl_id row'" using g(1) by (auto simp: get_delivery_Inr dest!: find_Some_in)
    moreover have "delivery_profile s1 = delivery_profile s" using profile_cong [OF append_event_deliveries [OF a]] .
    moreover from create_profile [OF c] obtain b where "delivery_profile s2 = delivery_profile s1 @ [(dl_id row', b)]"
        "dl_id row' \<notin> fst ` set (delivery_profile s1)" by auto
    ultimately show ?thesis using g(2) by auto
  qed
qed


text \<open>A change of the database that keeps the profile, and one that adds a delivery.\<close>

lemma world_inv_same:
  "world_inv w \<Longrightarrow> delivery_profile s' = delivery_profile (w_db w) \<Longrightarrow> world_inv (w\<lparr>w_db := s'\<rparr>)"
  by (simp add: world_inv_def)

lemma world_inv_new:
  assumes "world_inv w" "delivery_profile s' = delivery_profile (w_db w) @ [(i, b)]" "i \<notin> fst ` set (delivery_profile (w_db w))"
  shows "world_inv (w\<lparr>w_db := s'\<rparr>)" "world_inv (w\<lparr>w_db := s', w_claims := i # w_claims w\<rparr>)"
proof -
  from assms(1,3) have n: "i \<notin> set (w_claims w)" "i \<notin> set (w_posts w)" unfolding world_inv_def by blast+
  then have z: "count_list (w_claims w) i = 0" "count_list (w_posts w) i = 0" by (simp_all add: count_list_0_iff)
  show "world_inv (w\<lparr>w_db := s'\<rparr>)" using assms z by (auto simp: world_inv_def)
  show "world_inv (w\<lparr>w_db := s', w_claims := i # w_claims w\<rparr>)" using assms z by (auto simp: world_inv_def)
qed

lemma world_inv_posts:
  assumes "world_inv w" "delivery_profile s' = delivery_profile (w_db w)" "(did, False) \<in> set (delivery_profile (w_db w))"
    "set ps \<subseteq> {did}"
  shows "world_inv (w\<lparr>w_db := s', w_posts := w_posts w @ ps\<rparr>)"
proof -
  have d: "(did, True) \<notin> set (delivery_profile (w_db w))"
    using assms(1,3) unfolding world_inv_def by (metis eq_key_imp_eq_value)
  have c: "count_list ps i = 0" if "(i, True) \<in> set (delivery_profile (w_db w))" for i
    using that d assms(4) by (auto simp: count_list_0_iff)
  have "set ps \<subseteq> fst ` set (delivery_profile (w_db w))" using assms(3,4) by force
  with assms(1,2) c show ?thesis by (auto simp: world_inv_def count_list_append)
qed

lemma count_remove1: "count_list (remove1 x xs) i = (if i = x \<and> x \<in> set xs then count_list xs i - 1 else count_list xs i)"
proof (induction xs)
  case (Cons a xs)
  have "x \<in> set xs \<Longrightarrow> 0 < count_list xs x" by (metis count_list_0_iff gr0I)
  with Cons show ?case by auto
qed simp

lemma world_inv_claims:
  assumes "world_inv w"
  shows "world_inv (w\<lparr>w_claims := remove1 did (w_claims w)\<rparr>)"
    and "did \<in> set (w_claims w) \<Longrightarrow> world_inv (w\<lparr>w_claims := remove1 did (w_claims w), w_posts := w_posts w @ [did]\<rparr>)"
proof -
  have sub: "set (remove1 did (w_claims w)) \<subseteq> set (w_claims w)" by (rule set_remove1_subset)
  have le: "count_list (remove1 did xs) i \<le> count_list xs i" for xs :: "string list" and i by (simp add: count_remove1)
  show "world_inv (w\<lparr>w_claims := remove1 did (w_claims w)\<rparr>)"
    using assms sub le unfolding world_inv_def by (auto intro: order_trans [OF add_left_mono])
  assume d: "did \<in> set (w_claims w)"
  have p: "0 < count_list (w_claims w) did" using d by (metis count_list_0_iff gr0I)
  have "count_list (w_posts w @ [did]) i + count_list (remove1 did (w_claims w)) i =
      count_list (w_posts w) i + count_list (w_claims w) i" for i
    using d p by (cases "i = did") (simp_all add: count_list_append count_remove1)
  moreover have "set (remove1 did (w_claims w)) \<union> set (w_posts w @ [did]) \<subseteq> set (w_claims w) \<union> set (w_posts w)"
    using d sub by auto
  ultimately show "world_inv (w\<lparr>w_claims := remove1 did (w_claims w), w_posts := w_posts w @ [did]\<rparr>)"
    using assms unfolding world_inv_def by (auto simp del: count_list_append)
qed

lemma world_step_inv: "world_step w w' \<Longrightarrow> world_inv w \<Longrightarrow> world_inv w'"
proof (induction rule: world_step.induct)
  case (send bus_of m t t' did w row sent s')
  from send_profile [OF send(1)] show ?case by (intro world_inv_posts [OF send(2)]) auto
next
  case (crash_in_send w did d t row s' posted)
  from get_delivery_profile [OF crash_in_send(1)] crash_in_send(2) have "(did, False) \<in> set (delivery_profile (w_db w))"
    by (simp add: retryable_def)
  with crash_in_send(4) show ?case by (intro world_inv_posts [OF crash_in_send(5) sending_profile [OF crash_in_send(3)]]) auto
next
  case (settle_sent t did mid w row s')
  from world_inv_same [OF settle_sent(2) settle_profile(1) [OF settle_sent(1)]] show ?case .
next
  case (settle_failed t did error dead w row s')
  from world_inv_same [OF settle_failed(2) settle_profile(2) [OF settle_failed(1)]] show ?case .
next
  case (recover t platform reason w rows s')
  from world_inv_same [OF recover(2) recover_profile [OF recover(1)]] show ?case .
next
  case (reserve u did t k q w row claimed s')
  from reserve_profile [OF reserve(1)] world_inv_new [OF reserve(2), of s' "dl_id row"] world_inv_same [OF reserve(2), of s']
  show ?case by (cases claimed) auto
next
  case (post did w)
  from world_inv_claims(2) [OF post(2,1)] show ?case .
next
  case (crash_before_post w did)
  from world_inv_claims(1) [OF crash_before_post] show ?case .
next
  case (finish u t did mid rejected w row s')
  from world_inv_same [OF finish(2) finish_profile [OF finish(1)]] show ?case .
next
  case (create did t k a w row c s')
  from create_profile [OF create(1)] world_inv_new [OF create(2), of s' "dl_id row"] world_inv_same [OF create(2), of s']
  show ?case by (cases c) auto
next
  case (other s' w)
  from world_inv_same [OF other(2) profile_cong [OF other(1)]] show ?case .
qed

definition world_start :: "world \<Rightarrow> bool" where
  "world_start w \<longleftrightarrow> db_deliveries (w_db w) = [] \<and> w_claims w = [] \<and> w_posts w = []"

interpretation world_machine: invariant_system world_start world_step world_inv
proof unfold_locales
  fix w assume "world_start w"
  then show "world_inv w" by (simp add: world_start_def world_inv_def delivery_profile_def)
qed (rule world_step_inv)

text \<open>
  C7: a channel message reaches its platform once at most: in every state that sends, recoveries,
  reservations, receipts and crashes at any point lead to, a channel delivery was handed to an adapter
  at most once, and a generic send refuses it.
\<close>

theorem channel_posted_once:
  assumes "world_start w0" "world_step\<^sup>*\<^sup>* w0 w" "d \<in> set (db_deliveries (w_db w))" "is_channel_delivery d"
  shows "count_list (w_posts w) (dl_id d) \<le> 1 \<and>
    send_delivery bus_of m t t' (dl_id d) (w_db w) = raise BusErr ''channel one-shot delivery cannot use generic send''"
proof -
  have inv: "world_inv w" by (rule world_machine.inv_reachable [OF assms(1,2)])
  from assms(3,4) have "(dl_id d, True) \<in> set (delivery_profile (w_db w))"
    by (force simp: delivery_profile_def)
  with inv have "count_list (w_posts w) (dl_id d) + count_list (w_claims w) (dl_id d) \<le> 1" unfolding world_inv_def by blast
  then have "count_list (w_posts w) (dl_id d) \<le> 1" by simp
  moreover have "distinct (map dl_id (db_deliveries (w_db w)))"
    using inv by (simp add: world_inv_def delivery_profile_def comp_def)
  then have "get_delivery (w_db w) (dl_id d) = Inr d" using assms(3) by (simp add: get_delivery_Inr find_key_iff)
  ultimately show ?thesis using assms(4) by (simp add: send_delivery_eq)
qed

definition sample_channel :: channel_request where
  "sample_channel = \<lparr>cr_actor = ''op'', cr_workspace_id = ''w1'', cr_platform = ''discord'', cr_channel_id = ''42'',
     cr_fingerprint = ''fp'', cr_payload = [(''text'', PyStr ''[multinexus-channel]'')]\<rparr>"

definition channel_row :: delivery_row where
  "channel_row = (delivery_of ''d1'' 9 ''m1'' \<lparr>nd_platform = ''discord'', nd_destination = ''42'',
     nd_payload = channel_payload sample_channel, nd_event_id = Some ''e9''\<rparr>)\<lparr>dl_status := ''sending'', dl_attempt_count := 1\<rparr>"

definition channel_db :: db where
  "channel_db = bound_db\<lparr>db_events := db_events bound_db @ [event_of ''e9'' 9 ''m1:requested''
      \<lparr>ne_event_type = ''channel.message.requested'', ne_actor = ''op'', ne_workspace_id = Some ''w1'',
       ne_target = Some ''discord:42'', ne_task_id = None, ne_causation_id = None,
       ne_payload = PyDict [(''purpose'', PyStr ''channel_io.v1''), (''fingerprint'', PyStr ''fp'')]\<rparr>],
     db_deliveries := [channel_row]\<rparr>"

lemma sample_reserve: "reserve_channel_delivery ''e9'' ''d1'' 9 ''m1'' sample_channel bound_db = Inr ((channel_row, True), channel_db)"
  by code_simp

theorem channel_posted_once_witness:
  "\<exists>w :: world. count_list (w_posts w) (dl_id channel_row) \<le> 1 \<and> w_posts w = [''d1''] \<and> channel_row \<in> set (db_deliveries (w_db w))"
proof -
  let ?w0 = "\<lparr>w_db = bound_db, w_claims = [], w_posts = []\<rparr>"
  let ?w1 = "?w0\<lparr>w_db := channel_db, w_claims := [''d1'']\<rparr>"
  let ?w2 = "?w1\<lparr>w_claims := [], w_posts := [''d1'']\<rparr>"
  have i: "dl_id channel_row = ''d1''" by (simp add: channel_row_def)
  have 0: "world_start ?w0" by (simp add: world_start_def bound_db_def bindings_db_def empty_db_def)
  have 1: "world_step ?w0 ?w1"
    using world_step.reserve [of "''e9''" "''d1''" 9 "''m1''" sample_channel ?w0 channel_row True channel_db] sample_reserve i by simp
  have 2: "world_step ?w1 ?w2" using world_step.post [of "''d1''" ?w1] by simp
  have run: "world_step\<^sup>*\<^sup>* ?w0 ?w2" by (rule rtranclp.rtrancl_into_rtrancl [of world_step, OF r_into_rtranclp [of world_step] 2]) (rule 1)
  have d: "channel_row \<in> set (db_deliveries (w_db ?w2))" by (simp add: channel_db_def)
  have ch: "is_channel_delivery channel_row" by code_simp
  have c: "count_list (w_posts ?w2) (dl_id channel_row) \<le> 1" using channel_posted_once [OF 0 run d ch] by blast
  show ?thesis by (rule exI [of _ ?w2]) (use c d in simp)
qed


section \<open>What a pump does\<close>

text \<open>What one send makes of a row.\<close>

definition pumped :: "delivery_row \<Rightarrow> delivery_row \<Rightarrow> bool" where
  "pumped d d' \<longleftrightarrow> dl_id d' = dl_id d \<and> dl_message_key d' = dl_message_key d \<and> dl_payload d' = dl_payload d \<and>
     dl_attempt_count d' = dl_attempt_count d + 1 \<and> dl_status d' \<in> {''sent'', ''failed'', ''dead''} \<and>
     (dl_status d' = ''failed'' \<longrightarrow> dl_attempt_count d' < 3) \<and> (dl_status d' = ''dead'' \<longrightarrow> 3 \<le> dl_attempt_count d')"

lemma sent_row_pumped: "pumped d (sent_row 3 t r (sending_row t d))"
  by (cases r) (auto simp: pumped_def sent_row_def sending_row_def)

lemma sent_row_status: "dl_status (sent_row m t r d) = ''sent'' \<longleftrightarrow> is_ok r"
  by (cases r) (simp_all add: sent_row_def)

lemma send_while_pumped:
  assumes "send_delivery_while bus_of 3 t t w did s = (Inr (row, sent), s')" "get_delivery s did = Inr d" "\<And>k. undisturbed (w k) did"
  shows "pumped d row \<and> sent = (dl_status row = ''sent'') \<and> get_delivery s' did = Inr row"
proof -
  from send_while_quiet(1) [OF assms(1,3)] assms(2) obtain r where
    "row = sent_row 3 t r (sending_row t d)" "sent = is_ok r" "get_delivery s' did = Inr row" by auto
  then show ?thesis using sent_row_pumped [of d t r] by (simp add: sent_row_status)
qed

lemma pump_loop_exact:
  assumes "pump_loop net clock w i ds acc s = (Inr p, s')" "distinct (map dl_id ds)"
    and "\<And>d. d \<in> set ds \<Longrightarrow> get_delivery s (dl_id d) = Inr d"
    and "\<And>d i k. d \<in> set ds \<Longrightarrow> undisturbed (w i k) (dl_id d)"
  shows "\<exists>out. pr_deliveries p = pr_deliveries acc @ out \<and> list_all2 pumped ds out \<and>
    pr_processed p = pr_processed acc \<and>
    pr_sent p = pr_sent acc + length (filter (\<lambda>d. dl_status d = ''sent'') out) \<and>
    pr_failed p = pr_failed acc + length (filter (\<lambda>d. dl_status d \<noteq> ''sent'') out) \<and>
    (\<forall>d \<in> set out. get_delivery s' (dl_id d) = Inr d) \<and>
    (\<forall>j. j \<notin> dl_id ` set ds \<and> (\<forall>i k. undisturbed (w i k) j) \<longrightarrow> get_delivery s' j = get_delivery s j)"
  using assms
proof (induction ds arbitrary: i acc s)
  case Nil
  then show ?case by (intro exI [of _ "[]"]) auto
next
  case (Cons d ds)
  let ?s = "w (Suc i) 0 s"
  from Cons.prems(1) obtain row sent s1 where
      send: "send_delivery_while (net i) 3 (clock i) (clock i) (\<lambda>k. w (Suc i) (Suc k)) (dl_id d) ?s = (Inr (row, sent), s1)"
    by (auto split: sum.splits prod.splits)
  let ?acc = "acc\<lparr>pr_deliveries := pr_deliveries acc @ [row], pr_sent := (if sent then Suc (pr_sent acc) else pr_sent acc),
                 pr_failed := (if sent then pr_failed acc else Suc (pr_failed acc))\<rparr>"
  have loop: "pump_loop net clock w (Suc i) ds ?acc s1 = (Inr p, s')" using Cons.prems(1) send by simp
  have q: "undisturbed (w i k) (dl_id d)" for i k using Cons.prems(4) by simp
  have quiet: "get_delivery ?s j = get_delivery s j" if "\<And>i k. undisturbed (w i k) j" for j
    using that by (simp add: undisturbed_def)
  have d: "get_delivery ?s (dl_id d) = Inr d" using Cons.prems(3) quiet [OF q] by simp
  note g = send_while_pumped [OF send d q]
  have keep: "get_delivery s1 j = get_delivery s j" if "j \<noteq> dl_id d" "\<And>i k. undisturbed (w i k) j" for j
    using send_while_quiet(2) [OF send q that(1)] that(2) quiet [OF that(2)] by simp
  have id: "dl_id row = dl_id d" using g by (simp add: pumped_def)
  have "get_delivery s1 (dl_id x) = Inr x" if "x \<in> set ds" for x
  proof -
    have "dl_id x \<noteq> dl_id d" using Cons.prems(2) imageI [OF that, of dl_id] by auto
    then show ?thesis using keep [of "dl_id x"] Cons.prems(3,4) [of x] that by simp
  qed
  from Cons.IH [OF loop _ this Cons.prems(4)] Cons.prems(2) obtain out where o: "pr_deliveries p = pr_deliveries ?acc @ out" "list_all2 pumped ds out"
    "pr_processed p = pr_processed ?acc" "pr_sent p = pr_sent ?acc + length (filter (\<lambda>d. dl_status d = ''sent'') out)"
    "pr_failed p = pr_failed ?acc + length (filter (\<lambda>d. dl_status d \<noteq> ''sent'') out)"
    "\<forall>d \<in> set out. get_delivery s' (dl_id d) = Inr d"
    "\<forall>j. j \<notin> dl_id ` set ds \<and> (\<forall>i k. undisturbed (w i k) j) \<longrightarrow> get_delivery s' j = get_delivery s1 j"
    by auto
  have "get_delivery s' (dl_id row) = Inr row" using o(7) Cons.prems(2) q id g by simp
  moreover have "get_delivery s' j = get_delivery s j" if "j \<notin> dl_id ` set (d # ds)" "\<And>i k. undisturbed (w i k) j" for j
    using o(7) that keep [of j] by simp
  ultimately show ?case using o g id Cons.prems(2) by (intro exI [of _ "row # out"]) auto
qed

text \<open>The rows that a pump is for: no channel delivery, and of the requested platform, or no audit sink when none is requested.\<close>

definition wanted :: "string option \<Rightarrow> delivery_row \<Rightarrow> bool" where
  "wanted platform d \<longleftrightarrow> \<not> is_channel_delivery d \<and>
     (case platform of None \<Rightarrow> dl_platform d \<noteq> ''none'' | Some q \<Rightarrow> q = [] \<or> dl_platform d = q)"

lemma retryable_wanted:
  assumes "0 \<le> limit"
  shows "retryable_deliveries r s platform limit = take (nat limit)
    (filter (\<lambda>d. wanted platform d \<and> dl_status d = ''pending'') (db_deliveries r) @
     filter (\<lambda>d. wanted platform d \<and> dl_status d = ''failed'') (db_deliveries s))"
proof -
  let ?scope = "\<lambda>ds. if platform = None then filter (\<lambda>d. dl_platform d \<noteq> ''none'') ds else ds"
  have q: "?scope (filter (\<lambda>d. \<not> is_channel_delivery d) (list_deliveries x (Some st) platform None)) =
      filter (\<lambda>d. wanted platform d \<and> dl_status d = st) (db_deliveries x)" if "st \<noteq> []" for x st
    using that by (cases platform) (auto simp: list_deliveries_def delivery_type_match_def wanted_def intro!: filter_cong)
  have "retryable_deliveries r s platform limit = take (nat limit)
      (?scope (filter (\<lambda>d. \<not> is_channel_delivery d) (list_deliveries r (Some ''pending'') platform None)) @
       ?scope (filter (\<lambda>d. \<not> is_channel_delivery d) (list_deliveries s (Some ''failed'') platform None)))"
    using assms by (simp add: retryable_deliveries_def slice_to_def Let_def)
  also have "\<dots> = take (nat limit)
    (filter (\<lambda>d. wanted platform d \<and> dl_status d = ''pending'') (db_deliveries r) @
     filter (\<lambda>d. wanted platform d \<and> dl_status d = ''failed'') (db_deliveries s))" by (simp only: q list.distinct simp_thms not_Cons_self2)
  finally show ?thesis .
qed

text \<open>
  C16: what a pump does, after the recovery if one is asked for, beside other connections that
  leave its rows alone. It takes the first \<open>limit\<close> of the pending rows of its scope, in their order, then
  the failed ones: every delivery of the requested platform, or all but the audit sink, and never a channel delivery.
  Each of them gets one more attempt and ends sent, failed (below three attempts) or dead (from three on), its
  reported row is the stored one, the counts add up, and no other delivery changes that the other connections
  leave alone.
\<close>

theorem pump_exact:
  assumes "pump_deliveries net clock w now platform limit recover s0 = (Inr p, s')" "0 \<le> limit"
    "if recover then recover_sending_deliveries now platform default_recover_reason s0 = Inr (x, s) else s = s0"
    "distinct (map dl_id (db_deliveries (w 0 0 s)))" "distinct (map dl_id (db_deliveries (w 0 1 (w 0 0 s))))"
  defines "rows \<equiv> take (nat limit) (filter (\<lambda>d. wanted platform d \<and> dl_status d = ''pending'') (db_deliveries (w 0 0 s)) @
     filter (\<lambda>d. wanted platform d \<and> dl_status d = ''failed'') (db_deliveries (w 0 1 (w 0 0 s))))"
  assumes "\<And>d i k. d \<in> set rows \<Longrightarrow> undisturbed (w i k) (dl_id d)"
  shows "list_all2 pumped rows (pr_deliveries p) \<and> pr_processed p = length rows \<and>
    pr_sent p = length (filter (\<lambda>d. dl_status d = ''sent'') (pr_deliveries p)) \<and> pr_sent p + pr_failed p = pr_processed p \<and>
    (\<forall>d \<in> set (pr_deliveries p). get_delivery s' (dl_id d) = Inr d) \<and>
    (\<forall>j. j \<notin> dl_id ` set rows \<and> (\<forall>i k. undisturbed (w i k) j) \<longrightarrow> get_delivery s' j = get_delivery s j)"
proof -
  let ?r = "w 0 0 s" and ?t = "w 0 1 (w 0 0 s)"
  have rows: "retryable_deliveries ?r ?t platform limit = rows" unfolding rows_def by (rule retryable_wanted) (rule assms(2))
  have loop: "pump_loop net clock w 0 rows \<lparr>pr_processed = length rows, pr_sent = 0, pr_failed = 0, pr_deliveries = []\<rparr> ?t = (Inr p, s')"
    using assms(1,3) rows by (cases recover) (auto simp: pump_deliveries_def Let_def)
  have in_rows: "d \<in> set rows \<Longrightarrow> d \<in> set (db_deliveries ?r) \<and> dl_status d = ''pending'' \<or> d \<in> set (db_deliveries ?t) \<and> dl_status d = ''failed''" for d
    unfolding rows_def by (auto dest: in_set_takeD)
  have same: "get_delivery ?t j = get_delivery ?r j \<and> get_delivery ?r j = get_delivery s j" if "\<And>i k. undisturbed (w i k) j" for j
    using that by (simp add: undisturbed_def)
  have stored: "get_delivery u (dl_id d) = Inr d" if "d \<in> set (db_deliveries u)" "distinct (map dl_id (db_deliveries u))" for u d
    using that by (simp add: get_delivery_Inr find_key_iff)
  have g: "get_delivery ?t (dl_id d) = Inr d" if d: "d \<in> set rows" for d
    using in_rows [OF d] same [OF assms(7) [OF d]] stored [OF _ assms(4)] stored [OF _ assms(5)] by metis
  have "distinct (map dl_id rows)"
  proof -
    have "inj_on dl_id (set rows)" using g by (intro inj_onI) (metis sum.inject(2))
    moreover have "distinct rows"
      unfolding rows_def using assms(4,5) by (intro distinct_take) (auto simp: distinct_map)
    ultimately show ?thesis by (simp add: distinct_map)
  qed
  from pump_loop_exact [OF loop this g assms(7)] obtain out where o: "pr_deliveries p = out" "list_all2 pumped rows out"
      "pr_processed p = length rows" "pr_sent p = length (filter (\<lambda>d. dl_status d = ''sent'') out)"
      "pr_failed p = length (filter (\<lambda>d. dl_status d \<noteq> ''sent'') out)"
      "\<forall>d \<in> set out. get_delivery s' (dl_id d) = Inr d"
      "\<forall>j. j \<notin> dl_id ` set rows \<and> (\<forall>i k. undisturbed (w i k) j) \<longrightarrow> get_delivery s' j = get_delivery ?t j"
    by auto
  have "length out = length rows" using o(2) by (simp add: list_all2_lengthD)
  then have "pr_sent p + pr_failed p = pr_processed p" using o sum_length_filter_compl [of "\<lambda>d. dl_status d = ''sent''" out] by simp
  moreover have "get_delivery s' j = get_delivery s j" if "j \<notin> dl_id ` set rows" "\<And>i k. undisturbed (w i k) j" for j
    using o(7) that same [OF that(2)] by simp
  ultimately show ?thesis using o by blast
qed

definition plain_delivery :: "string \<Rightarrow> string \<Rightarrow> delivery_row" where
  "plain_delivery i platform = delivery_of i 5 i \<lparr>nd_platform = platform, nd_destination = ''c1'',
     nd_payload = PyDict [(''text'', PyStr ''hi'')], nd_event_id = None\<rparr>"

definition queue_db :: db where
  "queue_db = empty_db\<lparr>db_deliveries := [plain_delivery ''d1'' ''kook'', plain_delivery ''d2'' ''stdout'']\<rparr>"

definition offline_env :: "string \<Rightarrow> string option" where
  "offline_env name = None"

definition no_http :: http_post where
  "no_http url headers body = raise BusErr ''http request failed''"

definition sample_net :: "nat \<Rightarrow> string \<Rightarrow> adapter result" where
  "sample_net i = bus_for_platform offline_env id no_http no_http"

text \<open>Another process registers a delivery while the first send goes on.\<close>

definition busy :: "nat \<Rightarrow> nat \<Rightarrow> db \<Rightarrow> db" where
  "busy i k s = (if i = 1 \<and> k = 1 then s\<lparr>db_deliveries := db_deliveries s @ [plain_delivery ''d3'' ''stdout'']\<rparr> else s)"

lemma busy_undisturbed: "j \<noteq> ''d3'' \<Longrightarrow> undisturbed (busy i k) j"
  by (auto simp: undisturbed_def busy_def get_delivery_def plain_delivery_def find_append split: option.splits)

theorem pump_exact_witness:
  "\<exists>p s'. pump_deliveries sample_net (\<lambda>_. 9) busy 9 (Some ''stdout'') 5 False queue_db = (Inr p, s') \<and>
     pr_sent p + pr_failed p = pr_processed p \<and> list_all2 pumped [plain_delivery ''d2'' ''stdout''] (pr_deliveries p)"
proof -
  let ?r = "pump_deliveries sample_net (\<lambda>_. 9) busy 9 (Some ''stdout'') 5 False queue_db"
  have "is_ok (fst ?r)" by code_simp
  then obtain p s' where r: "?r = (Inr p, s')" by (cases ?r) (auto simp: is_ok_iff)
  have b: "busy 0 0 queue_db = queue_db" "busy 0 1 queue_db = queue_db" by (simp_all add: busy_def)
  have rows: "take (nat 5) (filter (\<lambda>d. wanted (Some ''stdout'') d \<and> dl_status d = ''pending'') (db_deliveries queue_db) @
     filter (\<lambda>d. wanted (Some ''stdout'') d \<and> dl_status d = ''failed'') (db_deliveries queue_db)) = [plain_delivery ''d2'' ''stdout'']"
    by code_simp
  have d: "distinct (map dl_id (db_deliveries queue_db))" by (simp add: queue_db_def plain_delivery_def)
  have "undisturbed (busy i k) (dl_id (plain_delivery ''d2'' ''stdout''))" for i k
    by (rule busy_undisturbed) (simp add: plain_delivery_def)
  then have "list_all2 pumped [plain_delivery ''d2'' ''stdout''] (pr_deliveries p) \<and> pr_sent p + pr_failed p = pr_processed p"
    using pump_exact [OF r, of "[]" queue_db, unfolded b rows] d by simp
  with r show ?thesis by blast
qed

text \<open>
  One delivery whose platform has no configured bus blocks every other: the error of
  \<open>bus_for_platform\<close> is raised before the row is marked, so the row stays first in the queue, and
  the pump and the worker end with the error, whatever else is waiting, without sending anything.
\<close>

theorem pump_head_blocks:
  assumes "retryable_deliveries s s platform limit = d # ds" "get_delivery s (dl_id d) = Inr d" "retryable d"
    "dl_platform d = ''kook''" "os_env ''KOOK_BOT_TOKEN'' = None" "1 \<le> limit" "0 \<le> interval" "\<forall>m. max_iterations = Some m \<longrightarrow> 1 \<le> m"
    "env 0 = (\<lambda>i. bus_for_platform os_env uuid5 post channel_post, clock, now, id, \<lambda>_ _ x. x)"
  shows "run_delivery_worker env platform limit interval max_iterations False patience s =
    (raise BusErr ''KOOK_BOT_TOKEN is required for kook delivery'', s)"
proof -
  have "send_delivery_while (bus_for_platform os_env uuid5 post channel_post) 3 t t (\<lambda>_ x. x) (dl_id d) s =
      (raise BusErr ''KOOK_BOT_TOKEN is required for kook delivery'', s)" for t
    using assms(2-5) by (auto simp: send_delivery_while_def retryable_def bus_for_platform_def kook_from_env_def env_token_def)
  then have "pump_deliveries (\<lambda>i. bus_for_platform os_env uuid5 post channel_post) clock (\<lambda>_ _ x. x) now platform limit False s =
      (raise BusErr ''KOOK_BOT_TOKEN is required for kook delivery'', s)"
    using assms(1) by (simp add: pump_deliveries_def Let_def)
  then show ?thesis
    using assms(6-9) by (auto simp: run_delivery_worker_def not_less split: option.splits)
qed

theorem pump_head_blocks_witness:
  "run_delivery_worker (\<lambda>_. (sample_net, \<lambda>_. 9, 9, id, \<lambda>_ _ x. x)) None 5 1 (Some 3) False 10 queue_db =
     (raise BusErr ''KOOK_BOT_TOKEN is required for kook delivery'', queue_db)"
proof (rule pump_head_blocks [where d = "plain_delivery ''d1'' ''kook''" and ds = "[plain_delivery ''d2'' ''stdout'']"])
  show "retryable_deliveries queue_db queue_db None 5 = plain_delivery ''d1'' ''kook'' # [plain_delivery ''d2'' ''stdout'']" by code_simp
  show "get_delivery queue_db (dl_id (plain_delivery ''d1'' ''kook'')) = Inr (plain_delivery ''d1'' ''kook'')" by code_simp
  show "retryable (plain_delivery ''d1'' ''kook'')" by code_simp
  show "dl_platform (plain_delivery ''d1'' ''kook'') = ''kook''" by (simp add: plain_delivery_def)
qed (simp_all add: offline_env_def sample_net_def [abs_def])

section \<open>A delivery that keeps failing\<close>

fun send_times :: "(nat \<Rightarrow> string \<Rightarrow> adapter result) \<Rightarrow> (nat \<Rightarrow> timestamp) \<Rightarrow> string \<Rightarrow> nat \<Rightarrow> db \<Rightarrow> db" where
  "send_times net clock did 0 s = s"
| "send_times net clock did (Suc n) s =
     (let s' = send_times net clock did n s
      in case send_delivery (net n) 3 (clock n) (clock n) did s' of Inl _ \<Rightarrow> s' | Inr (_, s'') \<Rightarrow> s'')"

text \<open>
  C34: A delivery is not retried for ever: one whose sends all fail is dead after exactly three
  attempts, and every later send refuses it and changes nothing.
\<close>

theorem failing_delivery_dies:
  assumes "get_delivery s did = Inr d" "retryable d" "dl_attempt_count d = 0"
    and "\<And>i. \<exists>a. net i (dl_platform d) = Inr a \<and> (\<forall>x y z. \<not> is_ok (a x y z))"
  shows "\<exists>d'. get_delivery (send_times net clock did (3 + n) s) did = Inr d' \<and> dl_status d' = ''dead'' \<and> dl_attempt_count d' = 3"
proof -
  have step: "\<exists>d'. get_delivery (send_times net clock did (Suc k) s) did = Inr d' \<and> \<not> is_channel_delivery d' \<and>
      dl_platform d' = dl_platform d \<and> dl_attempt_count d' = dl_attempt_count e + 1 \<and>
      dl_status d' = (if dl_attempt_count d' \<ge> 3 then ''dead'' else ''failed'')"
    if e: "get_delivery (send_times net clock did k s) did = Inr e" "retryable e" "dl_platform e = dl_platform d" for k e
  proof -
    from assms(4) [of k] obtain a where a: "net k (dl_platform e) = Inr a" "\<And>x y z. \<not> is_ok (a x y z)" using e(3) by auto
    then obtain exc where r: "a (dl_destination e) (dict_of (dl_payload e)) (dl_message_key e) = Inl exc"
      by (metis is_ok_iff sum.exhaust)
    let ?e = "sent_row 3 (clock k) (Inl exc) (sending_row (clock k) e)"
    have "get_delivery (send_times net clock did (Suc k) s) did = Inr ?e"
      using send_delivery_ok [of "send_times net clock did k s" did e "net k" a "Inl exc" 3 "clock k" "clock k", OF e(1,2) a(1) r] e(1)
      by (simp add: Let_def get_update_delivery send_row_self)
    moreover have "\<not> is_channel_delivery ?e" using e(2) by (simp add: retryable_def is_channel_delivery_def sent_row_def sending_row_def)
    ultimately show ?thesis using e(3) by (simp add: sent_row_def sending_row_def)
  qed
  have r: "retryable x \<longleftrightarrow> dl_status x = ''failed''" if "\<not> is_channel_delivery x" "dl_status x \<in> {''failed'', ''dead''}" for x
    using that by (auto simp: retryable_def)
  have d0: "get_delivery (send_times net clock did 0 s) did = Inr d" using assms(1) by simp
  from step [OF d0 assms(2) refl] assms(3) obtain d1 where d1: "get_delivery (send_times net clock did (Suc 0) s) did = Inr d1"
    "retryable d1" "dl_platform d1 = dl_platform d" "dl_attempt_count d1 = 1" using r by auto
  from step [OF d1(1-3)] d1(4) obtain d2 where d2: "get_delivery (send_times net clock did (Suc (Suc 0)) s) did = Inr d2"
    "retryable d2" "dl_platform d2 = dl_platform d" "dl_attempt_count d2 = 2" using r by auto
  from step [OF d2(1-3)] d2(4) obtain d3 where d3: "get_delivery (send_times net clock did (Suc (Suc (Suc 0))) s) did = Inr d3"
    "\<not> is_channel_delivery d3" "dl_status d3 = ''dead''" "dl_attempt_count d3 = 3" by auto
  have "get_delivery (send_times net clock did (3 + k) s) did = Inr d3" for k
  proof (induction k)
    case 0
    then show ?case using d3(1) by (simp add: numeral_3_eq_3)
  next
    case (Suc k)
    then have "send_delivery (net (3 + k)) 3 (clock (3 + k)) (clock (3 + k)) did (send_times net clock did (3 + k) s) =
        raise BusErr ''only pending/failed deliveries can be sent''" using d3 by (simp add: send_delivery_eq)
    then show ?case using Suc unfolding add_Suc_right send_times.simps Let_def by simp
  qed
  then show ?thesis using d3 by blast
qed

theorem failing_delivery_dies_witness:
  "\<exists>d'. get_delivery (send_times (\<lambda>_ _. Inr (\<lambda>_ _ _. raise BusErr ''down'')) (\<lambda>_. 9) ''d1'' (3 + 4) queue_db) ''d1'' = Inr d' \<and>
     dl_status d' = ''dead'' \<and> dl_attempt_count d' = 3"
proof (rule failing_delivery_dies)
  show "get_delivery queue_db ''d1'' = Inr (plain_delivery ''d1'' ''kook'')" by code_simp
  show "retryable (plain_delivery ''d1'' ''kook'')" by code_simp
qed (simp_all add: plain_delivery_def)

end
