(* ===== verification/Jobs.thy ===== *)
theory Jobs
  imports Leases
begin

text \<open>
  \<^verbatim>\<open>src/coordinate/jobs.py\<close>: running a job as a subprocess of the control host (a POSIX host),
  cancelling it, retrying it, and the pump over the pending jobs. The file system, the
  subprocess and the result file it leaves are parameters; every commit is visible to other
  connections, so a function that commits more than once returns its result with the
  database as it is then.
\<close>

section \<open>Paths and quoting\<close>

text \<open>\<open>shlex.quote\<close>: unchanged when only safe characters, else in single quotes.\<close>

definition shell_safe :: "char \<Rightarrow> bool" where
  "shell_safe c = (is_alpha c \<or> is_digit c \<or> List.member ''@%_-+=:,./'' c)"

definition shlex_quote :: "string \<Rightarrow> string" where
  "shlex_quote s =
     (if s = [] then [CHR 0x27, CHR 0x27]
      else if list_all shell_safe s then s
      else CHR 0x27 # concat (map (\<lambda>c. if c = CHR 0x27 then [CHR 0x27, CHR 0x22, CHR 0x27, CHR 0x22, CHR 0x27] else [c]) s)
           @ [CHR 0x27])"

section \<open>Running a job\<close>

text \<open>
  What a run finds outside the database: paths, \<open>os.environ\<close>, and \<open>str.format_map\<close> (\<open>je_format
  template lookup\<close>, whose \<open>lookup\<close> gives the value of each placeholder).
\<close>

record job_host =
  je_exists :: "string \<Rightarrow> bool"
  je_is_dir :: "string \<Rightarrow> bool"
  je_expanduser :: "string \<Rightarrow> string"
  je_environ :: "(string \<times> string) list"
  je_format :: "string \<Rightarrow> (string \<Rightarrow> string) \<Rightarrow> string result"

definition job_payload :: "job_row \<Rightarrow> (string \<times> pyval) list result" where
  "job_payload j =
     (case jb_payload_json j of
        None \<Rightarrow> raise ValueErr ''JSONDecodeError''
      | Some v \<Rightarrow> (case as_dict v of None \<Rightarrow> raise JobErr ''payload_json must decode to an object'' | Some d \<Rightarrow> Inr d))"

definition nonempty :: "string option \<Rightarrow> bool" where
  "nonempty x = (case x of None \<Rightarrow> False | Some s \<Rightarrow> s \<noteq> [])"

definition resolve_cwd :: "job_host \<Rightarrow> string \<Rightarrow> string option \<Rightarrow> string \<Rightarrow> string result" where
  "resolve_cwd h workspace_path worktree_path strategy =
     bindE (if strategy = ''git_worktree'' \<and> \<not> nonempty worktree_path then
              raise JobErr ''runner uses git_worktree strategy but job has no worktree_path''
            else Inr (if nonempty worktree_path then path_str (the worktree_path) else path_str workspace_path)) (\<lambda>cwd.
       if \<not> je_exists h cwd then raise JobErr ''job working directory does not exist'' else Inr cwd)"

definition resolve_log_path :: "string \<Rightarrow> string \<Rightarrow> string option \<Rightarrow> string" where
  "resolve_log_path workspace_path job_id logs_path =
     (if nonempty logs_path then path_str (the logs_path)
      else fold (\<lambda>b a. path_join a b) [''.coordinator'', ''logs'', ''jobs'', job_id @ ''.log''] workspace_path)"

definition resolve_result_path :: "job_host \<Rightarrow> string \<Rightarrow> string \<Rightarrow> (string \<times> pyval) list \<Rightarrow> string" where
  "resolve_result_path h workspace_path job_id payload =
     (let configured = dget payload ''result_path'' in
      if truthy configured then
        (let p = je_expanduser h (path_str (py_str configured))
         in if path_root p = [] then path_join workspace_path p else p)
      else fold (\<lambda>b a. path_join a b) [''.coordinator'', ''results'', ''jobs'', job_id @ ''.json''] workspace_path)"

definition prepare_result_path :: "job_host \<Rightarrow> string \<Rightarrow> unit result" where
  "prepare_result_path h p =
     (if \<not> je_exists h p then Inr ()
      else if je_is_dir h p then raise JobErr ''job result_path points to a directory'' else Inr ())"

definition raw_placeholder_values :: "string \<Rightarrow> job_row \<Rightarrow> string \<Rightarrow> string \<Rightarrow> (string \<times> string option) list" where
  "raw_placeholder_values workspace_path j log_path result_path =
     [(''job_id'', Some (jb_id j)), (''workspace_id'', jb_workspace_id j), (''workspace_path'', Some workspace_path),
      (''task_id'', jb_task_id j), (''prompt_path'', jb_prompt_path j), (''branch'', jb_branch j),
      (''worktree_path'', jb_worktree_path j), (''logs_path'', Some log_path), (''result_path'', Some result_path)]"

definition or_empty :: "string option \<Rightarrow> string" where
  "or_empty x = (case x of None \<Rightarrow> [] | Some s \<Rightarrow> s)"

definition placeholder_values :: "string \<Rightarrow> job_row \<Rightarrow> string \<Rightarrow> string \<Rightarrow> (string \<times> string) list" where
  "placeholder_values workspace_path j log_path result_path =
     map (\<lambda>(k, v). (k, shlex_quote (or_empty v))) (raw_placeholder_values workspace_path j log_path result_path)"

text \<open>\<open>_QuotedFormat\<close>: a missing placeholder is two quotes.\<close>

definition quoted_format :: "(string \<times> string) list \<Rightarrow> string \<Rightarrow> string" where
  "quoted_format values k = (case map_of values k of None \<Rightarrow> [CHR 0x27, CHR 0x27] | Some v \<Rightarrow> v)"

definition render_command :: "job_host \<Rightarrow> string \<Rightarrow> string \<Rightarrow> job_row \<Rightarrow> string \<Rightarrow> string \<Rightarrow> string result" where
  "render_command h command workspace_path j log_path result_path =
     je_format h command (quoted_format (placeholder_values workspace_path j log_path result_path))"

text \<open>\<open>dict.update\<close> on an environment of strings.\<close>

definition env_update :: "(string \<times> string) list \<Rightarrow> (string \<times> string) list \<Rightarrow> (string \<times> string) list" where
  "env_update e d = foldl (\<lambda>acc (k, v). (k, v) # filter (\<lambda>(k', w). k' \<noteq> k) acc) e d"

definition build_env :: "job_host \<Rightarrow> pyval \<Rightarrow> string \<Rightarrow> job_row \<Rightarrow> string \<Rightarrow> string \<Rightarrow> (string \<times> string) list" where
  "build_env h env workspace_path j log_path result_path =
     env_update (env_update (je_environ h) (map (\<lambda>(k, v). (k, py_str v)) (dict_of env)))
       (map (\<lambda>(k, v). (''COORDINATOR_'' @ upper k, or_empty v))
          (raw_placeholder_values workspace_path j log_path result_path))"

record job_plan =
  pl_job :: job_row
  pl_workspace :: workspace
  pl_runner :: runner_row
  pl_cwd :: string
  pl_log_path :: string
  pl_result_path :: string
  pl_command :: string
  pl_env :: "(string \<times> string) list"

text \<open>What \<open>run_job\<close> reads and checks before its first write.\<close>

definition run_prepare :: "job_host \<Rightarrow> string \<Rightarrow> db \<Rightarrow> job_plan result" where
  "run_prepare h job_id s =
     bindE (get_job s job_id) (\<lambda>j.
     if jb_status j \<noteq> ''pending'' then raise JobErr ''only pending jobs can be run''
     else
       (case (case jb_workspace_id j of None \<Rightarrow> None | Some w \<Rightarrow> get_workspace s w) of
          None \<Rightarrow> raise JobErr ''unknown workspace for job''
        | Some ws \<Rightarrow>
          (case (case jb_runner_profile_id j of None \<Rightarrow> None | Some r \<Rightarrow> get_runner_profile s r) of
             None \<Rightarrow> raise JobErr ''unknown runner profile for job''
           | Some r \<Rightarrow>
             if rn_runner_type r \<noteq> ''generic_subprocess'' then
               raise JobErr ''only generic_subprocess is supported by job run''
             else
               bindE (resolve_cwd h (ws_path ws) (jb_worktree_path j) (rn_working_directory_strategy r)) (\<lambda>cwd.
               bindE (job_payload j) (\<lambda>payload.
               let log = resolve_log_path (ws_path ws) job_id (jb_logs_path j);
                   res = resolve_result_path h (ws_path ws) job_id payload in
               bindE (prepare_result_path h res) (\<lambda>_.
               bindE (render_command h (rn_command r) (ws_path ws) j log res) (\<lambda>command.
                 Inr \<lparr>pl_job = j, pl_workspace = ws, pl_runner = r, pl_cwd = cwd, pl_log_path = log,
                      pl_result_path = res, pl_command = command,
                      pl_env = build_env h (rn_env r) (ws_path ws) j log res\<rparr>)))))))"

text \<open>The two commits before the subprocess.\<close>

definition run_start ::
  "(string option \<Rightarrow> string \<Rightarrow> string) \<Rightarrow> string \<Rightarrow> timestamp \<Rightarrow> job_plan \<Rightarrow> db \<Rightarrow> db \<Rightarrow> event_row result \<times> db" where
  "run_start A uuid now p r s =
     (case mark_job_started A now (jb_id (pl_job p)) (pl_log_path p) r s of
        Inl e \<Rightarrow> (Inl e, s)
      | Inr (_, s1) \<Rightarrow>
          (case append_event uuid now None
                  \<lparr>ne_event_type = ''job.started'', ne_actor = ''runner'', ne_workspace_id = Some (ws_id (pl_workspace p)),
                   ne_target = None, ne_task_id = jb_task_id (pl_job p), ne_causation_id = None,
                   ne_payload = PyDict [(''job_id'', PyStr (jb_id (pl_job p))), (''runner_profile_id'', PyStr (rn_id (pl_runner p))),
                     (''command'', PyStr (rn_command (pl_runner p)))]\<rparr> s1 of
             Inl e \<Rightarrow> (Inl e, s1)
           | Inr ((e, _), s2) \<Rightarrow> (Inr e, s2)))"

text \<open>How the subprocess ended, and the result file it left (\<open>Parsed\<close>: its JSON value).\<close>

datatype run_outcome = Exited int | TimedOut
datatype result_file = NoFile | BlankFile | BadJson string | Parsed pyval

definition string_list_field :: "pyval \<Rightarrow> pyval result" where
  "string_list_field v =
     (case as_list v of
        None \<Rightarrow> raise JobErr ''AgentResponse field artifact_paths must be a list''
      | Some xs \<Rightarrow> Inr (PyList (map (\<lambda>x. PyStr (py_str x)) xs)))"

definition str_field :: "(string \<times> pyval) list \<Rightarrow> string \<Rightarrow> string \<Rightarrow> (string \<times> pyval) list" where
  "str_field v k k' = (if dget v k \<noteq> PyNone then [(k', PyStr (py_str (dget v k)))] else [])"

definition normalize_agent_response :: "(string \<times> pyval) list \<Rightarrow> (string \<times> pyval) list result" where
  "normalize_agent_response v =
     bindE (if dget v ''artifact_paths'' \<noteq> PyNone then
              bindE (string_list_field (dget v ''artifact_paths'')) (\<lambda>l. Inr [(''artifact_paths'', l)])
            else Inr []) (\<lambda>paths.
       Inr (str_field v ''status'' ''agent_status'' @ str_field v ''summary'' ''summary'' @ paths @
            str_field v ''branch'' ''branch'' @ str_field v ''commit'' ''commit'' @ str_field v ''pr'' ''pr'' @
            str_field v ''logs_path'' ''agent_logs_path''))"

text \<open>The response, if any, or an error message.\<close>

definition read_agent_response :: "result_file \<Rightarrow> (string \<times> pyval) list option \<times> string option" where
  "read_agent_response f =
     (case f of
        NoFile \<Rightarrow> (None, None)
      | BlankFile \<Rightarrow> (None, None)
      | BadJson msg \<Rightarrow> (None, Some msg)
      | Parsed v \<Rightarrow>
          (case as_dict v of
             None \<Rightarrow> (None, Some ''AgentResponse must be a JSON object'')
           | Some d \<Rightarrow>
               (case normalize_agent_response d of
                  Inr r \<Rightarrow> (Some r, None)
                | Inl e \<Rightarrow> (None, Some (exn_msg e)))))"

definition base_result :: "job_plan \<Rightarrow> event_row \<Rightarrow> run_outcome \<Rightarrow> (string \<times> pyval) list" where
  "base_result p started outcome =
     (case outcome of
        Exited code \<Rightarrow> [(''exit_code'', PyInt code), (''timeout'', PyBool False)]
      | TimedOut \<Rightarrow> [(''exit_code'', PyNone), (''timeout'', PyBool True),
          (''timeout_seconds'', opt_int (jb_timeout_seconds (pl_job p))), (''failure_reason'', PyStr ''timeout'')])
     @ [(''event_id'', PyStr (ev_id started)), (''logs_path'', PyStr (pl_log_path p)),
        (''result_path'', PyStr (pl_result_path p))]"

definition run_verdict :: "job_plan \<Rightarrow> event_row \<Rightarrow> run_outcome \<Rightarrow> result_file \<Rightarrow> string \<times> (string \<times> pyval) list" where
  "run_verdict p started outcome f =
     (let result = base_result p started outcome;
          status = (if outcome = Exited 0 then ''done'' else ''failed'') in
      case read_agent_response f of
        (_, Some err) \<Rightarrow>
          if err \<noteq> [] then (''failed'', dset ''agent_response_error'' (PyStr err) result) else (status, result)
      | (Some response, None) \<Rightarrow>
          if response = [] then (status, result)
          else ((if dget response ''agent_status'' \<in> {PyStr ''blocked'', PyStr ''failed'', PyStr ''declined''}
                 then ''failed'' else status), dupdate result response)
      | (None, None) \<Rightarrow> (status, result))"

definition run_finish ::
  "string \<Rightarrow> timestamp \<Rightarrow> job_plan \<Rightarrow> string \<Rightarrow> (string \<times> pyval) list \<Rightarrow> db \<Rightarrow> job_row result \<times> db" where
  "run_finish uuid now p status result s =
     (case mark_job_completed now (jb_id (pl_job p)) status (PyDict result) s of
        Inl e \<Rightarrow> (Inl e, s)
      | Inr (j, s1) \<Rightarrow>
          if jb_status j = ''cancelled'' then (Inr j, s1)
          else
            (case append_event uuid now None
                    \<lparr>ne_event_type = (if status = ''done'' then ''job.completed'' else ''job.failed''), ne_actor = ''runner'',
                     ne_workspace_id = Some (ws_id (pl_workspace p)), ne_target = None, ne_task_id = jb_task_id (pl_job p),
                     ne_causation_id = None,
                     ne_payload = PyDict (dupdate [(''job_id'', PyStr (jb_id (pl_job p))), (''status'', PyStr status)] result)\<rparr> s1 of
               Inl e \<Rightarrow> (Inl e, s1)
             | Inr (_, s2) \<Rightarrow> (Inr j, s2)))"

text \<open>
  The environment of one run: fresh identifiers, the clock, what other connections do between
  the checks and the start (up to the reading of the row and up to its update) and while the subprocess
  runs, how it ends and what it leaves.
\<close>

record run_env =
  re_uuid1 :: string
  re_uuid2 :: string
  re_now1 :: timestamp
  re_now2 :: timestamp
  re_before :: "db \<Rightarrow> db"
  re_between :: "db \<Rightarrow> db"
  re_during :: "db \<Rightarrow> db"
  re_outcome :: run_outcome
  re_file :: result_file

definition run_job ::
  "job_host \<Rightarrow> (string option \<Rightarrow> string \<Rightarrow> string) \<Rightarrow> run_env \<Rightarrow> string \<Rightarrow> db \<Rightarrow> job_row result \<times> db" where
  "run_job h A env job_id s0 =
     (case run_prepare h job_id s0 of
        Inl e \<Rightarrow> (Inl e, s0)
      | Inr p \<Rightarrow>
          (case run_start A (re_uuid1 env) (re_now1 env) p (re_before env s0) (re_between env (re_before env s0)) of
             (Inl e, s1) \<Rightarrow> (Inl e, s1)
           | (Inr started, s1) \<Rightarrow>
               (let (status, result) = run_verdict p started (re_outcome env) (re_file env)
                in run_finish (re_uuid2 env) (re_now2 env) p status result (re_during env s1))))"


section \<open>Cancelling and retrying\<close>

definition active_attempt_lease :: "db \<Rightarrow> string \<Rightarrow> int \<Rightarrow> lease_row option" where
  "active_attempt_lease s job token =
     find (\<lambda>l. lr_job_id l = job \<and> lr_attempt_token l = token \<and> lr_status l = Active) (db_leases s)"

text \<open>
  \<open>with conn:\<close> begins no transaction; the first write does. So the row of the job is read in \<open>s0\<close>,
  its active lease in \<open>s1\<close>, and the row that the first write is decided on (the lease when there is one,
  else the job again) in \<open>s2\<close>, each before any lock is held; the writes go to \<open>s\<close>, and what is read after the
  first of them is read there. The writes are one transaction: the lease, the row and the event, or nothing.
\<close>

definition cancel_lease ::
  "(string \<Rightarrow> string) \<Rightarrow> timestamp \<Rightarrow> string \<Rightarrow> string option \<Rightarrow> lease_row option \<Rightarrow> db \<Rightarrow> db \<Rightarrow> (job_row \<times> db) result" where
  "cancel_lease H now job_id reason lease s2 s =
     (case lease of
        None \<Rightarrow> mark_job_cancelled now job_id reason s2 s
      | Some l \<Rightarrow>
          bindE (release_attempt_lease_from H now (PyStr (lr_lease_id l)) job_id (PyInt (lr_attempt_token l))
                   (lr_agent_id l) (PyStr ''job_cancelled'') s2 s) (\<lambda>(_, s').
            mark_job_cancelled now job_id reason s' s'))"

definition cancel_job ::
  "(string \<Rightarrow> string) \<Rightarrow> string \<Rightarrow> timestamp \<Rightarrow> string \<Rightarrow> string option \<Rightarrow> string \<Rightarrow> db \<Rightarrow> db \<Rightarrow> db \<Rightarrow> db
   \<Rightarrow> ((job_row \<times> event_row \<times> bool) \<times> db) result" where
  "cancel_job H uuid now job_id reason actor s0 s1 s2 s =
     bindE (get_job s0 job_id) (\<lambda>j.
       if jb_status j = ''done'' \<or> jb_status j = ''failed'' then raise JobErr ''completed jobs cannot be cancelled''
       else
         bindE (cancel_lease H now job_id reason (active_attempt_lease s1 job_id (jb_attempt_count j)) s2 s) (\<lambda>(cancelled, t).
         bindE (append_event uuid now (Some (''job:'' @ job_id @ '':cancelled''))
             \<lparr>ne_event_type = ''job.cancelled'', ne_actor = actor, ne_workspace_id = jb_workspace_id j, ne_target = None,
              ne_task_id = jb_task_id j, ne_causation_id = None,
              ne_payload = PyDict [(''job_id'', PyStr job_id), (''status'', PyStr ''cancelled''),
                (''previous_status'', PyStr (jb_status j)), (''reason'', opt_str reason)]\<rparr> t) (\<lambda>((e, created), t').
           Inr ((cancelled, e, created), t'))))"

text \<open>\<open>is_routed_job\<close> of \<^verbatim>\<open>executor_routing.py\<close>.\<close>

definition is_routed_job :: "(string \<times> pyval) list \<Rightarrow> bool" where
  "is_routed_job payload = (dget payload ''routing_request'' \<noteq> PyNone \<or> dget payload ''routing_decision'' \<noteq> PyNone)"

definition retry_payload :: "string \<Rightarrow> string option \<Rightarrow> (string \<times> pyval) list \<Rightarrow> (string \<times> pyval) list" where
  "retry_payload job_id reason payload =
     (let p = dset ''retry_of_job_id'' (PyStr job_id) (dpop ''execution_context'' (dpop ''result_path'' payload))
      in if nonempty reason then dset ''retry_reason'' (PyStr (the reason)) p else p)"

definition retry_authoritative :: "db \<Rightarrow> job_row \<Rightarrow> bool" where
  "retry_authoritative s j =
     (nonempty (jb_worktree_path j) \<and>
      (case (case jb_workspace_id j of None \<Rightarrow> None | Some w \<Rightarrow> get_workspace s w) of
         None \<Rightarrow> False
       | Some ws \<Rightarrow> classify_worktree_raw_path (ws_path ws) (the (jb_worktree_path j)) = Host_native))"

definition retry_job ::
  "(string option \<Rightarrow> string \<Rightarrow> string) \<Rightarrow> string \<Rightarrow> string \<Rightarrow> timestamp \<Rightarrow> string \<Rightarrow> string option \<Rightarrow> string \<Rightarrow> db
   \<Rightarrow> (job_row \<times> job_row \<times> event_row) result \<times> db" where
  "retry_job A jid uuid now job_id reason actor s =
     (case bindE (get_job s job_id) (\<lambda>j.
             if jb_status j \<noteq> ''failed'' \<and> jb_status j \<noteq> ''cancelled'' then
               raise JobErr ''only failed or cancelled jobs can be retried''
             else bindE (job_payload j) (\<lambda>payload.
               if is_routed_job payload then raise JobErr ''routed_runtime_retry_requires_explicit_resubmission''
               else bindE (create_job A jid now
                   \<lparr>nj_workspace_id = jb_workspace_id j, nj_task_id = jb_task_id j, nj_runner_profile_id = jb_runner_profile_id j,
                    nj_assigned_agent = None, nj_prompt_path = jb_prompt_path j, nj_branch = jb_branch j,
                    nj_worktree_path = jb_worktree_path j, nj_terminal_session_id = None, nj_logs_path = None,
                    nj_timeout_seconds = jb_timeout_seconds j, nj_payload = PyDict (retry_payload job_id reason payload),
                    nj_authoritative_worktree_path = retry_authoritative s j\<rparr> s) (\<lambda>(retry, s1). Inr (j, retry, s1)))) of
        Inl e \<Rightarrow> (Inl e, s)
      | Inr (j, retry, s1) \<Rightarrow>
          (case append_event uuid now None
                  \<lparr>ne_event_type = ''job.retry_requested'', ne_actor = actor, ne_workspace_id = jb_workspace_id j,
                   ne_target = None, ne_task_id = jb_task_id j, ne_causation_id = None,
                   ne_payload = PyDict [(''source_job_id'', PyStr job_id), (''retry_job_id'', PyStr (jb_id retry)),
                     (''source_status'', PyStr (jb_status j)), (''runner_profile_id'', opt_str (jb_runner_profile_id j)),
                     (''reason'', opt_str reason)]\<rparr> s1 of
             Inl e \<Rightarrow> (Inl e, s1)
           | Inr ((e, _), s2) \<Rightarrow> (Inr (j, retry, e), s2)))"

section \<open>The pump\<close>

record jobs_pumped =
  jp_processed :: nat
  jp_done :: nat
  jp_failed :: nat
  jp_errors :: "(string \<times> string) list"
  jp_jobs :: "job_row list"

fun pump_jobs_loop ::
  "(nat \<Rightarrow> job_host \<times> run_env) \<Rightarrow> (string option \<Rightarrow> string \<Rightarrow> string) \<Rightarrow> nat \<Rightarrow> job_row list \<Rightarrow> jobs_pumped \<Rightarrow> db
   \<Rightarrow> jobs_pumped result \<times> db" where
  "pump_jobs_loop envs A i [] acc s = (Inr acc, s)"
| "pump_jobs_loop envs A i (j # js) acc s =
     (case run_job (fst (envs i)) A (snd (envs i)) (jb_id j) s of
        (Inl e, s') \<Rightarrow>
          if exn_cls e = JobErr then
            pump_jobs_loop envs A (Suc i) js (acc\<lparr>jp_errors := jp_errors acc @ [(jb_id j, exn_msg e)]\<rparr>) s'
          else (Inl e, s')
      | (Inr r, s') \<Rightarrow>
          pump_jobs_loop envs A (Suc i) js
            (acc\<lparr>jp_jobs := jp_jobs acc @ [r],
                 jp_done := (if jb_status r = ''done'' then Suc (jp_done acc) else jp_done acc),
                 jp_failed := (if jb_status r = ''failed'' then Suc (jp_failed acc) else jp_failed acc)\<rparr>) s')"

definition pump_jobs ::
  "(nat \<Rightarrow> job_host \<times> run_env) \<Rightarrow> (string option \<Rightarrow> string \<Rightarrow> string) \<Rightarrow> string option \<Rightarrow> int \<Rightarrow> db \<Rightarrow> jobs_pumped result \<times> db" where
  "pump_jobs envs A workspace_id limit s =
     (if limit < 1 then (raise JobErr ''limit must be at least 1'', s)
      else
        let pending = take (nat limit) (list_jobs s workspace_id (Some ''pending''))
        in pump_jobs_loop envs A 0 pending
             \<lparr>jp_processed = length pending, jp_done = 0, jp_failed = 0, jp_errors = [], jp_jobs = []\<rparr> s)"

section \<open>Quoting\<close>

text \<open>
  How a POSIX shell reads a word made of quoted and unquoted parts: single quotes take
  everything literally, and so do double quotes for the characters that occur here.
\<close>

fun sh_word :: "char option \<Rightarrow> string \<Rightarrow> string option" where
  "sh_word None [] = Some []"
| "sh_word (Some q) [] = None"
| "sh_word None (c # s) =
     (if c = CHR 0x27 \<or> c = CHR 0x22 then sh_word (Some c) s
      else if shell_safe c then map_option ((#) c) (sh_word None s) else None)"
| "sh_word (Some q) (c # s) =
     (if c = q then sh_word None s
      else if q = CHR 0x22 \<and> \<not> shell_safe c \<and> c \<noteq> CHR 0x27 then None
      else map_option ((#) c) (sh_word (Some q) s))"

lemma sh_word_safe: "list_all shell_safe s \<Longrightarrow> sh_word None (s @ t) = map_option ((@) s) (sh_word None t)"
proof (induction s)
  case (Cons c s)
  have "\<not> shell_safe (CHR 0x27)" "\<not> shell_safe (CHR 0x22)" by code_simp+
  with Cons have "c \<noteq> CHR 0x27" "c \<noteq> CHR 0x22" by auto
  with Cons show ?case by (cases "sh_word None t") auto
qed (cases "sh_word None t", auto)

lemma sh_word_quoted:
  "sh_word (Some (CHR 0x27)) (concat (map (\<lambda>c. if c = CHR 0x27 then [CHR 0x27, CHR 0x22, CHR 0x27, CHR 0x22, CHR 0x27] else [c]) s)
     @ [CHR 0x27]) = Some s"
  by (induction s) auto

text \<open>
  \<open>shlex.quote\<close> cannot be broken out of: whatever a placeholder value contains, spaces, quotes,
  dollar signs or semicolons, the shell reads its quoted form as one word and that word is the value.
\<close>

theorem shlex_quote_word: "sh_word None (shlex_quote s) = Some s"
proof (cases "s \<noteq> [] \<and> list_all shell_safe s")
  case True
  then show ?thesis using sh_word_safe [of s "[]"] by (simp add: shlex_quote_def)
next
  case False
  then show ?thesis using sh_word_quoted [of s] by (auto simp: shlex_quote_def)
qed

end
