(* ===== verification/JobSafety.thy ===== *)
theory JobSafety
  imports Jobs LeaseSafety
begin

text \<open>
  The life of a job: what a run records, what a cancellation guarantees with the lease of the
  attempt, what a retry copies, and that a run starts from a stale check.
\<close>

section \<open>Runs\<close>

lemma run_prepare_Inr:
  assumes "run_prepare h job_id s = Inr p"
  shows "get_job s job_id = Inr (pl_job p) \<and> jb_status (pl_job p) = ''pending'' \<and> jb_id (pl_job p) = job_id \<and>
    get_workspace s (ws_id (pl_workspace p)) = Some (pl_workspace p)"
proof -
  from assms obtain j where j: "get_job s job_id = Inr j" "jb_status j = ''pending''"
    unfolding run_prepare_def by (auto split: if_splits)
  obtain ws where ws: "(case jb_workspace_id j of None \<Rightarrow> None | Some w \<Rightarrow> get_workspace s w) = Some ws"
    using assms j by (cases "case jb_workspace_id j of None \<Rightarrow> None | Some w \<Rightarrow> get_workspace s w") (auto simp: run_prepare_def)
  obtain r where r: "(case jb_runner_profile_id j of None \<Rightarrow> None | Some r \<Rightarrow> get_runner_profile s r) = Some r"
    using assms j ws by (cases "case jb_runner_profile_id j of None \<Rightarrow> None | Some r \<Rightarrow> get_runner_profile s r")
      (auto simp: run_prepare_def)
  from assms j ws r have p: "pl_job p = j" "pl_workspace p = ws"
    by (auto simp: run_prepare_def Let_def bindE_eq_Inr split: if_splits)
  have "jb_id j = job_id" using j(1) by (auto simp: get_job_Inr dest: find_job_id)
  moreover have "get_workspace s (ws_id ws) = Some ws"
  proof -
    from ws obtain w where w: "get_workspace s w = Some ws" by (auto split: option.splits)
    then have "ws_id ws = w" by (auto simp: get_workspace_def dest: find_Some_in)
    with w show ?thesis by simp
  qed
  ultimately show ?thesis using j p by simp
qed


lemma find_update_where_sub:
  assumes "\<And>r. key (f r) = key r"
  shows "find (\<lambda>r. key r = k) (update_where p f rows) = map_option (\<lambda>r. if p r then f r else r) (find (\<lambda>r. key r = k) rows)"
  by (induction rows) (auto simp: update_where_def assms)

definition job_pk :: "db \<Rightarrow> bool" where
  "job_pk s \<longleftrightarrow> distinct (map jb_id (db_jobs s))"

lemma mark_job_completed_cases:
  assumes "mark_job_completed now jid status result s = Inr (j, s')" "job_pk s"
  shows "\<exists>x. find_job s jid = Some x \<and> status \<in> {''done'', ''failed''} \<and>
    (jb_status x = ''running'' \<and> find_job s' jid = Some j \<and>
       j = x\<lparr>jb_status := status, jb_result_json := Some (json_col result), jb_completed_at := Some now, jb_updated_at := now\<rparr> \<or>
     jb_status x = ''cancelled'' \<and> j = x \<and> s' = s)"
proof -
  let ?p = "\<lambda>j. jb_id j = jid \<and> jb_status j = ''running''"
  let ?f = "\<lambda>j. j\<lparr>jb_status := status, jb_result_json := Some (json_col result), jb_completed_at := Some now, jb_updated_at := now\<rparr>"
  let ?s = "s\<lparr>db_jobs := update_where ?p ?f (db_jobs s)\<rparr>"
  have st: "status \<in> {''done'', ''failed''}" using assms(1) by (auto simp: mark_job_completed_def split: if_splits)
  have fj: "find_job ?s jid = map_option (\<lambda>j. if ?p j then ?f j else j) (find_job s jid)"
    unfolding find_job_def by simp (rule find_update_where_sub, simp)
  show ?thesis
  proof (cases "rowcount ?p (db_jobs s) = 0")
    case True
    then have "update_where ?p ?f (db_jobs s) = db_jobs s" unfolding rowcount_0_iff by (intro update_where_none) blast
    then have same: "?s = s" by simp
    from True have "jb_status x \<noteq> ''running''" if "find_job s jid = Some x" for x
      using find_job_id [OF that] unfolding rowcount_0_iff by blast
    with assms(1) st True show ?thesis
      by (auto simp: mark_job_completed_def Let_def same [simplified] bindE_eq_Inr get_job_Inr split: if_splits)
  next
    case False
    then obtain x where x: "x \<in> set (db_jobs s)" "?p x" unfolding rowcount_0_iff by blast
    then have "find_job s jid = Some x" using assms(2) unfolding find_job_def job_pk_def by (simp add: find_key_iff)
    with assms(1) st False x fj show ?thesis
      by (auto simp: mark_job_completed_def Let_def bindE_eq_Inr get_job_Inr split: if_splits)
  qed
qed

lemma append_event_jobs: "append_event u t k a s = Inr ((e, c), s') \<Longrightarrow> db_jobs s' = db_jobs s \<and> db_leases s' = db_leases s \<and>
    db_capacity s' = db_capacity s"
  by (auto simp: append_event_cases)

text \<open>When a run counts as done.\<close>

definition good_run :: "run_outcome \<Rightarrow> result_file \<Rightarrow> bool" where
  "good_run outcome f \<longleftrightarrow> outcome = Exited 0 \<and>
     (case f of NoFile \<Rightarrow> True | BlankFile \<Rightarrow> True | BadJson msg \<Rightarrow> msg = []
      | Parsed v \<Rightarrow> (\<exists>d. v = PyDict d \<and> (dget d ''artifact_paths'' = PyNone \<or> (\<exists>xs. dget d ''artifact_paths'' = PyList xs)) \<and>
          (dget d ''status'' = PyNone \<or> py_str (dget d ''status'') \<notin> {''blocked'', ''failed'', ''declined''})))"

lemma dget_append: "dget (xs @ ys) k = (if k \<in> dkeys xs then dget xs k else dget ys k)"
proof (induction xs)
  case (Cons a xs)
  then show ?case by (cases a) auto
qed simp

lemma str_field_get: "dget (str_field v k k') x = (if x = k' \<and> dget v k \<noteq> PyNone then PyStr (py_str (dget v k)) else PyNone)"
  "dkeys (str_field v k k') = (if dget v k \<noteq> PyNone then {k'} else {})"
  by (auto simp: str_field_def)

lemma normalize_status:
  assumes "normalize_agent_response d = Inr r"
  shows "dget r ''agent_status'' = (if dget d ''status'' = PyNone then PyNone else PyStr (py_str (dget d ''status'')))"
proof -
  from assms obtain paths where
      p: "(if dget d ''artifact_paths'' \<noteq> PyNone then
              bindE (string_list_field (dget d ''artifact_paths'')) (\<lambda>l. Inr [(''artifact_paths'', l)])
            else Inr []) = Inr paths"
    and r: "r = str_field d ''status'' ''agent_status'' @ str_field d ''summary'' ''summary'' @ paths @
            str_field d ''branch'' ''branch'' @ str_field d ''commit'' ''commit'' @ str_field d ''pr'' ''pr'' @
            str_field d ''logs_path'' ''agent_logs_path''"
    unfolding normalize_agent_response_def by blast
  from p have "dget paths ''agent_status'' = PyNone" by (auto split: if_splits)
  with r show ?thesis by (cases "dget d ''status'' = PyNone") (simp_all add: dget_append str_field_get)
qed

lemma normalize_ok:
  "(\<exists>r. normalize_agent_response d = Inr r) \<longleftrightarrow> dget d ''artifact_paths'' = PyNone \<or> (\<exists>xs. dget d ''artifact_paths'' = PyList xs)"
  by (cases "dget d ''artifact_paths''") (auto simp: normalize_agent_response_def string_list_field_def)

lemma normalize_error: "normalize_agent_response d = Inl e \<Longrightarrow> exn_msg e \<noteq> []"
  by (auto simp: normalize_agent_response_def string_list_field_def bindE_eq_Inl split: if_splits option.splits)

lemma run_verdict_done:
  "fst (run_verdict p e outcome f) = ''done'' \<longleftrightarrow> good_run outcome f"
proof (cases f)
  case (Parsed v)
  show ?thesis
  proof (cases "as_dict v")
    case None
    then show ?thesis by (cases v) (auto simp: Parsed run_verdict_def read_agent_response_def good_run_def)
  next
    case (Some d)
    then have v: "v = PyDict d" by simp
    show ?thesis
    proof (cases "normalize_agent_response d")
      case (Inl x)
      then have "\<not> (dget d ''artifact_paths'' = PyNone \<or> (\<exists>xs. dget d ''artifact_paths'' = PyList xs))"
        using normalize_ok [of d] by auto
      then show ?thesis using Inl normalize_error [OF Inl]
        by (auto simp: Parsed v run_verdict_def read_agent_response_def good_run_def Let_def)
    next
      case (Inr r)
      then have ok: "dget d ''artifact_paths'' = PyNone \<or> (\<exists>xs. dget d ''artifact_paths'' = PyList xs)"
        using normalize_ok [of d] by auto
      show ?thesis using ok normalize_status [OF Inr]
        by (auto simp: Parsed v Inr run_verdict_def read_agent_response_def good_run_def Let_def)
    qed
  qed
qed (auto simp: run_verdict_def read_agent_response_def good_run_def Let_def)

lemma run_verdict_status: "fst (run_verdict p e outcome f) \<in> {''done'', ''failed''}"
  by (auto simp: run_verdict_def Let_def split: prod.splits option.splits)


text \<open>
  A run that returns normally records what happened: unless the job was cancelled meanwhile,
  the row that it leaves is done exactly when the command exited with 0 and the agent's response is
  well formed and does not say blocked, failed or declined, and is failed otherwise; a
  job that was cancelled while its command ran stays cancelled, its row untouched and no event added.
\<close>

theorem run_job_verdict:
  assumes "run_job h A env jid s = (Inr j, s')" "job_pk (re_during env (snd (run_start A (re_uuid1 env) (re_now1 env) p (re_before env s) (re_between env (re_before env s)))))"
    and p: "run_prepare h jid s = Inr p"
  shows "let s2 = re_during env (snd (run_start A (re_uuid1 env) (re_now1 env) p (re_before env s) (re_between env (re_before env s)))) in
    find_job s' jid = Some j \<and>
    (\<exists>x. find_job s2 jid = Some x \<and>
      (jb_status x = ''running'' \<and> jb_status j = (if good_run (re_outcome env) (re_file env) then ''done'' else ''failed'') \<and>
         jb_attempt_count j = jb_attempt_count x \<or>
       jb_status x = ''cancelled'' \<and> j = x \<and> s' = s2))"
proof -
  obtain r s1 where st: "run_start A (re_uuid1 env) (re_now1 env) p (re_before env s) (re_between env (re_before env s)) = (r, s1)" by (rule prod.exhaust)
  with assms(1) p obtain e where r: "r = Inr e" by (cases r) (auto simp: run_job_def)
  obtain status result where v: "run_verdict p e (re_outcome env) (re_file env) = (status, result)" by (rule prod.exhaust)
  let ?s2 = "re_during env s1"
  have id: "jb_id (pl_job p) = jid" using run_prepare_Inr [OF p] by simp
  from assms(1) p st r v have f: "run_finish (re_uuid2 env) (re_now2 env) p status result ?s2 = (Inr j, s')"
    by (simp add: run_job_def)
  then obtain s3 where m: "mark_job_completed (re_now2 env) jid status (PyDict result) ?s2 = Inr (j, s3)"
    and s': "s' = s3 \<and> jb_status j = ''cancelled'' \<or> jb_status j \<noteq> ''cancelled'' \<and> db_jobs s' = db_jobs s3"
    by (auto simp: run_finish_def id split: sum.splits if_splits dest!: append_event_jobs)
  have pk: "job_pk ?s2" using assms(2) st by simp
  have vs: "status = (if good_run (re_outcome env) (re_file env) then ''done'' else ''failed'')"
    using run_verdict_done [of p e "re_outcome env" "re_file env"] run_verdict_status [of p e "re_outcome env" "re_file env"] v by auto
  from mark_job_completed_cases [OF m pk] obtain x where x: "find_job ?s2 jid = Some x" "status \<in> {''done'', ''failed''}"
    "jb_status x = ''running'' \<and> find_job s3 jid = Some j \<and>
       j = x\<lparr>jb_status := status, jb_result_json := Some (json_col (PyDict result)), jb_completed_at := Some (re_now2 env),
             jb_updated_at := re_now2 env\<rparr> \<or>
     jb_status x = ''cancelled'' \<and> j = x \<and> s3 = ?s2" by blast
  have fs: "find_job s' jid = find_job s3 jid" using s' by (auto simp: find_job_def)
  from x(3) show ?thesis
  proof
    assume c: "jb_status x = ''running'' \<and> find_job s3 jid = Some j \<and>
       j = x\<lparr>jb_status := status, jb_result_json := Some (json_col (PyDict result)), jb_completed_at := Some (re_now2 env),
             jb_updated_at := re_now2 env\<rparr>"
    then have "jb_status j = status" "jb_attempt_count j = jb_attempt_count x" by simp_all
    with c x(1) fs vs show ?thesis by (simp add: st)
  next
    assume c: "jb_status x = ''cancelled'' \<and> j = x \<and> s3 = ?s2"
    then have "s' = s3" using s' by auto
    with c x(1) fs show ?thesis by (simp add: st)
  qed
qed

lemma run_start_pk: "job_pk s \<Longrightarrow> job_pk (snd (run_start A u t p r s))"
proof -
  assume pk: "job_pk s"
  have up: "job_pk (update_job i f s)" if "\<And>j. jb_id (f j) = jb_id j" for i f
    using pk that by (simp add: job_pk_def update_job_def map_update_where)
  have m: "job_pk s1" if "mark_job_started A t i l r s = Inr (j, s1)" for i l j s1
    using that up by (auto simp: mark_job_started_def Let_def bindE_eq_Inr)
  show ?thesis
  proof (cases "mark_job_started A t (jb_id (pl_job p)) (pl_log_path p) r s")
    case (Inl e)
    then show ?thesis using pk by (simp add: run_start_def)
  next
    case (Inr y)
    obtain j s1 where y: "y = (j, s1)" by (cases y)
    have "job_pk s1" by (rule m [OF Inr [unfolded y]])
    then show ?thesis using Inr y append_event_jobs
      by (auto simp: run_start_def job_pk_def split: sum.splits)
  qed
qed

definition quiet_host :: job_host where
  "quiet_host = \<lparr>je_exists = (\<lambda>p. p = ''/srv/ws''), je_is_dir = (\<lambda>_. False), je_expanduser = id, je_environ = [],
     je_format = (\<lambda>t f. Inr t)\<rparr>"

definition shell_runner :: runner_row where
  "shell_runner = \<lparr>rn_id = ''r1'', rn_runner_type = ''generic_subprocess'', rn_command = ''make'',
     rn_working_directory_strategy = ''workspace'', rn_supports_stream_attach = False, rn_env = PyDict []\<rparr>"

definition pending_job :: job_row where
  "pending_job = sample_job\<lparr>jb_status := ''pending'', jb_attempt_count := 0, jb_payload_json := Some (PyDict [(''n'', PyInt 1)]),
     jb_worktree_path := Some ''/srv/ws'', jb_assigned_agent := Some ''a1''\<rparr>"

definition jobs_db :: db where
  "jobs_db = empty_db\<lparr>db_workspaces := [sample_ws], db_runner_profiles := [shell_runner], db_jobs := [pending_job]\<rparr>"

definition no_paths :: "string option \<Rightarrow> string \<Rightarrow> string" where
  "no_paths base p = p"

definition clean_run :: run_env where
  "clean_run = \<lparr>re_uuid1 = ''e1'', re_uuid2 = ''e2'', re_now1 = 5, re_now2 = 6, re_before = id, re_between = id, re_during = id,
     re_outcome = Exited 0, re_file = Parsed (PyDict [(''status'', PyStr ''blocked'')])\<rparr>"

theorem run_job_verdict_witness:
  "\<exists>j s'. run_job quiet_host no_paths clean_run ''j1'' jobs_db = (Inr j, s') \<and> find_job s' ''j1'' = Some j"
proof -
  let ?r = "run_job quiet_host no_paths clean_run ''j1'' jobs_db"
  have "is_ok (fst ?r)" by code_simp
  then obtain j s' where r: "?r = (Inr j, s')" by (cases ?r) (auto simp: is_ok_iff)
  have "is_ok (run_prepare quiet_host ''j1'' jobs_db)" by code_simp
  then obtain p where p: "run_prepare quiet_host ''j1'' jobs_db = Inr p" by (auto simp: is_ok_iff)
  have "job_pk jobs_db" by (simp add: job_pk_def jobs_db_def)
  then have k: "job_pk (re_during clean_run (snd (run_start no_paths (re_uuid1 clean_run) (re_now1 clean_run) p (re_before clean_run jobs_db)
      (re_between clean_run (re_before clean_run jobs_db)))))"
    by (simp add: clean_run_def run_start_pk)
  from run_job_verdict [OF r k p] r show ?thesis by (auto simp: Let_def)
qed

text \<open>
  A run starts whatever happened since its check: \<open>run_job\<close> reads the status and marks the job running
  without looking again, so a job that another connection cancelled, or started, or finished in between is
  run all the same. Its attempt is the one after the last that it read, even if others came since.
\<close>

theorem run_starts_stale:
  assumes "run_prepare h jid s0 = Inr p" "find_job r jid = Some x" "find_job s jid = Some y" "get_workspace s (ws_id (pl_workspace p)) \<noteq> None"
    and "uuid \<notin> ev_id ` set (db_events s)" "uuid \<notin> ev_idempotency_key ` set (db_events s)"
  shows "\<exists>e s'. run_start A uuid t p r s = (Inr e, s') \<and>
    (\<exists>j. find_job s' jid = Some j \<and> jb_status j = ''running'' \<and> jb_attempt_count j = jb_attempt_count x + 1)"
proof -
  have id: "jb_id (pl_job p) = jid" using run_prepare_Inr [OF assms(1)] by simp
  let ?f = "\<lambda>j. j\<lparr>jb_status := ''running'', jb_attempt_count := jb_attempt_count x + 1,
             jb_logs_path := Some (A None (pl_log_path p)), jb_started_at := Some t, jb_updated_at := t\<rparr>"
  let ?s1 = "update_job jid ?f s"
  have m: "mark_job_started A t jid (pl_log_path p) r s = Inr (?f y, ?s1)"
    using assms(2,3) by (simp add: mark_job_started_def get_job_Inr [THEN iffD2] Let_def find_update_job)
  let ?a = "\<lparr>ne_event_type = ''job.started'', ne_actor = ''runner'', ne_workspace_id = Some (ws_id (pl_workspace p)),
                   ne_target = None, ne_task_id = jb_task_id (pl_job p), ne_causation_id = None,
                   ne_payload = PyDict [(''job_id'', PyStr (jb_id (pl_job p))), (''runner_profile_id'', PyStr (rn_id (pl_runner p))),
                     (''command'', PyStr (rn_command (pl_runner p)))]\<rparr>"
  have w: "workspace_fk ?s1 (ne_workspace_id ?a)"
    using assms(4) by (auto simp: workspace_fk_def workspace_exists_def get_workspace_def find_None_notin list_ex_iff)
  have "append_event uuid t None ?a ?s1 = Inr ((event_of uuid t uuid ?a, True), ?s1\<lparr>db_events := db_events ?s1 @ [event_of uuid t uuid ?a]\<rparr>)"
    using assms(5,6) w unfolding append_event_cases by (simp add: event_key_def)
  then have "run_start A uuid t p r s = (Inr (event_of uuid t uuid ?a), ?s1\<lparr>db_events := db_events ?s1 @ [event_of uuid t uuid ?a]\<rparr>)"
    using m by (simp add: run_start_def id)
  moreover have "find_job (?s1\<lparr>db_events := db_events ?s1 @ [event_of uuid t uuid ?a]\<rparr>) jid = Some (?f y)"
    using find_update_job [of ?f jid s jid] assms(3) by (simp add: find_job_def)
  ultimately show ?thesis by simp
qed

definition cancelled_db :: db where
  "cancelled_db = jobs_db\<lparr>db_jobs := [pending_job\<lparr>jb_status := ''cancelled''\<rparr>]\<rparr>"

theorem run_starts_stale_witness:
  "\<exists>p e s'. run_prepare quiet_host ''j1'' jobs_db = Inr p \<and> run_start no_paths ''e1'' 9 p cancelled_db cancelled_db = (Inr e, s') \<and>
     (\<exists>j. find_job s' ''j1'' = Some j \<and> jb_status j = ''running'')"
proof -
  have "is_ok (run_prepare quiet_host ''j1'' jobs_db)" by code_simp
  then obtain p where p: "run_prepare quiet_host ''j1'' jobs_db = Inr p" by (auto simp: is_ok_iff)
  have f: "find_job cancelled_db ''j1'' = Some (pending_job\<lparr>jb_status := ''cancelled''\<rparr>)"
    by (simp add: find_job_def cancelled_db_def pending_job_def sample_job_def)
  have "get_workspace jobs_db (ws_id (pl_workspace p)) \<noteq> None" using run_prepare_Inr [OF p] by simp
  then have w: "get_workspace cancelled_db (ws_id (pl_workspace p)) \<noteq> None"
    by (simp add: get_workspace_def cancelled_db_def)
  from run_starts_stale [OF p f f w, of "''e1''" no_paths 9] p show ?thesis
    by (auto simp: cancelled_db_def jobs_db_def empty_db_def)
qed


section \<open>Cancellation\<close>

lemma lease_ok_cong: "lease_ok (now, s) \<Longrightarrow> db_leases s' = db_leases s \<Longrightarrow> db_capacity s' = db_capacity s \<Longrightarrow> lease_ok (now, s')"
  by (simp add: lease_ok_def lease_inv_def capacity_inv_def agent_load_def resolve_capacity_policy_def get_capacity_policy_def)

lemma mark_job_cancelled_cases:
  assumes "mark_job_cancelled now jid reason r s = Inr (c, s')"
  shows "\<exists>x. find_job r jid = Some x \<and> \<not> (jb_status x = ''done'' \<or> jb_status x = ''failed'') \<and> jb_status c = ''cancelled'' \<and>
    (\<forall>i. i \<noteq> jid \<longrightarrow> find_job s' i = find_job s i) \<and> db_leases s' = db_leases s \<and> db_capacity s' = db_capacity s \<and>
    (jb_status x = ''cancelled'' \<and> c = x \<and> s' = s \<or>
     jb_status x \<noteq> ''cancelled'' \<and> (\<exists>y q. find_job s jid = Some y \<and> find_job s' jid = Some c \<and>
       jb_attempt_count c = jb_attempt_count y \<and> jb_workspace_id c = jb_workspace_id y \<and>
       s' = update_job jid (\<lambda>j. j\<lparr>jb_status := ''cancelled'', jb_result_json := Some (json_col (PyDict q)),
                    jb_completed_at := Some now, jb_updated_at := now\<rparr>) s))"
proof -
  from assms obtain x where x: "find_job r jid = Some x" by (auto simp: mark_job_cancelled_def bindE_eq_Inr get_job_Inr)
  let ?f = "\<lambda>q j. j\<lparr>jb_status := ''cancelled'', jb_result_json := Some (json_col (PyDict q)),
                    jb_completed_at := Some now, jb_updated_at := now\<rparr>"
  show ?thesis
  proof (cases "jb_status x = ''cancelled''")
    case True
    then show ?thesis using assms x by (auto simp: mark_job_cancelled_def bindE_eq_Inr get_job_Inr)
  next
    case False
    with assms x obtain q where u: "s' = update_job jid (?f q) s" "find_job s' jid = Some c"
      and nd: "\<not> (jb_status x = ''done'' \<or> jb_status x = ''failed'')"
      by (auto simp: mark_job_cancelled_def bindE_eq_Inr get_job_Inr Let_def split: if_splits)
    then obtain y where y: "find_job s jid = Some y" "c = ?f q y" using find_update_job [of "?f q" jid s jid] by auto
    show ?thesis using x u y False nd find_update_job [of "?f q" jid s] by (intro exI [of _ x]) auto
  qed
qed

lemma active_attempt_lease_Some:
  "active_attempt_lease s job token = Some l \<Longrightarrow> l \<in> set (db_leases s) \<and> lr_job_id l = job \<and> lr_attempt_token l = token \<and> lr_status l = Active"
  by (auto simp: active_attempt_lease_def dest: find_Some_in)

text \<open>Releasing the active lease of an attempt leaves it without one.\<close>

lemma release_active_none:
  assumes ok: "lease_ok (now0, s)" and l: "active_attempt_lease s job token = Some l"
    and r: "release_attempt_lease H now (PyStr (lr_lease_id l)) job (PyInt (lr_attempt_token l)) (lr_agent_id l) reason s = Inr (x, s1)"
  shows "active_attempt_lease s1 job token = None \<and> db_jobs s1 = db_jobs s \<and> db_capacity s1 = db_capacity s"
proof -
  note a = active_attempt_lease_Some [OF l]
  have d: "lease_inv now0 s" using ok by (simp add: lease_ok_def)
  have f: "find_lease s (lr_lease_id l) = Some l"
    using d a unfolding find_lease_def lease_inv_def by (simp add: find_key_iff)
  from release_Inr [OF r] f a obtain z where
    u: "update_leases (\<lambda>x. lr_lease_id x = lr_lease_id l)
       (\<lambda>x. x\<lparr>lr_status := Released, lr_released_at := Some now, lr_release_reason := Some z\<rparr>) s = Inr s1"
    by (auto simp: lease_of_tuple_Inr)
  then have s1: "db_leases s1 = update_where (\<lambda>x. lr_lease_id x = lr_lease_id l)
       (\<lambda>x. x\<lparr>lr_status := Released, lr_released_at := Some now, lr_release_reason := Some z\<rparr>) (db_leases s)"
    "db_jobs s1 = db_jobs s" "db_capacity s1 = db_capacity s" by (simp_all add: update_leases_Inr)
  have "\<not> (lr_job_id y = job \<and> lr_attempt_token y = token \<and> lr_status y = Active)" if y: "y \<in> set (db_leases s1)" for y
  proof
    assume c: "lr_job_id y = job \<and> lr_attempt_token y = token \<and> lr_status y = Active"
    from y obtain x where x0: "x \<in> set (db_leases s)" "y = (if lr_lease_id x = lr_lease_id l
        then x\<lparr>lr_status := Released, lr_released_at := Some now, lr_release_reason := Some z\<rparr> else x)"
      unfolding s1 in_update_where by blast
    have ne: "lr_lease_id x \<noteq> lr_lease_id l"
    proof
      assume "lr_lease_id x = lr_lease_id l"
      then have "lr_status y = Released" unfolding x0(2) by simp
      with c show False by simp
    qed
    have yx: "y = x" using x0(2) unfolding if_not_P [OF ne] .
    note x = x0(1) ne yx
    have "distinct (map (\<lambda>l. (lr_job_id l, lr_attempt_token l)) (db_leases s))" using d by (simp add: lease_inv_def)
    then have inj: "inj_on (\<lambda>l. (lr_job_id l, lr_attempt_token l)) (set (db_leases s))" by (simp only: distinct_map)
    have "x = l" by (rule inj_onD [OF inj _ x(1)]) (use a c x(3) in simp_all)
    with x(2) show False by simp
  qed
  then show ?thesis using s1 by (simp add: active_attempt_lease_def find_None_notin)
qed

lemma active_attempt_lease_cong: "db_leases s' = db_leases s \<Longrightarrow> active_attempt_lease s' = active_attempt_lease s"
  by (simp add: active_attempt_lease_def fun_eq_iff)

text \<open>The steps of a successful cancellation.\<close>

lemma cancel_parts:
  assumes "cancel_job H uuid now jid reason actor s0 s1 s2 s = Inr ((j, e, created), s')"
  shows "\<exists>x t a. find_job s0 jid = Some x \<and> \<not> (jb_status x = ''done'' \<or> jb_status x = ''failed'') \<and>
    cancel_lease H now jid reason (active_attempt_lease s1 jid (jb_attempt_count x)) s2 s = Inr (j, t) \<and>
    append_event uuid now (Some (''job:'' @ jid @ '':cancelled'')) a t = Inr ((e, created), s')"
proof -
  from assms obtain x where x: "find_job s0 jid = Some x" by (auto simp: cancel_job_def bindE_eq_Inr get_job_Inr)
  from assms x have nd: "\<not> (jb_status x = ''done'' \<or> jb_status x = ''failed'')"
    by (auto simp: cancel_job_def bindE_eq_Inr get_job_Inr split: if_splits)
  note gx = get_job_Inr [THEN iffD2, OF x]
  from assms [unfolded cancel_job_def gx bindE_simps if_not_P [OF nd]] x nd show ?thesis by auto
qed

lemma cancel_event:
  assumes "append_event uuid now (Some (''job:'' @ jid @ '':cancelled'')) a t = Inr ((e, created), s')"
  shows "get_event_by_idempotency_key s' (''job:'' @ jid @ '':cancelled'') = Some e"
proof -
  have "(case (uuid, now, a) of (u, v, b) \<Rightarrow> append_event u v (Some (''job:'' @ jid @ '':cancelled'')) b) t = Inr ((e, created), s')"
    using assms by simp
  from event_ledger.put_lookup [OF _ this] show ?thesis by simp
qed

text \<open>Whatever was committed meanwhile, a cancellation keeps the lease invariants and changes one job.\<close>

lemma cancel_lease_frame:
  assumes c: "cancel_lease H now jid reason lease s2 s = Inr (j, t)" and ok: "lease_ok (now0, s)" "now0 \<le> now"
  shows "lease_ok (now, t) \<and> jb_status j = ''cancelled'' \<and> (\<forall>i. i \<noteq> jid \<longrightarrow> find_job t i = find_job s i)"
proof -
  from c obtain s3 r where m: "mark_job_cancelled now jid reason r s3 = Inr (j, t)"
    and s3: "s3 = s \<or> (\<exists>(l :: lease_row) x. release_attempt_lease_from H now (PyStr (lr_lease_id l)) jid (PyInt (lr_attempt_token l))
                   (lr_agent_id l) (PyStr ''job_cancelled'') s2 s = Inr (x, s3))"
  proof (cases lease)
    case None
    with c that [of s2 s] show ?thesis by (simp add: cancel_lease_def)
  next
    case (Some l)
    with c obtain x s3 where "release_attempt_lease_from H now (PyStr (lr_lease_id l)) jid (PyInt (lr_attempt_token l))
                   (lr_agent_id l) (PyStr ''job_cancelled'') s2 s = Inr (x, s3)" "mark_job_cancelled now jid reason s3 s3 = Inr (j, t)"
      by (auto simp: cancel_lease_def)
    with that [of s3 s3] show ?thesis by blast
  qed
  have "lease_ok (now, s3) \<and> db_jobs s3 = db_jobs s"
    using s3
  proof
    assume "s3 = s"
    with ok show ?thesis by (auto intro: lease_ok_mono)
  next
    assume "\<exists>(l :: lease_row) x. release_attempt_lease_from H now (PyStr (lr_lease_id l)) jid (PyInt (lr_attempt_token l))
                   (lr_agent_id l) (PyStr ''job_cancelled'') s2 s = Inr (x, s3)"
    then obtain l :: lease_row and x where r: "release_attempt_lease_from H now (PyStr (lr_lease_id l)) jid (PyInt (lr_attempt_token l))
                   (lr_agent_id l) (PyStr ''job_cancelled'') s2 s = Inr (x, s3)" by blast
    from release_from_Inr [OF r] have "db_jobs s3 = db_jobs s" by (auto simp: update_leases_Inr)
    with release_from_ok [OF ok r] show ?thesis by simp
  qed
  with mark_job_cancelled_cases [OF m] show ?thesis
    by (auto simp: find_job_def intro: lease_ok_cong)
qed

text \<open>The rows of a job and of its leases are still as a reading found them.\<close>

definition unchanged_since :: "string \<Rightarrow> db \<Rightarrow> db \<Rightarrow> bool" where
  "unchanged_since jid r s \<longleftrightarrow> find_job r jid = find_job s jid \<and> active_attempt_lease r jid = active_attempt_lease s jid \<and>
     (\<forall>l \<in> set (db_leases s). lr_job_id l = jid \<longrightarrow> find_lease r (lr_lease_id l) = Some l)"

lemma unchanged_refl: "lease_ok (now, s) \<Longrightarrow> unchanged_since jid s s"
  by (auto simp: unchanged_since_def find_lease_def lease_ok_def lease_inv_def find_key_iff)

lemma unchanged_release:
  assumes "lease_ok (now0, s)" "unchanged_since jid r s" "l \<in> set (db_leases s)" "lr_job_id l = jid"
  shows "release_attempt_lease_from H now (PyStr (lr_lease_id l)) jid tok agent reason r s =
    release_attempt_lease H now (PyStr (lr_lease_id l)) jid tok agent reason s"
proof -
  from assms(2-4) have "find_lease r (lr_lease_id l) = Some l" by (simp add: unchanged_since_def)
  moreover have "find_lease s (lr_lease_id l) = Some l"
    using unchanged_refl [OF assms(1), of jid] assms(3,4) by (simp add: unchanged_since_def)
  ultimately have "lease_of_tuple H r (lr_lease_id l) = lease_of_tuple H s (lr_lease_id l)"
    by (simp add: lease_of_tuple_def fun_eq_iff)
  then show ?thesis by (simp add: release_attempt_lease_def release_attempt_lease_from_def validate_lease_id_def)
qed

text \<open>A cancellation whose readings are still true is one that reads what it writes.\<close>

lemma cancel_unchanged:
  assumes ok: "lease_ok (now0, s)" and u: "unchanged_since jid s0 s" "unchanged_since jid s1 s" "unchanged_since jid s2 s"
  shows "cancel_job H uuid now jid reason actor s0 s1 s2 s = cancel_job H uuid now jid reason actor s s s s"
proof -
  have a: "get_job s0 jid = get_job s jid" "active_attempt_lease s1 jid = active_attempt_lease s jid" "get_job s2 jid = get_job s jid"
    using u by (simp_all add: unchanged_since_def get_job_def)
  have "cancel_lease H now jid reason (active_attempt_lease s jid tok) s2 s = cancel_lease H now jid reason (active_attempt_lease s jid tok) s s" for tok
  proof (cases "active_attempt_lease s jid tok")
    case None
    then show ?thesis using a(3) by (simp add: cancel_lease_def mark_job_cancelled_def)
  next
    case (Some l)
    note l = active_attempt_lease_Some [OF Some]
    have "release_attempt_lease_from H now (PyStr (lr_lease_id l)) jid tk ag re s2 s =
        release_attempt_lease_from H now (PyStr (lr_lease_id l)) jid tk ag re s s" for tk ag re
      using unchanged_release [OF ok u(3)] unchanged_release [OF ok unchanged_refl [OF ok]] l by simp
    then show ?thesis by (simp add: cancel_lease_def Some)
  qed
  note b = this
  show ?thesis unfolding cancel_job_def a b ..
qed

lemma cancel_lease_ends:
  assumes c: "cancel_lease H now jid reason (active_attempt_lease s jid (jb_attempt_count x)) s s = Inr (j, t)"
    and ok: "lease_ok (now0, s)" "now0 \<le> now" and x: "find_job s jid = Some x"
  shows "find_job t jid = Some j \<and> jb_attempt_count j = jb_attempt_count x \<and> active_attempt_lease t jid (jb_attempt_count x) = None"
proof -
  from c obtain s3 where m: "mark_job_cancelled now jid reason s3 s3 = Inr (j, t)"
    and s3: "active_attempt_lease s3 jid (jb_attempt_count x) = None \<and> db_jobs s3 = db_jobs s"
  proof (cases "active_attempt_lease s jid (jb_attempt_count x)")
    case None
    with c that [of s] show ?thesis by (simp add: cancel_lease_def)
  next
    case (Some l)
    with c obtain y s3 where "release_attempt_lease H now (PyStr (lr_lease_id l)) jid (PyInt (lr_attempt_token l))
                      (lr_agent_id l) (PyStr ''job_cancelled'') s = Inr (y, s3)" "mark_job_cancelled now jid reason s3 s3 = Inr (j, t)"
      by (auto simp: cancel_lease_def release_attempt_lease_def)
    with release_active_none [OF ok(1) Some] that [of s3] show ?thesis by blast
  qed
  have "find_job s3 jid = Some x" using s3 x by (simp add: find_job_def)
  with mark_job_cancelled_cases [OF m] s3 show ?thesis by (auto simp: active_attempt_lease_cong [of t s3])
qed

text \<open>
  C13: a cancellation decides on rows that it reads before its transaction. Whatever other connections
  commit in between, it keeps the lease invariants, leaves every other job alone and records its event under
  the key of the job. And when the job and its leases are still as they were read, it ends
  the job: the job is cancelled, its attempt has no active lease, and cancelling again
  returns the same row and the same event and changes nothing.
\<close>

theorem cancel_job_ends:
  assumes c: "cancel_job H uuid now jid reason actor s0 s1 s2 s = Inr ((j, e, created), s')" and ok: "lease_ok (now0, s)" "now0 \<le> now"
  shows "jb_status j = ''cancelled'' \<and> lease_ok (now, s') \<and> (\<forall>i. i \<noteq> jid \<longrightarrow> find_job s' i = find_job s i) \<and>
    get_event_by_idempotency_key s' (''job:'' @ jid @ '':cancelled'') = Some e \<and>
    (unchanged_since jid s0 s \<and> unchanged_since jid s1 s \<and> unchanged_since jid s2 s \<longrightarrow>
       find_job s' jid = Some j \<and> active_attempt_lease s' jid (jb_attempt_count j) = None \<and>
       cancel_job H uuid' now' jid reason' actor' s' s' s' s' = Inr ((j, e, False), s'))"
proof -
  from cancel_parts [OF c] obtain x :: job_row and t a where
    cl: "cancel_lease H now jid reason (active_attempt_lease s1 jid (jb_attempt_count x)) s2 s = Inr (j, t)" and
    a: "append_event uuid now (Some (''job:'' @ jid @ '':cancelled'')) a t = Inr ((e, created), s')" by auto
  note f = cancel_lease_frame [OF cl ok]
  note ae = append_event_jobs [OF a]
  note ev = cancel_event [OF a]
  have fs: "find_job s' i = find_job t i" for i using ae by (simp add: find_job_def)
  have again: "find_job s' jid = Some j \<and> active_attempt_lease s' jid (jb_attempt_count j) = None \<and>
       cancel_job H uuid' now' jid reason' actor' s' s' s' s' = Inr ((j, e, False), s')"
    if u: "unchanged_since jid s0 s" "unchanged_since jid s1 s" "unchanged_since jid s2 s"
  proof -
    from c have "cancel_job H uuid now jid reason actor s s s s = Inr ((j, e, created), s')" by (simp only: cancel_unchanged [OF ok(1) u])
    from cancel_parts [OF this] obtain x t a where x: "find_job s jid = Some x" and
      cl: "cancel_lease H now jid reason (active_attempt_lease s jid (jb_attempt_count x)) s s = Inr (j, t)" and
      a: "append_event uuid now (Some (''job:'' @ jid @ '':cancelled'')) a t = Inr ((e, created), s')" by blast
    note ae = append_event_jobs [OF a]
    from cancel_lease_ends [OF cl ok x] ae have n: "find_job s' jid = Some j" "active_attempt_lease s' jid (jb_attempt_count j) = None"
      by (simp_all add: find_job_def active_attempt_lease_cong [of s' t])
    have "append_event uuid' now' (Some (''job:'' @ jid @ '':cancelled'')) b s' = Inr ((e, False), s')" for b
      using ev by (simp add: append_event_cases event_key_def)
    with n f show ?thesis
      by (simp add: cancel_job_def cancel_lease_def get_job_Inr [THEN iffD2] mark_job_cancelled_def)
  qed
  have "lease_ok (now, s')" using f ae by (auto intro: lease_ok_cong)
  with f fs ev again show ?thesis by simp
qed

lemma sample_cancel:
  "\<exists>x. cancel_job ctx_H ''e1'' 20 ''j1'' None ''op'' (snd sample_run) (snd sample_run) (snd sample_run) (snd sample_run) = Inr x"
proof -
  have "is_ok (cancel_job ctx_H ''e1'' 20 ''j1'' None ''op'' (snd sample_run) (snd sample_run) (snd sample_run) (snd sample_run))"
    by code_simp
  then show ?thesis by (simp add: is_ok_iff)
qed

theorem cancel_job_ends_witness:
  "\<exists>s' j. find_job s' ''j1'' = Some j \<and> jb_status j = ''cancelled'' \<and> active_attempt_lease s' ''j1'' (jb_attempt_count j) = None"
proof -
  obtain j e c s' where r: "cancel_job ctx_H ''e1'' 20 ''j1'' None ''op'' (snd sample_run) (snd sample_run) (snd sample_run)
      (snd sample_run) = Inr ((j, e, c), s')"
    using sample_cancel by (metis prod.collapse)
  have ok: "lease_ok (8, snd sample_run)" "(8::nat) \<le> 20" using sample_run_ok by (simp_all add: sample_run_def)
  from cancel_job_ends [OF r ok] unchanged_refl [OF ok(1)] show ?thesis by blast
qed

text \<open>
  C28: a cancellation that saw the job without an active lease sets the row cancelled whatever it has become: a
  job that an agent claimed in between is cancelled with the lease of its new attempt still
  active, and one that was reported done in between is cancelled as well.
\<close>

theorem cancel_misses_claim:
  assumes "cancel_job H uuid now jid reason actor s0 s1 s2 s = Inr ((j, e, created), s')"
    and "find_job s0 jid = Some x" "active_attempt_lease s1 jid (jb_attempt_count x) = None"
    and "find_job s2 jid = Some z" "jb_status z \<noteq> ''cancelled''" "find_job s jid = Some y"
  shows "find_job s' jid = Some j \<and> jb_status j = ''cancelled'' \<and> jb_attempt_count j = jb_attempt_count y \<and>
    db_leases s' = db_leases s"
proof -
  from cancel_parts [OF assms(1)] assms(2,3) obtain t a where
    cl: "cancel_lease H now jid reason None s2 s = Inr (j, t)" and
    a: "append_event uuid now (Some (''job:'' @ jid @ '':cancelled'')) a t = Inr ((e, created), s')" by auto
  from cl have "mark_job_cancelled now jid reason s2 s = Inr (j, t)" by (simp add: cancel_lease_def)
  from mark_job_cancelled_cases [OF this] assms(4-6) have "find_job t jid = Some j" "jb_status j = ''cancelled''"
    "jb_attempt_count j = jb_attempt_count y" "db_leases t = db_leases s" by auto
  with append_event_jobs [OF a] show ?thesis by (simp add: find_job_def)
qed

text \<open>The job of the sample before its claim.\<close>

definition unclaimed_db :: db where
  "unclaimed_db = (snd sample_run)\<lparr>db_jobs := [sample_job\<lparr>jb_status := ''pending'', jb_attempt_count := 0\<rparr>], db_leases := []\<rparr>"

theorem cancel_misses_claim_witness:
  "\<exists>s' j l. find_job s' ''j1'' = Some j \<and> jb_status j = ''cancelled'' \<and>
     active_attempt_lease s' ''j1'' (jb_attempt_count j) = Some l \<and> lr_status l = Active"
proof -
  let ?c = "cancel_job ctx_H ''e1'' 20 ''j1'' None ''op'' unclaimed_db unclaimed_db unclaimed_db (snd sample_run)"
  have "is_ok ?c" by code_simp
  then obtain j e c s' where r: "?c = Inr ((j, e, c), s')" by (auto simp: is_ok_iff)
  let ?x = "sample_job\<lparr>jb_status := ''pending'', jb_attempt_count := 0\<rparr>"
  have "find_job unclaimed_db ''j1'' = Some ?x" "active_attempt_lease unclaimed_db ''j1'' (jb_attempt_count ?x) = None" "jb_status ?x \<noteq> ''cancelled''"
    "find_job (snd sample_run) ''j1'' = Some sample_job" "active_attempt_lease (snd sample_run) ''j1'' (jb_attempt_count sample_job) = Some sample_row"
    "lr_status sample_row = Active"
    by (simp_all add: unclaimed_db_def find_job_def sample_job_def active_attempt_lease_def sample_run_def sample_db_def sample_row_def)
  note u = this
  from cancel_misses_claim [OF r u(1,2,1,3,4)] have
    c: "find_job s' ''j1'' = Some j" "jb_status j = ''cancelled''" "jb_attempt_count j = jb_attempt_count sample_job"
    "db_leases s' = db_leases (snd sample_run)" by simp_all
  from u(5) c(3) have "active_attempt_lease s' ''j1'' (jb_attempt_count j) = Some sample_row"
    unfolding active_attempt_lease_cong [OF c(4)] by simp
  with c(1,2) u(6) show ?thesis by blast
qed

section \<open>Retries\<close>

lemma create_job_row: "create_job A jid t a s = Inr (j, s1) \<Longrightarrow> \<exists>path. j = job_of A jid t path a"
  unfolding create_job_def Let_def by (auto split: option.splits if_splits)

text \<open>
  A retry copies a failed or cancelled job into a fresh pending one: same workspace, task,
  runner, branch and time limit, no attempts, a payload that names its source and carries neither the
  old execution context nor the old result path. But it drops the assigned agent: the
  new job is assigned to an agent named like the runner profile, whoever the source was assigned to.
\<close>

theorem retry_job_copies:
  assumes "retry_job A jid uuid t sid reason actor s = (Inr (src, j, e), s')"
  shows "find_job s sid = Some src \<and> jb_status src \<in> {''failed'', ''cancelled''} \<and> jb_id j = jid \<and> jb_status j = ''pending'' \<and>
    jb_attempt_count j = 0 \<and> jb_workspace_id j = jb_workspace_id src \<and> jb_task_id j = jb_task_id src \<and>
    jb_runner_profile_id j = jb_runner_profile_id src \<and> jb_branch j = jb_branch src \<and> jb_timeout_seconds j = jb_timeout_seconds src \<and>
    (\<exists>d. jb_payload_json j = Some (PyDict d) \<and> dget d ''execution_context'' = PyNone \<and> dget d ''result_path'' = PyNone \<and>
       dget d ''retry_of_job_id'' = PyStr sid) \<and>
    jb_assigned_agent j = jb_runner_profile_id src"
proof -
  from assms obtain s1 where b: "bindE (get_job s sid) (\<lambda>j.
             if jb_status j \<noteq> ''failed'' \<and> jb_status j \<noteq> ''cancelled'' then
               raise JobErr ''only failed or cancelled jobs can be retried''
             else bindE (job_payload j) (\<lambda>payload.
               if is_routed_job payload then raise JobErr ''routed_runtime_retry_requires_explicit_resubmission''
               else bindE (create_job A jid t
                   \<lparr>nj_workspace_id = jb_workspace_id j, nj_task_id = jb_task_id j, nj_runner_profile_id = jb_runner_profile_id j,
                    nj_assigned_agent = None, nj_prompt_path = jb_prompt_path j, nj_branch = jb_branch j,
                    nj_worktree_path = jb_worktree_path j, nj_terminal_session_id = None, nj_logs_path = None,
                    nj_timeout_seconds = jb_timeout_seconds j, nj_payload = PyDict (retry_payload sid reason payload),
                    nj_authoritative_worktree_path = retry_authoritative s j\<rparr> s) (\<lambda>(retry, s1). Inr (j, retry, s1)))) = Inr (src, j, s1)"
    unfolding retry_job_def by (auto split: sum.splits)
  then obtain payload where g: "find_job s sid = Some src" "jb_status src = ''failed'' \<or> jb_status src = ''cancelled''"
    and c: "create_job A jid t
                   \<lparr>nj_workspace_id = jb_workspace_id src, nj_task_id = jb_task_id src, nj_runner_profile_id = jb_runner_profile_id src,
                    nj_assigned_agent = None, nj_prompt_path = jb_prompt_path src, nj_branch = jb_branch src,
                    nj_worktree_path = jb_worktree_path src, nj_terminal_session_id = None, nj_logs_path = None,
                    nj_timeout_seconds = jb_timeout_seconds src, nj_payload = PyDict (retry_payload sid reason payload),
                    nj_authoritative_worktree_path = retry_authoritative s src\<rparr> s = Inr (j, s1)"
    by (auto simp: bindE_eq_Inr get_job_Inr split: if_splits prod.splits)
  from create_job_row [OF c] obtain path where j: "j = job_of A jid t path
                   \<lparr>nj_workspace_id = jb_workspace_id src, nj_task_id = jb_task_id src, nj_runner_profile_id = jb_runner_profile_id src,
                    nj_assigned_agent = None, nj_prompt_path = jb_prompt_path src, nj_branch = jb_branch src,
                    nj_worktree_path = jb_worktree_path src, nj_terminal_session_id = None, nj_logs_path = None,
                    nj_timeout_seconds = jb_timeout_seconds src, nj_payload = PyDict (retry_payload sid reason payload),
                    nj_authoritative_worktree_path = retry_authoritative s src\<rparr>"
    by blast
  have d: "dget (retry_payload sid reason payload) ''execution_context'' = PyNone"
    "dget (retry_payload sid reason payload) ''result_path'' = PyNone"
    "dget (retry_payload sid reason payload) ''retry_of_job_id'' = PyStr sid"
    by (simp_all add: retry_payload_def Let_def dget_dset dget_dpop)
  then have "retry_payload sid reason payload \<noteq> []" by (auto simp: dget_def)
  then have "json_col (PyDict (retry_payload sid reason payload)) = PyDict (retry_payload sid reason payload)" by (simp add: json_col_def)
  with g j d show ?thesis by (auto simp: job_of_def or_str_def)
qed

theorem retry_job_copies_witness:
  "\<exists>j :: job_row. jb_assigned_agent j = Some ''r1'' \<and> jb_assigned_agent (pending_job\<lparr>jb_status := ''cancelled''\<rparr>) = Some ''a1'' \<and>
     jb_status j = ''pending''"
proof -
  let ?r = "retry_job no_paths ''j2'' ''e9'' 9 ''j1'' None ''op'' cancelled_db"
  have "is_ok (fst ?r)" by code_simp
  then obtain src j e s' where r: "?r = (Inr (src, j, e), s')" by (cases ?r) (auto simp: is_ok_iff)
  have "find_job cancelled_db ''j1'' = Some (pending_job\<lparr>jb_status := ''cancelled''\<rparr>)"
    by (simp add: find_job_def cancelled_db_def pending_job_def sample_job_def)
  then have j: "jb_assigned_agent j = Some ''r1'' \<and> jb_status j = ''pending''"
    using retry_job_copies [OF r] by (simp add: pending_job_def sample_job_def)
  show ?thesis by (rule exI [of _ j]) (use j in \<open>simp add: pending_job_def\<close>)
qed

end
