(* ===== verification/UsageEvidence.thy ===== *)
theory UsageEvidence
  imports PyValues "HOL-Library.Product_Lexorder" "HOL-Library.Multiset"
begin

text \<open>
  The typed usage evidence of an attempt (\<^verbatim>\<open>usage_evidence.py\<close>): the validation of a block of
  at most eight records, their canonical order, the aggregates over them, the digest of the
  canonical block and the bounded summary that takes the block's place in the stored result.
  \<open>H\<close> is \<open>hashlib.sha256(...).hexdigest()\<close>.
\<close>

section \<open>Records\<close>

definition USAGE_CONTRACT_VERSION :: int where
  "USAGE_CONTRACT_VERSION = 1"

definition MAX_RECORDS :: nat where
  "MAX_RECORDS = 8"

definition MAX_TOKEN_VALUE :: int where
  "MAX_TOKEN_VALUE = 2 ^ 53 - 1"

definition MAX_COST_MICROUSD :: int where
  "MAX_COST_MICROUSD = 2 ^ 63 - 1"

definition USAGE_SOURCES :: "string list" where
  "USAGE_SOURCES = [''provider_reported'', ''estimated'', ''unknown'']"

definition USAGE_COMPLETENESS :: "string list" where
  "USAGE_COMPLETENESS = [''complete'', ''partial'', ''unknown'']"

definition NUMERIC_FIELDS :: "string list" where
  "NUMERIC_FIELDS = [''input_tokens'', ''output_tokens'', ''cache_read_tokens'', ''cache_write_tokens'',
     ''provider_cost_microusd'']"

definition TOKEN_FIELDS :: "string list" where
  "TOKEN_FIELDS = [''input_tokens'', ''output_tokens'', ''cache_read_tokens'', ''cache_write_tokens'']"

definition BLOCK_FIELDS :: "string list" where
  "BLOCK_FIELDS = [''contract_version'', ''records'']"

definition RECORD_FIELDS :: "string list" where
  "RECORD_FIELDS = [''provider'', ''model''] @ NUMERIC_FIELDS @ [''source'', ''completeness'']"

record usage_record =
  ur_provider :: string
  ur_model :: "string option"
  ur_input_tokens :: "int option"
  ur_output_tokens :: "int option"
  ur_cache_read_tokens :: "int option"
  ur_cache_write_tokens :: "int option"
  ur_provider_cost_microusd :: "int option"
  ur_source :: string
  ur_completeness :: string

text \<open>\<open>(self.provider, self.model or "")\<close>.\<close>

definition unique_key :: "usage_record \<Rightarrow> string \<times> string" where
  "unique_key r = (ur_provider r, case ur_model r of None \<Rightarrow> [] | Some m \<Rightarrow> m)"

definition usage_record_dict :: "usage_record \<Rightarrow> (string \<times> pyval) list" where
  "usage_record_dict r =
     [(''provider'', PyStr (ur_provider r)), (''model'', opt_str (ur_model r)),
      (''input_tokens'', opt_int (ur_input_tokens r)), (''output_tokens'', opt_int (ur_output_tokens r)),
      (''cache_read_tokens'', opt_int (ur_cache_read_tokens r)),
      (''cache_write_tokens'', opt_int (ur_cache_write_tokens r)),
      (''provider_cost_microusd'', opt_int (ur_provider_cost_microusd r)),
      (''source'', PyStr (ur_source r)), (''completeness'', PyStr (ur_completeness r))]"

definition usage_record_summary :: "usage_record \<Rightarrow> (string \<times> pyval) list" where
  "usage_record_summary r =
     [(''provider'', PyStr (ur_provider r)), (''model'', opt_str (ur_model r)),
      (''source'', PyStr (ur_source r)), (''completeness'', PyStr (ur_completeness r))]"

record usage_evidence =
  ue_contract_version :: int
  ue_records :: "usage_record list"
  ue_observed_tokens :: "int option"
  ue_provider_cost_microusd :: "int option"
  ue_completeness :: string
  ue_digest :: string

definition usage_canonical :: "usage_record list \<Rightarrow> pyval" where
  "usage_canonical rs =
     PyDict [(''contract_version'', PyInt USAGE_CONTRACT_VERSION),
             (''records'', PyList (map (\<lambda>r. PyDict (usage_record_dict r)) rs))]"

definition usage_canonical_dict :: "usage_evidence \<Rightarrow> pyval" where
  "usage_canonical_dict e =
     PyDict [(''contract_version'', PyInt (ue_contract_version e)),
             (''records'', PyList (map (\<lambda>r. PyDict (usage_record_dict r)) (ue_records e)))]"

definition usage_summary_dict :: "usage_evidence \<Rightarrow> pyval" where
  "usage_summary_dict e =
     PyDict [(''contract_version'', PyInt (ue_contract_version e)), (''digest'', PyStr (ue_digest e)),
             (''completeness'', PyStr (ue_completeness e)),
             (''observed_tokens'', opt_int (ue_observed_tokens e)),
             (''provider_cost_microusd'', opt_int (ue_provider_cost_microusd e)),
             (''record_count'', PyInt (int (length (ue_records e)))),
             (''records'', PyList (map (\<lambda>r. PyDict (usage_record_summary r)) (ue_records e)))]"

section \<open>Validation of one record\<close>

definition has_c0 :: "string \<Rightarrow> bool" where
  "has_c0 s = list_ex (\<lambda>c. (of_char c :: nat) < 32) s"

definition validate_provider :: "pyval \<Rightarrow> string result" where
  "validate_provider v =
     (case as_str v of
        None \<Rightarrow> raise UsageEvidenceErr ''record provider must be a string''
      | Some s \<Rightarrow>
          if s \<noteq> strip s \<or> s = [] then raise UsageEvidenceErr ''record provider must be non-blank''
          else if length s > 128 then raise UsageEvidenceErr ''record provider exceeds 128 characters''
          else if has_c0 s then raise UsageEvidenceErr ''record provider contains control characters''
          else Inr s)"

definition validate_model :: "pyval \<Rightarrow> string option result" where
  "validate_model v =
     (if v = PyNone then Inr None
      else case as_str v of
        None \<Rightarrow> raise UsageEvidenceErr ''record model must be a string or null''
      | Some s \<Rightarrow>
          if s \<noteq> strip s \<or> s = [] then raise UsageEvidenceErr ''record model must be a non-empty string or null''
          else if length s > 256 then raise UsageEvidenceErr ''record model exceeds 256 characters''
          else if has_c0 s then raise UsageEvidenceErr ''record model contains control characters''
          else Inr (Some s))"

definition numeric_limit :: "string \<Rightarrow> int" where
  "numeric_limit field = (if List.member TOKEN_FIELDS field then MAX_TOKEN_VALUE else MAX_COST_MICROUSD)"

definition validate_numeric :: "pyval \<Rightarrow> string \<Rightarrow> int option result" where
  "validate_numeric v field =
     (if v = PyNone then Inr None
      else case as_int v of
        None \<Rightarrow> raise UsageEvidenceErr ''record field must be a non-negative integer or null''
      | Some i \<Rightarrow>
          if i < 0 then raise UsageEvidenceErr ''record field must be non-negative''
          else if i > numeric_limit field then raise UsageEvidenceErr ''record field exceeds limit''
          else Inr (Some i))"

definition derive_completeness :: "string \<Rightarrow> int option list \<Rightarrow> string" where
  "derive_completeness source numerics =
     (if list_all (\<lambda>v. v \<noteq> None) numerics then ''complete''
      else if source = ''unknown'' \<and> list_all (\<lambda>v. v = None) numerics then ''unknown''
      else ''partial'')"

definition validate_numerics :: "(string \<times> pyval) list \<Rightarrow> int option list result" where
  "validate_numerics raw = mapE (\<lambda>field. validate_numeric (dget raw field) field) NUMERIC_FIELDS"

definition validate_source :: "pyval \<Rightarrow> int option list \<Rightarrow> string result" where
  "validate_source v numerics =
     (case as_str v of
        None \<Rightarrow> raise UsageEvidenceErr ''record source must be one of''
      | Some source \<Rightarrow>
          if \<not> List.member USAGE_SOURCES source then raise UsageEvidenceErr ''record source must be one of''
          else if source = ''unknown'' \<and> list_ex (\<lambda>n. n \<noteq> None) numerics
          then raise UsageEvidenceErr ''record source=unknown requires all numeric fields to be null''
          else Inr source)"

definition validate_completeness :: "pyval \<Rightarrow> string \<Rightarrow> int option list \<Rightarrow> string result" where
  "validate_completeness v source numerics =
     (case as_str v of
        None \<Rightarrow> raise UsageEvidenceErr ''record completeness must be one of''
      | Some declared \<Rightarrow>
          if \<not> List.member USAGE_COMPLETENESS declared
          then raise UsageEvidenceErr ''record completeness must be one of''
          else if declared \<noteq> derive_completeness source numerics
          then raise UsageEvidenceErr ''record declares completeness but the null pattern derives another''
          else Inr declared)"

definition parse_usage_record :: "pyval \<Rightarrow> usage_record result" where
  "parse_usage_record v =
     (case as_dict v of
        None \<Rightarrow> raise UsageEvidenceErr ''record must be an object''
      | Some raw \<Rightarrow>
          if \<not> dkeys raw \<subseteq> set RECORD_FIELDS then raise UsageEvidenceErr ''record has unknown fields''
          else if \<not> set RECORD_FIELDS \<subseteq> dkeys raw then raise UsageEvidenceErr ''record is missing fields''
          else
            bindE (validate_provider (dget raw ''provider'')) (\<lambda>provider.
            bindE (validate_model (dget raw ''model'')) (\<lambda>model.
            bindE (validate_numerics raw) (\<lambda>numerics.
            bindE (validate_source (dget raw ''source'') numerics) (\<lambda>source.
            bindE (validate_completeness (dget raw ''completeness'') source numerics) (\<lambda>declared.
              Inr \<lparr>ur_provider = provider, ur_model = model,
                   ur_input_tokens = numerics ! 0, ur_output_tokens = numerics ! 1,
                   ur_cache_read_tokens = numerics ! 2, ur_cache_write_tokens = numerics ! 3,
                   ur_provider_cost_microusd = numerics ! 4,
                   ur_source = source, ur_completeness = declared\<rparr>))))))"

section \<open>Aggregation and the block\<close>

definition token_values :: "usage_record \<Rightarrow> int option list" where
  "token_values r = [ur_input_tokens r, ur_output_tokens r, ur_cache_read_tokens r, ur_cache_write_tokens r]"

definition token_step :: "int option \<Rightarrow> int \<times> bool \<Rightarrow> int \<times> bool" where
  "token_step v acc = (case v of None \<Rightarrow> acc | Some t \<Rightarrow> (fst acc + t, True))"

text \<open>The loop of \<open>_aggregate\<close>; its four local variables are the arguments.\<close>

fun aggregate_loop ::
  "usage_record list \<Rightarrow> int \<times> bool \<Rightarrow> int \<Rightarrow> bool \<Rightarrow> ((int \<times> bool) \<times> int \<times> bool) result" where
  "aggregate_loop [] tok cost_sum all_cost_known = Inr (tok, cost_sum, all_cost_known)"
| "aggregate_loop (r # rs) tok cost_sum all_cost_known =
     (let tok' = fold token_step (token_values r) tok in
      case ur_provider_cost_microusd r of
        None \<Rightarrow> aggregate_loop rs tok' cost_sum False
      | Some c \<Rightarrow>
          if cost_sum + c > MAX_COST_MICROUSD
          then raise UsageEvidenceErr ''aggregate provider_cost_microusd exceeds signed 64-bit limit''
          else aggregate_loop rs tok' (cost_sum + c) all_cost_known)"

definition aggregate_completeness :: "usage_record list \<Rightarrow> string" where
  "aggregate_completeness rs =
     (if list_all (\<lambda>r. ur_completeness r = ''complete'') rs then ''complete''
      else if list_all (\<lambda>r. ur_completeness r = ''unknown'') rs then ''unknown''
      else ''partial'')"

definition usage_aggregate :: "usage_record list \<Rightarrow> (int option \<times> int option \<times> string) result" where
  "usage_aggregate rs =
     bindE (aggregate_loop rs (0, False) 0 True) (\<lambda>((token_sum, has_token), cost_sum, all_cost_known).
       Inr (if has_token then Some token_sum else None,
            if all_cost_known then Some cost_sum else None,
            aggregate_completeness rs))"

definition parse_usage_evidence :: "(string \<Rightarrow> string) \<Rightarrow> pyval \<Rightarrow> usage_evidence option result" where
  "parse_usage_evidence H v =
     (if v = PyNone then Inr None
      else case as_dict v of
        None \<Rightarrow> raise UsageEvidenceErr ''usage_evidence must be an object''
      | Some raw \<Rightarrow>
          if raw = [] then Inr None
          else if dget raw ''records'' = PyList [] \<and> dkeys raw \<subseteq> set BLOCK_FIELDS then Inr None
          else if as_int (dget raw ''contract_version'') \<noteq> Some USAGE_CONTRACT_VERSION
          then raise UsageEvidenceErr ''unsupported usage_evidence contract_version''
          else if \<not> dkeys raw \<subseteq> set BLOCK_FIELDS then raise UsageEvidenceErr ''usage_evidence has unknown fields''
          else if ''records'' \<notin> dkeys raw then raise UsageEvidenceErr ''usage_evidence is missing field: records''
          else case as_list (dget raw ''records'') of
            None \<Rightarrow> raise UsageEvidenceErr ''usage_evidence.records must be a list''
          | Some records_raw \<Rightarrow>
              if \<not> (1 \<le> length records_raw \<and> length records_raw \<le> MAX_RECORDS)
              then raise UsageEvidenceErr ''usage_evidence.records must contain 1..8 records''
              else
                bindE (mapE parse_usage_record records_raw) (\<lambda>parsed.
                if \<not> distinct (map unique_key parsed)
                then raise UsageEvidenceErr ''duplicate (provider, model) record''
                else let records = sort_key unique_key parsed in
                bindE (usage_aggregate records) (\<lambda>(observed, cost, completeness).
                  Inr (Some \<lparr>ue_contract_version = USAGE_CONTRACT_VERSION, ue_records = records,
                    ue_observed_tokens = observed, ue_provider_cost_microusd = cost,
                    ue_completeness = completeness, ue_digest = H (json (usage_canonical records))\<rparr>))))"

definition split_usage_evidence ::
  "(string \<Rightarrow> string) \<Rightarrow> (string \<times> pyval) list \<Rightarrow> ((string \<times> pyval) list \<times> usage_evidence option) result" where
  "split_usage_evidence H result =
     bindE (parse_usage_evidence H (dget result ''usage_evidence'')) (\<lambda>evidence.
       case evidence of
         None \<Rightarrow> Inr (result, None)
       | Some e \<Rightarrow> Inr (dset ''usage_evidence'' (usage_summary_dict e) result, Some e))"

section \<open>Records that were accepted\<close>

definition label_ok :: "nat \<Rightarrow> string \<Rightarrow> bool" where
  "label_ok n s \<longleftrightarrow> strip s = s \<and> s \<noteq> [] \<and> length s \<le> n \<and> \<not> has_c0 s"

definition bucket_ok :: "int \<Rightarrow> int option \<Rightarrow> bool" where
  "bucket_ok lim v \<longleftrightarrow> (case v of None \<Rightarrow> True | Some i \<Rightarrow> 0 \<le> i \<and> i \<le> lim)"

definition record_numerics :: "usage_record \<Rightarrow> int option list" where
  "record_numerics r = token_values r @ [ur_provider_cost_microusd r]"

definition usage_record_ok :: "usage_record \<Rightarrow> bool" where
  "usage_record_ok r \<longleftrightarrow>
     label_ok 128 (ur_provider r) \<and> (case ur_model r of None \<Rightarrow> True | Some m \<Rightarrow> label_ok 256 m) \<and>
     list_all (bucket_ok MAX_TOKEN_VALUE) (token_values r) \<and>
     bucket_ok MAX_COST_MICROUSD (ur_provider_cost_microusd r) \<and>
     List.member USAGE_SOURCES (ur_source r) \<and>
     (ur_source r = ''unknown'' \<longrightarrow> list_all (\<lambda>n. n = None) (record_numerics r)) \<and>
     ur_completeness r = derive_completeness (ur_source r) (record_numerics r)"

lemma validate_provider_Inr: "validate_provider v = Inr s \<longleftrightarrow> v = PyStr s \<and> label_ok 128 s"
  by (cases v) (auto simp: validate_provider_def label_ok_def not_less)

lemma validate_model_Inr:
  "validate_model v = Inr m \<longleftrightarrow> v = opt_str m \<and> (case m of None \<Rightarrow> True | Some s \<Rightarrow> label_ok 256 s)"
  by (cases v; cases m) (auto simp: validate_model_def label_ok_def not_less)

lemma validate_numeric_Inr: "validate_numeric v f = Inr n \<longleftrightarrow> v = opt_int n \<and> bucket_ok (numeric_limit f) n"
  by (cases v; cases n) (auto simp: validate_numeric_def bucket_ok_def)

lemma numeric_limits:
  "numeric_limit ''input_tokens'' = MAX_TOKEN_VALUE" "numeric_limit ''output_tokens'' = MAX_TOKEN_VALUE"
  "numeric_limit ''cache_read_tokens'' = MAX_TOKEN_VALUE" "numeric_limit ''cache_write_tokens'' = MAX_TOKEN_VALUE"
  "numeric_limit ''provider_cost_microusd'' = MAX_COST_MICROUSD"
  by (simp_all add: numeric_limit_def TOKEN_FIELDS_def)

lemma validate_numerics_Inr:
  "validate_numerics raw = Inr ns \<longleftrightarrow>
     (\<exists>a b c d e. ns = [a, b, c, d, e] \<and>
        dget raw ''input_tokens'' = opt_int a \<and> dget raw ''output_tokens'' = opt_int b \<and>
        dget raw ''cache_read_tokens'' = opt_int c \<and> dget raw ''cache_write_tokens'' = opt_int d \<and>
        dget raw ''provider_cost_microusd'' = opt_int e \<and>
        list_all (bucket_ok MAX_TOKEN_VALUE) [a, b, c, d] \<and> bucket_ok MAX_COST_MICROUSD e)"
  unfolding validate_numerics_def NUMERIC_FIELDS_def mapE_eq_Inr
  by (auto simp: list_all2_Cons1 validate_numeric_Inr numeric_limits)

lemma validate_source_Inr:
  "validate_source v ns = Inr s \<longleftrightarrow>
     v = PyStr s \<and> List.member USAGE_SOURCES s \<and> (s = ''unknown'' \<longrightarrow> list_all (\<lambda>n. n = None) ns)"
  by (cases v) (auto simp: validate_source_def list_ex_iff list_all_iff)

lemma derive_completeness_known: "derive_completeness s ns \<in> set USAGE_COMPLETENESS"
  by (simp add: derive_completeness_def USAGE_COMPLETENESS_def)

lemma validate_completeness_Inr:
  "validate_completeness v s ns = Inr c \<longleftrightarrow> v = PyStr c \<and> c = derive_completeness s ns"
  by (cases v) (auto simp: validate_completeness_def derive_completeness_known)

lemmas validate_Inrs = validate_provider_Inr validate_model_Inr validate_numerics_Inr validate_source_Inr
  validate_completeness_Inr

lemma dkeys_usage_record_dict: "dkeys (usage_record_dict r) = set RECORD_FIELDS"
  by (auto simp: usage_record_dict_def RECORD_FIELDS_def NUMERIC_FIELDS_def)

lemma parse_usage_record_ok:
  assumes "parse_usage_record v = Inr r"
  shows "usage_record_ok r"
  using assms
  by (auto simp: parse_usage_record_def validate_Inrs usage_record_ok_def record_numerics_def token_values_def
      split: option.splits if_splits)

lemma parse_usage_record_dict:
  assumes "usage_record_ok r"
  shows "parse_usage_record (PyDict (usage_record_dict r)) = Inr r"
proof -
  have p: "validate_provider (dget (usage_record_dict r) ''provider'') = Inr (ur_provider r)"
    and m: "validate_model (dget (usage_record_dict r) ''model'') = Inr (ur_model r)"
    and n: "validate_numerics (usage_record_dict r) = Inr (record_numerics r)"
    and s: "validate_source (dget (usage_record_dict r) ''source'') (record_numerics r) = Inr (ur_source r)"
    and c: "validate_completeness (dget (usage_record_dict r) ''completeness'') (ur_source r) (record_numerics r) =
      Inr (ur_completeness r)"
    using assms
    by (simp_all add: validate_Inrs usage_record_ok_def usage_record_dict_def record_numerics_def token_values_def)
  show ?thesis
    by (simp add: parse_usage_record_def dkeys_usage_record_dict p m n s c)
      (simp add: record_numerics_def token_values_def)
qed

interpretation usage_codec: codec usage_record_ok "\<lambda>r. PyDict (usage_record_dict r)" parse_usage_record
  by unfold_locales (rule parse_usage_record_dict)

section \<open>Totals\<close>

definition known :: "int option list \<Rightarrow> int list" where
  "known vs = List.map_filter id vs"

definition total_known :: "int option list \<Rightarrow> int option" where
  "total_known vs = (if list_all (\<lambda>v. v = None) vs then None else Some (sum_list (known vs)))"

definition total_if_all_known :: "int option list \<Rightarrow> int option" where
  "total_if_all_known vs = (if list_all (\<lambda>v. v \<noteq> None) vs then Some (sum_list (known vs)) else None)"

lemma known_simps [simp]: "known [] = []" "known (None # vs) = known vs" "known (Some i # vs) = i # known vs"
  "known (vs @ ws) = known vs @ known ws"
  by (simp_all add: known_def List.map_filter_def)

lemma fold_token_step:
  "fold token_step vs (t, b) = (t + sum_list (known vs), b \<or> \<not> list_all (\<lambda>v. v = None) vs)"
proof (induction vs arbitrary: t b)
  case (Cons v vs)
  then show ?case by (cases v) (simp_all add: token_step_def)
qed simp

lemma aggregate_loop_Inr:
  assumes "aggregate_loop rs tok c k = Inr (tok', c', k')"
  shows "tok' = fold token_step (concat (map token_values rs)) tok \<and>
    c' = c + sum_list (known (map ur_provider_cost_microusd rs)) \<and>
    (k' \<longleftrightarrow> k \<and> list_all (\<lambda>v. v \<noteq> None) (map ur_provider_cost_microusd rs)) \<and>
    (c \<le> MAX_COST_MICROUSD \<longrightarrow> c' \<le> MAX_COST_MICROUSD)"
  using assms
proof (induction rs arbitrary: tok c k)
  case (Cons r rs)
  show ?case
  proof (cases "ur_provider_cost_microusd r")
    case None
    with Cons.prems have "aggregate_loop rs (fold token_step (token_values r) tok) c False = Inr (tok', c', k')"
      by (simp add: Let_def)
    from Cons.IH [OF this] None show ?thesis by auto
  next
    case (Some x)
    with Cons.prems have "aggregate_loop rs (fold token_step (token_values r) tok) (c + x) k = Inr (tok', c', k')"
      and "c + x \<le> MAX_COST_MICROUSD"
      by (simp_all add: Let_def split: if_splits)
    with Cons.IH [OF this(1)] Some show ?thesis by auto
  qed
qed simp

lemma bucket_sum_nonneg: "list_all (bucket_ok lim) vs \<Longrightarrow> 0 \<le> sum_list (known vs)"
proof (induction vs)
  case (Cons v vs)
  then show ?case by (cases v) (simp_all add: bucket_ok_def)
qed simp

lemma bucket_sum_bound: "list_all (bucket_ok lim) vs \<Longrightarrow> 0 \<le> lim \<Longrightarrow> sum_list (known vs) \<le> int (length vs) * lim"
proof (induction vs)
  case (Cons v vs)
  then show ?case by (cases v) (simp_all add: bucket_ok_def algebra_simps)
qed simp

text \<open>Costs are not negative, so the running sum passes the limit exactly if the total does.\<close>

lemma aggregate_loop_ok:
  assumes "list_all (\<lambda>r. bucket_ok MAX_COST_MICROUSD (ur_provider_cost_microusd r)) rs"
    "c + sum_list (known (map ur_provider_cost_microusd rs)) \<le> MAX_COST_MICROUSD"
  shows "is_ok (aggregate_loop rs tok c k)"
  using assms
proof (induction rs arbitrary: tok c k)
  case (Cons r rs)
  have "0 \<le> sum_list (known (map ur_provider_cost_microusd rs))"
    using Cons.prems(1) by (intro bucket_sum_nonneg [of MAX_COST_MICROUSD]) (simp add: list_all_iff)
  with Cons show ?case by (cases "ur_provider_cost_microusd r") (simp_all add: Let_def)
qed simp

lemma usage_aggregate_Inr:
  assumes "usage_aggregate rs = Inr (observed, cost, completeness)"
  shows "observed = total_known (concat (map token_values rs)) \<and>
    cost = total_if_all_known (map ur_provider_cost_microusd rs) \<and>
    completeness = aggregate_completeness rs \<and>
    sum_list (known (map ur_provider_cost_microusd rs)) \<le> MAX_COST_MICROUSD"
proof -
  from assms obtain t b c k where l: "aggregate_loop rs (0, False) 0 True = Inr ((t, b), c, k)"
    and eqs: "observed = (if b then Some t else None)" "cost = (if k then Some c else None)"
      "completeness = aggregate_completeness rs"
    by (auto simp: usage_aggregate_def)
  from aggregate_loop_Inr [OF l]
  have "t = sum_list (known (concat (map token_values rs)))"
      "b \<longleftrightarrow> \<not> list_all (\<lambda>v. v = None) (concat (map token_values rs))"
      "c = sum_list (known (map ur_provider_cost_microusd rs))" "c \<le> MAX_COST_MICROUSD"
      "k \<longleftrightarrow> list_all (\<lambda>v. v \<noteq> None) (map ur_provider_cost_microusd rs)"
    by (simp_all add: fold_token_step MAX_COST_MICROUSD_def)
  with eqs show ?thesis by (simp only: total_known_def total_if_all_known_def) simp
qed

section \<open>Blocks that were accepted\<close>

lemma mapE_perm:
  assumes "mapE f xs = Inr ys" "mset xs = mset xs'"
  shows "\<exists>ys'. mapE f xs' = Inr ys' \<and> mset ys' = mset ys"
proof -
  from assms(1) have "list_all2 (\<lambda>x y. f x = Inr y) xs ys" by (simp add: mapE_eq_Inr)
  with assms(2) show ?thesis unfolding mapE_eq_Inr by (metis list_all2_reorder_left_invariance)
qed

lemma parse_usage_evidence_Some:
  assumes "parse_usage_evidence H v = Inr (Some e)"
  obtains d rs parsed where
    "v = PyDict d" "dget d ''contract_version'' = PyInt 1" "dkeys d \<subseteq> set BLOCK_FIELDS"
    "dget d ''records'' = PyList rs" "1 \<le> length rs" "length rs \<le> MAX_RECORDS"
    "mapE parse_usage_record rs = Inr parsed" "distinct (map unique_key parsed)"
    "ue_records e = sort_key unique_key parsed"
    "usage_aggregate (ue_records e) = Inr (ue_observed_tokens e, ue_provider_cost_microusd e, ue_completeness e)"
    "ue_contract_version e = 1" "ue_digest e = H (json (usage_canonical (ue_records e)))"
  using assms
  by (auto simp: parse_usage_evidence_def Let_def USAGE_CONTRACT_VERSION_def split: option.splits if_splits)

text \<open>Any block of at most eight records that carries the version, read from its records.\<close>

lemma parse_usage_block:
  assumes "dget d ''contract_version'' = PyInt 1" "dkeys d \<subseteq> set BLOCK_FIELDS"
    "dget d ''records'' = PyList rs" "1 \<le> length rs" "length rs \<le> MAX_RECORDS"
    "mapE parse_usage_record rs = Inr parsed" "distinct (map unique_key parsed)"
    "usage_aggregate (sort_key unique_key parsed) = Inr (obs, cost, compl)"
  shows "parse_usage_evidence H (PyDict d) = Inr (Some \<lparr>ue_contract_version = 1,
    ue_records = sort_key unique_key parsed, ue_observed_tokens = obs, ue_provider_cost_microusd = cost,
    ue_completeness = compl, ue_digest = H (json (usage_canonical (sort_key unique_key parsed)))\<rparr>)"
proof -
  have "''records'' \<in> dkeys d"
  proof (rule ccontr)
    assume "''records'' \<notin> dkeys d"
    then have "map_of d ''records'' = None" by (simp add: dkeys_def map_of_eq_None_iff)
    with assms(3) show False by (simp add: dget_def)
  qed
  moreover have "d \<noteq> []" "rs \<noteq> []" using assms(3,4) by auto
  ultimately show ?thesis
    using assms by (simp add: parse_usage_evidence_def USAGE_CONTRACT_VERSION_def Let_def not_le)
qed

lemma parsed_records_ok:
  assumes "mapE parse_usage_record rs = Inr parsed"
  shows "list_all usage_record_ok parsed"
  using assms unfolding mapE_eq_Inr
  by (induction rule: list_all2_induct) (auto intro: parse_usage_record_ok)

lemma sort_key_id:
  assumes "distinct (map f xs)" "sorted (map f xs)"
  shows "sort_key f xs = xs"
  using assms by (intro sort_key_inj_key_eq) (auto simp: distinct_map)

lemma sort_key_perm:
  assumes "mset xs = mset ys" "distinct (map f xs)"
  shows "sort_key f xs = sort_key f ys"
  using assms by (intro sort_key_inj_key_eq) (auto simp: distinct_map)

lemma evidence_records:
  assumes "parse_usage_evidence H v = Inr (Some e)"
  shows "list_all usage_record_ok (ue_records e) \<and> distinct (map unique_key (ue_records e)) \<and>
    sorted (map unique_key (ue_records e)) \<and> 1 \<le> length (ue_records e) \<and> length (ue_records e) \<le> MAX_RECORDS"
proof -
  from assms obtain rs parsed where p: "mapE parse_usage_record rs = Inr parsed" "distinct (map unique_key parsed)"
    "ue_records e = sort_key unique_key parsed" "1 \<le> length rs" "length rs \<le> MAX_RECORDS"
    by (rule parse_usage_evidence_Some)
  from parsed_records_ok [OF p(1)] mapE_length [OF p(1)] p(2-)
  show ?thesis by (simp add: list_all_iff distinct_map)
qed

text \<open>
  The canonical block of accepted evidence is accepted again and gives the same evidence, with
  the same totals and the same digest: the stored block determines everything that was derived.
\<close>

theorem usage_block_canonical:
  assumes "parse_usage_evidence H v = Inr (Some e)"
  shows "parse_usage_evidence H (usage_canonical_dict e) = Inr (Some e)"
proof -
  from assms obtain agg: "usage_aggregate (ue_records e) =
      Inr (ue_observed_tokens e, ue_provider_cost_microusd e, ue_completeness e)"
    and v: "ue_contract_version e = 1" and dg: "ue_digest e = H (json (usage_canonical (ue_records e)))"
    by (rule parse_usage_evidence_Some)
  note r = evidence_records [OF assms]
  have "mapE parse_usage_record (map (\<lambda>r. PyDict (usage_record_dict r)) (ue_records e)) = Inr (map (\<lambda>r. r) (ue_records e))"
    using r by (intro mapE_map_Inr usage_codec.decode_encode) (simp add: list_all_iff)
  moreover from r have srt: "sort_key unique_key (ue_records e) = ue_records e" by (intro sort_key_id) auto
  ultimately have "parse_usage_evidence H (usage_canonical_dict e) = Inr (Some \<lparr>ue_contract_version = 1,
      ue_records = ue_records e, ue_observed_tokens = ue_observed_tokens e,
      ue_provider_cost_microusd = ue_provider_cost_microusd e, ue_completeness = ue_completeness e,
      ue_digest = ue_digest e\<rparr>)"
    unfolding usage_canonical_dict_def
    using parse_usage_block [where rs = "map (\<lambda>r. PyDict (usage_record_dict r)) (ue_records e)" and
        parsed = "ue_records e" and d = "[(''contract_version'', PyInt 1),
          (''records'', PyList (map (\<lambda>r. PyDict (usage_record_dict r)) (ue_records e)))]", unfolded srt]
      r agg v dg by (simp add: BLOCK_FIELDS_def)
  then show ?thesis using v by simp
qed

text \<open>
  The evidence does not depend on the order in which the producer lists the records: any
  permutation of an accepted block gives the same evidence and the same digest.
\<close>

theorem usage_order_irrelevant:
  assumes "parse_usage_evidence H (PyDict [(''contract_version'', PyInt 1), (''records'', PyList rs)]) = Inr (Some e)"
    "mset rs = mset rs'"
  shows "parse_usage_evidence H (PyDict [(''contract_version'', PyInt 1), (''records'', PyList rs')]) = Inr (Some e)"
proof -
  from assms(1) obtain parsed where p: "1 \<le> length rs" "length rs \<le> MAX_RECORDS"
    "mapE parse_usage_record rs = Inr parsed" "distinct (map unique_key parsed)"
    "ue_records e = sort_key unique_key parsed"
    "usage_aggregate (ue_records e) = Inr (ue_observed_tokens e, ue_provider_cost_microusd e, ue_completeness e)"
    "ue_contract_version e = 1" "ue_digest e = H (json (usage_canonical (ue_records e)))"
    by (auto elim: parse_usage_evidence_Some)
  obtain parsed' where p': "mapE parse_usage_record rs' = Inr parsed'" "mset parsed' = mset parsed"
    using mapE_perm [OF p(3) assms(2)] by blast
  have d: "distinct (map unique_key parsed')"
    using p(4) p'(2) by (metis mset_eq_imp_distinct_iff mset_map)
  have s: "sort_key unique_key parsed' = ue_records e"
    using sort_key_perm [OF p'(2) d] p(5) by simp
  have len: "length rs' = length rs" using assms(2) by (metis mset_eq_length)
  have "parse_usage_evidence H (PyDict [(''contract_version'', PyInt 1), (''records'', PyList rs')]) =
      Inr (Some \<lparr>ue_contract_version = 1, ue_records = sort_key unique_key parsed',
        ue_observed_tokens = ue_observed_tokens e, ue_provider_cost_microusd = ue_provider_cost_microusd e,
        ue_completeness = ue_completeness e, ue_digest = H (json (usage_canonical (sort_key unique_key parsed')))\<rparr>)"
    by (rule parse_usage_block) (use p p' d s len in \<open>auto simp: BLOCK_FIELDS_def\<close>)
  then show ?thesis using s p(7,8) by simp
qed

text \<open>
  The totals of accepted evidence are exact: the observed tokens are the sum of the known
  buckets and unknown only if no bucket is known, the cost is known only if every record has
  one, and both fit the signed 64-bit column they are stored in.
\<close>

theorem usage_totals_exact:
  assumes "parse_usage_evidence H v = Inr (Some e)"
  shows "ue_observed_tokens e = total_known (concat (map token_values (ue_records e))) \<and>
    ue_provider_cost_microusd e = total_if_all_known (map ur_provider_cost_microusd (ue_records e)) \<and>
    bucket_ok (2 ^ 63 - 1) (ue_observed_tokens e) \<and> bucket_ok (2 ^ 63 - 1) (ue_provider_cost_microusd e)"
proof -
  from assms have agg: "usage_aggregate (ue_records e) =
      Inr (ue_observed_tokens e, ue_provider_cost_microusd e, ue_completeness e)"
    by (rule parse_usage_evidence_Some)
  note r = evidence_records [OF assms]
  let ?t = "concat (map token_values (ue_records e))" and ?c = "map ur_provider_cost_microusd (ue_records e)"
  have t: "list_all (bucket_ok MAX_TOKEN_VALUE) ?t" and c: "list_all (bucket_ok MAX_COST_MICROUSD) ?c"
    using r by (auto simp: list_all_iff usage_record_ok_def)
  have "length ?t = 4 * length (ue_records e)"
    by (simp add: length_concat token_values_def comp_def sum_list_triv)
  then have "length ?t \<le> 32" using r by (simp add: MAX_RECORDS_def)
  have "sum_list (known ?t) \<le> int (length ?t) * MAX_TOKEN_VALUE"
    by (rule bucket_sum_bound [OF t]) (simp add: MAX_TOKEN_VALUE_def)
  also have "\<dots> \<le> 32 * MAX_TOKEN_VALUE"
    using \<open>length ?t \<le> 32\<close> by (intro mult_right_mono) (simp_all add: MAX_TOKEN_VALUE_def)
  also have "\<dots> \<le> 2 ^ 63 - 1" by (simp add: MAX_TOKEN_VALUE_def)
  finally have "sum_list (known ?t) \<le> 2 ^ 63 - 1" .
  with usage_aggregate_Inr [OF agg] bucket_sum_nonneg [OF t] bucket_sum_nonneg [OF c]
  show ?thesis by (simp add: bucket_ok_def total_known_def total_if_all_known_def MAX_COST_MICROUSD_def)
qed

text \<open>
  Splitting a terminal report leaves every other field of the result as it was and replaces
  the evidence by its summary, whose size the number of records bounds; without evidence the
  result is untouched, and invalid evidence is an error before anything else happens.
\<close>

theorem split_usage_exact:
  assumes "split_usage_evidence H result = Inr (sanitized, evidence)"
  shows "parse_usage_evidence H (dget result ''usage_evidence'') = Inr evidence \<and>
    (case evidence of None \<Rightarrow> sanitized = result
     | Some e \<Rightarrow> dget sanitized ''usage_evidence'' = usage_summary_dict e \<and>
         (\<forall>k. k \<noteq> ''usage_evidence'' \<longrightarrow> dget sanitized k = dget result k))"
  using assms by (auto simp: split_usage_evidence_def dget_dset split: option.splits)

section \<open>Witnesses\<close>

definition sample_record :: "string \<Rightarrow> pyval \<Rightarrow> pyval" where
  "sample_record provider tokens = PyDict [(''provider'', PyStr provider), (''model'', PyNone),
     (''input_tokens'', tokens), (''output_tokens'', PyNone), (''cache_read_tokens'', PyInt 7),
     (''cache_write_tokens'', PyNone), (''provider_cost_microusd'', PyInt 12),
     (''source'', PyStr ''estimated''), (''completeness'', PyStr ''partial'')]"

definition sample_block :: "pyval list \<Rightarrow> pyval" where
  "sample_block rs = PyDict [(''contract_version'', PyInt 1), (''records'', PyList rs)]"

definition sample_parsed :: "string \<Rightarrow> int option \<Rightarrow> usage_record" where
  "sample_parsed provider tokens = \<lparr>ur_provider = provider, ur_model = None, ur_input_tokens = tokens,
     ur_output_tokens = None, ur_cache_read_tokens = Some 7, ur_cache_write_tokens = None,
     ur_provider_cost_microusd = Some 12, ur_source = ''estimated'', ur_completeness = ''partial''\<rparr>"

definition sample_evidence :: usage_evidence where
  "sample_evidence = \<lparr>ue_contract_version = 1,
     ue_records = [sample_parsed ''a'' None, sample_parsed ''b'' (Some 5)],
     ue_observed_tokens = Some 19, ue_provider_cost_microusd = Some 24,
     ue_completeness = ''partial'', ue_digest = ''d''\<rparr>"

definition sample_rows :: "pyval list" where
  "sample_rows = [sample_record ''b'' (PyInt 5), sample_record ''a'' PyNone]"

lemma sample_usage: "parse_usage_evidence (\<lambda>_. ''d'') (sample_block sample_rows) = Inr (Some sample_evidence)"
  by code_simp

theorem usage_block_canonical_witness:
  "parse_usage_evidence (\<lambda>_. ''d'') (usage_canonical_dict sample_evidence) = Inr (Some sample_evidence)"
  by (rule usage_block_canonical [OF sample_usage])

theorem usage_order_irrelevant_witness:
  "parse_usage_evidence (\<lambda>_. ''d'') (sample_block (rev sample_rows)) = Inr (Some sample_evidence)"
  unfolding sample_block_def
  by (rule usage_order_irrelevant [OF sample_usage [unfolded sample_block_def]]) simp

theorem usage_totals_exact_witness:
  "ue_observed_tokens sample_evidence = total_known [None, None, Some 7, None, Some 5, None, Some 7, None]"
  using usage_totals_exact [OF sample_usage] by (simp add: sample_evidence_def sample_parsed_def token_values_def)

theorem split_usage_exact_witness:
  "dget (dset ''usage_evidence'' (usage_summary_dict sample_evidence)
     [(''reply'', PyStr ''done''), (''usage_evidence'', sample_block sample_rows)]) ''reply'' = PyStr ''done''"
proof -
  have "split_usage_evidence (\<lambda>_. ''d'') [(''reply'', PyStr ''done''), (''usage_evidence'', sample_block sample_rows)] =
      Inr (dset ''usage_evidence'' (usage_summary_dict sample_evidence)
        [(''reply'', PyStr ''done''), (''usage_evidence'', sample_block sample_rows)], Some sample_evidence)"
    using sample_usage by (simp add: split_usage_evidence_def)
  from split_usage_exact [OF this] show ?thesis by simp
qed

end
