(* ===== verification/UsagePolicy.thy ===== *)
theory UsagePolicy
  imports JobStore UsageEvidence
begin

text \<open>
  The usage ledger and the task-scoped warning policy: the tables \<open>job_attempt_usage\<close> and
  \<open>task_usage_warning_policies\<close> of \<^verbatim>\<open>schema.py\<close> with their SQL in \<^verbatim>\<open>db.py\<close>, and the rules of
  \<^verbatim>\<open>usage_policy.py\<close> over them. An attempt has one usage row, the first that was accepted; a
  scope (workspace and task) has one policy, whose revision only grows; a revision warns at
  most once. \<open>H\<close> is \<open>hashlib.sha256(...).hexdigest()\<close>.
\<close>

section \<open>The tables\<close>

definition get_attempt_usage :: "db \<Rightarrow> string \<Rightarrow> int \<Rightarrow> usage_row option" where
  "get_attempt_usage s job_id attempt_token =
     find (\<lambda>u. (us_job_id u, us_attempt_token u) = (job_id, attempt_token)) (db_usage s)"

definition usage_checks :: "usage_row \<Rightarrow> bool" where
  "usage_checks u =
     (us_attempt_token u > 0 \<and> List.member USAGE_COMPLETENESS (us_completeness u) \<and>
      (case us_observed_tokens u of None \<Rightarrow> True | Some i \<Rightarrow> 0 \<le> i) \<and>
      (case us_provider_cost_microusd u of None \<Rightarrow> True | Some i \<Rightarrow> 0 \<le> i))"

text \<open>
  \<open>ON CONFLICT(job_id, attempt_token) DO NOTHING\<close>: the first row of an attempt stays. The result
  is \<open>cursor.rowcount > 0\<close>. An integer outside the signed 64 bits does not bind.
\<close>

definition insert_attempt_usage :: "usage_row \<Rightarrow> db \<Rightarrow> (bool \<times> db) result" where
  "insert_attempt_usage u s =
     (if \<not> list_all int64 ([us_attempt_token u] @ known [us_observed_tokens u, us_provider_cost_microusd u])
      then raise OverflowErr ''Python int too large to convert to SQLite INTEGER''
      else if \<not> usage_checks u then raise IntegrityErr ''job_attempt_usage CHECK''
      else if get_attempt_usage s (us_job_id u) (us_attempt_token u) \<noteq> None then Inr (False, s)
      else if find_job s (us_job_id u) = None then raise IntegrityErr ''job_attempt_usage.job_id''
      else if \<not> workspace_fk s (us_workspace_id u) then raise IntegrityErr ''job_attempt_usage.workspace_id''
      else if (case us_terminal_event_id u of None \<Rightarrow> False | Some e \<Rightarrow> \<not> list_ex (\<lambda>x. ev_id x = e) (db_events s))
      then raise IntegrityErr ''job_attempt_usage.terminal_event_id''
      else Inr (True, s\<lparr>db_usage := db_usage s @ [u]\<rparr>))"

definition list_attempt_usage_for_scope :: "db \<Rightarrow> string \<Rightarrow> string \<Rightarrow> usage_row list" where
  "list_attempt_usage_for_scope s wid tid =
     sort_key (\<lambda>u. (us_recorded_at u, us_job_id u, us_attempt_token u))
       (filter (\<lambda>u. us_workspace_id u = Some wid \<and> us_task_id u = Some tid) (db_usage s))"

definition in_scope :: "string \<Rightarrow> string \<Rightarrow> warning_row \<Rightarrow> bool" where
  "in_scope wid tid p \<longleftrightarrow> (wp_workspace_id p, wp_task_id p) = (wid, tid)"

definition get_task_usage_warning_policy :: "db \<Rightarrow> string \<Rightarrow> string \<Rightarrow> warning_row option" where
  "get_task_usage_warning_policy s wid tid = find (in_scope wid tid) (db_warnings s)"

text \<open>The upsert of \<^verbatim>\<open>db.py\<close>: a row that is there keeps its \<open>created_at\<close>.\<close>

definition set_policy_row :: "warning_row \<Rightarrow> db \<Rightarrow> db result" where
  "set_policy_row p s =
     (if \<not> int64 (wp_revision p) \<or> \<not> int64 (wp_observed_tokens_threshold p)
      then raise OverflowErr ''Python int too large to convert to SQLite INTEGER''
      else if \<not> (wp_revision p > 0 \<and> wp_observed_tokens_threshold p > 0)
      then raise IntegrityErr ''task_usage_warning_policies CHECK''
      else if \<not> workspace_exists s (wp_workspace_id p)
      then raise IntegrityErr ''task_usage_warning_policies.workspace_id''
      else if get_task_usage_warning_policy s (wp_workspace_id p) (wp_task_id p) = None
      then Inr (s\<lparr>db_warnings := db_warnings s @ [p]\<rparr>)
      else Inr (s\<lparr>db_warnings := update_where (in_scope (wp_workspace_id p) (wp_task_id p))
        (\<lambda>r. p\<lparr>wp_created_at := wp_created_at r\<rparr>) (db_warnings s)\<rparr>))"

section \<open>Setting a policy\<close>

definition validate_positive_int :: "pyval \<Rightarrow> int result" where
  "validate_positive_int v =
     (case as_int v of
        None \<Rightarrow> raise UsagePolicyErr ''must be a positive integer''
      | Some i \<Rightarrow> if i \<le> 0 then raise UsagePolicyErr ''must be a positive integer'' else Inr i)"

definition required_text :: "string \<Rightarrow> pyval \<Rightarrow> string result" where
  "required_text msg v =
     (case as_str v of
        None \<Rightarrow> raise UsagePolicyErr msg
      | Some s \<Rightarrow> if strip s = [] then raise UsagePolicyErr msg else Inr s)"

definition as_bool :: "pyval \<Rightarrow> bool option" where
  "as_bool v = (case v of PyBool b \<Rightarrow> Some b | _ \<Rightarrow> None)"

definition set_task_usage_warning_policy ::
  "timestamp \<Rightarrow> pyval \<Rightarrow> pyval \<Rightarrow> pyval \<Rightarrow> pyval \<Rightarrow> pyval \<Rightarrow> db \<Rightarrow> (warning_row option \<times> db) result" where
  "set_task_usage_warning_policy now workspace_id task_id revision observed_tokens_threshold enabled s =
     bindE (required_text ''workspace_id is required'' workspace_id) (\<lambda>wid.
     bindE (required_text ''task_id is required'' task_id) (\<lambda>tid.
     case as_bool enabled of
       None \<Rightarrow> raise UsagePolicyErr ''enabled must be a boolean''
     | Some en \<Rightarrow>
     bindE (validate_positive_int revision) (\<lambda>rev.
     bindE (validate_positive_int observed_tokens_threshold) (\<lambda>threshold.
     if get_workspace s wid = None then raise UsagePolicyErr ''unknown workspace''
     else
       let write = (\<lambda>created_at.
             bindE (set_policy_row \<lparr>wp_workspace_id = wid, wp_task_id = tid, wp_revision = rev,
                      wp_observed_tokens_threshold = threshold, wp_enabled = en,
                      wp_created_at = created_at, wp_updated_at = now\<rparr> s) (\<lambda>s'.
               Inr (get_task_usage_warning_policy s' wid tid, s')))
       in case get_task_usage_warning_policy s wid tid of
            None \<Rightarrow> write now
          | Some current \<Rightarrow>
              if rev < wp_revision current then raise UsagePolicyErr ''policy revision must strictly increase''
              else if rev = wp_revision current then
                (if \<not> (wp_observed_tokens_threshold current = threshold \<and> wp_enabled current = en)
                 then raise UsagePolicyErr ''policy revision already exists with a conflicting body''
                 else Inr (Some current, s))
              else write (wp_created_at current)))))"

section \<open>Warnings\<close>

definition warning_idempotency_key :: "(string \<Rightarrow> string) \<Rightarrow> string \<Rightarrow> string \<Rightarrow> int \<Rightarrow> string" where
  "warning_idempotency_key H wid tid revision =
     ''runtime:usage:warning:'' @ H (json (PyList [PyStr wid, PyStr tid, PyInt revision]))"

text \<open>The attempt under evaluation, with the locator of its terminal event.\<close>

record usage_attempt =
  ua_workspace_id :: string
  ua_task_id :: string
  ua_job_id :: string
  ua_attempt_token :: int
  ua_observed_tokens :: int
  ua_completeness :: string
  ua_terminal_event_id :: "string option"
  ua_terminal_event_created :: bool
  ua_actor :: string
  ua_agent_id :: "string option"

definition warning_payload :: "warning_row \<Rightarrow> usage_attempt \<Rightarrow> pyval" where
  "warning_payload policy a =
     PyDict [(''revision'', PyInt (wp_revision policy)),
       (''scope'', PyDict [(''workspace_id'', PyStr (ua_workspace_id a)), (''task_id'', PyStr (ua_task_id a))]),
       (''observed_tokens_threshold'', PyInt (wp_observed_tokens_threshold policy)),
       (''observed_tokens'', PyInt (ua_observed_tokens a)), (''completeness'', PyStr (ua_completeness a)),
       (''job_id'', PyStr (ua_job_id a)), (''attempt_token'', PyInt (ua_attempt_token a)),
       (''terminal_event_id'', opt_str (ua_terminal_event_id a)),
       (''terminal_event_created'', PyBool (ua_terminal_event_created a))]"

definition evaluate_task_usage_warning ::
  "(string \<Rightarrow> string) \<Rightarrow> string \<Rightarrow> timestamp \<Rightarrow> usage_attempt \<Rightarrow> db \<Rightarrow> (event_row option \<times> db) result" where
  "evaluate_task_usage_warning H uuid now a s =
     (case get_task_usage_warning_policy s (ua_workspace_id a) (ua_task_id a) of
        None \<Rightarrow> Inr (None, s)
      | Some policy \<Rightarrow>
          if \<not> wp_enabled policy then Inr (None, s)
          else if ua_observed_tokens a < wp_observed_tokens_threshold policy then Inr (None, s)
          else
            bindE (append_event uuid now
                (Some (warning_idempotency_key H (ua_workspace_id a) (ua_task_id a) (wp_revision policy)))
                \<lparr>ne_event_type = ''usage.warning'', ne_actor = ua_actor a,
                 ne_workspace_id = Some (ua_workspace_id a), ne_target = ua_agent_id a,
                 ne_task_id = Some (ua_task_id a),
                 ne_causation_id = (if ua_terminal_event_created a then ua_terminal_event_id a else None),
                 ne_payload = warning_payload policy a\<rparr> s) (\<lambda>((e, created), s').
              Inr (Some e, s')))"

section \<open>The status of a scope\<close>

definition record_list :: "usage_row \<Rightarrow> pyval list" where
  "record_list u = (case as_list (por (dget (dict_of (us_evidence u)) ''records'') (PyList [])) of
     None \<Rightarrow> [] | Some xs \<Rightarrow> xs)"

record usage_status =
  st_policy :: "warning_row option"
  st_observed_tokens :: "int option"
  st_provider_cost_microusd :: "int option"
  st_attempt_count :: nat
  st_record_count :: nat
  st_attempts :: "usage_row list"
  st_warnings :: "event_row list"

text \<open>The loop over the attempts; its four local variables are the arguments.\<close>

fun status_loop :: "usage_row list \<Rightarrow> int \<Rightarrow> bool \<Rightarrow> int \<Rightarrow> bool \<Rightarrow> int \<times> bool \<times> int \<times> bool" where
  "status_loop [] tokens has_observed cost_sum all_cost_known = (tokens, has_observed, cost_sum, all_cost_known)"
| "status_loop (u # us) tokens has_observed cost_sum all_cost_known =
     (let (tokens', has') = (case us_observed_tokens u of
            None \<Rightarrow> (tokens, has_observed) | Some t \<Rightarrow> (tokens + t, True)) in
      case us_provider_cost_microusd u of
        None \<Rightarrow> status_loop us tokens' has' cost_sum False
      | Some c \<Rightarrow> status_loop us tokens' has' (cost_sum + c) all_cost_known)"

definition build_usage_status :: "db \<Rightarrow> string \<Rightarrow> string \<Rightarrow> usage_status result" where
  "build_usage_status s wid tid =
     (if get_workspace s wid = None then raise UsagePolicyErr ''unknown workspace''
      else
        let attempts = list_attempt_usage_for_scope s wid tid;
            (tokens, has_observed, cost_sum, all_cost_known) = status_loop attempts 0 False 0 True
        in Inr \<lparr>st_policy = get_task_usage_warning_policy s wid tid,
             st_observed_tokens = (if has_observed \<or> attempts = [] then Some tokens else None),
             st_provider_cost_microusd = (if all_cost_known then Some cost_sum else None),
             st_attempt_count = length attempts,
             st_record_count = sum_list (map (\<lambda>u. length (record_list u)) attempts),
             st_attempts = attempts,
             st_warnings = filter (\<lambda>e. ev_event_type e = ''usage.warning'' \<and> ev_workspace_id e = Some wid \<and>
               ev_task_id e = Some tid) (db_events s)\<rparr>)"

section \<open>The ledger of attempts\<close>

lemma insert_attempt_usage_Inr:
  "insert_attempt_usage u s = Inr (created, s') \<Longrightarrow>
     (created \<and> s' = s\<lparr>db_usage := db_usage s @ [u]\<rparr> \<and> get_attempt_usage s (us_job_id u) (us_attempt_token u) = None) \<or>
     (\<not> created \<and> s' = s \<and> get_attempt_usage s (us_job_id u) (us_attempt_token u) \<noteq> None)"
  by (auto simp: insert_attempt_usage_def split: if_splits)

text \<open>The row that the ledger holds for the attempt after an insertion, and whether it is new.\<close>

definition put_usage :: "string \<times> int \<Rightarrow> usage_row \<Rightarrow> db \<Rightarrow> ((usage_row \<times> bool) \<times> db) result" where
  "put_usage k u s =
     bindE (insert_attempt_usage (u\<lparr>us_job_id := fst k, us_attempt_token := snd k\<rparr>) s) (\<lambda>(created, s').
       case get_attempt_usage s' (fst k) (snd k) of
         None \<Rightarrow> raise KeyErr ''job_attempt_usage'' | Some r \<Rightarrow> Inr ((r, created), s'))"

lemma get_attempt_usage_append: "get_attempt_usage (s\<lparr>db_usage := db_usage s @ us\<rparr>) j t =
    (case get_attempt_usage s j t of Some r \<Rightarrow> Some r
     | None \<Rightarrow> find (\<lambda>u. (us_job_id u, us_attempt_token u) = (j, t)) us)"
  by (simp add: get_attempt_usage_def find_append split: option.split)

interpretation usage_ledger: keyed_ledger "\<lambda>k. True" "\<lambda>s k. get_attempt_usage s (fst k) (snd k)" put_usage
proof unfold_locales
  fix k :: "string \<times> int" and s r y and u :: usage_row
  assume l: "get_attempt_usage s (fst k) (snd k) = Some r" and p: "put_usage k u s = Inr y"
  from p obtain c s' where i: "insert_attempt_usage (u\<lparr>us_job_id := fst k, us_attempt_token := snd k\<rparr>) s = Inr (c, s')"
    and y: "(case get_attempt_usage s' (fst k) (snd k) of
         None \<Rightarrow> raise KeyErr ''job_attempt_usage'' | Some r \<Rightarrow> Inr ((r, c), s')) = Inr y"
    by (auto simp: put_usage_def)
  from insert_attempt_usage_Inr [OF i] l y show "y = ((r, False), s)" by auto
next
  fix k :: "string \<times> int" and s s' r c and u :: usage_row
  assume l: "get_attempt_usage s (fst k) (snd k) = None" and p: "put_usage k u s = Inr ((r, c), s')"
  let ?u = "u\<lparr>us_job_id := fst k, us_attempt_token := snd k\<rparr>"
  from p have i: "insert_attempt_usage ?u s = Inr (c, s')" and g: "get_attempt_usage s' (fst k) (snd k) = Some r"
    by (auto simp: put_usage_def split: option.splits)
  from insert_attempt_usage_Inr [OF i] l have c: "c" and s': "s' = s\<lparr>db_usage := db_usage s @ [?u]\<rparr>" by auto
  have "get_attempt_usage s' (fst k') (snd k') = get_attempt_usage s (fst k') (snd k')" if "k' \<noteq> k" for k'
    using that by (cases k; cases k') (auto simp: s' get_attempt_usage_append split: option.splits)
  with c g show "c \<and> get_attempt_usage s' (fst k) (snd k) = Some r \<and>
      (\<forall>k'. k' \<noteq> k \<longrightarrow> get_attempt_usage s' (fst k') (snd k') = get_attempt_usage s (fst k') (snd k'))" by blast
qed

section \<open>Runs of the component\<close>

text \<open>
  What may happen to the database between two looks at it: a policy is set, an attempt is
  recorded or evaluated, and any event is appended.
\<close>

inductive usage_step :: "(string \<Rightarrow> string) \<Rightarrow> db \<Rightarrow> db \<Rightarrow> bool" for H where
  set_policy: "set_task_usage_warning_policy now w t n thr en s = Inr (p, s') \<Longrightarrow> usage_step H s s'"
| evaluate: "evaluate_task_usage_warning H uuid now a s = Inr (e, s') \<Longrightarrow> usage_step H s s'"
| record_usage: "insert_attempt_usage u s = Inr (c, s') \<Longrightarrow> usage_step H s s'"
| other_event: "append_event uuid now k a s = Inr (r, s') \<Longrightarrow> usage_step H s s'"

definition policy_after :: "warning_row \<Rightarrow> warning_row \<Rightarrow> bool" where
  "policy_after p p' \<longleftrightarrow> wp_created_at p' = wp_created_at p \<and> (p' = p \<or> wp_revision p < wp_revision p')"

lemma policy_after_trans: "policy_after a b \<Longrightarrow> policy_after b c \<Longrightarrow> policy_after a c"
  by (auto simp: policy_after_def)

lemma find_policy_update:
  assumes "\<And>r. in_scope w' t' (f r)"
  shows "find (in_scope w t) (update_where (in_scope w' t') f ps) =
    (if (w, t) = (w', t') then map_option f (find (in_scope w t) ps) else find (in_scope w t) ps)"
  using assms by (induction ps) (auto simp: update_where_def in_scope_def)

lemma set_policy_row_find:
  assumes "set_policy_row p s = Inr s'"
  shows "get_task_usage_warning_policy s' w t =
    (if in_scope w t p then
       Some (case get_task_usage_warning_policy s w t of None \<Rightarrow> p | Some r \<Rightarrow> p\<lparr>wp_created_at := wp_created_at r\<rparr>)
     else get_task_usage_warning_policy s w t)"
proof (cases "get_task_usage_warning_policy s (wp_workspace_id p) (wp_task_id p)")
  case None
  with assms have "s' = s\<lparr>db_warnings := db_warnings s @ [p]\<rparr>" by (auto simp: set_policy_row_def split: if_splits)
  with None show ?thesis
    by (auto simp: get_task_usage_warning_policy_def find_append in_scope_def split: option.splits)
next
  case (Some r)
  with assms have s': "s' = s\<lparr>db_warnings := update_where (in_scope (wp_workspace_id p) (wp_task_id p))
        (\<lambda>r. p\<lparr>wp_created_at := wp_created_at r\<rparr>) (db_warnings s)\<rparr>"
    by (auto simp: set_policy_row_def split: if_splits)
  have u: "find (in_scope w t) (update_where (in_scope (wp_workspace_id p) (wp_task_id p))
        (\<lambda>r. p\<lparr>wp_created_at := wp_created_at r\<rparr>) (db_warnings s)) =
      (if (w, t) = (wp_workspace_id p, wp_task_id p)
       then map_option (\<lambda>r. p\<lparr>wp_created_at := wp_created_at r\<rparr>) (find (in_scope w t) (db_warnings s))
       else find (in_scope w t) (db_warnings s))"
    by (rule find_policy_update) (simp add: in_scope_def)
  from Some u show ?thesis
    by (auto simp: s' get_task_usage_warning_policy_def in_scope_def)
qed

definition newer :: "db \<Rightarrow> warning_row \<Rightarrow> bool" where
  "newer s row \<longleftrightarrow> (case get_task_usage_warning_policy s (wp_workspace_id row) (wp_task_id row) of
     None \<Rightarrow> True | Some r \<Rightarrow> wp_revision r < wp_revision row)"

lemma set_policy_cases:
  assumes "set_task_usage_warning_policy now w t n thr en s = Inr (q, s')"
  shows "s' = s \<or> (\<exists>row. set_policy_row row s = Inr s' \<and> newer s row)"
  using assms unfolding set_task_usage_warning_policy_def
  by (auto simp: Let_def split: option.splits if_splits) (auto simp: newer_def intro!: exI)+

lemma set_policy_after:
  assumes "set_task_usage_warning_policy now w t n thr en s = Inr (q, s')"
    "get_task_usage_warning_policy s w' t' = Some p"
  shows "\<exists>p'. get_task_usage_warning_policy s' w' t' = Some p' \<and> policy_after p p'"
proof -
  from set_policy_cases [OF assms(1)] consider "s' = s"
    | row where "set_policy_row row s = Inr s'" "newer s row"
    by blast
  then show ?thesis
  proof cases
    case 1
    with assms(2) show ?thesis by (auto simp: policy_after_def)
  next
    case (2 row)
    with assms(2) show ?thesis
      by (auto simp: set_policy_row_find [OF 2(1)] policy_after_def in_scope_def newer_def split: option.splits)
  qed
qed

lemma evaluate_events:
  assumes "evaluate_task_usage_warning H uuid now a s = Inr (e, s')"
  shows "\<exists>es. s' = s\<lparr>db_events := db_events s @ es\<rparr>"
  using assms
  by (auto simp: evaluate_task_usage_warning_def intro: exI [of _ "[]"] dest: append_event_prefix
      split: option.splits if_splits)

lemma policy_frame [simp]:
  "get_task_usage_warning_policy (s\<lparr>db_events := es\<rparr>) w t = get_task_usage_warning_policy s w t"
  "get_task_usage_warning_policy (s\<lparr>db_usage := us\<rparr>) w t = get_task_usage_warning_policy s w t"
  by (simp_all add: get_task_usage_warning_policy_def)

lemma usage_step_policy:
  assumes "usage_step H s s'" "get_task_usage_warning_policy s w t = Some p"
  shows "\<exists>p'. get_task_usage_warning_policy s' w t = Some p' \<and> policy_after p p'"
  using assms
proof cases
  case set_policy
  then show ?thesis using assms(2) by (rule set_policy_after)
next
  case evaluate
  from evaluate_events [OF this] assms(2) show ?thesis by (auto simp: policy_after_def)
next
  case record_usage
  from insert_attempt_usage_Inr [OF this] assms(2) show ?thesis by (auto simp: policy_after_def)
next
  case (other_event uuid now k a r)
  then obtain e c where "append_event uuid now k a s = Inr ((e, c), s')" by (cases r) auto
  from append_event_prefix [OF this] assms(2) show ?thesis by (auto simp: policy_after_def)
qed

text \<open>Events and recorded attempts are never lost.\<close>

definition usage_kept :: "db \<Rightarrow> db \<Rightarrow> bool" where
  "usage_kept s s' \<longleftrightarrow>
     (\<forall>k r. get_event_by_idempotency_key s k = Some r \<longrightarrow> get_event_by_idempotency_key s' k = Some r) \<and>
     (\<forall>j t u. get_attempt_usage s j t = Some u \<longrightarrow> get_attempt_usage s' j t = Some u)"

lemma set_policy_frame:
  assumes "set_task_usage_warning_policy now w t n thr en s = Inr (q, s')"
  shows "db_events s' = db_events s \<and> db_usage s' = db_usage s"
  using assms
  by (auto simp: set_task_usage_warning_policy_def set_policy_row_def Let_def split: option.splits if_splits)

lemma usage_kept_events: "usage_kept s (s\<lparr>db_events := db_events s @ es\<rparr>)"
  by (auto simp: usage_kept_def event_by_key_append get_attempt_usage_def)

lemma usage_step_kept:
  assumes "usage_step H s s'"
  shows "usage_kept s s'"
  using assms
proof cases
  case set_policy
  from set_policy_frame [OF this] show ?thesis
    by (simp add: usage_kept_def get_event_by_idempotency_key_def get_attempt_usage_def)
next
  case evaluate
  from evaluate_events [OF this] show ?thesis using usage_kept_events by blast
next
  case record_usage
  from insert_attempt_usage_Inr [OF this] show ?thesis
    by (auto simp: usage_kept_def get_event_by_idempotency_key_def get_attempt_usage_append)
next
  case (other_event uuid now k a r)
  then obtain e c where "append_event uuid now k a s = Inr ((e, c), s')" by (cases r) auto
  from append_event_prefix [OF this] show ?thesis using usage_kept_events by blast
qed

interpretation warning_register: versioned_register
  "\<lambda>s (w, t). get_task_usage_warning_policy s w t" wp_revision "usage_step H" for H
  by unfold_locales (auto simp: policy_after_def dest: usage_step_policy)

text \<open>
  Whatever happens in between, the policy of a scope is never removed, its revision never
  goes back, and as long as the revision is the same the policy is unchanged: a revision stands for
  one threshold and one switch for ever.
\<close>

theorem policy_revision_grows:
  assumes "(usage_step H)\<^sup>*\<^sup>* s s'" "get_task_usage_warning_policy s w t = Some p"
  shows "\<exists>p'. get_task_usage_warning_policy s' w t = Some p' \<and> (p' = p \<or> wp_revision p < wp_revision p')"
  using warning_register.run_current [OF assms(1), of "(w, t)" p] assms(2) by simp

lemma usage_run_kept: "(usage_step H)\<^sup>*\<^sup>* s s' \<Longrightarrow> usage_kept s s'"
  by (induction rule: rtranclp_induct) (auto simp: usage_kept_def dest!: usage_step_kept)

text \<open>
  A revision of a policy warns at most once: after one evaluation has returned a warning, any
  later evaluation of the scope under the same revision returns the very same event and adds
  nothing, whatever attempt it is for.
\<close>

theorem revision_warns_once:
  assumes "evaluate_task_usage_warning H u1 t1 a s = Inr (Some e, s1)" "(usage_step H)\<^sup>*\<^sup>* s1 s2"
    "get_task_usage_warning_policy s (ua_workspace_id a) (ua_task_id a) = Some p"
    "get_task_usage_warning_policy s2 (ua_workspace_id a) (ua_task_id a) = Some p"
    "ua_workspace_id b = ua_workspace_id a" "ua_task_id b = ua_task_id a"
    "evaluate_task_usage_warning H u2 t2 b s2 = Inr (Some e', s3)"
  shows "e' = e \<and> s3 = s2"
proof -
  let ?k = "warning_idempotency_key H (ua_workspace_id a) (ua_task_id a) (wp_revision p)"
  have ne: "?k \<noteq> []" by (simp add: warning_idempotency_key_def)
  from assms(1,3) obtain na c where 1: "append_event u1 t1 (Some ?k) na s = Inr ((e, c), s1)"
    by (auto simp: evaluate_task_usage_warning_def split: if_splits)
  have "get_event_by_idempotency_key s1 ?k = Some e"
    using event_ledger.put_lookup [where a = "(u1, t1, na)" and s = s, OF ne] 1 by simp
  then have k2: "get_event_by_idempotency_key s2 ?k = Some e"
    using usage_run_kept [OF assms(2)] by (simp add: usage_kept_def)
  from assms(4-7) obtain nb c' where 2: "append_event u2 t2 (Some ?k) nb s2 = Inr ((e', c'), s3)"
    by (auto simp: evaluate_task_usage_warning_def split: if_splits)
  have "((e', c'), s3) = ((e, False), s2)"
    using event_ledger.put_present [where a = "(u2, t2, nb)", OF ne k2] 2 by simp
  then show ?thesis by simp
qed

text \<open>
  The first accepted usage row of an attempt is final: whatever happens afterwards it is what
  the ledger holds, and recording the attempt again, with any evidence, reports that nothing was
  written and changes nothing.
\<close>

theorem attempt_usage_final:
  assumes "insert_attempt_usage u s = Inr (True, s1)" "(usage_step H)\<^sup>*\<^sup>* s1 s2"
    "us_job_id v = us_job_id u" "us_attempt_token v = us_attempt_token u"
    "insert_attempt_usage v s2 = Inr (created, s3)"
  shows "get_attempt_usage s2 (us_job_id u) (us_attempt_token u) = Some u \<and> \<not> created \<and> s3 = s2"
proof -
  have "get_attempt_usage s1 (us_job_id u) (us_attempt_token u) = Some u"
    using insert_attempt_usage_Inr [OF assms(1)] by (simp add: get_attempt_usage_append)
  then have "get_attempt_usage s2 (us_job_id u) (us_attempt_token u) = Some u"
    using usage_run_kept [OF assms(2)] by (simp add: usage_kept_def)
  with insert_attempt_usage_Inr [OF assms(5)] assms(3,4) show ?thesis by auto
qed

section \<open>The totals of a scope\<close>

lemma status_loop_eq:
  "status_loop us n b c k =
     (n + sum_list (known (map us_observed_tokens us)), b \<or> \<not> list_all (\<lambda>v. v = None) (map us_observed_tokens us),
      c + sum_list (known (map us_provider_cost_microusd us)),
      k \<and> list_all (\<lambda>v. v \<noteq> None) (map us_provider_cost_microusd us))"
  by (induction us arbitrary: n b c k) (auto split: option.splits)

text \<open>
  The status sums what is known and never presents a partial cost as the total.
\<close>

lemma usage_status_totals:
  assumes "build_usage_status s w t = Inr st"
  shows "st_observed_tokens st = (if st_attempts st = [] then Some 0 else total_known (map us_observed_tokens (st_attempts st)))
    \<and> st_provider_cost_microusd st = total_if_all_known (map us_provider_cost_microusd (st_attempts st))"
  using assms by (auto simp: build_usage_status_def status_loop_eq Let_def total_known_def total_if_all_known_def
      split: if_splits)

section \<open>Witnesses\<close>

definition usage_db :: db where
  "usage_db = empty_db\<lparr>db_workspaces := [sample_ws]\<rparr>"

definition sample_warning :: "int \<Rightarrow> warning_row" where
  "sample_warning n = \<lparr>wp_workspace_id = ws_id sample_ws, wp_task_id = ''t'', wp_revision = n,
     wp_observed_tokens_threshold = 10, wp_enabled = True, wp_created_at = 3, wp_updated_at = 3\<rparr>"

definition sample_attempt :: "int \<Rightarrow> usage_attempt" where
  "sample_attempt n = \<lparr>ua_workspace_id = ws_id sample_ws, ua_task_id = ''t'', ua_job_id = ''j'', ua_attempt_token = n,
     ua_observed_tokens = 20, ua_completeness = ''complete'', ua_terminal_event_id = Some ''e'',
     ua_terminal_event_created = True, ua_actor = ''agent'', ua_agent_id = Some ''agent''\<rparr>"

definition policy_db :: db where
  "policy_db = usage_db\<lparr>db_warnings := [sample_warning 1]\<rparr>"

lemma set_sample_policy:
  "set_task_usage_warning_policy 9 (PyStr (ws_id sample_ws)) (PyStr ''t'') (PyInt 2) (PyInt 10) (PyBool True) policy_db =
     Inr (Some (sample_warning 2\<lparr>wp_updated_at := 9\<rparr>), policy_db\<lparr>db_warnings := [sample_warning 2\<lparr>wp_updated_at := 9\<rparr>]\<rparr>)"
  by code_simp

theorem policy_revision_grows_witness:
  "\<exists>p'. get_task_usage_warning_policy (policy_db\<lparr>db_warnings := [sample_warning 2\<lparr>wp_updated_at := 9\<rparr>]\<rparr>)
     (ws_id sample_ws) ''t'' = Some p' \<and> 1 \<le> wp_revision p'"
proof -
  have r: "(usage_step ctx_H)\<^sup>*\<^sup>* policy_db (policy_db\<lparr>db_warnings := [sample_warning 2\<lparr>wp_updated_at := 9\<rparr>]\<rparr>)"
    by (rule r_into_rtranclp) (rule usage_step.set_policy [OF set_sample_policy])
  have "get_task_usage_warning_policy policy_db (ws_id sample_ws) ''t'' = Some (sample_warning 1)" by code_simp
  from policy_revision_grows [OF r this] show ?thesis by (auto simp: sample_warning_def)
qed

definition warned_event :: event_row where
  "warned_event = event_of ''u1'' 5 (warning_idempotency_key (\<lambda>_. ''h'') (ws_id sample_ws) ''t'' 1)
     \<lparr>ne_event_type = ''usage.warning'', ne_actor = ''agent'', ne_workspace_id = Some (ws_id sample_ws),
      ne_target = Some ''agent'', ne_task_id = Some ''t'', ne_causation_id = Some ''e'',
      ne_payload = warning_payload (sample_warning 1) (sample_attempt 1)\<rparr>"

definition warned_db :: db where
  "warned_db = policy_db\<lparr>db_events := [warned_event]\<rparr>"

lemma sample_warned:
  "evaluate_task_usage_warning (\<lambda>_. ''h'') ''u1'' 5 (sample_attempt 1) policy_db = Inr (Some warned_event, warned_db)"
  by code_simp

lemma sample_not_warned_again:
  "evaluate_task_usage_warning (\<lambda>_. ''h'') ''u2'' 6 (sample_attempt 2) warned_db = Inr (Some warned_event, warned_db)"
  by code_simp

theorem revision_warns_once_witness:
  "length (db_events warned_db) = 1 \<and>
   evaluate_task_usage_warning (\<lambda>_. ''h'') ''u2'' 6 (sample_attempt 2) warned_db = Inr (Some warned_event, warned_db)"
proof -
  have g: "get_task_usage_warning_policy policy_db (ua_workspace_id (sample_attempt 1)) (ua_task_id (sample_attempt 1)) =
      Some (sample_warning 1)"
    "get_task_usage_warning_policy warned_db (ua_workspace_id (sample_attempt 1)) (ua_task_id (sample_attempt 1)) =
      Some (sample_warning 1)" by code_simp+
  have "warned_event = warned_event \<and> warned_db = warned_db"
    by (rule revision_warns_once [OF sample_warned rtranclp.rtrancl_refl g _ _ sample_not_warned_again])
      (simp_all add: sample_attempt_def)
  then show ?thesis using sample_not_warned_again by (simp add: warned_db_def)
qed

definition usage_job :: job_row where
  "usage_job = \<lparr>jb_id = ''j'', jb_workspace_id = Some (ws_id sample_ws), jb_task_id = None, jb_runner_profile_id = None,
     jb_assigned_agent = None, jb_status = ''running'', jb_prompt_path = None, jb_branch = None,
     jb_worktree_path = None, jb_terminal_session_id = None, jb_logs_path = None, jb_attempt_count = 1,
     jb_timeout_seconds = None, jb_payload_json = None, jb_result_json = None, jb_created_at = 0,
     jb_started_at = None, jb_completed_at = None, jb_last_activity_at = None, jb_progress_json = None,
     jb_recoverable = False, jb_updated_at = 0\<rparr>"

definition usage_entry :: "int \<Rightarrow> usage_row" where
  "usage_entry n = \<lparr>us_job_id = ''j'', us_attempt_token = 1, us_workspace_id = Some (ws_id sample_ws), us_task_id = None,
     us_evidence = usage_canonical_dict sample_evidence, us_evidence_digest = ''d'', us_observed_tokens = Some n,
     us_provider_cost_microusd = None, us_completeness = ''partial'', us_terminal_event_id = None,
     us_event_created = False, us_recorded_at = 4\<rparr>"

definition job_db :: db where
  "job_db = usage_db\<lparr>db_jobs := [usage_job]\<rparr>"

theorem attempt_usage_final_witness:
  "insert_attempt_usage (usage_entry 7) (job_db\<lparr>db_usage := [usage_entry 5]\<rparr>) =
     Inr (False, job_db\<lparr>db_usage := [usage_entry 5]\<rparr>)"
proof -
  have 1: "insert_attempt_usage (usage_entry 5) job_db = Inr (True, job_db\<lparr>db_usage := [usage_entry 5]\<rparr>)" by code_simp
  have 2: "\<exists>c s3. insert_attempt_usage (usage_entry 7) (job_db\<lparr>db_usage := [usage_entry 5]\<rparr>) = Inr (c, s3)"
    by (auto simp: insert_attempt_usage_def usage_entry_def int64_def usage_checks_def USAGE_COMPLETENESS_def
        get_attempt_usage_def)
  then obtain c s3 where 3: "insert_attempt_usage (usage_entry 7) (job_db\<lparr>db_usage := [usage_entry 5]\<rparr>) = Inr (c, s3)"
    by blast
  from attempt_usage_final [where H = ctx_H, OF 1 rtranclp.rtrancl_refl _ _ 3]
  have "\<not> c \<and> s3 = job_db\<lparr>db_usage := [usage_entry 5]\<rparr>" by (simp add: usage_entry_def)
  with 3 show ?thesis by simp
qed

end
