(* ===== verification/Registry.thy ===== *)
theory Registry
  imports Store Timestamps
begin

text \<open>
  The agent registry of a workspace (\<^verbatim>\<open>db.py\<close>, from \<open>_validate_discord_user_id\<close> to
  \<open>sync_workspace_agents\<close>): the authoritative roster that is synchronised from a source, the
  manual overrides with their expiry, the legacy entries, the agent map in effect at a time, and
  its projection into the workspace row. \<open>now\<close> is the fixed clock \<open>now_utc\<close>, \<open>t\<close> the clock that
  the event ledger reads. A savepoint that is rolled back is a raise.
\<close>

section \<open>Validation\<close>

definition digits_value :: "string \<Rightarrow> int" where
  "digits_value s = foldl (\<lambda>n c. 10 * n + (of_char c - 48)) 0 s"

definition validate_discord_user_id :: "pyval \<Rightarrow> string result" where
  "validate_discord_user_id v =
     (let did = strip (py_str v) in
      if did = [] \<or> \<not> list_all is_digit did \<or> digits_value did \<le> 0
      then raise ValueErr ''invalid discord_user_id'' else Inr did)"

definition parse_expires_at :: "timestamp \<Rightarrow> pyval \<Rightarrow> timestamp option result" where
  "parse_expires_at now v =
     (if v = PyNone then Inr None
      else case as_str v of
        None \<Rightarrow> raise ValueErr ''expires_at must be exactly YYYY-MM-DDTHH:MM:SSZ in UTC''
      | Some x \<Rightarrow>
          (case parse_iso x of
             None \<Rightarrow> raise ValueErr ''expires_at is not a valid time''
           | Some e \<Rightarrow> if e \<le> now then raise ValueErr ''expires_at must be in the future'' else Inr (Some e)))"

section \<open>The agents in effect\<close>

record agent_info =
  ai_discord_user_id :: string
  ai_display_name :: string
  ai_agent_type :: string

definition info_of :: "registry_row \<Rightarrow> agent_info" where
  "info_of r = \<lparr>ai_discord_user_id = rg_discord_user_id r, ai_display_name = rg_display_name r,
     ai_agent_type = rg_agent_type r\<rparr>"

definition kind_rank :: "string \<Rightarrow> nat" where
  "kind_rank k = (if k = ''override'' then 1 else if k = ''authoritative'' then 2 else if k = ''legacy'' then 3 else 4)"

definition lapsed :: "timestamp \<Rightarrow> registry_row \<Rightarrow> bool" where
  "lapsed now r = (rg_entry_kind r = ''override'' \<and>
     (case rg_expires_at r of None \<Rightarrow> False | Some e \<Rightarrow> e \<le> now))"

fun effective_loop ::
  "timestamp \<Rightarrow> (string \<times> agent_info) list \<Rightarrow> registry_row list \<Rightarrow> (string \<times> agent_info) list" where
  "effective_loop now acc [] = acc"
| "effective_loop now acc (r # rs) =
     (if List.member (map fst acc) (rg_agent_name r) then effective_loop now acc rs
      else if lapsed now r then effective_loop now acc rs
      else effective_loop now (acc @ [(rg_agent_name r, info_of r)]) rs)"

definition workspace_entries :: "db \<Rightarrow> string \<Rightarrow> registry_row list" where
  "workspace_entries s wid = filter (\<lambda>r. rg_workspace_id r = wid) (db_registry s)"

definition resolve_effective_agents :: "timestamp \<Rightarrow> db \<Rightarrow> string \<Rightarrow> (string \<times> agent_info) list result" where
  "resolve_effective_agents now s wid =
     (let effective = effective_loop now [] (sort_key (\<lambda>r. kind_rank (rg_entry_kind r)) (workspace_entries s wid))
      in if distinct (map (\<lambda>(n, i). ai_discord_user_id i) effective) then Inr effective
         else raise ValueErr ''duplicate effective discord_user_id'')"

definition get_agent_discord_id :: "timestamp \<Rightarrow> db \<Rightarrow> string \<Rightarrow> string \<Rightarrow> string option result" where
  "get_agent_discord_id now s wid agent_name =
     bindE (resolve_effective_agents now s wid) (\<lambda>effective.
       Inr (map_option ai_discord_user_id (map_of effective agent_name)))"

text \<open>\<open>build_agent_registry_map\<close>: the daemon's map from Discord ids to agents per workspace.\<close>

definition registry_put ::
  "string \<Rightarrow> (string \<times> agent_info) \<Rightarrow> (int \<times> string \<Rightarrow> string option) \<Rightarrow> (int \<times> string \<Rightarrow> string option)" where
  "registry_put wid e m = m((digits_value (ai_discord_user_id (snd e)), wid) \<mapsto> fst e)"

fun registry_loop ::
  "timestamp \<Rightarrow> db \<Rightarrow> workspace list \<Rightarrow> (int \<times> string \<Rightarrow> string option) \<Rightarrow> (int \<times> string \<Rightarrow> string option) result" where
  "registry_loop now s [] m = Inr m"
| "registry_loop now s (w # ws) m =
     bindE (resolve_effective_agents now s (ws_id w)) (\<lambda>effective.
       registry_loop now s ws (fold (registry_put (ws_id w)) effective m))"

definition build_agent_registry_map :: "timestamp \<Rightarrow> db \<Rightarrow> (int \<times> string \<Rightarrow> string option) result" where
  "build_agent_registry_map now s = registry_loop now s (sort_key ws_id (db_workspaces s)) (\<lambda>_. None)"

section \<open>The projection\<close>

definition info_dict :: "agent_info \<Rightarrow> pyval" where
  "info_dict i = PyDict [(''discord_user_id'', PyStr (ai_discord_user_id i)),
     (''display_name'', PyStr (ai_display_name i)), (''agent_type'', PyStr (ai_agent_type i))]"

definition registry_head :: "db \<Rightarrow> string \<Rightarrow> registry_head_row" where
  "registry_head s wid = (case find (\<lambda>h. rh_workspace_id h = wid) (db_registry_heads s) of
     None \<Rightarrow> \<lparr>rh_workspace_id = wid, rh_agents = PyDict [], rh_revision = 0\<rparr> | Some h \<Rightarrow> h)"

definition write_agents_json_projection :: "timestamp \<Rightarrow> string \<Rightarrow> db \<Rightarrow> db result" where
  "write_agents_json_projection now wid s =
     bindE (resolve_effective_agents now s wid) (\<lambda>effective.
       let h = registry_head s wid;
           h' = h\<lparr>rh_agents := json_col (PyDict (map (\<lambda>(n, i). (n, info_dict i)) effective)),
                  rh_revision := rh_revision h + 1\<rparr>
       in Inr (s\<lparr>db_registry_heads := h' # filter (\<lambda>x. rh_workspace_id x \<noteq> wid) (db_registry_heads s)\<rparr>))"

section \<open>Overrides\<close>

definition is_override :: "string \<Rightarrow> string \<Rightarrow> registry_row \<Rightarrow> bool" where
  "is_override wid n r =
     (rg_workspace_id r = wid \<and> rg_agent_name r = n \<and> rg_entry_kind r = ''override'')"

definition override_event :: "string \<Rightarrow> string \<Rightarrow> string \<Rightarrow> (string \<times> pyval) list \<Rightarrow> new_event" where
  "override_event event_type actor wid payload =
     \<lparr>ne_event_type = event_type, ne_actor = actor, ne_workspace_id = Some wid, ne_target = Some wid,
      ne_task_id = None, ne_causation_id = None, ne_payload = PyDict payload\<rparr>"

definition opt_time :: "timestamp option \<Rightarrow> pyval" where
  "opt_time x = (case x of None \<Rightarrow> PyNone | Some t \<Rightarrow> PyStr (iso_of t))"

text \<open>The \<open>INSERT\<close> of a new override, or the \<open>UPDATE\<close> of the one that is there.\<close>

definition put_override ::
  "timestamp \<Rightarrow> string \<Rightarrow> string \<Rightarrow> string \<Rightarrow> string \<Rightarrow> string \<Rightarrow> timestamp option \<Rightarrow> db \<Rightarrow> db" where
  "put_override now wid agent_name did actor reason expiry s =
     (if \<not> list_ex (is_override wid agent_name) (db_registry s)
      then s\<lparr>db_registry := db_registry s @
        [\<lparr>rg_workspace_id = wid, rg_agent_name = agent_name, rg_entry_kind = ''override'',
          rg_discord_user_id = did, rg_display_name = agent_name, rg_agent_type = ''override'',
          rg_actor = Some actor, rg_reason = Some reason, rg_expires_at = expiry,
          rg_created_at = now, rg_updated_at = now\<rparr>]\<rparr>
      else s\<lparr>db_registry := update_where (is_override wid agent_name)
        (\<lambda>r. r\<lparr>rg_discord_user_id := did, rg_actor := Some actor, rg_reason := Some reason,
               rg_expires_at := expiry, rg_updated_at := now\<rparr>) (db_registry s)\<rparr>)"

definition set_workspace_agent ::
  "string \<Rightarrow> string \<Rightarrow> timestamp \<Rightarrow> timestamp \<Rightarrow> string \<Rightarrow> string \<Rightarrow> pyval \<Rightarrow> string \<Rightarrow> string \<Rightarrow> pyval \<Rightarrow> db \<Rightarrow> db result" where
  "set_workspace_agent uuid key t now wid agent_name0 discord_user_id actor reason expires_at s =
     (let agent_name = strip agent_name0 in
      if get_workspace s wid = None then raise ValueErr ''unknown workspace''
      else if agent_name = [] then raise ValueErr ''agent_name is required''
      else if strip reason = [] then raise ValueErr ''reason is required''
      else if strip actor = [] then raise ValueErr ''actor is required''
      else
        bindE (validate_discord_user_id discord_user_id) (\<lambda>did.
        bindE (parse_expires_at now expires_at) (\<lambda>expiry.
        bindE (resolve_effective_agents now s wid) (\<lambda>effective.
        if List.member (map (\<lambda>(n, i). ai_discord_user_id i) (filter (\<lambda>(n, i). n \<noteq> agent_name) effective)) did
        then raise ValueErr ''discord_user_id is already effective for another agent''
        else
          let s1 = put_override now wid agent_name did actor reason expiry s
          in bindE (write_agents_json_projection now wid s1) (\<lambda>s2.
             bindE (append_event uuid t (Some key) (override_event ''workspace.agent_override.set'' actor wid
                 [(''agent_name'', PyStr agent_name), (''discord_user_id'', PyStr did),
                  (''reason'', PyStr reason), (''expires_at'', opt_time expiry)]) s2) (\<lambda>(_, s3).
             Inr s3))))))"

definition remove_workspace_agent_override ::
  "string \<Rightarrow> string \<Rightarrow> timestamp \<Rightarrow> timestamp \<Rightarrow> string \<Rightarrow> string \<Rightarrow> string \<Rightarrow> string \<Rightarrow> db \<Rightarrow> (string \<times> db) result" where
  "remove_workspace_agent_override uuid key t now wid agent_name0 actor reason s =
     (let agent_name = strip agent_name0 in
      if get_workspace s wid = None then raise ValueErr ''unknown workspace''
      else if agent_name = [] then raise ValueErr ''agent_name is required''
      else if strip reason = [] then raise ValueErr ''reason is required''
      else if strip actor = [] then raise ValueErr ''actor is required''
      else case find (is_override wid agent_name) (db_registry s) of
        None \<Rightarrow> raise ValueErr ''no override found''
      | Some row \<Rightarrow>
          bindE (write_agents_json_projection now wid
              (s\<lparr>db_registry := filter (\<lambda>r. \<not> is_override wid agent_name r) (db_registry s)\<rparr>)) (\<lambda>s2.
          bindE (append_event uuid t (Some key) (override_event ''workspace.agent_override.removed'' actor wid
              [(''agent_name'', PyStr agent_name), (''discord_user_id'', PyStr (rg_discord_user_id row)),
               (''reason'', PyStr reason), (''expires_at'', opt_time (rg_expires_at row))]) s2) (\<lambda>(_, s3).
            Inr (rg_discord_user_id row, s3))))"

section \<open>The authoritative roster\<close>

record roster_entry =
  re_id :: string
  re_discord_user_id :: string
  re_display_name :: string
  re_agent_type :: string

definition normalize_entry :: "(string \<times> pyval) list \<Rightarrow> string list \<Rightarrow> string list \<Rightarrow> roster_entry result" where
  "normalize_entry raw seen_ids seen_dids =
     (let n = strip (py_str (dget_or raw ''id'' (PyStr []))) in
      if n = [] then raise ValueErr ''entry missing id''
      else if List.member seen_ids n then raise ValueErr ''duplicate agent id''
      else bindE (validate_discord_user_id (dget raw ''discord_user_id'')) (\<lambda>did.
        if List.member seen_dids did then raise ValueErr ''duplicate discord_user_id''
        else
          let display = strip (py_str (dget_or raw ''display_name'' (PyStr n)));
              agent_type = lower (strip (py_str (dget_or raw ''agent_type'' (PyStr ''managed''))))
          in if agent_type \<noteq> ''managed'' \<and> agent_type \<noteq> ''external'' then raise ValueErr ''invalid agent_type''
             else Inr \<lparr>re_id = n, re_discord_user_id = did,
                       re_display_name = (if display = [] then n else display), re_agent_type = agent_type\<rparr>))"

fun normalize_entries ::
  "(string \<times> pyval) list list \<Rightarrow> string list \<Rightarrow> string list \<Rightarrow> roster_entry list result" where
  "normalize_entries [] seen_ids seen_dids = Inr []"
| "normalize_entries (raw # raws) seen_ids seen_dids =
     bindE (normalize_entry raw seen_ids seen_dids) (\<lambda>e.
     bindE (normalize_entries raws (re_id e # seen_ids) (re_discord_user_id e # seen_dids)) (\<lambda>es.
       Inr (e # es)))"

definition registry_source :: "db \<Rightarrow> string \<Rightarrow> registry_source_row option" where
  "registry_source s wid = find (\<lambda>r. rs_workspace_id r = wid) (db_registry_sources s)"

text \<open>The authoritative agents that an unexpired override shadows.\<close>

definition shadowed_names :: "timestamp \<Rightarrow> db \<Rightarrow> string \<Rightarrow> string list" where
  "shadowed_names now s wid =
     sort (remdups (map rg_agent_name (filter (\<lambda>a. rg_entry_kind a = ''authoritative'' \<and>
       list_ex (\<lambda>r. is_override wid (rg_agent_name a) r \<and> \<not> lapsed now r) (db_registry s)) (workspace_entries s wid))))"

record sync_report =
  sr_revision :: int
  sr_added :: "string list"
  sr_updated :: "string list"
  sr_removed :: "string list"
  sr_unchanged :: "string list"
  sr_shadowed :: "string list"

definition source_view :: "db \<Rightarrow> string \<Rightarrow> (string \<times> agent_info) list" where
  "source_view s wid = map (\<lambda>r. (rg_agent_name r, info_of r))
     (sort_key (\<lambda>r. kind_rank (rg_entry_kind r))
       (filter (\<lambda>r. List.member [''authoritative'', ''legacy''] (rg_entry_kind r)) (workspace_entries s wid)))"

definition entry_view :: "roster_entry list \<Rightarrow> (string \<times> agent_info) list" where
  "entry_view es = map (\<lambda>e. (re_id e, \<lparr>ai_discord_user_id = re_discord_user_id e, ai_display_name = re_display_name e,
     ai_agent_type = re_agent_type e\<rparr>)) es"

definition authoritative_row :: "string \<Rightarrow> timestamp \<Rightarrow> roster_entry \<Rightarrow> registry_row" where
  "authoritative_row wid now e =
     \<lparr>rg_workspace_id = wid, rg_agent_name = re_id e, rg_entry_kind = ''authoritative'',
      rg_discord_user_id = re_discord_user_id e, rg_display_name = re_display_name e,
      rg_agent_type = re_agent_type e, rg_actor = None, rg_reason = None, rg_expires_at = None,
      rg_created_at = now, rg_updated_at = now\<rparr>"

text \<open>\<open>DELETE\<close> of the authoritative and legacy rows of the workspace, and the \<open>INSERT\<close>s.\<close>

definition replace_roster :: "string \<Rightarrow> timestamp \<Rightarrow> roster_entry list \<Rightarrow> registry_row list \<Rightarrow> registry_row list" where
  "replace_roster wid now es rows =
     filter (\<lambda>r. \<not> (rg_workspace_id r = wid \<and> List.member [''authoritative'', ''legacy''] (rg_entry_kind r))) rows @
     map (authoritative_row wid now) es"

definition put_registry_source :: "registry_source_row \<Rightarrow> db \<Rightarrow> db" where
  "put_registry_source r s =
     (if registry_source s (rs_workspace_id r) = None then s\<lparr>db_registry_sources := db_registry_sources s @ [r]\<rparr>
      else s\<lparr>db_registry_sources := update_where (\<lambda>x. rs_workspace_id x = rs_workspace_id r) (\<lambda>_. r) (db_registry_sources s)\<rparr>)"

definition sync_event_key :: "string \<Rightarrow> string \<Rightarrow> int \<Rightarrow> string \<Rightarrow> string" where
  "sync_event_key wid source_id source_version source_hash =
     wid @ '':agent-registry-sync:'' @ source_id @ '':'' @ dec_int source_version @ '':'' @ source_hash"

definition str_list :: "string list \<Rightarrow> pyval" where
  "str_list xs = PyList (map PyStr xs)"

definition sync_workspace_agents ::
  "string \<Rightarrow> timestamp \<Rightarrow> timestamp \<Rightarrow> string \<Rightarrow> string \<Rightarrow> pyval \<Rightarrow> string \<Rightarrow> string option \<Rightarrow>
   (string \<times> pyval) list list \<Rightarrow> bool \<Rightarrow> string \<Rightarrow> db \<Rightarrow> (sync_report \<times> db) result" where
  "sync_workspace_agents uuid t now wid source_id0 source_version0 source_hash source_path entries replace synced_by s =
     (if get_workspace s wid = None then raise ValueErr ''unknown workspace''
      else if \<not> replace then raise ValueErr ''authoritative sync requires --replace''
      else if strip source_id0 = [] then raise ValueErr ''source_id is required''
      else if strip synced_by = [] then raise ValueErr ''synced_by is required''
      else case as_int source_version0 of
        None \<Rightarrow> raise ValueErr ''source_version must be a non-negative integer''
      | Some source_version \<Rightarrow>
      if source_version < 0 then raise ValueErr ''source_version must be a non-negative integer''
      else if length source_hash \<noteq> 64 \<or> \<not> list_all is_lower_hex source_hash
      then raise ValueErr ''source_hash must be a lowercase 64-character SHA-256 hex string''
      else
      bindE (normalize_entries entries [] []) (\<lambda>es.
      let source_id = strip source_id0;
          apply =
            (let before = source_view s wid; after = entry_view es;
                 (added, updated, removed, unchanged) = dict_diff before after;
                 s1 = put_registry_source
                   \<lparr>rs_workspace_id = wid, rs_source_id = source_id, rs_source_version = source_version,
                    rs_source_hash = source_hash, rs_source_path = source_path, rs_synced_by = Some synced_by,
                    rs_synced_at = now\<rparr> (s\<lparr>db_registry := replace_roster wid now es (db_registry s)\<rparr>)
             in if \<not> int64 source_version then raise OverflowErr ''Python int too large to convert to SQLite INTEGER''
             else
             bindE (write_agents_json_projection now wid s1) (\<lambda>s2.
               let shadowed = shadowed_names now s2 wid in
               bindE (append_event uuid t (Some (sync_event_key wid source_id source_version source_hash))
                   (override_event ''workspace.agent_registry.synced'' synced_by wid
                     [(''source_id'', PyStr source_id), (''source_version'', PyInt source_version),
                      (''source_hash'', PyStr source_hash), (''added'', str_list added), (''updated'', str_list updated),
                      (''removed'', str_list removed), (''unchanged'', str_list unchanged),
                      (''shadowed'', str_list shadowed)]) s2) (\<lambda>(_, s3).
                 Inr (\<lparr>sr_revision = rh_revision (registry_head s3 wid), sr_added = added, sr_updated = updated,
                       sr_removed = removed, sr_unchanged = unchanged, sr_shadowed = shadowed\<rparr>, s3))))
      in case registry_source s wid of
           None \<Rightarrow> apply
         | Some r \<Rightarrow>
             if source_id \<noteq> rs_source_id r then raise ValueErr ''source takeover rejected''
             else if source_version < rs_source_version r then raise ValueErr ''rollback rejected''
             else if source_version = rs_source_version r \<and> source_hash \<noteq> rs_source_hash r
             then raise ValueErr ''version conflict''
             else if source_version = rs_source_version r then
               Inr (\<lparr>sr_revision = rh_revision (registry_head s wid), sr_added = [], sr_updated = [], sr_removed = [],
                     sr_unchanged = sort (map rg_agent_name (filter (\<lambda>r. rg_entry_kind r = ''authoritative'')
                       (workspace_entries s wid))),
                     sr_shadowed = shadowed_names now s wid\<rparr>, s)
             else apply))"

section \<open>Which entry is in effect\<close>

definition registry_key :: "registry_row \<Rightarrow> string \<times> string \<times> string" where
  "registry_key r = (rg_workspace_id r, rg_agent_name r, rg_entry_kind r)"

text \<open>The primary key of the entries, the CHECK on their kind, and the primary key of the sources.\<close>

definition registry_inv :: "db \<Rightarrow> bool" where
  "registry_inv s \<longleftrightarrow> distinct (map registry_key (db_registry s)) \<and>
     (\<forall>r \<in> set (db_registry s). rg_entry_kind r \<in> {''authoritative'', ''override'', ''legacy''}) \<and>
     distinct (map rs_workspace_id (db_registry_sources s))"

lemma effective_loop_map:
  "map_of (effective_loop now acc rs) n =
     (case map_of acc n of Some i \<Rightarrow> Some i
      | None \<Rightarrow> map_option info_of (find (\<lambda>r. rg_agent_name r = n \<and> \<not> lapsed now r) rs))"
proof (induction now acc rs rule: effective_loop.induct)
  case (1 now acc)
  then show ?case by (simp split: option.splits)
next
  case (2 now acc r rs)
  show ?case
  proof (cases "rg_agent_name r \<in> set (map fst acc)")
    case True
    then have "map_of acc (rg_agent_name r) \<noteq> None" by (simp add: map_of_eq_None_iff)
    with True 2(1) show ?thesis by (cases "map_of acc n") (auto simp del: not_None_eq)
  next
    case False
    then have "map_of acc (rg_agent_name r) = None" by (simp add: map_of_eq_None_iff)
    with False 2(2,3) show ?thesis
      by (cases "lapsed now r"; cases "rg_agent_name r = n"; cases "map_of acc n") (simp_all add: map_add_def)
  qed
qed

lemma effective_loop_distinct: "distinct (map fst acc) \<Longrightarrow> distinct (map fst (effective_loop now acc rs))"
  by (induction now acc rs rule: effective_loop.induct) auto

lemma find_sort_key:
  assumes "find P (sort_key f xs) = Some r"
  shows "r \<in> set xs \<and> P r \<and> (\<forall>x \<in> set xs. P x \<longrightarrow> f r \<le> f x)"
proof -
  have "f r \<le> f x" if "find P ys = Some r" "sorted (map f ys)" "x \<in> set ys" "P x" for ys x
    using that by (induction ys) (auto split: if_splits)
  with assms show ?thesis by (fastforce dest: find_Some_in)
qed

definition candidate :: "timestamp \<Rightarrow> db \<Rightarrow> string \<Rightarrow> string \<Rightarrow> registry_row \<Rightarrow> bool" where
  "candidate now s wid n r \<longleftrightarrow>
     r \<in> set (db_registry s) \<and> rg_workspace_id r = wid \<and> rg_agent_name r = n \<and> \<not> lapsed now r"

lemma kind_rank_inj:
  "k \<in> {''authoritative'', ''override'', ''legacy''} \<Longrightarrow> k' \<in> {''authoritative'', ''override'', ''legacy''} \<Longrightarrow>
     kind_rank k = kind_rank k' \<Longrightarrow> k = k'"
  by (auto simp: kind_rank_def)

lemma best_entry:
  assumes "registry_inv s" "resolve_effective_agents now s wid = Inr effective"
  shows "(map_of effective n = Some i \<longleftrightarrow> (\<exists>r. candidate now s wid n r \<and> info_of r = i \<and>
      (\<forall>r'. candidate now s wid n r' \<longrightarrow> kind_rank (rg_entry_kind r) \<le> kind_rank (rg_entry_kind r')))) \<and>
    distinct (map fst effective) \<and> distinct (map (\<lambda>(n, i). ai_discord_user_id i) effective)"
proof -
  let ?P = "\<lambda>r. rg_agent_name r = n \<and> \<not> lapsed now r"
  let ?rows = "sort_key (\<lambda>r. kind_rank (rg_entry_kind r)) (workspace_entries s wid)"
  from assms(2) have eff: "effective = effective_loop now [] ?rows"
    and d: "distinct (map (\<lambda>(n, i). ai_discord_user_id i) effective)"
    by (auto simp: resolve_effective_agents_def Let_def split: if_splits)
  then have m: "map_of effective n = map_option info_of (find ?P ?rows)" by (simp add: effective_loop_map)
  have cand: "candidate now s wid n r \<longleftrightarrow> r \<in> set (workspace_entries s wid) \<and> ?P r" for r
    by (auto simp: candidate_def workspace_entries_def)
  have best: "find ?P ?rows = Some r \<longleftrightarrow> candidate now s wid n r \<and>
      (\<forall>r'. candidate now s wid n r' \<longrightarrow> kind_rank (rg_entry_kind r) \<le> kind_rank (rg_entry_kind r'))" for r
  proof
    assume "find ?P ?rows = Some r"
    from find_sort_key [OF this] show "candidate now s wid n r \<and>
      (\<forall>r'. candidate now s wid n r' \<longrightarrow> kind_rank (rg_entry_kind r) \<le> kind_rank (rg_entry_kind r'))"
      by (auto simp: cand)
  next
    assume r: "candidate now s wid n r \<and>
      (\<forall>r'. candidate now s wid n r' \<longrightarrow> kind_rank (rg_entry_kind r) \<le> kind_rank (rg_entry_kind r'))"
    then have "find ?P ?rows \<noteq> None" by (auto simp: find_None_notin cand)
    then obtain r' where r': "find ?P ?rows = Some r'" by auto
    with find_sort_key [OF r'] r have "candidate now s wid n r'" 
      "kind_rank (rg_entry_kind r) = kind_rank (rg_entry_kind r')" by (auto simp: cand intro: antisym)
    moreover from this r assms(1) have "registry_key r = registry_key r'"
      using kind_rank_inj [of "rg_entry_kind r" "rg_entry_kind r'"]
      by (auto simp: registry_key_def registry_inv_def candidate_def)
    ultimately have "r = r'" using r assms(1)
      by (auto simp: registry_inv_def candidate_def distinct_map dest: inj_onD)
    with r' show "find ?P ?rows = Some r" by simp
  qed
  have "map_of effective n = Some i \<longleftrightarrow> (\<exists>r. find ?P ?rows = Some r \<and> info_of r = i)" using m by auto
  then show ?thesis using best d eff effective_loop_distinct [of "[]"] by auto
qed

text \<open>
  C40: an agent is in effect exactly with the best entry that has not lapsed: an override before
  the roster, the roster before the legacy entries; and no two agents in effect share a Discord id.
\<close>

theorem effective_is_best:
  assumes "registry_inv s" "resolve_effective_agents now s wid = Inr effective"
  shows "(map_of effective n = Some i \<longleftrightarrow> (\<exists>r. candidate now s wid n r \<and> info_of r = i \<and>
      (\<forall>r'. candidate now s wid n r' \<longrightarrow> kind_rank (rg_entry_kind r) \<le> kind_rank (rg_entry_kind r')))) \<and>
    distinct (map fst effective) \<and> distinct (map (\<lambda>(n, i). ai_discord_user_id i) effective)"
  using best_entry [OF assms] .

section \<open>The operations keep the registry\<close>

lemma registry_inv_frame [simp]:
  "registry_inv (s\<lparr>db_events := es\<rparr>) = registry_inv s" "registry_inv (s\<lparr>db_registry_heads := hs\<rparr>) = registry_inv s"
  by (simp_all add: registry_inv_def)

text \<open>Writing the projection and the event touches nothing but the head and the ledger.\<close>

lemma projection_frame:
  assumes "write_agents_json_projection now wid s = Inr s'"
  shows "\<exists>hs effective. s' = s\<lparr>db_registry_heads := hs\<rparr> \<and> resolve_effective_agents now s wid = Inr effective \<and>
    registry_head s' wid = \<lparr>rh_workspace_id = rh_workspace_id (registry_head s wid),
      rh_agents = json_col (PyDict (map (\<lambda>(n, i). (n, info_dict i)) effective)),
      rh_revision = rh_revision (registry_head s wid) + 1\<rparr>"
proof -
  have "rh_workspace_id (registry_head s wid) = wid"
    by (auto simp: registry_head_def dest: find_Some_in split: option.splits)
  then show ?thesis using assms
    by (auto simp: write_agents_json_projection_def Let_def registry_head_def)
qed

lemma registry_event_frame:
  assumes "append_event uuid t k a s = Inr (r, s')"
  shows "\<exists>es. s' = s\<lparr>db_events := es\<rparr>"
proof -
  obtain e c where "r = (e, c)" by (cases r)
  with append_event_prefix assms show ?thesis by blast
qed

lemma put_override_inv:
  assumes "registry_inv s"
  shows "registry_inv (put_override now wid n did actor reason e s)"
proof (cases "list_ex (is_override wid n) (db_registry s)")
  case True
  let ?f = "\<lambda>r. r\<lparr>rg_discord_user_id := did, rg_actor := Some actor, rg_reason := Some reason,
               rg_expires_at := e, rg_updated_at := now\<rparr>"
  have "map registry_key (update_where (is_override wid n) ?f (db_registry s)) = map registry_key (db_registry s)"
    by (rule map_update_where) (simp add: registry_key_def)
  with assms True show ?thesis by (auto simp: put_override_def registry_inv_def in_update_where is_override_def split: if_splits)
next
  case False
  then have "(wid, n, ''override'') \<notin> registry_key ` set (db_registry s)"
    by (auto simp: registry_key_def is_override_def list_ex_iff image_iff)
  with assms False show ?thesis by (simp add: put_override_def registry_inv_def registry_key_def [of "\<lparr>rg_workspace_id = _, rg_agent_name = _, rg_entry_kind = _, rg_discord_user_id = _, rg_display_name = _, rg_agent_type = _, rg_actor = _, rg_reason = _, rg_expires_at = _, rg_created_at = _, rg_updated_at = _\<rparr>"])
qed

lemma set_override_Inr:
  assumes "set_workspace_agent uuid key t now wid n did actor reason exp s = Inr s'"
  shows "\<exists>d e s2 a r. get_workspace s wid \<noteq> None \<and>
    write_agents_json_projection now wid (put_override now wid (strip n) d actor reason e s) = Inr s2 \<and>
    append_event uuid t (Some key) a s2 = Inr (r, s')"
  using assms unfolding set_workspace_agent_def Let_def by (auto split: if_splits prod.splits) blast

lemma remove_override_Inr:
  assumes "remove_workspace_agent_override uuid key t now wid n actor reason s = Inr (d, s')"
  shows "\<exists>s2 a r. get_workspace s wid \<noteq> None \<and> write_agents_json_projection now wid
      (s\<lparr>db_registry := filter (\<lambda>r. \<not> is_override wid (strip n) r) (db_registry s)\<rparr>) = Inr s2 \<and>
    append_event uuid t (Some key) a s2 = Inr (r, s')"
  using assms unfolding remove_workspace_agent_override_def Let_def
  by (auto split: if_splits prod.splits option.splits)

text \<open>A synchronisation is a replay of the current version, or it replaces the roster.\<close>

definition roster_update :: "string \<Rightarrow> timestamp \<Rightarrow> registry_source_row \<Rightarrow> roster_entry list \<Rightarrow> db \<Rightarrow> db" where
  "roster_update wid now src es s =
     put_registry_source src (s\<lparr>db_registry := replace_roster wid now es (db_registry s)\<rparr>)"

definition source_advances :: "db \<Rightarrow> registry_source_row \<Rightarrow> bool" where
  "source_advances s src \<longleftrightarrow> (case registry_source s (rs_workspace_id src) of None \<Rightarrow> True
     | Some r \<Rightarrow> rs_source_id src = rs_source_id r \<and> rs_source_version r < rs_source_version src)"

lemma sync_Inr:
  assumes "sync_workspace_agents uuid t now wid sid v h path raws repl by s = Inr (rep, s')"
  shows "(s' = s \<and> sr_added rep = [] \<and> sr_updated rep = [] \<and> sr_removed rep = [] \<and>
      (\<exists>r. registry_source s wid = Some r \<and> rs_source_id r = strip sid \<and>
         v = PyInt (rs_source_version r) \<and> rs_source_hash r = h)) \<or>
    (\<exists>es src s2 k a x. normalize_entries raws [] [] = Inr es \<and> source_advances s src \<and>
      rs_workspace_id src = wid \<and> rs_source_id src = strip sid \<and> v = PyInt (rs_source_version src) \<and>
      rs_source_hash src = h \<and> 0 \<le> rs_source_version src \<and>
      write_agents_json_projection now wid (roster_update wid now src es s) = Inr s2 \<and>
      append_event uuid t (Some k) a s2 = Inr (x, s'))"
proof -
  let ?src = "\<lambda>n. \<lparr>rs_workspace_id = wid, rs_source_id = strip sid, rs_source_version = n, rs_source_hash = h,
    rs_source_path = path, rs_synced_by = Some by, rs_synced_at = now\<rparr>"
  from assms obtain n es where v: "v = PyInt n" "0 \<le> n" and es: "normalize_entries raws [] [] = Inr es"
    unfolding sync_workspace_agents_def Let_def by (auto split: if_splits option.splits)
  show ?thesis
  proof (cases "\<exists>r. registry_source s wid = Some r \<and> rs_source_version r = n")
    case True
    with assms v es show ?thesis
      unfolding sync_workspace_agents_def Let_def by (auto split: if_splits)
  next
    case False
    with assms v es have "source_advances s (?src n) \<and> (\<exists>s2 a x.
        write_agents_json_projection now wid (roster_update wid now (?src n) es s) = Inr s2 \<and>
        append_event uuid t (Some (sync_event_key wid (strip sid) n h)) a s2 = Inr (x, s'))"
      unfolding sync_workspace_agents_def Let_def source_advances_def roster_update_def
      by (cases "registry_source s wid") (auto split: if_splits prod.splits)
    then show ?thesis using v es by (intro disjI2 exI [of _ es] exI [of _ "?src n"]) (auto, blast)
  qed
qed

lemma normalize_entries_distinct:
  "normalize_entries raws ids dids = Inr es \<Longrightarrow> distinct (map re_id es) \<and> set (map re_id es) \<inter> set ids = {} \<and>
     distinct (map re_discord_user_id es) \<and> set (map re_discord_user_id es) \<inter> set dids = {}"
proof (induction raws arbitrary: ids dids es)
  case (Cons raw raws)
  from Cons.prems obtain e es' where e: "normalize_entry raw ids dids = Inr e"
    "normalize_entries raws (re_id e # ids) (re_discord_user_id e # dids) = Inr es'" "es = e # es'" by auto
  from e(1) have "re_id e \<notin> set ids" "re_discord_user_id e \<notin> set dids"
    by (auto simp: normalize_entry_def Let_def split: if_splits)
  with Cons.IH [OF e(2)] e(3) show ?case by auto
qed simp

definition roster_row :: "string \<Rightarrow> registry_row \<Rightarrow> bool" where
  "roster_row wid r \<longleftrightarrow> rg_workspace_id r = wid \<and> List.member [''authoritative'', ''legacy''] (rg_entry_kind r)"

lemma put_source_simps [simp]:
  "db_registry (put_registry_source src s) = db_registry s"
  "db_events (put_registry_source src s) = db_events s"
  "db_registry_heads (put_registry_source src s) = db_registry_heads s"
  "registry_source (put_registry_source src s) (rs_workspace_id src) = Some src"
  "w \<noteq> rs_workspace_id src \<Longrightarrow> registry_source (put_registry_source src s) w = registry_source s w"
proof -
  have "find (\<lambda>r. rs_workspace_id r = v) (update_where (\<lambda>x. rs_workspace_id x = rs_workspace_id src) (\<lambda>_. src) rs) =
    (if v = rs_workspace_id src then map_option (\<lambda>_. src) (find (\<lambda>r. rs_workspace_id r = v) rs)
     else find (\<lambda>r. rs_workspace_id r = v) rs)" for v rs
    by (induction rs) (auto simp: update_where_def)
  then have "registry_source (put_registry_source src s) v =
    (if v = rs_workspace_id src then Some src else registry_source s v)" for v
    by (auto simp: put_registry_source_def registry_source_def find_append split: option.splits)
  then show "registry_source (put_registry_source src s) (rs_workspace_id src) = Some src"
    "w \<noteq> rs_workspace_id src \<Longrightarrow> registry_source (put_registry_source src s) w = registry_source s w" by simp_all
qed (simp_all add: put_registry_source_def)

lemma replace_roster_parts:
  "filter (roster_row wid) (replace_roster wid now es rows) = map (authoritative_row wid now) es"
  "filter (\<lambda>r. \<not> roster_row wid r) (replace_roster wid now es rows) = filter (\<lambda>r. \<not> roster_row wid r) rows"
  by (auto simp: replace_roster_def roster_row_def authoritative_row_def filter_empty_conv intro!: filter_True)

lemma registry_inv_roster_update:
  assumes "registry_inv s" "distinct (map re_id es)"
  shows "registry_inv (roster_update (rs_workspace_id src) now src es s)"
proof -
  let ?wid = "rs_workspace_id src"
  let ?rows = "replace_roster (rs_workspace_id src) now es (db_registry s)"
  have "distinct (map registry_key (map (authoritative_row ?wid now) es))"
    using assms(2) by (simp add: registry_key_def authoritative_row_def comp_def distinct_map inj_on_def)
  then have "distinct (map registry_key ?rows)"
    using assms(1) by (auto simp: replace_roster_def registry_inv_def registry_key_def authoritative_row_def
        comp_def distinct_map_filter)
  moreover have "distinct (map rs_workspace_id (db_registry_sources (put_registry_source src s)))"
  proof (cases "registry_source s ?wid")
    case None
    with assms(1) show ?thesis
      using distinct_keys_append [of rs_workspace_id "db_registry_sources s" src]
      by (simp add: put_registry_source_def registry_inv_def registry_source_def)
  next
    case (Some r)
    then have "map rs_workspace_id (db_registry_sources (put_registry_source src s)) = map rs_workspace_id (db_registry_sources s)"
      by (simp add: put_registry_source_def map_update_where)
    with assms(1) show ?thesis by (simp add: registry_inv_def)
  qed
  moreover have "db_registry_sources (roster_update ?wid now src es s) = db_registry_sources (put_registry_source src s)"
    by (simp add: roster_update_def put_registry_source_def registry_source_def)
  ultimately show ?thesis using assms(1)
    by (auto simp: registry_inv_def roster_update_def replace_roster_def authoritative_row_def)
qed

lemma registry_frame [simp]:
  "registry_source (s\<lparr>db_events := es\<rparr>) w = registry_source s w"
  "registry_source (s\<lparr>db_registry_heads := hs\<rparr>) w = registry_source s w"
  "registry_source (s\<lparr>db_registry := rs\<rparr>) w = registry_source s w"
  "resolve_effective_agents now (s\<lparr>db_events := es\<rparr>) w = resolve_effective_agents now s w"
  "resolve_effective_agents now (s\<lparr>db_registry_heads := hs\<rparr>) w = resolve_effective_agents now s w"
  "registry_head (s\<lparr>db_events := es\<rparr>) w = registry_head s w"
  by (simp_all add: registry_source_def resolve_effective_agents_def workspace_entries_def registry_head_def)

lemma put_override_frame [simp]: "registry_source (put_override now wid n did actor reason e s) w = registry_source s w"
  by (simp add: put_override_def)

text \<open>A write of the registry: its entries, then the projection, then the event.\<close>

lemma registry_write_frame:
  assumes "write_agents_json_projection now wid s1 = Inr s2" "append_event uuid t k a s2 = Inr (x, s')"
  shows "db_registry s' = db_registry s1 \<and> db_registry_sources s' = db_registry_sources s1 \<and>
    (\<forall>w. registry_source s' w = registry_source s1 w) \<and> registry_inv s' = registry_inv s1 \<and>
    resolve_effective_agents now s' wid = resolve_effective_agents now s1 wid \<and>
    (\<exists>effective. resolve_effective_agents now s' wid = Inr effective \<and>
      registry_head s' wid = \<lparr>rh_workspace_id = rh_workspace_id (registry_head s1 wid),
        rh_agents = json_col (PyDict (map (\<lambda>(n, i). (n, info_dict i)) effective)),
        rh_revision = rh_revision (registry_head s1 wid) + 1\<rparr>)"
proof -
  from registry_event_frame [OF assms(2)] obtain es where s': "s' = s2\<lparr>db_events := es\<rparr>" by blast
  from projection_frame [OF assms(1)] obtain hs effective where s2: "s2 = s1\<lparr>db_registry_heads := hs\<rparr>"
    "resolve_effective_agents now s1 wid = Inr effective"
    "registry_head s2 wid = \<lparr>rh_workspace_id = rh_workspace_id (registry_head s1 wid),
        rh_agents = json_col (PyDict (map (\<lambda>(n, i). (n, info_dict i)) effective)),
        rh_revision = rh_revision (registry_head s1 wid) + 1\<rparr>" by blast
  from s2(3) have "registry_head s' wid = \<lparr>rh_workspace_id = rh_workspace_id (registry_head s1 wid),
        rh_agents = json_col (PyDict (map (\<lambda>(n, i). (n, info_dict i)) effective)),
        rh_revision = rh_revision (registry_head s1 wid) + 1\<rparr>" unfolding s' by simp
  with s2(2) show ?thesis unfolding s' s2(1) by simp
qed

section \<open>Steps of the registry\<close>

inductive registry_step :: "db \<Rightarrow> db \<Rightarrow> bool" where
  set_agent: "set_workspace_agent uuid key t now wid n did actor reason exp s = Inr s' \<Longrightarrow> registry_step s s'"
| remove_override: "remove_workspace_agent_override uuid key t now wid n actor reason s = Inr (d, s') \<Longrightarrow>
    registry_step s s'"
| sync: "sync_workspace_agents uuid t now wid sid v h path raws repl by s = Inr (rep, s') \<Longrightarrow> registry_step s s'"

lemma registry_step_keeps:
  assumes "registry_step s s'" "registry_inv s"
  shows "registry_inv s'"
  using assms(1)
proof cases
  case (set_agent uuid key t now wid n did actor reason exp)
  from set_override_Inr [OF this] obtain d e s2 a r where
    w: "write_agents_json_projection now wid (put_override now wid (strip n) d actor reason e s) = Inr s2"
      "append_event uuid t (Some key) a s2 = Inr (r, s')" by blast
  from registry_write_frame [OF w] put_override_inv [OF assms(2)] show ?thesis by simp
next
  case (remove_override uuid key t now wid n actor reason d)
  from remove_override_Inr [OF this] obtain s2 a r where
    w: "write_agents_json_projection now wid
      (s\<lparr>db_registry := filter (\<lambda>r. \<not> is_override wid (strip n) r) (db_registry s)\<rparr>) = Inr s2"
      "append_event uuid t (Some key) a s2 = Inr (r, s')" by blast
  have "registry_inv (s\<lparr>db_registry := filter (\<lambda>r. \<not> is_override wid (strip n) r) (db_registry s)\<rparr>)"
    using assms(2) by (simp add: registry_inv_def distinct_map_filter)
  with registry_write_frame [OF w] show ?thesis by simp
next
  case (sync uuid t now wid sid v h path raws repl who rep)
  from sync_Inr [OF this] show ?thesis
  proof (elim disjE exE conjE)
    fix es src s2 k a x
    assume es: "normalize_entries raws [] [] = Inr es" and src: "rs_workspace_id src = wid"
      and w: "write_agents_json_projection now wid (roster_update wid now src es s) = Inr s2"
        "append_event uuid t (Some k) a s2 = Inr (x, s')"
    from registry_write_frame [OF w] registry_inv_roster_update [OF assms(2), of es src now]
      normalize_entries_distinct [OF es] src show ?thesis by simp
  qed (use assms(2) in simp)
qed

lemma registry_step_source:
  assumes "registry_step s s'"
  shows "(\<forall>w. registry_source s' w = registry_source s w) \<or>
    (\<exists>src. source_advances s src \<and> registry_source s' (rs_workspace_id src) = Some src \<and>
       (\<forall>w. w \<noteq> rs_workspace_id src \<longrightarrow> registry_source s' w = registry_source s w))"
  using assms
proof cases
  case (set_agent uuid key t now wid n did actor reason exp)
  from set_override_Inr [OF this] show ?thesis by (auto dest!: registry_write_frame)
next
  case (remove_override uuid key t now wid n actor reason d)
  from remove_override_Inr [OF this] show ?thesis by (auto dest!: registry_write_frame)
next
  case (sync uuid t now wid sid v h path raws repl who rep)
  from sync_Inr [OF this] show ?thesis
  proof (elim disjE exE conjE)
    fix es src s2 k a x
    assume src: "rs_workspace_id src = wid" "source_advances s src"
      and w: "write_agents_json_projection now wid (roster_update wid now src es s) = Inr s2"
        "append_event uuid t (Some k) a s2 = Inr (x, s')"
    from registry_write_frame [OF w] have "registry_source s' v = registry_source (roster_update wid now src es s) v" for v
      by blast
    with src show ?thesis by (intro disjI2 exI [of _ src]) (auto simp: roster_update_def)
  qed simp
qed

interpretation registry_sources: versioned_register registry_source rs_source_version registry_step
proof
  fix s s' k v
  assume "registry_step s s'" "registry_source s k = Some v"
  with registry_step_source [OF this(1)] show "\<exists>v'. registry_source s' k = Some v' \<and> (v' = v \<or> rs_source_version v < rs_source_version v')"
    by (auto simp: source_advances_def) (metis option.inject option.simps(5))
qed

definition registry_start :: "db \<Rightarrow> bool" where
  "registry_start s \<longleftrightarrow> db_registry s = [] \<and> db_registry_sources s = []"

interpretation registry_system: invariant_system registry_start registry_step registry_inv
  by unfold_locales (simp add: registry_start_def registry_inv_def, rule registry_step_keeps)

text \<open>
  The source of a roster is the one that synchronised it first, whatever overrides and
  synchronisations follow, and its version never falls; a version stands for one roster hash.
\<close>

theorem roster_source_final:
  assumes "registry_step\<^sup>*\<^sup>* s s'" "registry_source s wid = Some r"
  shows "\<exists>r'. registry_source s' wid = Some r' \<and> rs_source_id r' = rs_source_id r \<and>
    (r' = r \<or> rs_source_version r < rs_source_version r')"
proof -
  have "\<exists>r'. registry_source s' wid = Some r' \<and> rs_source_id r' = rs_source_id r" using assms
  proof (induction rule: rtranclp_induct)
    case (step s1 s2)
    then obtain r1 where r1: "registry_source s1 wid = Some r1" "rs_source_id r1 = rs_source_id r" by blast
    from registry_step_source [OF step.hyps(2)] show ?case
    proof (elim disjE exE conjE)
      fix src
      assume src: "source_advances s1 src" "registry_source s2 (rs_workspace_id src) = Some src"
        "\<forall>w. w \<noteq> rs_workspace_id src \<longrightarrow> registry_source s2 w = registry_source s1 w"
      with r1 show ?thesis by (cases "wid = rs_workspace_id src") (simp_all add: source_advances_def)
    qed (use r1 in simp)
  qed simp
  with registry_sources.run_current [OF assms] show ?thesis by auto
qed

text \<open>
  A synchronisation with a new version makes the roster rows of the workspace exactly the
  entries, keeps the overrides and the other workspaces, raises the revision by one, projects the
  agents in effect, and its repetition changes nothing.
\<close>

theorem roster_sync_exact:
  assumes "sync_workspace_agents uuid t now wid sid v h path raws repl who s = Inr (rep, s')"
    "normalize_entries raws [] [] = Inr es"
    "\<And>r. registry_source s wid = Some r \<Longrightarrow> v \<noteq> PyInt (rs_source_version r)"
  shows "filter (roster_row wid) (db_registry s') = map (authoritative_row wid now) es \<and>
    filter (\<lambda>r. \<not> roster_row wid r) (db_registry s') = filter (\<lambda>r. \<not> roster_row wid r) (db_registry s) \<and>
    rh_revision (registry_head s' wid) = rh_revision (registry_head s wid) + 1 \<and>
    (\<exists>effective. resolve_effective_agents now s' wid = Inr effective \<and>
       rh_agents (registry_head s' wid) = json_col (PyDict (map (\<lambda>(n, i). (n, info_dict i)) effective))) \<and>
    (\<exists>rep'. sync_workspace_agents uuid' t' now' wid sid v h path' raws repl who s' = Inr (rep', s') \<and>
       sr_added rep' = [] \<and> sr_updated rep' = [] \<and> sr_removed rep' = [])"
proof -
  from sync_Inr [OF assms(1)] assms(2,3) obtain src s2 k a x where
    src: "source_advances s src" "rs_workspace_id src = wid" "rs_source_id src = strip sid"
      "v = PyInt (rs_source_version src)" "rs_source_hash src = h" and
    w: "write_agents_json_projection now wid (roster_update wid now src es s) = Inr s2"
      "append_event uuid t (Some k) a s2 = Inr (x, s')" by auto
  from assms(1) have ok: "get_workspace s wid \<noteq> None" "repl" "strip sid \<noteq> []" "strip who \<noteq> []"
    "length h = 64" "list_all is_lower_hex h" "0 \<le> rs_source_version src"
    unfolding sync_workspace_agents_def Let_def src(4) by (auto split: if_splits)
  note f = registry_write_frame [OF w]
  from f have rows: "db_registry s' = replace_roster wid now es (db_registry s)" by (simp add: roster_update_def)
  have head: "registry_head (roster_update wid now src es s) wid = registry_head s wid"
    by (simp add: registry_head_def roster_update_def)
  have "get_workspace s' wid = get_workspace s wid"
    using registry_event_frame [OF w(2)] projection_frame [OF w(1)]
    by (auto simp: get_workspace_def roster_update_def put_registry_source_def)
  moreover have "registry_source (roster_update wid now src es s) (rs_workspace_id src) = Some src"
    by (simp add: roster_update_def)
  with f src(2) have "registry_source s' wid = Some src" by simp
  ultimately have again: "\<exists>rep'. sync_workspace_agents uuid' t' now' wid sid v h path' raws repl who s' = Inr (rep', s') \<and>
       sr_added rep' = [] \<and> sr_updated rep' = [] \<and> sr_removed rep' = []"
    using ok src(3-5) assms(2) unfolding sync_workspace_agents_def Let_def by simp
  from f obtain effective where e: "resolve_effective_agents now s' wid = Inr effective"
    "registry_head s' wid = \<lparr>rh_workspace_id = rh_workspace_id (registry_head (roster_update wid now src es s) wid),
        rh_agents = json_col (PyDict (map (\<lambda>(n, i). (n, info_dict i)) effective)),
        rh_revision = rh_revision (registry_head (roster_update wid now src es s) wid) + 1\<rparr>" by blast
  show ?thesis using again e head rows by (simp add: replace_roster_parts)
qed

section \<open>Overrides that lapse\<close>

lemma set_override_row:
  assumes "set_workspace_agent uuid key t now wid n (PyStr d) actor reason PyNone s = Inr s'" "strip d = d"
  shows "db_registry s' = db_registry (put_override now wid (strip n) d actor reason None s)"
proof -
  from assms have "\<exists>s2 a r. write_agents_json_projection now wid (put_override now wid (strip n) d actor reason None s) = Inr s2 \<and>
      append_event uuid t (Some key) a s2 = Inr (r, s')"
    unfolding set_workspace_agent_def Let_def validate_discord_user_id_def parse_expires_at_def
    by (auto split: if_splits prod.splits) blast+
  then show ?thesis using registry_write_frame by blast
qed

lemma put_override_rows:
  shows "\<exists>r \<in> set (db_registry (put_override now wid n d actor reason None s)).
      is_override wid n r \<and> rg_discord_user_id r = d \<and> \<not> lapsed later r"
    and "r \<in> set (db_registry s) \<Longrightarrow> \<not> is_override wid n r \<Longrightarrow>
      r \<in> set (db_registry (put_override now wid n d actor reason None s))"
proof -
  let ?f = "\<lambda>r. r\<lparr>rg_discord_user_id := d, rg_actor := Some actor, rg_reason := Some reason,
               rg_expires_at := None, rg_updated_at := now\<rparr>"
  show "\<exists>r \<in> set (db_registry (put_override now wid n d actor reason None s)).
      is_override wid n r \<and> rg_discord_user_id r = d \<and> \<not> lapsed later r"
  proof (cases "list_ex (is_override wid n) (db_registry s)")
    case True
    then obtain r where r: "r \<in> set (db_registry s)" "is_override wid n r" by (auto simp: list_ex_iff)
    with True have "?f r \<in> set (db_registry (put_override now wid n d actor reason None s))"
      by (auto simp: put_override_def in_update_where)
    with r(2) show ?thesis by (auto simp: is_override_def lapsed_def intro: bexI [of _ "?f r"])
  qed (simp add: put_override_def is_override_def lapsed_def)
qed (auto simp: put_override_def in_update_where)

text \<open>
  \<open>set_workspace_agent\<close> compares a Discord id with the agents in effect now. When an
  override hides a roster entry and another agent is given its id, the workspace has no agents in
  effect once the override lapses: every resolution raises, and no override can be set again.
\<close>

theorem override_expiry_wedges:
  assumes "registry_inv s" "roster \<in> set (db_registry s)" "rg_entry_kind roster = ''authoritative''"
    "hide \<in> set (db_registry s)" "is_override (rg_workspace_id roster) (rg_agent_name roster) hide"
    "rg_expires_at hide = Some e" "e \<le> later" "strip n \<noteq> rg_agent_name roster"
    "strip (rg_discord_user_id roster) = rg_discord_user_id roster"
    "set_workspace_agent uuid key t now (rg_workspace_id roster) n (PyStr (rg_discord_user_id roster)) actor reason PyNone s = Inr s'"
  shows "\<not> is_ok (resolve_effective_agents later s' (rg_workspace_id roster)) \<and>
    \<not> is_ok (set_workspace_agent uuid' key' t' later (rg_workspace_id roster) n' did' actor' reason' exp' s')"
proof -
  let ?wid = "rg_workspace_id roster" and ?d = "rg_discord_user_id roster"
  have "resolve_effective_agents later s' ?wid \<noteq> Inr effective" for effective
  proof
    assume eff: "resolve_effective_agents later s' ?wid = Inr effective"
    have inv: "registry_inv s'" using registry_step_keeps [OF registry_step.set_agent [OF assms(10)] assms(1)] .
    note rows = set_override_row [OF assms(10,9)]
    from rows put_override_rows(1) [of now ?wid "strip n" ?d actor reason s later] obtain b where
      b: "b \<in> set (db_registry s')" "is_override ?wid (strip n) b" "rg_discord_user_id b = ?d" "\<not> lapsed later b" by auto
    have kept: "roster \<in> set (db_registry s')" "hide \<in> set (db_registry s')"
      using rows put_override_rows(2) [of _ s ?wid "strip n"] assms(2-5,8) by (auto simp: is_override_def)
    have "lapsed later hide" using assms(5-7) by (simp add: lapsed_def is_override_def)
    have only: "rg_entry_kind r = ''authoritative'' \<or> rg_entry_kind r = ''legacy''"
      if "candidate later s' ?wid (rg_agent_name roster) r" for r
    proof -
      have "rg_entry_kind r \<noteq> ''override''"
      proof
        assume "rg_entry_kind r = ''override''"
        with that assms(5) have "registry_key r = registry_key hide"
          by (simp add: registry_key_def candidate_def is_override_def)
        with inv that kept(2) have "r = hide" by (auto simp: registry_inv_def distinct_map candidate_def dest: inj_onD)
        with that \<open>lapsed later hide\<close> show False by (simp add: candidate_def)
      qed
      with inv that show ?thesis by (auto simp: registry_inv_def candidate_def)
    qed
    have "candidate later s' ?wid (rg_agent_name roster) roster"
      using kept assms(3) by (simp add: candidate_def lapsed_def)
    moreover have "kind_rank (rg_entry_kind roster) \<le> kind_rank (rg_entry_kind r)"
      if "candidate later s' ?wid (rg_agent_name roster) r" for r
      using only [OF that] assms(3) by (auto simp: kind_rank_def)
    ultimately have 1: "map_of effective (rg_agent_name roster) = Some (info_of roster)"
      using best_entry [OF inv eff, of "rg_agent_name roster" "info_of roster"] by blast
    have "candidate later s' ?wid (strip n) b" using b by (simp add: candidate_def is_override_def)
    moreover have "kind_rank (rg_entry_kind b) \<le> kind_rank k" for k
      using b by (simp add: kind_rank_def is_override_def)
    ultimately have 2: "map_of effective (strip n) = Some (info_of b)"
      using best_entry [OF inv eff, of "strip n" "info_of b"] by blast
    have "distinct (map (\<lambda>(n, i). ai_discord_user_id i) effective)" using best_entry [OF inv eff] by blast
    moreover from 1 2 have "(rg_agent_name roster, info_of roster) \<in> set effective" "(strip n, info_of b) \<in> set effective"
      by (auto dest: map_of_SomeD)
    ultimately have "(rg_agent_name roster, info_of roster) = (strip n, info_of b)"
      using b(3) by (intro inj_onD [of "\<lambda>(n, i). ai_discord_user_id i" "set effective"]) (auto simp: distinct_map info_of_def)
    with assms(8) show False by simp
  qed
  then obtain x where x: "resolve_effective_agents later s' ?wid = Inl x"
    by (cases "resolve_effective_agents later s' ?wid") auto
  moreover have "\<not> is_ok (set_workspace_agent uuid' key' t' later ?wid n' did' actor' reason' exp' s')"
    unfolding set_workspace_agent_def Let_def x is_ok_iff by auto
  ultimately show ?thesis by simp
qed

definition hidden_db :: db where
  "hidden_db = empty_db\<lparr>db_workspaces := [sample_ws], db_registry :=
     [authoritative_row ''w1'' 10 \<lparr>re_id = ''a'', re_discord_user_id = ''1'', re_display_name = ''a'', re_agent_type = ''managed''\<rparr>,
      \<lparr>rg_workspace_id = ''w1'', rg_agent_name = ''a'', rg_entry_kind = ''override'', rg_discord_user_id = ''2'',
       rg_display_name = ''a'', rg_agent_type = ''override'', rg_actor = Some ''op'', rg_reason = Some ''r'',
       rg_expires_at = Some 100, rg_created_at = 20, rg_updated_at = 20\<rparr>]\<rparr>"


lemma sample_append:
  assumes "db_events s = [] \<and> db_workspaces s = [sample_ws]"
  shows "\<exists>r s'. append_event u t k (override_event e a ''w1'' p) s = Inr (r, s')"
proof -
  from assms have "is_ok (append_event u t k (override_event e a ''w1'' p) s)"
    by (simp add: append_event_def insert_event_def event_of_def override_event_def workspace_fk_def workspace_exists_def
        sample_ws_def Let_def)
  then show ?thesis by (simp add: is_ok_iff)
qed

lemma sample_shared:
  "is_ok (set_workspace_agent ''u3'' ''k3'' 30 30 ''w1'' ''b'' (PyStr ''1'') ''op'' ''r'' PyNone hidden_db)"
proof -
  have 1: "get_workspace hidden_db ''w1'' = Some sample_ws" "strip ''b'' = ''b''" "strip ''r'' = ''r''" "strip ''op'' = ''op''"
    "validate_discord_user_id (PyStr ''1'') = Inr ''1''"
    "resolve_effective_agents 30 hidden_db ''w1'' =
       Inr [(''a'', \<lparr>ai_discord_user_id = ''2'', ai_display_name = ''a'', ai_agent_type = ''override''\<rparr>)]"
    "List.member (map (\<lambda>(n, i). ai_discord_user_id i) (filter (\<lambda>(n, i). n \<noteq> ''b'')
       [(''a'', \<lparr>ai_discord_user_id = ''2'', ai_display_name = ''a'', ai_agent_type = ''override''\<rparr>)])) ''1'' = False"
    by code_simp+
  have "is_ok (write_agents_json_projection 30 ''w1'' (put_override 30 ''w1'' ''b'' ''1'' ''op'' ''r'' None hidden_db))"
    by code_simp
  then obtain s2 where 2: "write_agents_json_projection 30 ''w1'' (put_override 30 ''w1'' ''b'' ''1'' ''op'' ''r'' None hidden_db) = Inr s2"
    by (auto simp: is_ok_iff)
  have "db_events s2 = [] \<and> db_workspaces s2 = [sample_ws]"
    using projection_frame [OF 2] by (auto simp: put_override_def hidden_db_def empty_db_def)
  from sample_append [OF this] show ?thesis unfolding set_workspace_agent_def Let_def 1
    by (simp add: 2 parse_expires_at_def is_ok_iff bindE_eq_Inr split: prod.splits) blast
qed

theorem override_expiry_wedges_witness:
  "\<exists>s'. set_workspace_agent ''u3'' ''k3'' 30 30 ''w1'' ''b'' (PyStr ''1'') ''op'' ''r'' PyNone hidden_db = Inr s' \<and>
     \<not> is_ok (resolve_effective_agents 100 s' ''w1'')"
proof -
  from sample_shared obtain s' where
    s': "set_workspace_agent ''u3'' ''k3'' 30 30 ''w1'' ''b'' (PyStr ''1'') ''op'' ''r'' PyNone hidden_db = Inr s'"
    by (auto simp: is_ok_iff)
  have inv: "registry_inv hidden_db"
    by (simp add: registry_inv_def hidden_db_def empty_db_def registry_key_def authoritative_row_def)
  have "strip ''b'' = ''b''" "strip ''1'' = ''1''" by code_simp+
  with override_expiry_wedges [OF inv, of "db_registry hidden_db ! 0" "db_registry hidden_db ! 1" 100 100 "''b''"] s'
  show ?thesis by (auto simp: hidden_db_def empty_db_def authoritative_row_def is_override_def)
qed

definition sourced_db :: db where
  "sourced_db = hidden_db\<lparr>db_registry_sources := [\<lparr>rs_workspace_id = ''w1'', rs_source_id = ''src'', rs_source_version = 1,
     rs_source_hash = replicate 64 (CHR ''b''), rs_source_path = None, rs_synced_by = Some ''op'', rs_synced_at = 10\<rparr>]\<rparr>"

definition sample_entries :: "roster_entry list" where
  "sample_entries = [\<lparr>re_id = ''a'', re_discord_user_id = ''3'', re_display_name = ''a'', re_agent_type = ''managed''\<rparr>]"

lemma sample_normalized:
  "normalize_entries [[(''id'', PyStr ''a''), (''discord_user_id'', PyStr ''3'')]] [] [] = Inr sample_entries"
  by code_simp

lemma sample_synced:
  "\<exists>rep s'. sync_workspace_agents ''u4'' 40 40 ''w1'' ''src'' (PyInt 2) (replicate 64 (CHR ''a'')) None
     [[(''id'', PyStr ''a''), (''discord_user_id'', PyStr ''3'')]] True ''op'' sourced_db = Inr (rep, s')"
proof -
  let ?src = "\<lparr>rs_workspace_id = ''w1'', rs_source_id = ''src'', rs_source_version = 2,
     rs_source_hash = replicate 64 (CHR ''a''), rs_source_path = None, rs_synced_by = Some ''op'', rs_synced_at = 40\<rparr>"
  let ?s1 = "put_registry_source ?src (sourced_db\<lparr>db_registry := replace_roster ''w1'' 40 sample_entries (db_registry sourced_db)\<rparr>)"
  have 1: "get_workspace sourced_db ''w1'' = Some sample_ws" "strip ''src'' = ''src''" "strip ''op'' = ''op''"
    "list_all is_lower_hex (replicate 64 (CHR ''a''))" "int64 2"
    "registry_source sourced_db ''w1'' = Some \<lparr>rs_workspace_id = ''w1'', rs_source_id = ''src'', rs_source_version = 1,
     rs_source_hash = replicate 64 (CHR ''b''), rs_source_path = None, rs_synced_by = Some ''op'', rs_synced_at = 10\<rparr>"
    by code_simp+
  have "is_ok (write_agents_json_projection 40 ''w1'' ?s1)" by code_simp
  then obtain s2 where 2: "write_agents_json_projection 40 ''w1'' ?s1 = Inr s2" by (auto simp: is_ok_iff)
  have "db_events s2 = [] \<and> db_workspaces s2 = [sample_ws]"
    using projection_frame [OF 2] by (auto simp: put_registry_source_def sourced_db_def hidden_db_def empty_db_def)
  from sample_append [OF this] show ?thesis unfolding sync_workspace_agents_def Let_def 1 sample_normalized
    using 1(4,5) by (simp add: 2 bindE_eq_Inr split: prod.splits) blast
qed

theorem roster_source_final_witness:
  "\<exists>s' r'. registry_step sourced_db s' \<and> registry_source s' ''w1'' = Some r' \<and> rs_source_id r' = ''src''"
proof -
  from sample_synced obtain rep s' where "sync_workspace_agents ''u4'' 40 40 ''w1'' ''src'' (PyInt 2) (replicate 64 (CHR ''a'')) None
     [[(''id'', PyStr ''a''), (''discord_user_id'', PyStr ''3'')]] True ''op'' sourced_db = Inr (rep, s')" by blast
  then have step: "registry_step sourced_db s'" by (rule registry_step.sync)
  have "registry_source sourced_db ''w1'' = Some (db_registry_sources sourced_db ! 0)" by code_simp
  from roster_source_final [OF r_into_rtranclp [of registry_step, OF step] this] step
  show ?thesis by (auto simp: sourced_db_def)
qed

theorem roster_sync_exact_witness:
  "\<exists>rep s'. sync_workspace_agents ''u4'' 40 40 ''w1'' ''src'' (PyInt 2) (replicate 64 (CHR ''a'')) None
     [[(''id'', PyStr ''a''), (''discord_user_id'', PyStr ''3'')]] True ''op'' sourced_db = Inr (rep, s') \<and>
     filter (roster_row ''w1'') (db_registry s') = map (authoritative_row ''w1'' 40) sample_entries"
proof -
  from sample_synced obtain rep s' where s': "sync_workspace_agents ''u4'' 40 40 ''w1'' ''src'' (PyInt 2) (replicate 64 (CHR ''a'')) None
     [[(''id'', PyStr ''a''), (''discord_user_id'', PyStr ''3'')]] True ''op'' sourced_db = Inr (rep, s')" by blast
  have "PyInt 2 \<noteq> PyInt (rs_source_version r)" if "registry_source sourced_db ''w1'' = Some r" for r
    using that by (auto simp: registry_source_def sourced_db_def)
  from roster_sync_exact [OF s' sample_normalized this] s' show ?thesis by blast
qed

theorem effective_is_best_witness:
  "map_of [(''a'', \<lparr>ai_discord_user_id = ''2'', ai_display_name = ''a'', ai_agent_type = ''override''\<rparr>)] ''a'' \<noteq> None \<and>
   (\<exists>r. candidate 30 hidden_db ''w1'' ''a'' r \<and> rg_entry_kind r = ''override'')"
proof -
  have inv: "registry_inv hidden_db"
    by (simp add: registry_inv_def hidden_db_def empty_db_def registry_key_def authoritative_row_def)
  have "resolve_effective_agents 30 hidden_db ''w1'' =
       Inr [(''a'', \<lparr>ai_discord_user_id = ''2'', ai_display_name = ''a'', ai_agent_type = ''override''\<rparr>)]" by code_simp
  from effective_is_best [OF inv this, of "''a''"
    "\<lparr>ai_discord_user_id = ''2'', ai_display_name = ''a'', ai_agent_type = ''override''\<rparr>"]
  obtain r where "candidate 30 hidden_db ''w1'' ''a'' r" "rg_agent_type r = ''override''" by (auto simp: info_of_def)
  then have "candidate 30 hidden_db ''w1'' ''a'' r \<and> rg_entry_kind r = ''override''"
    by (auto simp: candidate_def hidden_db_def empty_db_def authoritative_row_def)
  then show ?thesis by auto
qed

end
