(* ===== verification/CanonicalJson.thy ===== *)
theory CanonicalJson
  imports PyValues
begin

text \<open>
  The canonical JSON of \<open>PyValues\<close> is uniquely readable: on values without floats whose dicts
  are written in key order, two values with the same text are the same value. So the digests of
  the program, which are SHA-256 of that text, identify what they digest up to a collision.
\<close>

section \<open>Normal values\<close>

fun jnormal :: "pyval \<Rightarrow> bool" where
  "jnormal (PyFloat r) = False"
| "jnormal (PyList xs) = list_all jnormal xs"
| "jnormal (PyDict d) = (sorted_wrt (<) (map fst d) \<and> list_all (\<lambda>(k, v). jnormal v) d)"
| "jnormal v = True"

text \<open>Where the text of a value ends.\<close>

definition stop :: "string \<Rightarrow> bool" where
  "stop x \<longleftrightarrow> x = [] \<or> hd x \<in> {CHR '','', CHR '']'', CHR 0x7D}"

lemma stop_simps [simp]: "stop []" "stop (CHR '','' # x)" "stop (CHR '']'' # x)" "stop (CHR 0x7D # x)"
  by (simp_all add: stop_def)

section \<open>Numbers\<close>

definition num_char :: "char \<Rightarrow> bool" where
  "num_char c \<longleftrightarrow> is_digit c \<or> c = CHR ''-''"

definition digits_nat :: "string \<Rightarrow> nat" where
  "digits_nat s = foldl (\<lambda>n c. 10 * n + (of_char c - 48)) 0 s"

lemma of_char_digit: "n < 10 \<Longrightarrow> (of_char (char_of (48 + n) :: char) :: nat) = 48 + n"
  by (simp add: of_char_of)

lemma dec_nat_digits: "list_all is_digit (dec_nat n) \<and> dec_nat n \<noteq> [] \<and> digits_nat (dec_nat n) = n"
proof (induction n rule: dec_nat.induct)
  case (1 n)
  show ?case
  proof (cases "n < 10")
    case True
    then show ?thesis by (simp add: dec_nat.simps [of n] is_digit_def digits_nat_def of_char_digit)
  next
    case False
    with 1 have IH: "list_all is_digit (dec_nat (n div 10))" "dec_nat (n div 10) \<noteq> []"
      "digits_nat (dec_nat (n div 10)) = n div 10" by auto
    have "is_digit (char_of (48 + n mod 10))" by (simp add: is_digit_def of_char_digit)
    moreover have "10 * (n div 10) + n mod 10 = n" by simp
    ultimately show ?thesis using IH False
      by (simp add: dec_nat.simps [of n] digits_nat_def of_char_digit)
  qed
qed

lemma dec_nat_inj: "dec_nat m = dec_nat n \<longleftrightarrow> m = n"
  by (metis dec_nat_digits)

lemma dec_nat_no_minus: "dec_nat n \<noteq> CHR ''-'' # s"
  using dec_nat_digits [of n] by (auto simp: is_digit_def)

lemma dec_int_inj: "dec_int i = dec_int j \<longleftrightarrow> i = j"
  using dec_nat_no_minus by (auto simp: dec_int_def dec_nat_inj split: if_splits) (metis dec_nat_no_minus)+

lemma dec_int_chars: "list_all num_char (dec_int i) \<and> dec_int i \<noteq> []"
  using dec_nat_digits by (auto simp: dec_int_def num_char_def list_all_iff)

lemma takeWhile_num: "list_all num_char s \<Longrightarrow> stop x \<Longrightarrow> takeWhile num_char (s @ x) = s"
  by (cases x) (auto simp: stop_def num_char_def is_digit_def list_all_iff takeWhile_append)

lemma dec_int_unique:
  assumes "dec_int i @ x = dec_int j @ y" "stop x" "stop y"
  shows "i = j \<and> x = y"
proof -
  have "dec_int i = dec_int j"
    using takeWhile_num [of "dec_int i" x] takeWhile_num [of "dec_int j" y] dec_int_chars assms by metis
  with assms(1) show ?thesis by (simp add: dec_int_inj)
qed

section \<open>Sequences\<close>

lemma commas_unique:
  assumes "\<And>a b x y. a \<in> set as \<Longrightarrow> b \<in> set bs \<Longrightarrow> f a @ x = f b @ y \<Longrightarrow> stop x \<Longrightarrow> stop y \<Longrightarrow> a = b \<and> x = y"
    and "\<And>a. a \<in> set as \<union> set bs \<Longrightarrow> f a \<noteq> [] \<and> hd (f a) \<noteq> c"
    and "c = CHR '']'' \<or> c = CHR 0x7D"
    and "commas (map f as) @ c # x = commas (map f bs) @ c # y"
  shows "as = bs \<and> x = y"
  using assms(1,2,4)
proof (induction as arbitrary: bs)
  case Nil
  show ?case
  proof (cases bs)
    case (Cons b bs')
    with Nil(2) [of b] have "f b \<noteq> [] \<and> hd (f b) \<noteq> c" by simp
    with Nil(3) Cons show ?thesis by (cases "f b"; cases bs') auto
  qed (use Nil in simp)
next
  case (Cons a as)
  have fa: "f a \<noteq> [] \<and> hd (f a) \<noteq> c" using Cons.prems(2) by simp
  show ?case
  proof (cases bs)
    case Nil
    with Cons.prems(3) fa show ?thesis by (cases "f a"; cases as) auto
  next
    case bs: (Cons b bs')
    let ?rest = "\<lambda>zs z. if zs = [] then c # z else CHR '','' # commas (map f zs) @ c # z"
    have "commas (map f (z # zs)) @ c # w = f z @ ?rest zs w" for z zs w by (cases zs) auto
    with Cons.prems(3) bs have "f a @ ?rest as x = f b @ ?rest bs' y" by metis
    moreover have "stop (?rest zs z)" for zs z using assms(3) by auto
    ultimately have "a = b \<and> ?rest as x = ?rest bs' y" using bs by (intro Cons.prems(1)) simp_all
    then have ab: "a = b" "?rest as x = ?rest bs' y" by blast+
    have c: "c \<noteq> CHR '',''" using assms(3) by auto
    show ?thesis
    proof (cases "as = []")
      case True
      with ab c bs show ?thesis by (auto split: if_splits)
    next
      case False
      with ab(2) c have ne: "bs' \<noteq> []" by (cases "bs' = []") auto
      with False ab(2) have "commas (map f as) @ c # x = commas (map f bs') @ c # y" by simp
      have "as = bs' \<and> x = y"
      proof (rule Cons.IH)
        show "a' = b' \<and> x' = y'" if "a' \<in> set as" "b' \<in> set bs'" "f a' @ x' = f b' @ y'" "stop x'" "stop y'" for a' b' x' y'
          using that bs by (intro Cons.prems(1)) simp_all
        show "f a' \<noteq> [] \<and> hd (f a') \<noteq> c" if "a' \<in> set as \<union> set bs'" for a'
          using that bs by (intro Cons.prems(2)) auto
      qed (rule \<open>commas (map f as) @ c # x = commas (map f bs') @ c # y\<close>)
      with bs ab(1) show ?thesis by simp
    qed
  qed
qed

section \<open>Unique readability\<close>

lemma json_ne: "jnormal v \<Longrightarrow> json v \<noteq> []"
  using dec_int_chars by (cases v) (auto simp: json_str_def)

lemma dec_int_hd: "\<not> num_char c \<Longrightarrow> hd (dec_int i) \<noteq> c"
  using dec_int_chars [of i] by (cases "dec_int i") auto

lemma not_num_char [simp]:
  "\<not> num_char (CHR ''n'')" "\<not> num_char (CHR ''t'')" "\<not> num_char (CHR ''f'')" "\<not> num_char (CHR 0x22)"
  "\<not> num_char (CHR ''['')" "\<not> num_char (CHR 0x7B)" "\<not> num_char (CHR '']'')" "\<not> num_char (CHR 0x7D)"
  by (simp_all add: num_char_def is_digit_def)

lemmas dec_int_hds [simp] = not_num_char [THEN dec_int_hd] not_num_char [THEN dec_int_hd, THEN not_sym]

text \<open>The first character of a value tells its type.\<close>

fun json_type :: "pyval \<Rightarrow> nat" where
  "json_type PyNone = 0" | "json_type (PyBool b) = (if b then 1 else 2)" | "json_type (PyInt i) = 3"
| "json_type (PyFloat r) = 4" | "json_type (PyStr s) = 5" | "json_type (PyList xs) = 6" | "json_type (PyDict d) = 7"

lemma json_hd_type: "jnormal v \<Longrightarrow> jnormal w \<Longrightarrow> hd (json v) = hd (json w) \<Longrightarrow> json_type v = json_type w"
  by (cases v; cases w) (simp_all add: json_str_def split: if_splits)

lemma json_hd_not_closing: "jnormal v \<Longrightarrow> hd (json v) \<noteq> CHR '']'' \<and> hd (json v) \<noteq> CHR 0x7D"
  by (cases v) (simp_all add: json_str_def)

lemma json_same_type: "jnormal v \<Longrightarrow> jnormal w \<Longrightarrow> json v @ x = json w @ y \<Longrightarrow> json_type v = json_type w"
  by (rule json_hd_type) (auto dest: arg_cong [where f = hd] simp: json_ne)

definition json_entry :: "string \<times> pyval \<Rightarrow> string" where
  "json_entry e = json_str (fst e) @ CHR '':'' # json (snd e)"

lemma json_sorted_dict:
  assumes "sorted_wrt (<) (map fst d)"
  shows "json (PyDict d) = CHR 0x7B # commas (map json_entry d) @ [CHR 0x7D]"
proof -
  let ?d = "map (\<lambda>(k, v). (k, json v)) d"
  have "map fst ?d = map fst d" by (induction d) auto
  with assms have "sorted (map fst ?d)" by (metis strict_sorted_imp_sorted)
  then have "sort_key fst ?d = ?d" by (rule sort_key_id_if_sorted)
  moreover have "map (\<lambda>(k, v). json_str k @ CHR '':'' # v) ?d = map json_entry d"
    by (auto simp: json_entry_def)
  ultimately show ?thesis by (simp only: json.simps)
qed

theorem json_unique:
  assumes "jnormal v" "jnormal w" "json v @ x = json w @ y" "stop x" "stop y"
  shows "v = w \<and> x = y"
  using assms
proof (induction v arbitrary: w x y)
  case (PyInt i)
  then show ?case using json_same_type [OF PyInt.prems(1-3)] by (cases w) (auto dest: dec_int_unique split: if_splits)
next
  case (PyStr s)
  then show ?case using json_same_type [OF PyStr.prems(1-3)]
    by (cases w) (auto dest: json_str_unique split: if_splits)
next
  case (PyList vs)
  then obtain ws where w: "w = PyList ws" using json_same_type [OF PyList.prems(1-3)] by (cases w) (auto split: if_splits)
  have "vs = ws \<and> x = y"
  proof (rule commas_unique [of vs ws json "CHR '']''"])
    show "commas (map json vs) @ CHR '']'' # x = commas (map json ws) @ CHR '']'' # y"
      using PyList.prems(3) w by simp
  next
    fix a b x y
    assume "a \<in> set vs" "b \<in> set ws" "json a @ x = json b @ y" "stop x" "stop y"
    then show "a = b \<and> x = y" using PyList.IH [of a b x y] PyList.prems(1,2) w by (simp add: list_all_iff)
  next
    fix a
    assume "a \<in> set vs \<union> set ws"
    then have "jnormal a" using PyList.prems(1,2) w by (auto simp: list_all_iff)
    with json_ne json_hd_not_closing show "json a \<noteq> [] \<and> hd (json a) \<noteq> CHR '']''" by blast
  qed simp
  with w show ?case by simp
next
  case (PyDict d)
  then obtain e where w: "w = PyDict e" using json_same_type [OF PyDict.prems(1-3)] by (cases w) (auto split: if_splits)
  have "d = e \<and> x = y"
  proof (rule commas_unique [of d e json_entry "CHR 0x7D"])
    show "commas (map json_entry d) @ CHR 0x7D # x = commas (map json_entry e) @ CHR 0x7D # y"
      using PyDict.prems w by (simp add: json_sorted_dict del: json.simps)
  next
    fix a b x y
    assume ab: "a \<in> set d" "b \<in> set e" "json_entry a @ x = json_entry b @ y" "stop x" "stop y"
    then have k: "fst a = fst b" "CHR '':'' # json (snd a) @ x = CHR '':'' # json (snd b) @ y"
      by (auto simp: json_entry_def dest: json_str_unique)
    have "jnormal (snd a)" "jnormal (snd b)" using ab(1,2) PyDict.prems(1,2) w by (auto simp: list_all_iff)
    with PyDict.IH [of a "snd a" "snd b" x y] ab k have "snd a = snd b \<and> x = y"
      by (cases a) auto
    with k(1) show "a = b \<and> x = y" by (simp add: prod_eq_iff)
  next
    fix a
    assume "a \<in> set d \<union> set e"
    show "json_entry a \<noteq> [] \<and> hd (json_entry a) \<noteq> CHR 0x7D" by (simp add: json_entry_def json_str_def)
  qed simp
  with w show ?case by simp
next
  case PyNone
  then show ?case using json_same_type [OF PyNone.prems(1-3)] by (cases w) (auto split: if_splits)
next
  case (PyBool b)
  then show ?case using json_same_type [OF PyBool.prems(1-3)] by (cases w) (auto split: if_splits)
qed simp

corollary json_inj: "jnormal v \<Longrightarrow> jnormal w \<Longrightarrow> json v = json w \<longleftrightarrow> v = w"
  using json_unique [of v w "[]" "[]"] by auto

text \<open>
  Two values without floats whose dicts are written in key order have the same canonical JSON
  only if they are the same value.
\<close>

theorem canonical_json_injective:
  assumes "jnormal v" "jnormal w"
  shows "json v = json w \<longleftrightarrow> v = w"
  by (rule json_inj [OF assms])

theorem canonical_json_injective_witness:
  "json (PyDict [(''a'', PyInt 1), (''b'', PyList [PyStr ''x'', PyNone])]) \<noteq>
   json (PyDict [(''a'', PyStr ''1''), (''b'', PyList [PyStr ''x'', PyNone])])"
proof -
  have "jnormal (PyDict [(''a'', PyInt 1), (''b'', PyList [PyStr ''x'', PyNone])])"
    "jnormal (PyDict [(''a'', PyStr ''1''), (''b'', PyList [PyStr ''x'', PyNone])])" by code_simp+
  from canonical_json_injective [OF this] show ?thesis by simp
qed

section \<open>Key order\<close>

text \<open>The order in which a dict was built does not show in its text.\<close>

fun jcanon :: "pyval \<Rightarrow> pyval" where
  "jcanon (PyList xs) = PyList (map jcanon xs)"
| "jcanon (PyDict d) = PyDict (sort_key fst (map (\<lambda>(k, v). (k, jcanon v)) d))"
| "jcanon v = v"

lemma sort_key_map_snd: "sort_key fst (map (\<lambda>(k, v). (k, f v)) d) = map (\<lambda>(k, v). (k, f v)) (sort_key fst d)"
proof -
  let ?g = "\<lambda>(k, v). (k, f v)"
  have ins: "insort_key fst (k, f v) (map ?g es) = map ?g (insort_key fst (k, v) es)" for k v es
    by (induction es) auto
  show ?thesis by (induction d) (auto simp: ins)
qed

lemma sort_key_idem: "sort_key f (sort_key f xs) = sort_key f xs"
  by (rule sort_key_id_if_sorted) simp

lemma json_jcanon [simp]: "json (jcanon v) = json v"
proof (induction v)
  case (PyList xs)
  then have "map json (map jcanon xs) = map json xs" by simp
  then show ?case by (simp only: json.simps jcanon.simps)
next
  case (PyDict d)
  have "map (\<lambda>(k, v). (k, json v)) (map (\<lambda>(k, v). (k, jcanon v)) d) = map (\<lambda>(k, v). (k, json v)) d"
    using PyDict by (auto simp: snds.intros)
  then have "sort_key fst (map (\<lambda>(k, v). (k, json v)) (sort_key fst (map (\<lambda>(k, v). (k, jcanon v)) d))) =
      sort_key fst (map (\<lambda>(k, v). (k, json v)) d)"
    by (metis (no_types) sort_key_idem sort_key_map_snd)
  then show ?case by simp
qed simp_all

lemma json_eq_jcanon: "jnormal (jcanon v) \<Longrightarrow> jnormal (jcanon w) \<Longrightarrow> json v = json w \<Longrightarrow> jcanon v = jcanon w"
  using json_inj [of "jcanon v" "jcanon w"] by simp

text \<open>Equal digests come from equal values, or two texts collide.\<close>

definition collision :: "(string \<Rightarrow> string) \<Rightarrow> bool" where
  "collision H \<longleftrightarrow> (\<exists>x y. x \<noteq> y \<and> H x = H y)"

lemma digest_eq:
  assumes "H (json v) = H (json w)" "jnormal (jcanon v)" "jnormal (jcanon w)"
  shows "jcanon v = jcanon w \<or> collision H"
  using assms json_eq_jcanon by (auto simp: collision_def)

end
