(* ===== verification/Identity.thy ===== *)
theory Identity
  imports Store CanonicalJson
begin

text \<open>
  The executor catalog (\<^verbatim>\<open>executor_identity.py\<close>): the parser of the decoded authority file, the
  digests, the synchronisation of a source into the tables of \<^verbatim>\<open>schema.py\<close>, and the binding
  snapshot that a typed job carries and that is validated before the job is claimed. \<open>H\<close> is
  \<open>hashlib.sha256(...).hexdigest()\<close>. The file is read and decoded by \<^verbatim>\<open>tomllib\<close>; its dict is the
  argument \<open>data\<close>.
\<close>

section \<open>Labels\<close>

definition EXECUTOR_CONTRACT_VERSION :: int where "EXECUTOR_CONTRACT_VERSION = 1"
definition ID_MAX_LABEL_LEN :: nat where "ID_MAX_LABEL_LEN = 64"
definition MAX_CAPABILITIES :: nat where "MAX_CAPABILITIES = 32"

definition validate_bounded_label :: "exn_class \<Rightarrow> pyval \<Rightarrow> string result" where
  "validate_bounded_label c v =
     (case as_str v of
        None \<Rightarrow> raise c ''must be a string''
      | Some s \<Rightarrow>
          if s \<noteq> strip s then raise c ''must not have surrounding whitespace''
          else if s = [] then raise c ''is required''
          else if length s > ID_MAX_LABEL_LEN then raise c ''exceeds 64 characters''
          else if \<not> re_match safe_label_body s then raise c ''contains unsafe characters''
          else Inr s)"

abbreviation executor_label :: "pyval \<Rightarrow> string result" where
  "executor_label \<equiv> validate_bounded_label IdentityErr"

fun capabilities_loop :: "pyval list \<Rightarrow> string list \<Rightarrow> string list result" where
  "capabilities_loop [] seen = Inr []"
| "capabilities_loop (item # items) seen =
     bindE (executor_label item) (\<lambda>cap.
       if List.member seen cap then raise IdentityErr ''contains duplicate capability''
       else bindE (capabilities_loop items (cap # seen)) (\<lambda>caps. Inr (cap # caps)))"

definition validate_capabilities :: "pyval \<Rightarrow> string list result" where
  "validate_capabilities v =
     (case as_list v of
        None \<Rightarrow> raise IdentityErr ''must be a list''
      | Some items \<Rightarrow>
          if length items > MAX_CAPABILITIES then raise IdentityErr ''exceeds 32 items''
          else bindE (capabilities_loop items []) (\<lambda>caps.
            if caps \<noteq> sort caps then raise IdentityErr ''must be sorted'' else Inr caps))"

definition validate_boolish :: "pyval \<Rightarrow> bool result" where
  "validate_boolish v = (case v of PyBool b \<Rightarrow> Inr b | _ \<Rightarrow> raise IdentityErr ''must be a boolean'')"

section \<open>The catalog and its digest\<close>

record executor_definition =
  ed_id :: string
  ed_provider :: string
  ed_adapter :: string
  ed_capabilities :: "string list"

record instance_binding =
  ei_agent_id :: string
  ei_executor_definition_id :: string
  ei_runner_profile_id :: string
  ei_enabled :: bool

record executor_catalog =
  ec_source_id :: string
  ec_source_version :: int
  ec_catalog_hash :: string
  ec_source_path :: "string option"
  ec_definitions :: "executor_definition list"
  ec_bindings :: "instance_binding list"

definition definition_dict :: "executor_definition \<Rightarrow> pyval" where
  "definition_dict d = PyDict [(''id'', PyStr (ed_id d)), (''provider'', PyStr (ed_provider d)),
     (''adapter'', PyStr (ed_adapter d)), (''capabilities'', PyList (map PyStr (ed_capabilities d)))]"

definition binding_dict :: "instance_binding \<Rightarrow> pyval" where
  "binding_dict b = PyDict [(''agent_id'', PyStr (ei_agent_id b)),
     (''executor_definition_id'', PyStr (ei_executor_definition_id b)),
     (''runner_profile_id'', PyStr (ei_runner_profile_id b)), (''enabled'', PyBool (ei_enabled b))]"

definition canonical_executor_catalog_dict :: "executor_catalog \<Rightarrow> pyval" where
  "canonical_executor_catalog_dict c = PyDict
     [(''contract_version'', PyInt EXECUTOR_CONTRACT_VERSION), (''source_id'', PyStr (ec_source_id c)),
      (''source_version'', PyInt (ec_source_version c)),
      (''executor_definitions'', PyList (map definition_dict (sort_key ed_id (ec_definitions c)))),
      (''executor_instance_bindings'', PyList (map binding_dict (sort_key ei_agent_id (ec_bindings c))))]"

definition compute_executor_catalog_hash :: "(string \<Rightarrow> string) \<Rightarrow> executor_catalog \<Rightarrow> string" where
  "compute_executor_catalog_hash H c = H (json (canonical_executor_catalog_dict c))"

section \<open>The parser\<close>

definition ALLOWED_ROOT_KEYS :: "string list" where
  "ALLOWED_ROOT_KEYS = [''registry'', ''agents'', ''external_agents'', ''executor_definitions'',
     ''capacity_registry'', ''executor_capacities'']"

definition ALLOWED_REGISTRY_KEYS :: "string list" where
  "ALLOWED_REGISTRY_KEYS = [''id'', ''version'']"

definition ALLOWED_DEFINITION_KEYS :: "string list" where
  "ALLOWED_DEFINITION_KEYS = [''id'', ''provider'', ''adapter'', ''capabilities'']"

definition ALLOWED_AGENT_KEYS :: "string list" where
  "ALLOWED_AGENT_KEYS = [''id'', ''display_name'', ''discord_user_id'', ''executor_definition_id'',
     ''runner_profile_id'', ''enabled'']"

definition keys_within :: "string list \<Rightarrow> (string \<times> pyval) list \<Rightarrow> bool" where
  "keys_within allowed d = list_all (\<lambda>(k, v). List.member allowed k) d"

definition parse_definition :: "string list \<Rightarrow> pyval \<Rightarrow> executor_definition result" where
  "parse_definition seen raw =
     (case as_dict raw of
        None \<Rightarrow> raise IdentityErr ''executor_definitions entry must be a table''
      | Some d \<Rightarrow>
          if \<not> keys_within ALLOWED_DEFINITION_KEYS d then raise IdentityErr ''unknown keys''
          else bindE (executor_label (dget d ''id'')) (\<lambda>def_id.
            if List.member seen def_id then raise IdentityErr ''duplicate executor_definition id''
            else
              bindE (executor_label (dget d ''provider'')) (\<lambda>provider.
              bindE (executor_label (dget d ''adapter'')) (\<lambda>adapter.
              bindE (validate_capabilities (dget_or d ''capabilities'' (PyList []))) (\<lambda>caps.
                Inr \<lparr>ed_id = def_id, ed_provider = provider, ed_adapter = adapter, ed_capabilities = caps\<rparr>)))))"

fun parse_definitions :: "string list \<Rightarrow> pyval list \<Rightarrow> executor_definition list result" where
  "parse_definitions seen [] = Inr []"
| "parse_definitions seen (raw # raws) =
     bindE (parse_definition seen raw) (\<lambda>d.
     bindE (parse_definitions (ed_id d # seen) raws) (\<lambda>ds. Inr (d # ds)))"

text \<open>\<open>_process_agent_entry\<close>; an external agent and an agent without executor give no binding.\<close>

definition process_agent_entry :: "bool \<Rightarrow> string list \<Rightarrow> string list \<Rightarrow> pyval \<Rightarrow> instance_binding option result" where
  "process_agent_entry external definition_ids seen raw =
     (case as_dict raw of
        None \<Rightarrow> raise AttributeErr ''get''
      | Some d \<Rightarrow>
          bindE (executor_label (dget d ''id'')) (\<lambda>agent_id.
          if \<not> keys_within ALLOWED_AGENT_KEYS d then raise IdentityErr ''unknown keys''
          else
            let def_v = dget d ''executor_definition_id''; prof_v = dget d ''runner_profile_id'' in
            if external then
              (if def_v \<noteq> PyNone \<or> prof_v \<noteq> PyNone \<or> map_of d ''enabled'' \<noteq> None
               then raise IdentityErr ''external agent must not carry executor bindings'' else Inr None)
            else if def_v = PyNone \<and> prof_v = PyNone then Inr None
            else if def_v = PyNone \<or> prof_v = PyNone
            then raise IdentityErr ''must set both executor_definition_id and runner_profile_id''
            else
              bindE (executor_label def_v) (\<lambda>def_id.
              bindE (executor_label prof_v) (\<lambda>prof_id.
              if \<not> List.member definition_ids def_id then raise IdentityErr ''references unknown executor_definition_id''
              else if prof_id \<noteq> agent_id then raise IdentityErr ''runner_profile_id must equal agent_id''
              else if List.member seen agent_id then raise IdentityErr ''duplicate agent id in executor bindings''
              else bindE (validate_boolish (dget_or d ''enabled'' (PyBool True))) (\<lambda>enabled.
                Inr (Some \<lparr>ei_agent_id = agent_id, ei_executor_definition_id = def_id,
                           ei_runner_profile_id = prof_id, ei_enabled = enabled\<rparr>))))))"

fun process_agents :: "bool \<Rightarrow> string list \<Rightarrow> instance_binding list \<Rightarrow> pyval list \<Rightarrow> instance_binding list result" where
  "process_agents external definition_ids bs [] = Inr bs"
| "process_agents external definition_ids bs (raw # raws) =
     bindE (process_agent_entry external definition_ids (map ei_agent_id bs) raw) (\<lambda>b.
       process_agents external definition_ids (case b of None \<Rightarrow> bs | Some x \<Rightarrow> bs @ [x]) raws)"

definition parse_executor_catalog ::
  "(string \<Rightarrow> string) \<Rightarrow> string \<Rightarrow> (string \<times> pyval) list \<Rightarrow> executor_catalog result" where
  "parse_executor_catalog H path data =
     (if \<not> keys_within ALLOWED_ROOT_KEYS data then raise IdentityErr ''unknown root keys''
      else case as_dict (dget data ''registry'') of
        None \<Rightarrow> raise IdentityErr ''missing [registry] metadata''
      | Some registry \<Rightarrow>
          if \<not> keys_within ALLOWED_REGISTRY_KEYS registry then raise IdentityErr ''unknown [registry] keys''
          else
            let source_id = strip (py_str (dget_or registry ''id'' (PyStr []))) in
            if source_id = [] then raise IdentityErr ''[registry].id is required''
            else bindE (executor_label (PyStr source_id)) (\<lambda>_.
              case as_int (dget registry ''version'') of
                None \<Rightarrow> raise IdentityErr ''[registry].version must be a non-negative integer''
              | Some version \<Rightarrow>
                  if version < 0 then raise IdentityErr ''[registry].version must be a non-negative integer''
                  else
                    bindE (py_iter (dget_or data ''executor_definitions'' (PyList []))) (\<lambda>raw_definitions.
                    bindE (parse_definitions [] raw_definitions) (\<lambda>definitions.
                    let ids = map ed_id definitions in
                    bindE (py_iter (dget_or data ''agents'' (PyList []))) (\<lambda>raw_agents.
                    bindE (process_agents False ids [] raw_agents) (\<lambda>bs.
                    bindE (py_iter (dget_or data ''external_agents'' (PyList []))) (\<lambda>raw_external.
                    bindE (process_agents True ids bs raw_external) (\<lambda>bindings.
                    let c = \<lparr>ec_source_id = source_id, ec_source_version = version, ec_catalog_hash = [],
                             ec_source_path = Some path, ec_definitions = definitions, ec_bindings = bindings\<rparr>
                    in Inr (c\<lparr>ec_catalog_hash := compute_executor_catalog_hash H c\<rparr>)))))))))"

section \<open>Reads\<close>

definition get_executor_catalog_source :: "db \<Rightarrow> string \<Rightarrow> catalog_source_row option" where
  "get_executor_catalog_source s sid = find (\<lambda>r. cs_source_id r = sid) (db_catalog_sources s)"

definition list_executor_catalog_sources :: "db \<Rightarrow> catalog_source_row list" where
  "list_executor_catalog_sources s = sort_key cs_source_id (db_catalog_sources s)"

definition list_executor_definitions :: "db \<Rightarrow> string option \<Rightarrow> definition_row list" where
  "list_executor_definitions s sid =
     sort_key df_id (filter (\<lambda>r. case sid of None \<Rightarrow> True | Some x \<Rightarrow> df_source_id r = x) (db_definitions s))"

definition list_executor_instance_bindings :: "db \<Rightarrow> string option \<Rightarrow> instance_row list" where
  "list_executor_instance_bindings s sid =
     sort_key ib_agent_id (filter (\<lambda>r. case sid of None \<Rightarrow> True | Some x \<Rightarrow> ib_source_id r = x) (db_instances s))"

definition get_executor_instance_binding :: "db \<Rightarrow> string \<Rightarrow> instance_row option" where
  "get_executor_instance_binding s agent_id = find (\<lambda>r. ib_agent_id r = agent_id) (db_instances s)"

section \<open>Synchronisation\<close>

text \<open>\<open>json_extract(payload_json, '$.executor_binding.source_id') = ?\<close>.\<close>

definition carries_source :: "string \<Rightarrow> pyval option \<Rightarrow> bool" where
  "carries_source sid payload =
     (case payload of None \<Rightarrow> False
      | Some p \<Rightarrow> (case as_dict p of None \<Rightarrow> False
          | Some d \<Rightarrow> (case as_dict (dget d ''executor_binding'') of None \<Rightarrow> False
              | Some b \<Rightarrow> extract_text (dget b ''source_id'') = Some sid)))"

definition has_in_flight_typed_jobs :: "db \<Rightarrow> string \<Rightarrow> bool" where
  "has_in_flight_typed_jobs s sid =
     list_ex (\<lambda>j. (jb_status j = ''pending'' \<or> jb_status j = ''running'') \<and> carries_source sid (jb_payload_json j)) (db_jobs s)"

definition source_row_of :: "timestamp \<Rightarrow> string option \<Rightarrow> executor_catalog \<Rightarrow> catalog_source_row" where
  "source_row_of now path c =
     \<lparr>cs_source_id = ec_source_id c, cs_source_version = ec_source_version c, cs_catalog_hash = ec_catalog_hash c,
      cs_source_path = (if path = None \<or> path = Some [] then ec_source_path c else path), cs_updated_at = now\<rparr>"

definition put_catalog_source :: "catalog_source_row \<Rightarrow> db \<Rightarrow> db" where
  "put_catalog_source r s =
     (if get_executor_catalog_source s (cs_source_id r) = None
      then s\<lparr>db_catalog_sources := db_catalog_sources s @ [r]\<rparr>
      else s\<lparr>db_catalog_sources := update_where (\<lambda>x. cs_source_id x = cs_source_id r) (\<lambda>_. r) (db_catalog_sources s)\<rparr>)"

text \<open>The two \<open>DELETE\<close>s; a deleted definition takes the bindings that refer to it along.\<close>

definition delete_source_rows :: "string \<Rightarrow> db \<Rightarrow> db" where
  "delete_source_rows sid s =
     (let gone = map df_id (filter (\<lambda>d. df_source_id d = sid) (db_definitions s)) in
      s\<lparr>db_instances := filter (\<lambda>b. ib_source_id b \<noteq> sid \<and> \<not> List.member gone (ib_executor_definition_id b)) (db_instances s),
        db_definitions := filter (\<lambda>d. df_source_id d \<noteq> sid) (db_definitions s)\<rparr>)"

definition definition_row_of :: "timestamp \<Rightarrow> string \<Rightarrow> executor_definition \<Rightarrow> definition_row" where
  "definition_row_of now sid d =
     \<lparr>df_id = ed_id d, df_source_id = sid, df_provider = ed_provider d, df_adapter = ed_adapter d,
      df_capabilities = ed_capabilities d, df_created_at = now, df_updated_at = now\<rparr>"

definition instance_row_of :: "timestamp \<Rightarrow> string \<Rightarrow> instance_binding \<Rightarrow> instance_row" where
  "instance_row_of now sid b =
     \<lparr>ib_agent_id = ei_agent_id b, ib_source_id = sid, ib_executor_definition_id = ei_executor_definition_id b,
      ib_runner_profile_id = ei_runner_profile_id b, ib_enabled = ei_enabled b, ib_created_at = now, ib_updated_at = now\<rparr>"

fun insert_definitions :: "timestamp \<Rightarrow> string \<Rightarrow> executor_definition list \<Rightarrow> db \<Rightarrow> db result" where
  "insert_definitions now sid [] s = Inr s"
| "insert_definitions now sid (d # ds) s =
     (if list_ex (\<lambda>r. df_id r = ed_id d) (db_definitions s) then raise IntegrityErr ''executor_definitions.id''
      else insert_definitions now sid ds (s\<lparr>db_definitions := db_definitions s @ [definition_row_of now sid d]\<rparr>))"

fun insert_instances :: "timestamp \<Rightarrow> string \<Rightarrow> instance_binding list \<Rightarrow> db \<Rightarrow> db result" where
  "insert_instances now sid [] s = Inr s"
| "insert_instances now sid (b # bs) s =
     (if list_ex (\<lambda>r. ib_agent_id r = ei_agent_id b) (db_instances s)
      then raise IntegrityErr ''executor_instance_bindings.agent_id''
      else if get_agent s (ei_agent_id b) = None \<or> get_runner_profile s (ei_runner_profile_id b) = None \<or>
        \<not> list_ex (\<lambda>r. df_id r = ei_executor_definition_id b) (db_definitions s)
      then raise IntegrityErr ''FOREIGN KEY constraint failed''
      else insert_instances now sid bs (s\<lparr>db_instances := db_instances s @ [instance_row_of now sid b]\<rparr>))"

definition check_binding_reference :: "db \<Rightarrow> instance_binding \<Rightarrow> unit result" where
  "check_binding_reference s b =
     (case get_agent s (ei_agent_id b) of
        None \<Rightarrow> raise IdentityErr ''executor binding references unknown agent''
      | Some a \<Rightarrow>
          if ag_client_type a \<noteq> Some ''agentd'' then raise IdentityErr ''executor binding references non-agentd instance''
          else case get_runner_profile s (ei_runner_profile_id b) of
            None \<Rightarrow> raise IdentityErr ''executor binding references unknown runner profile''
          | Some r \<Rightarrow> if rn_runner_type r \<noteq> ''agentd'' then raise IdentityErr ''executor binding references non-agentd runner profile''
                      else Inr ())"

record catalog_report =
  cr_changed :: bool
  cr_definitions :: "string list \<times> string list \<times> string list \<times> string list"
  cr_bindings :: "string list \<times> string list \<times> string list \<times> string list"

definition apply_catalog ::
  "timestamp \<Rightarrow> executor_catalog \<Rightarrow> string option \<Rightarrow> db \<Rightarrow> db result" where
  "apply_catalog now c path s =
     (if \<not> int64 (ec_source_version c) then raise OverflowErr ''Python int too large to convert to SQLite INTEGER''
      else
        let sid = ec_source_id c;
            s1 = delete_source_rows sid (put_catalog_source (source_row_of now path c) s)
        in bindE (insert_definitions now sid (ec_definitions c) s1) (\<lambda>s2.
             insert_instances now sid (ec_bindings c) s2))"

definition sync_executor_catalog ::
  "timestamp \<Rightarrow> executor_catalog \<Rightarrow> string option \<Rightarrow> db \<Rightarrow> (catalog_report \<times> db) result" where
  "sync_executor_catalog now c path s =
     (let sid = ec_source_id c;
          apply =
            (if list_ex (\<lambda>r. List.member (map ed_id (ec_definitions c)) (df_id r) \<and> df_source_id r \<noteq> sid) (db_definitions s)
             then raise IdentityErr ''executor_definition id is owned by another source''
             else if list_ex (\<lambda>r. List.member (map ei_agent_id (ec_bindings c)) (ib_agent_id r) \<and> ib_source_id r \<noteq> sid) (db_instances s)
             then raise IdentityErr ''executor_instance_binding is owned by another source''
             else
               bindE (mapE (check_binding_reference s) (ec_bindings c)) (\<lambda>_.
               if has_in_flight_typed_jobs s sid then raise IdentityErr ''catalog has in-flight typed jobs''
               else
                 let old_defs = map (\<lambda>r. (df_id r, (df_provider r, df_adapter r, df_capabilities r)))
                       (filter (\<lambda>r. df_source_id r = sid) (db_definitions s));
                     new_defs = map (\<lambda>d. (ed_id d, (ed_provider d, ed_adapter d, ed_capabilities d))) (ec_definitions c);
                     old_bs = map (\<lambda>r. (ib_agent_id r, (ib_executor_definition_id r, ib_runner_profile_id r, ib_enabled r)))
                       (filter (\<lambda>r. ib_source_id r = sid) (db_instances s));
                     new_bs = map (\<lambda>b. (ei_agent_id b, (ei_executor_definition_id b, ei_runner_profile_id b, ei_enabled b))) (ec_bindings c)
                 in bindE (apply_catalog now c path s) (\<lambda>s'.
                      Inr (\<lparr>cr_changed = True, cr_definitions = dict_diff old_defs new_defs,
                            cr_bindings = dict_diff old_bs new_bs\<rparr>, s'))))
      in case get_executor_catalog_source s sid of
           None \<Rightarrow> apply
         | Some r \<Rightarrow>
             if ec_source_version c < cs_source_version r then raise IdentityErr ''catalog version downgrade''
             else if ec_source_version c = cs_source_version r \<and> ec_catalog_hash c \<noteq> cs_catalog_hash r
             then raise IdentityErr ''catalog hash changed without version bump''
             else if ec_source_version c = cs_source_version r then
               Inr (\<lparr>cr_changed = False, cr_definitions = ([], [], [], sort (map ed_id (ec_definitions c))),
                     cr_bindings = ([], [], [], sort (map ei_agent_id (ec_bindings c)))\<rparr>, s)
             else apply)"

section \<open>Binding snapshots\<close>

type_synonym fields = "(string \<times> pyval) list"

definition SNAPSHOT_KEYS :: "string list" where
  "SNAPSHOT_KEYS = [''adapter'', ''capabilities'', ''catalog_hash'', ''contract_version'', ''executor_definition_id'',
     ''executor_instance_id'', ''provider'', ''runner_profile_id'', ''source_id'', ''source_version'']"

definition same_keys :: "string list \<Rightarrow> fields \<Rightarrow> bool" where
  "same_keys ks d = (list_all (\<lambda>(k, v). List.member ks k) d \<and> list_all (\<lambda>k. List.member (map fst d) k) ks)"

definition binding_snapshot_canonical_dict :: "fields \<Rightarrow> fields result" where
  "binding_snapshot_canonical_dict snapshot =
     (if \<not> same_keys SNAPSHOT_KEYS (dpop ''binding_id'' snapshot)
      then raise IdentityErr ''binding snapshot has incorrect fields''
      else Inr (map (\<lambda>k. (k, dget snapshot k)) SNAPSHOT_KEYS))"

definition compute_executor_binding_id :: "(string \<Rightarrow> string) \<Rightarrow> fields \<Rightarrow> string result" where
  "compute_executor_binding_id H snapshot =
     bindE (binding_snapshot_canonical_dict snapshot) (\<lambda>d. Inr (digest_of H (PyDict d)))"

definition build_executor_binding_snapshot ::
  "(string \<Rightarrow> string) \<Rightarrow> catalog_source_row \<Rightarrow> definition_row \<Rightarrow> instance_row \<Rightarrow> fields result" where
  "build_executor_binding_snapshot H src d b =
     (let snapshot =
        [(''contract_version'', PyInt EXECUTOR_CONTRACT_VERSION), (''source_id'', PyStr (ib_source_id b)),
         (''source_version'', PyInt (cs_source_version src)), (''catalog_hash'', PyStr (cs_catalog_hash src)),
         (''executor_definition_id'', PyStr (df_id d)), (''executor_instance_id'', PyStr (ib_agent_id b)),
         (''runner_profile_id'', PyStr (ib_runner_profile_id b)), (''provider'', PyStr (df_provider d)),
         (''adapter'', PyStr (df_adapter d)), (''capabilities'', PyList (map PyStr (df_capabilities d)))]
      in bindE (compute_executor_binding_id H snapshot) (\<lambda>i. Inr (snapshot @ [(''binding_id'', PyStr i)])))"

definition resolve_exact_executor_binding :: "(string \<Rightarrow> string) \<Rightarrow> db \<Rightarrow> string \<Rightarrow> fields option result" where
  "resolve_exact_executor_binding H s agent_id =
     (case get_executor_instance_binding s agent_id of
        None \<Rightarrow> Inr None
      | Some b \<Rightarrow>
          if \<not> ib_enabled b then Inr None
          else if ib_runner_profile_id b \<noteq> agent_id then raise IdentityErr ''binding has another runner_profile_id''
          else case get_runner_profile s (ib_runner_profile_id b) of
            None \<Rightarrow> raise IdentityErr ''binding references missing runner profile''
          | Some _ \<Rightarrow>
              (case find (\<lambda>d. df_id d = ib_executor_definition_id b \<and> df_source_id d = ib_source_id b) (db_definitions s) of
                 None \<Rightarrow> raise IdentityErr ''binding references missing definition''
               | Some d \<Rightarrow>
                   (case get_executor_catalog_source s (ib_source_id b) of
                      None \<Rightarrow> raise IdentityErr ''binding references missing source''
                    | Some src \<Rightarrow> bindE (build_executor_binding_snapshot H src d b) (\<lambda>x. Inr (Some x)))))"

definition validate_binding_snapshot :: "(string \<Rightarrow> string) \<Rightarrow> pyval \<Rightarrow> fields result" where
  "validate_binding_snapshot H v =
     (case as_dict v of
        None \<Rightarrow> raise IdentityErr ''executor_binding must be an object''
      | Some d \<Rightarrow>
          if \<not> same_keys (''binding_id'' # SNAPSHOT_KEYS) d then raise IdentityErr ''executor_binding has incorrect fields''
          else if \<not> eq_int (dget d ''contract_version'') EXECUTOR_CONTRACT_VERSION
          then raise IdentityErr ''executor_binding contract_version must be 1''
          else case as_str (dget d ''binding_id'') of
            None \<Rightarrow> raise IdentityErr ''executor_binding.binding_id must be sha256:<64-lowercase-hex>''
          | Some i \<Rightarrow>
              if \<not> re_match digest_body i
              then raise IdentityErr ''executor_binding.binding_id must be sha256:<64-lowercase-hex>''
              else bindE (compute_executor_binding_id H d) (\<lambda>expected.
                if i \<noteq> expected then raise IdentityErr ''executor_binding digest mismatch'' else Inr d))"

definition current_snapshot_matches :: "(string \<Rightarrow> string) \<Rightarrow> db \<Rightarrow> fields \<Rightarrow> bool result" where
  "current_snapshot_matches H s stored =
     (case as_str (dget stored ''executor_instance_id'') of
        None \<Rightarrow> Inr False
      | Some agent_id \<Rightarrow>
          bindE (resolve_exact_executor_binding H s agent_id) (\<lambda>current.
            case current of
              None \<Rightarrow> Inr False
            | Some cur \<Rightarrow>
                bindE (binding_snapshot_canonical_dict cur) (\<lambda>a.
                bindE (binding_snapshot_canonical_dict stored) (\<lambda>b.
                  Inr (py_eq (PyDict a) (PyDict b))))))"

definition validate_stored_executor_binding :: "(string \<Rightarrow> string) \<Rightarrow> db \<Rightarrow> pyval \<Rightarrow> job_row \<Rightarrow> unit result" where
  "validate_stored_executor_binding H s snapshot j =
     bindE (reraise IdentityErr IdentityErr ''executor_binding_mismatch'' (validate_binding_snapshot H snapshot)) (\<lambda>d.
     if opt_str (jb_assigned_agent j) \<noteq> dget d ''executor_instance_id''
     then raise IdentityErr ''executor_binding_mismatch: assigned_agent''
     else if opt_str (jb_runner_profile_id j) \<noteq> dget d ''runner_profile_id''
     then raise IdentityErr ''executor_binding_mismatch: runner_profile_id''
     else bindE (current_snapshot_matches H s d) (\<lambda>ok.
       if ok then Inr () else raise IdentityErr ''executor_binding_mismatch: no longer matches current catalog''))"

definition executor_binding_claim_evidence :: "fields \<Rightarrow> fields" where
  "executor_binding_claim_evidence d =
     (''executor_binding_id'', dget d ''binding_id'') #
     map (\<lambda>k. (k, dget d k)) [''executor_definition_id'', ''executor_instance_id'', ''runner_profile_id'',
       ''source_id'', ''source_version'', ''catalog_hash'']"

section \<open>What the parser accepts\<close>

definition label_ok :: "string \<Rightarrow> bool" where
  "label_ok s \<longleftrightarrow> safe_label_body s \<and> length s \<le> ID_MAX_LABEL_LEN \<and> strip s = s"

definition definition_ok :: "executor_definition \<Rightarrow> bool" where
  "definition_ok d \<longleftrightarrow> label_ok (ed_id d) \<and> label_ok (ed_provider d) \<and> label_ok (ed_adapter d) \<and>
     list_all label_ok (ed_capabilities d) \<and> length (ed_capabilities d) \<le> MAX_CAPABILITIES \<and>
     sorted_wrt (<) (ed_capabilities d)"

definition catalog_ok :: "(string \<Rightarrow> string) \<Rightarrow> executor_catalog \<Rightarrow> bool" where
  "catalog_ok H c \<longleftrightarrow> label_ok (ec_source_id c) \<and> 0 \<le> ec_source_version c \<and>
     ec_catalog_hash c = compute_executor_catalog_hash H c \<and>
     list_all definition_ok (ec_definitions c) \<and> distinct (map ed_id (ec_definitions c)) \<and>
     distinct (map ei_agent_id (ec_bindings c)) \<and>
     list_all (\<lambda>b. label_ok (ei_agent_id b) \<and> ei_runner_profile_id b = ei_agent_id b \<and>
       List.member (map ed_id (ec_definitions c)) (ei_executor_definition_id b)) (ec_bindings c)"

lemma validate_bounded_label_Inr: "validate_bounded_label c v = Inr s \<longleftrightarrow> v = PyStr s \<and> label_ok s"
proof -
  have "re_match safe_label_body t \<longleftrightarrow> safe_label_body t" if "strip t = t" for t
  proof -
    from that have "t = [] \<or> last t \<noteq> CHR 0x0A" by (auto simp: strip_id_iff is_space_def sp_chars_def)
    then show ?thesis by (simp add: re_match_def chomp_id)
  qed
  then show ?thesis
    by (auto simp: validate_bounded_label_def label_ok_def safe_label_body_def split: option.splits if_splits)
qed

lemma capabilities_loop_Inr:
  "capabilities_loop items seen = Inr caps \<Longrightarrow> length caps = length items \<and> list_all label_ok caps \<and>
     distinct caps \<and> set caps \<inter> set seen = {}"
proof (induction items seen arbitrary: caps rule: capabilities_loop.induct)
  case (2 item items seen)
  then obtain cap caps' where c: "executor_label item = Inr cap" "cap \<notin> set seen"
    "capabilities_loop items (cap # seen) = Inr caps'" "caps = cap # caps'" by (auto split: if_splits)
  from 2(1) [OF _ c(3)] c(2) have "length caps' = length items" "list_all label_ok caps'" "distinct caps'"
    "set caps' \<inter> set (cap # seen) = {}" by auto
  with c show ?case by (auto simp: validate_bounded_label_Inr)
qed simp

lemma validate_capabilities_Inr:
  "validate_capabilities v = Inr caps \<Longrightarrow> list_all label_ok caps \<and> length caps \<le> MAX_CAPABILITIES \<and> sorted_wrt (<) caps"
  by (auto simp: validate_capabilities_def strict_sorted_iff split: option.splits if_splits dest!: capabilities_loop_Inr)
    (metis sorted_sort)+

lemma parse_definitions_Inr:
  "parse_definitions seen raws = Inr ds \<Longrightarrow>
     list_all definition_ok ds \<and> distinct (map ed_id ds) \<and> set (map ed_id ds) \<inter> set seen = {}"
proof (induction seen raws arbitrary: ds rule: parse_definitions.induct)
  case (2 seen raw raws)
  then obtain d ds' where d: "parse_definition seen raw = Inr d" "parse_definitions (ed_id d # seen) raws = Inr ds'" "ds = d # ds'"
    by auto
  from d(1) have "definition_ok d \<and> ed_id d \<notin> set seen"
    by (auto simp: parse_definition_def definition_ok_def validate_bounded_label_Inr split: option.splits if_splits
        dest!: validate_capabilities_Inr)
  with 2(1) [OF d(2)] d(3) show ?case by auto
qed simp

definition bindings_ok :: "string list \<Rightarrow> instance_binding list \<Rightarrow> bool" where
  "bindings_ok ids bs \<longleftrightarrow> distinct (map ei_agent_id bs) \<and>
     list_all (\<lambda>b. label_ok (ei_agent_id b) \<and> ei_runner_profile_id b = ei_agent_id b \<and>
       List.member ids (ei_executor_definition_id b)) bs"

lemma process_agents_Inr:
  "process_agents external ids bs raws = Inr bs' \<Longrightarrow> bindings_ok ids bs \<Longrightarrow> bindings_ok ids bs'"
proof (induction external ids bs raws rule: process_agents.induct)
  case (2 external ids bs raw raws)
  from 2(2) obtain b where b: "process_agent_entry external ids (map ei_agent_id bs) raw = Inr b"
    "process_agents external ids (case b of None \<Rightarrow> bs | Some x \<Rightarrow> bs @ [x]) raws = Inr bs'" by auto
  have "bindings_ok ids (case b of None \<Rightarrow> bs | Some x \<Rightarrow> bs @ [x])"
  proof (cases b)
    case (Some x)
    with b(1) have "label_ok (ei_agent_id x) \<and> ei_runner_profile_id x = ei_agent_id x \<and>
        List.member ids (ei_executor_definition_id x) \<and> ei_agent_id x \<notin> ei_agent_id ` set bs"
      by (auto simp: process_agent_entry_def Let_def validate_bounded_label_Inr split: option.splits if_splits)
    with 2(3) Some show ?thesis by (auto simp: bindings_ok_def)
  qed (use 2(3) in simp)
  with 2(1) b(2) show ?case by blast
qed simp

lemma parse_catalog_ok: "parse_executor_catalog H path data = Inr c \<Longrightarrow> catalog_ok H c"
proof -
  assume "parse_executor_catalog H path data = Inr c"
  then obtain definitions bs bindings version source_id raws raws' raws'' where
    c: "c = \<lparr>ec_source_id = source_id, ec_source_version = version, ec_catalog_hash = compute_executor_catalog_hash H
            \<lparr>ec_source_id = source_id, ec_source_version = version, ec_catalog_hash = [], ec_source_path = Some path,
             ec_definitions = definitions, ec_bindings = bindings\<rparr>,
          ec_source_path = Some path, ec_definitions = definitions, ec_bindings = bindings\<rparr>"
    and p: "label_ok source_id" "0 \<le> version" "parse_definitions [] raws = Inr definitions"
      "process_agents False (map ed_id definitions) [] raws' = Inr bs"
      "process_agents True (map ed_id definitions) bs raws'' = Inr bindings"
    unfolding parse_executor_catalog_def Let_def
    by (auto simp: validate_bounded_label_Inr split: if_splits option.splits)
  have "bindings_ok (map ed_id definitions) bindings"
    by (rule process_agents_Inr [OF p(5) process_agents_Inr [OF p(4)]]) (simp add: bindings_ok_def)
  then show ?thesis using parse_definitions_Inr [OF p(3)] p(1,2)
    by (simp add: c catalog_ok_def bindings_ok_def compute_executor_catalog_hash_def canonical_executor_catalog_dict_def)
qed

section \<open>What a synchronisation writes\<close>

lemma row_fields [simp]:
  "df_id (definition_row_of now sid d) = ed_id d" "df_source_id (definition_row_of now sid d) = sid"
  "ib_agent_id (instance_row_of now sid b) = ei_agent_id b" "ib_source_id (instance_row_of now sid b) = sid"
  "ib_executor_definition_id (instance_row_of now sid b) = ei_executor_definition_id b"
  "ib_runner_profile_id (instance_row_of now sid b) = ei_runner_profile_id b"
  "ib_enabled (instance_row_of now sid b) = ei_enabled b"
  by (simp_all add: definition_row_of_def instance_row_of_def)

definition catalog_inv :: "db \<Rightarrow> bool" where
  "catalog_inv s \<longleftrightarrow> distinct (map cs_source_id (db_catalog_sources s)) \<and> distinct (map df_id (db_definitions s)) \<and>
     distinct (map ib_agent_id (db_instances s)) \<and>
     (\<forall>d \<in> set (db_definitions s). get_executor_catalog_source s (df_source_id d) \<noteq> None) \<and>
     (\<forall>b \<in> set (db_instances s). ib_runner_profile_id b = ib_agent_id b \<and> get_runner_profile s (ib_agent_id b) \<noteq> None \<and>
        (\<exists>d \<in> set (db_definitions s). df_id d = ib_executor_definition_id b \<and> df_source_id d = ib_source_id b))"

lemma insert_definitions_Inr:
  "insert_definitions now sid ds s = Inr s' \<Longrightarrow>
     s' = s\<lparr>db_definitions := db_definitions s @ map (definition_row_of now sid) ds\<rparr> \<and>
     distinct (map ed_id ds) \<and> set (map ed_id ds) \<inter> set (map df_id (db_definitions s)) = {}"
proof (induction ds arbitrary: s)
  case (Cons d ds)
  let ?s = "s\<lparr>db_definitions := db_definitions s @ [definition_row_of now sid d]\<rparr>"
  from Cons.prems have n: "ed_id d \<notin> df_id ` set (db_definitions s)" and i: "insert_definitions now sid ds ?s = Inr s'"
    by (auto simp: list_ex_iff split: if_splits)
  from Cons.IH [OF i] n show ?case by (auto simp: definition_row_of_def)
qed simp

lemma insert_instances_Inr:
  "insert_instances now sid bs s = Inr s' \<Longrightarrow>
     s' = s\<lparr>db_instances := db_instances s @ map (instance_row_of now sid) bs\<rparr> \<and>
     distinct (map ei_agent_id bs) \<and> set (map ei_agent_id bs) \<inter> set (map ib_agent_id (db_instances s)) = {} \<and>
     (\<forall>b \<in> set bs. get_runner_profile s (ei_runner_profile_id b) \<noteq> None)"
proof (induction bs arbitrary: s)
  case (Cons b bs)
  let ?s = "s\<lparr>db_instances := db_instances s @ [instance_row_of now sid b]\<rparr>"
  from Cons.prems have n: "ei_agent_id b \<notin> ib_agent_id ` set (db_instances s)"
    "get_runner_profile s (ei_runner_profile_id b) \<noteq> None" and i: "insert_instances now sid bs ?s = Inr s'"
    by (auto simp: list_ex_iff split: if_splits)
  from Cons.IH [OF i] n show ?case by (auto simp: instance_row_of_def get_runner_profile_def)
qed simp

lemma put_catalog_source_simps [simp]:
  "db_definitions (put_catalog_source r s) = db_definitions s" "db_instances (put_catalog_source r s) = db_instances s"
  "db_runner_profiles (put_catalog_source r s) = db_runner_profiles s" "db_jobs (put_catalog_source r s) = db_jobs s"
  "get_executor_catalog_source (put_catalog_source r s) sid =
     (if sid = cs_source_id r then Some r else get_executor_catalog_source s sid)"
proof -
  have "find (\<lambda>x. cs_source_id x = sid) (update_where (\<lambda>x. cs_source_id x = cs_source_id r) (\<lambda>_. r) rs) =
    (if sid = cs_source_id r then map_option (\<lambda>_. r) (find (\<lambda>x. cs_source_id x = sid) rs)
     else find (\<lambda>x. cs_source_id x = sid) rs)" for rs
    by (induction rs) (auto simp: update_where_def)
  then show "get_executor_catalog_source (put_catalog_source r s) sid =
     (if sid = cs_source_id r then Some r else get_executor_catalog_source s sid)"
    by (auto simp: put_catalog_source_def get_executor_catalog_source_def find_append split: option.splits)
qed (simp_all add: put_catalog_source_def)

lemma put_catalog_source_distinct:
  assumes "distinct (map cs_source_id (db_catalog_sources s))"
  shows "distinct (map cs_source_id (db_catalog_sources (put_catalog_source r s)))"
proof (cases "get_executor_catalog_source s (cs_source_id r)")
  case None
  with assms show ?thesis using distinct_keys_append [of cs_source_id "db_catalog_sources s" r]
    by (simp add: put_catalog_source_def get_executor_catalog_source_def)
next
  case (Some x)
  then have "map cs_source_id (db_catalog_sources (put_catalog_source r s)) = map cs_source_id (db_catalog_sources s)"
    by (simp add: put_catalog_source_def map_update_where)
  with assms show ?thesis by simp
qed

lemma catalog_source_frame [simp]:
  "get_executor_catalog_source (s\<lparr>db_definitions := ds\<rparr>) sid = get_executor_catalog_source s sid"
  "get_executor_catalog_source (s\<lparr>db_instances := bs\<rparr>) sid = get_executor_catalog_source s sid"
  "get_runner_profile (s\<lparr>db_definitions := ds\<rparr>) p = get_runner_profile s p"
  "get_runner_profile (s\<lparr>db_instances := bs\<rparr>) p = get_runner_profile s p"
  "get_runner_profile (put_catalog_source r s) p = get_runner_profile s p"
  by (simp_all add: get_executor_catalog_source_def get_runner_profile_def)

text \<open>The rows of the source are those of the catalog; the rows of other sources are kept.\<close>

definition catalog_rows :: "timestamp \<Rightarrow> executor_catalog \<Rightarrow> string option \<Rightarrow> db \<Rightarrow> db \<Rightarrow> bool" where
  "catalog_rows now c path s s' \<longleftrightarrow>
     db_definitions s' = filter (\<lambda>d. df_source_id d \<noteq> ec_source_id c) (db_definitions s) @
       map (definition_row_of now (ec_source_id c)) (ec_definitions c) \<and>
     db_instances s' = filter (\<lambda>b. ib_source_id b \<noteq> ec_source_id c) (db_instances s) @
       map (instance_row_of now (ec_source_id c)) (ec_bindings c) \<and>
     (\<forall>sid. get_executor_catalog_source s' sid =
        (if sid = ec_source_id c then Some (source_row_of now path c) else get_executor_catalog_source s sid)) \<and>
     db_runner_profiles s' = db_runner_profiles s \<and> db_jobs s' = db_jobs s"

lemma apply_catalog_rows:
  assumes "apply_catalog now c path s = Inr s'" "catalog_inv s" "catalog_ok H c"
  shows "catalog_rows now c path s s' \<and> catalog_inv s'"
proof -
  let ?sid = "ec_source_id c" and ?r = "source_row_of now path c"
  let ?s1 = "delete_source_rows ?sid (put_catalog_source ?r s)"
  from assms(1) obtain s2 where s2: "insert_definitions now ?sid (ec_definitions c) ?s1 = Inr s2"
    "insert_instances now ?sid (ec_bindings c) s2 = Inr s'" by (auto simp: apply_catalog_def Let_def split: if_splits)
  have "\<not> List.member (map df_id (filter (\<lambda>d. df_source_id d = ?sid) (db_definitions s))) (ib_executor_definition_id b)"
    if b: "b \<in> set (db_instances s)" "ib_source_id b \<noteq> ?sid" for b
  proof
    assume "List.member (map df_id (filter (\<lambda>d. df_source_id d = ?sid) (db_definitions s))) (ib_executor_definition_id b)"
    then obtain d where d: "d \<in> set (db_definitions s)" "df_source_id d = ?sid" "df_id d = ib_executor_definition_id b" by auto
    from b(1) assms(2) obtain d' where "d' \<in> set (db_definitions s)" "df_id d' = ib_executor_definition_id b"
      "df_source_id d' = ib_source_id b" by (auto simp: catalog_inv_def)
    with d inj_onD [of df_id "set (db_definitions s)" d d'] assms(2) b(2) show False
      by (auto simp: catalog_inv_def distinct_map)
  qed
  then have "filter (\<lambda>b. ib_source_id b \<noteq> ?sid \<and>
      \<not> List.member (map df_id (filter (\<lambda>d. df_source_id d = ?sid) (db_definitions s))) (ib_executor_definition_id b)) (db_instances s) =
      filter (\<lambda>b. ib_source_id b \<noteq> ?sid) (db_instances s)" by (intro filter_cong) auto
  then have s1: "?s1 = (put_catalog_source ?r s)\<lparr>
      db_instances := filter (\<lambda>b. ib_source_id b \<noteq> ?sid) (db_instances s),
      db_definitions := filter (\<lambda>d. df_source_id d \<noteq> ?sid) (db_definitions s)\<rparr>"
    by (simp add: delete_source_rows_def Let_def)
  from insert_definitions_Inr [OF s2(1)] insert_instances_Inr [OF s2(2)] have
    s': "s' = s2\<lparr>db_instances := db_instances s2 @ map (instance_row_of now ?sid) (ec_bindings c)\<rparr>"
      "s2 = ?s1\<lparr>db_definitions := db_definitions ?s1 @ map (definition_row_of now ?sid) (ec_definitions c)\<rparr>"
    and d: "distinct (map ed_id (ec_definitions c))" "set (map ed_id (ec_definitions c)) \<inter> set (map df_id (db_definitions ?s1)) = {}"
      "distinct (map ei_agent_id (ec_bindings c))" "set (map ei_agent_id (ec_bindings c)) \<inter> set (map ib_agent_id (db_instances s2)) = {}"
    and prof: "\<forall>b \<in> set (ec_bindings c). get_runner_profile s2 (ei_runner_profile_id b) \<noteq> None" by blast+
  have rows: "catalog_rows now c path s s'"
    unfolding catalog_rows_def s' s1 by (simp add: source_row_of_def)
  show ?thesis
  proof
    show "catalog_rows now c path s s'" by (rule rows)
    have keys: "df_id \<circ> definition_row_of now ?sid = ed_id" "ib_agent_id \<circ> instance_row_of now ?sid = ei_agent_id"
      by (auto simp: definition_row_of_def instance_row_of_def)
    have "distinct (map cs_source_id (db_catalog_sources s'))"
      using put_catalog_source_distinct assms(2) unfolding s' s1 by (simp add: catalog_inv_def)
    moreover have "distinct (map df_id (db_definitions s'))"
      using d(1,2) assms(2) unfolding s' s1 by (auto simp: catalog_inv_def keys distinct_map_filter)
    moreover have "distinct (map ib_agent_id (db_instances s'))"
      using d(3,4) assms(2) unfolding s' s1 by (auto simp: catalog_inv_def keys distinct_map_filter)
    moreover have "\<forall>x \<in> set (db_definitions s'). get_executor_catalog_source s' (df_source_id x) \<noteq> None"
      using rows assms(2) by (auto simp: catalog_rows_def catalog_inv_def definition_row_of_def)
    moreover have "get_runner_profile s' p = get_runner_profile s p" "get_runner_profile s2 p = get_runner_profile s p" for p
      unfolding s' s1 by simp_all
    moreover have "\<exists>x \<in> set (db_definitions s'). df_id x = ib_executor_definition_id b \<and> df_source_id x = ib_source_id b"
      if "b \<in> set (db_instances s')" for b
    proof (cases "ib_source_id b = ?sid")
      case True
      with that rows obtain y where "y \<in> set (ec_bindings c)" "b = instance_row_of now ?sid y"
        by (auto simp: catalog_rows_def)
      with assms(3) obtain z where "z \<in> set (ec_definitions c)" "ed_id z = ib_executor_definition_id b"
        by (auto simp: catalog_ok_def list_all_iff instance_row_of_def)
      then show ?thesis using rows True
        by (intro bexI [of _ "definition_row_of now ?sid z"]) (auto simp: catalog_rows_def)
    next
      case False
      with that rows have "b \<in> set (db_instances s)" by (auto simp: catalog_rows_def instance_row_of_def)
      with assms(2) obtain x where "x \<in> set (db_definitions s)" "df_id x = ib_executor_definition_id b"
        "df_source_id x = ib_source_id b" by (auto simp: catalog_inv_def)
      with False rows show ?thesis by (auto simp: catalog_rows_def)
    qed
    moreover have "ib_runner_profile_id b = ib_agent_id b \<and> get_runner_profile s (ib_agent_id b) \<noteq> None"
      if "b \<in> set (db_instances s')" for b
      using that rows assms(2,3) prof calculation(5,6)
      by (auto simp: catalog_rows_def catalog_inv_def catalog_ok_def list_all_iff instance_row_of_def)
    ultimately show "catalog_inv s'" by (simp add: catalog_inv_def)
  qed
qed

definition catalog_advances :: "db \<Rightarrow> executor_catalog \<Rightarrow> bool" where
  "catalog_advances s c \<longleftrightarrow> (case get_executor_catalog_source s (ec_source_id c) of None \<Rightarrow> True
     | Some r \<Rightarrow> cs_source_version r < ec_source_version c)"

lemma sync_catalog_Inr:
  assumes "sync_executor_catalog now c path s = Inr (rep, s')"
  shows "(\<not> cr_changed rep \<and> s' = s \<and> (\<exists>r. get_executor_catalog_source s (ec_source_id c) = Some r \<and>
       cs_source_version r = ec_source_version c \<and> cs_catalog_hash r = ec_catalog_hash c)) \<or>
    (cr_changed rep \<and> catalog_advances s c \<and> \<not> has_in_flight_typed_jobs s (ec_source_id c) \<and>
       \<not> list_ex (\<lambda>r. List.member (map ei_agent_id (ec_bindings c)) (ib_agent_id r) \<and> ib_source_id r \<noteq> ec_source_id c) (db_instances s) \<and>
       apply_catalog now c path s = Inr s')"
proof (cases "\<exists>r. get_executor_catalog_source s (ec_source_id c) = Some r \<and> cs_source_version r = ec_source_version c")
  case True
  with assms show ?thesis unfolding sync_executor_catalog_def Let_def by (auto split: if_splits)
next
  case False
  with assms show ?thesis unfolding sync_executor_catalog_def Let_def catalog_advances_def
    by (cases "get_executor_catalog_source s (ec_source_id c)") (auto split: if_splits)
qed

text \<open>The catalog rows may change by synchronisations of parsed catalogs.\<close>

inductive catalog_step :: "(string \<Rightarrow> string) \<Rightarrow> db \<Rightarrow> db \<Rightarrow> bool" for H where
  sync: "catalog_ok H c \<Longrightarrow> sync_executor_catalog now c path s = Inr (rep, s') \<Longrightarrow> catalog_step H s s'"

lemma catalog_step_cases:
  assumes "catalog_step H s s'" "catalog_inv s"
  shows "s' = s \<or> (\<exists>now c path. catalog_ok H c \<and> catalog_advances s c \<and> \<not> has_in_flight_typed_jobs s (ec_source_id c) \<and>
    \<not> list_ex (\<lambda>r. List.member (map ei_agent_id (ec_bindings c)) (ib_agent_id r) \<and> ib_source_id r \<noteq> ec_source_id c) (db_instances s) \<and>
    catalog_rows now c path s s' \<and> catalog_inv s')"
  using assms(1)
proof cases
  case (sync c now path rep)
  from sync_catalog_Inr [OF sync(2)] apply_catalog_rows [OF _ assms(2) sync(1)] sync(1) show ?thesis by blast
qed

definition no_catalog :: "db \<Rightarrow> bool" where
  "no_catalog s \<longleftrightarrow> db_catalog_sources s = [] \<and> db_definitions s = [] \<and> db_instances s = []"

interpretation catalog_system: invariant_system no_catalog "catalog_step H" catalog_inv for H
  by unfold_locales (simp add: no_catalog_def catalog_inv_def, use catalog_step_cases in blast)

interpretation catalog_sources: versioned_register get_executor_catalog_source cs_source_version
  "\<lambda>s s'. catalog_inv s \<and> catalog_step H s s'" for H
proof
  fix s s' k v
  assume "catalog_inv s \<and> catalog_step H s s'" "get_executor_catalog_source s k = Some v"
  then show "\<exists>v'. get_executor_catalog_source s' k = Some v' \<and> (v' = v \<or> cs_source_version v < cs_source_version v')"
    using catalog_step_cases [of H s s']
    by (auto simp: catalog_rows_def catalog_advances_def source_row_of_def split: option.splits)
qed

section \<open>Snapshots\<close>

definition snapshot_body :: "catalog_source_row \<Rightarrow> definition_row \<Rightarrow> instance_row \<Rightarrow> fields" where
  "snapshot_body src d b =
     [(''adapter'', PyStr (df_adapter d)), (''capabilities'', PyList (map PyStr (df_capabilities d))),
      (''catalog_hash'', PyStr (cs_catalog_hash src)), (''contract_version'', PyInt EXECUTOR_CONTRACT_VERSION),
      (''executor_definition_id'', PyStr (df_id d)), (''executor_instance_id'', PyStr (ib_agent_id b)),
      (''provider'', PyStr (df_provider d)), (''runner_profile_id'', PyStr (ib_runner_profile_id b)),
      (''source_id'', PyStr (ib_source_id b)), (''source_version'', PyInt (cs_source_version src))]"

lemma dpop_simps [simp]: "dpop k [] = []" "dpop k ((k', v) # d) = (if k' = k then dpop k d else (k', v) # dpop k d)"
  by (simp_all add: dpop_def)

lemma build_snapshot_Inr:
  "\<exists>snap. build_executor_binding_snapshot H src d b = Inr snap \<and>
     binding_snapshot_canonical_dict snap = Inr (snapshot_body src d b) \<and>
     dget snap ''binding_id'' = PyStr (digest_of H (PyDict (snapshot_body src d b))) \<and>
     (\<forall>k \<in> set SNAPSHOT_KEYS. dget snap k = dget (snapshot_body src d b) k) \<and>
     same_keys (''binding_id'' # SNAPSHOT_KEYS) snap"
  unfolding build_executor_binding_snapshot_def compute_executor_binding_id_def binding_snapshot_canonical_dict_def Let_def
  by (simp add: same_keys_def SNAPSHOT_KEYS_def snapshot_body_def)

lemma py_eq_dict_str: "py_eq (PyDict d) (PyDict e) \<Longrightarrow> (k, PyStr x) \<in> set d \<Longrightarrow> dget e k = PyStr x"
  by (auto simp: list_all_iff)

lemma py_eq_strings: "list_all (\<lambda>(x, y). py_eq x y) (zip (map PyStr xs) (map PyStr xs))"
  by (induction xs) auto

lemma py_eq_snapshot_refl: "py_eq (PyDict (snapshot_body src d b)) (PyDict (snapshot_body src d b))"
  by (simp add: snapshot_body_def py_eq_strings)

lemma find_definition:
  assumes "distinct (map df_id ds)"
  shows "find (\<lambda>d. df_id d = i \<and> df_source_id d = sid) ds = Some d \<longleftrightarrow> d \<in> set ds \<and> df_id d = i \<and> df_source_id d = sid"
proof -
  have "distinct (map (\<lambda>d. (df_id d, df_source_id d)) ds)" using assms by (auto simp: distinct_map inj_on_def)
  from find_key_iff [OF this, of "(i, sid)" d] show ?thesis by simp
qed

lemma get_instance_iff:
  "catalog_inv s \<Longrightarrow> get_executor_instance_binding s a = Some b \<longleftrightarrow> b \<in> set (db_instances s) \<and> ib_agent_id b = a"
  by (simp add: get_executor_instance_binding_def catalog_inv_def find_key_iff)

text \<open>The rows that an enabled binding resolves to.\<close>

definition binding_rows :: "db \<Rightarrow> instance_row \<Rightarrow> definition_row \<Rightarrow> catalog_source_row \<Rightarrow> bool" where
  "binding_rows s b d src \<longleftrightarrow> b \<in> set (db_instances s) \<and> d \<in> set (db_definitions s) \<and>
     df_id d = ib_executor_definition_id b \<and> df_source_id d = ib_source_id b \<and>
     get_executor_catalog_source s (ib_source_id b) = Some src"

lemma binding_rows_exist:
  assumes "catalog_inv s" "b \<in> set (db_instances s)"
  shows "\<exists>d src. binding_rows s b d src"
proof -
  from assms obtain d where "d \<in> set (db_definitions s)" "df_id d = ib_executor_definition_id b" "df_source_id d = ib_source_id b"
    by (auto simp: catalog_inv_def)
  with assms show ?thesis by (fastforce simp: binding_rows_def catalog_inv_def)
qed

lemma resolve_binding_rows:
  assumes "catalog_inv s" "binding_rows s b d src" "ib_enabled b"
  shows "resolve_exact_executor_binding H s (ib_agent_id b) = bindE (build_executor_binding_snapshot H src d b) (\<lambda>x. Inr (Some x))"
proof -
  have "find (\<lambda>d. df_id d = ib_executor_definition_id b \<and> df_source_id d = ib_source_id b) (db_definitions s) = Some d"
    using assms find_definition [of "db_definitions s"] by (simp add: binding_rows_def catalog_inv_def)
  moreover have "get_executor_instance_binding s (ib_agent_id b) = Some b"
    using assms get_instance_iff by (simp add: binding_rows_def)
  moreover have "ib_runner_profile_id b = ib_agent_id b" "get_runner_profile s (ib_agent_id b) \<noteq> None"
    using assms(1,2) by (auto simp: catalog_inv_def binding_rows_def)
  ultimately show ?thesis using assms(2,3) by (auto simp: resolve_exact_executor_binding_def binding_rows_def)
qed

lemma resolve_Some_rows:
  assumes "catalog_inv s" "resolve_exact_executor_binding H s a = Inr (Some snap)"
  shows "\<exists>b d src. binding_rows s b d src \<and> ib_enabled b \<and> ib_agent_id b = a \<and>
    build_executor_binding_snapshot H src d b = Inr snap"
proof -
  from assms(2) obtain b where b: "get_executor_instance_binding s a = Some b" "ib_enabled b"
    by (auto simp: resolve_exact_executor_binding_def split: option.splits if_splits)
  with assms(1) get_instance_iff have ba: "b \<in> set (db_instances s)" "ib_agent_id b = a" by auto
  with binding_rows_exist [OF assms(1)] obtain d src where r: "binding_rows s b d src" by blast
  from resolve_binding_rows [OF assms(1) r b(2), of H] assms(2) ba(2)
  have "bindE (build_executor_binding_snapshot H src d b) (\<lambda>x. Inr (Some x)) = Inr (Some snap)" by simp
  then have "build_executor_binding_snapshot H src d b = Inr snap" by (simp add: bindE_eq_Inr)
  with ba(2) r b(2) show ?thesis by blast
qed

lemma binding_rows_step:
  assumes "catalog_inv s" "catalog_step H s s'" "binding_rows s b d src"
    "has_in_flight_typed_jobs s (ib_source_id b)"
  shows "binding_rows s' b d src"
  using catalog_step_cases [OF assms(2,1)] assms(3,4)
  by (auto simp: binding_rows_def catalog_rows_def)

lemma validate_own_snapshot:
  assumes "hexdigest_shape H" "catalog_inv s" "binding_rows s b d src" "ib_enabled b"
    "build_executor_binding_snapshot H src d b = Inr snap"
    "jb_assigned_agent j = Some (ib_agent_id b)" "jb_runner_profile_id j = Some (ib_agent_id b)"
  shows "validate_stored_executor_binding H s (PyDict snap) j = Inr ()"
proof -
  from build_snapshot_Inr [of H src d b] assms(5) have
    c: "binding_snapshot_canonical_dict snap = Inr (snapshot_body src d b)"
    and i: "dget snap ''binding_id'' = PyStr (digest_of H (PyDict (snapshot_body src d b)))"
    and k: "\<forall>k \<in> set SNAPSHOT_KEYS. dget snap k = dget (snapshot_body src d b) k"
      "same_keys (''binding_id'' # SNAPSHOT_KEYS) snap" by auto
  from k(1) have f: "dget snap ''contract_version'' = PyInt EXECUTOR_CONTRACT_VERSION"
    "dget snap ''executor_instance_id'' = PyStr (ib_agent_id b)" "dget snap ''runner_profile_id'' = PyStr (ib_runner_profile_id b)"
    by (simp_all add: SNAPSHOT_KEYS_def snapshot_body_def)
  have p: "ib_runner_profile_id b = ib_agent_id b" using assms(2,3) by (auto simp: catalog_inv_def binding_rows_def)
  have "validate_binding_snapshot H (PyDict snap) = Inr snap"
    using k(2) i c digest_of_shape [OF assms(1)] by (simp add: validate_binding_snapshot_def f compute_executor_binding_id_def)
  moreover have "current_snapshot_matches H s snap = Inr True"
    using resolve_binding_rows [OF assms(2,3,4), of H] assms(5) c py_eq_snapshot_refl
    by (simp add: current_snapshot_matches_def f del: py_eq.simps)
  ultimately show ?thesis using assms(6,7) p f by (simp add: validate_stored_executor_binding_def)
qed

text \<open>
  A synchronisation that changes something leaves exactly the rows of the catalog for its
  source and the rows of every other source, with all references intact; repeating it is a no-op.
\<close>

theorem catalog_sync_exact:
  assumes "catalog_ok H c" "catalog_inv s" "sync_executor_catalog now c path s = Inr (rep, s')" "cr_changed rep"
  shows "catalog_rows now c path s s' \<and> catalog_inv s' \<and>
    (\<exists>rep'. sync_executor_catalog now' c path' s' = Inr (rep', s') \<and> \<not> cr_changed rep')"
proof -
  from sync_catalog_Inr [OF assms(3)] assms(4) have "apply_catalog now c path s = Inr s'" by blast
  from apply_catalog_rows [OF this assms(2,1)] have r: "catalog_rows now c path s s'" "catalog_inv s'" by blast+
  then have "get_executor_catalog_source s' (ec_source_id c) = Some (source_row_of now path c)" by (simp add: catalog_rows_def)
  then have "\<exists>rep'. sync_executor_catalog now' c path' s' = Inr (rep', s') \<and> \<not> cr_changed rep'"
    by (simp add: sync_executor_catalog_def Let_def source_row_of_def)
  with r show ?thesis by blast
qed

text \<open>
  In every state that synchronisations reach, an agent without an enabled binding is untyped,
  and an agent with one resolves to a snapshot of the current catalog that its jobs pass with.
\<close>

theorem binding_resolves:
  assumes "no_catalog s0" "(catalog_step H)\<^sup>*\<^sup>* s0 s" "hexdigest_shape H"
  shows "case get_executor_instance_binding s a of
      None \<Rightarrow> resolve_exact_executor_binding H s a = Inr None
    | Some b \<Rightarrow> (if ib_enabled b
        then \<exists>d src snap. binding_rows s b d src \<and> resolve_exact_executor_binding H s a = Inr (Some snap) \<and>
          (\<forall>k \<in> set SNAPSHOT_KEYS. dget snap k = dget (snapshot_body src d b) k) \<and>
          validate_stored_executor_binding H s (PyDict snap) (j\<lparr>jb_assigned_agent := Some a, jb_runner_profile_id := Some a\<rparr>) = Inr ()
        else resolve_exact_executor_binding H s a = Inr None)"
proof (cases "get_executor_instance_binding s a")
  case None
  then show ?thesis by (simp add: resolve_exact_executor_binding_def)
next
  case (Some b)
  have inv: "catalog_inv s" by (rule catalog_system.inv_reachable [OF assms(1,2)])
  with Some have b: "b \<in> set (db_instances s)" "ib_agent_id b = a" by (auto simp: get_instance_iff)
  from binding_rows_exist [OF inv b(1)] obtain d src where r: "binding_rows s b d src" by blast
  from build_snapshot_Inr [of H src d b] obtain snap where snap: "build_executor_binding_snapshot H src d b = Inr snap"
    "\<forall>k \<in> set SNAPSHOT_KEYS. dget snap k = dget (snapshot_body src d b) k" by blast
  show ?thesis
  proof (cases "ib_enabled b")
    case True
    from validate_own_snapshot [OF assms(3) inv r True snap(1), of "j\<lparr>jb_assigned_agent := Some a, jb_runner_profile_id := Some a\<rparr>"]
      resolve_binding_rows [OF inv r True, of H] snap r Some True b(2) show ?thesis by auto
  qed (use Some in \<open>simp add: resolve_exact_executor_binding_def\<close>)
qed

text \<open>
  C19: while a typed job is pending or running, no synchronisation of any catalog takes the binding
  that it was created with away: if its snapshot passes now, it passes in every later catalog.
\<close>

theorem typed_job_keeps_binding:
  assumes "catalog_inv s" "j \<in> set (db_jobs s)" "jb_status j = ''pending'' \<or> jb_status j = ''running''"
    "jb_payload_json j = Some (PyDict p)" "validate_stored_executor_binding H s (dget p ''executor_binding'') j = Inr ()"
    "(catalog_step H)\<^sup>*\<^sup>* s s'"
  shows "validate_stored_executor_binding H s' (dget p ''executor_binding'') j = Inr ()"
proof -
  let ?snap = "dget p ''executor_binding''"
  have val: "validate_stored_executor_binding H t ?snap j = Inr () \<longleftrightarrow> (\<exists>e. validate_binding_snapshot H ?snap = Inr e \<and>
      opt_str (jb_assigned_agent j) = dget e ''executor_instance_id'' \<and> opt_str (jb_runner_profile_id j) = dget e ''runner_profile_id'' \<and>
      current_snapshot_matches H t e = Inr True)" for t
    by (auto simp: validate_stored_executor_binding_def bindE_eq_Inr split: if_splits)
  from assms(5) obtain e where e: "validate_binding_snapshot H ?snap = Inr e" "current_snapshot_matches H s e = Inr True"
    unfolding val by blast
  have snap: "?snap = PyDict e" using e(1) by (auto simp: validate_binding_snapshot_def split: option.splits if_splits)
  from e(2) obtain a cur x y where a: "dget e ''executor_instance_id'' = PyStr a" "resolve_exact_executor_binding H s a = Inr (Some cur)"
    "binding_snapshot_canonical_dict cur = Inr x" "binding_snapshot_canonical_dict e = Inr y" "py_eq (PyDict x) (PyDict y)"
    by (auto simp: current_snapshot_matches_def bindE_eq_Inr split: option.splits)
  from resolve_Some_rows [OF assms(1) a(2)] obtain b d src where b: "binding_rows s b d src" "ib_enabled b" "ib_agent_id b = a"
    "build_executor_binding_snapshot H src d b = Inr cur" by blast
  with build_snapshot_Inr [of H src d b] a(3) have x: "x = snapshot_body src d b" by auto
  have "dget y ''source_id'' = PyStr (ib_source_id b)"
    by (rule py_eq_dict_str [OF a(5)]) (simp add: x snapshot_body_def)
  moreover have "dget y ''source_id'' = dget e ''source_id''"
    using a(4) by (auto simp: binding_snapshot_canonical_dict_def SNAPSHOT_KEYS_def split: if_splits)
  ultimately have "carries_source (ib_source_id b) (jb_payload_json j)"
    using assms(4) snap by (simp add: carries_source_def)
  then have flight: "has_in_flight_typed_jobs t (ib_source_id b)" if "j \<in> set (db_jobs t)" for t
    using that assms(3) by (auto simp: has_in_flight_typed_jobs_def list_ex_iff)
  have "catalog_inv s' \<and> j \<in> set (db_jobs s') \<and> binding_rows s' b d src" using assms(6)
  proof (induction rule: rtranclp_induct)
    case (step t u)
    then have t: "catalog_inv t" "j \<in> set (db_jobs t)" "binding_rows t b d src" by blast+
    have "db_jobs u = db_jobs t \<and> catalog_inv u"
      using catalog_step_cases [OF step.hyps(2) t(1)] t(1) by (auto simp: catalog_rows_def)
    with t binding_rows_step [OF t(1) step.hyps(2) t(3) flight [OF t(2)]] show ?case by simp
  qed (use assms b in blast)
  then have "resolve_exact_executor_binding H s' a = Inr (Some cur)"
    using resolve_binding_rows [of s' b d src H] b by simp
  with a have "current_snapshot_matches H s' e = Inr True" by (simp add: current_snapshot_matches_def del: py_eq.simps)
  with e(1) assms(5) show ?thesis unfolding val by auto
qed

text \<open>
  C33: What the parser accepts is a well-formed catalog: safe bounded labels, sorted duplicate-free
  capabilities, unique definitions and agents, every binding on a definition of the catalog and on
  the runner profile of its own agent, and the digest of its canonical form.
\<close>

theorem parsed_catalog_ok:
  assumes "parse_executor_catalog H path data = Inr c"
  shows "catalog_ok H c"
  by (rule parse_catalog_ok [OF assms])

section \<open>Witnesses\<close>

definition sample_file :: "(string \<times> pyval) list" where
  "sample_file =
     [(''registry'', PyDict [(''id'', PyStr ''cat''), (''version'', PyInt 1)]),
      (''executor_definitions'', PyList [PyDict [(''id'', PyStr ''e''), (''provider'', PyStr ''p''), (''adapter'', PyStr ''x''),
         (''capabilities'', PyList [PyStr ''go'', PyStr ''py''])]]),
      (''agents'', PyList [PyDict [(''id'', PyStr ''a''), (''executor_definition_id'', PyStr ''e''), (''runner_profile_id'', PyStr ''a'')]])]"

definition sample_catalog :: "(string \<Rightarrow> string) \<Rightarrow> executor_catalog" where
  "sample_catalog H =
     (let c = \<lparr>ec_source_id = ''cat'', ec_source_version = 1, ec_catalog_hash = [], ec_source_path = Some ''f.toml'',
       ec_definitions = [\<lparr>ed_id = ''e'', ed_provider = ''p'', ed_adapter = ''x'', ed_capabilities = [''go'', ''py'']\<rparr>],
       ec_bindings = [\<lparr>ei_agent_id = ''a'', ei_executor_definition_id = ''e'', ei_runner_profile_id = ''a'', ei_enabled = True\<rparr>]\<rparr>
      in c\<lparr>ec_catalog_hash := compute_executor_catalog_hash H c\<rparr>)"

lemma sample_parsed: "parse_executor_catalog (\<lambda>_. ''h'') ''f.toml'' sample_file = Inr (sample_catalog (\<lambda>_. ''h''))"
  by code_simp

definition base_db :: db where
  "base_db = empty_db\<lparr>
     db_agents := [\<lparr>ag_id = ''a'', ag_name = ''a'', ag_role = None,
       ag_capabilities = PyDict [], ag_online_state = ''online'', ag_current_load = 0, ag_host_id = None,
       ag_client_type = Some ''agentd'', ag_last_seen_at = None,
       ag_created_at = 1, ag_updated_at = 1\<rparr>],
     db_runner_profiles := [\<lparr>rn_id = ''a'', rn_runner_type = ''agentd'', rn_command = [], rn_working_directory_strategy = [],
       rn_supports_stream_attach = False, rn_env = PyDict []\<rparr>]\<rparr>"

definition cat_db :: db where
  "cat_db = base_db\<lparr>db_catalog_sources := [source_row_of 5 None (sample_catalog ctx_H)],
     db_definitions := map (definition_row_of 5 ''cat'') (ec_definitions (sample_catalog ctx_H)),
     db_instances := map (instance_row_of 5 ''cat'') (ec_bindings (sample_catalog ctx_H))\<rparr>"

lemma sample_cat_synced:
  "sync_executor_catalog 5 (sample_catalog ctx_H) None base_db =
     Inr (\<lparr>cr_changed = True, cr_definitions = ([''e''], [], [], []), cr_bindings = ([''a''], [], [], [])\<rparr>, cat_db)"
  by code_simp

lemma sample_cat_ok: "catalog_ok ctx_H (sample_catalog ctx_H)"
  by (simp add: sample_catalog_def Let_def catalog_ok_def compute_executor_catalog_hash_def canonical_executor_catalog_dict_def
      definition_ok_def label_ok_def safe_label_body_def safe_label_char_def is_alpha_def ID_MAX_LABEL_LEN_def
      MAX_CAPABILITIES_def strip_id_iff is_space_def sp_chars_def)

section \<open>The digest of a catalog\<close>

lemma jcanon_definition: "jcanon (definition_dict d) =
    PyDict [(''adapter'', PyStr (ed_adapter d)), (''capabilities'', PyList (map PyStr (ed_capabilities d))),
      (''id'', PyStr (ed_id d)), (''provider'', PyStr (ed_provider d))]"
  by (simp add: definition_dict_def comp_def)

lemma jcanon_binding: "jcanon (binding_dict b) =
    PyDict [(''agent_id'', PyStr (ei_agent_id b)), (''enabled'', PyBool (ei_enabled b)),
      (''executor_definition_id'', PyStr (ei_executor_definition_id b)), (''runner_profile_id'', PyStr (ei_runner_profile_id b))]"
  by (simp add: binding_dict_def)

lemma jcanon_catalog: "jcanon (canonical_executor_catalog_dict c) =
    PyDict [(''contract_version'', PyInt EXECUTOR_CONTRACT_VERSION),
      (''executor_definitions'', PyList (map (jcanon \<circ> definition_dict) (sort_key ed_id (ec_definitions c)))),
      (''executor_instance_bindings'', PyList (map (jcanon \<circ> binding_dict) (sort_key ei_agent_id (ec_bindings c)))),
      (''source_id'', PyStr (ec_source_id c)), (''source_version'', PyInt (ec_source_version c))]"
  by (simp add: canonical_executor_catalog_dict_def)

lemma jnormal_catalog: "jnormal (jcanon (canonical_executor_catalog_dict c))"
  by (simp add: jcanon_catalog jcanon_definition jcanon_binding list_all_iff)

text \<open>
  Two parsed catalogs with the same hash have the same source, version, definitions and
  bindings up to their order in the file, or SHA-256 collides.
\<close>

theorem catalog_hash_identifies:
  assumes "parse_executor_catalog H p1 d1 = Inr c1" "parse_executor_catalog H p2 d2 = Inr c2"
    "ec_catalog_hash c1 = ec_catalog_hash c2"
  shows "(ec_source_id c1 = ec_source_id c2 \<and> ec_source_version c1 = ec_source_version c2 \<and>
      sort_key ed_id (ec_definitions c1) = sort_key ed_id (ec_definitions c2) \<and>
      sort_key ei_agent_id (ec_bindings c1) = sort_key ei_agent_id (ec_bindings c2)) \<or> collision H"
proof -
  from parse_catalog_ok [OF assms(1)] parse_catalog_ok [OF assms(2)] assms(3)
  have "H (json (canonical_executor_catalog_dict c1)) = H (json (canonical_executor_catalog_dict c2))"
    by (simp add: catalog_ok_def compute_executor_catalog_hash_def)
  from digest_eq [OF this jnormal_catalog jnormal_catalog] show ?thesis
  proof
    assume eq: "jcanon (canonical_executor_catalog_dict c1) = jcanon (canonical_executor_catalog_dict c2)"
    have "inj (jcanon \<circ> definition_dict)"
      by (rule injI) (auto simp: jcanon_definition inj_map_eq_map inj_def intro: executor_definition.equality)
    moreover have "inj (jcanon \<circ> binding_dict)"
      by (rule injI) (auto simp: jcanon_binding intro: instance_binding.equality)
    ultimately show ?thesis using eq by (auto simp: jcanon_catalog inj_map_eq_map)
  qed simp
qed

theorem parsed_catalog_ok_witness: "catalog_ok (\<lambda>_. ''h'') (sample_catalog (\<lambda>_. ''h''))"
  by (rule parsed_catalog_ok [OF sample_parsed])

theorem catalog_hash_identifies_witness:
  "ec_source_id (sample_catalog (\<lambda>_. ''h'')) = ''cat'' \<or> collision (\<lambda>_. ''h'')"
  using catalog_hash_identifies [OF sample_parsed sample_parsed refl]
  by (auto simp: sample_catalog_def Let_def)

lemma sample_inv: "catalog_inv base_db" "catalog_inv cat_db"
proof -
  show base: "catalog_inv base_db" by (simp add: catalog_inv_def base_db_def empty_db_def)
  from sync_catalog_Inr [OF sample_cat_synced] have "apply_catalog 5 (sample_catalog ctx_H) None base_db = Inr cat_db" by simp
  from apply_catalog_rows [OF this base sample_cat_ok] show "catalog_inv cat_db" ..
qed

theorem catalog_sync_exact_witness:
  "catalog_rows 5 (sample_catalog ctx_H) None base_db cat_db \<and> length (db_instances cat_db) = 1"
  using catalog_sync_exact [OF sample_cat_ok sample_inv(1) sample_cat_synced]
  by (simp add: cat_db_def sample_catalog_def Let_def)

lemma hexdigest_ctx_H: "hexdigest_shape ctx_H"
  by (simp add: ctx_H_def hexdigest_shape_def hex64_body_def is_lower_hex_def is_digit_def list_all_iff)

theorem binding_resolves_witness:
  "\<exists>snap. resolve_exact_executor_binding ctx_H cat_db ''a'' = Inr (Some snap) \<and>
     dget snap ''executor_definition_id'' = PyStr ''e''"
proof -
  have no: "no_catalog base_db" by (simp add: no_catalog_def base_db_def empty_db_def)
  have run: "(catalog_step ctx_H)\<^sup>*\<^sup>* base_db cat_db"
    by (rule r_into_rtranclp) (rule catalog_step.sync [OF sample_cat_ok sample_cat_synced])
  let ?b = "instance_row_of 5 ''cat'' (ec_bindings (sample_catalog ctx_H) ! 0)"
  have "get_executor_instance_binding cat_db ''a'' = Some ?b" "ib_enabled ?b"
    by (simp_all add: get_executor_instance_binding_def cat_db_def sample_catalog_def Let_def)
  moreover obtain j :: job_row where "jb_id j = ''j''" by (metis job_row.select_convs(1))
  ultimately obtain d src snap where
    r: "binding_rows cat_db ?b d src" "resolve_exact_executor_binding ctx_H cat_db ''a'' = Inr (Some snap)"
      "\<forall>k \<in> set SNAPSHOT_KEYS. dget snap k = dget (snapshot_body src d ?b) k"
    using binding_resolves [OF no run hexdigest_ctx_H, of "''a''" j] by auto
  from r(1) have "df_id d = ''e''" by (auto simp: binding_rows_def sample_catalog_def Let_def)
  with r(3) have "dget snap ''executor_definition_id'' = PyStr ''e''" by (simp add: SNAPSHOT_KEYS_def snapshot_body_def)
  with r(2) show ?thesis by blast
qed

definition other_catalog :: executor_catalog where
  "other_catalog =
     (let c = \<lparr>ec_source_id = ''other'', ec_source_version = 3, ec_catalog_hash = [], ec_source_path = None,
       ec_definitions = [\<lparr>ed_id = ''f'', ed_provider = ''p'', ed_adapter = ''x'', ed_capabilities = []\<rparr>], ec_bindings = []\<rparr>
      in c\<lparr>ec_catalog_hash := compute_executor_catalog_hash ctx_H c\<rparr>)"

theorem typed_job_keeps_binding_witness:
  "\<exists>j p rep s'. jb_status j = ''running'' \<and> jb_payload_json j = Some (PyDict p) \<and>
     sync_executor_catalog 9 other_catalog None (cat_db\<lparr>db_jobs := [j]\<rparr>) = Inr (rep, s') \<and> cr_changed rep \<and>
     validate_stored_executor_binding ctx_H s' (dget p ''executor_binding'') j = Inr ()"
proof -
  let ?b = "instance_row_of 5 ''cat'' (ec_bindings (sample_catalog ctx_H) ! 0)"
  have b: "?b \<in> set (db_instances cat_db)" "ib_enabled ?b" "ib_agent_id ?b = ''a''"
    by (simp_all add: cat_db_def sample_catalog_def Let_def)
  from binding_rows_exist [OF sample_inv(2) b(1)] obtain d src where r: "binding_rows cat_db ?b d src" by blast
  from build_snapshot_Inr [of ctx_H src d ?b] obtain snap where snap: "build_executor_binding_snapshot ctx_H src d ?b = Inr snap" by blast
  let ?p = "[(''executor_binding'', PyDict snap)]"
  obtain j :: job_row where j: "jb_status j = ''running''" "jb_payload_json j = Some (PyDict ?p)"
    "jb_assigned_agent j = Some ''a''" "jb_runner_profile_id j = Some ''a''" by (metis job_row.select_convs)
  let ?s = "cat_db\<lparr>db_jobs := [j]\<rparr>"
  have inv: "catalog_inv ?s" using sample_inv(2)
    by (simp add: catalog_inv_def get_executor_catalog_source_def get_runner_profile_def)
  have rs: "binding_rows ?s ?b d src" using r by (simp add: binding_rows_def get_executor_catalog_source_def)
  have val: "validate_stored_executor_binding ctx_H ?s (dget ?p ''executor_binding'') j = Inr ()"
    using validate_own_snapshot [OF hexdigest_ctx_H inv rs b(2) snap, of j] j b(3) by simp
  have ok: "catalog_ok ctx_H other_catalog"
    by (simp add: other_catalog_def Let_def catalog_ok_def compute_executor_catalog_hash_def canonical_executor_catalog_dict_def
        definition_ok_def label_ok_def safe_label_body_def safe_label_char_def is_alpha_def ID_MAX_LABEL_LEN_def
        MAX_CAPABILITIES_def strip_id_iff is_space_def sp_chars_def)
  have src: "dget snap ''source_id'' = PyStr ''cat''"
    using build_snapshot_Inr [of ctx_H src d ?b] snap by (auto simp: SNAPSHOT_KEYS_def snapshot_body_def)
  have "\<exists>rep s'. sync_executor_catalog 9 other_catalog None ?s = Inr (rep, s') \<and> cr_changed rep"
    by (simp add: sync_executor_catalog_def Let_def get_executor_catalog_source_def cat_db_def source_row_of_def sample_catalog_def
        other_catalog_def has_in_flight_typed_jobs_def carries_source_def j src apply_catalog_def int64_def
        delete_source_rows_def put_catalog_source_def base_db_def empty_db_def definition_row_of_def instance_row_of_def)
  then obtain rep s' where s': "sync_executor_catalog 9 other_catalog None ?s = Inr (rep, s')" "cr_changed rep" by blast
  have "validate_stored_executor_binding ctx_H s' (dget ?p ''executor_binding'') j = Inr ()"
    by (rule typed_job_keeps_binding [OF inv _ _ j(2) val r_into_rtranclp])
      (simp_all add: j catalog_step.sync [OF ok s'(1)])
  with s' j show ?thesis by blast
qed

end
