(* ===== verification/Liveness.thy ===== *)
theory Liveness
  imports Store
begin

text \<open>
  The liveness of a registered agent (\<^verbatim>\<open>agent_liveness.py\<close>), derived from the time it was last
  seen. A stored time is one that \<open>utc_now\<close> wrote, so it parses; \<open>now\<close> is the current reading.
\<close>

definition AGENT_ACTIVITY_TOUCH_INTERVAL_SECONDS :: nat where "AGENT_ACTIVITY_TOUCH_INTERVAL_SECONDS = 30"
definition AGENT_LIVENESS_STALE_AFTER_SECONDS :: nat where "AGENT_LIVENESS_STALE_AFTER_SECONDS = 90"

definition last_seen_age_seconds :: "timestamp option \<Rightarrow> timestamp \<Rightarrow> nat option" where
  "last_seen_age_seconds seen now =
     (case seen of None \<Rightarrow> None | Some t \<Rightarrow> if t > now then None else Some (now - t))"

definition is_agent_liveness_fresh :: "timestamp option \<Rightarrow> timestamp \<Rightarrow> bool" where
  "is_agent_liveness_fresh seen now =
     (case last_seen_age_seconds seen now of None \<Rightarrow> False | Some age \<Rightarrow> age \<le> AGENT_LIVENESS_STALE_AFTER_SECONDS)"

definition touch_agent_activity :: "timestamp \<Rightarrow> string \<Rightarrow> db \<Rightarrow> bool \<times> db" where
  "touch_agent_activity now agent_id s =
     (case get_agent s agent_id of
        None \<Rightarrow> (False, s)
      | Some a \<Rightarrow>
          if ag_online_state a \<noteq> ''online'' then (False, s)
          else if (case last_seen_age_seconds (ag_last_seen_at a) now of None \<Rightarrow> False
                   | Some age \<Rightarrow> age < AGENT_ACTIVITY_TOUCH_INTERVAL_SECONDS) then (False, s)
          else
            let here = (\<lambda>x. ag_id x = agent_id \<and> ag_online_state x = ''online'')
            in (rowcount here (db_agents s) = 1,
                s\<lparr>db_agents := update_where here (\<lambda>x. x\<lparr>ag_last_seen_at := Some now, ag_updated_at := now\<rparr>) (db_agents s)\<rparr>))"

definition liveness_state :: "agent_row \<Rightarrow> timestamp \<Rightarrow> string" where
  "liveness_state a now =
     (if ag_online_state a \<noteq> ''online'' then ''offline''
      else case last_seen_age_seconds (ag_last_seen_at a) now of
        None \<Rightarrow> ''unknown''
      | Some age \<Rightarrow> if age > AGENT_LIVENESS_STALE_AFTER_SECONDS then ''stale'' else ''online'')"

text \<open>A touch changes the time of one agent that is online, and nothing else.\<close>

lemma touch_frame:
  "\<exists>as. snd (touch_agent_activity now agent_id s) = s\<lparr>db_agents := as\<rparr> \<and>
     map ag_id as = map ag_id (db_agents s) \<and> map ag_online_state as = map ag_online_state (db_agents s) \<and>
     map ag_host_id as = map ag_host_id (db_agents s) \<and> map ag_client_type as = map ag_client_type (db_agents s)"
proof (cases "snd (touch_agent_activity now agent_id s) = s")
  case True
  then show ?thesis by (intro exI [of _ "db_agents s"]) simp
next
  case False
  then show ?thesis
    by (auto simp: touch_agent_activity_def Let_def map_update_where split: option.splits if_splits)
qed

lemma fresh_iff: "is_agent_liveness_fresh (Some t) now \<longleftrightarrow> t \<le> now \<and> now \<le> t + AGENT_LIVENESS_STALE_AFTER_SECONDS"
  by (auto simp: is_agent_liveness_fresh_def last_seen_age_seconds_def)

end
