(* ===== verification/Routing.thy ===== *)
theory Routing
  imports Identity Registry Liveness "HOL-Library.Product_Lexorder"
begin

text \<open>
  Executor routing (\<^verbatim>\<open>executor_routing.py\<close>): the digest-bound routing request, the candidates that
  pass every hard filter, the decision among them, the strict validation of a stored decision, and
  the evidence for a claim, which cross-links request, decision, binding, context and job.
  \<open>H\<close> is \<open>hashlib.sha256(...).hexdigest()\<close>; \<open>now\<close> is the time of the liveness test and \<open>tnow\<close> that of
  the registry.
\<close>

section \<open>Validators\<close>

definition ROUTING_CONTRACT_VERSION :: int where "ROUTING_CONTRACT_VERSION = 1"
definition ROUTING_POLICY_VERSION :: int where "ROUTING_POLICY_VERSION = 1"
definition MAX_CANDIDATES :: nat where "MAX_CANDIDATES = 256"
definition MAX_ROUTING_REASON_LEN :: nat where "MAX_ROUTING_REASON_LEN = 512"
definition MAX_CAPABILITY_LEN :: nat where "MAX_CAPABILITY_LEN = 64"

definition routing_int :: "pyval \<Rightarrow> int result" where
  "routing_int v = (case as_int v of None \<Rightarrow> raise RoutingErr ''must be an integer'' | Some i \<Rightarrow> Inr i)"

definition routing_label :: "nat \<Rightarrow> pyval \<Rightarrow> string result" where
  "routing_label max_len v =
     (case as_str v of
        None \<Rightarrow> raise RoutingErr ''must be a string''
      | Some s \<Rightarrow>
          if s = [] then raise RoutingErr ''is required''
          else if length s > max_len then raise RoutingErr ''too long''
          else if \<not> re_match safe_label_body s then raise RoutingErr ''contains unsafe characters''
          else Inr s)"

definition routing_optional_label :: "nat \<Rightarrow> pyval \<Rightarrow> string option result" where
  "routing_optional_label max_len v =
     (if v = PyNone then Inr None else bindE (routing_label max_len v) (\<lambda>s. Inr (Some s)))"

definition normalize_capabilities :: "pyval \<Rightarrow> string list result" where
  "normalize_capabilities v =
     (case as_list v of
        None \<Rightarrow> raise RoutingErr ''must be a list''
      | Some items \<Rightarrow>
          if items = [] then raise RoutingErr ''must contain at least one capability''
          else bindE (mapE (routing_label MAX_CAPABILITY_LEN) items) (\<lambda>caps.
            if length (remdups caps) > MAX_CAPABILITIES then raise RoutingErr ''exceeds maximum cardinality''
            else Inr (sort (remdups caps))))"

definition capability_item :: "pyval \<Rightarrow> string result" where
  "capability_item v =
     (case as_str v of
        None \<Rightarrow> raise RoutingErr ''item must be a string''
      | Some s \<Rightarrow> if \<not> re_match safe_label_body s then raise RoutingErr ''item contains unsafe characters'' else Inr s)"

definition validate_canonical_capabilities :: "pyval \<Rightarrow> string list result" where
  "validate_canonical_capabilities v =
     (case as_list v of
        None \<Rightarrow> raise RoutingErr ''must be a list''
      | Some items \<Rightarrow>
          if items = [] then raise RoutingErr ''must contain at least one capability''
          else bindE (mapE capability_item items) (\<lambda>caps.
            if list_ex (\<lambda>c. length c > MAX_CAPABILITY_LEN) caps then raise RoutingErr ''exceeds maximum item length''
            else if \<not> distinct caps then raise RoutingErr ''contains duplicate values''
            else if length caps > MAX_CAPABILITIES then raise RoutingErr ''exceeds maximum cardinality''
            else if caps \<noteq> sort caps then raise RoutingErr ''is not in canonical sorted order''
            else Inr caps))"

text \<open>\<open>unicodedata.category(c).startswith("C")\<close> below 256: the controls and the soft hyphen.\<close>

definition category_c :: "char \<Rightarrow> bool" where
  "category_c c = (let n = (of_char c :: nat) in n < 32 \<or> 127 \<le> n \<and> n < 160 \<or> n = 173)"

definition validate_reason_text :: "string \<Rightarrow> string result" where
  "validate_reason_text s =
     (if length s > MAX_ROUTING_REASON_LEN then raise RoutingErr ''exceeds 512 characters''
      else if list_ex category_c s then raise RoutingErr ''contains control characters''
      else Inr s)"

definition normalize_override_reason :: "pyval \<Rightarrow> string result" where
  "normalize_override_reason v =
     (case as_str v of
        None \<Rightarrow> raise RoutingErr ''must be a string''
      | Some s \<Rightarrow> if strip s = [] then raise RoutingErr ''is required when override is supplied''
                  else validate_reason_text (strip s))"

definition validate_canonical_reason :: "pyval \<Rightarrow> string result" where
  "validate_canonical_reason v =
     (case as_str v of
        None \<Rightarrow> raise RoutingErr ''must be a string''
      | Some s \<Rightarrow> if s \<noteq> strip s then raise RoutingErr ''must be canonical stripped text''
                  else if s = [] then raise RoutingErr ''is required when override is supplied''
                  else validate_reason_text s)"

definition validate_override_pair ::
  "(pyval \<Rightarrow> string result) \<Rightarrow> pyval \<Rightarrow> pyval \<Rightarrow> (string option \<times> string option) result" where
  "validate_override_pair reason_validator agent_id reason =
     (if agent_id = PyNone \<and> reason = PyNone then Inr (None, None)
      else if agent_id = PyNone \<or> reason = PyNone
      then raise RoutingErr ''operator_override_agent_id and operator_override_reason must both be supplied or both absent''
      else bindE (routing_label 256 agent_id) (\<lambda>a. bindE (reason_validator reason) (\<lambda>r. Inr (Some a, Some r))))"

section \<open>Requests\<close>

record routing_request =
  rq_required_capabilities :: "string list"
  rq_executor_definition_id :: "string option"
  rq_preferred_host_id :: "string option"
  rq_override_agent_id :: "string option"
  rq_override_reason :: "string option"
  rq_routing_request_id :: string

definition request_body :: "routing_request \<Rightarrow> fields" where
  "request_body r =
     [(''contract_version'', PyInt ROUTING_CONTRACT_VERSION), (''mode'', PyStr ''deterministic''),
      (''required_capabilities'', PyList (map PyStr (rq_required_capabilities r))),
      (''executor_definition_id'', opt_str (rq_executor_definition_id r)),
      (''preferred_host_id'', opt_str (rq_preferred_host_id r)),
      (''operator_override_agent_id'', opt_str (rq_override_agent_id r)),
      (''operator_override_reason'', opt_str (rq_override_reason r)),
      (''policy_version'', PyInt ROUTING_POLICY_VERSION)]"

definition compute_routing_id :: "(string \<Rightarrow> string) \<Rightarrow> fields \<Rightarrow> string" where
  "compute_routing_id H body = digest_of H (PyDict body)"

definition build_routing_request ::
  "(string \<Rightarrow> string) \<Rightarrow> pyval \<Rightarrow> pyval \<Rightarrow> pyval \<Rightarrow> pyval \<Rightarrow> pyval \<Rightarrow> routing_request result" where
  "build_routing_request H required definition_id host_id override_id override_reason =
     bindE (normalize_capabilities required) (\<lambda>caps.
     bindE (routing_optional_label 256 definition_id) (\<lambda>d.
     bindE (routing_optional_label 64 host_id) (\<lambda>h.
     bindE (validate_override_pair normalize_override_reason override_id override_reason) (\<lambda>(a, reason).
       let r = \<lparr>rq_required_capabilities = caps, rq_executor_definition_id = d, rq_preferred_host_id = h,
                rq_override_agent_id = a, rq_override_reason = reason, rq_routing_request_id = []\<rparr>
       in Inr (r\<lparr>rq_routing_request_id := compute_routing_id H (request_body r)\<rparr>)))))"

definition REQUEST_KEYS :: "string list" where
  "REQUEST_KEYS = [''contract_version'', ''mode'', ''required_capabilities'', ''executor_definition_id'',
     ''preferred_host_id'', ''operator_override_agent_id'', ''operator_override_reason'', ''policy_version'',
     ''routing_request_id'']"

definition routing_version :: "pyval \<Rightarrow> int \<Rightarrow> unit result" where
  "routing_version v n = bindE (routing_int v) (\<lambda>i. if i \<noteq> n then raise RoutingErr ''version must be 1'' else Inr ())"

definition routing_id :: "pyval \<Rightarrow> string result" where
  "routing_id v =
     (case as_str v of
        None \<Rightarrow> raise RoutingErr ''must be sha256:<64-lowercase-hex>''
      | Some s \<Rightarrow> if \<not> re_match digest_body s then raise RoutingErr ''must be sha256:<64-lowercase-hex>'' else Inr s)"

definition parse_routing_request :: "(string \<Rightarrow> string) \<Rightarrow> pyval \<Rightarrow> routing_request result" where
  "parse_routing_request H v =
     (case as_dict v of
        None \<Rightarrow> raise RoutingErr ''routing_request must be an object''
      | Some data \<Rightarrow>
          if \<not> same_keys REQUEST_KEYS data then raise RoutingErr ''routing_request has incorrect keys''
          else
            bindE (routing_version (dget data ''contract_version'') ROUTING_CONTRACT_VERSION) (\<lambda>_.
            bindE (routing_version (dget data ''policy_version'') ROUTING_POLICY_VERSION) (\<lambda>_.
            if dget data ''mode'' \<noteq> PyStr ''deterministic'' then raise RoutingErr ''routing_request mode unsupported''
            else
              bindE (validate_canonical_capabilities (dget data ''required_capabilities'')) (\<lambda>caps.
              bindE (routing_optional_label 256 (dget data ''executor_definition_id'')) (\<lambda>d.
              bindE (routing_optional_label 64 (dget data ''preferred_host_id'')) (\<lambda>h.
              bindE (validate_override_pair validate_canonical_reason (dget data ''operator_override_agent_id'')
                  (dget data ''operator_override_reason'')) (\<lambda>(a, reason).
              bindE (routing_id (dget data ''routing_request_id'')) (\<lambda>i.
              let r = \<lparr>rq_required_capabilities = caps, rq_executor_definition_id = d, rq_preferred_host_id = h,
                       rq_override_agent_id = a, rq_override_reason = reason, rq_routing_request_id = i\<rparr>
              in if i \<noteq> compute_routing_id H (request_body r) then raise RoutingErr ''routing_request_id digest mismatch''
                 else Inr r))))))))"

definition routing_request_to_dict :: "routing_request \<Rightarrow> pyval" where
  "routing_request_to_dict r = PyDict (request_body r @ [(''routing_request_id'', PyStr (rq_routing_request_id r))])"

section \<open>Candidates\<close>

record candidate =
  cd_agent_id :: string
  cd_host_id :: string
  cd_runner_profile_id :: string
  cd_executor_definition_id :: string
  cd_binding_id :: string
  cd_source_id :: string
  cd_source_version :: int
  cd_catalog_hash :: string
  cd_capabilities :: "string list"
  cd_online_state :: string
  cd_last_seen_at :: "timestamp option"
  cd_routing_load :: nat
  cd_binding_snapshot :: fields
  cd_host_rank :: nat
  cd_preferred_host :: bool

definition candidate_key :: "candidate \<Rightarrow> nat \<times> nat \<times> string \<times> string" where
  "candidate_key c = (cd_host_rank c, cd_routing_load c, cd_executor_definition_id c, cd_agent_id c)"

definition to_decision_dict :: "candidate \<Rightarrow> fields" where
  "to_decision_dict c =
     [(''agent_id'', PyStr (cd_agent_id c)), (''host_id'', PyStr (cd_host_id c)),
      (''runner_profile_id'', PyStr (cd_runner_profile_id c)),
      (''executor_definition_id'', PyStr (cd_executor_definition_id c)),
      (''binding_id'', PyStr (cd_binding_id c)), (''source_id'', PyStr (cd_source_id c)),
      (''source_version'', PyInt (cd_source_version c)), (''catalog_hash'', PyStr (cd_catalog_hash c)),
      (''capabilities'', PyList (map PyStr (cd_capabilities c))), (''online_state'', PyStr (cd_online_state c)),
      (''last_seen_at'', opt_time (cd_last_seen_at c)), (''preferred_host'', PyBool (cd_preferred_host c)),
      (''routing_load'', PyInt (int (cd_routing_load c)))]"

definition compute_routing_load :: "db \<Rightarrow> string \<Rightarrow> nat" where
  "compute_routing_load s agent_id =
     length (filter (\<lambda>j. jb_assigned_agent j = Some agent_id \<and>
       (jb_status j = ''pending'' \<or> jb_status j = ''running'' \<or> jb_status j = ''timed_out'' \<and> jb_recoverable j)) (db_jobs s))"

definition host_preferred :: "routing_request \<Rightarrow> string \<Rightarrow> bool" where
  "host_preferred r host = (rq_preferred_host_id r = Some host)"

definition host_rank_of :: "routing_request \<Rightarrow> string \<Rightarrow> nat" where
  "host_rank_of r host = (if rq_preferred_host_id r = None \<or> rq_preferred_host_id r = Some host then 0 else 1)"

definition str_of :: "pyval \<Rightarrow> string" where
  "str_of v = (case as_str v of None \<Rightarrow> [] | Some s \<Rightarrow> s)"

definition int_of :: "pyval \<Rightarrow> int" where
  "int_of v = (case as_int v of None \<Rightarrow> 0 | Some i \<Rightarrow> i)"

definition strs_of :: "pyval \<Rightarrow> string list" where
  "strs_of v = (case as_list v of None \<Rightarrow> [] | Some xs \<Rightarrow> map str_of xs)"

text \<open>
  \<open>_resolve_candidate\<close>. A host profile that fails its own validation raises; a binding that does
  not resolve is no candidate. The snapshot was built by \<open>resolve_exact_executor_binding\<close>, so its
  fields have the types that are read here.
\<close>

definition resolve_candidate ::
  "(string \<Rightarrow> string) \<Rightarrow> timestamp \<Rightarrow> db \<Rightarrow> string \<Rightarrow> string list \<Rightarrow> routing_request \<Rightarrow> instance_row \<Rightarrow> candidate option result" where
  "resolve_candidate H now s wid effective r b =
     (let agent_id = ib_agent_id b in
      if \<not> List.member effective agent_id then Inr None
      else case get_agent s agent_id of
        None \<Rightarrow> Inr None
      | Some a \<Rightarrow>
          if ag_client_type a \<noteq> Some ''agentd'' \<or> ag_online_state a \<noteq> ''online'' then Inr None
          else if \<not> is_agent_liveness_fresh (ag_last_seen_at a) now then Inr None
          else case ag_host_id a of
            None \<Rightarrow> Inr None
          | Some host \<Rightarrow>
              if host = [] then Inr None
              else bindE (get_workspace_host_profile s wid host) (\<lambda>profile.
                if profile = None then Inr None
                else case get_runner_profile s (ib_runner_profile_id b) of
                  None \<Rightarrow> Inr None
                | Some runner \<Rightarrow>
                    if rn_runner_type runner \<noteq> ''agentd'' then Inr None
                    else case resolve_exact_executor_binding H s agent_id of
                      Inl e \<Rightarrow> if exn_cls e = IdentityErr then Inr None else Inl e
                    | Inr None \<Rightarrow> Inr None
                    | Inr (Some snap) \<Rightarrow>
                        let def_id = str_of (dget snap ''executor_definition_id''); caps = strs_of (dget snap ''capabilities'') in
                        if rq_executor_definition_id r \<noteq> None \<and> rq_executor_definition_id r \<noteq> Some def_id then Inr None
                        else if \<not> list_all (List.member caps) (rq_required_capabilities r) then Inr None
                        else Inr (Some \<lparr>cd_agent_id = agent_id, cd_host_id = host,
                          cd_runner_profile_id = ib_runner_profile_id b, cd_executor_definition_id = def_id,
                          cd_binding_id = str_of (dget snap ''binding_id''), cd_source_id = str_of (dget snap ''source_id''),
                          cd_source_version = int_of (dget snap ''source_version''),
                          cd_catalog_hash = str_of (dget snap ''catalog_hash''), cd_capabilities = caps,
                          cd_online_state = ag_online_state a, cd_last_seen_at = ag_last_seen_at a,
                          cd_routing_load = compute_routing_load s agent_id, cd_binding_snapshot = snap,
                          cd_host_rank = host_rank_of r host, cd_preferred_host = host_preferred r host\<rparr>)))"

fun candidates_loop ::
  "(string \<Rightarrow> string) \<Rightarrow> timestamp \<Rightarrow> db \<Rightarrow> string \<Rightarrow> string list \<Rightarrow> routing_request \<Rightarrow> instance_row list \<Rightarrow> candidate list result" where
  "candidates_loop H now s wid effective r [] = Inr []"
| "candidates_loop H now s wid effective r (b # bs) =
     bindE (resolve_candidate H now s wid effective r b) (\<lambda>c.
     bindE (candidates_loop H now s wid effective r bs) (\<lambda>cs.
       Inr (case c of None \<Rightarrow> cs | Some x \<Rightarrow> x # cs)))"

definition resolve_routing_candidates ::
  "(string \<Rightarrow> string) \<Rightarrow> timestamp \<Rightarrow> timestamp \<Rightarrow> db \<Rightarrow> string \<Rightarrow> routing_request \<Rightarrow> candidate list result" where
  "resolve_routing_candidates H tnow now s wid r =
     (if get_workspace s wid = None then raise RoutingErr ''unknown workspace''
      else bindE (resolve_effective_agents tnow s wid) (\<lambda>effective.
        bindE (candidates_loop H now s wid (map fst effective) r (filter ib_enabled (db_instances s))) (\<lambda>cs.
          Inr (sort_key candidate_key cs))))"

section \<open>Decisions\<close>

record routing_decision =
  dc_routing_request_id :: string
  dc_routing_decision_id :: string
  dc_selection_kind :: string
  dc_selected :: candidate
  dc_eligible_candidates :: "candidate list"

definition decision_body :: "routing_decision \<Rightarrow> fields" where
  "decision_body d =
     [(''contract_version'', PyInt ROUTING_CONTRACT_VERSION), (''policy_version'', PyInt ROUTING_POLICY_VERSION),
      (''routing_request_id'', PyStr (dc_routing_request_id d)), (''selection_kind'', PyStr (dc_selection_kind d)),
      (''selected_agent_id'', PyStr (cd_agent_id (dc_selected d))),
      (''selected_host_id'', PyStr (cd_host_id (dc_selected d))),
      (''selected_runner_profile_id'', PyStr (cd_runner_profile_id (dc_selected d))),
      (''selected_executor_definition_id'', PyStr (cd_executor_definition_id (dc_selected d))),
      (''selected_binding_id'', PyStr (cd_binding_id (dc_selected d))),
      (''eligible_candidates'', PyList (map (PyDict \<circ> to_decision_dict) (dc_eligible_candidates d)))]"

definition select_routing_decision ::
  "(string \<Rightarrow> string) \<Rightarrow> routing_request \<Rightarrow> candidate list \<Rightarrow> routing_decision result" where
  "select_routing_decision H r cs =
     (if length cs > MAX_CANDIDATES then raise RoutingErr ''executor_route_candidate_cap_exceeded''
      else case cs of
        [] \<Rightarrow> raise RoutingErr ''executor_route_no_candidate''
      | first # rest \<Rightarrow>
          bindE (case rq_override_agent_id r of
                   None \<Rightarrow> Inr (first, ''automatic'')
                 | Some a \<Rightarrow> (case find (\<lambda>c. cd_agent_id c = a) cs of
                     None \<Rightarrow> raise RoutingErr ''executor_route_override_ineligible''
                   | Some c \<Rightarrow> Inr (c, ''operator_override''))) (\<lambda>(selected, kind).
            let d = \<lparr>dc_routing_request_id = rq_routing_request_id r, dc_routing_decision_id = [],
                     dc_selection_kind = kind, dc_selected = selected, dc_eligible_candidates = cs\<rparr>
            in Inr (d\<lparr>dc_routing_decision_id := compute_routing_id H (decision_body d)\<rparr>)))"

definition routing_decision_to_dict :: "routing_decision \<Rightarrow> pyval" where
  "routing_decision_to_dict d = PyDict (decision_body d @ [(''routing_decision_id'', PyStr (dc_routing_decision_id d))])"

section \<open>Stored decisions\<close>

definition CANDIDATE_KEYS :: "string list" where
  "CANDIDATE_KEYS = [''agent_id'', ''host_id'', ''runner_profile_id'', ''executor_definition_id'', ''binding_id'',
     ''source_id'', ''source_version'', ''catalog_hash'', ''capabilities'', ''online_state'', ''last_seen_at'',
     ''preferred_host'', ''routing_load'']"

definition routing_require :: "bool \<Rightarrow> string \<Rightarrow> unit result" where
  "routing_require b msg = (if b then Inr () else raise RoutingErr msg)"

definition validate_candidate :: "routing_request \<Rightarrow> pyval \<Rightarrow> fields result" where
  "validate_candidate r v =
     (case as_dict v of
        None \<Rightarrow> raise RoutingErr ''eligible_candidates item must be an object''
      | Some d \<Rightarrow>
          if \<not> same_keys CANDIDATE_KEYS d then raise RoutingErr ''candidate has incorrect keys''
          else
            bindE (mapE (\<lambda>k. routing_label 64 (dget d k)) [''agent_id'', ''host_id'', ''runner_profile_id'', ''executor_definition_id'']) (\<lambda>_.
            bindE (routing_id (dget d ''binding_id'')) (\<lambda>_.
            bindE (mapE (\<lambda>k. routing_label 64 (dget d k)) [''source_id'', ''online_state'']) (\<lambda>_.
            bindE (routing_require (dget d ''online_state'' = PyStr ''online'') ''candidate online_state must be online'') (\<lambda>_.
            bindE (routing_int (dget d ''source_version'')) (\<lambda>version.
            bindE (routing_require (1 \<le> version) ''candidate source_version must be positive'') (\<lambda>_.
            bindE (routing_require (case as_str (dget d ''catalog_hash'') of None \<Rightarrow> False | Some h \<Rightarrow> re_match hex64_body h)
                ''candidate catalog_hash must be a 64-character lowercase hex string'') (\<lambda>_.
            bindE (validate_canonical_capabilities (dget d ''capabilities'')) (\<lambda>caps.
            bindE (routing_require (list_all (List.member caps) (rq_required_capabilities r))
                ''candidate capabilities do not satisfy required'') (\<lambda>_.
            bindE (routing_require (rq_executor_definition_id r = None \<or>
                dget d ''executor_definition_id'' = opt_str (rq_executor_definition_id r))
                ''candidate executor_definition_id does not match routing_request filter'') (\<lambda>_.
            bindE (routing_int (dget d ''routing_load'')) (\<lambda>load.
            bindE (routing_require (0 \<le> load) ''candidate routing_load must be non-negative'') (\<lambda>_.
            bindE (routing_require (dget d ''preferred_host'' = PyBool (rq_preferred_host_id r \<noteq> None \<and>
                dget d ''host_id'' = opt_str (rq_preferred_host_id r))) ''candidate preferred_host does not match'') (\<lambda>_.
            bindE (routing_require (dget d ''last_seen_at'' = PyNone \<or>
                (case as_str (dget d ''last_seen_at'') of None \<Rightarrow> False | Some x \<Rightarrow> x \<noteq> []))
                ''candidate last_seen_at must be a string or null'') (\<lambda>_.
              Inr d)))))))))))))))"

fun validate_candidates :: "routing_request \<Rightarrow> pyval list \<Rightarrow> pyval list \<Rightarrow> fields list result" where
  "validate_candidates r seen [] = Inr []"
| "validate_candidates r seen (v # vs) =
     bindE (validate_candidate r v) (\<lambda>d.
       if List.member seen (dget d ''agent_id'') then raise RoutingErr ''eligible_candidates contains duplicate agent_id''
       else bindE (validate_candidates r (dget d ''agent_id'' # seen) vs) (\<lambda>ds. Inr (d # ds)))"

definition candidate_sort_tuple :: "routing_request \<Rightarrow> fields \<Rightarrow> nat \<times> int \<times> string \<times> string" where
  "candidate_sort_tuple r d =
     (if rq_preferred_host_id r = None \<or> dget d ''host_id'' = opt_str (rq_preferred_host_id r) then 0 else 1,
      int_of (dget d ''routing_load''), str_of (dget d ''executor_definition_id''), str_of (dget d ''agent_id''))"

fun policy_ordered :: "routing_request \<Rightarrow> fields list \<Rightarrow> bool" where
  "policy_ordered r (c # c' # cs) =
     (\<not> candidate_sort_tuple r c > candidate_sort_tuple r c' \<and> policy_ordered r (c' # cs))"
| "policy_ordered r cs = True"

definition DECISION_KEYS :: "string list" where
  "DECISION_KEYS = [''contract_version'', ''policy_version'', ''routing_request_id'', ''selection_kind'',
     ''selected_agent_id'', ''selected_host_id'', ''selected_runner_profile_id'', ''selected_executor_definition_id'',
     ''selected_binding_id'', ''eligible_candidates'', ''routing_decision_id'']"

definition selected_pairs :: "(string \<times> string) list" where
  "selected_pairs = [(''agent_id'', ''selected_agent_id''), (''host_id'', ''selected_host_id''),
     (''runner_profile_id'', ''selected_runner_profile_id''),
     (''executor_definition_id'', ''selected_executor_definition_id''), (''binding_id'', ''selected_binding_id'')]"

definition is_selected :: "fields \<Rightarrow> fields \<Rightarrow> bool" where
  "is_selected data c = list_all (\<lambda>(k, k'). dget c k = dget data k') selected_pairs"

text \<open>\<open>x not in {...}\<close> hashes \<open>x\<close>, so a list or a dict raises.\<close>

definition selection_kind_of :: "pyval \<Rightarrow> string result" where
  "selection_kind_of v =
     (case v of
        PyList _ \<Rightarrow> raise TypeErr ''unhashable type''
      | PyDict _ \<Rightarrow> raise TypeErr ''unhashable type''
      | PyStr k \<Rightarrow> if k = ''automatic'' \<or> k = ''operator_override'' then Inr k
                   else raise RoutingErr ''routing_decision selection_kind invalid''
      | _ \<Rightarrow> raise RoutingErr ''routing_decision selection_kind invalid'')"

definition validate_routing_decision :: "(string \<Rightarrow> string) \<Rightarrow> routing_request \<Rightarrow> pyval \<Rightarrow> fields result" where
  "validate_routing_decision H r v =
     (case as_dict v of
        None \<Rightarrow> raise RoutingErr ''routing_decision must be an object''
      | Some data \<Rightarrow>
          if \<not> same_keys DECISION_KEYS data then raise RoutingErr ''routing_decision has incorrect keys''
          else
            bindE (routing_version (dget data ''contract_version'') ROUTING_CONTRACT_VERSION) (\<lambda>_.
            bindE (routing_version (dget data ''policy_version'') ROUTING_POLICY_VERSION) (\<lambda>_.
            bindE (routing_require (dget data ''routing_request_id'' = PyStr (rq_routing_request_id r))
                ''routing_decision routing_request_id mismatch'') (\<lambda>_.
            bindE (selection_kind_of (dget data ''selection_kind'')) (\<lambda>kind.
            bindE (case rq_override_agent_id r of
                     None \<Rightarrow> routing_require (kind = ''automatic'') ''selection_kind must be automatic for non-override request''
                   | Some a \<Rightarrow>
                       bindE (routing_require (kind = ''operator_override'') ''selection_kind must be operator_override for override request'')
                         (\<lambda>_. routing_require (dget data ''selected_agent_id'' = PyStr a) ''selected_agent_id does not match operator override'')) (\<lambda>_.
            case as_list (dget data ''eligible_candidates'') of
              None \<Rightarrow> raise RoutingErr ''eligible_candidates must be a list''
            | Some items \<Rightarrow>
                bindE (routing_require (length items \<le> MAX_CANDIDATES) ''eligible_candidates exceed cap'') (\<lambda>_.
                bindE (routing_require (items \<noteq> []) ''eligible_candidates must not be empty'') (\<lambda>_.
                bindE (validate_candidates r [] items) (\<lambda>parsed.
                bindE (routing_require (policy_ordered r parsed) ''eligible_candidates are not in policy order'') (\<lambda>_.
                bindE (routing_require (list_ex (is_selected data) parsed) ''selected candidate not in eligible_candidates'') (\<lambda>_.
                bindE (routing_require (kind \<noteq> ''automatic'' \<or> dget data ''selected_agent_id'' = dget (hd parsed) ''agent_id'')
                    ''automatic selection does not match first candidate'') (\<lambda>_.
                bindE (routing_id (dget data ''routing_decision_id'')) (\<lambda>i.
                  if i \<noteq> compute_routing_id H (dpop ''routing_decision_id'' data)
                  then raise RoutingErr ''routing_decision_id digest mismatch'' else Inr data)))))))))))))"

section \<open>Claim evidence\<close>

definition links_to_binding :: "fields \<Rightarrow> fields \<Rightarrow> fields \<Rightarrow> unit result" where
  "links_to_binding decision chosen b =
     (let need = (\<lambda>x y. routing_require (py_eq x y) ''routing decision does not match stored binding'') in
      bindE (need (dget b ''binding_id'') (dget decision ''selected_binding_id'')) (\<lambda>_.
      bindE (need (dget b ''executor_instance_id'') (dget decision ''selected_agent_id'')) (\<lambda>_.
      bindE (need (dget b ''runner_profile_id'') (dget decision ''selected_runner_profile_id'')) (\<lambda>_.
      bindE (need (dget b ''executor_definition_id'') (dget decision ''selected_executor_definition_id'')) (\<lambda>_.
      bindE (need (dget chosen ''source_id'') (dget b ''source_id'')) (\<lambda>_.
      bindE (need (dget chosen ''source_version'') (dget b ''source_version'')) (\<lambda>_.
      bindE (need (dget chosen ''catalog_hash'') (dget b ''catalog_hash'')) (\<lambda>_.
        need (dget chosen ''capabilities'') (dget b ''capabilities'')))))))))"

definition links_to_context :: "fields \<Rightarrow> job_row \<Rightarrow> fields \<Rightarrow> unit result" where
  "links_to_context decision j c =
     (let need = (\<lambda>x y. routing_require (x = y) ''routing execution_context does not match'') in
      bindE (need (opt_str (jb_workspace_id j)) (dget c ''workspace_id'')) (\<lambda>_.
      bindE (need (opt_str (jb_task_id j)) (dget c ''task_id'')) (\<lambda>_.
      bindE (need (PyStr (jb_id j)) (dget c ''job_id'')) (\<lambda>_.
      bindE (need (dget c ''assigned_agent'') (dget decision ''selected_agent_id'')) (\<lambda>_.
        need (dget c ''host_id'') (dget decision ''selected_host_id''))))))"

definition decision_candidates :: "fields \<Rightarrow> fields list" where
  "decision_candidates decision =
     (case as_list (dget decision ''eligible_candidates'') of None \<Rightarrow> []
      | Some items \<Rightarrow> map (\<lambda>v. case as_dict v of None \<Rightarrow> [] | Some d \<Rightarrow> d) items)"

definition validate_routing_cross_links :: "fields \<Rightarrow> job_row \<Rightarrow> pyval \<Rightarrow> pyval \<Rightarrow> unit result" where
  "validate_routing_cross_links decision j binding context =
     bindE (routing_require (opt_str (jb_assigned_agent j) = dget decision ''selected_agent_id'')
         ''routing decision selected_agent_id does not match job assignment'') (\<lambda>_.
     bindE (routing_require (opt_str (jb_runner_profile_id j) = dget decision ''selected_runner_profile_id'')
         ''routing decision selected_runner_profile_id does not match job'') (\<lambda>_.
     case find (\<lambda>c. dget c ''agent_id'' = dget decision ''selected_agent_id'') (decision_candidates decision) of
       None \<Rightarrow> raise RoutingErr ''routing decision selected candidate missing from eligible_candidates''
     | Some chosen \<Rightarrow>
         (case as_dict binding of
            None \<Rightarrow> raise AttributeErr ''get''
          | Some b \<Rightarrow> bindE (links_to_binding decision chosen b) (\<lambda>_.
              case as_dict context of
                None \<Rightarrow> raise AttributeErr ''get''
              | Some c \<Rightarrow> links_to_context decision j c))))"

definition routing_claim_evidence :: "(string \<Rightarrow> string) \<Rightarrow> fields \<Rightarrow> job_row \<Rightarrow> fields result" where
  "routing_claim_evidence H payload j =
     (let request_data = dget payload ''routing_request''; decision_data = dget payload ''routing_decision'' in
      if request_data = PyNone \<and> decision_data = PyNone then Inr []
      else if request_data = PyNone \<or> decision_data = PyNone
      then raise RoutingErr ''routing_request and routing_decision must both be present or both absent''
      else
        bindE (parse_routing_request H request_data) (\<lambda>request.
        bindE (validate_routing_decision H request decision_data) (\<lambda>decision.
        let binding = dget payload ''executor_binding''; context = dget payload ''execution_context'' in
        if binding = PyNone \<or> context = PyNone
        then raise RoutingErr ''routed job requires executor_binding and execution_context snapshots''
        else bindE (validate_routing_cross_links decision j binding context) (\<lambda>_.
          Inr [(''routing_request_id'', PyStr (rq_routing_request_id request)),
               (''routing_decision_id'', dget decision ''routing_decision_id''),
               (''selection_kind'', dget decision ''selection_kind'')]))))"

section \<open>Requests are read back\<close>

definition rlabel_ok :: "nat \<Rightarrow> string \<Rightarrow> bool" where
  "rlabel_ok n s \<longleftrightarrow> s \<noteq> [] \<and> length s \<le> n \<and> re_match safe_label_body s"

lemma routing_label_Inr: "routing_label n v = Inr s \<longleftrightarrow> v = PyStr s \<and> rlabel_ok n s"
  by (auto simp: routing_label_def rlabel_ok_def split: option.splits if_splits)

lemma routing_optional_label_Inr:
  "routing_optional_label n v = Inr x \<longleftrightarrow> v = opt_str x \<and> (case x of None \<Rightarrow> True | Some s \<Rightarrow> rlabel_ok n s)"
  by (cases x) (auto simp: routing_optional_label_def bindE_eq_Inr routing_label_Inr)

definition capabilities_ok :: "string list \<Rightarrow> bool" where
  "capabilities_ok caps \<longleftrightarrow> caps \<noteq> [] \<and> list_all (rlabel_ok MAX_CAPABILITY_LEN) caps \<and> sorted_wrt (<) caps \<and>
     length caps \<le> MAX_CAPABILITIES"

lemma mapE_strings:
  assumes "\<And>v s. f v = Inr s \<longleftrightarrow> v = PyStr s \<and> P s"
  shows "mapE f vs = Inr xs \<longleftrightarrow> vs = map PyStr xs \<and> list_all P xs"
  unfolding mapE_eq_Inr assms by (induction xs arbitrary: vs) (auto simp: list_all2_Cons2)

lemma capability_item_Inr: "capability_item v = Inr s \<longleftrightarrow> v = PyStr s \<and> re_match safe_label_body s"
  by (auto simp: capability_item_def split: option.splits)

lemmas mapE_labels = mapE_strings [OF routing_label_Inr] and mapE_items = mapE_strings [OF capability_item_Inr]

lemma re_match_label_ne: "re_match safe_label_body s \<Longrightarrow> s \<noteq> []"
  by (auto simp: re_match_def safe_label_body_def chomp_def)

lemma normalize_capabilities_ok: "normalize_capabilities v = Inr caps \<Longrightarrow> capabilities_ok caps"
proof -
  assume "normalize_capabilities v = Inr caps"
  then obtain items xs where x: "v = PyList items" "items \<noteq> []" "mapE (routing_label MAX_CAPABILITY_LEN) items = Inr xs"
    "length (remdups xs) \<le> MAX_CAPABILITIES" "caps = sort (remdups xs)"
    by (auto simp: normalize_capabilities_def split: option.splits if_splits)
  then have "list_all (rlabel_ok MAX_CAPABILITY_LEN) xs" "xs \<noteq> []" by (auto simp: mapE_labels)
  moreover from this x(5) have "caps \<noteq> []" by (metis set_empty set_remdups set_sort)
  ultimately show ?thesis using x(4,5)
    by (auto simp: capabilities_ok_def list_all_iff strict_sorted_iff)
qed

lemma validate_canonical_capabilities_Inr:
  "validate_canonical_capabilities v = Inr caps \<longleftrightarrow> v = PyList (map PyStr caps) \<and> capabilities_ok caps"
proof
  assume "validate_canonical_capabilities v = Inr caps"
  then obtain items where x: "v = PyList items" "items \<noteq> []" "mapE capability_item items = Inr caps"
    "\<not> list_ex (\<lambda>c. length c > MAX_CAPABILITY_LEN) caps" "distinct caps" "length caps \<le> MAX_CAPABILITIES" "caps = sort caps"
    by (auto simp: validate_canonical_capabilities_def split: option.splits if_splits)
  from x(3) have "items = map PyStr caps" "list_all (re_match safe_label_body) caps" by (simp_all add: mapE_items)
  with x show "v = PyList (map PyStr caps) \<and> capabilities_ok caps"
    by (auto simp: capabilities_ok_def rlabel_ok_def list_all_iff list_ex_iff strict_sorted_iff re_match_label_ne not_less)
      (metis sorted_sort)
next
  assume v: "v = PyList (map PyStr caps) \<and> capabilities_ok caps"
  then have "mapE capability_item (map PyStr caps) = Inr caps"
    by (auto simp: mapE_items capabilities_ok_def rlabel_ok_def list_all_iff)
  with v show "validate_canonical_capabilities v = Inr caps"
    by (auto simp: validate_canonical_capabilities_def capabilities_ok_def rlabel_ok_def list_all_iff list_ex_iff
        strict_sorted_iff sorted_sort_id)
qed

definition reason_ok :: "string \<Rightarrow> bool" where
  "reason_ok s \<longleftrightarrow> strip s = s \<and> s \<noteq> [] \<and> length s \<le> MAX_ROUTING_REASON_LEN \<and> \<not> list_ex category_c s"

definition request_ok :: "(string \<Rightarrow> string) \<Rightarrow> routing_request \<Rightarrow> bool" where
  "request_ok H r \<longleftrightarrow> capabilities_ok (rq_required_capabilities r) \<and>
     (case rq_executor_definition_id r of None \<Rightarrow> True | Some d \<Rightarrow> rlabel_ok 256 d) \<and>
     (case rq_preferred_host_id r of None \<Rightarrow> True | Some h \<Rightarrow> rlabel_ok 64 h) \<and>
     (case (rq_override_agent_id r, rq_override_reason r) of
        (None, None) \<Rightarrow> True | (Some a, Some x) \<Rightarrow> rlabel_ok 256 a \<and> reason_ok x | _ \<Rightarrow> False) \<and>
     rq_routing_request_id r = compute_routing_id H (request_body r)"

lemma strip_idem: "strip (strip s) = strip s"
proof -
  let ?d = "dropWhile is_space s" and ?e = "dropWhile is_space (rev (dropWhile is_space s))"
  have s: "strip s = rev ?e" by (simp add: strip_def)
  show ?thesis
  proof (cases "strip s = []")
    case False
    with s have e: "?e \<noteq> []" by simp
    then have "\<not> is_space (hd ?e)" by (rule hd_dropWhile)
    then have "\<not> is_space (last (strip s))" using e by (simp add: s last_rev)
    moreover have "\<not> is_space (hd (strip s))"
    proof -
      have "?d \<noteq> []" using e by (metis dropWhile.simps(1) rev.simps(1))
      then have "\<not> is_space (hd ?d)" by (rule hd_dropWhile)
      have "suffix ?e (rev ?d)" by (rule suffix_dropWhile)
      then have "prefix (strip s) ?d" by (simp add: s suffix_to_prefix)
      with False have "hd (strip s) = hd ?d" by (auto simp: prefix_def hd_append)
      with \<open>\<not> is_space (hd ?d)\<close> show ?thesis by simp
    qed
    ultimately show ?thesis using strip_id_iff by blast
  qed simp
qed

lemma normalize_reason_ok: "normalize_override_reason v = Inr x \<Longrightarrow> reason_ok x"
  by (auto simp: normalize_override_reason_def validate_reason_text_def reason_ok_def strip_idem split: option.splits if_splits)

lemma canonical_reason_Inr: "validate_canonical_reason v = Inr x \<longleftrightarrow> v = PyStr x \<and> reason_ok x"
  by (auto simp: validate_canonical_reason_def validate_reason_text_def reason_ok_def split: option.splits if_splits)

lemma override_pair_Inr:
  "validate_override_pair f a b = Inr (x, y) \<Longrightarrow>
     (a = PyNone \<and> b = PyNone \<and> x = None \<and> y = None) \<or>
     (\<exists>i z. a = PyStr i \<and> rlabel_ok 256 i \<and> f b = Inr z \<and> x = Some i \<and> y = Some z)"
  by (auto simp: validate_override_pair_def routing_label_Inr split: if_splits)

lemma request_body_id [simp]: "request_body (r\<lparr>rq_routing_request_id := i\<rparr>) = request_body r"
  by (simp add: request_body_def)

lemma built_request_ok:
  assumes "build_routing_request H required d h a reason = Inr r"
  shows "request_ok H r"
proof -
  from assms obtain caps d' h' x y r0 where b: "normalize_capabilities required = Inr caps"
    "routing_optional_label 256 d = Inr d'" "routing_optional_label 64 h = Inr h'"
    "validate_override_pair normalize_override_reason a reason = Inr (x, y)"
    "r0 = \<lparr>rq_required_capabilities = caps, rq_executor_definition_id = d', rq_preferred_host_id = h',
       rq_override_agent_id = x, rq_override_reason = y, rq_routing_request_id = []\<rparr>"
    "r = r0\<lparr>rq_routing_request_id := compute_routing_id H (request_body r0)\<rparr>"
    unfolding build_routing_request_def Let_def by (auto split: prod.splits)
  from override_pair_Inr [OF b(4)] b(2,3) normalize_capabilities_ok [OF b(1)] show ?thesis
    by (auto simp: b(5,6) request_ok_def routing_optional_label_Inr request_body_def dest: normalize_reason_ok)
qed

lemma routing_id_ok: "hexdigest_shape H \<Longrightarrow> routing_id (PyStr (compute_routing_id H d)) = Inr (compute_routing_id H d)"
  by (simp add: routing_id_def compute_routing_id_def digest_of_shape)

lemma parse_request_dict:
  assumes "hexdigest_shape H" "request_ok H r"
  shows "parse_routing_request H (routing_request_to_dict r) = Inr r"
proof -
  let ?d = "request_body r @ [(''routing_request_id'', PyStr (rq_routing_request_id r))]"
  have g: "dget ?d ''contract_version'' = PyInt 1" "dget ?d ''policy_version'' = PyInt 1" "dget ?d ''mode'' = PyStr ''deterministic''"
    "dget ?d ''required_capabilities'' = PyList (map PyStr (rq_required_capabilities r))"
    "dget ?d ''executor_definition_id'' = opt_str (rq_executor_definition_id r)"
    "dget ?d ''preferred_host_id'' = opt_str (rq_preferred_host_id r)"
    "dget ?d ''operator_override_agent_id'' = opt_str (rq_override_agent_id r)"
    "dget ?d ''operator_override_reason'' = opt_str (rq_override_reason r)"
    "dget ?d ''routing_request_id'' = PyStr (rq_routing_request_id r)" "same_keys REQUEST_KEYS ?d"
    by (simp_all add: request_body_def ROUTING_CONTRACT_VERSION_def ROUTING_POLICY_VERSION_def same_keys_def REQUEST_KEYS_def)
  have v: "routing_version (PyInt 1) ROUTING_CONTRACT_VERSION = Inr ()" "routing_version (PyInt 1) ROUTING_POLICY_VERSION = Inr ()"
    by (simp_all add: routing_version_def routing_int_def ROUTING_CONTRACT_VERSION_def ROUTING_POLICY_VERSION_def)
  have c: "validate_canonical_capabilities (PyList (map PyStr (rq_required_capabilities r))) = Inr (rq_required_capabilities r)"
    "routing_optional_label 256 (opt_str (rq_executor_definition_id r)) = Inr (rq_executor_definition_id r)"
    "routing_optional_label 64 (opt_str (rq_preferred_host_id r)) = Inr (rq_preferred_host_id r)"
    using assms(2) by (simp_all add: request_ok_def validate_canonical_capabilities_Inr routing_optional_label_Inr)
  have o: "validate_override_pair validate_canonical_reason (opt_str (rq_override_agent_id r)) (opt_str (rq_override_reason r)) =
      Inr (rq_override_agent_id r, rq_override_reason r)"
    using assms(2) by (auto simp: request_ok_def validate_override_pair_def bindE_eq_Inr routing_label_Inr canonical_reason_Inr
        split: option.splits)
  have i: "rq_routing_request_id r = compute_routing_id H (request_body r)" using assms(2) by (simp add: request_ok_def)
  have d: "routing_id (PyStr (rq_routing_request_id r)) = Inr (rq_routing_request_id r)"
    using routing_id_ok [OF assms(1), of "request_body r"] i by simp
  have r: "\<lparr>rq_required_capabilities = rq_required_capabilities r, rq_executor_definition_id = rq_executor_definition_id r,
      rq_preferred_host_id = rq_preferred_host_id r, rq_override_agent_id = rq_override_agent_id r,
      rq_override_reason = rq_override_reason r, rq_routing_request_id = rq_routing_request_id r\<rparr> = r" by simp
  show ?thesis unfolding parse_routing_request_def routing_request_to_dict_def as_dict.simps option.case g v c o d Let_def
    bindE_simps prod.case r by (simp add: g(10) i [symmetric])
qed

interpretation request_codec: codec "\<lambda>r. hexdigest_shape H \<and> request_ok H r" routing_request_to_dict "parse_routing_request H" for H
  by unfold_locales (simp add: parse_request_dict)

section \<open>Who is eligible\<close>

text \<open>The hard filters on an enabled binding, and the candidate that it gives.\<close>

definition eligible ::
  "(string \<Rightarrow> string) \<Rightarrow> timestamp \<Rightarrow> db \<Rightarrow> string \<Rightarrow> string list \<Rightarrow> routing_request \<Rightarrow> instance_row \<Rightarrow> candidate \<Rightarrow> bool" where
  "eligible H now s wid effective r b c \<longleftrightarrow> b \<in> set (db_instances s) \<and> ib_enabled b \<and> ib_agent_id b \<in> set effective \<and>
     (\<exists>a host profile runner d src snap.
        get_agent s (ib_agent_id b) = Some a \<and> ag_client_type a = Some ''agentd'' \<and> ag_online_state a = ''online'' \<and>
        is_agent_liveness_fresh (ag_last_seen_at a) now \<and> ag_host_id a = Some host \<and> host \<noteq> [] \<and>
        get_workspace_host_profile s wid host = Inr (Some profile) \<and>
        get_runner_profile s (ib_agent_id b) = Some runner \<and> rn_runner_type runner = ''agentd'' \<and>
        binding_rows s b d src \<and> build_executor_binding_snapshot H src d b = Inr snap \<and>
        (rq_executor_definition_id r = None \<or> rq_executor_definition_id r = Some (df_id d)) \<and>
        set (rq_required_capabilities r) \<subseteq> set (df_capabilities d) \<and>
        c = \<lparr>cd_agent_id = ib_agent_id b, cd_host_id = host, cd_runner_profile_id = ib_agent_id b,
             cd_executor_definition_id = df_id d, cd_binding_id = digest_of H (PyDict (snapshot_body src d b)),
             cd_source_id = ib_source_id b, cd_source_version = cs_source_version src,
             cd_catalog_hash = cs_catalog_hash src, cd_capabilities = df_capabilities d,
             cd_online_state = ''online'', cd_last_seen_at = ag_last_seen_at a,
             cd_routing_load = compute_routing_load s (ib_agent_id b), cd_binding_snapshot = snap,
             cd_host_rank = host_rank_of r host, cd_preferred_host = host_preferred r host\<rparr>)"

lemma str_of_simps [simp]: "str_of (PyStr s) = s" "int_of (PyInt i) = i" "strs_of (PyList (map PyStr xs)) = xs"
  by (simp_all add: str_of_def int_of_def strs_of_def comp_def)

lemma snapshot_reads:
  assumes "build_executor_binding_snapshot H src d b = Inr snap"
  shows "str_of (dget snap ''executor_definition_id'') = df_id d" "strs_of (dget snap ''capabilities'') = df_capabilities d"
    "str_of (dget snap ''binding_id'') = digest_of H (PyDict (snapshot_body src d b))"
    "str_of (dget snap ''source_id'') = ib_source_id b" "int_of (dget snap ''source_version'') = cs_source_version src"
    "str_of (dget snap ''catalog_hash'') = cs_catalog_hash src"
  using build_snapshot_Inr [of H src d b] assms by (auto simp: SNAPSHOT_KEYS_def snapshot_body_def)

lemma resolve_None:
  "catalog_inv s \<Longrightarrow> b \<in> set (db_instances s) \<Longrightarrow> ib_enabled b \<Longrightarrow>
     \<exists>d src snap. binding_rows s b d src \<and> build_executor_binding_snapshot H src d b = Inr snap \<and>
       resolve_exact_executor_binding H s (ib_agent_id b) = Inr (Some snap)"
  using binding_rows_exist [of s b] resolve_binding_rows [of s b] build_snapshot_Inr [of H] by (metis bindE_simps(2))

lemma binding_rows_unique:
  assumes "catalog_inv s" "binding_rows s b d src" "binding_rows s b d' src'"
  shows "d' = d \<and> src' = src"
  using assms inj_onD [of df_id "set (db_definitions s)" d d']
  by (auto simp: binding_rows_def catalog_inv_def distinct_map)

lemma resolve_candidate_iff:
  assumes "catalog_inv s" "b \<in> set (db_instances s)" "ib_enabled b"
  shows "resolve_candidate H now s wid effective r b = Inr (Some c) \<longleftrightarrow> eligible H now s wid effective r b c"
proof -
  from resolve_None [OF assms] obtain d src snap where r: "binding_rows s b d src"
    "build_executor_binding_snapshot H src d b = Inr snap" "resolve_exact_executor_binding H s (ib_agent_id b) = Inr (Some snap)"
    by blast
  have p: "ib_runner_profile_id b = ib_agent_id b" using assms(1,2) by (auto simp: catalog_inv_def)
  have e: "eligible H now s wid effective r b c \<longleftrightarrow> ib_agent_id b \<in> set effective \<and> (\<exists>a host profile runner.
        get_agent s (ib_agent_id b) = Some a \<and> ag_client_type a = Some ''agentd'' \<and> ag_online_state a = ''online'' \<and>
        is_agent_liveness_fresh (ag_last_seen_at a) now \<and> ag_host_id a = Some host \<and> host \<noteq> [] \<and>
        get_workspace_host_profile s wid host = Inr (Some profile) \<and>
        get_runner_profile s (ib_agent_id b) = Some runner \<and> rn_runner_type runner = ''agentd'' \<and>
        (rq_executor_definition_id r = None \<or> rq_executor_definition_id r = Some (df_id d)) \<and>
        set (rq_required_capabilities r) \<subseteq> set (df_capabilities d) \<and>
        c = \<lparr>cd_agent_id = ib_agent_id b, cd_host_id = host, cd_runner_profile_id = ib_agent_id b,
             cd_executor_definition_id = df_id d, cd_binding_id = digest_of H (PyDict (snapshot_body src d b)),
             cd_source_id = ib_source_id b, cd_source_version = cs_source_version src,
             cd_catalog_hash = cs_catalog_hash src, cd_capabilities = df_capabilities d,
             cd_online_state = ''online'', cd_last_seen_at = ag_last_seen_at a,
             cd_routing_load = compute_routing_load s (ib_agent_id b), cd_binding_snapshot = snap,
             cd_host_rank = host_rank_of r host, cd_preferred_host = host_preferred r host\<rparr>)" (is "?E \<longleftrightarrow> ?R")
  proof
    assume ?E
    then obtain a host profile runner d' src' snap' where x: "ib_agent_id b \<in> set effective"
        "get_agent s (ib_agent_id b) = Some a" "ag_client_type a = Some ''agentd''" "ag_online_state a = ''online''"
        "is_agent_liveness_fresh (ag_last_seen_at a) now" "ag_host_id a = Some host" "host \<noteq> []"
        "get_workspace_host_profile s wid host = Inr (Some profile)"
        "get_runner_profile s (ib_agent_id b) = Some runner" "rn_runner_type runner = ''agentd''"
        "binding_rows s b d' src'" "build_executor_binding_snapshot H src' d' b = Inr snap'"
        "rq_executor_definition_id r = None \<or> rq_executor_definition_id r = Some (df_id d')"
        "set (rq_required_capabilities r) \<subseteq> set (df_capabilities d')"
        "c = \<lparr>cd_agent_id = ib_agent_id b, cd_host_id = host, cd_runner_profile_id = ib_agent_id b,
             cd_executor_definition_id = df_id d', cd_binding_id = digest_of H (PyDict (snapshot_body src' d' b)),
             cd_source_id = ib_source_id b, cd_source_version = cs_source_version src',
             cd_catalog_hash = cs_catalog_hash src', cd_capabilities = df_capabilities d',
             cd_online_state = ''online'', cd_last_seen_at = ag_last_seen_at a,
             cd_routing_load = compute_routing_load s (ib_agent_id b), cd_binding_snapshot = snap',
             cd_host_rank = host_rank_of r host, cd_preferred_host = host_preferred r host\<rparr>" unfolding eligible_def by blast
    from binding_rows_unique [OF assms(1) r(1) x(11)] x(12) r(2) have "d' = d" "src' = src" "snap' = snap" by auto
    with x show ?R by blast
  next
    assume ?R
    with r(1,2) assms(2,3) show ?E unfolding eligible_def by blast
  qed
  show ?thesis unfolding e resolve_candidate_def Let_def r(3) p
    by (auto simp: snapshot_reads [OF r(2)] list_all_iff bindE_eq_Inr split: option.splits)
qed

lemma candidates_loop_Inr:
  assumes "candidates_loop H now s wid effective r bs = Inr cs"
    "\<And>b c. b \<in> set bs \<Longrightarrow> resolve_candidate H now s wid effective r b = Inr (Some c) \<Longrightarrow> cd_agent_id c = ib_agent_id b"
  shows "set cs = {c. \<exists>b \<in> set bs. resolve_candidate H now s wid effective r b = Inr (Some c)} \<and>
    subseq (map cd_agent_id cs) (map ib_agent_id bs)"
  using assms
proof (induction bs arbitrary: cs)
  case (Cons b bs)
  then obtain c cs' where c: "resolve_candidate H now s wid effective r b = Inr c"
    "candidates_loop H now s wid effective r bs = Inr cs'" "cs = (case c of None \<Rightarrow> cs' | Some x \<Rightarrow> x # cs')" by auto
  from Cons.IH [OF c(2)] Cons.prems(2) have IH: "set cs' = {c. \<exists>b \<in> set bs. resolve_candidate H now s wid effective r b = Inr (Some c)}"
    "subseq (map cd_agent_id cs') (map ib_agent_id bs)" by auto
  show ?case
  proof (cases c)
    case None
    with c IH show ?thesis by auto
  next
    case (Some x)
    with c(1) Cons.prems(2) [of b x] have "cd_agent_id x = ib_agent_id b" by simp
    with Some c IH show ?thesis by auto
  qed
qed simp

lemma subseq_keeps_distinct: "subseq xs ys \<Longrightarrow> distinct ys \<Longrightarrow> distinct xs"
proof (induction rule: list_emb.induct)
  case (list_emb_Cons2 x y xs ys)
  then have "set xs \<subseteq> set ys" by (metis notin_set_nthsI subseq_conv_nths subsetI)
  with list_emb_Cons2 show ?case by auto
qed auto

lemma candidates_exact:
  assumes "catalog_inv s" "resolve_routing_candidates H tnow now s wid r = Inr cs"
  shows "\<exists>effective. resolve_effective_agents tnow s wid = Inr effective \<and>
    set cs = {c. \<exists>b. eligible H now s wid (map fst effective) r b c} \<and>
    sorted (map candidate_key cs) \<and> distinct (map cd_agent_id cs)"
proof -
  from assms(2) obtain effective cs0 where e: "resolve_effective_agents tnow s wid = Inr effective"
    "candidates_loop H now s wid (map fst effective) r (filter ib_enabled (db_instances s)) = Inr cs0"
    "cs = sort_key candidate_key cs0" by (auto simp: resolve_routing_candidates_def split: if_splits)
  have "cd_agent_id c = ib_agent_id b" if "b \<in> set (filter ib_enabled (db_instances s))"
    "resolve_candidate H now s wid (map fst effective) r b = Inr (Some c)" for b c
    using that resolve_candidate_iff [OF assms(1)] by (auto simp: eligible_def)
  from candidates_loop_Inr [OF e(2) this] have c0:
    "set cs0 = {c. \<exists>b \<in> set (filter ib_enabled (db_instances s)). resolve_candidate H now s wid (map fst effective) r b = Inr (Some c)}"
    "subseq (map cd_agent_id cs0) (map ib_agent_id (filter ib_enabled (db_instances s)))" by blast+
  have "b \<in> set (db_instances s) \<and> ib_enabled b" if "eligible H now s wid (map fst effective) r b c" for b c
    using that by (simp add: eligible_def)
  then have "(\<exists>b \<in> set (filter ib_enabled (db_instances s)). resolve_candidate H now s wid (map fst effective) r b = Inr (Some c)) \<longleftrightarrow>
      (\<exists>b. eligible H now s wid (map fst effective) r b c)" for c
    using resolve_candidate_iff [OF assms(1)] unfolding set_filter by blast
  then have "set cs = {c. \<exists>b. eligible H now s wid (map fst effective) r b c}" using c0(1) by (simp add: e(3))
  moreover have "distinct (map cd_agent_id cs0)"
    using subseq_keeps_distinct [OF c0(2)] assms(1) by (simp add: catalog_inv_def distinct_map_filter)
  then have "distinct (map cd_agent_id cs)" by (simp add: e(3) distinct_map)
  ultimately show ?thesis using e by auto
qed

lemma select_Inr:
  assumes "select_routing_decision H r cs = Inr d"
  shows "cs \<noteq> [] \<and> length cs \<le> MAX_CANDIDATES \<and> dc_eligible_candidates d = cs \<and> dc_selected d \<in> set cs \<and>
    dc_routing_request_id d = rq_routing_request_id r \<and>
    dc_routing_decision_id d = compute_routing_id H (decision_body d) \<and>
    (case rq_override_agent_id r of None \<Rightarrow> dc_selected d = hd cs \<and> dc_selection_kind d = ''automatic''
     | Some a \<Rightarrow> cd_agent_id (dc_selected d) = a \<and> dc_selection_kind d = ''operator_override'')"
  using assms unfolding select_routing_decision_def Let_def
  by (auto simp: decision_body_def split: if_splits list.splits option.splits dest!: find_Some_in)

text \<open>
  C31: the candidates are exactly the enabled bindings that pass every hard filter, one for each
  agent, and without an override the decision takes the least of them in the policy order: the
  preferred host first, then the smallest load, then the definition and the agent.
\<close>

theorem routing_selects_best:
  assumes "catalog_inv s" "resolve_routing_candidates H tnow now s wid r = Inr cs" "select_routing_decision H r cs = Inr d"
  shows "\<exists>effective. resolve_effective_agents tnow s wid = Inr effective \<and>
    set (dc_eligible_candidates d) = {c. \<exists>b. eligible H now s wid (map fst effective) r b c} \<and>
    distinct (map cd_agent_id (dc_eligible_candidates d)) \<and> dc_selected d \<in> set (dc_eligible_candidates d) \<and>
    (case rq_override_agent_id r of Some a \<Rightarrow> cd_agent_id (dc_selected d) = a
     | None \<Rightarrow> \<forall>c \<in> set (dc_eligible_candidates d). candidate_key (dc_selected d) \<le> candidate_key c)"
proof -
  from candidates_exact [OF assms(1,2)] obtain effective where e: "resolve_effective_agents tnow s wid = Inr effective"
    "set cs = {c. \<exists>b. eligible H now s wid (map fst effective) r b c}" "sorted (map candidate_key cs)"
    "distinct (map cd_agent_id cs)" by blast
  note d = select_Inr [OF assms(3)]
  have "candidate_key (hd cs) \<le> candidate_key c" if "c \<in> set cs" for c
    using that e(3) by (cases cs) auto
  with d e show ?thesis by (auto split: option.splits)
qed

section \<open>Which decisions a claim accepts\<close>

text \<open>What holds of the catalog rows that synchronisations write.\<close>

definition rows_ok :: "db \<Rightarrow> bool" where
  "rows_ok s \<longleftrightarrow>
     (\<forall>d \<in> set (db_definitions s). label_ok (df_id d) \<and> list_all label_ok (df_capabilities d) \<and>
        sorted_wrt (<) (df_capabilities d) \<and> length (df_capabilities d) \<le> MAX_CAPABILITIES) \<and>
     (\<forall>b \<in> set (db_instances s). label_ok (ib_agent_id b) \<and> label_ok (ib_source_id b)) \<and>
     (\<forall>sid x. get_executor_catalog_source s sid = Some x \<longrightarrow> hex64_body (cs_catalog_hash x))"

lemma rows_ok_step:
  assumes "hexdigest_shape H" "catalog_inv s" "rows_ok s" "catalog_step H s s'"
  shows "rows_ok s'"
proof -
  from catalog_step_cases [OF assms(4,2)] show ?thesis
  proof (elim disjE exE conjE)
    fix now c path
    assume c: "catalog_ok H c" and r: "catalog_rows now c path s s'"
    have "hex64_body (cs_catalog_hash (source_row_of now path c))"
      using c assms(1) by (simp add: source_row_of_def catalog_ok_def compute_executor_catalog_hash_def hexdigest_shape_def)
    with r c assms(3) show "rows_ok s'"
      by (auto simp: rows_ok_def catalog_rows_def catalog_ok_def definition_ok_def list_all_iff definition_row_of_def)
  qed (use assms(3) in simp)
qed

lemma reachable_rows_ok:
  assumes "hexdigest_shape H" "no_catalog s0" "(catalog_step H)\<^sup>*\<^sup>* s0 s"
  shows "catalog_inv s \<and> rows_ok s"
proof
  show "catalog_inv s" by (rule catalog_system.inv_reachable [OF assms(2,3)])
  have "rows_ok s0" using assms(2) by (simp add: no_catalog_def rows_ok_def get_executor_catalog_source_def)
  with catalog_system.run_keeps [OF assms(3), where P = rows_ok] catalog_system.inv_start [OF assms(2)]
    rows_ok_step [OF assms(1)] show "rows_ok s" by blast
qed

lemma label_ok_rlabel: "label_ok s \<Longrightarrow> rlabel_ok 64 s"
  by (auto simp: label_ok_def rlabel_ok_def ID_MAX_LABEL_LEN_def re_match_def safe_label_body_def)

definition candidate_ok :: "routing_request \<Rightarrow> candidate \<Rightarrow> bool" where
  "candidate_ok r c \<longleftrightarrow> label_ok (cd_agent_id c) \<and> cd_runner_profile_id c = cd_agent_id c \<and>
     label_ok (cd_executor_definition_id c) \<and> re_match digest_body (cd_binding_id c) \<and> label_ok (cd_source_id c) \<and>
     hex64_body (cd_catalog_hash c) \<and> capabilities_ok (cd_capabilities c) \<and>
     set (rq_required_capabilities r) \<subseteq> set (cd_capabilities c) \<and>
     (rq_executor_definition_id r = None \<or> rq_executor_definition_id r = Some (cd_executor_definition_id c)) \<and>
     cd_online_state c = ''online'' \<and> cd_host_rank c = host_rank_of r (cd_host_id c) \<and>
     cd_preferred_host c = host_preferred r (cd_host_id c)"

lemma eligible_candidate_ok:
  assumes "hexdigest_shape H" "rows_ok s" "request_ok H r" "eligible H now s wid effective r b c"
  shows "candidate_ok r c"
proof -
  from assms(4) obtain d src where d: "binding_rows s b d src" "b \<in> set (db_instances s)"
    "set (rq_required_capabilities r) \<subseteq> set (df_capabilities d)" "cd_capabilities c = df_capabilities d"
    "cd_binding_id c = digest_of H (PyDict (snapshot_body src d b))" "cd_catalog_hash c = cs_catalog_hash src"
    and c: "cd_agent_id c = ib_agent_id b" "cd_runner_profile_id c = ib_agent_id b" "cd_executor_definition_id c = df_id d"
    "cd_source_id c = ib_source_id b" "cd_online_state c = ''online''" "cd_host_rank c = host_rank_of r (cd_host_id c)"
    "cd_preferred_host c = host_preferred r (cd_host_id c)"
    "rq_executor_definition_id r = None \<or> rq_executor_definition_id r = Some (cd_executor_definition_id c)"
    unfolding eligible_def by auto
  from assms(3) have "rq_required_capabilities r \<noteq> []" by (simp add: request_ok_def capabilities_ok_def)
  with d(3) have ne: "df_capabilities d \<noteq> []" by auto
  from d(1) assms(2) have row: "label_ok (df_id d)" "list_all label_ok (df_capabilities d)" "sorted_wrt (<) (df_capabilities d)"
    "length (df_capabilities d) \<le> MAX_CAPABILITIES" "hex64_body (cs_catalog_hash src)"
    by (auto simp: rows_ok_def binding_rows_def)
  then have "capabilities_ok (df_capabilities d)" using ne
    by (auto simp: capabilities_ok_def list_all_iff MAX_CAPABILITY_LEN_def dest: label_ok_rlabel)
  with c d row(1,5) digest_of_shape [OF assms(1)] assms(2) show ?thesis by (simp add: candidate_ok_def rows_ok_def)
qed

definition acceptable :: "candidate \<Rightarrow> bool" where
  "acceptable c \<longleftrightarrow> 1 \<le> cd_source_version c \<and> rlabel_ok 64 (cd_host_id c)"

lemma routing_require_Inr [simp]: "routing_require b m = Inr u \<longleftrightarrow> b"
  by (simp add: routing_require_def)

lemma iso_of_ne: "iso_of t \<noteq> []"
  by (simp add: iso_of_def iso_civil_def)

lemma validate_candidate_dict:
  assumes "candidate_ok r c"
  shows "validate_candidate r (PyDict (to_decision_dict c)) = Inr x \<longleftrightarrow> acceptable c \<and> x = to_decision_dict c"
proof -
  have k: "same_keys CANDIDATE_KEYS (to_decision_dict c)"
    by (simp add: same_keys_def CANDIDATE_KEYS_def to_decision_dict_def)
  have g: "dget (to_decision_dict c) ''agent_id'' = PyStr (cd_agent_id c)" "dget (to_decision_dict c) ''host_id'' = PyStr (cd_host_id c)"
    "dget (to_decision_dict c) ''runner_profile_id'' = PyStr (cd_runner_profile_id c)"
    "dget (to_decision_dict c) ''executor_definition_id'' = PyStr (cd_executor_definition_id c)"
    "dget (to_decision_dict c) ''binding_id'' = PyStr (cd_binding_id c)" "dget (to_decision_dict c) ''source_id'' = PyStr (cd_source_id c)"
    "dget (to_decision_dict c) ''source_version'' = PyInt (cd_source_version c)"
    "dget (to_decision_dict c) ''catalog_hash'' = PyStr (cd_catalog_hash c)"
    "dget (to_decision_dict c) ''capabilities'' = PyList (map PyStr (cd_capabilities c))"
    "dget (to_decision_dict c) ''online_state'' = PyStr (cd_online_state c)"
    "dget (to_decision_dict c) ''last_seen_at'' = opt_time (cd_last_seen_at c)"
    "dget (to_decision_dict c) ''preferred_host'' = PyBool (cd_preferred_host c)"
    "dget (to_decision_dict c) ''routing_load'' = PyInt (int (cd_routing_load c))"
    by (simp_all add: to_decision_dict_def)
  have caps: "validate_canonical_capabilities (PyList (map PyStr (cd_capabilities c))) = Inr (cd_capabilities c)"
    using assms by (simp add: validate_canonical_capabilities_Inr candidate_ok_def)
  have lab: "rlabel_ok 64 (cd_agent_id c)" "rlabel_ok 64 (cd_executor_definition_id c)" "rlabel_ok 64 (cd_source_id c)"
    "rlabel_ok 64 (cd_online_state c)"
    using assms label_ok_rlabel by (auto simp: candidate_ok_def rlabel_ok_def re_match_def safe_label_body_def safe_label_char_def is_alpha_def)
  have seen: "opt_time (cd_last_seen_at c) = PyNone \<or>
      (case as_str (opt_time (cd_last_seen_at c)) of None \<Rightarrow> False | Some x \<Rightarrow> x \<noteq> [])"
    by (simp add: opt_time_def iso_of_ne split: option.splits)
  have bid: "routing_id (PyStr (cd_binding_id c)) = Inr (cd_binding_id c)" using assms by (simp add: candidate_ok_def routing_id_def)
  have two: "mapE (\<lambda>k. routing_label 64 (dget (to_decision_dict c) k)) [''source_id'', ''online_state''] =
      Inr [cd_source_id c, cd_online_state c]"
    using lab by (simp add: g routing_label_Inr [THEN iffD2])
  have reqs: "routing_require (PyStr (cd_online_state c) = PyStr ''online'') m = Inr ()"
    "routing_require (case as_str (PyStr (cd_catalog_hash c)) of None \<Rightarrow> False | Some h \<Rightarrow> re_match hex64_body h) m = Inr ()"
    "routing_require (list_all (List.member (cd_capabilities c)) (rq_required_capabilities r)) m = Inr ()"
    "routing_require (rq_executor_definition_id r = None \<or> PyStr (cd_executor_definition_id c) = opt_str (rq_executor_definition_id r)) m = Inr ()"
    "routing_require (0 \<le> int (cd_routing_load c)) m = Inr ()"
    "routing_require (PyBool (cd_preferred_host c) = PyBool (rq_preferred_host_id r \<noteq> None \<and>
        PyStr (cd_host_id c) = opt_str (rq_preferred_host_id r))) m = Inr ()"
    "routing_require (opt_time (cd_last_seen_at c) = PyNone \<or>
      (case as_str (opt_time (cd_last_seen_at c)) of None \<Rightarrow> False | Some x \<Rightarrow> x \<noteq> [])) m = Inr ()" for m
    using assms seen by (auto simp: candidate_ok_def re_match_def list_all_iff host_preferred_def)
  have ints: "routing_int (PyInt i) = Inr i" for i by (simp add: routing_int_def)
  show ?thesis
  proof (cases "rlabel_ok 64 (cd_host_id c)")
    case True
    then have one: "mapE (\<lambda>k. routing_label 64 (dget (to_decision_dict c) k)) [''agent_id'', ''host_id'', ''runner_profile_id'', ''executor_definition_id''] =
        Inr [cd_agent_id c, cd_host_id c, cd_runner_profile_id c, cd_executor_definition_id c]"
      using lab assms by (simp add: g routing_label_Inr [THEN iffD2] candidate_ok_def)
    have "validate_candidate r (PyDict (to_decision_dict c)) = bindE (routing_require (1 \<le> cd_source_version c)
        ''candidate source_version must be positive'') (\<lambda>_. Inr (to_decision_dict c))"
      unfolding validate_candidate_def as_dict.simps option.case one two g caps bid reqs ints bindE_simps
      by (simp only: k simp_thms if_False)
    with True show ?thesis by (auto simp: acceptable_def routing_require_def)
  next
    case False
    then have "routing_label 64 (PyStr (cd_host_id c)) \<noteq> Inr y" for y by (auto simp: routing_label_Inr)
    then obtain e where "routing_label 64 (PyStr (cd_host_id c)) = Inl e" by (cases "routing_label 64 (PyStr (cd_host_id c))") auto
    then have one: "mapE (\<lambda>k. routing_label 64 (dget (to_decision_dict c) k)) [''agent_id'', ''host_id'', ''runner_profile_id'', ''executor_definition_id''] =
        Inl e" using lab(1) by (simp add: g routing_label_Inr [THEN iffD2])
    have "validate_candidate r (PyDict (to_decision_dict c)) = Inl e"
      unfolding validate_candidate_def as_dict.simps option.case one bindE_simps by (simp only: k simp_thms if_False)
    with False show ?thesis by (simp add: acceptable_def)
  qed
qed

lemma candidate_tuple:
  assumes "candidate_ok r c"
  shows "candidate_sort_tuple r (to_decision_dict c) =
    (cd_host_rank c, int (cd_routing_load c), cd_executor_definition_id c, cd_agent_id c)"
  using assms by (auto simp: candidate_sort_tuple_def to_decision_dict_def candidate_ok_def host_rank_of_def)

lemma candidate_tuple_le:
  assumes "candidate_ok r c" "candidate_ok r c'" "candidate_key c \<le> candidate_key c'"
  shows "\<not> candidate_sort_tuple r (to_decision_dict c) > candidate_sort_tuple r (to_decision_dict c')"
  using assms(3) by (auto simp: candidate_tuple assms(1,2) candidate_key_def not_less)

lemma policy_ordered_dicts:
  "list_all (candidate_ok r) cs \<Longrightarrow> sorted (map candidate_key cs) \<Longrightarrow> policy_ordered r (map to_decision_dict cs)"
proof (induction cs)
  case (Cons c cs)
  then show ?case by (cases cs) (auto simp: candidate_tuple_le simp del: not_less)
qed simp

lemma validate_candidates_dicts:
  assumes "list_all (candidate_ok r) cs" "distinct (map cd_agent_id cs)" "\<forall>c \<in> set cs. PyStr (cd_agent_id c) \<notin> set seen"
  shows "validate_candidates r seen (map (PyDict \<circ> to_decision_dict) cs) = Inr xs \<longleftrightarrow>
    list_all acceptable cs \<and> xs = map to_decision_dict cs"
  using assms
proof (induction cs arbitrary: seen xs)
  case (Cons c cs)
  have id: "dget (to_decision_dict c) ''agent_id'' = PyStr (cd_agent_id c)" by (simp add: to_decision_dict_def)
  have IH: "validate_candidates r (PyStr (cd_agent_id c) # seen) (map (PyDict \<circ> to_decision_dict) cs) = Inr ys \<longleftrightarrow>
      list_all acceptable cs \<and> ys = map to_decision_dict cs" for ys
    by (rule Cons.IH) (use Cons.prems in \<open>auto simp: image_iff\<close>)
  from Cons.prems have "candidate_ok r c" "PyStr (cd_agent_id c) \<notin> set seen" by auto
  then show ?case
    by (auto simp: bindE_eq_Inr validate_candidate_dict id IH [unfolded comp_def])
qed auto

lemma accepted_iff:
  assumes "hexdigest_shape H" "no_catalog s0" "(catalog_step H)\<^sup>*\<^sup>* s0 s" "request_ok H r"
    "resolve_routing_candidates H tnow now s wid r = Inr cs" "select_routing_decision H r cs = Inr d"
  shows "is_ok (validate_routing_decision H r (routing_decision_to_dict d)) \<longleftrightarrow>
    (\<forall>c \<in> set cs. 1 \<le> cd_source_version c \<and> rlabel_ok 64 (cd_host_id c))"
proof -
  from reachable_rows_ok [OF assms(1-3)] have inv: "catalog_inv s" "rows_ok s" by blast+
  from candidates_exact [OF inv(1) assms(5)] obtain effective where
    e: "resolve_effective_agents tnow s wid = Inr effective" "set cs = {c. \<exists>b. eligible H now s wid (map fst effective) r b c}"
    and sorted: "sorted (map candidate_key cs)" and dist: "distinct (map cd_agent_id cs)" by blast
  then have ok: "list_all (candidate_ok r) cs"
    using eligible_candidate_ok [OF assms(1) inv(2) assms(4)] by (auto simp: list_all_iff)
  note sel = select_Inr [OF assms(6)]
  let ?data = "decision_body d @ [(''routing_decision_id'', PyStr (dc_routing_decision_id d))]"
  have g: "dget ?data ''contract_version'' = PyInt ROUTING_CONTRACT_VERSION" "dget ?data ''policy_version'' = PyInt ROUTING_POLICY_VERSION"
    "dget ?data ''routing_request_id'' = PyStr (rq_routing_request_id r)" "dget ?data ''selection_kind'' = PyStr (dc_selection_kind d)"
    "dget ?data ''selected_agent_id'' = PyStr (cd_agent_id (dc_selected d))"
    "dget ?data ''eligible_candidates'' = PyList (map (PyDict \<circ> to_decision_dict) cs)"
    "dget ?data ''routing_decision_id'' = PyStr (dc_routing_decision_id d)"
    "dpop ''routing_decision_id'' ?data = decision_body d"
    using sel by (simp_all add: decision_body_def)
  have k: "same_keys DECISION_KEYS (decision_body d @ [(''routing_decision_id'', x)])" for x by (simp add: decision_body_def same_keys_def DECISION_KEYS_def)
  have v: "routing_version (PyInt ROUTING_CONTRACT_VERSION) ROUTING_CONTRACT_VERSION = Inr ()"
    "routing_version (PyInt ROUTING_POLICY_VERSION) ROUTING_POLICY_VERSION = Inr ()"
    by (simp_all add: routing_version_def routing_int_def)
  have kind: "selection_kind_of (PyStr (dc_selection_kind d)) = Inr (dc_selection_kind d)"
    using sel by (auto simp: selection_kind_of_def split: option.splits)
  have over: "(case rq_override_agent_id r of
       None \<Rightarrow> routing_require (dc_selection_kind d = ''automatic'') m
     | Some a \<Rightarrow> bindE (routing_require (dc_selection_kind d = ''operator_override'') m')
         (\<lambda>_. routing_require (PyStr (cd_agent_id (dc_selected d)) = PyStr a) m'')) = Inr ()" for m m' m''
    using sel by (auto simp: routing_require_def split: option.splits)
  have did: "routing_id (PyStr (dc_routing_decision_id d)) = Inr (dc_routing_decision_id d)"
    using sel routing_id_ok [OF assms(1), of "decision_body d"] by simp
  have chosen: "is_selected ?data (to_decision_dict (dc_selected d))"
    by (simp add: is_selected_def selected_pairs_def decision_body_def to_decision_dict_def)
  have reqs: "routing_require (length (map (PyDict \<circ> to_decision_dict) cs) \<le> MAX_CANDIDATES) m = Inr ()"
    "routing_require (map (PyDict \<circ> to_decision_dict) cs \<noteq> []) m = Inr ()"
    "routing_require (policy_ordered r (map to_decision_dict cs)) m = Inr ()"
    "routing_require (list_ex (is_selected ?data) (map to_decision_dict cs)) m = Inr ()"
    "routing_require (dc_selection_kind d \<noteq> ''automatic'' \<or>
        PyStr (cd_agent_id (dc_selected d)) = dget (hd (map to_decision_dict cs)) ''agent_id'') m = Inr ()" for m
    using sel policy_ordered_dicts [OF ok sorted] chosen
    by (auto simp: list_ex_iff to_decision_dict_def hd_map split: option.splits)
  have "is_ok (validate_routing_decision H r (routing_decision_to_dict d)) \<longleftrightarrow>
      is_ok (validate_candidates r [] (map (PyDict \<circ> to_decision_dict) cs))"
  proof (cases "validate_candidates r [] (map (PyDict \<circ> to_decision_dict) cs)")
    case (Inl x)
    show ?thesis unfolding validate_routing_decision_def routing_decision_to_dict_def as_dict.simps as_list.simps option.case
      g v kind over bindE_simps reqs Inl by (simp add: k routing_require_def)
  next
    case (Inr xs)
    then have xs: "xs = map to_decision_dict cs" using validate_candidates_dicts [OF ok dist, of "[]"] by simp
    show ?thesis unfolding validate_routing_decision_def routing_decision_to_dict_def as_dict.simps as_list.simps option.case
      g v kind over bindE_simps Inr xs reqs did using sel by (simp add: k routing_require_def)
  qed
  also have "\<dots> \<longleftrightarrow> list_all acceptable cs"
    using validate_candidates_dicts [OF ok dist, of "[]"] by (auto simp: is_ok_iff)
  finally show ?thesis by (simp add: acceptable_def list_all_iff)
qed

text \<open>
  C32: a decision that routing takes is accepted when its job is claimed exactly if every
  candidate comes from a catalog of version 1 or later and its host is a safe label. The catalog
  parser and the registration of hosts allow more, so such a job can never be claimed.
\<close>

theorem routed_decision_accepted:
  assumes "hexdigest_shape H" "no_catalog s0" "(catalog_step H)\<^sup>*\<^sup>* s0 s" "request_ok H r"
    "resolve_routing_candidates H tnow now s wid r = Inr cs" "select_routing_decision H r cs = Inr d"
  shows "is_ok (validate_routing_decision H r (routing_decision_to_dict d)) \<longleftrightarrow>
    (\<forall>c \<in> set cs. 1 \<le> cd_source_version c \<and> rlabel_ok 64 (cd_host_id c))"
  by (rule accepted_iff [OF assms])

text \<open>
  A routing request that was built is read back as it was built, whatever its arguments.
\<close>

theorem routing_request_roundtrip:
  assumes "hexdigest_shape H" "build_routing_request H required definition_id host_id override_id override_reason = Inr r"
  shows "parse_routing_request H (routing_request_to_dict r) = Inr r"
  using request_codec.decode_encode built_request_ok [OF assms(2)] assms(1) by blast

lemma validate_candidates_in:
  "validate_candidates r seen vs = Inr ds \<Longrightarrow> d \<in> set ds \<Longrightarrow> \<exists>v. validate_candidate r v = Inr d"
  by (induction vs arbitrary: seen ds) (auto split: if_splits, blast)

lemma routing_id_Inr: "routing_id v = Inr s \<longleftrightarrow> v = PyStr s \<and> re_match digest_body s"
  by (auto simp: routing_id_def split: option.splits)

lemma validate_candidate_labels:
  assumes "validate_candidate r v = Inr cand"
  shows "\<exists>agent host binding. dget cand ''agent_id'' = PyStr agent \<and> dget cand ''host_id'' = PyStr host \<and>
    dget cand ''binding_id'' = PyStr binding"
  using assms unfolding validate_candidate_def
  by (auto simp: routing_label_Inr routing_id_Inr split: option.splits if_splits)

lemma validated_decision_same: "validate_routing_decision H r (PyDict d) = Inr d' \<Longrightarrow> d' = d"
  unfolding validate_routing_decision_def
  by (cases "as_list (dget d ''eligible_candidates'')") (auto split: if_splits)

lemma decision_parts:
  assumes "validate_routing_decision H r v = Inr d"
  shows "\<exists>vs parsed. validate_candidates r [] vs = Inr parsed \<and> list_ex (is_selected d) parsed"
proof -
  from assms obtain d' where d': "v = PyDict d'" by (auto simp: validate_routing_decision_def split: option.splits)
  with assms show ?thesis unfolding validate_routing_decision_def
    by (cases "as_list (dget d' ''eligible_candidates'')") (auto split: if_splits, blast+)
qed

text \<open>
  Evidence of routing is given only for a job whose agent, runner profile, workspace and
  task, and whose stored binding and context agree with the selected candidate.
\<close>

theorem routing_evidence_binds:
  assumes "routing_claim_evidence H payload j = Inr (e # es)"
  shows "\<exists>r d b c agent host. parse_routing_request H (dget payload ''routing_request'') = Inr r \<and>
    validate_routing_decision H r (dget payload ''routing_decision'') = Inr d \<and>
    dget payload ''executor_binding'' = PyDict b \<and> dget payload ''execution_context'' = PyDict c \<and>
    jb_assigned_agent j = Some agent \<and> dget d ''selected_agent_id'' = PyStr agent \<and> dget d ''selected_host_id'' = PyStr host \<and>
    dget b ''executor_instance_id'' = PyStr agent \<and> dget b ''binding_id'' = dget d ''selected_binding_id'' \<and>
    dget c ''assigned_agent'' = PyStr agent \<and> dget c ''host_id'' = PyStr host \<and> dget c ''job_id'' = PyStr (jb_id j) \<and>
    dget c ''workspace_id'' = opt_str (jb_workspace_id j) \<and> dget c ''task_id'' = opt_str (jb_task_id j)"
proof -
  from assms obtain r d where r: "parse_routing_request H (dget payload ''routing_request'') = Inr r"
    "validate_routing_decision H r (dget payload ''routing_decision'') = Inr d"
    "validate_routing_cross_links d j (dget payload ''executor_binding'') (dget payload ''execution_context'') = Inr ()"
    unfolding routing_claim_evidence_def Let_def by (auto split: if_splits)
  from r(3) obtain chosen b c where x: "dget payload ''executor_binding'' = PyDict b" "dget payload ''execution_context'' = PyDict c"
    "links_to_binding d chosen b = Inr ()" "links_to_context d j c = Inr ()"
    "opt_str (jb_assigned_agent j) = dget d ''selected_agent_id''"
    unfolding validate_routing_cross_links_def by (auto split: option.splits)
  from decision_parts [OF r(2)] obtain vs parsed where "validate_candidates r [] vs = Inr parsed" "list_ex (is_selected d) parsed"
    by blast
  then obtain cand v where "is_selected d cand" "validate_candidate r v = Inr cand"
    using validate_candidates_in unfolding list_ex_iff by blast
  then obtain agent host binding where s: "dget d ''selected_agent_id'' = PyStr agent" "dget d ''selected_host_id'' = PyStr host"
    "dget d ''selected_binding_id'' = PyStr binding"
    using validate_candidate_labels [of r v cand] by (auto simp: is_selected_def selected_pairs_def)
  from x(3) have b: "py_eq (dget b ''binding_id'') (PyStr binding)" "py_eq (dget b ''executor_instance_id'') (PyStr agent)"
    unfolding links_to_binding_def Let_def s by auto
  have str: "py_eq v (PyStr t) \<Longrightarrow> v = PyStr t" for v t by (cases v) (auto split: option.splits)
  from x(4) have c: "opt_str (jb_workspace_id j) = dget c ''workspace_id''" "opt_str (jb_task_id j) = dget c ''task_id''"
    "PyStr (jb_id j) = dget c ''job_id''" "dget c ''assigned_agent'' = PyStr agent" "dget c ''host_id'' = PyStr host"
    unfolding links_to_context_def Let_def s by auto
  from x(5) s(1) have "jb_assigned_agent j = Some agent" by simp
  with r(1,2) x(1,2) s c str [OF b(1)] str [OF b(2)] show ?thesis by metis
qed

section \<open>Witnesses\<close>

definition route_base :: db where
  "route_base = base_db\<lparr>
     db_workspaces := [sample_ws],
     db_agents := [\<lparr>ag_id = ''a'', ag_name = ''a'', ag_role = None,
       ag_capabilities = PyDict [], ag_online_state = ''online'', ag_current_load = 0, ag_host_id = Some ''h1'',
       ag_client_type = Some ''agentd'', ag_last_seen_at = Some 100,
       ag_created_at = 1, ag_updated_at = 1\<rparr>],
     db_profiles := [\<lparr>pf_workspace_id = ''w1'', pf_host_id = ''h1'', pf_workspace_path = ''/srv/repo'', pf_harness_root = None,
       pf_worktree_roots = None, pf_created_at = 1, pf_updated_at = 1\<rparr>],
     db_registry := [\<lparr>rg_workspace_id = ''w1'', rg_agent_name = ''a'', rg_entry_kind = ''authoritative'',
       rg_discord_user_id = ''42'', rg_display_name = ''A'', rg_agent_type = ''agent'', rg_actor = None, rg_reason = None,
       rg_expires_at = None, rg_created_at = 1, rg_updated_at = 1\<rparr>]\<rparr>"

definition route_db :: db where
  "route_db = route_base\<lparr>db_catalog_sources := [source_row_of 5 None (sample_catalog ctx_H)],
     db_definitions := map (definition_row_of 5 ''cat'') (ec_definitions (sample_catalog ctx_H)),
     db_instances := map (instance_row_of 5 ''cat'') (ec_bindings (sample_catalog ctx_H))\<rparr>"

lemma sample_route_synced:
  "sync_executor_catalog 5 (sample_catalog ctx_H) None route_base =
     Inr (\<lparr>cr_changed = True, cr_definitions = ([''e''], [], [], []), cr_bindings = ([''a''], [], [], [])\<rparr>, route_db)"
  by code_simp

definition sample_request :: routing_request where
  "sample_request =
     (let r = \<lparr>rq_required_capabilities = [''go''], rq_executor_definition_id = None, rq_preferred_host_id = Some ''h1'',
        rq_override_agent_id = None, rq_override_reason = None, rq_routing_request_id = []\<rparr>
      in r\<lparr>rq_routing_request_id := compute_routing_id ctx_H (request_body r)\<rparr>)"

lemma sample_request_built:
  "build_routing_request ctx_H (PyList [PyStr ''go'', PyStr ''go'']) PyNone (PyStr ''h1'') PyNone PyNone = Inr sample_request"
  by code_simp

definition sample_candidate :: candidate where
  "sample_candidate =
     (let h = replicate 64 (CHR ''a'') in
      \<lparr>cd_agent_id = ''a'', cd_host_id = ''h1'', cd_runner_profile_id = ''a'', cd_executor_definition_id = ''e'',
       cd_binding_id = ''sha256:'' @ h, cd_source_id = ''cat'', cd_source_version = 1, cd_catalog_hash = h,
       cd_capabilities = [''go'', ''py''], cd_online_state = ''online'', cd_last_seen_at = Some 100, cd_routing_load = 0,
       cd_binding_snapshot =
         [(''contract_version'', PyInt 1), (''source_id'', PyStr ''cat''), (''source_version'', PyInt 1), (''catalog_hash'', PyStr h),
          (''executor_definition_id'', PyStr ''e''), (''executor_instance_id'', PyStr ''a''), (''runner_profile_id'', PyStr ''a''),
          (''provider'', PyStr ''p''), (''adapter'', PyStr ''x''), (''capabilities'', PyList [PyStr ''go'', PyStr ''py'']),
          (''binding_id'', PyStr (''sha256:'' @ h))],
       cd_host_rank = 0, cd_preferred_host = True\<rparr>)"

lemma sample_candidates:
  "resolve_routing_candidates ctx_H 100 110 route_db ''w1'' sample_request = Inr [sample_candidate]"
  by code_simp

definition sample_decision :: routing_decision where
  "sample_decision =
     (let d = \<lparr>dc_routing_request_id = rq_routing_request_id sample_request, dc_routing_decision_id = [],
        dc_selection_kind = ''automatic'', dc_selected = sample_candidate, dc_eligible_candidates = [sample_candidate]\<rparr>
      in d\<lparr>dc_routing_decision_id := compute_routing_id ctx_H (decision_body d)\<rparr>)"

lemma sample_selected: "select_routing_decision ctx_H sample_request [sample_candidate] = Inr sample_decision"
  by (simp add: select_routing_decision_def sample_decision_def sample_request_def Let_def MAX_CANDIDATES_def)

lemma route_inv: "no_catalog route_base" "catalog_inv route_base" "catalog_inv route_db"
proof -
  show no: "no_catalog route_base" by (simp add: no_catalog_def route_base_def base_db_def empty_db_def)
  then show base: "catalog_inv route_base" by (rule catalog_system.inv_start)
  from sync_catalog_Inr [OF sample_route_synced] have "apply_catalog 5 (sample_catalog ctx_H) None route_base = Inr route_db" by simp
  from apply_catalog_rows [OF this base sample_cat_ok] show "catalog_inv route_db" ..
qed

theorem routing_selects_best_witness:
  "dc_selected sample_decision \<in> set (dc_eligible_candidates sample_decision) \<and>
     (\<exists>effective. resolve_effective_agents 100 route_db ''w1'' = Inr effective \<and>
        {c. \<exists>b. eligible ctx_H 110 route_db ''w1'' (map fst effective) sample_request b c} = {sample_candidate})"
proof -
  have d: "dc_eligible_candidates sample_decision = [sample_candidate]" by (simp add: sample_decision_def Let_def)
  from routing_selects_best [OF route_inv(3) sample_candidates sample_selected] show ?thesis unfolding d by auto
qed

theorem routed_decision_accepted_witness:
  "is_ok (validate_routing_decision ctx_H sample_request (routing_decision_to_dict sample_decision))"
proof -
  have run: "(catalog_step ctx_H)\<^sup>*\<^sup>* route_base route_db"
    by (rule r_into_rtranclp) (rule catalog_step.sync [OF sample_cat_ok sample_route_synced])
  have "rlabel_ok 64 ''h1''" by code_simp
  then show ?thesis
    using routed_decision_accepted [OF hexdigest_ctx_H route_inv(1) run built_request_ok [OF sample_request_built]
        sample_candidates sample_selected]
    by (simp add: sample_candidate_def Let_def)
qed

theorem routing_request_roundtrip_witness:
  "parse_routing_request ctx_H (routing_request_to_dict sample_request) = Inr sample_request"
  by (rule routing_request_roundtrip [OF hexdigest_ctx_H sample_request_built])

definition routed_payload :: fields where
  "routed_payload =
     [(''routing_request'', routing_request_to_dict sample_request), (''routing_decision'', routing_decision_to_dict sample_decision),
      (''executor_binding'', PyDict (cd_binding_snapshot sample_candidate)),
      (''execution_context'', PyDict [(''job_id'', PyStr ''j''), (''workspace_id'', PyStr ''w1''), (''task_id'', PyStr ''T1''),
         (''assigned_agent'', PyStr ''a''), (''host_id'', PyStr ''h1'')])]"

definition routed_job :: job_row where
  "routed_job = \<lparr>jb_id = ''j'', jb_workspace_id = Some ''w1'', jb_task_id = Some ''T1'', jb_runner_profile_id = Some ''a'',
     jb_assigned_agent = Some ''a'', jb_status = ''pending'', jb_prompt_path = None, jb_branch = None, jb_worktree_path = None,
     jb_terminal_session_id = None, jb_logs_path = None, jb_attempt_count = 0, jb_timeout_seconds = None,
     jb_payload_json = Some (PyDict routed_payload), jb_result_json = None, jb_created_at = 1, jb_started_at = None,
     jb_completed_at = None, jb_last_activity_at = None, jb_progress_json = None, jb_recoverable = False, jb_updated_at = 1\<rparr>"

lemma sample_accepted:
  "validate_routing_decision ctx_H sample_request (routing_decision_to_dict sample_decision) =
     Inr (decision_body sample_decision @ [(''routing_decision_id'', PyStr (dc_routing_decision_id sample_decision))])"
proof -
  have run: "(catalog_step ctx_H)\<^sup>*\<^sup>* route_base route_db"
    by (rule r_into_rtranclp) (rule catalog_step.sync [OF sample_cat_ok sample_route_synced])
  have "rlabel_ok 64 ''h1''" by code_simp
  then obtain d where "validate_routing_decision ctx_H sample_request (routing_decision_to_dict sample_decision) = Inr d"
    using accepted_iff [OF hexdigest_ctx_H route_inv(1) run built_request_ok [OF sample_request_built] sample_candidates sample_selected]
    by (auto simp: sample_candidate_def Let_def is_ok_iff)
  with validated_decision_same [of ctx_H sample_request] show ?thesis by (auto simp: routing_decision_to_dict_def)
qed

lemma sample_evidence:
  "routing_claim_evidence ctx_H routed_payload routed_job =
     Inr ((''routing_request_id'', PyStr (rq_routing_request_id sample_request)) #
       [(''routing_decision_id'', PyStr (dc_routing_decision_id sample_decision)), (''selection_kind'', PyStr ''automatic'')])"
proof -
  have p: "parse_routing_request ctx_H (routing_request_to_dict sample_request) = Inr sample_request"
    by (rule parse_request_dict [OF hexdigest_ctx_H built_request_ok [OF sample_request_built]])
  have g: "dget routed_payload ''routing_request'' = routing_request_to_dict sample_request"
    "dget routed_payload ''routing_decision'' = routing_decision_to_dict sample_decision"
    "dget routed_payload ''executor_binding'' = PyDict (cd_binding_snapshot sample_candidate)"
    "routing_request_to_dict sample_request \<noteq> PyNone" "routing_decision_to_dict sample_decision \<noteq> PyNone"
    by (simp_all add: routed_payload_def routing_request_to_dict_def routing_decision_to_dict_def)
  have l: "validate_routing_cross_links
      (decision_body sample_decision @ [(''routing_decision_id'', PyStr (dc_routing_decision_id sample_decision))]) routed_job
      (dget routed_payload ''executor_binding'') (dget routed_payload ''execution_context'') = Inr ()"
    by (simp add: validate_routing_cross_links_def routed_payload_def decision_body_def sample_decision_def Let_def routed_job_def
        decision_candidates_def to_decision_dict_def sample_candidate_def links_to_binding_def links_to_context_def routing_require_def)
  have c: "dget routed_payload ''execution_context'' \<noteq> PyNone" by (simp add: routed_payload_def)
  have "dc_selection_kind sample_decision = ''automatic''" by (simp add: sample_decision_def Let_def)
  then show ?thesis using l c unfolding routing_claim_evidence_def Let_def by (simp add: g p sample_accepted) (simp add: decision_body_def)
qed

theorem routing_evidence_binds_witness:
  "\<exists>d b. dget routed_payload ''executor_binding'' = PyDict b \<and> dget d ''selected_agent_id'' = PyStr ''a'' \<and>
     dget b ''binding_id'' = dget d ''selected_binding_id''"
  using routing_evidence_binds [OF sample_evidence] by (auto simp: routed_job_def)
end
