(* ===== verification/AgentReport.thy ===== *)
theory AgentReport
  imports PyValues
begin

text \<open>
  The \<^verbatim>\<open>[agent-report]\<close> block of a message (\<^verbatim>\<open>agent_report.py\<close>), with \<open>shlex.split\<close>, \<open>str.splitlines\<close> and
  the two regular expressions of the module written out on ASCII. The warnings that the parser logs
  are left out.
\<close>

section \<open>Words\<close>

text \<open>
  \<open>shlex.split\<close> (POSIX mode, splitting on white space). The states are those of \<open>read_token\<close>: between
  words, in a word, inside a quote, and after a backslash, where the state to return to is kept.
  \<open>quoted\<close> says that the word had a quote, so it counts although it is empty.
\<close>

datatype sh_state = Between | InWord | InQuote char | Escaped sh_state

definition sh_white :: "char \<Rightarrow> bool" where
  "sh_white c = List.member [CHR '' '', CHR 0x09, CHR 0x0D, CHR 0x0A] c"

definition sh_quote :: "char \<Rightarrow> bool" where
  "sh_quote c = List.member [CHR 0x27, CHR 0x22] c"

definition sh_flush :: "string \<Rightarrow> bool \<Rightarrow> string list \<Rightarrow> string list" where
  "sh_flush token quoted ws = (if token \<noteq> [] \<or> quoted then token # ws else ws)"

fun shlex_go :: "sh_state \<Rightarrow> string \<Rightarrow> bool \<Rightarrow> string \<Rightarrow> string list result" where
  "shlex_go (InQuote q) token quoted [] = raise ValueErr ''No closing quotation''"
| "shlex_go (Escaped st) token quoted [] = raise ValueErr ''No escaped character''"
| "shlex_go st token quoted [] = Inr (sh_flush token quoted [])"
| "shlex_go Between token quoted (c # cs) =
     (if sh_white c then shlex_go Between token quoted cs
      else if c = CHR 0x5C then shlex_go (Escaped InWord) token quoted cs
      else if sh_quote c then shlex_go (InQuote c) token quoted cs
      else shlex_go InWord [c] quoted cs)"
| "shlex_go (InQuote q) token quoted (c # cs) =
     (if c = q then shlex_go InWord token True cs
      else if c = CHR 0x5C \<and> q = CHR 0x22 then shlex_go (Escaped (InQuote q)) token True cs
      else shlex_go (InQuote q) (token @ [c]) True cs)"
| "shlex_go (Escaped st) token quoted (c # cs) =
     shlex_go st (token @ (case st of InQuote q \<Rightarrow> if c \<noteq> CHR 0x5C \<and> c \<noteq> q then [CHR 0x5C, c] else [c] | _ \<Rightarrow> [c])) quoted cs"
| "shlex_go InWord token quoted (c # cs) =
     (if sh_white c then bindE (shlex_go Between [] False cs) (\<lambda>ws. Inr (sh_flush token quoted ws))
      else if sh_quote c then shlex_go (InQuote c) token quoted cs
      else if c = CHR 0x5C then shlex_go (Escaped InWord) token quoted cs
      else shlex_go InWord (token @ [c]) quoted cs)"

definition shlex_split :: "string \<Rightarrow> string list result" where
  "shlex_split s = shlex_go Between [] False s"

definition normal_key :: "string \<Rightarrow> string" where
  "normal_key k = replace_ch (CHR ''-'') (CHR ''_'') (lower (strip k))"

text \<open>The dict of the fields, its latest entry first.\<close>

fun key_values :: "(string \<times> string) list \<Rightarrow> string list \<Rightarrow> (string \<times> string) list" where
  "key_values acc [] = acc"
| "key_values acc (p # ps) =
     (if \<not> List.member p (CHR ''='') then key_values acc ps
      else
        let key = normal_key (takeWhile (\<lambda>c. c \<noteq> CHR ''='') p); value = strip (tl (dropWhile (\<lambda>c. c \<noteq> CHR ''='') p))
        in key_values (if key = [] then acc else (key, value) # acc) ps)"

definition parse_key_values :: "string \<Rightarrow> (string \<times> string) list" where
  "parse_key_values s = (case shlex_split s of Inl _ \<Rightarrow> [] | Inr parts \<Rightarrow> key_values [] parts)"

definition field_or_empty :: "(string \<times> string) list \<Rightarrow> string \<Rightarrow> string" where
  "field_or_empty fs k = (case map_of fs k of None \<Rightarrow> [] | Some v \<Rightarrow> v)"

section \<open>Blocks\<close>

definition line_break :: "char \<Rightarrow> bool" where
  "line_break c = List.member [CHR 0x0A, CHR 0x0B, CHR 0x0C, CHR 0x0D, CHR 0x1C, CHR 0x1D, CHR 0x1E] c"

definition skip_lf :: "char \<Rightarrow> string \<Rightarrow> string" where
  "skip_lf c cs = (if c = CHR 0x0D \<and> cs \<noteq> [] \<and> hd cs = CHR 0x0A then tl cs else cs)"

lemma skip_lf_length [simp]: "length (skip_lf c cs) < Suc (length cs)"
  by (auto simp: skip_lf_def intro: le_less_trans [OF diff_le_self])

function splitlines :: "string \<Rightarrow> string list" where
  "splitlines [] = []"
| "splitlines (c # cs) =
     (if line_break c then [] # splitlines (skip_lf c cs)
      else case splitlines cs of [] \<Rightarrow> [[c]] | w # ws \<Rightarrow> (c # w) # ws)"
  by pat_completeness auto
termination by (relation "measure length") simp_all

definition REPORT_TAGS :: "string list" where
  "REPORT_TAGS = [''agent-report'', ''accept'', ''accepted'', ''handoff-received'', ''done'', ''blocker'', ''progress'']"

definition bracketed :: "string \<Rightarrow> string" where
  "bracketed t = CHR ''['' # t @ '']''"

text \<open>The tag that a line starts with, in lower case, and the text after it.\<close>

definition leading_tag :: "string \<Rightarrow> (string \<times> string) option" where
  "leading_tag s =
     (case find (\<lambda>t. startswith (lower s) (bracketed t)) REPORT_TAGS of
        None \<Rightarrow> None | Some t \<Rightarrow> Some (t, drop (length t + 2) s))"

text \<open>\<open>_TAG_RE\<close>.\<close>

definition is_tag_line :: "string \<Rightarrow> bool" where
  "is_tag_line s = (case leading_tag s of None \<Rightarrow> False | Some (t, rest) \<Rightarrow> rest = [] \<or> is_space (hd rest))"

definition key_char :: "char \<Rightarrow> bool" where
  "key_char c = (is_alpha c \<or> is_digit c \<or> c = CHR ''_'' \<or> c = CHR ''-'')"

definition is_field_line :: "string \<Rightarrow> bool" where
  "is_field_line s = (s \<noteq> [] \<and> (is_alpha (hd s) \<or> hd s = CHR ''_'') \<and>
     (case dropWhile key_char (tl s) of [] \<Rightarrow> False | c # _ \<Rightarrow> c = CHR ''=''))"

fun continuation_lines :: "string list \<Rightarrow> string list" where
  "continuation_lines [] = []"
| "continuation_lines (l # ls) =
     (let s = strip l in
      if s = [] \<or> is_tag_line s \<or> \<not> is_field_line s then [] else s # continuation_lines ls)"

text \<open>The fields after the tag of a block.\<close>

definition block_fields :: "string \<Rightarrow> (string \<times> string) list" where
  "block_fields rest = parse_key_values (dropWhile is_space rest)"

definition tag_action :: "string \<Rightarrow> (string \<times> string) list \<Rightarrow> string" where
  "tag_action tag fs =
     (if tag = ''agent-report'' then lower (field_or_empty fs ''action'')
      else if List.member [''accept'', ''accepted'', ''handoff-received''] tag then ''accept''
      else tag)"

fun extract_from :: "string option \<Rightarrow> string list \<Rightarrow> string option" where
  "extract_from acc [] = acc"
| "extract_from acc (l # ls) =
     (let s = strip l in
      if \<not> is_tag_line s then extract_from acc ls
      else
        let candidate = join_ch (CHR 0x0A) (s # continuation_lines ls)
        in case leading_tag candidate of
             None \<Rightarrow> extract_from acc ls
           | Some (tag, rest) \<Rightarrow>
               let fs = block_fields rest; action = tag_action tag fs
               in if List.member [''accept'', ''done'', ''blocker'', ''progress''] action
                     \<or> map_of fs ''decision'' = Some ''approve'' \<or> map_of fs ''decision'' = Some ''reject''
                  then if action \<noteq> ''accept'' then Some candidate
                       else extract_from (if acc = None then Some candidate else acc) ls
                  else extract_from acc ls)"

definition extract_agent_report_block :: "string \<Rightarrow> string option" where
  "extract_agent_report_block txt = extract_from None (splitlines (strip txt))"

section \<open>Reports\<close>

record agent_report =
  ar_action :: string
  ar_workspace_id :: string
  ar_task_id :: string
  ar_reason :: "string option"
  ar_summary :: "string option"
  ar_repo :: "string option"
  ar_branch :: "string option"
  ar_commit :: "string option"
  ar_remote :: "string option"
  ar_pushed :: "bool option"
  ar_validation :: "string option"
  ar_decision :: "string option"

definition parse_bool_field :: "string option \<Rightarrow> bool option" where
  "parse_bool_field v =
     (case v of
        None \<Rightarrow> None
      | Some s \<Rightarrow> if lower (strip s) = ''true'' then Some True
                  else if lower (strip s) = ''false'' then Some False else None)"

definition blank :: "string option \<Rightarrow> bool" where
  "blank v = (v = None \<or> v = Some [])"

text \<open>\<open>v or fallback\<close>, where one of the two is not blank.\<close>

definition or_fallback :: "string option \<Rightarrow> string option \<Rightarrow> string" where
  "or_fallback v f = (case v of Some (c # cs) \<Rightarrow> c # cs | _ \<Rightarrow> (case f of Some x \<Rightarrow> x | None \<Rightarrow> []))"

definition parse_agent_report :: "string \<Rightarrow> string option \<Rightarrow> string option \<Rightarrow> agent_report option" where
  "parse_agent_report txt fallback_workspace_id fallback_task_id =
     (if txt = [] then None
      else case extract_agent_report_block txt of
        None \<Rightarrow> None
      | Some block \<Rightarrow>
          (case leading_tag block of
             None \<Rightarrow> None
           | Some (tag, rest) \<Rightarrow>
               let fs = block_fields rest;
                   decision = lower (field_or_empty fs ''decision'');
                   decided = decision = ''approve'' \<or> decision = ''reject'';
                   action = (if decided then ''review_decision'' else tag_action tag fs);
                   workspace_id = map_of fs ''workspace_id''; task_id = map_of fs ''task_id''
               in if \<not> List.member [''accept'', ''done'', ''blocker'', ''progress'', ''review_decision''] action then None
                  else if (blank workspace_id \<or> blank task_id) \<and> (blank fallback_workspace_id \<or> blank fallback_task_id) then None
                  else Some \<lparr>ar_action = action, ar_workspace_id = or_fallback workspace_id fallback_workspace_id,
                         ar_task_id = or_fallback task_id fallback_task_id,
                         ar_reason = map_of fs ''reason'', ar_summary = map_of fs ''summary'', ar_repo = map_of fs ''repo'',
                         ar_branch = map_of fs ''branch'', ar_commit = map_of fs ''commit'', ar_remote = map_of fs ''remote'',
                         ar_pushed = parse_bool_field (map_of fs ''pushed''), ar_validation = map_of fs ''validation'',
                         ar_decision = (if decided then Some decision else None)\<rparr>))"

section \<open>What a report needs\<close>

text \<open>The action of a block and its decision as \<open>extract_agent_report_block\<close> reads them.\<close>

definition signals :: "string \<Rightarrow> bool" where
  "signals b \<longleftrightarrow> (\<exists>tag rest. leading_tag b = Some (tag, rest) \<and>
     (tag_action tag (block_fields rest) \<in> {''accept'', ''done'', ''blocker'', ''progress''} \<or>
      map_of (block_fields rest) ''decision'' \<in> {Some ''approve'', Some ''reject''}))"

lemma extract_from_signals:
  "extract_from acc ls = Some b \<Longrightarrow> acc = Some b \<or> (\<exists>l \<in> set ls. is_tag_line (strip l)) \<and> signals b"
proof (induction ls arbitrary: acc)
  case (Cons l ls)
  let ?c = "join_ch (CHR 0x0A) (strip l # continuation_lines ls)"
  show ?case
  proof (cases "is_tag_line (strip l)")
    case False
    with Cons show ?thesis by (auto simp: Let_def)
  next
    case tagged: True
    show ?thesis
    proof (cases "leading_tag ?c")
      case None
      with Cons tagged show ?thesis by (auto simp: Let_def)
    next
      case (Some x)
      obtain tag rest where x: "x = (tag, rest)" by (cases x)
      have e: "extract_from acc ls = Some b \<or> ?c = b \<and> signals b \<or>
          extract_from (if acc = None then Some ?c else acc) ls = Some b \<and> signals ?c"
        using Cons.prems tagged Some x by (auto simp: Let_def signals_def split: if_splits)
      with Cons.IH [of acc] Cons.IH [of "if acc = None then Some ?c else acc"] tagged show ?thesis
        by (auto split: if_splits)
    qed
  qed
qed simp

definition report_actions :: "string list" where
  "report_actions = [''accept'', ''done'', ''blocker'', ''progress'', ''review_decision'']"

lemma parse_report_cases:
  assumes "parse_agent_report txt fw ft = Some r"
  shows "\<exists>block tag rest. extract_agent_report_block txt = Some block \<and> leading_tag block = Some (tag, rest) \<and>
    (let fs = block_fields rest; d = lower (field_or_empty fs ''decision''); decided = d = ''approve'' \<or> d = ''reject'' in
       ar_action r = (if decided then ''review_decision'' else tag_action tag fs) \<and> ar_action r \<in> set report_actions \<and>
       ar_decision r = (if decided then Some d else None) \<and>
       \<not> ((blank (map_of fs ''workspace_id'') \<or> blank (map_of fs ''task_id'')) \<and> (blank fw \<or> blank ft)) \<and>
       ar_workspace_id r = or_fallback (map_of fs ''workspace_id'') fw \<and> ar_task_id r = or_fallback (map_of fs ''task_id'') ft)"
proof -
  from assms obtain block where b: "extract_agent_report_block txt = Some block"
    by (auto simp: parse_agent_report_def split: if_splits option.splits)
  with assms obtain tag rest where t: "leading_tag block = Some (tag, rest)"
    by (auto simp: parse_agent_report_def split: if_splits option.splits)
  have "txt \<noteq> []" using assms by (auto simp: parse_agent_report_def)
  from assms [unfolded parse_agent_report_def] b t this show ?thesis
    by (simp add: Let_def report_actions_def split: if_splits) auto
qed

lemma or_fallback_ne: "\<not> blank v \<or> \<not> blank f \<Longrightarrow> or_fallback v f \<noteq> []"
  by (auto simp: blank_def or_fallback_def split: option.splits list.splits)

lemma lower_fixed: "lower ''approve'' = ''approve''" "lower ''reject'' = ''reject''"
  by code_simp+

text \<open>
  Text is a report only if one of its lines starts with a tag, so prose that mentions a tag
  inside a line is never a signal; a report then has a known action, names a workspace and a task,
  and its action is a review decision exactly if it carries one.
\<close>

theorem report_is_signalled:
  assumes "parse_agent_report txt fw ft = Some r"
  shows "(\<exists>l \<in> set (splitlines (strip txt)). is_tag_line (strip l)) \<and> ar_action r \<in> set report_actions \<and>
    ar_workspace_id r \<noteq> [] \<and> ar_task_id r \<noteq> [] \<and>
    (ar_decision r \<in> {Some ''approve'', Some ''reject''} \<longleftrightarrow> ar_action r = ''review_decision'')"
proof -
  from parse_report_cases [OF assms] obtain block tag rest where b: "extract_agent_report_block txt = Some block"
    "leading_tag block = Some (tag, rest)" and r: "let fs = block_fields rest; d = lower (field_or_empty fs ''decision'');
       decided = d = ''approve'' \<or> d = ''reject'' in
       ar_action r = (if decided then ''review_decision'' else tag_action tag fs) \<and> ar_action r \<in> set report_actions \<and>
       ar_decision r = (if decided then Some d else None) \<and>
       \<not> ((blank (map_of fs ''workspace_id'') \<or> blank (map_of fs ''task_id'')) \<and> (blank fw \<or> blank ft)) \<and>
       ar_workspace_id r = or_fallback (map_of fs ''workspace_id'') fw \<and> ar_task_id r = or_fallback (map_of fs ''task_id'') ft"
    by blast
  from extract_from_signals [OF b(1) [unfolded extract_agent_report_block_def]]
  have s: "\<exists>l \<in> set (splitlines (strip txt)). is_tag_line (strip l)" "signals block" by simp_all
  from s(2) b(2) have act: "tag_action tag (block_fields rest) = ''review_decision'' \<Longrightarrow>
      map_of (block_fields rest) ''decision'' \<in> {Some ''approve'', Some ''reject''}"
    by (auto simp: signals_def)
  then have "tag_action tag (block_fields rest) = ''review_decision'' \<Longrightarrow>
      lower (field_or_empty (block_fields rest) ''decision'') \<in> {''approve'', ''reject''}"
    by (auto simp: field_or_empty_def lower_fixed)
  moreover have "ar_workspace_id r \<noteq> []" "ar_task_id r \<noteq> []"
    using r by (auto simp: Let_def intro!: or_fallback_ne)
  ultimately show ?thesis using s(1) r by (auto simp: Let_def)
qed

theorem report_is_signalled_witness:
  "\<exists>r. parse_agent_report ''[agent-report] decision=approve'' (Some ''w'') (Some ''t'') = Some r \<and>
     ar_action r \<in> set report_actions \<and> ar_decision r = Some ''approve''"
proof -
  have "map_option ar_decision (parse_agent_report ''[agent-report] decision=approve'' (Some ''w'') (Some ''t'')) = Some (Some ''approve'')"
    by code_simp
  then obtain r where r: "parse_agent_report ''[agent-report] decision=approve'' (Some ''w'') (Some ''t'') = Some r"
    "ar_decision r = Some ''approve''" by auto
  from report_is_signalled [OF r(1)] r show ?thesis by blast
qed

text \<open>
  The parser lower-cases the decision of a block, but the block is picked by the decision as it
  is written: a block whose only signal is a decision with a capital letter is no report at all.
\<close>

theorem capital_decision_lost:
  "map_option ar_decision (parse_agent_report ''[agent-report] decision=reject'' (Some ''w'') (Some ''t'')) = Some (Some ''reject'') \<and>
   parse_agent_report ''[agent-report] decision=Reject'' (Some ''w'') (Some ''t'') = None \<and>
   map_option ar_decision (parse_agent_report ''[agent-report] action=done decision=Reject'' (Some ''w'') (Some ''t'')) = Some (Some ''reject'')"
  by code_simp

end
