(* ===== verification/RuntimeLease.thy ===== *)
theory RuntimeLease
  imports JobSafety Routing AgentReport
begin

text \<open>
  The orchestration of leases (\<^verbatim>\<open>runtime_lease.py\<close>): the atomic claim of a job by a typed agent, the
  expiry of due leases, the authority that a change of a running job needs, the renewal, and the
  events and the delivery of a finished job. What comes from outside (clock readings, UUIDs) is an
  argument: a \<open>stamp\<close> is the UUID and the clock reading of one \<open>append_event\<close>.
\<close>

type_synonym stamp = "string \<times> timestamp"

definition append_with :: "stamp \<Rightarrow> string \<Rightarrow> new_event \<Rightarrow> db \<Rightarrow> ((event_row \<times> bool) \<times> db) result" where
  "append_with u key e s = append_event (fst u) (snd u) (Some key) e s"

text \<open>The event about a job; its workspace and task are those of the row that was read.\<close>

definition job_event :: "string \<Rightarrow> string \<Rightarrow> string option \<Rightarrow> job_row \<Rightarrow> fields \<Rightarrow> new_event" where
  "job_event event_type actor target j payload =
     \<lparr>ne_event_type = event_type, ne_actor = actor, ne_workspace_id = jb_workspace_id j, ne_target = target,
      ne_task_id = jb_task_id j, ne_causation_id = None, ne_payload = PyDict payload\<rparr>"

text \<open>An append succeeds under a fresh id and an existing workspace: the key only decides whether it is new.\<close>

lemma append_event_total:
  assumes "u \<notin> ev_id ` set (db_events s)" "workspace_fk s (ne_workspace_id a)"
  shows "is_ok (append_event u t k a s)"
proof (cases "list_ex (\<lambda>x. ev_idempotency_key x = event_key u k) (db_events s)")
  case True
  then have "get_event_by_idempotency_key s (event_key u k) \<noteq> None"
    by (auto simp: get_event_by_idempotency_key_def find_None_notin list_ex_iff)
  with True assms show ?thesis by (auto simp: append_event_def Let_def insert_event_def event_of_def list_ex_iff split: option.splits)
next
  case False
  with assms show ?thesis by (auto simp: append_event_def Let_def insert_event_def event_of_def list_ex_iff)
qed

lemma append_with_total:
  assumes "fst u \<notin> ev_id ` set (db_events s)" "workspace_fk s (jb_workspace_id j)"
  shows "\<exists>x s'. append_with u k (job_event ty ac tg j p) s = Inr (x, s')"
  using append_event_total [of "fst u" s "job_event ty ac tg j p"] assms
  by (auto simp: append_with_def job_event_def is_ok_iff)

text \<open>\<open>except Exception as exc: raise C(...) from exc\<close>.\<close>

definition reraise_all :: "exn_class \<Rightarrow> string \<Rightarrow> 'a result \<Rightarrow> 'a result" where
  "reraise_all c msg m = (case m of Inl _ \<Rightarrow> raise c msg | Inr x \<Rightarrow> Inr x)"

lemma reraise_all_Inr [simp]: "reraise_all c msg m = Inr x \<longleftrightarrow> m = Inr x"
  by (cases m) (auto simp: reraise_all_def)

section \<open>Validators\<close>

definition LEASE_CLAIM_SCAN_LIMIT :: nat where "LEASE_CLAIM_SCAN_LIMIT = 256"
definition RL_MAX_ID_LEN :: nat where "RL_MAX_ID_LEN = 128"
definition RL_MAX_REASON_LEN :: nat where "RL_MAX_REASON_LEN = 512"
definition LEASE_DEFAULT_TTL_SECONDS :: int where "LEASE_DEFAULT_TTL_SECONDS = 120"
definition LEASE_DEFAULT_RENEW_INTERVAL_SECONDS :: int where "LEASE_DEFAULT_RENEW_INTERVAL_SECONDS = 30"

text \<open>The body that \<open>_validate_id\<close> and \<open>_validate_reason\<close> have in common.\<close>

definition bounded_text :: "nat \<Rightarrow> pyval \<Rightarrow> string result" where
  "bounded_text max_len v =
     (case as_str v of
        None \<Rightarrow> raise RuntimeLeaseErr ''must be a non-blank string''
      | Some s \<Rightarrow>
          if s = [] then raise RuntimeLeaseErr ''must not be empty''
          else if s \<noteq> strip s then raise RuntimeLeaseErr ''must not have surrounding whitespace''
          else if length s > max_len then raise RuntimeLeaseErr ''exceeds characters''
          else if has_control s then raise RuntimeLeaseErr ''contains control characters''
          else Inr s)"

definition validate_id :: "pyval \<Rightarrow> string result" where
  "validate_id v = bounded_text RL_MAX_ID_LEN v"

definition validate_claim_reason :: "pyval \<Rightarrow> string result" where
  "validate_claim_reason v = bounded_text RL_MAX_REASON_LEN v"

definition validate_utc_timestamp :: "pyval \<Rightarrow> timestamp result" where
  "validate_utc_timestamp v =
     (case as_str v of
        None \<Rightarrow> raise RuntimeLeaseErr ''must be a UTC timestamp string''
      | Some s \<Rightarrow>
          if \<not> ts_body s then raise RuntimeLeaseErr ''must be exactly YYYY-MM-DDTHH:MM:SSZ in UTC''
          else case parse_iso s of
            None \<Rightarrow> raise RuntimeLeaseErr ''is not a valid UTC timestamp''
          | Some t \<Rightarrow> Inr t)"

definition validate_recovery_reason :: "pyval \<Rightarrow> string result" where
  "validate_recovery_reason v =
     (case as_str v of
        None \<Rightarrow> raise RuntimeLeaseErr ''recovery_reason must be a string''
      | Some s \<Rightarrow>
          let x = strip s in
          if x = [] then raise RuntimeLeaseErr ''recovery_reason must be non-empty''
          else if length x > 512 then raise RuntimeLeaseErr ''recovery_reason exceeds 512 characters''
          else if list_ex (\<lambda>c. (of_char c :: nat) < 32) x then raise RuntimeLeaseErr ''recovery_reason contains control characters''
          else Inr x)"

text \<open>The evidence is the reason; \<open>prior_process_stopped\<close> is then \<open>True\<close>.\<close>

definition validate_recovery_evidence :: "bool \<Rightarrow> pyval \<Rightarrow> pyval \<Rightarrow> string option result" where
  "validate_recovery_evidence recoverable recovery_reason prior_process_stopped =
     (if \<not> recoverable then Inr None
      else if recovery_reason = PyNone \<or> prior_process_stopped = PyNone
      then raise RuntimeLeaseErr ''managed recovery requires recovery_reason and prior_process_stopped''
      else if prior_process_stopped \<noteq> PyBool True
      then raise RuntimeLeaseErr ''managed recovery requires prior_process_stopped=True''
      else bindE (validate_recovery_reason recovery_reason) (\<lambda>r. Inr (Some r)))"

text \<open>The canonical policy: no reason for the global reap, \<open>Some\<close> reason for none.\<close>

definition validate_claim_reap_policy :: "pyval \<Rightarrow> pyval \<Rightarrow> string option result" where
  "validate_claim_reap_policy reap_mode reap_reason =
     (if reap_mode = PyStr ''global''
      then if reap_reason \<noteq> PyNone then raise RuntimeLeaseErr ''reap_reason must not be set with reap_mode=global'' else Inr None
      else if reap_mode = PyStr ''none''
      then if reap_reason = PyNone then raise RuntimeLeaseErr ''reap_reason is required with reap_mode=none''
           else bindE (validate_claim_reason reap_reason) (\<lambda>r. Inr (Some r))
      else raise RuntimeLeaseErr ''reap_mode must be global or none'')"

section \<open>The request marker\<close>

definition claim_request_digest ::
  "(string \<Rightarrow> string) \<Rightarrow> string \<Rightarrow> string \<Rightarrow> bool \<Rightarrow> pyval \<Rightarrow> pyval \<Rightarrow> pyval \<Rightarrow> pyval \<Rightarrow> pyval \<Rightarrow> string" where
  "claim_request_digest H agent_id host_id recoverable ttl recovery_reason stopped reap_mode reap_reason =
     H (json (PyDict
       [(''agent_id'', PyStr agent_id), (''host_id'', PyStr host_id), (''recoverable'', PyBool recoverable),
        (''ttl_seconds'', ttl), (''recovery_reason'', recovery_reason), (''prior_process_stopped'', stopped),
        (''reap_mode'', reap_mode), (''reap_reason'', reap_reason)]))"

definition claim_marker_key :: "(string \<Rightarrow> string) \<Rightarrow> string \<Rightarrow> string \<Rightarrow> string" where
  "claim_marker_key H agent_id claim_request_id =
     ''runtime:claim:'' @ H (json (PyList [PyStr agent_id, PyStr claim_request_id]))"

text \<open>\<open>claim_request_id\<close> and \<open>request_digest\<close> are given together or not at all.\<close>

definition append_claim_request_marker ::
  "(string \<Rightarrow> string) \<Rightarrow> stamp \<Rightarrow> string option \<Rightarrow> string option \<Rightarrow> job_row \<Rightarrow> string \<Rightarrow> int \<Rightarrow> string option \<Rightarrow> pyval \<Rightarrow> db \<Rightarrow> db result" where
  "append_claim_request_marker H u claim_request_id request_digest j agent_id attempt_token lease_id ttl s =
     (case claim_request_id of
        None \<Rightarrow> Inr s
      | Some cid \<Rightarrow>
          (case request_digest of
             None \<Rightarrow> raise RuntimeLeaseErr ''claim_request_id requires request_digest''
           | Some digest \<Rightarrow>
               bindE (append_with u (claim_marker_key H agent_id cid) (job_event ''job.claim_request'' agent_id (Some agent_id) j
                   [(''request_digest'', PyStr digest), (''agent_id'', PyStr agent_id), (''job_id'', PyStr (jb_id j)),
                    (''attempt_token'', PyInt attempt_token), (''lease_id'', opt_str lease_id), (''ttl'', ttl)]) s)
                 (\<lambda>((e, created), s').
                   if \<not> created then raise RuntimeLeaseErr ''claim replay: marker already exists'' else Inr s')))"

section \<open>Authority of a claim\<close>

record claim_authority =
  au_payload :: fields
  au_context :: execution_context
  au_resource_key :: string
  au_binding :: fields
  au_route :: fields

definition decode_typed_payload :: "job_row \<Rightarrow> fields result" where
  "decode_typed_payload j =
     (case jb_payload_json j of
        None \<Rightarrow> raise RuntimeLeaseErr ''job has no payload_json''
      | Some v \<Rightarrow> (case as_dict v of
          None \<Rightarrow> raise RuntimeLeaseErr ''job payload_json is not an object'' | Some d \<Rightarrow> Inr d))"

definition task_dict :: "task_row \<Rightarrow> fields" where
  "task_dict t =
     [(''workspace_id'', PyStr (tk_workspace_id t)), (''task_id'', PyStr (tk_task_id t)), (''phase'', opt_str (tk_phase t)),
      (''owner'', opt_str (tk_owner t)), (''branch'', opt_str (tk_branch t)), (''pr'', opt_str (tk_pr t)),
      (''last_event_id'', opt_str (tk_last_event_id t)), (''payload_json'', PyStr (json (tk_payload t))),
      (''updated_at'', PyStr (iso_of (tk_updated_at t)))]"

definition job_task :: "db \<Rightarrow> job_row \<Rightarrow> fields option result" where
  "job_task s j =
     (case or_str (jb_task_id j) None of
        None \<Rightarrow> Inr None
      | Some t \<Rightarrow>
          (case find (\<lambda>r. Some (tk_workspace_id r) = jb_workspace_id j \<and> tk_task_id r = t) (db_tasks s) of
             None \<Rightarrow> raise RuntimeLeaseErr ''task mirror not found'' | Some r \<Rightarrow> Inr (Some (task_dict r))))"

text \<open>\<open>payload.get("origin") if isinstance(payload.get("origin"), dict) else {}\<close>.\<close>

definition payload_origin :: "fields \<Rightarrow> pyval" where
  "payload_origin payload = PyDict (dict_of (dget payload ''origin''))"

definition resolve_claim_context ::
  "(string \<Rightarrow> string) \<Rightarrow> db \<Rightarrow> job_row \<Rightarrow> fields \<Rightarrow> string \<Rightarrow> string \<Rightarrow> execution_context result" where
  "resolve_claim_context H s j payload agent_id host_id =
     (case (case jb_workspace_id j of None \<Rightarrow> None | Some w \<Rightarrow> get_workspace s w) of
        None \<Rightarrow> raise RuntimeLeaseErr ''workspace not found''
      | Some ws \<Rightarrow>
          bindE (get_workspace_host_profile s (ws_id ws) host_id) (\<lambda>p.
          case p of
            None \<Rightarrow> raise RuntimeLeaseErr ''workspace has no host profile for host''
          | Some profile \<Rightarrow>
              bindE (job_task s j) (\<lambda>task.
              bindE (if dget payload ''execution_context'' = PyNone
                     then reraise ContextErr RuntimeLeaseErr ''cannot backfill execution context''
                       (resolve_execution_context_v1 H (jb_id j) ws task agent_id host_id profile (payload_origin payload)
                          (jb_branch j) (jb_worktree_path j) (jb_logs_path j))
                     else reraise ContextErr RuntimeLeaseErr ''invalid stored execution context''
                       (validate_execution_context_snapshot H (dget payload ''execution_context'') (Some (jb_id j))
                          (jb_workspace_id j) (jb_task_id j) (Some agent_id) (Some host_id))) (\<lambda>ctx.
              bindE (reraise ResourceIdentityErr RuntimeLeaseErr ''worktree containment policy rejected claim''
                       (check_worktree_containment_policy (ec_worktree_path ctx) (hp_workspace_path profile)
                          (hp_worktree_roots profile))) (\<lambda>_.
                Inr ctx)))))"

definition validate_job_binding :: "(string \<Rightarrow> string) \<Rightarrow> db \<Rightarrow> job_row \<Rightarrow> pyval \<Rightarrow> unit result" where
  "validate_job_binding H s j snapshot =
     (if snapshot = PyNone then raise RuntimeLeaseErr ''job has no executor_binding snapshot''
      else reraise_all RuntimeLeaseErr ''invalid executor binding'' (validate_stored_executor_binding H s snapshot j))"

definition validate_claim_authority ::
  "(string \<Rightarrow> string) \<Rightarrow> db \<Rightarrow> job_row \<Rightarrow> string \<Rightarrow> string \<Rightarrow> claim_authority result" where
  "validate_claim_authority H s j agent_id host_id =
     (if or_str (jb_runner_profile_id j) None = None then raise RuntimeLeaseErr ''job has no runner_profile_id''
      else
        bindE (decode_typed_payload j) (\<lambda>stored.
        bindE (resolve_claim_context H s j stored agent_id host_id) (\<lambda>ctx.
        let payload = (if dget stored ''execution_context'' = PyNone
                       then dset ''execution_context'' (to_dict ctx) stored else stored)
        in bindE (validate_job_binding H s j (dget payload ''executor_binding'')) (\<lambda>_.
           bindE (reraise RoutingErr RuntimeLeaseErr ''invalid routing claim evidence'' (routing_claim_evidence H payload j)) (\<lambda>route.
           bindE (reraise_all RuntimeLeaseErr ''invalid execution context'' (build_worktree_resource host_id (ec_worktree_path ctx))) (\<lambda>r.
             Inr \<lparr>au_payload = payload, au_context = ctx, au_resource_key = compute_resource_key H r,
                  au_binding = dict_of (dget payload ''executor_binding''), au_route = route\<rparr>))))))"

section \<open>Selection\<close>

text \<open>A candidate with its authority, or a reason, with the oldest candidate that a lease blocks.\<close>

datatype selection = Selected job_row claim_authority | NoJob string "(string \<times> string) option"

definition claimable :: "bool \<Rightarrow> string \<Rightarrow> job_row \<Rightarrow> bool" where
  "claimable recoverable agent_id j \<longleftrightarrow> jb_assigned_agent j = Some agent_id \<and>
     (jb_status j = ''pending'' \<or> recoverable \<and> jb_status j = ''timed_out'' \<and> jb_recoverable j)"

definition claim_queue :: "bool \<Rightarrow> string \<Rightarrow> db \<Rightarrow> job_row list" where
  "claim_queue recoverable agent_id s =
     sort_key (\<lambda>j. (jb_created_at j, jb_id j)) (filter (claimable recoverable agent_id) (db_jobs s))"

fun scan_candidates ::
  "(string \<Rightarrow> string) \<Rightarrow> db \<Rightarrow> string \<Rightarrow> string \<Rightarrow> (string \<times> string) option \<Rightarrow> string \<Rightarrow> job_row list \<Rightarrow> selection result" where
  "scan_candidates H s agent_id host_id oldest reason [] = Inr (NoJob reason oldest)"
| "scan_candidates H s agent_id host_id oldest reason (j # js) =
     bindE (validate_claim_authority H s j agent_id host_id) (\<lambda>a.
     bindE (find_active_resource_lease H s (au_resource_key a)) (\<lambda>active.
       if active \<noteq> None
       then scan_candidates H s agent_id host_id
              (if oldest = None then Some (jb_id j, au_resource_key a) else oldest) reason js
       else Inr (Selected j a)))"

definition select_claim_candidate ::
  "(string \<Rightarrow> string) \<Rightarrow> timestamp \<Rightarrow> db \<Rightarrow> string \<Rightarrow> string \<Rightarrow> bool \<Rightarrow> selection result" where
  "select_claim_candidate H now s agent_id host_id recoverable =
     (let rows = take LEASE_CLAIM_SCAN_LIMIT (claim_queue recoverable agent_id s) in
      if rows = [] then Inr (NoJob ''queue_empty'' None)
      else case resolve_capacity_policy s agent_id of
        None \<Rightarrow> Inr (NoJob ''capacity_exhausted'' None)
      | Some policy \<Rightarrow>
          bindE (count_active_leases_for_agent H now s agent_id) (\<lambda>n.
            if int n \<ge> cp_max_concurrent_jobs policy then Inr (NoJob ''capacity_exhausted'' None)
            else scan_candidates H s agent_id host_id None
                   (if length rows \<ge> LEASE_CLAIM_SCAN_LIMIT then ''scan_limit_reached'' else ''resource_blocked'') rows))"

section \<open>Expiry\<close>

text \<open>
  The checks of the reaper on the row it finds. A lease that ended or was renewed meanwhile raises
  \<open>LeaseErr\<close>, which the caller takes for a lease to skip.
\<close>

definition require_active_lease_for_reap ::
  "(string \<Rightarrow> string) \<Rightarrow> timestamp \<Rightarrow> string \<Rightarrow> string \<Rightarrow> int \<Rightarrow> string \<Rightarrow> db \<Rightarrow> lease_row result" where
  "require_active_lease_for_reap H now lease_id job_id attempt_token agent_id s =
     (case find_lease s lease_id of
        None \<Rightarrow> raise RuntimeLeaseErr ''lease not found''
      | Some current \<Rightarrow>
          bindE (reraise LeaseErr RuntimeLeaseErr ''lease resource snapshot invalid'' (validate_stored_resource H current)) (\<lambda>_.
          if lr_job_id current \<noteq> job_id then raise RuntimeLeaseErr ''lease job_id mismatch''
          else if lr_attempt_token current \<noteq> attempt_token then raise RuntimeLeaseErr ''lease attempt_token mismatch''
          else if lr_agent_id current \<noteq> agent_id then raise RuntimeLeaseErr ''lease agent_id mismatch''
          else if lr_status current \<noteq> Active then raise LeaseErr ''lease is not active''
          else if lr_expires_at current > now then raise LeaseErr ''lease is no longer due''
          else Inr current))"

definition job_progress :: "job_row \<Rightarrow> fields" where
  "job_progress j = (case jb_progress_json j of None \<Rightarrow> [] | Some v \<Rightarrow> dict_of v)"

definition expiry_timeout :: "timestamp \<Rightarrow> job_row \<Rightarrow> pyval" where
  "expiry_timeout now j = PyDict
     [(''kind'', PyStr ''execution_lease_expired''), (''configured_budget_seconds'', PyInt LEASE_DEFAULT_TTL_SECONDS),
      (''last_activity_at'', por (opt_time (jb_last_activity_at j)) (PyStr (iso_of now))),
      (''session_id'', por (opt_str (jb_terminal_session_id j)) (PyStr [])), (''progress'', PyDict (job_progress j)),
      (''resume_allowed'', PyBool True)]"

definition expiry_result :: "timestamp \<Rightarrow> job_row \<Rightarrow> pyval" where
  "expiry_result now j = PyDict
     [(''response_text'', PyStr ''Lease expired; job is recoverable.''), (''timeout'', expiry_timeout now j)]"

text \<open>\<open>UPDATE jobs ... WHERE id = ? AND status = 'running' AND attempt_count = ?\<close>.\<close>

definition running_attempt :: "string \<Rightarrow> int \<Rightarrow> job_row \<Rightarrow> bool" where
  "running_attempt job_id token j \<longleftrightarrow> jb_id j = job_id \<and> jb_status j = ''running'' \<and> jb_attempt_count j = token"

definition time_out_job :: "timestamp \<Rightarrow> pyval \<Rightarrow> job_row \<Rightarrow> job_row" where
  "time_out_job now result j =
     j\<lparr>jb_status := ''timed_out'', jb_result_json := Some (json_col result), jb_completed_at := Some now,
       jb_last_activity_at := Some now, jb_recoverable := True, jb_updated_at := now\<rparr>"

definition lease_expired_key :: "string \<Rightarrow> string" where
  "lease_expired_key lease_id = ''runtime:lease:'' @ lease_id @ '':expired''"

definition job_expired_key :: "string \<Rightarrow> string" where
  "job_expired_key job_id = ''runtime:job:'' @ job_id @ '':timed_out:lease_expired''"

definition expire_revalidated_lease ::
  "stamp \<Rightarrow> stamp \<Rightarrow> timestamp \<Rightarrow> string \<Rightarrow> lease_row \<Rightarrow> db \<Rightarrow> (lease_row \<times> db) result" where
  "expire_revalidated_lease u1 u2 now actor current s =
     (let lid = lr_lease_id current; jid = lr_job_id current; token = lr_attempt_token current in
      bindE (get_job s jid) (\<lambda>j.
      if jb_status j \<noteq> ''running'' \<or> jb_attempt_count j \<noteq> token \<or> jb_assigned_agent j \<noteq> Some (lr_agent_id current)
      then raise RuntimeLeaseErr ''lease/job inconsistency''
      else
        bindE (update_leases (\<lambda>l. lr_lease_id l = lid)
                 (\<lambda>l. l\<lparr>lr_status := Expired, lr_renewed_at := lr_expires_at l\<rparr>) s) (\<lambda>s1.
        if rowcount (running_attempt jid token) (db_jobs s1) = 0 then raise RuntimeLeaseErr ''CAS failed while reaping lease''
        else
          let s2 = s1\<lparr>db_jobs := update_where (running_attempt jid token) (time_out_job now (expiry_result now j)) (db_jobs s1)\<rparr>
          in bindE (append_with u1 (lease_expired_key lid) (job_event ''execution_lease.expired'' actor (Some (lr_agent_id current)) j
                 [(''lease_id'', PyStr lid), (''job_id'', PyStr jid), (''attempt_token'', PyInt token),
                  (''expires_at'', PyStr (iso_of (lr_expires_at current))), (''reaped_at'', PyStr (iso_of now)),
                  (''resource_key'', PyStr (lr_resource_key current))]) s2) (\<lambda>(_, s3).
             bindE (append_with u2 (job_expired_key jid) (job_event ''job.timed_out'' actor (Some (lr_agent_id current)) j
                 [(''job_id'', PyStr jid), (''agent_id'', PyStr (lr_agent_id current)), (''status'', PyStr ''timed_out''),
                  (''reason'', PyStr ''execution_lease_expired''), (''lease_id'', PyStr lid), (''timeout'', expiry_timeout now j)]) s3) (\<lambda>(_, s4).
               Inr (current, s4))))))"

text \<open>\<open>None\<close> when the lease is skipped. \<open>lease\<close> is the row that an earlier query returned.\<close>

definition reap_one_lease ::
  "(string \<Rightarrow> string) \<Rightarrow> stamp \<Rightarrow> stamp \<Rightarrow> timestamp \<Rightarrow> string \<Rightarrow> lease_row \<Rightarrow> db \<Rightarrow> (lease_row option \<times> db) result" where
  "reap_one_lease H u1 u2 now actor lease s =
     (case require_active_lease_for_reap H now (lr_lease_id lease) (lr_job_id lease) (lr_attempt_token lease) (lr_agent_id lease) s of
        Inl e \<Rightarrow> if exn_cls e = LeaseErr then Inr (None, s) else Inl e
      | Inr current \<Rightarrow> bindE (expire_revalidated_lease u1 u2 now actor current s) (\<lambda>(l, s'). Inr (Some l, s')))"

text \<open>
  \<open>reap_due_leases\<close>: the due leases are read first, then each is one transaction, rolled back and
  reported when it raises. \<open>stamps\<close> gives the stamps of the two events of each lease, and \<open>between\<close> what other
  connections commit before its transaction; both count the leases that are left.
\<close>

record reap_summary =
  rp_due_found :: nat
  rp_reaped :: "lease_row list"
  rp_errors :: "(string \<times> string \<times> exn) list"

fun reap_loop ::
  "(string \<Rightarrow> string) \<Rightarrow> (nat \<Rightarrow> stamp \<times> stamp) \<Rightarrow> (nat \<Rightarrow> db \<Rightarrow> db) \<Rightarrow> timestamp \<Rightarrow> string \<Rightarrow> lease_row list \<Rightarrow> db
   \<Rightarrow> lease_row list \<times> (string \<times> string \<times> exn) list \<times> db" where
  "reap_loop H stamps between now actor [] s = ([], [], s)"
| "reap_loop H stamps between now actor (l # ls) s =
     (let (u1, u2) = stamps (length ls); s0 = between (length ls) s in
      case reap_one_lease H u1 u2 now actor l s0 of
        Inl e \<Rightarrow> (let (rs, es, s') = reap_loop H stamps between now actor ls s0 in (rs, (lr_lease_id l, lr_job_id l, e) # es, s'))
      | Inr (x, s1) \<Rightarrow>
          (let (rs, es, s') = reap_loop H stamps between now actor ls s1
           in ((case x of None \<Rightarrow> rs | Some y \<Rightarrow> y # rs), es, s')))"

definition reap_due_leases ::
  "(string \<Rightarrow> string) \<Rightarrow> (nat \<Rightarrow> stamp \<times> stamp) \<Rightarrow> (nat \<Rightarrow> db \<Rightarrow> db) \<Rightarrow> timestamp \<Rightarrow> string \<Rightarrow> int \<Rightarrow> db
   \<Rightarrow> (reap_summary \<times> db) result" where
  "reap_due_leases H stamps between now actor batch_size s =
     bindE (find_due_active_leases H s now batch_size) (\<lambda>due.
       let (rs, es, s') = reap_loop H stamps between now actor due s
       in Inr (\<lparr>rp_due_found = length due, rp_reaped = rs, rp_errors = es\<rparr>, s'))"

text \<open>
  \<open>_reap_due_leases_in_transaction\<close> and the check of its summary in \<open>claim_leased_job\<close>: the claim
  raises if any lease raised, and its transaction is rolled back, so the loop stops at the first.
\<close>

fun reap_in_claim ::
  "(string \<Rightarrow> string) \<Rightarrow> (nat \<Rightarrow> stamp \<times> stamp) \<Rightarrow> timestamp \<Rightarrow> string \<Rightarrow> lease_row list \<Rightarrow> db \<Rightarrow> (lease_row list \<times> db) result" where
  "reap_in_claim H stamps now actor [] s = Inr ([], s)"
| "reap_in_claim H stamps now actor (l # ls) s =
     (let (u1, u2) = stamps (length ls) in
      bindE (reraise_all RuntimeLeaseErr ''reap error'' (reap_one_lease H u1 u2 now actor l s)) (\<lambda>(x, s1).
      bindE (reap_in_claim H stamps now actor ls s1) (\<lambda>(rs, s').
        Inr ((case x of None \<Rightarrow> rs | Some y \<Rightarrow> y # rs), s'))))"

text \<open>\<open>reap_exact_lease\<close>; \<open>now\<close> is the given time stamp, or that of \<open>utc_now\<close>.\<close>

definition reap_exact_lease ::
  "(string \<Rightarrow> string) \<Rightarrow> stamp \<Rightarrow> stamp \<Rightarrow> pyval \<Rightarrow> pyval \<Rightarrow> pyval \<Rightarrow> pyval \<Rightarrow> db \<Rightarrow> (lease_row \<times> db) result" where
  "reap_exact_lease H u1 u2 lease_id job_id actor now_v s =
     bindE (validate_id lease_id) (\<lambda>lid.
     bindE (validate_id job_id) (\<lambda>jid.
     bindE (validate_id actor) (\<lambda>who.
     bindE (validate_utc_timestamp now_v) (\<lambda>now.
     case find_lease s lid of
       None \<Rightarrow> raise RuntimeLeaseErr ''lease not found''
     | Some current \<Rightarrow>
         if lr_job_id current \<noteq> jid then raise RuntimeLeaseErr ''lease belongs to another job''
         else
           bindE (reraise LeaseErr RuntimeLeaseErr ''lease is not due''
                    (require_active_lease_for_reap H now lid jid (lr_attempt_token current) (lr_agent_id current) s)) (\<lambda>cur.
             reraise KeyErr RuntimeLeaseErr ''job not found for expired lease''
               (expire_revalidated_lease u1 u2 now who cur s))))))"

section \<open>Claiming\<close>

text \<open>What a claim takes from outside, in the order in which it asks.\<close>

record claim_env =
  cl_now :: timestamp
  cl_reap :: "nat \<Rightarrow> stamp \<times> stamp"
  cl_count_now :: timestamp
  cl_lease_uuid :: string
  cl_reserve_now :: timestamp
  cl_reserve_count_now :: timestamp
  cl_claimed :: stamp
  cl_marker :: stamp
  cl_server_now :: timestamp

record claim_result =
  cr_lease_id :: string
  cr_job :: job_row
  cr_attempt_token :: int
  cr_execution_context :: execution_context
  cr_execution_lease :: pyval

text \<open>
  The outcome of a claim that raises nothing else: the result with the new database, or the
  \<open>RuntimeLeaseError\<close> that carries the diagnostics of a selection without a job.
\<close>

datatype claim_outcome = Claimed claim_result db | NotClaimed string "(string \<times> string) option"

definition claim_agent_ready :: "db \<Rightarrow> string \<Rightarrow> string \<Rightarrow> unit result" where
  "claim_agent_ready s agent_id host_id =
     (case get_agent s agent_id of
        None \<Rightarrow> raise RuntimeLeaseErr ''agent not found''
      | Some a \<Rightarrow>
          if ag_online_state a \<noteq> ''online'' then raise RuntimeLeaseErr ''agent is not online''
          else case or_str (ag_host_id a) None of
            None \<Rightarrow> raise RuntimeLeaseErr ''agent has no host_id''
          | Some h \<Rightarrow> if h \<noteq> host_id then raise RuntimeLeaseErr ''agent host mismatch'' else Inr ())"

definition claim_job_row :: "timestamp \<Rightarrow> int \<Rightarrow> fields \<Rightarrow> job_row \<Rightarrow> job_row" where
  "claim_job_row now token payload j =
     j\<lparr>jb_status := ''running'', jb_attempt_count := token, jb_started_at := Some now, jb_last_activity_at := Some now,
       jb_recoverable := False, jb_updated_at := now, jb_payload_json := Some (json_col (PyDict payload))\<rparr>"

definition claim_key :: "string \<Rightarrow> int \<Rightarrow> string" where
  "claim_key job_id token = ''runtime:job:'' @ job_id @ '':claimed:'' @ dec_int token"

definition claim_event_payload ::
  "job_row \<Rightarrow> string \<Rightarrow> execution_context \<Rightarrow> lease_row \<Rightarrow> string option \<Rightarrow> string option \<Rightarrow> claim_authority \<Rightarrow> fields" where
  "claim_event_payload j agent_id ctx l reap_reason recovery a =
     dupdate (dupdate
       ([(''job_id'', PyStr (jb_id j)), (''agent_id'', PyStr agent_id), (''previous_status'', PyStr (jb_status j)),
         (''recovered'', PyBool (jb_status j = ''timed_out'')), (''execution_context_id'', PyStr (ec_context_id ctx)),
         (''context_version'', PyInt CONTRACT_VERSION), (''host_id'', PyStr (ec_host_id ctx)),
         (''worktree_path'', PyStr (ec_worktree_path ctx)), (''branch'', opt_str (ec_branch ctx)),
         (''session_scope_id'', PyStr (ec_session_scope_id ctx)), (''lease_id'', PyStr (lr_lease_id l)),
         (''reap_mode'', PyStr (if reap_reason = None then ''global'' else ''none'')), (''reap_reason'', opt_str reap_reason)] @
        (case recovery of None \<Rightarrow> []
         | Some r \<Rightarrow> [(''recovery_reason'', PyStr r), (''prior_process_stopped'', PyBool True)]))
       (executor_binding_claim_evidence (au_binding a))) (au_route a)"

text \<open>The envelope names the path of the context, and the other columns of the stored lease.\<close>

definition claim_lease_of :: "lease_row \<Rightarrow> execution_context \<Rightarrow> timestamp \<Rightarrow> int \<Rightarrow> execution_lease" where
  "claim_lease_of l ctx server_now ttl =
     \<lparr>el_lease_id = lr_lease_id l, el_job_id = lr_job_id l, el_attempt_token = lr_attempt_token l,
      el_agent_id = lr_agent_id l, el_runner_profile_id = lr_runner_profile_id l, el_host_id = lr_host_id l,
      el_resource_kind = ''worktree'', el_resource_key = lr_resource_key l, el_normalized_path = ec_worktree_path ctx,
      el_capacity_policy_id = lr_capacity_policy_id l, el_max_concurrent_jobs = lr_max_concurrent_jobs l,
      el_acquired_at = iso_of (lr_acquired_at l), el_expires_at = iso_of (lr_expires_at l),
      el_server_now = iso_of server_now, el_ttl_seconds = ttl,
      el_renew_interval_seconds = LEASE_DEFAULT_RENEW_INTERVAL_SECONDS\<rparr>"

text \<open>From the selected job to the end of the transaction.\<close>

definition take_selected ::
  "(string \<Rightarrow> string) \<Rightarrow> claim_env \<Rightarrow> string \<Rightarrow> string \<Rightarrow> int \<Rightarrow> string option \<Rightarrow> string option \<Rightarrow> string option \<Rightarrow> string option
   \<Rightarrow> job_row \<Rightarrow> claim_authority \<Rightarrow> db \<Rightarrow> (claim_result \<times> db) result" where
  "take_selected H env agent_id host_id ttl recovery reap_reason request_id digest j a s =
     (let token = jb_attempt_count j + 1; ctx = au_context a; now = cl_now env;
          here = (\<lambda>x. jb_id x = jb_id j \<and> jb_status x = jb_status j);
          s1 = s\<lparr>db_jobs := update_where here (claim_job_row now token (au_payload a)) (db_jobs s)\<rparr>
      in if rowcount here (db_jobs s) = 0 then raise RuntimeLeaseErr ''job CAS failed during claim''
         else
           bindE (reserve_attempt_lease H (cl_lease_uuid env) (cl_reserve_now env) (cl_reserve_count_now env) (jb_id j)
                    (PyInt token) agent_id (case jb_runner_profile_id j of None \<Rightarrow> [] | Some r \<Rightarrow> r) host_id
                    (ec_worktree_path ctx) (PyInt ttl) s1) (\<lambda>((l, replayed), s2).
           bindE (append_with (cl_claimed env) (claim_key (jb_id j) token)
                    (job_event ''job.claimed'' agent_id (Some agent_id) j
                      (claim_event_payload j agent_id ctx l reap_reason recovery a)) s2) (\<lambda>(_, s3).
           bindE (append_claim_request_marker H (cl_marker env) request_id digest j agent_id token (Some (lr_lease_id l))
                    (PyInt ttl) s3) (\<lambda>s4.
           bindE (get_job s4 (jb_id j)) (\<lambda>claimed.
             Inr (\<lparr>cr_lease_id = lr_lease_id l, cr_job = claimed, cr_attempt_token = token, cr_execution_context = ctx,
                   cr_execution_lease = build_lease_envelope (claim_lease_of l ctx (cl_server_now env) ttl)\<rparr>, s4))))))"

definition claim_leased_job ::
  "(string \<Rightarrow> string) \<Rightarrow> claim_env \<Rightarrow> pyval \<Rightarrow> pyval \<Rightarrow> bool \<Rightarrow> pyval \<Rightarrow> pyval \<Rightarrow> pyval \<Rightarrow> pyval \<Rightarrow> pyval \<Rightarrow> pyval
   \<Rightarrow> string option \<Rightarrow> string option \<Rightarrow> db \<Rightarrow> claim_outcome result" where
  "claim_leased_job H env agent_v host_v recoverable ttl_v actor_v recovery_reason stopped reap_mode reap_reason_v request_id digest s =
     bindE (validate_claim_reap_policy reap_mode reap_reason_v) (\<lambda>reap_reason.
     bindE (validate_id agent_v) (\<lambda>agent_id.
     bindE (validate_id host_v) (\<lambda>host_id.
     bindE (validate_id actor_v) (\<lambda>actor.
     bindE (validate_recovery_evidence recoverable recovery_reason stopped) (\<lambda>recovery.
     bindE (validate_ttl ttl_v) (\<lambda>ttl.
     bindE (claim_agent_ready s agent_id host_id) (\<lambda>_.
     bindE (if reap_reason = None then Inr ()
            else bindE (resolve_exact_executor_binding H s agent_id) (\<lambda>b.
              if b = None then raise RuntimeLeaseErr ''reap_mode=none requires a typed agent with exact executor binding''
              else Inr ())) (\<lambda>_.
     bindE (if reap_reason = None
            then bindE (find_due_active_leases H s (cl_now env) LEASE_REAP_BATCH_SIZE) (\<lambda>due.
                   reap_in_claim H (cl_reap env) (cl_now env) actor due s)
            else Inr ([], s)) (\<lambda>(reaped, s1).
     bindE (select_claim_candidate H (cl_count_now env) s1 agent_id host_id recoverable) (\<lambda>selection.
     case selection of
       NoJob reason oldest \<Rightarrow> Inr (NotClaimed reason oldest)
     | Selected j a \<Rightarrow>
         bindE (take_selected H env agent_id host_id ttl recovery reap_reason request_id digest j a s1) (\<lambda>(r, s').
           Inr (Claimed r s'))))))))))))"

section \<open>Authority over a running job\<close>

definition require_managed_attempt_lease ::
  "(string \<Rightarrow> string) \<Rightarrow> timestamp \<Rightarrow> db \<Rightarrow> string \<Rightarrow> int \<Rightarrow> string \<Rightarrow> string option \<Rightarrow> lease_row option result" where
  "require_managed_attempt_lease H now s job_id attempt_token agent_id lease_id =
     (if \<not> attempt_has_any_lease s job_id attempt_token then Inr None
      else case lease_id of
        None \<Rightarrow> raise RuntimeLeaseErr ''managed attempt requires lease_id''
      | Some lid \<Rightarrow>
          bindE (reraise LeaseErr RuntimeLeaseErr ''lease''
                   (require_active_unexpired_lease H now s (PyStr lid) job_id (PyInt attempt_token) agent_id)) (\<lambda>l. Inr (Some l)))"

definition require_mutation_authority ::
  "(string \<Rightarrow> string) \<Rightarrow> timestamp \<Rightarrow> db \<Rightarrow> int \<Rightarrow> int option \<Rightarrow> string \<Rightarrow> string \<Rightarrow> string option \<Rightarrow> lease_row option result" where
  "require_mutation_authority H now s current_token supplied_token job_id agent_id lease_id =
     (if \<not> attempt_has_any_lease s job_id current_token then Inr None
      else if supplied_token = None then raise RuntimeLeaseErr ''managed attempt requires attempt_token''
      else if supplied_token \<noteq> Some current_token then raise RuntimeLeaseErr ''managed attempt received stale attempt_token''
      else require_managed_attempt_lease H now s job_id current_token agent_id lease_id)"

definition release_lease_for_terminal_report ::
  "(string \<Rightarrow> string) \<Rightarrow> timestamp \<Rightarrow> string \<Rightarrow> string \<Rightarrow> int \<Rightarrow> string \<Rightarrow> string \<Rightarrow> db \<Rightarrow> (lease_row \<times> db) result" where
  "release_lease_for_terminal_report H now lease_id job_id attempt_token agent_id status s =
     release_attempt_lease H now (PyStr lease_id) job_id (PyInt attempt_token) agent_id (PyStr (''job_'' @ status)) s"

text \<open>\<open>renew_managed_lease\<close>: the two readings of the renewal, that of the touch and \<open>server_now\<close>.\<close>

definition renew_managed_lease ::
  "(string \<Rightarrow> string) \<Rightarrow> timestamp \<Rightarrow> timestamp \<Rightarrow> timestamp \<Rightarrow> timestamp \<Rightarrow> string \<Rightarrow> string \<Rightarrow> int \<Rightarrow> string \<Rightarrow> pyval \<Rightarrow> db
   \<Rightarrow> (pyval \<times> db) result" where
  "renew_managed_lease H t1 t2 t3 server_now lease_id job_id attempt_token agent_id ttl_v s =
     bindE (validate_ttl ttl_v) (\<lambda>ttl.
     bindE (get_job s job_id) (\<lambda>j.
     if jb_status j \<noteq> ''running'' \<or> jb_attempt_count j \<noteq> attempt_token then raise RuntimeLeaseErr ''lease renewal rejected''
     else
       bindE (renew_attempt_lease H t1 t2 (PyStr lease_id) job_id (PyInt attempt_token) agent_id ttl_v s) (\<lambda>(l, s1).
       let s2 = snd (touch_agent_activity t3 agent_id s1)
       in Inr (PyDict [(''lease_id'', PyStr lease_id), (''job_id'', PyStr job_id), (''attempt_token'', PyInt attempt_token),
            (''agent_id'', PyStr agent_id), (''status'', PyStr ''active''), (''server_now'', PyStr (iso_of server_now)),
            (''expires_at'', PyStr (iso_of (lr_expires_at l))), (''renewed_at'', PyStr (iso_of (lr_renewed_at l)))], s2))))"

section \<open>The end of an attempt\<close>

definition terminal_event_type :: "string \<Rightarrow> string" where
  "terminal_event_type status =
     (if status = ''timed_out'' then ''job.timed_out'' else if status = ''done'' then ''job.completed'' else ''job.failed'')"

text \<open>\<open>d.setdefault(k, v)\<close>.\<close>

definition dsetdefault :: "string \<Rightarrow> pyval \<Rightarrow> fields \<Rightarrow> fields" where
  "dsetdefault k v d = (if list_ex (\<lambda>(k', w). k' = k) d then d else d @ [(k, v)])"

definition normal_timeout :: "fields \<Rightarrow> job_row \<Rightarrow> timestamp \<Rightarrow> fields" where
  "normal_timeout n j now =
     (let t = dict_of (dget n ''timeout'') in
      [(''kind'', por (dget t ''kind'') (por (dget n ''timeout_kind'') (PyStr ''recoverable''))),
       (''configured_budget_seconds'', por (dget t ''configured_budget_seconds'')
          (por (dget n ''timeout_seconds'') (opt_int (jb_timeout_seconds j)))),
       (''last_activity_at'', por (dget t ''last_activity_at'') (por (opt_time (jb_last_activity_at j)) (PyStr (iso_of now)))),
       (''session_id'', por (dget t ''session_id'') (por (dget n ''session_id'') (por (opt_str (jb_terminal_session_id j)) (PyStr [])))),
       (''progress'', por (dget t ''progress'') (PyDict (job_progress j))),
       (''resume_allowed'', PyBool (truthy (dget_or t ''resume_allowed'' (PyBool True))))])"

definition normalize_result :: "string \<Rightarrow> fields \<Rightarrow> job_row \<Rightarrow> timestamp \<Rightarrow> fields" where
  "normalize_result status result j now =
     (let n = (case as_str (dget result ''session_id'') of
                 None \<Rightarrow> result
               | Some x \<Rightarrow> if strip x = [] then result else dset ''session_id'' (PyStr (strip x)) result)
      in if status \<noteq> ''timed_out'' then n
         else
           let t = normal_timeout n j now
           in dsetdefault ''response_text'' (PyStr ''Agent timed out; progress was saved and recovery is available.'')
                (dset ''recoverable'' (dget t ''resume_allowed'') (dset ''timeout'' (PyDict t) n)))"

definition stable_result_key :: "(string \<Rightarrow> string) \<Rightarrow> fields \<Rightarrow> string" where
  "stable_result_key H d = take 16 (H (json (json_col (PyDict d))))"

record report_outcome =
  ro_parsed :: "agent_report option"
  ro_decision :: "string option"
  ro_summary :: "string option"

text \<open>\<open>" ".join(s.split())[:500]\<close>.\<close>

fun words_of :: "string \<Rightarrow> string list" where
  "words_of [] = []"
| "words_of (c # cs) =
     (if is_space c then words_of cs
      else case cs of
        [] \<Rightarrow> [[c]]
      | d # ds \<Rightarrow> if is_space d then [c] # words_of cs
                  else (case words_of cs of [] \<Rightarrow> [[c]] | w # ws \<Rightarrow> (c # w) # ws))"

definition squeeze :: "string \<Rightarrow> string" where
  "squeeze s = take 500 (join_ch (CHR '' '') (words_of s))"

definition parse_job_agent_report :: "fields \<Rightarrow> job_row \<Rightarrow> report_outcome" where
  "parse_job_agent_report result j =
     (let parsed = (case as_str (por (dget result ''response_text'') (por (dget result ''text'') (PyStr []))) of
                      None \<Rightarrow> None
                    | Some t \<Rightarrow> if t = [] then None else parse_agent_report t (jb_workspace_id j) (jb_task_id j))
      in \<lparr>ro_parsed = parsed, ro_decision = (case parsed of None \<Rightarrow> None | Some r \<Rightarrow> ar_decision r),
          ro_summary = (case as_str (por (dget result ''summary'') (por (dget result ''response_text'') (dget result ''text''))) of
             None \<Rightarrow> None | Some t \<Rightarrow> if strip t = [] then None else Some (squeeze t))\<rparr>)"

definition job_payload :: "job_row \<Rightarrow> fields" where
  "job_payload j = (case jb_payload_json j of None \<Rightarrow> [] | Some v \<Rightarrow> dict_of v)"

text \<open>A value that \<^verbatim>\<open>sqlite3\<close> binds and stores in a \<open>TEXT\<close> column.\<close>

definition text_column :: "pyval \<Rightarrow> string result" where
  "text_column v =
     (case v of
        PyStr s \<Rightarrow> Inr s
      | PyInt i \<Rightarrow> if int64 i then Inr (dec_int i) else raise OverflowErr ''Python int too large''
      | PyBool b \<Rightarrow> Inr (if b then ''1'' else ''0'')
      | PyFloat r \<Rightarrow> Inr r
      | _ \<Rightarrow> raise BindErr ''type is not supported'')"

definition response_text :: "fields \<Rightarrow> pyval" where
  "response_text result = por (dget result ''response_text'') (por (dget result ''text'') (dget result ''summary''))"

definition response_key :: "string \<Rightarrow> string \<Rightarrow> string \<Rightarrow> string \<Rightarrow> string" where
  "response_key job_id event_id platform destination =
     ''runtime:job:'' @ job_id @ '':response:'' @ event_id @ CHR '':'' # platform @ CHR '':'' # destination"

definition response_payload :: "pyval \<Rightarrow> job_row \<Rightarrow> pyval" where
  "response_payload txt j = PyDict
     [(''text'', txt), (''workspace_id'', opt_str (jb_workspace_id j)), (''task_id'', opt_str (jb_task_id j)),
      (''job_id'', PyStr (jb_id j)), (''origin'', dget (job_payload j) ''origin'')]"

definition default_bus_of :: "db \<Rightarrow> job_row \<Rightarrow> string option" where
  "default_bus_of s j =
     (case (case jb_workspace_id j of None \<Rightarrow> None | Some w \<Rightarrow> get_workspace s w) of None \<Rightarrow> None | Some ws \<Rightarrow> ws_default_bus ws)"

text \<open>\<open>_create_response_delivery\<close> of \<^verbatim>\<open>runtime_lease.py\<close>, on the row that was read again.\<close>

definition create_response_delivery ::
  "string \<Rightarrow> timestamp \<Rightarrow> job_row \<Rightarrow> string \<Rightarrow> fields \<Rightarrow> db \<Rightarrow> ((delivery_row option \<times> bool) \<times> db) result" where
  "create_response_delivery did now j event_id result s =
     (case as_dict (dget (job_payload j) ''reply'') of
        None \<Rightarrow> Inr ((None, False), s)
      | Some reply \<Rightarrow>
          (case as_str (response_text result) of
             None \<Rightarrow> Inr ((None, False), s)
           | Some txt \<Rightarrow>
               let platform0 = dget reply ''platform''; destination = dget reply ''destination'' in
               if strip txt = [] \<or> \<not> truthy platform0 \<or> \<not> truthy destination then Inr ((None, False), s)
               else
                 let platform = (if platform0 = PyStr ''discord'' \<and> default_bus_of s j \<noteq> Some ''discord''
                                 then PyStr ''discord_webhook'' else platform0)
                 in if platform = PyStr ''none'' then Inr ((None, False), s)
                    else
                      bindE (text_column platform) (\<lambda>p.
                      bindE (create_delivery did now (response_key (jb_id j) event_id (py_str platform) (py_str destination))
                          \<lparr>nd_platform = p, nd_destination = py_str destination, nd_payload = response_payload (PyStr txt) j,
                           nd_event_id = Some event_id\<rparr> s) (\<lambda>((d, created), s'). Inr ((Some d, created), s')))))"

record terminal_env =
  te_terminal :: stamp
  te_reported :: stamp
  te_review :: stamp
  te_delivery :: stamp

record terminal_outcome =
  to_event :: event_row
  to_event_created :: bool
  to_delivery :: "delivery_row option"
  to_delivery_created :: bool

definition or_actor :: "string option \<Rightarrow> string \<Rightarrow> string" where
  "or_actor actor d = (case or_str actor None of None \<Rightarrow> d | Some a \<Rightarrow> a)"

definition result_key :: "string \<Rightarrow> string \<Rightarrow> string" where
  "result_key job_id status = ''runtime:job:'' @ job_id @ '':result:'' @ status"

definition reported_key :: "string \<Rightarrow> string \<Rightarrow> string option \<Rightarrow> string" where
  "reported_key job_id status decision =
     ''runtime:job:'' @ job_id @ '':agent-reported:'' @ status @ CHR '':'' # (case decision of None \<Rightarrow> ''nodecision'' | Some d \<Rightarrow> d)"

definition review_key :: "string \<Rightarrow> string \<Rightarrow> string" where
  "review_key job_id decision = ''runtime:job:'' @ job_id @ '':review-decision:'' @ decision"

definition result_payload :: "string \<Rightarrow> string \<Rightarrow> string \<Rightarrow> fields \<Rightarrow> fields" where
  "result_payload job_id agent_id status result =
     dupdate [(''job_id'', PyStr job_id), (''agent_id'', PyStr agent_id), (''status'', PyStr status)] result"

definition reported_payload :: "string \<Rightarrow> string \<Rightarrow> string \<Rightarrow> report_outcome \<Rightarrow> fields" where
  "reported_payload job_id agent_id status oc =
     [(''source'', PyStr ''runtime''), (''job_id'', PyStr job_id), (''agent_id'', PyStr agent_id), (''status'', PyStr status),
      (''action'', PyStr (if status = ''done'' then ''done'' else ''blocker''))] @
     (case ro_decision oc of None \<Rightarrow> [] | Some d \<Rightarrow> [(''decision'', PyStr d)]) @
     (case or_str (ro_summary oc) None of None \<Rightarrow> [] | Some x \<Rightarrow> [(''result_summary'', PyStr x)])"

definition review_payload :: "string \<Rightarrow> string \<Rightarrow> string \<Rightarrow> report_outcome \<Rightarrow> fields" where
  "review_payload job_id agent_id d oc =
     [(''reviewer'', PyStr agent_id), (''decision'', PyStr d),
      (''reason'', opt_str (case ro_parsed oc of None \<Rightarrow> None | Some r \<Rightarrow> ar_reason r)),
      (''summary'', opt_str (or_str (case ro_parsed oc of None \<Rightarrow> None | Some r \<Rightarrow> ar_summary r) (ro_summary oc))),
      (''source'', PyStr ''runtime''), (''job_id'', PyStr job_id)]"

definition append_review ::
  "stamp \<Rightarrow> string \<Rightarrow> job_row \<Rightarrow> string \<Rightarrow> string \<Rightarrow> report_outcome \<Rightarrow> db \<Rightarrow> db result" where
  "append_review u actor j job_id agent_id oc s =
     (case ro_decision oc of
        None \<Rightarrow> Inr s
      | Some d \<Rightarrow>
          bindE (append_with u (review_key job_id d)
              (job_event (if d = ''approve'' then ''review.completed'' else ''review.rejected'') actor None j
                 (review_payload job_id agent_id d oc)) s) (\<lambda>(_, s'). Inr s'))"

definition append_terminal_events_and_delivery ::
  "terminal_env \<Rightarrow> job_row \<Rightarrow> string \<Rightarrow> string \<Rightarrow> string \<Rightarrow> fields \<Rightarrow> string option \<Rightarrow> db \<Rightarrow> (terminal_outcome \<times> db) result" where
  "append_terminal_events_and_delivery env j job_id agent_id status result actor s =
     (let who = or_actor actor agent_id; oc = parse_job_agent_report result j in
      bindE (append_with (te_terminal env) (result_key job_id status)
          (job_event (terminal_event_type status) who (Some agent_id) j (result_payload job_id agent_id status result)) s) (\<lambda>((e, created), s1).
      bindE (append_with (te_reported env) (reported_key job_id status (ro_decision oc))
          (job_event ''agent.reported'' who (Some agent_id) j (reported_payload job_id agent_id status oc)) s1) (\<lambda>(_, s2).
      bindE (append_review (te_review env) who j job_id agent_id oc s2) (\<lambda>s3.
      bindE (get_job s3 job_id) (\<lambda>j'.
      bindE (create_response_delivery (fst (te_delivery env)) (snd (te_delivery env)) j' (ev_id e) result s3) (\<lambda>((d, dc), s4).
        Inr (\<lparr>to_event = e, to_event_created = created, to_delivery = d, to_delivery_created = dc\<rparr>, s4)))))))"

end
