(* ===== verification/Runtime.thy ===== *)
theory Runtime
  imports RuntimeLease UsagePolicy
begin

text \<open>
  The runtime interface of jobs (\<^verbatim>\<open>runtime.py\<close>): claim with replay, report of a result, late
  results and progress. An operation that reads before it opens its transaction takes the database
  of those reads, \<open>s0\<close>, and the one that the transaction finds, \<open>s\<close>; other connections may have
  written in between. The touch of the agent that a claim commits in between is
  \<open>Liveness.touch_agent_activity\<close>.
\<close>

section \<open>Claims\<close>

record claim_args =
  ca_agent_id :: pyval
  ca_recoverable :: bool
  ca_ttl :: pyval
  ca_recovery_reason :: pyval
  ca_stopped :: pyval
  ca_reap_mode :: pyval
  ca_reap_reason :: pyval
  ca_request_id :: pyval

record claim_reply =
  cy_job :: "job_row option"
  cy_claimed :: bool
  cy_attempt_token :: "int option"
  cy_execution_context :: "execution_context option"
  cy_execution_lease :: pyval
  cy_reason :: "string option"
  cy_oldest_blocked :: "(string \<times> string) option"
  cy_replayed :: bool

definition not_claimed :: "string option \<Rightarrow> (string \<times> string) option \<Rightarrow> claim_reply" where
  "not_claimed reason oldest = \<lparr>cy_job = None, cy_claimed = False, cy_attempt_token = None, cy_execution_context = None,
     cy_execution_lease = PyNone, cy_reason = reason, cy_oldest_blocked = oldest, cy_replayed = False\<rparr>"

definition claimed_reply :: "job_row \<Rightarrow> int \<Rightarrow> execution_context \<Rightarrow> pyval \<Rightarrow> bool \<Rightarrow> claim_reply" where
  "claimed_reply j token ctx lease replayed = \<lparr>cy_job = Some j, cy_claimed = True, cy_attempt_token = Some token,
     cy_execution_context = Some ctx, cy_execution_lease = lease, cy_reason = None, cy_oldest_blocked = None,
     cy_replayed = replayed\<rparr>"

definition MARKER_KEYS :: "string list" where
  "MARKER_KEYS = [''request_digest'', ''agent_id'', ''job_id'', ''attempt_token'', ''lease_id'', ''ttl'']"

definition replay_lease_of :: "lease_row \<Rightarrow> timestamp \<Rightarrow> int \<Rightarrow> execution_lease" where
  "replay_lease_of l server_now ttl =
     \<lparr>el_lease_id = lr_lease_id l, el_job_id = lr_job_id l, el_attempt_token = lr_attempt_token l,
      el_agent_id = lr_agent_id l, el_runner_profile_id = lr_runner_profile_id l, el_host_id = lr_host_id l,
      el_resource_kind = lr_resource_kind l, el_resource_key = lr_resource_key l, el_normalized_path = lr_normalized_path l,
      el_capacity_policy_id = lr_capacity_policy_id l, el_max_concurrent_jobs = lr_max_concurrent_jobs l,
      el_acquired_at = iso_of (lr_acquired_at l), el_expires_at = iso_of (lr_expires_at l),
      el_server_now = iso_of server_now, el_ttl_seconds = ttl,
      el_renew_interval_seconds = LEASE_DEFAULT_RENEW_INTERVAL_SECONDS\<rparr>"

text \<open>The lease part of a replay; \<open>None\<close> for a legacy attempt.\<close>

definition replay_lease ::
  "(string \<Rightarrow> string) \<Rightarrow> timestamp \<Rightarrow> timestamp \<Rightarrow> db \<Rightarrow> pyval \<Rightarrow> job_row \<Rightarrow> int \<Rightarrow> int \<Rightarrow> string \<Rightarrow> string \<Rightarrow> pyval result" where
  "replay_lease H now server_now s lease_v j token ttl agent_id host_id =
     (if lease_v = PyNone
      then if attempt_has_any_lease s (jb_id j) token then raise RuntimeErr ''claim replay: legacy marker now has a managed lease''
           else Inr PyNone
      else case or_str (as_str lease_v) None of
        None \<Rightarrow> raise RuntimeErr ''claim replay: marker payload is malformed''
      | Some lid \<Rightarrow>
          bindE (reraise LeaseErr RuntimeErr ''claim replay: marked lease is missing or expired''
                   (require_active_unexpired_lease H now s (PyStr lid) (jb_id j) (PyInt token) agent_id)) (\<lambda>l.
            if lr_host_id l \<noteq> host_id then raise RuntimeErr ''claim replay: marked lease is missing or expired''
            else Inr (build_lease_envelope (replay_lease_of l server_now ttl))))"

definition positive_token :: "pyval \<Rightarrow> int result" where
  "positive_token v =
     (case as_int v of
        None \<Rightarrow> raise RuntimeErr ''claim replay: marker payload is malformed''
      | Some i \<Rightarrow> if i \<le> 0 then raise RuntimeErr ''claim replay: marker payload is malformed'' else Inr i)"

definition marker_job ::
  "db \<Rightarrow> event_row \<Rightarrow> fields \<Rightarrow> string \<Rightarrow> string \<Rightarrow> job_row result" where
  "marker_job s e m digest agent_id =
     (if dget m ''request_digest'' \<noteq> PyStr digest then raise RuntimeErr ''claim replay: request digest conflicts''
      else if dget m ''agent_id'' \<noteq> PyStr agent_id then raise RuntimeErr ''claim replay: agent conflicts''
      else case or_str (as_str (dget m ''job_id'')) None of
        None \<Rightarrow> raise RuntimeErr ''claim replay: marker payload is malformed''
      | Some jid \<Rightarrow>
          if length digest \<noteq> 64 \<or> \<not> list_all is_lower_hex digest then raise RuntimeErr ''claim replay: marker payload is malformed''
          else
            bindE (reraise KeyErr RuntimeErr ''claim replay: marked job is missing'' (get_job s jid)) (\<lambda>j.
            if ev_workspace_id e \<noteq> jb_workspace_id j \<or> ev_actor e \<noteq> agent_id \<or> ev_target e \<noteq> Some agent_id \<or> ev_task_id e \<noteq> jb_task_id j
            then raise RuntimeErr ''claim replay: marker authority is malformed''
            else if jb_assigned_agent j \<noteq> Some agent_id then raise RuntimeErr ''claim replay: marked job agent conflicts''
            else if jb_status j \<noteq> ''running'' then raise RuntimeErr ''claim replay: marked job is expired or terminal''
            else Inr j))"

definition replay_claim_request ::
  "(string \<Rightarrow> string) \<Rightarrow> timestamp \<Rightarrow> timestamp \<Rightarrow> db \<Rightarrow> string \<Rightarrow> string \<Rightarrow> string \<Rightarrow> string \<Rightarrow> claim_reply option result" where
  "replay_claim_request H now server_now s claim_request_id digest agent_id host_id =
     (case get_event_by_idempotency_key s (claim_marker_key H agent_id claim_request_id) of
        None \<Rightarrow> Inr None
      | Some e \<Rightarrow>
          if ev_event_type e \<noteq> ''job.claim_request'' then raise RuntimeErr ''claim replay: idempotency key conflicts with another event''
          else case as_dict (ev_payload e) of
            None \<Rightarrow> raise RuntimeErr ''claim replay: marker payload is malformed''
          | Some m \<Rightarrow>
              if \<not> same_keys MARKER_KEYS m then raise RuntimeErr ''claim replay: marker payload is malformed''
              else
                bindE (marker_job s e m digest agent_id) (\<lambda>j.
                bindE (positive_token (dget m ''attempt_token'')) (\<lambda>token.
                if jb_attempt_count j \<noteq> token then raise RuntimeErr ''claim replay: marked attempt is stale''
                else
                  bindE (reraise LeaseErr RuntimeErr ''claim replay: marker payload is malformed'' (validate_ttl (dget m ''ttl''))) (\<lambda>ttl.
                  bindE (reraise ContextErr RuntimeErr ''claim replay: marked execution context is malformed''
                    (validate_execution_context_snapshot H (dget (job_payload j) ''execution_context'') (Some (jb_id j))
                       (jb_workspace_id j) None (Some agent_id) (Some host_id))) (\<lambda>ctx.
                  bindE (replay_lease H now server_now s (dget m ''lease_id'') j token ttl agent_id host_id) (\<lambda>lease.
                    Inr (Some (claimed_reply j token ctx lease True))))))))"

text \<open>A claim without a request id has nothing to replay.\<close>

definition replay_request ::
  "(string \<Rightarrow> string) \<Rightarrow> timestamp \<Rightarrow> timestamp \<Rightarrow> db \<Rightarrow> (string \<times> string) option \<Rightarrow> string \<Rightarrow> string \<Rightarrow> claim_reply option result" where
  "replay_request H now server_now s request agent_id host_id =
     (case request of None \<Rightarrow> Inr None
      | Some (cid, digest) \<Rightarrow> replay_claim_request H now server_now s cid digest agent_id host_id)"

definition require_online_agent :: "db \<Rightarrow> string \<Rightarrow> unit result" where
  "require_online_agent s agent_id =
     (case get_agent s agent_id of
        None \<Rightarrow> raise RuntimeErr ''unknown agent''
      | Some a \<Rightarrow> if ag_online_state a \<noteq> ''online'' then raise RuntimeErr ''agent is not online'' else Inr ())"

definition agent_host_id :: "db \<Rightarrow> string \<Rightarrow> string option" where
  "agent_host_id s agent_id = (case get_agent s agent_id of None \<Rightarrow> None | Some a \<Rightarrow> ag_host_id a)"

text \<open>
  What a claim settles before it looks at jobs: agent, host and, for a claim with a request id, the
  id and the digest of the request.
\<close>

definition claim_request ::
  "(string \<Rightarrow> string) \<Rightarrow> claim_args \<Rightarrow> db \<Rightarrow> (string \<times> string \<times> (string \<times> string) option) result" where
  "claim_request H a s =
     bindE (reraise RuntimeLeaseErr RuntimeErr ''claim request'' (validate_claim_reap_policy (ca_reap_mode a) (ca_reap_reason a))) (\<lambda>_.
     bindE (reraise RuntimeLeaseErr RuntimeErr ''claim request'' (validate_id (ca_agent_id a))) (\<lambda>agent_id.
     bindE (if ca_request_id a = PyNone then Inr None
            else bindE (reraise RuntimeLeaseErr RuntimeErr ''claim request'' (validate_id (ca_request_id a))) (\<lambda>cid.
                 bindE (reraise LeaseErr RuntimeErr ''claim request'' (validate_ttl (ca_ttl a))) (\<lambda>_. Inr (Some cid)))) (\<lambda>request_id.
     bindE (require_online_agent s agent_id) (\<lambda>_.
     case or_str (agent_host_id s agent_id) None of
       None \<Rightarrow> raise RuntimeErr ''agent has no host_id''
     | Some host_id \<Rightarrow>
         Inr (agent_id, host_id, map_option (\<lambda>cid. (cid, claim_request_digest H agent_id host_id (ca_recoverable a) (ca_ttl a)
           (ca_recovery_reason a) (ca_stopped a) (ca_reap_mode a) (ca_reap_reason a))) request_id)))))"

definition claim_typed ::
  "(string \<Rightarrow> string) \<Rightarrow> claim_env \<Rightarrow> claim_args \<Rightarrow> string \<Rightarrow> string \<Rightarrow> (string \<times> string) option \<Rightarrow> db \<Rightarrow> (claim_reply \<times> db) result" where
  "claim_typed H env a agent_id host_id request s =
     bindE (replay_request H (cl_now env) (cl_server_now env) s request agent_id host_id) (\<lambda>replay.
     case replay of
       Some r \<Rightarrow> Inr (r, s)
     | None \<Rightarrow>
         bindE (reraise LeaseErr RuntimeErr ''lease'' (reraise RuntimeLeaseErr RuntimeErr ''runtime lease''
             (claim_leased_job H env (PyStr agent_id) (PyStr host_id) (ca_recoverable a) (ca_ttl a) (PyStr agent_id)
                (ca_recovery_reason a) (ca_stopped a) (ca_reap_mode a) (ca_reap_reason a)
                (map_option fst request) (map_option snd request) s))) (\<lambda>out.
         case out of
           NotClaimed reason oldest \<Rightarrow> Inr (not_claimed (Some reason) oldest, s)
         | Claimed r s' \<Rightarrow> Inr (claimed_reply (cr_job r) (cr_attempt_token r) (cr_execution_context r) (cr_execution_lease r) False, s')))"

text \<open>The legacy claim of an untyped agent: the candidate and its context are read before the transaction.\<close>

definition legacy_task :: "db \<Rightarrow> job_row \<Rightarrow> fields option" where
  "legacy_task s j =
     (case or_str (jb_task_id j) None of None \<Rightarrow> None
      | Some t \<Rightarrow> map_option task_dict
          (find (\<lambda>r. Some (tk_workspace_id r) = jb_workspace_id j \<and> tk_task_id r = t) (db_tasks s)))"

definition legacy_context ::
  "(string \<Rightarrow> string) \<Rightarrow> db \<Rightarrow> job_row \<Rightarrow> string \<Rightarrow> string \<Rightarrow> execution_context result" where
  "legacy_context H s j agent_id host_id =
     bindE (get_workspace_host_profile s (case jb_workspace_id j of None \<Rightarrow> [] | Some w \<Rightarrow> w) host_id) (\<lambda>p.
     case p of
       None \<Rightarrow> raise RuntimeErr ''workspace has no host profile for host''
     | Some profile \<Rightarrow>
         if dget (job_payload j) ''execution_context'' = PyNone
         then if or_str (jb_task_id j) None \<noteq> None \<and> legacy_task s j = None then raise RuntimeErr ''task mirror not found''
              else case (case jb_workspace_id j of None \<Rightarrow> None | Some w \<Rightarrow> get_workspace s w) of
                None \<Rightarrow> raise AttributeErr ''id''
              | Some ws \<Rightarrow> reraise ContextErr RuntimeErr ''invalid execution context''
                  (resolve_execution_context_v1 H (jb_id j) ws (legacy_task s j) agent_id host_id profile
                     (payload_origin (job_payload j)) (jb_branch j) (jb_worktree_path j) (jb_logs_path j))
         else reraise ContextErr RuntimeErr ''invalid stored execution context''
           (validate_execution_context_snapshot H (dget (job_payload j) ''execution_context'') (Some (jb_id j))
              (jb_workspace_id j) (jb_task_id j) (Some agent_id) (Some host_id)))"

definition legacy_event_payload :: "job_row \<Rightarrow> string \<Rightarrow> execution_context \<Rightarrow> fields \<Rightarrow> fields" where
  "legacy_event_payload j agent_id ctx route =
     dupdate (dupdate
       [(''job_id'', PyStr (jb_id j)), (''agent_id'', PyStr agent_id), (''previous_status'', PyStr (jb_status j)),
        (''recovered'', PyBool (jb_status j = ''timed_out'')), (''execution_context_id'', PyStr (ec_context_id ctx)),
        (''context_version'', PyInt CONTRACT_VERSION), (''host_id'', PyStr (ec_host_id ctx)),
        (''worktree_path'', PyStr (ec_worktree_path ctx)), (''branch'', opt_str (ec_branch ctx)),
        (''session_scope_id'', PyStr (ec_session_scope_id ctx))]
       (if dget (job_payload j) ''executor_binding'' = PyNone then []
        else executor_binding_claim_evidence (dict_of (dget (job_payload j) ''executor_binding'')))) route"

definition claim_legacy_tx ::
  "(string \<Rightarrow> string) \<Rightarrow> claim_env \<Rightarrow> claim_args \<Rightarrow> string \<Rightarrow> string \<Rightarrow> (string \<times> string) option \<Rightarrow> job_row \<Rightarrow> execution_context
   \<Rightarrow> db \<Rightarrow> (claim_reply \<times> db) result" where
  "claim_legacy_tx H env a agent_id host_id request j ctx s =
     bindE (replay_request H (cl_now env) (cl_server_now env) s request agent_id host_id) (\<lambda>replay.
     case replay of
       Some r \<Rightarrow> Inr (r, s)
     | None \<Rightarrow>
         bindE (get_workspace_host_profile s (case jb_workspace_id j of None \<Rightarrow> [] | Some w \<Rightarrow> w) host_id) (\<lambda>p.
         case p of
           None \<Rightarrow> raise RuntimeErr ''workspace has no host profile for host''
         | Some profile \<Rightarrow>
             bindE (reraise ResourceIdentityErr RuntimeErr ''worktree containment policy rejected claim''
                 (check_worktree_containment_policy (ec_worktree_path ctx) (hp_workspace_path profile) (hp_worktree_roots profile))) (\<lambda>_.
             let token = jb_attempt_count j + 1;
                 here = (\<lambda>x. jb_id x = jb_id j \<and> jb_status x = jb_status j);
                 payload = dset ''execution_context'' (to_dict ctx) (job_payload j);
                 s1 = s\<lparr>db_jobs := update_where here (claim_job_row (cl_now env) token payload) (db_jobs s)\<rparr>
             in if rowcount here (db_jobs s) = 0 then Inr (not_claimed None None, s)
                else
                  bindE (routing_claim_evidence H (job_payload j) j) (\<lambda>route.
                  bindE (append_with (cl_claimed env) (claim_key (jb_id j) token)
                      (job_event ''job.claimed'' agent_id (Some agent_id) j (legacy_event_payload j agent_id ctx route)) s1) (\<lambda>(_, s2).
                  bindE (append_claim_request_marker H (cl_marker env) (map_option fst request) (map_option snd request) j agent_id
                      token None (ca_ttl a) s2) (\<lambda>s3.
                  bindE (get_job s3 (jb_id j)) (\<lambda>c.
                    Inr (claimed_reply c (jb_attempt_count c) ctx PyNone False, s3))))))))"

definition claim_job ::
  "(string \<Rightarrow> string) \<Rightarrow> claim_env \<Rightarrow> claim_args \<Rightarrow> db \<Rightarrow> db \<Rightarrow> (claim_reply \<times> db) result" where
  "claim_job H env a s0 s =
     bindE (claim_request H a s0) (\<lambda>(agent_id, host_id, request).
     bindE (replay_request H (cl_now env) (cl_server_now env) s0 request agent_id host_id) (\<lambda>replay.
     case replay of
       Some r \<Rightarrow> Inr (r, s)
     | None \<Rightarrow>
         bindE (resolve_exact_executor_binding H s0 agent_id) (\<lambda>b.
         if b \<noteq> None then claim_typed H env a agent_id host_id request s
         else if ca_reap_mode a = PyStr ''none'' then raise RuntimeErr ''reap_mode=none requires a typed agent with exact executor binding''
         else case claim_queue (ca_recoverable a) agent_id s0 of
           [] \<Rightarrow> bindE (replay_request H (cl_now env) (cl_server_now env) s request agent_id host_id) (\<lambda>again.
                   Inr (case again of Some r \<Rightarrow> r | None \<Rightarrow> not_claimed None None, s))
         | j # _ \<Rightarrow>
             bindE (legacy_context H s0 j agent_id host_id) (\<lambda>ctx.
               claim_legacy_tx H env a agent_id host_id request j ctx s))))"

section \<open>Reports\<close>

record report_args =
  ra_job_id :: string
  ra_agent_id :: string
  ra_status :: string
  ra_result :: fields
  ra_actor :: "string option"
  ra_attempt_token :: "int option"
  ra_lease_id :: "string option"

text \<open>What a report takes from outside, one stamp for each event or delivery.\<close>

record report_env =
  re_now :: timestamp
  re_lease_now :: timestamp
  re_release_now :: timestamp
  re_terminal :: terminal_env
  re_event :: stamp
  re_warning :: stamp

record report_reply =
  ry_job :: job_row
  ry_event :: event_row
  ry_event_created :: bool
  ry_delivery :: "delivery_row option"
  ry_delivery_created :: bool

definition replayed_key :: "(string \<Rightarrow> string) \<Rightarrow> string \<Rightarrow> string \<Rightarrow> fields \<Rightarrow> string" where
  "replayed_key H job_id status result =
     ''runtime:job:'' @ job_id @ '':result-replayed:'' @ status @ CHR '':'' # stable_result_key H result"

definition replayed_event ::
  "(string \<Rightarrow> string) \<Rightarrow> stamp \<Rightarrow> report_args \<Rightarrow> fields \<Rightarrow> string \<Rightarrow> job_row \<Rightarrow> db \<Rightarrow> ((event_row \<times> bool) \<times> db) result" where
  "replayed_event H u a result reason j s =
     append_with u (replayed_key H (ra_job_id a) (ra_status a) result)
       (job_event ''job.result_replayed'' (or_actor (ra_actor a) (ra_agent_id a)) (Some (ra_agent_id a)) j
         [(''job_id'', PyStr (ra_job_id a)), (''agent_id'', PyStr (ra_agent_id a)), (''status'', PyStr (jb_status j)),
          (''submitted_status'', PyStr (ra_status a)), (''submitted_result'', PyDict result), (''applied'', PyBool False),
          (''reason'', PyStr reason)]) s"

definition replay_terminal_result ::
  "(string \<Rightarrow> string) \<Rightarrow> stamp \<Rightarrow> report_args \<Rightarrow> fields \<Rightarrow> job_row \<Rightarrow> db \<Rightarrow> (report_reply \<times> db) result" where
  "replay_terminal_result H u a result j s =
     bindE (replayed_event H u a result ''terminal_result_immutable'' j s) (\<lambda>((e, created), s').
       Inr (\<lparr>ry_job = j, ry_event = e, ry_event_created = created, ry_delivery = None, ry_delivery_created = False\<rparr>, s'))"

definition persist_attempt_usage_and_warning ::
  "(string \<Rightarrow> string) \<Rightarrow> stamp \<Rightarrow> usage_evidence option \<Rightarrow> job_row \<Rightarrow> int \<Rightarrow> string \<Rightarrow> bool \<Rightarrow> timestamp \<Rightarrow> string option \<Rightarrow> db
   \<Rightarrow> (bool \<times> db) result" where
  "persist_attempt_usage_and_warning H u usage j token event_id event_created recorded_at actor s =
     (case usage of
        None \<Rightarrow> Inr (False, s)
      | Some e \<Rightarrow>
          bindE (insert_attempt_usage
              \<lparr>us_job_id = jb_id j, us_attempt_token = token, us_workspace_id = jb_workspace_id j, us_task_id = jb_task_id j,
               us_evidence = usage_canonical_dict e, us_evidence_digest = ue_digest e, us_observed_tokens = ue_observed_tokens e,
               us_provider_cost_microusd = ue_provider_cost_microusd e, us_completeness = ue_completeness e,
               us_terminal_event_id = Some event_id, us_event_created = event_created, us_recorded_at = recorded_at\<rparr> s) (\<lambda>(created, s1).
          if \<not> created then Inr (False, s1)
          else case (jb_task_id j, ue_observed_tokens e) of
            (Some t, Some n) \<Rightarrow>
              bindE (evaluate_task_usage_warning H (fst u) (snd u)
                  \<lparr>ua_workspace_id = (case jb_workspace_id j of None \<Rightarrow> [] | Some w \<Rightarrow> w), ua_task_id = t, ua_job_id = jb_id j,
                   ua_attempt_token = token, ua_observed_tokens = n, ua_completeness = ue_completeness e,
                   ua_terminal_event_id = Some event_id, ua_terminal_event_created = event_created,
                   ua_actor = or_actor actor ''runtime'', ua_agent_id = jb_assigned_agent j\<rparr> s1) (\<lambda>(_, s2). Inr (True, s2))
          | _ \<Rightarrow> Inr (True, s1)))"

definition finish_job_row :: "timestamp \<Rightarrow> string \<Rightarrow> fields \<Rightarrow> bool \<Rightarrow> job_row \<Rightarrow> job_row" where
  "finish_job_row now status result recoverable j =
     j\<lparr>jb_status := status, jb_result_json := Some (json_col (PyDict result)), jb_completed_at := Some now,
       jb_last_activity_at := Some now, jb_recoverable := recoverable, jb_updated_at := now\<rparr>"

definition recoverable_flag :: "string \<Rightarrow> fields \<Rightarrow> bool" where
  "recoverable_flag status result \<longleftrightarrow> status = ''timed_out'' \<and> truthy (dget_or result ''recoverable'' (PyBool True))"

text \<open>\<open>WHERE id = ? AND status = ...\<close>, with the attempt when one was supplied.\<close>

definition in_attempt :: "string \<Rightarrow> string \<Rightarrow> int option \<Rightarrow> job_row \<Rightarrow> bool" where
  "in_attempt job_id status token j \<longleftrightarrow> jb_id j = job_id \<and> jb_status j = status \<and>
     (token = None \<or> token = Some (jb_attempt_count j))"

definition apply_terminal_job_update ::
  "timestamp \<Rightarrow> string \<Rightarrow> string \<Rightarrow> fields \<Rightarrow> int option \<Rightarrow> db \<Rightarrow> db result" where
  "apply_terminal_job_update now job_id status result token s =
     (let here = in_attempt job_id ''running'' token in
      if token \<noteq> None \<and> rowcount here (db_jobs s) = 0
      then bindE (get_job s job_id) (\<lambda>_. raise RuntimeErr ''report rejected: CAS failed'')
      else Inr (s\<lparr>db_jobs := update_where here (finish_job_row now status result (recoverable_flag status result)) (db_jobs s)\<rparr>))"

text \<open>The transaction that ends a running attempt. \<open>job\<close> is the row that was read before it.\<close>

definition report_terminal_tx ::
  "(string \<Rightarrow> string) \<Rightarrow> report_env \<Rightarrow> report_args \<Rightarrow> fields \<Rightarrow> usage_evidence option \<Rightarrow> job_row \<Rightarrow> db \<Rightarrow> (report_reply \<times> db) result" where
  "report_terminal_tx H env a result usage job s =
     bindE (get_job s (ra_job_id a)) (\<lambda>current.
     if jb_status current \<noteq> ''running'' then raise RuntimeErr ''only running jobs can report result''
     else
       bindE (require_mutation_authority H (re_lease_now env) s (jb_attempt_count current) (ra_attempt_token a) (ra_job_id a)
                (ra_agent_id a) (ra_lease_id a)) (\<lambda>_.
       bindE (apply_terminal_job_update (re_now env) (ra_job_id a) (ra_status a) result (ra_attempt_token a) s) (\<lambda>s1.
       bindE (case (ra_lease_id a, ra_attempt_token a) of
                (Some lid, Some token) \<Rightarrow>
                  bindE (release_lease_for_terminal_report H (re_release_now env) lid (ra_job_id a) token (ra_agent_id a) (ra_status a) s1)
                    (\<lambda>(_, s2). Inr s2)
              | _ \<Rightarrow> Inr s1) (\<lambda>s2.
       bindE (append_terminal_events_and_delivery (re_terminal env) job (ra_job_id a) (ra_agent_id a) (ra_status a) result
                (ra_actor a) s2) (\<lambda>(t, s3).
       bindE (persist_attempt_usage_and_warning H (re_warning env) usage current (jb_attempt_count current) (ev_id (to_event t))
                (to_event_created t) (re_now env) (ra_actor a) s3) (\<lambda>(_, s4).
       bindE (get_job s4 (ra_job_id a)) (\<lambda>j.
         Inr (\<lparr>ry_job = j, ry_event = to_event t, ry_event_created = to_event_created t, ry_delivery = to_delivery t,
               ry_delivery_created = to_delivery_created t\<rparr>, s4))))))))"

section \<open>Late results\<close>

definition validate_destination :: "pyval \<Rightarrow> fields result" where
  "validate_destination v =
     (case as_dict v of
        None \<Rightarrow> raise RuntimeErr ''must be an object''
      | Some d \<Rightarrow>
          if \<not> truthy (dget d ''platform'') then raise RuntimeErr ''platform is required''
          else if \<not> truthy (dget d ''destination'') then raise RuntimeErr ''destination is required''
          else Inr d)"

definition normalize_reply_platform :: "string \<Rightarrow> string option \<Rightarrow> string" where
  "normalize_reply_platform platform default_bus =
     (if platform = ''discord'' \<and> default_bus \<noteq> Some ''discord'' then ''discord_webhook'' else platform)"

text \<open>
  \<open>_create_response_delivery\<close> of \<^verbatim>\<open>runtime.py\<close>: it raises where its namesake of \<^verbatim>\<open>runtime_lease.py\<close>
  returns nothing. It commits; nothing follows it in the transaction but the commit.
\<close>

definition late_response_delivery ::
  "stamp \<Rightarrow> job_row \<Rightarrow> string \<Rightarrow> fields \<Rightarrow> db \<Rightarrow> ((delivery_row option \<times> bool) \<times> db) result" where
  "late_response_delivery u j event_id result s =
     (case as_dict (dget (job_payload j) ''reply'') of
        None \<Rightarrow> Inr ((None, False), s)
      | Some reply \<Rightarrow>
          (case as_str (response_text result) of
             None \<Rightarrow> Inr ((None, False), s)
           | Some txt \<Rightarrow>
               if strip txt = [] then Inr ((None, False), s)
               else
                 bindE (validate_destination (PyDict reply)) (\<lambda>d.
                 let platform = normalize_reply_platform (py_str (dget d ''platform'')) (default_bus_of s j);
                     destination = py_str (dget d ''destination'')
                 in if platform = ''none'' then Inr ((None, False), s)
                    else
                      bindE (create_delivery (fst u) (snd u) (response_key (jb_id j) event_id platform destination)
                          \<lparr>nd_platform = platform, nd_destination = destination, nd_payload = response_payload (PyStr txt) j,
                           nd_event_id = Some event_id\<rparr> s) (\<lambda>((x, created), s'). Inr ((Some x, created), s')))))"

definition late_key :: "string \<Rightarrow> string \<Rightarrow> string" where
  "late_key job_id status = ''runtime:job:'' @ job_id @ '':late-result:'' @ status"

definition late_payload :: "report_args \<Rightarrow> fields \<Rightarrow> fields" where
  "late_payload a result =
     dupdate [(''job_id'', PyStr (ra_job_id a)), (''agent_id'', PyStr (ra_agent_id a)), (''status'', PyStr (ra_status a)),
       (''previous_status'', PyStr ''timed_out'')] result"

text \<open>The evidence of the attempt that was recorded first wins over the evidence of a late report.\<close>

definition late_usage ::
  "(string \<Rightarrow> string) \<Rightarrow> db \<Rightarrow> job_row \<Rightarrow> fields \<Rightarrow> usage_evidence option \<Rightarrow> (fields \<times> usage_evidence option) result" where
  "late_usage H s current result usage =
     (case get_attempt_usage s (jb_id current) (jb_attempt_count current) of
        None \<Rightarrow> Inr (result, usage)
      | Some row \<Rightarrow>
          bindE (parse_usage_evidence H (us_evidence row)) (\<lambda>e.
          case e of
            None \<Rightarrow> raise RuntimeErr ''stored attempt usage is unexpectedly empty''
          | Some x \<Rightarrow> Inr (dset ''usage_evidence'' (usage_summary_dict x) result, Some x)))"

definition accept_late_result ::
  "(string \<Rightarrow> string) \<Rightarrow> report_env \<Rightarrow> report_args \<Rightarrow> fields \<Rightarrow> usage_evidence option \<Rightarrow> job_row \<Rightarrow> db \<Rightarrow> (report_reply \<times> db) result" where
  "accept_late_result H env a result0 usage0 job s =
     bindE (get_job s (ra_job_id a)) (\<lambda>current.
     if jb_status current \<noteq> ''timed_out'' \<or> \<not> jb_recoverable current then raise RuntimeErr ''job is not timed_out+recoverable''
     else if attempt_has_any_lease s (ra_job_id a) (jb_attempt_count current)
     then raise RuntimeLeaseErr ''late-result rejected: current attempt is managed''
     else
       bindE (late_usage H s current result0 usage0) (\<lambda>(result, usage).
       let normalized = normalize_result (ra_status a) result job (re_now env);
           here = (\<lambda>j. in_attempt (ra_job_id a) ''timed_out'' (ra_attempt_token a) j \<and> jb_recoverable j);
           s1 = s\<lparr>db_jobs := update_where here (finish_job_row (re_now env) (ra_status a) normalized False) (db_jobs s)\<rparr>
       in if rowcount here (db_jobs s) = 0
          then if ra_attempt_token a \<noteq> None then raise RuntimeErr ''late-result rejected: CAS failed''
               else bindE (replayed_event H (re_event env) a result ''recoverable_timeout_already_claimed'' current s) (\<lambda>((e, created), s').
                 Inr (\<lparr>ry_job = current, ry_event = e, ry_event_created = created, ry_delivery = None, ry_delivery_created = False\<rparr>, s'))
          else
            bindE (append_with (re_event env) (late_key (ra_job_id a) (ra_status a))
                (job_event ''job.late_result_accepted'' (or_actor (ra_actor a) (ra_agent_id a)) (Some (ra_agent_id a)) job
                  (late_payload a normalized)) s1) (\<lambda>((e, created), s2).
            bindE (persist_attempt_usage_and_warning H (re_warning env) usage current (jb_attempt_count current) (ev_id e) created
                (re_now env) (ra_actor a) s2) (\<lambda>(_, s3).
            bindE (get_job s3 (ra_job_id a)) (\<lambda>j.
            bindE (late_response_delivery (te_delivery (re_terminal env)) j (ev_id e) normalized s3) (\<lambda>((d, dc), s4).
            bindE (get_job s4 (ra_job_id a)) (\<lambda>j'.
              Inr (\<lparr>ry_job = j', ry_event = e, ry_event_created = created, ry_delivery = d, ry_delivery_created = dc\<rparr>, s4))))))))"

definition report_job_result ::
  "(string \<Rightarrow> string) \<Rightarrow> report_env \<Rightarrow> report_args \<Rightarrow> db \<Rightarrow> db \<Rightarrow> (report_reply \<times> db) result" where
  "report_job_result H env a s0 s =
     (if \<not> List.member [''done'', ''failed'', ''timed_out''] (ra_status a) then raise RuntimeErr ''status must be done, failed, or timed_out''
      else
        bindE (split_usage_evidence H (ra_result a)) (\<lambda>(result, usage).
        bindE (get_job s0 (ra_job_id a)) (\<lambda>job.
        if jb_assigned_agent job \<noteq> Some (ra_agent_id a) then raise RuntimeErr ''job is assigned to another agent''
        else if jb_status job = ''done'' \<or> jb_status job = ''failed'' then replay_terminal_result H (re_event env) a result job s
        else if jb_status job = ''timed_out'' \<and> ra_status a \<noteq> ''timed_out'' then accept_late_result H env a result usage job s
        else if jb_status job = ''timed_out'' then replay_terminal_result H (re_event env) a result job s
        else if jb_status job \<noteq> ''running'' then raise RuntimeErr ''only running jobs can report result''
        else if ra_attempt_token a \<noteq> None \<and> ra_attempt_token a \<noteq> Some (jb_attempt_count job)
        then raise RuntimeErr ''report rejected: CAS failed''
        else report_terminal_tx H env a (normalize_result (ra_status a) result job (re_now env)) usage job s)))"

section \<open>Progress\<close>

definition strip_to :: "nat \<Rightarrow> string \<Rightarrow> pyval" where
  "strip_to n s = PyStr (take n (strip s))"

definition bounded_progress :: "string option \<Rightarrow> string option \<Rightarrow> string option \<Rightarrow> fields" where
  "bounded_progress stage summary session_id =
     (case or_str stage None of None \<Rightarrow> [] | Some x \<Rightarrow> [(''stage'', strip_to 80 x)]) @
     (case or_str summary None of None \<Rightarrow> [] | Some x \<Rightarrow> [(''summary'', strip_to 1000 x)]) @
     (case or_str session_id None of None \<Rightarrow> [] | Some x \<Rightarrow> [(''session_id'', strip_to 200 x)])"

record progress_args =
  pa_job_id :: string
  pa_agent_id :: string
  pa_stage :: "string option"
  pa_summary :: "string option"
  pa_session_id :: "string option"
  pa_actor :: "string option"
  pa_attempt_token :: "int option"
  pa_lease_id :: "string option"

definition progress_job_row :: "timestamp \<Rightarrow> fields \<Rightarrow> string option \<Rightarrow> job_row \<Rightarrow> job_row" where
  "progress_job_row now progress session_id j =
     j\<lparr>jb_last_activity_at := Some now, jb_progress_json := Some (json_col (PyDict progress)),
       jb_terminal_session_id := or_str session_id (jb_terminal_session_id j), jb_updated_at := now\<rparr>"

definition progress_key :: "string \<Rightarrow> timestamp \<Rightarrow> string" where
  "progress_key job_id now = ''runtime:job:'' @ job_id @ '':progress:'' @ iso_of now"

definition progress_payload :: "progress_args \<Rightarrow> timestamp \<Rightarrow> fields \<Rightarrow> fields" where
  "progress_payload a now progress =
     dupdate [(''job_id'', PyStr (pa_job_id a)), (''agent_id'', PyStr (pa_agent_id a)), (''last_activity_at'', PyStr (iso_of now))] progress"

text \<open>The result is the job, the event, and whether the event is new; \<open>t\<close> is the clock of the lease check.\<close>

definition record_job_progress ::
  "(string \<Rightarrow> string) \<Rightarrow> stamp \<Rightarrow> timestamp \<Rightarrow> timestamp \<Rightarrow> progress_args \<Rightarrow> db \<Rightarrow> db \<Rightarrow> ((job_row \<times> event_row \<times> bool) \<times> db) result" where
  "record_job_progress H u now t a s0 s =
     bindE (get_job s0 (pa_job_id a)) (\<lambda>job.
     if jb_assigned_agent job \<noteq> Some (pa_agent_id a) then raise RuntimeErr ''job is assigned to another agent''
     else if jb_status job \<noteq> ''running'' then raise RuntimeErr ''only running jobs can record progress''
     else
       let progress = bounded_progress (pa_stage a) (pa_summary a) (pa_session_id a) in
       bindE (get_job s (pa_job_id a)) (\<lambda>current.
       if jb_assigned_agent current \<noteq> Some (pa_agent_id a) then raise RuntimeErr ''job is assigned to another agent''
       else if jb_status current \<noteq> ''running'' then raise RuntimeErr ''only running jobs can record progress''
       else
         bindE (require_mutation_authority H t s (jb_attempt_count current) (pa_attempt_token a) (pa_job_id a)
                  (pa_agent_id a) (pa_lease_id a)) (\<lambda>_.
         let here = in_attempt (pa_job_id a) ''running'' (pa_attempt_token a);
             s1 = s\<lparr>db_jobs := update_where here (progress_job_row now progress (pa_session_id a)) (db_jobs s)\<rparr>
         in if pa_attempt_token a \<noteq> None \<and> rowcount here (db_jobs s) = 0 then raise RuntimeErr ''progress rejected: CAS failed''
            else
              bindE (append_with u (progress_key (pa_job_id a) now)
                  (job_event ''job.progress'' (or_actor (pa_actor a) (pa_agent_id a)) (Some (pa_agent_id a)) job
                    (progress_payload a now progress)) s1) (\<lambda>((e, created), s2).
              bindE (get_job s2 (pa_job_id a)) (\<lambda>j. Inr ((j, e, created), s2))))))"

end
