(* ===== verification/RuntimeSafety.thy ===== *)
theory RuntimeSafety
  imports Runtime LeaseSafety
begin

text \<open>
  What the runtime interface guarantees over whole runs: jobs and leases stay consistent, attempts
  are fenced, terminal results are final, and expired leases are recovered.
\<close>

section \<open>Writes that leave jobs and leases alone\<close>

definition same_work :: "db \<Rightarrow> db \<Rightarrow> bool" where
  "same_work s s' \<longleftrightarrow> db_jobs s' = db_jobs s \<and> db_leases s' = db_leases s \<and> db_capacity s' = db_capacity s \<and>
     db_agents s' = db_agents s \<and> db_workspaces s' = db_workspaces s"

lemma same_work_refl [simp]: "same_work s s"
  by (simp add: same_work_def)

lemma same_work_trans: "same_work s s1 \<Longrightarrow> same_work s1 s2 \<Longrightarrow> same_work s s2"
  by (simp add: same_work_def)

lemma append_event_same: "append_event u t k a s = Inr (x, s') \<Longrightarrow> same_work s s'"
  by (cases x) (auto dest!: append_event_prefix simp: same_work_def)

lemma append_with_same: "append_with u k a s = Inr (x, s') \<Longrightarrow> same_work s s'"
  by (simp add: append_with_def append_event_same)

lemma marker_same: "append_claim_request_marker H u c d j a t l ttl s = Inr s' \<Longrightarrow> same_work s s'"
  by (auto simp: append_claim_request_marker_def dest: append_with_same split: option.splits if_splits)

lemma create_delivery_same: "create_delivery did now k a s = Inr (x, s') \<Longrightarrow> same_work s s'"
  by (cases x) (auto simp: create_delivery_cases same_work_def)

lemma response_delivery_same: "create_response_delivery did now j e r s = Inr (x, s') \<Longrightarrow> same_work s s'"
  by (auto simp: create_response_delivery_def Let_def dest: create_delivery_same split: option.splits if_splits)

lemma late_delivery_same: "late_response_delivery u j e r s = Inr (x, s') \<Longrightarrow> same_work s s'"
  by (auto simp: late_response_delivery_def Let_def dest: create_delivery_same split: option.splits if_splits)

lemma append_review_same: "append_review u who j jid agent oc s = Inr s' \<Longrightarrow> same_work s s'"
  by (auto simp: append_review_def dest: append_with_same split: option.splits)

lemma terminal_events_same:
  assumes "append_terminal_events_and_delivery env j jid agent st result actor s = Inr (x, s')"
  shows "same_work s s'"
proof -
  from assms obtain y s1 z s2 s3 j' w where
    "append_with (te_terminal env) (result_key jid st) (job_event (terminal_event_type st) (or_actor actor agent) (Some agent) j
       (result_payload jid agent st result)) s = Inr (y, s1)"
    "append_with (te_reported env) (reported_key jid st (ro_decision (parse_job_agent_report result j)))
       (job_event ''agent.reported'' (or_actor actor agent) (Some agent) j
          (reported_payload jid agent st (parse_job_agent_report result j))) s1 = Inr (z, s2)"
    "append_review (te_review env) (or_actor actor agent) j jid agent (parse_job_agent_report result j) s2 = Inr s3"
    "create_response_delivery (fst (te_delivery env)) (snd (te_delivery env)) j' (ev_id (fst y)) result s3 = Inr (w, s')"
    unfolding append_terminal_events_and_delivery_def Let_def by (auto; force)
  then show ?thesis
    by (meson append_with_same append_review_same response_delivery_same same_work_trans)
qed

lemma insert_usage_same: "insert_attempt_usage u s = Inr (b, s') \<Longrightarrow> same_work s s'"
  by (auto simp: insert_attempt_usage_def same_work_def split: if_splits)

lemma warning_same: "evaluate_task_usage_warning H uuid now a s = Inr (x, s') \<Longrightarrow> same_work s s'"
  by (auto simp: evaluate_task_usage_warning_def dest: append_event_same split: option.splits if_splits)

lemma persist_same: "persist_attempt_usage_and_warning H u usage j tok e c t actor s = Inr (b, s') \<Longrightarrow> same_work s s'"
proof (cases usage)
  case (Some x)
  assume p: "persist_attempt_usage_and_warning H u usage j tok e c t actor s = Inr (b, s')"
  with Some obtain created s1 where i: "insert_attempt_usage
      \<lparr>us_job_id = jb_id j, us_attempt_token = tok, us_workspace_id = jb_workspace_id j, us_task_id = jb_task_id j,
       us_evidence = usage_canonical_dict x, us_evidence_digest = ue_digest x, us_observed_tokens = ue_observed_tokens x,
       us_provider_cost_microusd = ue_provider_cost_microusd x, us_completeness = ue_completeness x,
       us_terminal_event_id = Some e, us_event_created = c, us_recorded_at = t\<rparr> s = Inr (created, s1)"
    by (auto simp: persist_attempt_usage_and_warning_def)
  have "same_work s1 s'"
    using p Some i by (auto simp: persist_attempt_usage_and_warning_def dest: warning_same split: if_splits option.splits)
  with insert_usage_same [OF i] show ?thesis by (rule same_work_trans)
qed (simp add: persist_attempt_usage_and_warning_def)

section \<open>Jobs and leases agree\<close>

text \<open>
  A lease is of an attempt that its job has reached, and an active lease is of the current attempt
  of a running job, held by the agent to whom the job is assigned. The code does not keep this for a job on
  which a cancellation, a legacy claim or a local run acts on a stale reading, so it is stated of a
  set \<open>G\<close> of jobs: those on which no operation did.
\<close>

definition attempt_inv_on :: "string set \<Rightarrow> db \<Rightarrow> bool" where
  "attempt_inv_on G s \<longleftrightarrow> distinct (map jb_id (db_jobs s)) \<and>
     (\<forall>l \<in> set (db_leases s). lr_job_id l \<in> G \<longrightarrow>
        (\<exists>j \<in> set (db_jobs s). jb_id j = lr_job_id l \<and> lr_attempt_token l \<le> jb_attempt_count j \<and>
        (lr_status l = Active \<longrightarrow> jb_status j = ''running'' \<and> jb_attempt_count j = lr_attempt_token l \<and>
           jb_assigned_agent j = Some (lr_agent_id l))))"

definition work_ok_on :: "string set \<Rightarrow> timestamp \<times> db \<Rightarrow> bool" where
  "work_ok_on G x \<longleftrightarrow> lease_ok x \<and> attempt_inv_on G (snd x)"

abbreviation attempt_inv :: "db \<Rightarrow> bool" where
  "attempt_inv \<equiv> attempt_inv_on UNIV"

abbreviation work_ok :: "timestamp \<times> db \<Rightarrow> bool" where
  "work_ok \<equiv> work_ok_on UNIV"

lemma attempt_inv_same: "attempt_inv_on G s \<Longrightarrow> same_work s s' \<Longrightarrow> attempt_inv_on G s'"
  by (simp add: attempt_inv_on_def same_work_def)

lemma lease_ok_same: "lease_ok (now, s) \<Longrightarrow> same_work s s' \<Longrightarrow> lease_ok (now, s')"
  by (rule lease_ok_cong) (simp_all add: same_work_def)

lemma work_ok_same: "work_ok_on G (now, s) \<Longrightarrow> same_work s s' \<Longrightarrow> now \<le> now' \<Longrightarrow> work_ok_on G (now', s')"
  using lease_ok_same [of now s s'] attempt_inv_same [of G s s'] lease_ok_mono by (auto simp: work_ok_on_def)

lemma attempt_inv_job:
  assumes "attempt_inv_on G s" "l \<in> set (db_leases s)" "j \<in> set (db_jobs s)" "jb_id j = lr_job_id l" "jb_id j \<in> G"
  shows "lr_attempt_token l \<le> jb_attempt_count j" "lr_status l = Active \<Longrightarrow> jb_status j = ''running'' \<and>
    jb_attempt_count j = lr_attempt_token l \<and> jb_assigned_agent j = Some (lr_agent_id l)"
proof -
  from assms(4,5) have "lr_job_id l \<in> G" by simp
  with assms(1,2) obtain x where x: "x \<in> set (db_jobs s)" "jb_id x = lr_job_id l" "lr_attempt_token l \<le> jb_attempt_count x"
    "lr_status l = Active \<Longrightarrow> jb_status x = ''running'' \<and> jb_attempt_count x = lr_attempt_token l \<and> jb_assigned_agent x = Some (lr_agent_id l)"
    unfolding attempt_inv_on_def by blast
  from assms(1) have "inj_on jb_id (set (db_jobs s))" by (simp add: attempt_inv_on_def distinct_map)
  from inj_onD [OF this _ x(1) assms(3)] x(2) assms(4) have "x = j" by simp
  with x show "lr_attempt_token l \<le> jb_attempt_count j" "lr_status l = Active \<Longrightarrow> jb_status j = ''running'' \<and>
    jb_attempt_count j = lr_attempt_token l \<and> jb_assigned_agent j = Some (lr_agent_id l)" by blast+
qed

lemma attempt_inv_update_jobs:
  assumes "attempt_inv_on G s" "\<And>j. jb_id (f j) = jb_id j"
    and "\<And>j. j \<in> set (db_jobs s) \<Longrightarrow> p j \<Longrightarrow> jb_id j \<in> G \<Longrightarrow> jb_attempt_count j \<le> jb_attempt_count (f j)"
    and "\<And>j l. j \<in> set (db_jobs s) \<Longrightarrow> p j \<Longrightarrow> jb_id j \<in> G \<Longrightarrow> l \<in> set (db_leases s) \<Longrightarrow> lr_job_id l = jb_id j \<Longrightarrow> lr_status l = Active \<Longrightarrow>
      jb_status (f j) = ''running'' \<and> jb_attempt_count (f j) = jb_attempt_count j \<and> jb_assigned_agent (f j) = jb_assigned_agent j"
  shows "attempt_inv_on G (s\<lparr>db_jobs := update_where p f (db_jobs s)\<rparr>)"
proof -
  have "map jb_id (update_where p f (db_jobs s)) = map jb_id (db_jobs s)"
    using assms(2) by (intro map_update_where) simp
  then have d: "distinct (map jb_id (update_where p f (db_jobs s)))" using assms(1) by (simp add: attempt_inv_on_def)
  have "\<exists>j \<in> set (update_where p f (db_jobs s)). jb_id j = lr_job_id l \<and> lr_attempt_token l \<le> jb_attempt_count j \<and>
      (lr_status l = Active \<longrightarrow> jb_status j = ''running'' \<and> jb_attempt_count j = lr_attempt_token l \<and>
         jb_assigned_agent j = Some (lr_agent_id l))" if l: "l \<in> set (db_leases s)" and G: "lr_job_id l \<in> G" for l
  proof -
    from assms(1) l G obtain x where x: "x \<in> set (db_jobs s)" "jb_id x = lr_job_id l" by (auto simp: attempt_inv_on_def)
    with G have xG: "jb_id x \<in> G" by simp
    note a = attempt_inv_job [OF assms(1) l x xG]
    have "(if p x then f x else x) \<in> set (update_where p f (db_jobs s))" using x(1) unfolding in_update_where by blast
    moreover have "jb_id (if p x then f x else x) = lr_job_id l" using x(2) assms(2) by simp
    moreover have "lr_attempt_token l \<le> jb_attempt_count (if p x then f x else x)"
      using a(1) assms(3) [OF x(1) _ xG] by (auto intro: order_trans)
    moreover have "jb_status (if p x then f x else x) = ''running'' \<and> jb_attempt_count (if p x then f x else x) = lr_attempt_token l \<and>
        jb_assigned_agent (if p x then f x else x) = Some (lr_agent_id l)" if "lr_status l = Active"
      using a(2) [OF that] assms(4) [OF x(1) _ xG l x(2) [symmetric] that] by (cases "p x") simp_all
    ultimately show ?thesis by blast
  qed
  with d show ?thesis by (simp add: attempt_inv_on_def)
qed

lemma attempt_inv_update_leases:
  assumes "attempt_inv_on G s" "update_leases p f s = Inr s'" "tame f"
  shows "attempt_inv_on G s'"
proof -
  have f: "lr_job_id (f l) = lr_job_id l" "lr_attempt_token (f l) = lr_attempt_token l" "lr_agent_id (f l) = lr_agent_id l"
    "lr_status (f l) = Active \<Longrightarrow> lr_status l = Active" for l
    using assms(3) by (auto simp: tame_def)
  from assms(2) have s': "db_leases s' = update_where p f (db_leases s)" "db_jobs s' = db_jobs s" by (auto simp: update_leases_Inr)
  have "\<exists>j \<in> set (db_jobs s). jb_id j = lr_job_id l \<and> lr_attempt_token l \<le> jb_attempt_count j \<and>
      (lr_status l = Active \<longrightarrow> jb_status j = ''running'' \<and> jb_attempt_count j = lr_attempt_token l \<and>
         jb_assigned_agent j = Some (lr_agent_id l))" if "l \<in> set (update_where p f (db_leases s))" "lr_job_id l \<in> G" for l
  proof -
    from that(1) obtain x where x: "x \<in> set (db_leases s)" "l = (if p x then f x else x)" unfolding in_update_where by blast
    have "lr_job_id x \<in> G" using that(2) x(2) f [of x] by (auto split: if_splits)
    with assms(1) x(1) have "\<exists>j \<in> set (db_jobs s). jb_id j = lr_job_id x \<and> lr_attempt_token x \<le> jb_attempt_count j \<and>
      (lr_status x = Active \<longrightarrow> jb_status j = ''running'' \<and> jb_attempt_count j = lr_attempt_token x \<and>
         jb_assigned_agent j = Some (lr_agent_id x))" by (simp add: attempt_inv_on_def)
    with x(2) f [of x] show ?thesis by (auto split: if_splits)
  qed
  with assms(1) s' show ?thesis by (simp add: attempt_inv_on_def)
qed

lemma no_active_unless_running:
  "attempt_inv_on G s \<Longrightarrow> j \<in> set (db_jobs s) \<Longrightarrow> jb_status j \<noteq> ''running'' \<Longrightarrow> l \<in> set (db_leases s) \<Longrightarrow>
     lr_job_id l = jb_id j \<Longrightarrow> jb_id j \<in> G \<Longrightarrow> lr_status l \<noteq> Active"
  using attempt_inv_job(2) [of G s l j] by auto


section \<open>How a job develops\<close>

text \<open>
  A job keeps its identity and its agent, its attempts only go up, and once it is done, failed or
  cancelled its row does not change.
\<close>

definition final_job :: "job_row \<Rightarrow> bool" where
  "final_job j \<longleftrightarrow> jb_status j \<in> {''done'', ''failed'', ''cancelled''}"

definition job_after :: "job_row \<Rightarrow> job_row \<Rightarrow> bool" where
  "job_after j j' \<longleftrightarrow> jb_id j' = jb_id j \<and> jb_assigned_agent j' = jb_assigned_agent j \<and> jb_workspace_id j' = jb_workspace_id j \<and>
     jb_task_id j' = jb_task_id j \<and> jb_attempt_count j \<le> jb_attempt_count j' \<and> (final_job j \<longrightarrow> j' = j)"

definition jobs_after_on :: "string set \<Rightarrow> db \<Rightarrow> db \<Rightarrow> bool" where
  "jobs_after_on G s s' \<longleftrightarrow> (\<forall>i j. i \<in> G \<longrightarrow> find_job s i = Some j \<longrightarrow> (\<exists>j'. find_job s' i = Some j' \<and> job_after j j'))"

lemma job_after_refl [simp]: "job_after j j"
  by (simp add: job_after_def)

lemma job_after_trans: "job_after a b \<Longrightarrow> job_after b c \<Longrightarrow> job_after a c"
  by (auto simp: job_after_def)

lemma jobs_after_trans: "jobs_after_on G a b \<Longrightarrow> jobs_after_on G b c \<Longrightarrow> jobs_after_on G a c"
  unfolding jobs_after_on_def by (meson job_after_trans)

lemma jobs_after_eq: "db_jobs s' = db_jobs s \<Longrightarrow> jobs_after_on G s s'"
  by (simp add: jobs_after_on_def find_job_def)

lemma jobs_after_same: "same_work s s' \<Longrightarrow> jobs_after_on G s s'"
  by (simp add: jobs_after_eq same_work_def)

lemma find_update_where_id:
  "(\<And>x. key (f x) = key x) \<Longrightarrow> find (\<lambda>r. key r = k) (update_where p f rows) =
     map_option (\<lambda>x. if p x then f x else x) (find (\<lambda>r. key r = k) rows)"
  by (induction rows) (auto simp: update_where_def)

lemma jobs_after_update:
  assumes "db_jobs s' = update_where p f (db_jobs s)" "\<And>j. jb_id (f j) = jb_id j"
    and "\<And>j. find_job s (jb_id j) = Some j \<Longrightarrow> p j \<Longrightarrow> jb_id j \<in> G \<Longrightarrow> job_after j (f j)"
  shows "jobs_after_on G s s'"
proof -
  have "\<exists>j'. find_job s' i = Some j' \<and> job_after j j'" if j: "find_job s i = Some j" and G: "i \<in> G" for i j
  proof -
    have "find_job s' i = Some (if p j then f j else j)"
      using j unfolding find_job_def assms(1) find_update_where_id [of jb_id, OF assms(2)] by simp
    moreover have "find_job s (jb_id j) = Some j" "jb_id j \<in> G" using j G find_job_id [OF j] by simp_all
    ultimately show ?thesis using assms(3) by auto
  qed
  then show ?thesis by (simp add: jobs_after_on_def)
qed

lemma find_job_same: "same_work s s' \<Longrightarrow> find_job s' = find_job s"
  by (simp add: find_job_def same_work_def fun_eq_iff)


section \<open>Each operation keeps them\<close>

text \<open>Expiry of one lease.\<close>

lemma require_reap_Inr:
  "require_active_lease_for_reap H now lid jid tok agent s = Inr l \<longleftrightarrow>
     find_lease s lid = Some l \<and> validate_stored_resource H l = Inr () \<and> lr_job_id l = jid \<and> lr_attempt_token l = tok \<and>
     lr_agent_id l = agent \<and> lr_status l = Active \<and> lr_expires_at l \<le> now"
  by (auto simp: require_active_lease_for_reap_def bindE_eq_Inr not_less split: option.splits)

lemma tame_expire [simp]: "tame (\<lambda>l. l\<lparr>lr_status := Expired, lr_renewed_at := lr_expires_at l\<rparr>)"
  by (simp add: tame_def)

lemma expire_revalidated_Inr:
  assumes "expire_revalidated_lease u1 u2 now actor cur s = Inr (l, s')"
  shows "l = cur \<and> (\<exists>j s1. find_job s (lr_job_id cur) = Some j \<and> jb_status j = ''running'' \<and>
    jb_attempt_count j = lr_attempt_token cur \<and> jb_assigned_agent j = Some (lr_agent_id cur) \<and>
    update_leases (\<lambda>l. lr_lease_id l = lr_lease_id cur) (\<lambda>l. l\<lparr>lr_status := Expired, lr_renewed_at := lr_expires_at l\<rparr>) s = Inr s1 \<and>
    same_work (s1\<lparr>db_jobs := update_where (running_attempt (lr_job_id cur) (lr_attempt_token cur))
      (time_out_job now (expiry_result now j)) (db_jobs s1)\<rparr>) s')"
proof -
  from assms obtain j where j: "find_job s (lr_job_id cur) = Some j"
    by (auto simp: expire_revalidated_lease_def Let_def get_job_Inr)
  note g = get_job_Inr [THEN iffD2, OF j]
  from assms [unfolded expire_revalidated_lease_def Let_def g bindE_simps]
  have run: "jb_status j = ''running''" "jb_attempt_count j = lr_attempt_token cur" "jb_assigned_agent j = Some (lr_agent_id cur)"
    by (auto split: if_splits)
  from assms [unfolded expire_revalidated_lease_def Let_def g bindE_simps] obtain s1 where
    s1: "update_leases (\<lambda>l. lr_lease_id l = lr_lease_id cur) (\<lambda>l. l\<lparr>lr_status := Expired, lr_renewed_at := lr_expires_at l\<rparr>) s = Inr s1"
    by (auto split: if_splits)
  let ?s2 = "s1\<lparr>db_jobs := update_where (running_attempt (lr_job_id cur) (lr_attempt_token cur))
      (time_out_job now (expiry_result now j)) (db_jobs s1)\<rparr>"
  from assms [unfolded expire_revalidated_lease_def Let_def g bindE_simps s1] run obtain k1 e1 x s3 k2 e2 y where
    "append_with u1 k1 e1 ?s2 = Inr (x, s3)" "append_with u2 k2 e2 s3 = Inr (y, s')" "l = cur"
    by (auto split: if_splits)
  then have "same_work ?s2 s'" "l = cur" using append_with_same same_work_trans by blast+
  with j run s1 show ?thesis by blast
qed

lemma expire_revalidated_ok:
  assumes ok: "work_ok_on G (now, s)" and t: "now \<le> t1" "t \<le> t1"
    and c: "find_lease s (lr_lease_id cur) = Some cur" "lr_status cur = Active" "lr_expires_at cur \<le> t"
    and e: "expire_revalidated_lease u1 u2 t actor cur s = Inr (l, s')"
  shows "work_ok_on G (t1, s')"
proof -
  from expire_revalidated_Inr [OF e] obtain j s1 where j: "find_job s (lr_job_id cur) = Some j" and
    u: "update_leases (\<lambda>l. lr_lease_id l = lr_lease_id cur) (\<lambda>l. l\<lparr>lr_status := Expired, lr_renewed_at := lr_expires_at l\<rparr>) s = Inr s1"
    and same: "same_work (s1\<lparr>db_jobs := update_where (running_attempt (lr_job_id cur) (lr_attempt_token cur))
      (time_out_job t (expiry_result t j)) (db_jobs s1)\<rparr>) s'" (is "same_work ?s2 s'") by blast
  from ok have l: "lease_ok (now, s)" and a: "attempt_inv_on G s" by (simp_all add: work_ok_on_def)
  have uniq: "x = cur" if "x \<in> set (db_leases s)" "lr_lease_id x = lr_lease_id cur" for x
    using unique_lease_id [of now s "lr_lease_id cur" cur x] l c(1) that by (simp add: lease_ok_def)
  have "lr_expires_at x \<le> t1" if "x \<in> set (db_leases s)" "lr_lease_id x = lr_lease_id cur" for x
    using uniq [OF that] c(3) t(2) by simp
  then have "lease_ok (t1, s1)"
    by (intro update_leases_ok [OF l u tame_expire t(1)]) (auto simp: active_unexpired_def)
  then have lk: "lease_ok (t1, ?s2)" by (rule lease_ok_cong) simp_all
  have a1: "attempt_inv_on G s1" by (rule attempt_inv_update_leases [OF a u tame_expire])
  have leases: "db_leases s1 = update_where (\<lambda>l. lr_lease_id l = lr_lease_id cur)
      (\<lambda>l. l\<lparr>lr_status := Expired, lr_renewed_at := lr_expires_at l\<rparr>) (db_leases s)" using u by (simp add: update_leases_Inr)
  have none: "lr_status x \<noteq> Active" if x: "x \<in> set (db_leases s1)" "lr_job_id x = lr_job_id cur" and G: "lr_job_id cur \<in> G" for x
  proof
    assume act: "lr_status x = Active"
    from x(1) obtain y where y: "y \<in> set (db_leases s)" "x = (if lr_lease_id y = lr_lease_id cur
        then y\<lparr>lr_status := Expired, lr_renewed_at := lr_expires_at y\<rparr> else y)"
      unfolding leases in_update_where by blast
    have ne: "lr_lease_id y \<noteq> lr_lease_id cur" using y(2) act by (auto split: if_splits)
    with y have y': "y \<in> set (db_leases s)" "x = y" by simp_all
    from j find_job_id have jin: "jb_id j = lr_job_id cur" "j \<in> set (db_jobs s)" by blast+
    with G have jG: "jb_id j \<in> G" by simp
    have cin: "cur \<in> set (db_leases s)" using find_lease_in [OF c(1)] by simp
    have "jb_attempt_count j = lr_attempt_token y"
      using attempt_inv_job(2) [OF a y'(1) jin(2) _ jG] jin(1) x(2) act y'(2) by simp
    moreover have "jb_attempt_count j = lr_attempt_token cur" using attempt_inv_job(2) [OF a cin jin(2) _ jG] jin(1) c(2) by simp
    moreover have "inj_on (\<lambda>l. (lr_job_id l, lr_attempt_token l)) (set (db_leases s))"
      using l by (simp add: lease_ok_def lease_inv_def distinct_map)
    ultimately have "y = cur"
      using inj_onD [of "\<lambda>l. (lr_job_id l, lr_attempt_token l)" "set (db_leases s)" y cur] y'(1) cin x(2) y'(2) by simp
    with ne show False by simp
  qed
  have "attempt_inv_on G ?s2"
    by (rule attempt_inv_update_jobs [OF a1]) (use none in \<open>auto simp: time_out_job_def running_attempt_def\<close>)
  with lk have "work_ok_on G (t1, ?s2)" by (simp add: work_ok_on_def)
  then show ?thesis by (rule work_ok_same [OF _ same]) simp
qed

lemma reap_one_ok:
  assumes ok: "work_ok_on G (now, s)" and t: "now \<le> t1" "t \<le> t1" and r: "reap_one_lease H u1 u2 t actor lease s = Inr (x, s')"
  shows "work_ok_on G (t1, s')"
proof (cases "require_active_lease_for_reap H t (lr_lease_id lease) (lr_job_id lease) (lr_attempt_token lease) (lr_agent_id lease) s")
  case (Inl e)
  with r have "s' = s" by (auto simp: reap_one_lease_def split: if_splits)
  with ok t(1) show ?thesis by (auto intro: work_ok_same)
next
  case (Inr cur)
  with r obtain l where e: "expire_revalidated_lease u1 u2 t actor cur s = Inr (l, s')" by (auto simp: reap_one_lease_def)
  from Inr [unfolded require_reap_Inr] have "find_lease s (lr_lease_id cur) = Some cur" "lr_status cur = Active" "lr_expires_at cur \<le> t"
    using find_lease_in by auto
  then show ?thesis by (rule expire_revalidated_ok [OF ok t _ _ _ e])
qed

text \<open>What each expiry keeps, the loops keep.\<close>

lemma reap_in_claim_keeps:
  assumes "\<And>u1 u2 l x s s'. P s \<Longrightarrow> reap_one_lease H u1 u2 t actor l s = Inr (x, s') \<Longrightarrow> P s'"
  shows "reap_in_claim H stamps t actor ls s = Inr (rs, s') \<Longrightarrow> P s \<Longrightarrow> P s'"
proof (induction ls arbitrary: s rs)
  case (Cons l ls)
  obtain u1 u2 where u: "stamps (length ls) = (u1, u2)" by (cases "stamps (length ls)")
  from Cons.prems(1) u obtain x s1 rs' where r: "reap_one_lease H u1 u2 t actor l s = Inr (x, s1)"
    "reap_in_claim H stamps t actor ls s1 = Inr (rs', s')" by (auto simp: Let_def)
  from Cons.IH [OF r(2) assms [OF Cons.prems(2) r(1)]] show ?case .
qed simp

lemma reap_loop_keeps:
  assumes "\<And>u1 u2 l x s s'. P s \<Longrightarrow> reap_one_lease H u1 u2 t actor l s = Inr (x, s') \<Longrightarrow> P s'" "\<And>k s. P s \<Longrightarrow> P (between k s)"
  shows "reap_loop H stamps between t actor ls s = (rs, es, s') \<Longrightarrow> P s \<Longrightarrow> P s'"
proof (induction ls arbitrary: s rs es)
  case (Cons l ls)
  obtain u1 u2 where u: "stamps (length ls) = (u1, u2)" by (cases "stamps (length ls)")
  let ?s0 = "between (length ls) s"
  have p0: "P ?s0" by (rule assms(2) [OF Cons.prems(2)])
  show ?case
  proof (cases "reap_one_lease H u1 u2 t actor l ?s0")
    case (Inl e)
    with Cons.prems(1) u obtain rs' es' where "reap_loop H stamps between t actor ls ?s0 = (rs', es', s')"
      by (auto simp: Let_def split: prod.splits)
    from Cons.IH [OF this p0] show ?thesis .
  next
    case (Inr y)
    then obtain x s1 where r: "reap_one_lease H u1 u2 t actor l ?s0 = Inr (x, s1)" by (cases y) auto
    with Cons.prems(1) u obtain rs' es' where "reap_loop H stamps between t actor ls s1 = (rs', es', s')"
      by (auto simp: Let_def split: prod.splits)
    from Cons.IH [OF this assms(1) [OF p0 r]] show ?thesis .
  qed
qed simp


text \<open>The claim of a selected job.\<close>

lemma claim_queue_in: "j \<in> set (claim_queue rec agent s) \<Longrightarrow> j \<in> set (db_jobs s) \<and> claimable rec agent j"
  by (simp add: claim_queue_def)

lemma scan_selected:
  assumes "scan_candidates H s agent host oldest reason js = Inr (Selected j a)"
  shows "\<exists>before after. js = before @ j # after \<and> validate_claim_authority H s j agent host = Inr a \<and>
    find_active_resource_lease H s (au_resource_key a) = Inr None \<and>
    (\<forall>b \<in> set before. \<exists>x l. validate_claim_authority H s b agent host = Inr x \<and>
       find_active_resource_lease H s (au_resource_key x) = Inr (Some l))"
  using assms
proof (induction js arbitrary: oldest)
  case (Cons b js)
  then obtain x act where b: "validate_claim_authority H s b agent host = Inr x"
    "find_active_resource_lease H s (au_resource_key x) = Inr act" by auto
  show ?case
  proof (cases act)
    case None
    with Cons.prems b have "b = j" "x = a" by simp_all
    with b None show ?thesis by (intro exI [of _ "[]"] exI [of _ js]) simp
  next
    case (Some l)
    with Cons.prems b have "scan_candidates H s agent host (if oldest = None then Some (jb_id b, au_resource_key x) else oldest) reason js
        = Inr (Selected j a)" by simp
    from Cons.IH [OF this] obtain before after where r: "js = before @ j # after"
      "validate_claim_authority H s j agent host = Inr a" "find_active_resource_lease H s (au_resource_key a) = Inr None"
      "\<forall>b \<in> set before. \<exists>x l. validate_claim_authority H s b agent host = Inr x \<and>
         find_active_resource_lease H s (au_resource_key x) = Inr (Some l)" by blast
    with b Some show ?thesis by (intro exI [of _ "b # before"] exI [of _ after]) auto
  qed
qed simp

lemma select_selected:
  assumes "select_claim_candidate H now s agent host rec = Inr (Selected j a)"
  shows "\<exists>before after. claim_queue rec agent s = before @ j # after \<and> length before < LEASE_CLAIM_SCAN_LIMIT \<and>
    validate_claim_authority H s j agent host = Inr a \<and> find_active_resource_lease H s (au_resource_key a) = Inr None \<and>
    (\<forall>b \<in> set before. \<exists>x l. validate_claim_authority H s b agent host = Inr x \<and>
       find_active_resource_lease H s (au_resource_key x) = Inr (Some l))"
proof -
  let ?rows = "take LEASE_CLAIM_SCAN_LIMIT (claim_queue rec agent s)"
  from assms obtain reason where "scan_candidates H s agent host None reason ?rows = Inr (Selected j a)"
    by (auto simp: select_claim_candidate_def Let_def split: if_splits option.splits)
  from scan_selected [OF this] obtain before after where r: "?rows = before @ j # after"
    "validate_claim_authority H s j agent host = Inr a" "find_active_resource_lease H s (au_resource_key a) = Inr None"
    "\<forall>b \<in> set before. \<exists>x l. validate_claim_authority H s b agent host = Inr x \<and>
       find_active_resource_lease H s (au_resource_key x) = Inr (Some l)" by blast
  have "claim_queue rec agent s = before @ j # (after @ drop LEASE_CLAIM_SCAN_LIMIT (claim_queue rec agent s))"
    using append_take_drop_id [of LEASE_CLAIM_SCAN_LIMIT "claim_queue rec agent s"] r(1) by simp
  moreover have "length ?rows \<le> LEASE_CLAIM_SCAN_LIMIT" by simp
  then have "length before < LEASE_CLAIM_SCAN_LIMIT" using r(1) by simp
  ultimately show ?thesis using r by blast
qed

lemma find_job_iff: "distinct (map jb_id (db_jobs s)) \<Longrightarrow> find_job s i = Some j \<longleftrightarrow> j \<in> set (db_jobs s) \<and> jb_id j = i"
  unfolding find_job_def by (rule find_key_iff)

lemma take_selected_Inr:
  assumes inv: "attempt_inv_on G s" and j: "j \<in> set (db_jobs s)" "jb_status j \<noteq> ''running''"
    and r: "take_selected H env agent host ttl recovery reap_reason rid digest j a s = Inr (r, s')"
  shows "\<exists>l replayed s1 s2 runner. s1 = s\<lparr>db_jobs := update_where (\<lambda>x. jb_id x = jb_id j \<and> jb_status x = jb_status j)
      (claim_job_row (cl_now env) (jb_attempt_count j + 1) (au_payload a)) (db_jobs s)\<rparr> \<and>
    reserve_attempt_lease H (cl_lease_uuid env) (cl_reserve_now env) (cl_reserve_count_now env) (jb_id j)
      (PyInt (jb_attempt_count j + 1)) agent runner host (ec_worktree_path (au_context a)) (PyInt ttl) s1 = Inr ((l, replayed), s2) \<and>
    jb_runner_profile_id j = Some runner \<and> jb_assigned_agent j = Some agent \<and> same_work s2 s' \<and> lr_job_id l = jb_id j \<and>
    (replayed \<and> s2 = s1 \<and> jb_id j \<notin> G \<or>
     \<not> replayed \<and> s2 = s1\<lparr>db_leases := db_leases s @ [l]\<rparr> \<and> insert_lease l s1 = Inr s2 \<and>
       fresh_lease H (cl_lease_uuid env) (cl_reserve_now env) (cl_reserve_count_now env) (jb_id j) (jb_attempt_count j + 1)
         agent runner host (ec_worktree_path (au_context a)) ttl s1 l) \<and>
    r = \<lparr>cr_lease_id = lr_lease_id l, cr_job = claim_job_row (cl_now env) (jb_attempt_count j + 1) (au_payload a) j,
         cr_attempt_token = jb_attempt_count j + 1, cr_execution_context = au_context a,
         cr_execution_lease = build_lease_envelope (claim_lease_of l (au_context a) (cl_server_now env) ttl)\<rparr>"
proof -
  let ?here = "\<lambda>x. jb_id x = jb_id j \<and> jb_status x = jb_status j" and ?tok = "jb_attempt_count j + 1"
  let ?f = "claim_job_row (cl_now env) ?tok (au_payload a)"
  let ?s1 = "s\<lparr>db_jobs := update_where ?here ?f (db_jobs s)\<rparr>"
  let ?runner = "case jb_runner_profile_id j of None \<Rightarrow> [] | Some r \<Rightarrow> r"
  have rc: "rowcount ?here (db_jobs s) \<noteq> 0" using j(1) by (auto simp: rowcount_0_iff)
  note t = r [unfolded take_selected_def Let_def if_not_P [OF rc]]
  from t obtain l replayed s2 where res: "reserve_attempt_lease H (cl_lease_uuid env) (cl_reserve_now env) (cl_reserve_count_now env) (jb_id j)
      (PyInt ?tok) agent ?runner host (ec_worktree_path (au_context a)) (PyInt ttl) ?s1 = Inr ((l, replayed), s2)" by auto
  from t [unfolded res bindE_simps prod.case] obtain x s3 s4 c where
    e: "append_with (cl_claimed env) (claim_key (jb_id j) ?tok) (job_event ''job.claimed'' agent (Some agent) j
          (claim_event_payload j agent (au_context a) l reap_reason recovery a)) s2 = Inr (x, s3)"
      "append_claim_request_marker H (cl_marker env) rid digest j agent ?tok (Some (lr_lease_id l)) (PyInt ttl) s3 = Inr s4"
      "get_job s4 (jb_id j) = Inr c" and
    rr: "s' = s4" "r = \<lparr>cr_lease_id = lr_lease_id l, cr_job = c, cr_attempt_token = ?tok, cr_execution_context = au_context a,
         cr_execution_lease = build_lease_envelope (claim_lease_of l (au_context a) (cl_server_now env) ttl)\<rparr>"
    by auto
  have same: "same_work s2 s'" using e rr(1) append_with_same marker_same same_work_trans by blast
  from reserve_cases [OF res] obtain tk n policy resource where c:
    "reserve_authority H (jb_id j) (PyInt ?tok) agent ?runner host (ec_worktree_path (au_context a)) (PyInt ttl) ?s1 =
       Inr (tk, n, policy, resource)" and
    alt: "replayed \<and> s2 = ?s1 \<and> job_attempt_lease ?s1 (jb_id j) tk = Some l \<or>
     \<not> replayed \<and> insert_lease l ?s1 = Inr s2 \<and> fresh_lease H (cl_lease_uuid env) (cl_reserve_now env) (cl_reserve_count_now env)
       (jb_id j) tk agent ?runner host (ec_worktree_path (au_context a)) n ?s1 l" by blast
  from reserve_authority_Inr [OF c] obtain job where au: "tk = ?tok" "n = ttl" "find_job ?s1 (jb_id j) = Some job"
    "jb_assigned_agent job = Some agent" "jb_runner_profile_id job = Some ?runner" by auto
  have d: "distinct (map jb_id (db_jobs s))" using inv by (simp add: attempt_inv_on_def)
  have d1: "distinct (map jb_id (db_jobs ?s1))"
    using d by (simp add: map_update_where claim_job_row_def)
  have fin: "?f j \<in> set (db_jobs ?s1)" using j(1) by (auto simp: in_update_where)
  have fj: "find_job ?s1 (jb_id j) = Some (?f j)" unfolding find_job_iff [OF d1] using fin by (simp add: claim_job_row_def)
  with au have ag: "jb_assigned_agent j = Some agent" "jb_runner_profile_id j = Some ?runner" by (auto simp: claim_job_row_def)
  have old: "jb_id j \<notin> G \<and> lr_job_id l = jb_id j" if replayed
  proof -
    from that alt au(1) have "job_attempt_lease ?s1 (jb_id j) ?tok = Some l" by simp
    then have l: "l \<in> set (db_leases s)" "lr_job_id l = jb_id j" "lr_attempt_token l = ?tok"
      by (auto simp: job_attempt_lease_def dest: find_Some_in)
    with attempt_inv_job(1) [OF inv l(1) j(1)] show ?thesis by fastforce
  qed
  have new: "insert_lease l ?s1 = Inr s2 \<and> s2 = ?s1\<lparr>db_leases := db_leases s @ [l]\<rparr> \<and> lr_job_id l = jb_id j \<and>
     fresh_lease H (cl_lease_uuid env) (cl_reserve_now env) (cl_reserve_count_now env)
       (jb_id j) ?tok agent ?runner host (ec_worktree_path (au_context a)) ttl ?s1 l" if "\<not> replayed"
  proof -
    from that alt au(1,2) have "insert_lease l ?s1 = Inr s2" "fresh_lease H (cl_lease_uuid env) (cl_reserve_now env) (cl_reserve_count_now env)
       (jb_id j) ?tok agent ?runner host (ec_worktree_path (au_context a)) ttl ?s1 l" by simp_all
    moreover from this have "s2 = ?s1\<lparr>db_leases := db_leases s @ [l]\<rparr>" by (simp add: insert_lease_Inr)
    moreover have "lr_job_id l = jb_id j" using calculation(2) by (auto simp: fresh_lease_def)
    ultimately show ?thesis by blast
  qed
  have kind: "replayed \<and> s2 = ?s1 \<and> jb_id j \<notin> G \<or>
     \<not> replayed \<and> s2 = ?s1\<lparr>db_leases := db_leases s @ [l]\<rparr> \<and> insert_lease l ?s1 = Inr s2 \<and>
       fresh_lease H (cl_lease_uuid env) (cl_reserve_now env) (cl_reserve_count_now env) (jb_id j) ?tok
         agent ?runner host (ec_worktree_path (au_context a)) ttl ?s1 l"
    using alt old new by blast
  have jid: "lr_job_id l = jb_id j" using old new by blast
  have "db_jobs s2 = db_jobs ?s1" using kind by auto
  then have "find_job s' (jb_id j) = Some (?f j)" using fj same by (simp add: find_job_def same_work_def)
  with e(3) rr(1) have c: "c = ?f j" by (simp add: get_job_Inr)
  show ?thesis
    by (intro exI [of _ l] exI [of _ replayed] exI [of _ ?s1] exI [of _ s2] exI [of _ ?runner] conjI)
      (use ag same res rr(2) kind jid c in simp_all)
qed

lemma take_selected_ok:
  assumes ok: "work_ok_on G (now, s)" and j: "j \<in> set (db_jobs s)" "jb_status j \<noteq> ''running''"
    and t: "now \<le> cl_reserve_now env" "cl_reserve_now env \<le> cl_reserve_count_now env"
    and r: "take_selected H env agent host ttl recovery reap_reason rid digest j a s = Inr (r, s')"
  shows "work_ok_on G (cl_reserve_count_now env, s')"
proof -
  from ok have lk: "lease_ok (now, s)" and inv: "attempt_inv_on G s" by (simp_all add: work_ok_on_def)
  let ?tok = "jb_attempt_count j + 1"
  let ?here = "\<lambda>x. jb_id x = jb_id j \<and> jb_status x = jb_status j" and ?f = "claim_job_row (cl_now env) ?tok (au_payload a)"
  let ?s1 = "s\<lparr>db_jobs := update_where ?here ?f (db_jobs s)\<rparr>"
  from take_selected_Inr [OF inv j r] obtain l replayed s2 runner where
    res: "reserve_attempt_lease H (cl_lease_uuid env) (cl_reserve_now env) (cl_reserve_count_now env) (jb_id j)
      (PyInt ?tok) agent runner host (ec_worktree_path (au_context a)) (PyInt ttl) ?s1 = Inr ((l, replayed), s2)" and
    ag: "jb_assigned_agent j = Some agent" and same: "same_work s2 s'" and lj: "lr_job_id l = jb_id j" and
    kind: "s2 = ?s1 \<and> jb_id j \<notin> G \<or> s2 = ?s1\<lparr>db_leases := db_leases s @ [l]\<rparr> \<and>
      fresh_lease H (cl_lease_uuid env) (cl_reserve_now env) (cl_reserve_count_now env) (jb_id j) ?tok
        agent runner host (ec_worktree_path (au_context a)) ttl ?s1 l" by blast
  have "lease_ok (now, ?s1)" by (rule lease_ok_cong [OF lk]) simp_all
  from reserve_ok [OF this t res] have lk2: "lease_ok (cl_reserve_count_now env, s2)" .
  have uniq: "x = j" if "x \<in> set (db_jobs s)" "jb_id x = jb_id j" for x
    using inv inj_onD [of jb_id "set (db_jobs s)" x j] that j(1) by (simp add: attempt_inv_on_def distinct_map)
  have a1: "attempt_inv_on G ?s1"
  proof (rule attempt_inv_update_jobs [OF inv])
    fix x assume x: "x \<in> set (db_jobs s)" "jb_id x = jb_id j \<and> jb_status x = jb_status j" "jb_id x \<in> G"
    then have "x = j" using uniq [of x] by simp
    then show "jb_attempt_count x \<le> jb_attempt_count (?f x)" by (simp add: claim_job_row_def)
    fix l' assume l': "l' \<in> set (db_leases s)" "lr_job_id l' = jb_id x" "lr_status l' = Active"
    have "jb_status x \<noteq> ''running''" using x j(2) by simp
    from no_active_unless_running [OF inv x(1) this l'(1,2) x(3)] l'(3)
    show "jb_status (?f x) = ''running'' \<and> jb_attempt_count (?f x) = jb_attempt_count x \<and> jb_assigned_agent (?f x) = jb_assigned_agent x"
      by simp
  qed (simp add: claim_job_row_def)
  have "?f j \<in> set (db_jobs ?s1)" using j(1) by (auto simp: in_update_where)
  then have "\<exists>x \<in> set (db_jobs ?s1). jb_id x = lr_job_id l \<and> lr_attempt_token l \<le> jb_attempt_count x \<and>
      (lr_status l = Active \<longrightarrow> jb_status x = ''running'' \<and> jb_attempt_count x = lr_attempt_token l \<and>
         jb_assigned_agent x = Some (lr_agent_id l))" if "lr_attempt_token l = ?tok" "lr_agent_id l = agent"
    using ag that lj by (intro bexI [of _ "?f j"]) (simp_all add: claim_job_row_def)
  moreover have "lr_attempt_token l = ?tok \<and> lr_agent_id l = agent" if "s2 \<noteq> ?s1"
    using kind that by (auto simp: fresh_lease_def)
  ultimately have new: "\<exists>x \<in> set (db_jobs ?s1). jb_id x = lr_job_id l \<and> lr_attempt_token l \<le> jb_attempt_count x \<and>
      (lr_status l = Active \<longrightarrow> jb_status x = ''running'' \<and> jb_attempt_count x = lr_attempt_token l \<and>
         jb_assigned_agent x = Some (lr_agent_id l))" if "s2 \<noteq> ?s1"
    using that by blast
  have "attempt_inv_on G s2"
  proof (cases "s2 = ?s1")
    case True
    with a1 show ?thesis by simp
  next
    case False
    with kind have s2: "s2 = ?s1\<lparr>db_leases := db_leases s @ [l]\<rparr>" by blast
    show ?thesis using a1 new [OF False] unfolding attempt_inv_on_def s2 by simp
  qed
  with lk2 have "work_ok_on G (cl_reserve_count_now env, s2)" by (simp add: work_ok_on_def)
  then show ?thesis by (rule work_ok_same [OF _ same]) simp
qed


lemma reap_one_after:
  assumes r: "reap_one_lease H u1 u2 t actor lease s = Inr (x, s')"
  shows "jobs_after_on G s s'"
proof (cases "require_active_lease_for_reap H t (lr_lease_id lease) (lr_job_id lease) (lr_attempt_token lease) (lr_agent_id lease) s")
  case (Inl e)
  with r have "s' = s" by (auto simp: reap_one_lease_def split: if_splits)
  then show ?thesis by (simp add: jobs_after_eq)
next
  case (Inr cur)
  with r obtain l where "expire_revalidated_lease u1 u2 t actor cur s = Inr (l, s')" by (auto simp: reap_one_lease_def)
  from expire_revalidated_Inr [OF this] obtain j s1 where
    "update_leases (\<lambda>l. lr_lease_id l = lr_lease_id cur) (\<lambda>l. l\<lparr>lr_status := Expired, lr_renewed_at := lr_expires_at l\<rparr>) s = Inr s1"
    "same_work (s1\<lparr>db_jobs := update_where (running_attempt (lr_job_id cur) (lr_attempt_token cur))
      (time_out_job t (expiry_result t j)) (db_jobs s1)\<rparr>) s'" by blast
  then have "db_jobs s' = update_where (running_attempt (lr_job_id cur) (lr_attempt_token cur))
      (time_out_job t (expiry_result t j)) (db_jobs s)" by (simp add: same_work_def update_leases_Inr)
  then show ?thesis
    by (rule jobs_after_update) (simp_all add: time_out_job_def job_after_def running_attempt_def final_job_def)
qed

text \<open>One property for what every operation promises.\<close>

definition good_step_on :: "string set \<Rightarrow> timestamp \<Rightarrow> db \<Rightarrow> db \<Rightarrow> bool" where
  "good_step_on G t s s' \<longleftrightarrow> work_ok_on G (t, s') \<and> jobs_after_on G s s'"

lemma good_stepI: "work_ok_on G (t, s') \<Longrightarrow> jobs_after_on G s s' \<Longrightarrow> good_step_on G t s s'"
  by (simp add: good_step_on_def)

lemma good_step_refl: "work_ok_on G (now, s) \<Longrightarrow> now \<le> t \<Longrightarrow> good_step_on G t s s"
  by (auto simp: good_step_on_def jobs_after_eq intro: work_ok_same)

lemma good_step_trans: "good_step_on G t s s1 \<Longrightarrow> good_step_on G t' s1 s2 \<Longrightarrow> good_step_on G t' s s2"
  by (auto simp: good_step_on_def intro: jobs_after_trans)

lemma good_step_same: "good_step_on G t s s1 \<Longrightarrow> same_work s1 s2 \<Longrightarrow> good_step_on G t s s2"
  by (auto simp: good_step_on_def intro: work_ok_same jobs_after_same jobs_after_trans)

lemma reap_one_good: "good_step_on G t1 s0 s \<Longrightarrow> t \<le> t1 \<Longrightarrow> reap_one_lease H u1 u2 t actor l s = Inr (x, s') \<Longrightarrow> good_step_on G t1 s0 s'"
  by (rule good_step_trans [of G t1 s0 s]) (auto intro: good_stepI reap_one_ok reap_one_after simp: good_step_on_def)

lemma reap_in_claim_good:
  assumes "work_ok_on G (now, s)" "now \<le> t1" "t \<le> t1" "reap_in_claim H stamps t actor ls s = Inr (rs, s')"
  shows "good_step_on G t1 s s'"
  using assms(4) good_step_refl [OF assms(1,2)]
  by (rule reap_in_claim_keeps [rotated]) (rule reap_one_good [OF _ assms(3)])

lemma reap_exact_good:
  assumes ok: "work_ok_on G (now, s)" "now \<le> t1" and t: "validate_utc_timestamp now_v = Inr t" "t \<le> t1"
    and r: "reap_exact_lease H u1 u2 lease_v job_v actor_v now_v s = Inr (x, s')"
  shows "good_step_on G t1 s s'"
proof -
  from r t(1) obtain lid jid who cur0 where a: "find_lease s lid = Some cur0" and
    r1: "bindE (reraise LeaseErr RuntimeLeaseErr ''lease is not due''
           (require_active_lease_for_reap H t lid jid (lr_attempt_token cur0) (lr_agent_id cur0) s)) (\<lambda>cur.
             reraise KeyErr RuntimeLeaseErr ''job not found for expired lease''
               (expire_revalidated_lease u1 u2 t who cur s)) = Inr (x, s')"
    by (auto simp: reap_exact_lease_def split: option.splits if_splits)
  then obtain cur where c: "require_active_lease_for_reap H t lid jid (lr_attempt_token cur0) (lr_agent_id cur0) s = Inr cur"
    and e: "expire_revalidated_lease u1 u2 t who cur s = Inr (x, s')" by auto
  from c [unfolded require_reap_Inr] have "find_lease s lid = Some cur" "lr_status cur = Active" "lr_expires_at cur \<le> t"
    "lr_lease_id cur = lid" using find_lease_in by auto
  then have "require_active_lease_for_reap H t (lr_lease_id cur) (lr_job_id cur) (lr_attempt_token cur) (lr_agent_id cur) s = Inr cur"
    using c by (simp add: require_reap_Inr)
  then have "reap_one_lease H u1 u2 t who cur s = Inr (Some x, s')" using e by (simp add: reap_one_lease_def)
  from reap_one_good [OF good_step_refl [OF ok] t(2) this] show ?thesis .
qed


lemma take_selected_after:
  assumes ok: "attempt_inv_on G s" and j: "j \<in> set (db_jobs s)" "jb_status j \<in> {''pending'', ''timed_out''}"
    and r: "take_selected H env agent host ttl recovery reap_reason rid digest j a s = Inr (r, s')"
  shows "jobs_after_on G s s'"
proof -
  have n: "jb_status j \<noteq> ''running''" using j(2) by auto
  from take_selected_Inr [OF ok j(1) n r] have jobs: "db_jobs s' = update_where (\<lambda>x. jb_id x = jb_id j \<and> jb_status x = jb_status j)
      (claim_job_row (cl_now env) (jb_attempt_count j + 1) (au_payload a)) (db_jobs s)" by (elim exE conjE disjE) (simp_all add: same_work_def)
  have "find_job s (jb_id j) = Some j" using ok j(1) by (simp add: attempt_inv_on_def find_job_iff)
  then show ?thesis
    by (intro jobs_after_update [OF jobs]) (use j(2) in \<open>auto simp: claim_job_row_def job_after_def final_job_def\<close>)
qed

lemma claimable_status: "claimable rec agent j \<Longrightarrow> jb_status j \<in> {''pending'', ''timed_out''}"
  by (auto simp: claimable_def)

lemma claim_leased_good:
  assumes ok: "work_ok_on G (now, s)"
    and t: "now \<le> cl_reserve_now env" "cl_now env \<le> cl_reserve_now env" "cl_reserve_now env \<le> cl_reserve_count_now env"
    and r: "claim_leased_job H env agent_v host_v rec ttl_v actor_v reason_v stopped mode reap_v rid digest s = Inr (Claimed r s')"
  shows "good_step_on G (cl_reserve_count_now env) s s'"
proof -
  from r obtain rr agent host actor recovery ttl where h: "bindE (if rr = None
            then bindE (find_due_active_leases H s (cl_now env) LEASE_REAP_BATCH_SIZE) (\<lambda>due.
                   reap_in_claim H (cl_reap env) (cl_now env) actor due s)
            else Inr ([], s)) (\<lambda>(reaped, s1).
     bindE (select_claim_candidate H (cl_count_now env) s1 agent host rec) (\<lambda>selection.
     case selection of
       NoJob reason oldest \<Rightarrow> Inr (NotClaimed reason oldest)
     | Selected j a \<Rightarrow>
         bindE (take_selected H env agent host ttl recovery rr rid digest j a s1) (\<lambda>(r, s'). Inr (Claimed r s')))) = Inr (Claimed r s')"
    unfolding claim_leased_job_def bindE_eq_Inr by blast
  then obtain reaped s1 where a: "(if rr = None
            then bindE (find_due_active_leases H s (cl_now env) LEASE_REAP_BATCH_SIZE) (\<lambda>due.
                   reap_in_claim H (cl_reap env) (cl_now env) actor due s)
            else Inr ([], s)) = Inr (reaped, s1)" by (auto simp only: bindE_eq_Inr)
  from h [unfolded a bindE_simps prod.case] obtain j au where b: "select_claim_candidate H (cl_count_now env) s1 agent host rec = Inr (Selected j au)"
    "take_selected H env agent host ttl recovery rr rid digest j au s1 = Inr (r, s')"
    by (auto split: selection.splits)
  have g: "good_step_on G (cl_reserve_now env) s s1"
    using a ok t by (auto intro: good_step_refl reap_in_claim_good split: if_splits)
  from select_selected [OF b(1)] have "j \<in> set (claim_queue rec agent s1)" by auto
  from claim_queue_in [OF this] have j: "j \<in> set (db_jobs s1)" "jb_status j \<in> {''pending'', ''timed_out''}"
    using claimable_status by blast+
  then have n: "jb_status j \<noteq> ''running''" by auto
  from g have ok1: "work_ok_on G (cl_reserve_now env, s1)" by (simp add: good_step_on_def)
  from take_selected_ok [OF ok1 j(1) n order_refl t(3) b(2)] take_selected_after [OF _ j b(2)] ok1
  have "good_step_on G (cl_reserve_count_now env) s1 s'" by (auto intro: good_stepI simp: work_ok_on_def)
  with g show ?thesis by (rule good_step_trans)
qed

lemma claim_typed_good:
  assumes ok: "work_ok_on G (now, s)"
    and t: "now \<le> cl_reserve_now env" "cl_now env \<le> cl_reserve_now env" "cl_reserve_now env \<le> cl_reserve_count_now env"
    and r: "claim_typed H env a agent host request s = Inr (y, s')"
  shows "good_step_on G (cl_reserve_count_now env) s s'"
proof -
  have n: "now \<le> cl_reserve_count_now env" using t by simp
  from r have "s' = s \<or> (\<exists>x. claim_leased_job H env (PyStr agent) (PyStr host) (ca_recoverable a) (ca_ttl a) (PyStr agent)
                (ca_recovery_reason a) (ca_stopped a) (ca_reap_mode a) (ca_reap_reason a)
                (map_option fst request) (map_option snd request) s = Inr (Claimed x s'))"
    by (auto simp: claim_typed_def split: option.splits claim_outcome.splits)
  then show ?thesis using good_step_refl [OF ok n] claim_leased_good [OF ok t] by blast
qed

text \<open>A legacy claim, if a job of \<open>G\<close> is still as it was read.\<close>

lemma claim_legacy_good:
  assumes ok: "work_ok_on G (now, s)" "now \<le> t" and j: "jb_id j \<in> G \<longrightarrow> j \<in> set (db_jobs s)" "claimable rec agent j"
    and r: "claim_legacy_tx H env a agent host request j ctx s = Inr (y, s')"
  shows "good_step_on G t s s'"
proof -
  let ?here = "\<lambda>x. jb_id x = jb_id j \<and> jb_status x = jb_status j"
  let ?f = "claim_job_row (cl_now env) (jb_attempt_count j + 1) (dset ''execution_context'' (to_dict ctx) (job_payload j))"
  let ?s1 = "s\<lparr>db_jobs := update_where ?here ?f (db_jobs s)\<rparr>"
  from ok(1) have inv: "attempt_inv_on G s" "lease_ok (now, s)" by (simp_all add: work_ok_on_def)
  have st: "jb_status j \<in> {''pending'', ''timed_out''}" using j(2) by (rule claimable_status)
  have uniq: "x = j" if "x \<in> set (db_jobs s)" "jb_id x = jb_id j" "jb_id x \<in> G" for x
    using inv(1) that j(1) inj_onD [of jb_id "set (db_jobs s)" x j] by (simp add: attempt_inv_on_def distinct_map)
  have "attempt_inv_on G ?s1"
  proof (rule attempt_inv_update_jobs [OF inv(1)])
    fix x assume x: "x \<in> set (db_jobs s)" "?here x" "jb_id x \<in> G"
    then have "x = j" using uniq [of x] by simp
    then show "jb_attempt_count x \<le> jb_attempt_count (?f x)" by (simp add: claim_job_row_def)
    fix l assume l: "l \<in> set (db_leases s)" "lr_job_id l = jb_id x" "lr_status l = Active"
    have "jb_status x \<noteq> ''running''" using x st by auto
    from no_active_unless_running [OF inv(1) x(1) this l(1,2) x(3)] l(3)
    show "jb_status (?f x) = ''running'' \<and> jb_attempt_count (?f x) = jb_attempt_count x \<and> jb_assigned_agent (?f x) = jb_assigned_agent x"
      by simp
  qed (simp add: claim_job_row_def)
  moreover have "lease_ok (t, ?s1)" by (rule lease_ok_mono [OF _ ok(2)], rule lease_ok_cong [OF inv(2)]) simp_all
  moreover have "jobs_after_on G s ?s1"
  proof (rule jobs_after_update [of ?s1 ?here ?f])
    fix x assume x: "find_job s (jb_id x) = Some x" "?here x" "jb_id x \<in> G"
    then have "x = j" using uniq [of x] find_job_id [OF x(1)] by simp
    with st show "job_after x (?f x)" by (auto simp: claim_job_row_def job_after_def final_job_def)
  qed (simp_all add: claim_job_row_def)
  ultimately have g: "good_step_on G t s ?s1" by (simp add: good_step_on_def work_ok_on_def)
  from r consider "s' = s" | x k e s2 s3 where "append_with (cl_claimed env) k e ?s1 = Inr (x, s2)"
     "append_claim_request_marker H (cl_marker env) (map_option fst request) (map_option snd request) j agent
        (jb_attempt_count j + 1) None (ca_ttl a) s2 = Inr s3" "s' = s3"
    by (auto simp: claim_legacy_tx_def Let_def split: option.splits if_splits)
  then show ?thesis
  proof cases
    case 1
    with good_step_refl [OF ok] show ?thesis by simp
  next
    case 2
    then have "same_work ?s1 s'" using append_with_same marker_same same_work_trans by blast
    with g show ?thesis by (rule good_step_same)
  qed
qed

lemma touch_fields: "db_jobs (snd (touch_agent_activity t a s)) = db_jobs s" "db_leases (snd (touch_agent_activity t a s)) = db_leases s"
  "db_capacity (snd (touch_agent_activity t a s)) = db_capacity s"
  by (simp_all add: touch_agent_activity_def Let_def split: option.splits)

lemma work_ok_cong:
  "work_ok_on G (now, s) \<Longrightarrow> db_jobs s' = db_jobs s \<Longrightarrow> db_leases s' = db_leases s \<Longrightarrow> db_capacity s' = db_capacity s \<Longrightarrow> work_ok_on G (now, s')"
  using lease_ok_cong [of now s s'] by (simp add: work_ok_on_def attempt_inv_on_def)

lemma renew_good:
  assumes ok: "work_ok_on G (now, s)" and t: "now \<le> t1" "t1 \<le> t2"
    and r: "renew_managed_lease H t1 t2 t3 server_now lid jid tok agent ttl_v s = Inr (y, s')"
  shows "good_step_on G t2 s s'"
proof -
  from r obtain l s1 where q: "renew_attempt_lease H t1 t2 (PyStr lid) jid (PyInt tok) agent ttl_v s = Inr (l, s1)"
    and s': "s' = snd (touch_agent_activity t3 agent s1)"
    by (auto simp: renew_managed_lease_def Let_def split: if_splits)
  from q obtain n and lease :: lease_row where u: "update_leases (\<lambda>x. lr_lease_id x = lr_lease_id lease)
      (\<lambda>x. x\<lparr>lr_renewed_at := t2, lr_expires_at := t2 + nat n\<rparr>) s = Inr s1" unfolding renew_Inr by blast
  from ok have "work_ok_on G (t2, s1)"
    using renew_ok [OF _ t q] attempt_inv_update_leases [OF _ u] by (auto simp: work_ok_on_def)
  then have "work_ok_on G (t2, s')" by (rule work_ok_cong) (simp_all add: s' touch_fields)
  moreover have "db_jobs s' = db_jobs s" using u by (simp add: s' touch_fields update_leases_Inr)
  ultimately show ?thesis by (simp add: good_step_on_def jobs_after_eq)
qed


text \<open>A report ends the attempt and releases its lease, so the two updates are taken together.\<close>

lemma update_leases_jobs:
  assumes "update_leases p f (s\<lparr>db_jobs := js\<rparr>) = Inr s2"
  shows "update_leases p f s = Inr (s\<lparr>db_leases := db_leases s2\<rparr>) \<and> s2 = s\<lparr>db_jobs := js, db_leases := db_leases s2\<rparr>"
  using assms by (simp add: update_leases_Inr)

lemma require_authority_Inr:
  assumes "require_mutation_authority H t s cur tok jid agent lid = Inr x"
  shows "\<not> attempt_has_any_lease s jid cur \<or>
    (\<exists>i l. tok = Some cur \<and> lid = Some i \<and> find_lease s i = Some l \<and> lr_job_id l = jid \<and> lr_attempt_token l = cur \<and>
       lr_agent_id l = agent \<and> active_unexpired t l)"
proof (cases "attempt_has_any_lease s jid cur")
  case True
  with assms have tok: "tok = Some cur" and m: "require_managed_attempt_lease H t s jid cur agent lid = Inr x"
    by (auto simp: require_mutation_authority_def split: if_splits)
  from m True obtain i l where "lid = Some i" "require_active_unexpired_lease H t s (PyStr i) jid (PyInt cur) agent = Inr l"
    by (auto simp: require_managed_attempt_lease_def split: option.splits)
  with tok show ?thesis unfolding require_lease_Inr by (auto simp: active_unexpired_def)
qed simp

lemma release_in_report:
  assumes ok: "work_ok_on G (now, s)" "now \<le> t" and r: "release_attempt_lease H t (PyStr i) jid (PyInt tok) agent reason (s\<lparr>db_jobs := js\<rparr>) = Inr (x, s2)"
  shows "work_ok_on G (t, s\<lparr>db_leases := db_leases s2\<rparr>) \<and> s2 = s\<lparr>db_jobs := js, db_leases := db_leases s2\<rparr> \<and>
    find_lease s2 i = Some x \<and> lr_status x = Released \<and> lr_job_id x = jid \<and> lr_attempt_token x = tok \<and>
    find_lease s i \<noteq> None"
proof -
  from release_Inr [OF r] obtain lease z where l: "lease_of_tuple H (s\<lparr>db_jobs := js\<rparr>) i jid tok agent = Inr lease" and
    c: "lr_status lease = Released \<and> x = lease \<and> s2 = s\<lparr>db_jobs := js\<rparr> \<or>
     x = lease\<lparr>lr_status := Released, lr_released_at := Some t, lr_release_reason := Some z\<rparr> \<and>
     update_leases (\<lambda>x. lr_lease_id x = i)
       (\<lambda>x. x\<lparr>lr_status := Released, lr_released_at := Some t, lr_release_reason := Some z\<rparr>) (s\<lparr>db_jobs := js\<rparr>) = Inr s2" by auto
  from l have f: "find_lease s i = Some lease" and id: "lr_job_id lease = jid" "lr_attempt_token lease = tok"
    by (simp_all add: lease_of_tuple_Inr find_lease_def)
  from c show ?thesis
  proof
    assume a: "lr_status lease = Released \<and> x = lease \<and> s2 = s\<lparr>db_jobs := js\<rparr>"
    from good_step_refl [OF ok] have "work_ok_on G (t, s)" by (simp add: good_step_on_def)
    with a f id show ?thesis by (simp add: find_lease_def)
  next
    assume a: "x = lease\<lparr>lr_status := Released, lr_released_at := Some t, lr_release_reason := Some z\<rparr> \<and>
     update_leases (\<lambda>x. lr_lease_id x = i)
       (\<lambda>x. x\<lparr>lr_status := Released, lr_released_at := Some t, lr_release_reason := Some z\<rparr>) (s\<lparr>db_jobs := js\<rparr>) = Inr s2"
    note u = update_leases_jobs [OF conjunct2 [OF a]]
    from ok have lk: "lease_ok (now, s)" and inv: "attempt_inv_on G s" by (simp_all add: work_ok_on_def)
    have "lease_ok (t, s\<lparr>db_leases := db_leases s2\<rparr>)"
      by (rule update_leases_ok [OF lk conjunct1 [OF u] _ ok(2)]) (use ok(2) in \<open>auto simp: active_unexpired_def\<close>)
    moreover have "attempt_inv_on G (s\<lparr>db_leases := db_leases s2\<rparr>)"
      by (rule attempt_inv_update_leases [OF inv conjunct1 [OF u]]) simp
    moreover have "find_lease s2 i = Some x"
      using update_leases_find [OF conjunct2 [OF a], of i] f a by (simp add: find_lease_def)
    ultimately show ?thesis using u a f id by (simp add: work_ok_on_def)
  qed
qed


lemma set_jobs_leases_fields:
  "s2 = s\<lparr>db_jobs := js, db_leases := ls\<rparr> \<Longrightarrow> db_jobs s2 = js"
  "s2 = s\<lparr>db_jobs := js, db_leases := ls\<rparr> \<Longrightarrow> db_capacity s2 = db_capacity s"
  by simp_all

definition ended_jobs :: "report_env \<Rightarrow> report_args \<Rightarrow> fields \<Rightarrow> db \<Rightarrow> job_row list" where
  "ended_jobs env a result s = update_where (in_attempt (ra_job_id a) ''running'' (ra_attempt_token a))
     (finish_job_row (re_now env) (ra_status a) result (recoverable_flag (ra_status a) result)) (db_jobs s)"

lemma report_terminal_Inr:
  assumes "report_terminal_tx H env a result usage job s = Inr (y, s')"
  shows "\<exists>c x s2. find_job s (ra_job_id a) = Some c \<and> jb_status c = ''running'' \<and>
    require_mutation_authority H (re_lease_now env) s (jb_attempt_count c) (ra_attempt_token a) (ra_job_id a) (ra_agent_id a)
      (ra_lease_id a) = Inr x \<and>
    (ra_attempt_token a = None \<or> (\<exists>j \<in> set (db_jobs s). in_attempt (ra_job_id a) ''running'' (ra_attempt_token a) j)) \<and>
    (case (ra_lease_id a, ra_attempt_token a) of
       (Some lid, Some token) \<Rightarrow> \<exists>l. release_attempt_lease H (re_release_now env) (PyStr lid) (ra_job_id a) (PyInt token) (ra_agent_id a)
         (PyStr (''job_'' @ ra_status a)) (s\<lparr>db_jobs := ended_jobs env a result s\<rparr>) = Inr (l, s2)
     | _ \<Rightarrow> s2 = s\<lparr>db_jobs := ended_jobs env a result s\<rparr>) \<and> same_work s2 s'"
proof -
  from assms obtain c where c: "find_job s (ra_job_id a) = Some c" by (auto simp: report_terminal_tx_def get_job_Inr)
  note g = get_job_Inr [THEN iffD2, OF c]
  from assms [unfolded report_terminal_tx_def g bindE_simps] have run: "jb_status c = ''running''" by (auto split: if_splits)
  then have nr: "\<not> jb_status c \<noteq> ''running''" by simp
  note t = assms [unfolded report_terminal_tx_def g bindE_simps if_not_P [OF nr]]
  from t obtain x s1 where m: "require_mutation_authority H (re_lease_now env) s (jb_attempt_count c) (ra_attempt_token a) (ra_job_id a)
      (ra_agent_id a) (ra_lease_id a) = Inr x"
    "apply_terminal_job_update (re_now env) (ra_job_id a) (ra_status a) result (ra_attempt_token a) s = Inr s1" by blast
  from m(2) have s1: "s1 = s\<lparr>db_jobs := ended_jobs env a result s\<rparr>"
    and ex: "ra_attempt_token a = None \<or> (\<exists>j \<in> set (db_jobs s). in_attempt (ra_job_id a) ''running'' (ra_attempt_token a) j)"
    by (auto simp: apply_terminal_job_update_def ended_jobs_def Let_def rowcount_0_iff split: if_splits)
  note t1 = t [unfolded m bindE_simps]
  from t1 obtain s2 where r: "(case (ra_lease_id a, ra_attempt_token a) of
                (Some lid, Some token) \<Rightarrow>
                  bindE (release_lease_for_terminal_report H (re_release_now env) lid (ra_job_id a) token (ra_agent_id a) (ra_status a) s1)
                    (\<lambda>(_, s2). Inr s2)
              | _ \<Rightarrow> Inr s1) = Inr s2" by blast
  from t1 [unfolded r bindE_simps] obtain o1 s3 o2 where e:
    "append_terminal_events_and_delivery (re_terminal env) job (ra_job_id a) (ra_agent_id a) (ra_status a) result (ra_actor a) s2 = Inr (o1, s3)"
    "persist_attempt_usage_and_warning H (re_warning env) usage c (jb_attempt_count c) (ev_id (to_event o1)) (to_event_created o1)
       (re_now env) (ra_actor a) s3 = Inr (o2, s')" by auto
  have "same_work s2 s'" using terminal_events_same [OF e(1)] persist_same [OF e(2)] by (rule same_work_trans)
  moreover have "(case (ra_lease_id a, ra_attempt_token a) of
       (Some lid, Some token) \<Rightarrow> \<exists>l. release_attempt_lease H (re_release_now env) (PyStr lid) (ra_job_id a) (PyInt token) (ra_agent_id a)
         (PyStr (''job_'' @ ra_status a)) (s\<lparr>db_jobs := ended_jobs env a result s\<rparr>) = Inr (l, s2)
     | _ \<Rightarrow> s2 = s\<lparr>db_jobs := ended_jobs env a result s\<rparr>)"
    using r by (auto simp: s1 release_lease_for_terminal_report_def split: option.splits)
  ultimately show ?thesis using c run m(1) ex by blast
qed

lemma finish_job_after: "p j \<Longrightarrow> jb_status j \<notin> {''done'', ''failed'', ''cancelled''} \<Longrightarrow> job_after j (finish_job_row now st r rec j)"
  by (simp add: job_after_def finish_job_row_def final_job_def)

lemma report_terminal_good:
  assumes ok: "work_ok_on G (now, s)" "now \<le> re_release_now env"
    and r: "report_terminal_tx H env a result usage job s = Inr (y, s')"
  shows "good_step_on G (re_release_now env) s s'"
proof -
  let ?jid = "ra_job_id a" and ?js = "ended_jobs env a result s"
  from report_terminal_Inr [OF r] obtain c x s2 where c: "find_job s ?jid = Some c" "jb_status c = ''running''"
    and m: "require_mutation_authority H (re_lease_now env) s (jb_attempt_count c) (ra_attempt_token a) ?jid (ra_agent_id a)
      (ra_lease_id a) = Inr x"
    and cas: "ra_attempt_token a = None \<or> (\<exists>j \<in> set (db_jobs s). in_attempt ?jid ''running'' (ra_attempt_token a) j)"
    and rel: "case (ra_lease_id a, ra_attempt_token a) of
       (Some lid, Some token) \<Rightarrow> \<exists>l. release_attempt_lease H (re_release_now env) (PyStr lid) ?jid (PyInt token) (ra_agent_id a)
         (PyStr (''job_'' @ ra_status a)) (s\<lparr>db_jobs := ?js\<rparr>) = Inr (l, s2)
     | _ \<Rightarrow> s2 = s\<lparr>db_jobs := ?js\<rparr>" and same: "same_work s2 s'" by blast
  from ok(1) have inv: "attempt_inv_on G s" by (simp add: work_ok_on_def)
  have cin: "c \<in> set (db_jobs s)" "jb_id c = ?jid" using find_job_id [OF c(1)] by simp_all
  have uniq: "j = c" if "j \<in> set (db_jobs s)" "jb_id j = ?jid" for j
    using inv cin that inj_onD [of jb_id "set (db_jobs s)" j c] by (simp add: attempt_inv_on_def distinct_map)
  let ?s2 = "s\<lparr>db_leases := db_leases s2\<rparr>"
  have w: "work_ok_on G (re_release_now env, ?s2) \<and> s2 = s\<lparr>db_jobs := ?js, db_leases := db_leases s2\<rparr> \<and>
    (\<forall>l \<in> set (db_leases s2). ?jid \<in> G \<longrightarrow> lr_job_id l = ?jid \<longrightarrow> lr_status l \<noteq> Active)"
  proof (cases "\<exists>lid token. ra_lease_id a = Some lid \<and> ra_attempt_token a = Some token")
    case False
    with rel have s2: "s2 = s\<lparr>db_jobs := ?js\<rparr>" by (auto split: option.splits)
    have no: "\<not> attempt_has_any_lease s ?jid (jb_attempt_count c)" using require_authority_Inr [OF m] False by auto
    have "lr_status l \<noteq> Active" if G: "?jid \<in> G" and l: "l \<in> set (db_leases s)" "lr_job_id l = ?jid" for l
    proof
      assume "lr_status l = Active"
      with attempt_inv_job(2) [OF inv l(1) cin(1)] l(2) cin(2) G have "lr_attempt_token l = jb_attempt_count c" by simp
      with l no show False by (auto simp: attempt_has_any_lease_def list_ex_iff)
    qed
    moreover have "work_ok_on G (re_release_now env, s)" using good_step_refl [OF ok] by (simp add: good_step_on_def)
    ultimately show ?thesis by (simp add: s2)
  next
    case True
    with rel obtain lid token l where t: "ra_lease_id a = Some lid" "ra_attempt_token a = Some token" and
      q: "release_attempt_lease H (re_release_now env) (PyStr lid) ?jid (PyInt token) (ra_agent_id a)
         (PyStr (''job_'' @ ra_status a)) (s\<lparr>db_jobs := ?js\<rparr>) = Inr (l, s2)" by auto
    from cas t(2) obtain j where "j \<in> set (db_jobs s)" "jb_id j = ?jid" "jb_attempt_count j = token" by (auto simp: in_attempt_def)
    then have token: "jb_attempt_count c = token" using uniq [of j] by simp
    note p = release_in_report [OF ok q]
    have l: "l \<in> set (db_leases s2)" using p find_lease_in [of s2 lid l] by simp
    have "lr_status z \<noteq> Active" if G: "?jid \<in> G" and z: "z \<in> set (db_leases s2)" "lr_job_id z = ?jid" for z
    proof
      assume act: "lr_status z = Active"
      from p have inv2: "attempt_inv_on G ?s2" and lk: "lease_ok (re_release_now env, ?s2)" by (simp_all add: work_ok_on_def)
      have "z \<in> set (db_leases ?s2)" "c \<in> set (db_jobs ?s2)" "jb_id c = lr_job_id z" using z cin by simp_all
      from attempt_inv_job(2) [OF inv2 this _ act] have "lr_attempt_token z = token" using token G cin by simp
      moreover have "inj_on (\<lambda>l. (lr_job_id l, lr_attempt_token l)) (set (db_leases s2))"
        using lk by (simp add: lease_ok_def lease_inv_def distinct_map)
      ultimately have "z = l"
        using inj_onD [of "\<lambda>l. (lr_job_id l, lr_attempt_token l)" "set (db_leases s2)" z l] z l p by simp
      with act p show False by simp
    qed
    with p show ?thesis by blast
  qed
  have "attempt_inv_on G (?s2\<lparr>db_jobs := update_where (in_attempt ?jid ''running'' (ra_attempt_token a))
     (finish_job_row (re_now env) (ra_status a) result (recoverable_flag (ra_status a) result)) (db_jobs ?s2)\<rparr>)"
    by (rule attempt_inv_update_jobs) (use w in \<open>auto simp: work_ok_on_def finish_job_row_def in_attempt_def\<close>)
  moreover from w have "s2 = s\<lparr>db_jobs := ?js, db_leases := db_leases s2\<rparr>" by blast
  then have f: "db_jobs s2 = ?js" "db_capacity s2 = db_capacity s"
    by (rule set_jobs_leases_fields)+
  ultimately have "attempt_inv_on G s2" by (simp add: attempt_inv_on_def ended_jobs_def)
  moreover have "lease_ok (re_release_now env, s2)"
    by (rule lease_ok_cong [of _ ?s2]) (use w f in \<open>simp_all add: work_ok_on_def\<close>)
  moreover have "jobs_after_on G s s2"
    by (rule jobs_after_update [OF f(1) [unfolded ended_jobs_def]])
      (simp_all add: finish_job_row_def job_after_def final_job_def in_attempt_def)
  ultimately have "good_step_on G (re_release_now env) s s2" by (simp add: good_step_on_def work_ok_on_def)
  then show ?thesis using same by (rule good_step_same)
qed


text \<open>A row that no active lease is of may change in place.\<close>

lemma good_update_jobs:
  assumes ok: "work_ok_on G (now, s)" "now \<le> t" and f: "\<And>j. jb_id (f j) = jb_id j"
    and a: "\<And>j. j \<in> set (db_jobs s) \<Longrightarrow> p j \<Longrightarrow> jb_id j \<in> G \<Longrightarrow> job_after j (f j)"
    and l: "\<And>j l. j \<in> set (db_jobs s) \<Longrightarrow> p j \<Longrightarrow> jb_id j \<in> G \<Longrightarrow> l \<in> set (db_leases s) \<Longrightarrow> lr_job_id l = jb_id j \<Longrightarrow> lr_status l = Active \<Longrightarrow>
      jb_status (f j) = ''running'' \<and> jb_attempt_count (f j) = jb_attempt_count j"
  shows "good_step_on G t s (s\<lparr>db_jobs := update_where p f (db_jobs s)\<rparr>)"
proof -
  from ok(1) have inv: "attempt_inv_on G s" "lease_ok (now, s)" by (simp_all add: work_ok_on_def)
  have "attempt_inv_on G (s\<lparr>db_jobs := update_where p f (db_jobs s)\<rparr>)"
  proof (rule attempt_inv_update_jobs [OF inv(1) f])
    fix j assume j: "j \<in> set (db_jobs s)" "p j" "jb_id j \<in> G"
    then have ja: "job_after j (f j)" by (rule a)
    then show "jb_attempt_count j \<le> jb_attempt_count (f j)" by (simp add: job_after_def)
    fix z assume z: "z \<in> set (db_leases s)" "lr_job_id z = jb_id j" "lr_status z = Active"
    from l [OF j z] ja show "jb_status (f j) = ''running'' \<and> jb_attempt_count (f j) = jb_attempt_count j \<and>
        jb_assigned_agent (f j) = jb_assigned_agent j" by (simp add: job_after_def)
  qed
  moreover have "lease_ok (t, s\<lparr>db_jobs := update_where p f (db_jobs s)\<rparr>)"
    by (rule lease_ok_mono [OF _ ok(2)], rule lease_ok_cong [OF inv(2)]) simp_all
  moreover have "jobs_after_on G s (s\<lparr>db_jobs := update_where p f (db_jobs s)\<rparr>)"
  proof (rule jobs_after_update [of _ p f])
    fix j assume j: "find_job s (jb_id j) = Some j" "p j" "jb_id j \<in> G"
    with find_job_id [OF j(1)] show "job_after j (f j)" by (intro a) simp_all
  qed (simp_all add: f)
  ultimately show ?thesis by (simp add: good_step_on_def work_ok_on_def)
qed

lemma good_update_idle:
  assumes "work_ok_on G (now, s)" "now \<le> t" "\<And>j. jb_id (f j) = jb_id j" "\<And>j. j \<in> set (db_jobs s) \<Longrightarrow> p j \<Longrightarrow> jb_id j \<in> G \<Longrightarrow> jb_status j \<noteq> ''running'' \<and> job_after j (f j)"
  shows "good_step_on G t s (s\<lparr>db_jobs := update_where p f (db_jobs s)\<rparr>)"
  by (rule good_update_jobs [OF assms(1-3)])
    (use assms(1,4) no_active_unless_running in \<open>auto simp: work_ok_on_def\<close>)

lemma replayed_same: "replayed_event H u a result reason j s = Inr (x, s') \<Longrightarrow> same_work s s'"
  by (simp add: replayed_event_def append_with_same)

lemma late_good:
  assumes ok: "work_ok_on G (now, s)" "now \<le> t" and r: "accept_late_result H env a result0 usage0 job s = Inr (y, s')"
  shows "good_step_on G t s s'"
proof -
  from r obtain c where c: "find_job s (ra_job_id a) = Some c" by (auto simp: accept_late_result_def get_job_Inr)
  note g = get_job_Inr [THEN iffD2, OF c]
  have n: "\<not> (jb_status c \<noteq> ''timed_out'' \<or> \<not> jb_recoverable c)" "\<not> attempt_has_any_lease s (ra_job_id a) (jb_attempt_count c)"
    using r [unfolded accept_late_result_def g bindE_simps] by (auto split: if_splits)
  from r [unfolded accept_late_result_def g bindE_simps if_not_P [OF n(1)] if_not_P [OF n(2)]] obtain result usage where
    q: "late_usage H s c result0 usage0 = Inr (result, usage)" by auto
  let ?n = "normalize_result (ra_status a) result job (re_now env)"
  let ?here = "\<lambda>j. in_attempt (ra_job_id a) ''timed_out'' (ra_attempt_token a) j \<and> jb_recoverable j"
  let ?s1 = "s\<lparr>db_jobs := update_where ?here (finish_job_row (re_now env) (ra_status a) ?n False) (db_jobs s)\<rparr>"
  note t = r [unfolded accept_late_result_def g bindE_simps if_not_P [OF n(1)] if_not_P [OF n(2)] q prod.case Let_def]
  show ?thesis
  proof (cases "rowcount ?here (db_jobs s) = 0")
    case True
    from t [unfolded if_P [OF True]] have "same_work s s'" by (auto dest: replayed_same split: if_splits)
    with good_step_refl [OF ok] show ?thesis by (rule good_step_same)
  next
    case False
    from t [unfolded if_not_P [OF False]] obtain e created s2 b s3 j x where e:
      "append_with (re_event env) (late_key (ra_job_id a) (ra_status a))
         (job_event ''job.late_result_accepted'' (or_actor (ra_actor a) (ra_agent_id a)) (Some (ra_agent_id a)) job (late_payload a ?n)) ?s1
         = Inr ((e, created), s2)"
      "persist_attempt_usage_and_warning H (re_warning env) usage c (jb_attempt_count c) (ev_id e) created (re_now env) (ra_actor a) s2
         = Inr (b, s3)"
      "late_response_delivery (te_delivery (re_terminal env)) j (ev_id e) ?n s3 = Inr (x, s')" by auto
    have "same_work ?s1 s'"
      by (rule same_work_trans [OF append_with_same [OF e(1)] same_work_trans [OF persist_same [OF e(2)] late_delivery_same [OF e(3)]]])
    moreover have "good_step_on G t s ?s1"
      by (rule good_update_idle [OF ok]) (auto simp: finish_job_row_def in_attempt_def job_after_def final_job_def)
    ultimately show ?thesis using good_step_same by blast
  qed
qed

lemma report_good:
  assumes ok: "work_ok_on G (now, s)" "now \<le> re_release_now env" and r: "report_job_result H env a s0 s = Inr (y, s')"
  shows "good_step_on G (re_release_now env) s s'"
proof -
  from r consider (replay) result job where "replay_terminal_result H (re_event env) a result job s = Inr (y, s')"
    | (late) result usage job where "accept_late_result H env a result usage job s = Inr (y, s')"
    | (now) result usage job where "report_terminal_tx H env a result usage job s = Inr (y, s')"
    by (auto simp: report_job_result_def split: if_splits)
  then show ?thesis
  proof cases
    case replay
    then have "same_work s s'" by (auto simp: replay_terminal_result_def dest: replayed_same)
    with good_step_refl [OF ok] show ?thesis by (rule good_step_same)
  qed (blast intro: late_good [OF ok] report_terminal_good [OF ok])+
qed

lemma progress_good:
  assumes ok: "work_ok_on G (now, s)" "now \<le> t1" and r: "record_job_progress H u n t a s0 s = Inr (y, s')"
  shows "good_step_on G t1 s s'"
proof -
  let ?here = "in_attempt (pa_job_id a) ''running'' (pa_attempt_token a)"
  let ?f = "progress_job_row n (bounded_progress (pa_stage a) (pa_summary a) (pa_session_id a)) (pa_session_id a)"
  let ?s1 = "s\<lparr>db_jobs := update_where ?here ?f (db_jobs s)\<rparr>"
  from r obtain k e x where "append_with u k e ?s1 = Inr (x, s')"
    by (auto simp: record_job_progress_def Let_def split: if_splits)
  then have "same_work ?s1 s'" by (rule append_with_same)
  moreover have "good_step_on G t1 s ?s1"
    by (rule good_update_jobs [OF ok]) (auto simp: progress_job_row_def in_attempt_def job_after_def final_job_def)
  ultimately show ?thesis using good_step_same by blast
qed


lemma cancel_lease_good:
  assumes ok: "work_ok_on G (now, s)" "now \<le> t" and c: "cancel_lease H t jid reason lease s2 s = Inr (j, s')"
    and G: "jid \<in> G \<longrightarrow> s2 = s \<and> (\<exists>x. find_job s jid = Some x \<and> lease = active_attempt_lease s jid (jb_attempt_count x))"
  shows "good_step_on G t s s'"
proof -
  from ok(1) have lk: "lease_ok (now, s)" and inv: "attempt_inv_on G s" by (simp_all add: work_ok_on_def)
  from c obtain r s1 where m: "mark_job_cancelled t jid reason r s1 = Inr (j, s')" and
    s1: "work_ok_on G (t, s1) \<and> db_jobs s1 = db_jobs s" and
    u: "jid \<in> G \<Longrightarrow> r = s1 \<and> (\<forall>l \<in> set (db_leases s1). lr_job_id l = jid \<longrightarrow> lr_status l \<noteq> Active)"
  proof (cases lease)
    case None
    have "lr_status l \<noteq> Active" if l: "l \<in> set (db_leases s)" "lr_job_id l = jid" "jid \<in> G" for l
    proof
      assume act: "lr_status l = Active"
      from G l(3) None obtain x where x: "find_job s jid = Some x" "active_attempt_lease s jid (jb_attempt_count x) = None" by auto
      with find_job_id have "x \<in> set (db_jobs s)" "jb_id x = lr_job_id l" using l by auto
      with attempt_inv_job(2) [OF inv l(1)] l act have "lr_attempt_token l = jb_attempt_count x" by simp
      with l act x(2) show False by (auto simp: active_attempt_lease_def find_None_notin)
    qed
    moreover have "work_ok_on G (t, s)" using good_step_refl [OF ok] by (simp add: good_step_on_def)
    ultimately show ?thesis using that [of s2 s] c None G by (auto simp: cancel_lease_def)
  next
    case (Some l)
    with c obtain y s1 where q: "release_attempt_lease_from H t (PyStr (lr_lease_id l)) jid (PyInt (lr_attempt_token l))
                   (lr_agent_id l) (PyStr ''job_cancelled'') s2 s = Inr (y, s1)" and m: "mark_job_cancelled t jid reason s1 s1 = Inr (j, s')"
      by (auto simp: cancel_lease_def)
    have lk1: "lease_ok (t, s1)" by (rule release_from_ok [OF lk ok(2) q])
    from release_from_Inr [OF q] obtain i z where d: "s1 = s \<or> update_leases (\<lambda>x. lr_lease_id x = i)
       (\<lambda>x. x\<lparr>lr_status := Released, lr_released_at := Some t, lr_release_reason := Some z\<rparr>) s = Inr s1" by blast
    then have i1: "attempt_inv_on G s1 \<and> db_jobs s1 = db_jobs s"
      using inv by (auto simp: update_leases_Inr [symmetric] intro: attempt_inv_update_leases) (simp add: update_leases_Inr)
    have "lr_status k \<noteq> Active" if k: "k \<in> set (db_leases s1)" "lr_job_id k = jid" "jid \<in> G" for k
    proof
      assume act: "lr_status k = Active"
      from G k(3) Some obtain x where x: "find_job s jid = Some x" "active_attempt_lease s jid (jb_attempt_count x) = Some l" "s2 = s" by auto
      with find_job_id i1 have "x \<in> set (db_jobs s1)" "jb_id x = lr_job_id k" using k by auto
      with attempt_inv_job(2) [of G s1 k x] i1 k act have "lr_attempt_token k = jb_attempt_count x" by simp
      moreover from q x(3) have "release_attempt_lease H t (PyStr (lr_lease_id l)) jid (PyInt (lr_attempt_token l))
                   (lr_agent_id l) (PyStr ''job_cancelled'') s = Inr (y, s1)" by (simp add: release_attempt_lease_def)
      from release_active_none [OF lk x(2) this] have "active_attempt_lease s1 jid (jb_attempt_count x) = None" by blast
      ultimately show False using k act by (auto simp: active_attempt_lease_def find_None_notin)
    qed
    then show ?thesis using that [of s1 s1] m lk1 i1 by (auto simp: work_ok_on_def)
  qed
  from mark_job_cancelled_cases [OF m] obtain x where x: "find_job r jid = Some x" "\<not> (jb_status x = ''done'' \<or> jb_status x = ''failed'')" and
    k: "s' = s1 \<or> jb_status x \<noteq> ''cancelled'' \<and> (\<exists>q. s' = update_job jid (\<lambda>j. j\<lparr>jb_status := ''cancelled'',
        jb_result_json := Some (json_col (PyDict q)), jb_completed_at := Some t, jb_updated_at := t\<rparr>) s1)" by blast
  have "good_step_on G t s s1" using s1 by (simp add: good_step_on_def jobs_after_eq)
  moreover have "good_step_on G t s1 s'"
    using k
  proof
    assume "s' = s1"
    with s1 show ?thesis by (simp add: good_step_on_def jobs_after_eq)
  next
    assume "jb_status x \<noteq> ''cancelled'' \<and> (\<exists>q. s' = update_job jid (\<lambda>j. j\<lparr>jb_status := ''cancelled'',
        jb_result_json := Some (json_col (PyDict q)), jb_completed_at := Some t, jb_updated_at := t\<rparr>) s1)"
    then obtain q where nc: "jb_status x \<noteq> ''cancelled''" and q: "s' = s1\<lparr>db_jobs := update_where (\<lambda>j. jb_id j = jid)
        (\<lambda>j. j\<lparr>jb_status := ''cancelled'', jb_result_json := Some (json_col (PyDict q)), jb_completed_at := Some t,
          jb_updated_at := t\<rparr>) (db_jobs s1)\<rparr>" by (auto simp: update_job_def)
    show ?thesis unfolding q
    proof (rule good_update_jobs [OF conjunct1 [OF s1] order_refl])
      fix y assume y: "y \<in> set (db_jobs s1)" "jb_id y = jid" "jb_id y \<in> G"
      have "attempt_inv_on G s1" using s1 by (simp add: work_ok_on_def)
      then have "distinct (map jb_id (db_jobs s1))" unfolding attempt_inv_on_def by blast
      from find_job_iff [OF this, of jid y] y u x(1) have "y = x" by simp
      with x(2) nc show "job_after y (y\<lparr>jb_status := ''cancelled'', jb_result_json := Some (json_col (PyDict q)),
          jb_completed_at := Some t, jb_updated_at := t\<rparr>)" by (simp add: job_after_def final_job_def)
      fix l assume "l \<in> set (db_leases s1)" "lr_job_id l = jb_id y" "lr_status l = Active"
      with u y show "jb_status (y\<lparr>jb_status := ''cancelled'', jb_result_json := Some (json_col (PyDict q)),
          jb_completed_at := Some t, jb_updated_at := t\<rparr>) = ''running'' \<and>
        jb_attempt_count (y\<lparr>jb_status := ''cancelled'', jb_result_json := Some (json_col (PyDict q)),
          jb_completed_at := Some t, jb_updated_at := t\<rparr>) = jb_attempt_count y" by auto
    qed simp_all
  qed
  ultimately show ?thesis by (rule good_step_trans)
qed

text \<open>A cancellation, if a job of \<open>G\<close> and its leases are still as they were read.\<close>

lemma cancel_good:
  assumes ok: "work_ok_on G (now, s)" "now \<le> t" and r: "cancel_job H uuid t jid reason actor s0 s1 s2 s = Inr (y, s')"
    and G: "jid \<in> G \<longrightarrow> unchanged_since jid s0 s \<and> unchanged_since jid s1 s \<and> unchanged_since jid s2 s"
  shows "good_step_on G t s s'"
proof -
  obtain j e created where y: "y = (j, e, created)" by (cases y)
  have lk: "lease_ok (now, s)" using ok(1) by (simp add: work_ok_on_def)
  obtain lease r2 t1 a where c: "cancel_lease H t jid reason lease r2 s = Inr (j, t1)"
      "append_event uuid t (Some (''job:'' @ jid @ '':cancelled'')) a t1 = Inr ((e, created), s')"
    and u: "jid \<in> G \<longrightarrow> r2 = s \<and> (\<exists>x. find_job s jid = Some x \<and> lease = active_attempt_lease s jid (jb_attempt_count x))"
  proof (cases "jid \<in> G")
    case True
    with G have "cancel_job H uuid t jid reason actor s s s s = Inr ((j, e, created), s')"
      using r y cancel_unchanged [OF lk, of jid s0 s1 s2] by simp
    from cancel_parts [OF this] show ?thesis using that by blast
  next
    case False
    from cancel_parts [OF r [unfolded y]] show ?thesis using that False by blast
  qed
  from cancel_lease_good [OF ok c(1) u] have "good_step_on G t s t1" .
  then show ?thesis using append_event_same [OF c(2)] by (rule good_step_same)
qed

text \<open>A local run starts a job of \<open>G\<close> if it is still the pending one that was read, and ends one that has no active lease.\<close>

lemma run_start_good:
  assumes ok: "work_ok_on G (now, s)" "now \<le> t" and r: "run_start A uuid t' p r s = (x, s')"
    and G: "jb_id (pl_job p) \<in> G \<longrightarrow> (\<exists>j. find_job r (jb_id (pl_job p)) = Some j \<and> find_job s (jb_id (pl_job p)) = Some j \<and> jb_status j = ''pending'')"
  shows "good_step_on G t s s'"
proof (cases "mark_job_started A t' (jb_id (pl_job p)) (pl_log_path p) r s")
  case (Inl e)
  with r have "s' = s" by (simp add: run_start_def)
  with good_step_refl [OF ok] show ?thesis by simp
next
  case (Inr y)
  then obtain j n logs where j: "find_job r (jb_id (pl_job p)) = Some j" and n: "n = jb_attempt_count j + 1"
    and s1: "snd y = s\<lparr>db_jobs := update_where (\<lambda>z. jb_id z = jb_id (pl_job p)) (\<lambda>z. z\<lparr>jb_status := ''running'', jb_attempt_count := n,
       jb_logs_path := Some logs, jb_started_at := Some t', jb_updated_at := t'\<rparr>) (db_jobs s)\<rparr>"
    by (auto simp: mark_job_started_def get_job_Inr Let_def update_job_def)
  have d: "distinct (map jb_id (db_jobs s))" using ok(1) by (simp add: work_ok_on_def attempt_inv_on_def)
  have "good_step_on G t s (snd y)"
    unfolding s1
  proof (rule good_update_idle [OF ok])
    fix z assume z: "z \<in> set (db_jobs s)" "jb_id z = jb_id (pl_job p)" "jb_id z \<in> G"
    with G j find_job_iff [OF d, of "jb_id (pl_job p)" z] have "z = j" "jb_status j = ''pending''" by auto
    then show "jb_status z \<noteq> ''running'' \<and> job_after z (z\<lparr>jb_status := ''running'', jb_attempt_count := n,
       jb_logs_path := Some logs, jb_started_at := Some t', jb_updated_at := t'\<rparr>)" by (simp add: n job_after_def final_job_def)
  qed simp
  moreover have "same_work (snd y) s'"
    using r Inr by (cases y) (auto simp: run_start_def dest: append_event_same split: sum.splits)
  ultimately show ?thesis by (rule good_step_same)
qed

lemma run_finish_good:
  assumes ok: "work_ok_on G (now, s)" "now \<le> t" and r: "run_finish uuid t' p status result s = (x, s')"
    and G: "jb_id (pl_job p) \<in> G \<longrightarrow> (\<forall>l \<in> set (db_leases s). lr_job_id l = jb_id (pl_job p) \<longrightarrow> lr_status l \<noteq> Active)"
  shows "good_step_on G t s s'"
proof (cases "mark_job_completed t' (jb_id (pl_job p)) status (PyDict result) s")
  case (Inl e)
  with r have "s' = s" by (simp add: run_finish_def)
  with good_step_refl [OF ok] show ?thesis by simp
next
  case (Inr y)
  then have s1: "snd y = s\<lparr>db_jobs := update_where (\<lambda>j. jb_id j = jb_id (pl_job p) \<and> jb_status j = ''running'')
      (\<lambda>j. j\<lparr>jb_status := status, jb_result_json := Some (json_col (PyDict result)),
         jb_completed_at := Some t', jb_updated_at := t'\<rparr>) (db_jobs s)\<rparr>"
    by (auto simp: mark_job_completed_def Let_def bindE_eq_Inr split: if_splits)
  have "good_step_on G t s (snd y)"
    unfolding s1 by (rule good_update_jobs [OF ok]) (use G in \<open>auto simp: job_after_def final_job_def\<close>)
  moreover have "same_work (snd y) s'"
    using r Inr by (cases y) (auto simp: run_finish_def dest: append_event_same split: sum.splits if_splits)
  ultimately show ?thesis by (rule good_step_same)
qed

lemma create_good:
  assumes ok: "work_ok_on G (now, s)" "now \<le> t" and r: "create_job A jid t a s = Inr (j, s')"
  shows "good_step_on G t s s'"
proof -
  from r have s': "s' = s\<lparr>db_jobs := db_jobs s @ [j]\<rparr>" and new: "jid \<notin> jb_id ` set (db_jobs s)" and id: "jb_id j = jid"
    by (auto simp: create_job_def job_of_def Let_def list_ex_iff split: option.splits if_splits)
  from ok have inv: "attempt_inv_on G s" "lease_ok (now, s)" by (simp_all add: work_ok_on_def)
  have "attempt_inv_on G s'" using inv(1) new id unfolding attempt_inv_on_def s' by fastforce
  moreover have "lease_ok (t, s')" by (rule lease_ok_mono [OF _ ok(2)], rule lease_ok_cong [OF inv(2)]) (simp_all add: s')
  moreover have "jobs_after_on G s s'" by (auto simp: jobs_after_on_def s' find_job_def find_append)
  ultimately show ?thesis by (simp add: good_step_on_def work_ok_on_def)
qed


section \<open>Runs\<close>

text \<open>
  A state is the last reading of the clock and the database. A step is one committed transaction of one of
  the operations on jobs and leases, with readings of the clock that do not go back; whatever an operation read
  in an earlier transaction is arbitrary, so the steps of different connections interleave freely. The
  reaper takes a step for each lease. The set \<open>G\<close> restricts what may happen to its jobs, and to no others:
  a cancellation of a job of \<open>G\<close> finds the rows of the job as it read them, a legacy claim and the start of a local run
  find the job as they read it, and a local run does not end one that holds an active lease. The
  code checks none of these (\<open>cancel_misses_claim\<close>, \<open>legacy_claim_reuses_token\<close>, \<open>run_starts_stale\<close>); for \<open>G = {}\<close> every
  interleaving of these transactions is a run. Changes of capacity policies are not steps.
\<close>

inductive runtime_step :: "(string \<Rightarrow> string) \<Rightarrow> string set \<Rightarrow> timestamp \<times> db \<Rightarrow> timestamp \<times> db \<Rightarrow> bool" for H G where
  create: "now \<le> t \<Longrightarrow> create_job A jid t a s = Inr (j, s') \<Longrightarrow> runtime_step H G (now, s) (t, s')"
| claim: "now \<le> cl_reserve_now env \<Longrightarrow> cl_now env \<le> cl_reserve_now env \<Longrightarrow> cl_reserve_now env \<le> cl_reserve_count_now env \<Longrightarrow>
    claim_typed H env ca agent host request s = Inr (y, s') \<Longrightarrow> runtime_step H G (now, s) (cl_reserve_count_now env, s')"
| claim_legacy: "now \<le> t \<Longrightarrow> jb_id j \<in> G \<longrightarrow> j \<in> set (db_jobs s) \<Longrightarrow> claimable rec agent j \<Longrightarrow>
    claim_legacy_tx H env ca agent host request j ctx s = Inr (y, s') \<Longrightarrow> runtime_step H G (now, s) (t, s')"
| touch: "runtime_step H G (now, s) (now, snd (touch_agent_activity t agent s))"
| renew: "now \<le> t1 \<Longrightarrow> t1 \<le> t2 \<Longrightarrow> renew_managed_lease H t1 t2 t3 server_now lid jid tok agent ttl_v s = Inr (v, s') \<Longrightarrow>
    runtime_step H G (now, s) (t2, s')"
| reap_one: "now \<le> t1 \<Longrightarrow> t \<le> t1 \<Longrightarrow> reap_one_lease H u1 u2 t actor lease s = Inr (x, s') \<Longrightarrow> runtime_step H G (now, s) (t1, s')"
| reap_exact: "now \<le> t1 \<Longrightarrow> validate_utc_timestamp now_v = Inr t \<Longrightarrow> t \<le> t1 \<Longrightarrow>
    reap_exact_lease H u1 u2 lease_v job_v actor_v now_v s = Inr (l, s') \<Longrightarrow> runtime_step H G (now, s) (t1, s')"
| progress: "now \<le> t1 \<Longrightarrow> record_job_progress H u n t pa s0 s = Inr (x, s') \<Longrightarrow> runtime_step H G (now, s) (t1, s')"
| report: "now \<le> re_release_now re \<Longrightarrow> report_job_result H re ra s0 s = Inr (z, s') \<Longrightarrow> runtime_step H G (now, s) (re_release_now re, s')"
| cancel: "now \<le> t \<Longrightarrow> jid \<in> G \<longrightarrow> unchanged_since jid s0 s \<and> unchanged_since jid s1 s \<and> unchanged_since jid s2 s \<Longrightarrow>
    cancel_job H uuid t jid reason actor s0 s1 s2 s = Inr (c, s') \<Longrightarrow> runtime_step H G (now, s) (t, s')"
| run_start: "now \<le> t \<Longrightarrow>
    jb_id (pl_job p) \<in> G \<longrightarrow> (\<exists>j. find_job r (jb_id (pl_job p)) = Some j \<and> find_job s (jb_id (pl_job p)) = Some j \<and> jb_status j = ''pending'') \<Longrightarrow>
    run_start A uuid t' p r s = (ev, s') \<Longrightarrow> runtime_step H G (now, s) (t, s')"
| run_finish: "now \<le> t \<Longrightarrow>
    jb_id (pl_job p) \<in> G \<longrightarrow> (\<forall>l \<in> set (db_leases s). lr_job_id l = jb_id (pl_job p) \<longrightarrow> lr_status l \<noteq> Active) \<Longrightarrow>
    run_finish uuid t' p status result s = (row, s') \<Longrightarrow> runtime_step H G (now, s) (t, s')"
| other: "now \<le> t \<Longrightarrow> db_jobs s' = db_jobs s \<Longrightarrow> db_leases s' = db_leases s \<Longrightarrow> db_capacity s' = db_capacity s \<Longrightarrow>
    runtime_step H G (now, s) (t, s')"

lemma touch_good: "work_ok_on G (now, s) \<Longrightarrow> good_step_on G now s (snd (touch_agent_activity t agent s))"
  by (auto simp: good_step_on_def touch_fields intro: work_ok_cong jobs_after_eq)

lemma other_good:
  "work_ok_on G (now, s) \<Longrightarrow> now \<le> t \<Longrightarrow> db_jobs s' = db_jobs s \<Longrightarrow> db_leases s' = db_leases s \<Longrightarrow> db_capacity s' = db_capacity s \<Longrightarrow>
     good_step_on G t s s'"
  using good_step_refl [of G now s t] by (auto simp: good_step_on_def intro: work_ok_cong jobs_after_eq)

lemma runtime_step_good: "runtime_step H G x y \<Longrightarrow> work_ok_on G x \<Longrightarrow> good_step_on G (fst y) (snd x) (snd y)"
proof (induction rule: runtime_step.induct)
  case (claim now env ca agent host request s y s')
  from claim_typed_good [OF claim.prems claim.hyps] show ?case by simp
next
  case (claim_legacy now t j s rec agent env ca host request ctx y s')
  from claim_legacy_good [OF claim_legacy.prems claim_legacy.hyps] show ?case by simp
next
  case (reap_one now t1 t u1 u2 actor lease s x s')
  from reap_one_good [OF good_step_refl [OF reap_one.prems reap_one.hyps(1)] reap_one.hyps(2,3)] show ?case by simp
next
  case (reap_exact now t1 now_v t u1 u2 lease_v job_v actor_v s l s')
  from reap_exact_good [OF reap_exact.prems reap_exact.hyps] show ?case by simp
next
  case (renew now t1 t2 t3 server_now lid jid tok agent ttl_v s v s')
  from renew_good [OF renew.prems renew.hyps] show ?case by simp
next
  case (report now re ra s0 s z s')
  from report_good [OF report.prems report.hyps] show ?case by simp
next
  case (progress now t1 u n t pa s0 s x s')
  from progress_good [OF progress.prems progress.hyps] show ?case by simp
next
  case (cancel now t jid s0 s s1 s2 uuid reason actor c s')
  from cancel_good [OF cancel.prems cancel.hyps(1,3,2)] show ?case by simp
next
  case (create now t A jid a s j s')
  from create_good [OF create.prems create.hyps] show ?case by simp
next
  case (touch now s t agent)
  from touch_good [OF touch.prems] show ?case by simp
next
  case (run_start now t p r s A uuid t' ev s')
  from run_start_good [OF run_start.prems run_start.hyps(1,3,2)] show ?case by simp
next
  case (run_finish now t p s uuid t' status result row s')
  from run_finish_good [OF run_finish.prems run_finish.hyps(1,3,2)] show ?case by simp
next
  case (other now t s' s)
  from other_good [OF other.prems other.hyps] show ?case by simp
qed

definition work_start :: "timestamp \<times> db \<Rightarrow> bool" where
  "work_start x \<longleftrightarrow> db_leases (snd x) = [] \<and> distinct (map jb_id (db_jobs (snd x)))"

interpretation runtime: invariant_system work_start "runtime_step H G" "work_ok_on G" for H G
proof unfold_locales
  fix x assume "work_start x"
  then show "work_ok_on G x"
    by (cases x) (simp add: work_start_def work_ok_on_def attempt_inv_on_def lease_ok_def lease_inv_def capacity_inv_def agent_load_def)
next
  fix x y assume "work_ok_on G x" "runtime_step H G x y"
  then show "work_ok_on G y" using runtime_step_good [of H G x y] by (cases y) (simp add: good_step_on_def)
qed

text \<open>A sweep whose interruptions are runs is a run.\<close>

lemma sweep_runs:
  assumes "reap_loop H stamps between t actor ls s = (rs, es, s')" "\<And>k s. (runtime_step H G)\<^sup>*\<^sup>* (t, s) (t, between k s)"
  shows "(runtime_step H G)\<^sup>*\<^sup>* (t, s) (t, s')"
  by (rule reap_loop_keeps [where P = "\<lambda>x. (runtime_step H G)\<^sup>*\<^sup>* (t, s) (t, x)", OF _ _ assms(1)])
    (auto intro: assms(2) rtranclp_trans runtime_step.reap_one rtranclp.rtrancl_into_rtrancl)

end
