(* ===== verification/RuntimeRuns.thy ===== *)
theory RuntimeRuns
  imports RuntimeSafety
begin

text \<open>
  The properties of the runtime interface over whole runs, with a sample claim: jobs and leases
  stay consistent, attempts are fenced, finished jobs are final, due leases are recovered, and what
  the envelopes and the event keys of later attempts lose.
\<close>

section \<open>A sample claim\<close>

definition work_context :: execution_context where
  "work_context = sample_context\<lparr>ec_task_id := None, ec_assigned_agent := ''a'', ec_worktree_path := ''/srv/repo'',
     ec_session_scope_id := ''s'', ec_legacy_scope_ids := []\<rparr>"

definition work_payload :: fields where
  "work_payload = [(''executor_binding'', PyDict (cd_binding_snapshot sample_candidate)), (''execution_context'', to_dict work_context)]"

definition work_job :: job_row where
  "work_job = \<lparr>jb_id = ''j1'', jb_workspace_id = Some ''w1'', jb_task_id = None, jb_runner_profile_id = Some ''a'',
     jb_assigned_agent = Some ''a'', jb_status = ''pending'', jb_prompt_path = None, jb_branch = None, jb_worktree_path = None,
     jb_terminal_session_id = None, jb_logs_path = None, jb_attempt_count = 0, jb_timeout_seconds = None,
     jb_payload_json = Some (PyDict work_payload),
     jb_result_json = None, jb_created_at = 1, jb_started_at = None,
     jb_completed_at = None, jb_last_activity_at = None, jb_progress_json = None, jb_recoverable = False, jb_updated_at = 1\<rparr>"

definition work_db :: db where
  "work_db = route_db\<lparr>db_jobs := [work_job], db_capacity := [sample_policy\<lparr>cp_agent_id := ''a''\<rparr>]\<rparr>"

definition work_env :: claim_env where
  "work_env = \<lparr>cl_now = 5, cl_reap = (\<lambda>n. ((''x'', 5), (''y'', 5))), cl_count_now = 6, cl_lease_uuid = ''l1'', cl_reserve_now = 7,
     cl_reserve_count_now = 8, cl_claimed = (''e1'', 8), cl_marker = (''e2'', 8), cl_server_now = 9\<rparr>"
definition work_auth :: claim_authority where
  "work_auth = \<lparr>au_payload = work_payload, au_context = work_context, au_resource_key = sha256_prefix @ replicate 64 (CHR ''a''),
     au_binding = cd_binding_snapshot sample_candidate, au_route = []\<rparr>"

lemma work_authority: "validate_claim_authority ctx_H work_db work_job ''a'' ''h1'' = Inr work_auth"
  by code_simp

definition running_job :: job_row where
  "running_job = claim_job_row 5 1 work_payload work_job"

definition running_db :: db where
  "running_db = work_db\<lparr>db_jobs := [running_job]\<rparr>"

definition work_lease :: lease_row where
  "work_lease = \<lparr>lr_lease_id = ''l1'', lr_job_id = ''j1'', lr_attempt_token = 1, lr_agent_id = ''a'',
     lr_runner_profile_id = ''a'', lr_host_id = ''h1'', lr_resource_kind = ''worktree'',
     lr_resource_key = sha256_prefix @ replicate 64 (CHR ''a''), lr_normalized_path = ''/srv/repo'',
     lr_capacity_policy_id = sha256_prefix @ replicate 64 (CHR ''b''), lr_max_concurrent_jobs = 1,
     lr_status = Active, lr_acquired_at = 7, lr_renewed_at = 7, lr_expires_at = 37,
     lr_released_at = None, lr_release_reason = None\<rparr>"

lemma work_selected: "select_claim_candidate ctx_H 6 work_db ''a'' ''h1'' False = Inr (Selected work_job work_auth)"
proof -
  have q: "claim_queue False ''a'' work_db = [work_job]"
    by (simp add: claim_queue_def work_db_def claimable_def work_job_def)
  have p: "resolve_capacity_policy work_db ''a'' = Some (sample_policy\<lparr>cp_agent_id := ''a''\<rparr>)"
    by code_simp
  have n: "count_active_leases_for_agent ctx_H 6 work_db ''a'' = Inr 0" by code_simp
  have r: "find_active_resource_lease ctx_H work_db (au_resource_key work_auth) = Inr None" by code_simp
  show ?thesis
    by (simp add: select_claim_candidate_def q p n r work_authority LEASE_CLAIM_SCAN_LIMIT_def sample_policy_def)
qed

lemma work_reserved:
  "reserve_attempt_lease ctx_H ''l1'' 7 8 ''j1'' (PyInt 1) ''a'' ''a'' ''h1'' ''/srv/repo'' (PyInt 30) running_db
     = Inr ((work_lease, False), running_db\<lparr>db_leases := [work_lease]\<rparr>)"
  by code_simp

lemma work_due: "find_due_active_leases ctx_H work_db 5 LEASE_REAP_BATCH_SIZE = Inr []"
  by code_simp

lemma work_ready: "claim_agent_ready work_db ''a'' ''h1'' = Inr ()"
  by code_simp


lemma work_taken:
  "\<exists>r s'. take_selected ctx_H work_env ''a'' ''h1'' 30 None None None None work_job work_auth work_db = Inr (r, s') \<and>
     same_work (running_db\<lparr>db_leases := [work_lease]\<rparr>) s'"
proof -
  have j: "update_where (\<lambda>x. jb_id x = jb_id work_job \<and> jb_status x = jb_status work_job)
     (claim_job_row 5 1 work_payload) (db_jobs work_db) = [running_job]"
    and nz: "\<not> rowcount (\<lambda>x. jb_id x = jb_id work_job \<and> jb_status x = jb_status work_job) (db_jobs work_db) = 0"
    by (simp_all add: work_db_def running_job_def update_where_def rowcount_0_iff)
  have a: "ec_worktree_path (au_context work_auth) = ''/srv/repo''" "jb_runner_profile_id work_job = Some ''a''"
    "jb_attempt_count work_job + 1 = 1" "au_payload work_auth = work_payload" "cl_now work_env = 5" "cl_lease_uuid work_env = ''l1''"
    "cl_reserve_now work_env = 7" "cl_reserve_count_now work_env = 8"
    by (simp_all add: work_auth_def work_context_def work_job_def work_env_def)
  let ?s = "running_db\<lparr>db_leases := [work_lease]\<rparr>"
  have w: "fst (cl_claimed work_env) \<notin> ev_id ` set (db_events ?s)" "workspace_fk ?s (jb_workspace_id work_job)"
    by (simp_all add: work_job_def running_db_def work_db_def route_db_def route_base_def base_db_def empty_db_def workspace_fk_def workspace_exists_def get_workspace_def sample_ws_def work_env_def)
  have r: "reserve_attempt_lease ctx_H ''l1'' 7 8 (jb_id work_job) (PyInt 1) ''a'' ''a'' ''h1'' ''/srv/repo'' (PyInt 30)
     (work_db\<lparr>db_jobs := [running_job]\<rparr>) = Inr ((work_lease, False), ?s)"
    using work_reserved by (simp add: running_db_def work_job_def)
  obtain x s' where e: "append_with (cl_claimed work_env) (claim_key (jb_id work_job) 1)
      (job_event ''job.claimed'' ''a'' (Some ''a'') work_job (claim_event_payload work_job ''a'' (au_context work_auth) work_lease None None work_auth)) ?s = Inr (x, s')"
    using append_with_total [OF w] by blast
  have "db_jobs s' = [running_job]" using append_with_same [OF e] by (simp add: same_work_def running_db_def)
  then have g: "get_job s' (jb_id work_job) = Inr running_job"
    by (simp add: get_job_def find_job_def running_job_def claim_job_row_def)
  show ?thesis
    unfolding take_selected_def Let_def a j if_not_P [OF nz] option.case append_claim_request_marker_def r bindE_simps prod.case e g
    using append_with_same [OF e] by blast
qed

lemma work_claimed:
  "\<exists>r s'. claim_leased_job ctx_H work_env (PyStr ''a'') (PyStr ''h1'') False (PyInt 30) (PyStr ''a'') PyNone PyNone
     (PyStr ''global'') PyNone None None work_db = Inr (Claimed r s') \<and> same_work (running_db\<lparr>db_leases := [work_lease]\<rparr>) s'"
proof -
  obtain r s' where t: "take_selected ctx_H work_env ''a'' ''h1'' 30 None None None None work_job work_auth work_db = Inr (r, s')"
    and same: "same_work (running_db\<lparr>db_leases := [work_lease]\<rparr>) s'"
    using work_taken by blast
  have v: "validate_claim_reap_policy (PyStr ''global'') PyNone = Inr None" "validate_id (PyStr ''a'') = Inr ''a''"
    "validate_id (PyStr ''h1'') = Inr ''h1''" "validate_recovery_evidence False PyNone PyNone = Inr None" "validate_ttl (PyInt 30) = Inr 30"
    by code_simp+
  have "cl_now work_env = 5" "cl_count_now work_env = 6" by (simp_all add: work_env_def)
  then show ?thesis
    using same by (simp add: claim_leased_job_def v work_ready work_due work_selected t)
qed

definition work_args :: claim_args where
  "work_args = \<lparr>ca_agent_id = PyStr ''a'', ca_recoverable = False, ca_ttl = PyInt 30, ca_recovery_reason = PyNone,
     ca_stopped = PyNone, ca_reap_mode = PyStr ''global'', ca_reap_reason = PyNone, ca_request_id = PyNone\<rparr>"

text \<open>A run of one step: the agent claims the job.\<close>

lemma work_run:
  "\<exists>s'. runtime_step ctx_H UNIV (0, work_db) (8, s') \<and> work_start (0, work_db) \<and> work_ok (8, s') \<and> db_jobs s' = [running_job] \<and>
     db_leases s' = [work_lease]"
proof -
  obtain r s' where c: "claim_leased_job ctx_H work_env (PyStr ''a'') (PyStr ''h1'') False (PyInt 30) (PyStr ''a'') PyNone PyNone
     (PyStr ''global'') PyNone None None work_db = Inr (Claimed r s')"
    and same: "same_work (running_db\<lparr>db_leases := [work_lease]\<rparr>) s'" using work_claimed by blast
  have "claim_typed ctx_H work_env work_args ''a'' ''h1'' None work_db = Inr (claimed_reply (cr_job r) (cr_attempt_token r) (cr_execution_context r) (cr_execution_lease r) False, s')"
    by (simp add: claim_typed_def replay_request_def work_args_def c)
  moreover have t: "0 \<le> cl_reserve_now work_env" "cl_now work_env \<le> cl_reserve_now work_env"
    "cl_reserve_now work_env \<le> cl_reserve_count_now work_env" "cl_reserve_count_now work_env = 8" by (simp_all add: work_env_def)
  ultimately have st: "runtime_step ctx_H UNIV (0, work_db) (8, s')" using runtime_step.claim [OF t(1-3), of ctx_H work_args] by (metis t(4))
  have start: "work_start (0, work_db)"
    by (simp add: work_start_def work_db_def route_db_def route_base_def base_db_def empty_db_def)
  then have ok0: "work_ok (0, work_db)" by (rule runtime.inv_start)
  with st have ok: "work_ok (8, s')" by (rule runtime.inv_step [rotated])
  show ?thesis using st start ok same by (auto simp: same_work_def running_db_def)
qed
section \<open>Safety of runs\<close>

text \<open>
  C2: along every interleaving of the steps, with stale readings and local runs, an active lease is the
  only active one of its worktree. And let \<open>G\<close> be jobs on which no cancellation, legacy claim or start of a
  local run decided on a stale row and whose leased attempts no local run ended: then a lease of a job of \<open>G\<close> is of an attempt
  that the job has reached, and one that is active is the only active lease of the job and belongs to its
  current attempt, the job runs and is assigned to the agent that holds the lease. The code does not
  enforce the restriction to \<open>G\<close>, and without it the second part fails (\<open>cancel_misses_claim\<close>).
\<close>

theorem active_lease_is_current_attempt:
  assumes "work_start x" "(runtime_step H G)\<^sup>*\<^sup>* x (now, s)" "l \<in> set (db_leases s)"
  shows "(lr_status l = Active \<longrightarrow> (\<forall>b \<in> set (db_leases s). lr_status b = Active \<and> lr_resource_key b = lr_resource_key l \<longrightarrow> b = l)) \<and>
    (lr_job_id l \<in> G \<longrightarrow> (\<exists>j \<in> set (db_jobs s). jb_id j = lr_job_id l \<and> lr_attempt_token l \<le> jb_attempt_count j \<and>
    (lr_status l = Active \<longrightarrow> jb_status j = ''running'' \<and> jb_attempt_count j = lr_attempt_token l \<and>
       jb_assigned_agent j = Some (lr_agent_id l) \<and>
       (\<forall>b \<in> set (db_leases s). lr_status b = Active \<and> lr_job_id b = lr_job_id l \<longrightarrow> b = l))))"
proof -
  have ok: "work_ok_on G (now, s)" by (rule runtime.inv_reachable [OF assms(1,2)])
  then have inv: "attempt_inv_on G s" and lk: "lease_inv now s" by (simp_all add: work_ok_on_def lease_ok_def)
  have one: "b = l" if "lr_status l = Active" "b \<in> set (db_leases s)" "lr_status b = Active" "lr_resource_key b = lr_resource_key l" for b
    using lk that assms(3) unfolding lease_inv_def by blast
  have "\<exists>j \<in> set (db_jobs s). jb_id j = lr_job_id l \<and> lr_attempt_token l \<le> jb_attempt_count j \<and>
    (lr_status l = Active \<longrightarrow> jb_status j = ''running'' \<and> jb_attempt_count j = lr_attempt_token l \<and>
       jb_assigned_agent j = Some (lr_agent_id l) \<and>
       (\<forall>b \<in> set (db_leases s). lr_status b = Active \<and> lr_job_id b = lr_job_id l \<longrightarrow> b = l))" if G: "lr_job_id l \<in> G"
  proof -
    from inv assms(3) G obtain j where j: "j \<in> set (db_jobs s)" "jb_id j = lr_job_id l" by (auto simp: attempt_inv_on_def)
    with G have jG: "jb_id j \<in> G" by simp
    note a = attempt_inv_job [OF inv assms(3) j jG]
    have "b = l" if act: "lr_status l = Active" and b: "b \<in> set (db_leases s)" "lr_status b = Active" "lr_job_id b = lr_job_id l" for b
    proof -
      have "lr_attempt_token b = lr_attempt_token l" using attempt_inv_job(2) [OF inv b(1) j(1) _ jG] a(2) act b j by simp
      moreover have "inj_on (\<lambda>l. (lr_job_id l, lr_attempt_token l)) (set (db_leases s))" using lk by (simp add: lease_inv_def distinct_map)
      ultimately show ?thesis
        using inj_onD [of "\<lambda>l. (lr_job_id l, lr_attempt_token l)" "set (db_leases s)" b l] assms(3) b by simp
    qed
    with a j show ?thesis by (intro bexI [OF _ j(1)]) blast
  qed
  with one show ?thesis by blast
qed



theorem active_lease_is_current_attempt_witness:
  "\<exists>s l j. (runtime_step ctx_H UNIV)\<^sup>*\<^sup>* (0, work_db) (8, s) \<and> l \<in> set (db_leases s) \<and> lr_status l = Active \<and>
     j \<in> set (db_jobs s) \<and> jb_status j = ''running'' \<and> jb_attempt_count j = lr_attempt_token l"
proof -
  obtain s where s: "runtime_step ctx_H UNIV (0, work_db) (8, s)" "work_start (0, work_db)" "db_leases s = [work_lease]"
    using work_run by blast
  then have run: "(runtime_step ctx_H UNIV)\<^sup>*\<^sup>* (0, work_db) (8, s)" by blast
  have l: "work_lease \<in> set (db_leases s)" "lr_status work_lease = Active" using s by (simp_all add: work_lease_def)
  from active_lease_is_current_attempt [OF s(2) run l(1)] l run show ?thesis by blast
qed

lemma sample_run_work_ok: "work_ok sample_run"
proof -
  have "attempt_inv (snd sample_run)"
    by (simp add: attempt_inv_on_def sample_run_def sample_db_def sample_job_def sample_row_def)
  then show ?thesis using sample_run_ok by (simp add: work_ok_on_def)
qed



section \<open>Fencing\<close>

text \<open>
  C3: a report changes the job of a managed attempt only when it names the current attempt together
  with its active, unexpired lease held by the reporting agent; that lease is then released. A report
  of an earlier attempt, or one after the lease ran out, leaves the job as it is.
\<close>

theorem report_needs_live_lease:
  assumes "report_job_result H env a s0 s = Inr (y, s')" "work_ok (now, s)" "now \<le> re_release_now env"
    and "find_job s (ra_job_id a) = Some c" "attempt_has_any_lease s (ra_job_id a) (jb_attempt_count c)"
    and "find_job s' (ra_job_id a) \<noteq> Some c"
  shows "\<exists>i l l'. ra_attempt_token a = Some (jb_attempt_count c) \<and> ra_lease_id a = Some i \<and> find_lease s i = Some l \<and>
    lr_job_id l = ra_job_id a \<and> lr_attempt_token l = jb_attempt_count c \<and> lr_agent_id l = ra_agent_id a \<and>
    active_unexpired (re_lease_now env) l \<and> find_lease s' i = Some l' \<and> lr_status l' = Released"
proof -
  from assms(1) consider (replay) result job where "replay_terminal_result H (re_event env) a result job s = Inr (y, s')"
    | (late) result usage job where "accept_late_result H env a result usage job s = Inr (y, s')"
    | (now) result usage job where "report_terminal_tx H env a result usage job s = Inr (y, s')"
    by (auto simp: report_job_result_def split: if_splits)
  then show ?thesis
  proof cases
    case replay
    then have "same_work s s'" by (auto simp: replay_terminal_result_def dest: replayed_same)
    with assms(4,6) show ?thesis by (simp add: find_job_same)
  next
    case late
    note g = get_job_Inr [THEN iffD2, OF assms(4)]
    from late [unfolded accept_late_result_def g bindE_simps if_P [OF assms(5)]] show ?thesis by (auto split: if_splits)
  next
    case now
    from report_terminal_Inr [OF now] obtain d x s2 where d: "find_job s (ra_job_id a) = Some d" and
      m: "require_mutation_authority H (re_lease_now env) s (jb_attempt_count d) (ra_attempt_token a) (ra_job_id a) (ra_agent_id a)
        (ra_lease_id a) = Inr x" and
      rel: "case (ra_lease_id a, ra_attempt_token a) of
       (Some lid, Some token) \<Rightarrow> \<exists>l. release_attempt_lease H (re_release_now env) (PyStr lid) (ra_job_id a) (PyInt token) (ra_agent_id a)
         (PyStr (''job_'' @ ra_status a)) (s\<lparr>db_jobs := ended_jobs env a result s\<rparr>) = Inr (l, s2)
       | _ \<Rightarrow> s2 = s\<lparr>db_jobs := ended_jobs env a result s\<rparr>" and same: "same_work s2 s'" by blast
    from d assms(4) have "d = c" by simp
    with require_authority_Inr [OF m] assms(5) obtain i l where l: "ra_attempt_token a = Some (jb_attempt_count c)"
      "ra_lease_id a = Some i" "find_lease s i = Some l" "lr_job_id l = ra_job_id a" "lr_attempt_token l = jb_attempt_count c"
      "lr_agent_id l = ra_agent_id a" "active_unexpired (re_lease_now env) l" by blast
    with rel obtain l' where "release_attempt_lease H (re_release_now env) (PyStr i) (ra_job_id a) (PyInt (jb_attempt_count c)) (ra_agent_id a)
         (PyStr (''job_'' @ ra_status a)) (s\<lparr>db_jobs := ended_jobs env a result s\<rparr>) = Inr (l', s2)" by auto
    from release_in_report [OF assms(2,3) this] have "find_lease s2 i = Some l'" "lr_status l' = Released" by blast+
    with same have "find_lease s' i = Some l'" by (simp add: same_work_def find_lease_def)
    with l \<open>lr_status l' = Released\<close> show ?thesis by blast
  qed
qed

definition sample_report :: report_args where
  "sample_report = \<lparr>ra_job_id = ''j1'', ra_agent_id = ''a1'', ra_status = ''done'', ra_result = [], ra_actor = None,
     ra_attempt_token = Some 1, ra_lease_id = Some ''l1''\<rparr>"

definition sample_report_env :: report_env where
  "sample_report_env = \<lparr>re_now = 20, re_lease_now = 20, re_release_now = 21,
     re_terminal = \<lparr>te_terminal = (''e1'', 21), te_reported = (''e2'', 21), te_review = (''e3'', 21), te_delivery = (''d1'', 21)\<rparr>,
     re_event = (''e4'', 21), re_warning = (''e5'', 21)\<rparr>"

definition report_outcome_of :: "db \<Rightarrow> (string \<times> lease_status) option" where
  "report_outcome_of s = (case report_job_result ctx_H sample_report_env sample_report s s of
     Inr (y, t) \<Rightarrow> (case (find_job t ''j1'', find_lease t ''l1'') of (Some j, Some l) \<Rightarrow> Some (jb_status j, lr_status l) | _ \<Rightarrow> None)
   | _ \<Rightarrow> None)"

lemma sample_reported: "report_outcome_of (snd sample_run) = Some (''done'', Released)"
  by code_simp

theorem report_needs_live_lease_witness:
  "\<exists>y s'. report_job_result ctx_H sample_report_env sample_report (snd sample_run) (snd sample_run) = Inr (y, s') \<and>
     (\<exists>l'. find_lease s' ''l1'' = Some l' \<and> lr_status l' = Released)"
proof -
  from sample_reported obtain y s' j where r:
    "report_job_result ctx_H sample_report_env sample_report (snd sample_run) (snd sample_run) = Inr (y, s')"
    "find_job s' ''j1'' = Some j" "jb_status j = ''done''"
    by (auto simp: report_outcome_of_def split: sum.splits option.splits)
  have j: "find_job (snd sample_run) (ra_job_id sample_report) = Some sample_job" "jb_status sample_job = ''running''"
    "attempt_has_any_lease (snd sample_run) (ra_job_id sample_report) (jb_attempt_count sample_job)"
    by (simp_all add: sample_run_def find_job_def sample_db_def sample_job_def sample_report_def attempt_has_any_lease_def sample_row_def)
  have ne: "find_job s' (ra_job_id sample_report) \<noteq> Some sample_job" using r j(2) by (auto simp: sample_report_def)
  have ok: "work_ok (8, snd sample_run)" "(8::nat) \<le> re_release_now sample_report_env"
    using sample_run_work_ok by (simp_all add: sample_run_def sample_report_env_def)
  have "ra_lease_id sample_report = Some ''l1''" by (simp add: sample_report_def)
  with report_needs_live_lease [OF r(1) ok j(1,3) ne] r(1) show ?thesis by auto
qed

lemma sorted_split_before:
  assumes "sorted (map f (before @ j # after))" "x \<in> set (before @ j # after)" "f x < f j"
  shows "x \<in> set before"
  using assms by (auto simp: sorted_append)

text \<open>
  C24: a claim selects a job that is assigned to the agent and is pending, or timed out and
  recoverable when the claim asks for recoverable jobs; it is valid for the agent and the host and no active lease holds
  its worktree. Every such job of the agent that was created before it, by creation time and then by id, is valid too and
  blocked by an active lease on its worktree, there are fewer than 256 of them, and the
  agent has fewer unexpired active leases than the capacity of its policy.
\<close>

theorem claim_selects_oldest_free:
  assumes "select_claim_candidate H now s agent host rec = Inr (Selected j a)"
  shows "let open_to = (\<lambda>b. jb_assigned_agent b = Some agent \<and>
           (jb_status b = ''pending'' \<or> rec \<and> jb_status b = ''timed_out'' \<and> jb_recoverable b));
         earlier = (\<lambda>b. jb_created_at b < jb_created_at j \<or> jb_created_at b = jb_created_at j \<and> jb_id b < jb_id j) in
    j \<in> set (db_jobs s) \<and> open_to j \<and>
    validate_claim_authority H s j agent host = Inr a \<and> find_active_resource_lease H s (au_resource_key a) = Inr None \<and>
    (\<forall>b \<in> set (db_jobs s). open_to b \<and> earlier b \<longrightarrow> (\<exists>x l. validate_claim_authority H s b agent host = Inr x \<and>
       find_active_resource_lease H s (au_resource_key x) = Inr (Some l))) \<and>
    length (filter (\<lambda>b. open_to b \<and> earlier b) (db_jobs s)) < 256 \<and>
    (\<exists>policy n. resolve_capacity_policy s agent = Some policy \<and> count_active_leases_for_agent H now s agent = Inr n \<and>
       int n < cp_max_concurrent_jobs policy)"
proof -
  let ?open = "claimable rec agent" and ?key = "\<lambda>b. (jb_created_at b, jb_id b)"
  from assms obtain policy n where p: "resolve_capacity_policy s agent = Some policy" "count_active_leases_for_agent H now s agent = Inr n"
    "int n < cp_max_concurrent_jobs policy"
    by (auto simp: select_claim_candidate_def Let_def not_le split: if_splits option.splits)
  from select_selected [OF assms] obtain before after where q: "claim_queue rec agent s = before @ j # after"
    "length before < LEASE_CLAIM_SCAN_LIMIT" "validate_claim_authority H s j agent host = Inr a"
    "find_active_resource_lease H s (au_resource_key a) = Inr None"
    "\<forall>b \<in> set before. \<exists>x l. validate_claim_authority H s b agent host = Inr x \<and>
       find_active_resource_lease H s (au_resource_key x) = Inr (Some l)" by blast
  have so: "sorted (map ?key (before @ j # after))" unfolding q(1) [symmetric] claim_queue_def by simp
  have ms: "mset (before @ j # after) = mset (filter ?open (db_jobs s))" unfolding q(1) [symmetric] claim_queue_def by simp
  from mset_eq_setD [OF ms] have st: "set (before @ j # after) = {b \<in> set (db_jobs s). ?open b}" by simp
  have early: "?key b < ?key j \<longleftrightarrow> jb_created_at b < jb_created_at j \<or> jb_created_at b = jb_created_at j \<and> jb_id b < jb_id j" for b
    by auto
  have j: "j \<in> set (db_jobs s)" "?open j" using st by auto
  have bef: "b \<in> set before" if "b \<in> set (db_jobs s)" "?open b" "?key b < ?key j" for b
  proof -
    from that st have "b \<in> set (before @ j # after)" by simp
    from sorted_split_before [OF so this that(3)] show ?thesis .
  qed
  have "mset (filter (\<lambda>b. ?key b < ?key j) (before @ j # after)) = mset (filter (\<lambda>b. ?key b < ?key j) (filter ?open (db_jobs s)))"
    using ms by (metis mset_filter)
  from mset_eq_length [OF this]
  have "length (filter (\<lambda>b. ?key b < ?key j) (filter ?open (db_jobs s))) = length (filter (\<lambda>b. ?key b < ?key j) (before @ j # after))"
    by (rule sym)
  moreover have "filter (\<lambda>b. ?key b < ?key j) after = []"
    using so by (auto simp: sorted_append filter_empty_conv)
  ultimately have "length (filter (\<lambda>b. ?key b < ?key j) (filter ?open (db_jobs s))) \<le> length before"
    by (simp add: length_filter_le)
  then have len: "length (filter (\<lambda>b. ?open b \<and> ?key b < ?key j) (db_jobs s)) < 256"
    using q(2) by (simp add: LEASE_CLAIM_SCAN_LIMIT_def conj_commute)
  have pol: "\<exists>policy n. resolve_capacity_policy s agent = Some policy \<and> count_active_leases_for_agent H now s agent = Inr n \<and>
       int n < cp_max_concurrent_jobs policy" using p by blast
  show ?thesis
    unfolding Let_def early [symmetric] claimable_def [symmetric]
  proof (intro conjI ballI impI)
    fix b assume b: "b \<in> set (db_jobs s)" "?open b \<and> ?key b < ?key j"
    with bef q(5) show "\<exists>x l. validate_claim_authority H s b agent host = Inr x \<and>
       find_active_resource_lease H s (au_resource_key x) = Inr (Some l)" by blast
  qed (rule j q(3) q(4) len pol)+
qed

theorem claim_selects_oldest_free_witness:
  "validate_claim_authority ctx_H work_db work_job ''a'' ''h1'' = Inr work_auth \<and> jb_assigned_agent work_job = Some ''a'' \<and>
     find_active_resource_lease ctx_H work_db (au_resource_key work_auth) = Inr None"
  using claim_selects_oldest_free [OF work_selected] unfolding Let_def by blast


section \<open>Recovery\<close>




lemma append_with_ids:
  "append_with u k e s = Inr (x, s') \<Longrightarrow> ev_id ` set (db_events s') \<subseteq> insert (fst u) (ev_id ` set (db_events s))"
  by (cases x) (auto simp: append_with_def append_event_cases event_of_def)

lemma lease_checks_expire: "lease_checks l \<Longrightarrow> lr_status l = Active \<Longrightarrow>
    lease_checks (l\<lparr>lr_status := Expired, lr_renewed_at := lr_expires_at l\<rparr>)"
  by (auto simp: lease_checks_def)

lemma workspace_fk_cong: "db_workspaces s' = db_workspaces s \<Longrightarrow> workspace_fk s' w = workspace_fk s w"
  by (simp add: workspace_fk_def workspace_exists_def get_workspace_def split: option.split)

text \<open>The expiry of a due lease, when the code reaches it, cannot fail.\<close>

lemma reap_one_total:
  assumes ok: "work_ok (now, s)" and l: "l \<in> set (db_leases s)" "due t l" "validate_stored_resource H l = Inr ()"
    and ws: "\<forall>j \<in> set (db_jobs s). workspace_fk s (jb_workspace_id j)"
    and f: "fst u1 \<noteq> fst u2" "fst u1 \<notin> ev_id ` set (db_events s)" "fst u2 \<notin> ev_id ` set (db_events s)"
  shows "\<exists>j s'. find_job s (lr_job_id l) = Some j \<and> jb_status j = ''running'' \<and> jb_attempt_count j = lr_attempt_token l \<and>
    reap_one_lease H u1 u2 t actor l s = Inr (Some l, s') \<and>
    db_leases s' = update_where (\<lambda>x. lr_lease_id x = lr_lease_id l) (\<lambda>l. l\<lparr>lr_status := Expired, lr_renewed_at := lr_expires_at l\<rparr>) (db_leases s) \<and>
    db_jobs s' = update_where (running_attempt (lr_job_id l) (lr_attempt_token l)) (time_out_job t (expiry_result t j)) (db_jobs s) \<and>
    db_workspaces s' = db_workspaces s \<and> ev_id ` set (db_events s') \<subseteq> {fst u1, fst u2} \<union> ev_id ` set (db_events s)"
proof -
  from ok have lk: "lease_inv now s" and inv: "attempt_inv s" by (simp_all add: work_ok_on_def lease_ok_def)
  have fl: "find_lease s (lr_lease_id l) = Some l"
    using lk l(1) unfolding find_lease_def lease_inv_def by (simp add: find_key_iff)
  have st: "lr_status l = Active" "lr_expires_at l \<le> t" using l(2) by (simp_all add: due_def)
  from inv l(1) obtain j where jin: "j \<in> set (db_jobs s)" "jb_id j = lr_job_id l" by (auto simp: attempt_inv_on_def)
  note a = attempt_inv_job(2) [OF inv l(1) jin UNIV_I st(1)]
  have j: "find_job s (lr_job_id l) = Some j" using inv jin by (simp add: attempt_inv_on_def find_job_iff)
  let ?e = "\<lambda>l. l\<lparr>lr_status := Expired, lr_renewed_at := lr_expires_at l\<rparr>"
  let ?s1 = "s\<lparr>db_leases := update_where (\<lambda>x. lr_lease_id x = lr_lease_id l) ?e (db_leases s)\<rparr>"
  let ?s2 = "?s1\<lparr>db_jobs := update_where (running_attempt (lr_job_id l) (lr_attempt_token l)) (time_out_job t (expiry_result t j)) (db_jobs ?s1)\<rparr>"
  have one: "x = l" if "x \<in> set (db_leases s)" "lr_lease_id x = lr_lease_id l" for x
    using unique_lease_id [OF lk fl that] .
  have "lease_checks l" using lk l(1) by (simp add: lease_inv_def)
  then have u: "update_leases (\<lambda>x. lr_lease_id x = lr_lease_id l) ?e s = Inr ?s1"
    using one st lease_checks_expire unfolding update_leases_Inr by blast
  have rc: "\<not> rowcount (running_attempt (lr_job_id l) (lr_attempt_token l)) (db_jobs ?s1) = 0"
    using jin a by (auto simp: rowcount_0_iff running_attempt_def)
  have w: "workspace_fk ?s2 (jb_workspace_id j)" using ws jin(1) workspace_fk_cong [of ?s2 s] by simp
  have f2: "fst u1 \<notin> ev_id ` set (db_events ?s2)" using f(2) by simp
  obtain x s3 where e1: "append_with u1 (lease_expired_key (lr_lease_id l)) (job_event ''execution_lease.expired'' actor (Some (lr_agent_id l)) j
                 [(''lease_id'', PyStr (lr_lease_id l)), (''job_id'', PyStr (lr_job_id l)), (''attempt_token'', PyInt (lr_attempt_token l)),
                  (''expires_at'', PyStr (iso_of (lr_expires_at l))), (''reaped_at'', PyStr (iso_of t)),
                  (''resource_key'', PyStr (lr_resource_key l))]) ?s2 = Inr (x, s3)"
    using append_with_total [OF f2 w] by blast
  have sm: "same_work ?s2 s3" by (rule append_with_same [OF e1])
  have ids: "ev_id ` set (db_events s3) \<subseteq> insert (fst u1) (ev_id ` set (db_events s))" using append_with_ids [OF e1] by simp
  have "fst u2 \<notin> ev_id ` set (db_events s3)" using ids f by auto
  moreover have "workspace_fk s3 (jb_workspace_id j)" using w sm workspace_fk_cong [of s3 ?s2] by (simp add: same_work_def)
  ultimately obtain y s4 where e2: "append_with u2 (job_expired_key (lr_job_id l)) (job_event ''job.timed_out'' actor (Some (lr_agent_id l)) j
                 [(''job_id'', PyStr (lr_job_id l)), (''agent_id'', PyStr (lr_agent_id l)), (''status'', PyStr ''timed_out''),
                  (''reason'', PyStr ''execution_lease_expired''), (''lease_id'', PyStr (lr_lease_id l)), (''timeout'', expiry_timeout t j)]) s3 = Inr (y, s4)"
    using append_with_total [of u2 s3 j] by blast
  have ok3: "\<not> (jb_status j \<noteq> ''running'' \<or> jb_attempt_count j \<noteq> lr_attempt_token l \<or> jb_assigned_agent j \<noteq> Some (lr_agent_id l))"
    using a by simp
  have ex: "expire_revalidated_lease u1 u2 t actor l s = Inr (l, s4)"
    unfolding expire_revalidated_lease_def Let_def get_job_Inr [THEN iffD2, OF j] bindE_simps if_not_P [OF ok3] u if_not_P [OF rc] e1 prod.case e2 ..
  have "require_active_lease_for_reap H t (lr_lease_id l) (lr_job_id l) (lr_attempt_token l) (lr_agent_id l) s = Inr l"
    using fl l(3) st by (simp add: require_reap_Inr)
  with ex have r: "reap_one_lease H u1 u2 t actor l s = Inr (Some l, s4)" by (simp add: reap_one_lease_def)
  have sm2: "same_work ?s2 s4" using sm append_with_same [OF e2] by (rule same_work_trans)
  have "ev_id ` set (db_events s4) \<subseteq> {fst u1, fst u2} \<union> ev_id ` set (db_events s)" using append_with_ids [OF e2] ids by auto
  with r sm2 j a show ?thesis by (intro exI [of _ j] exI [of _ s4]) (simp add: same_work_def)
qed






section \<open>What later attempts lose\<close>

lemma expire_revalidated_events:
  assumes "expire_revalidated_lease u1 u2 t actor cur s = Inr (l, s')"
    and "get_event_by_idempotency_key s (job_expired_key (lr_job_id cur)) = Some e"
  shows "\<exists>es. db_events s' = db_events s @ es \<and> (\<forall>x \<in> set es. ev_event_type x = ''execution_lease.expired'')"
proof -
  from assms(1) obtain j where j: "find_job s (lr_job_id cur) = Some j"
    by (auto simp: expire_revalidated_lease_def Let_def get_job_Inr)
  note g = get_job_Inr [THEN iffD2, OF j]
  from assms(1) [unfolded expire_revalidated_lease_def Let_def g bindE_simps] obtain s1 where
    s1: "update_leases (\<lambda>l. lr_lease_id l = lr_lease_id cur) (\<lambda>l. l\<lparr>lr_status := Expired, lr_renewed_at := lr_expires_at l\<rparr>) s = Inr s1"
    by (auto split: if_splits)
  let ?s2 = "s1\<lparr>db_jobs := update_where (running_attempt (lr_job_id cur) (lr_attempt_token cur))
      (time_out_job t (expiry_result t j)) (db_jobs s1)\<rparr>"
  from assms(1) [unfolded expire_revalidated_lease_def Let_def g bindE_simps s1] obtain k p c x s3 p2 d y where
    a: "append_with u1 k (job_event ''execution_lease.expired'' actor c j p) ?s2 = Inr (x, s3)" and
    b: "append_with u2 (job_expired_key (lr_job_id cur)) (job_event ''job.timed_out'' actor d j p2) s3 = Inr (y, s')"
    by (auto split: if_splits)
  define s2 where "s2 = ?s2"
  note a = a [folded s2_def]
  have s2: "db_events s2 = db_events s" using s1 by (simp add: s2_def update_leases_Inr)
  obtain x1 x2 where x: "x = (x1, x2)" by (cases x)
  obtain y1 y2 where y: "y = (y1, y2)" by (cases y)
  note A = a [unfolded append_with_def x]
  have "get_event_by_idempotency_key s2 k' = get_event_by_idempotency_key s k'" for k'
    by (simp add: get_event_by_idempotency_key_def s2)
  with append_event_keeps [OF A] assms(2) have old: "get_event_by_idempotency_key s3 (job_expired_key (lr_job_id cur)) = Some e" by simp
  have "job_expired_key (lr_job_id cur) \<noteq> []" by (simp add: job_expired_key_def)
  then have key: "event_key v (Some (job_expired_key (lr_job_id cur))) = job_expired_key (lr_job_id cur)" for v
    by (simp add: event_key_def)
  from old have "job_expired_key (lr_job_id cur) \<in> ev_idempotency_key ` set (db_events s3)"
    by (metis event_by_key_None option.distinct(1))
  with b [unfolded append_with_def y append_event_cases key] have "s' = s3" by auto
  with A [unfolded append_event_cases] s2 show ?thesis by (auto simp: event_of_def job_event_def)
qed

text \<open>
  The second expiry of a lease of the same job leaves no trace of the time-out: its key names the
  job but not the attempt, so when an earlier attempt timed out in this way, the sweep sets the job
  timed out again and appends only the event of the lease.
\<close>

theorem second_timeout_unlogged:
  assumes "reap_one_lease H u1 u2 t actor lease s = Inr (Some l, s')"
    and "get_event_by_idempotency_key s (job_expired_key (lr_job_id lease)) = Some e"
  shows "filter (\<lambda>x. ev_event_type x = ''job.timed_out'') (db_events s') = filter (\<lambda>x. ev_event_type x = ''job.timed_out'') (db_events s)"
proof -
  from assms(1) obtain cur where c: "require_active_lease_for_reap H t (lr_lease_id lease) (lr_job_id lease) (lr_attempt_token lease)
      (lr_agent_id lease) s = Inr cur" "expire_revalidated_lease u1 u2 t actor cur s = Inr (l, s')"
    by (auto simp: reap_one_lease_def split: sum.splits if_splits)
  from c(1) have "lr_job_id cur = lr_job_id lease" by (simp add: require_reap_Inr)
  with expire_revalidated_events [OF c(2)] assms(2) show ?thesis by (auto simp: filter_empty_conv)
qed

definition timed_out_before :: event_row where
  "timed_out_before = \<lparr>ev_id = ''e0'', ev_workspace_id = Some ''w1'', ev_event_type = ''job.timed_out'', ev_actor = ''runtime'',
     ev_target = Some ''a1'', ev_task_id = None, ev_causation_id = None, ev_idempotency_key = job_expired_key ''j1'',
     ev_payload = PyDict [], ev_created_at = 1\<rparr>"

theorem second_timeout_unlogged_witness:
  "\<exists>s'. reap_one_lease ctx_H (''e1'', 50) (''e2'', 50) 50 ''runtime'' sample_row ((snd sample_run)\<lparr>db_events := [timed_out_before]\<rparr>)
       = Inr (Some sample_row, s') \<and>
     length (filter (\<lambda>x. ev_event_type x = ''job.timed_out'') (db_events s')) = 1"
proof -
  let ?s = "(snd sample_run)\<lparr>db_events := [timed_out_before]\<rparr>"
  have "work_ok (50, snd sample_run)"
    using work_ok_same [OF _ same_work_refl, of UNIV 8 "snd sample_run" 50] sample_run_work_ok by (simp add: sample_run_def)
  then have ok: "work_ok (50, ?s)" by (rule work_ok_cong) simp_all
  have l: "sample_row \<in> set (db_leases ?s)" "due 50 sample_row" by (simp_all add: sample_run_def due_def sample_row_def)
  have v: "validate_stored_resource ctx_H sample_row = Inr ()" by code_simp
  have w: "\<forall>j \<in> set (db_jobs ?s). workspace_fk ?s (jb_workspace_id j)"
    by (simp add: sample_run_def sample_db_def sample_job_def workspace_fk_def workspace_exists_def get_workspace_def sample_ws_def)
  obtain s' where r: "reap_one_lease ctx_H (''e1'', 50) (''e2'', 50) 50 ''runtime'' sample_row ?s = Inr (Some sample_row, s')"
    using reap_one_total [OF ok l v w, of "(''e1'', 50)" "(''e2'', 50)" "''runtime''"] by (auto simp: timed_out_before_def)
  have e: "get_event_by_idempotency_key ?s (job_expired_key (lr_job_id sample_row)) = Some timed_out_before"
    by (simp add: get_event_by_idempotency_key_def timed_out_before_def sample_row_def)
  from second_timeout_unlogged [OF r e] have "filter (\<lambda>x. ev_event_type x = ''job.timed_out'') (db_events s') = [timed_out_before]"
    by (simp add: timed_out_before_def)
  with r show ?thesis by simp
qed


lemma parse_build: 
  assumes "parse_execution_lease (build_lease_envelope l) = Inr x"
  shows "x = l"
  using assms
  by (cases l) (auto simp: parse_execution_lease_def build_lease_envelope_def bindE_eq_Inr Let_def env_iffs split: if_splits)

lemma parsed_interval:
  assumes "parse_execution_lease (build_lease_envelope l) = Inr x" "el_acquired_at l = iso_of a" "el_expires_at l = iso_of e"
    "in_calendar a" "in_calendar e"
  shows "el_renew_interval_seconds l < el_ttl_seconds l \<and> int e = int a + el_ttl_seconds l"
  using parse_sound [OF assms(1)] parse_build [OF assms(1)] assms(2-5) by (auto simp: wf_lease_def parse_iso_of)

text \<open>
  The shortest time to live that a claim accepts, 30 seconds, is the interval at which the
  executor is told to renew, and its parser wants the interval to be smaller: the envelope of such a
  claim is always rejected, with the job already running.
\<close>

theorem shortest_claim_unusable:
  assumes "claim_leased_job H env agent_v host_v rec (PyInt 30) actor_v reason stopped mode reap_v rid digest s = Inr (Claimed r s')"
  shows "\<not> is_ok (parse_execution_lease (cr_execution_lease r))"
proof -
  from assms obtain rr agent host actor recovery ttl where t: "validate_ttl (PyInt 30) = Inr ttl" and h: "bindE (if rr = None
            then bindE (find_due_active_leases H s (cl_now env) LEASE_REAP_BATCH_SIZE) (\<lambda>due.
                   reap_in_claim H (cl_reap env) (cl_now env) actor due s)
            else Inr ([], s)) (\<lambda>(reaped, s1).
     bindE (select_claim_candidate H (cl_count_now env) s1 agent host rec) (\<lambda>selection.
     case selection of
       NoJob reason oldest \<Rightarrow> Inr (NotClaimed reason oldest)
     | Selected j a \<Rightarrow>
         bindE (take_selected H env agent host ttl recovery rr rid digest j a s1) (\<lambda>(r, s'). Inr (Claimed r s')))) = Inr (Claimed r s')"
    unfolding claim_leased_job_def bindE_eq_Inr by blast
  from h obtain s1 j a where "take_selected H env agent host ttl recovery rr rid digest j a s1 = Inr (r, s')"
    by (auto split: selection.splits)
  then obtain l where "cr_execution_lease r = build_lease_envelope (claim_lease_of l (au_context a) (cl_server_now env) ttl)"
    by (auto simp: take_selected_def Let_def split: if_splits)
  moreover from t have "ttl = 30" by (simp add: validate_ttl_Inr)
  ultimately show ?thesis
    using parse_sound [of "cr_execution_lease r"] parse_build [of "claim_lease_of l (au_context a) (cl_server_now env) ttl"]
    by (auto simp: is_ok_iff wf_lease_def claim_lease_of_def LEASE_DEFAULT_RENEW_INTERVAL_SECONDS_def)
qed

theorem shortest_claim_unusable_witness:
  "\<exists>r s'. claim_leased_job ctx_H work_env (PyStr ''a'') (PyStr ''h1'') False (PyInt 30) (PyStr ''a'') PyNone PyNone
     (PyStr ''global'') PyNone None None work_db = Inr (Claimed r s') \<and> \<not> is_ok (parse_execution_lease (cr_execution_lease r))"
  using work_claimed shortest_claim_unusable by blast

text \<open>
  The replay of a claim whose lease was renewed in between tells the time to live of the claim with
  the expiry of the renewal: the envelope no longer fits together and the executor rejects it.
\<close>

theorem replay_after_renewal_rejected:
  assumes "replay_lease H now server_now s (PyStr lid) j token ttl agent host = Inr envelope" "find_lease s lid = Some l" "lid \<noteq> []"
    and "int (lr_expires_at l) \<noteq> int (lr_acquired_at l) + ttl" "in_calendar (lr_acquired_at l)" "in_calendar (lr_expires_at l)"
  shows "\<not> is_ok (parse_execution_lease envelope)"
proof -
  from assms(1,3) obtain l' where q: "require_active_unexpired_lease H now s (PyStr lid) (jb_id j) (PyInt token) agent = Inr l'"
    "envelope = build_lease_envelope (replay_lease_of l' server_now ttl)"
    by (auto simp: replay_lease_def or_str_def split: if_splits option.splits)
  then have "l' = l" using assms(2) unfolding require_lease_Inr by auto
  with q(2) assms(4-6) parsed_interval [of "replay_lease_of l server_now ttl" _ "lr_acquired_at l" "lr_expires_at l"] show ?thesis
    by (auto simp: is_ok_iff replay_lease_of_def)
qed

definition renewed_lease :: lease_row where
  "renewed_lease = sample_row\<lparr>lr_acquired_at := 100000, lr_renewed_at := 100020, lr_expires_at := 100060\<rparr>"

theorem replay_after_renewal_rejected_witness:
  "\<exists>e. replay_lease ctx_H 100030 100031 (sample_db\<lparr>db_leases := [renewed_lease]\<rparr>) (PyStr ''l1'') sample_job 1 40 ''a1'' ''h1'' = Inr e \<and>
     \<not> is_ok (parse_execution_lease e)"
proof -
  let ?s = "sample_db\<lparr>db_leases := [renewed_lease]\<rparr>"
  have f: "find_lease ?s ''l1'' = Some renewed_lease" by (simp add: find_lease_def renewed_lease_def sample_row_def)
  have "validate_stored_resource ctx_H sample_row = Inr ()" by code_simp
  then have v: "validate_stored_resource ctx_H renewed_lease = Inr ()" by (simp add: validate_stored_resource_def renewed_lease_def)
  have l: "lr_host_id renewed_lease = ''h1''" "lr_acquired_at renewed_lease = 100000" "lr_expires_at renewed_lease = 100060" "jb_id sample_job = ''j1''"
    "lr_status renewed_lease = Active" "lr_job_id renewed_lease = ''j1''" "lr_attempt_token renewed_lease = 1" "lr_agent_id renewed_lease = ''a1''"
    by (simp_all add: renewed_lease_def sample_row_def sample_job_def)
  have q: "require_active_unexpired_lease ctx_H 100030 ?s (PyStr ''l1'') ''j1'' (PyInt 1) ''a1'' = Inr renewed_lease"
    unfolding require_lease_Inr using f v l by (intro exI [of _ "''l1''"] exI [of _ "1::int"] conjI) simp_all
  have r: "replay_lease ctx_H 100030 100031 ?s (PyStr ''l1'') sample_job 1 40 ''a1'' ''h1'' = Inr (build_lease_envelope (replay_lease_of renewed_lease 100031 40))"
    using q l by (simp add: replay_lease_def or_str_def)
  have c: "in_calendar 100000" "in_calendar 100060" by (simp_all add: in_calendar_def)
  show ?thesis using replay_after_renewal_rejected [OF r f] l c r by auto
qed

lemma replay_request_replayed: "replay_request H now t s request agent host = Inr (Some r) \<Longrightarrow> cy_replayed r"
  by (auto simp: replay_request_def replay_claim_request_def claimed_reply_def split: option.splits if_splits)

text \<open>
  A legacy claim takes a job whose status is as it was read, at the attempt after the one that was
  read. When the job was claimed and timed out again in between, the new attempt gets a token that was
  given before.
\<close>

theorem legacy_claim_reuses_token:
  assumes "claim_legacy_tx H env a agent host request j ctx s = Inr (y, s')" "cy_claimed y" "\<not> cy_replayed y"
    and "find_job s (jb_id j) = Some c" "jb_status c = jb_status j" "jb_attempt_count j < jb_attempt_count c"
  shows "\<exists>c'. find_job s' (jb_id j) = Some c' \<and> jb_status c' = ''running'' \<and> cy_attempt_token y = Some (jb_attempt_count c') \<and>
    jb_attempt_count c' \<le> jb_attempt_count c"
proof -
  let ?here = "\<lambda>x. jb_id x = jb_id j \<and> jb_status x = jb_status j"
  let ?f = "claim_job_row (cl_now env) (jb_attempt_count j + 1) (dset ''execution_context'' (to_dict ctx) (job_payload j))"
  let ?s1 = "s\<lparr>db_jobs := update_where ?here ?f (db_jobs s)\<rparr>"
  from assms(1) obtain again where rep: "replay_request H (cl_now env) (cl_server_now env) s request agent host = Inr again"
    by (auto simp: claim_legacy_tx_def)
  have none: "again = None"
  proof (cases again)
    case (Some r)
    with rep replay_request_replayed have "cy_replayed r" by blast
    moreover from Some rep assms(1) have "y = r" by (simp add: claim_legacy_tx_def)
    ultimately show ?thesis using assms(3) by simp
  qed simp
  from assms(1,2) rep none obtain x k e s2 s3 d where a: "append_with (cl_claimed env) k e ?s1 = Inr (x, s2)"
     "append_claim_request_marker H (cl_marker env) (map_option fst request) (map_option snd request) j agent
        (jb_attempt_count j + 1) None (ca_ttl a) s2 = Inr s3" "s' = s3" "get_job s3 (jb_id j) = Inr d"
        "y = claimed_reply d (jb_attempt_count d) ctx PyNone False"
    by (auto simp: claim_legacy_tx_def Let_def not_claimed_def split: option.splits if_splits)
  have "same_work ?s1 s'" using a append_with_same marker_same same_work_trans by blast
  then have "find_job s' (jb_id j) = find_job ?s1 (jb_id j)" by (simp add: find_job_same)
  also have "\<dots> = map_option (\<lambda>x. if ?here x then ?f x else x) (find_job s (jb_id j))"
    by (simp add: find_job_def find_update_where_id [of jb_id] claim_job_row_def)
  finally have "find_job s' (jb_id j) = Some (?f c)" using assms(4,5) find_job_id [OF assms(4)] by simp
  moreover from this a(3,4) have "d = ?f c" by (simp add: get_job_Inr)
  ultimately show ?thesis using a(5) assms(6) by (simp add: claimed_reply_def claim_job_row_def)
qed

definition stale_job :: job_row where
  "stale_job = work_job\<lparr>jb_status := ''timed_out'', jb_recoverable := True, jb_attempt_count := 1\<rparr>"

definition retried_db :: db where
  "retried_db = work_db\<lparr>db_jobs := [stale_job\<lparr>jb_attempt_count := 2\<rparr>]\<rparr>"

theorem legacy_claim_reuses_token_witness:
  "\<exists>y s'. claim_legacy_tx ctx_H work_env work_args ''a'' ''h1'' None stale_job work_context retried_db = Inr (y, s') \<and>
     cy_attempt_token y = Some 2 \<and> find_job retried_db ''j1'' = Some (stale_job\<lparr>jb_attempt_count := 2\<rparr>)"
proof -
  let ?f = "claim_job_row 5 2 (dset ''execution_context'' (to_dict work_context) (job_payload stale_job))"
  let ?c = "stale_job\<lparr>jb_attempt_count := 2\<rparr>" and ?s = "retried_db\<lparr>db_jobs := [?f (stale_job\<lparr>jb_attempt_count := 2\<rparr>)]\<rparr>"
  have j: "jb_id stale_job = ''j1''" "jb_status stale_job = ''timed_out''" "jb_attempt_count stale_job = 1" "jb_workspace_id stale_job = Some ''w1''"
    by (simp_all add: stale_job_def work_job_def)
  have u: "update_where (\<lambda>x. jb_id x = ''j1'' \<and> jb_status x = ''timed_out'') ?f (db_jobs retried_db) = [?f ?c]"
    and rc: "\<not> rowcount (\<lambda>x. jb_id x = ''j1'' \<and> jb_status x = ''timed_out'') (db_jobs retried_db) = 0"
    using j by (simp_all add: retried_db_def update_where_def rowcount_0_iff)
  have p: "get_workspace_host_profile retried_db ''w1'' ''h1'' = Inr (Some \<lparr>hp_workspace_id = ''w1'', hp_host_id = ''h1'',
      hp_workspace_path = ''/srv/repo'', hp_harness_root = None, hp_worktree_roots = []\<rparr>)" by code_simp
  have c: "check_worktree_containment_policy (ec_worktree_path work_context) ''/srv/repo'' [] = Inr ''/srv/repo''" by code_simp
  have ro: "routing_claim_evidence ctx_H (job_payload stale_job) stale_job = Inr []" by code_simp
  have w: "fst (cl_claimed work_env) \<notin> ev_id ` set (db_events ?s)" "workspace_fk ?s (jb_workspace_id stale_job)"
    by (simp_all add: j retried_db_def work_db_def route_db_def route_base_def base_db_def empty_db_def workspace_fk_def workspace_exists_def get_workspace_def sample_ws_def work_env_def)
  obtain x s' where e: "append_with (cl_claimed work_env) (claim_key ''j1'' 2)
      (job_event ''job.claimed'' ''a'' (Some ''a'') stale_job (legacy_event_payload stale_job ''a'' work_context [])) ?s = Inr (x, s')"
    using append_with_total [OF w] by blast
  have "db_jobs s' = [?f ?c]" using append_with_same [OF e] by (simp add: same_work_def)
  then have g: "get_job s' ''j1'' = Inr (?f ?c)" by (simp add: get_job_def find_job_def claim_job_row_def j)
  have "cl_now work_env = 5" by (simp add: work_env_def)
  then have t: "claim_legacy_tx ctx_H work_env work_args ''a'' ''h1'' None stale_job work_context retried_db = Inr (claimed_reply (?f ?c) (jb_attempt_count (?f ?c)) work_context PyNone False, s')"
    using p c ro e g u rc by (simp add: claim_legacy_tx_def replay_request_def j Let_def append_claim_request_marker_def)
  have old: "find_job retried_db (jb_id stale_job) = Some ?c" by (simp add: find_job_def retried_db_def)
  from legacy_claim_reuses_token [OF t _ _ old] t old show ?thesis
    by (simp add: j claimed_reply_def claim_job_row_def)
qed

end
