(* ===== verification/RuntimeAgents.thy ===== *)
theory RuntimeAgents
  imports Runtime Timestamps
begin

text \<open>
  The agents of the runtime (\<^verbatim>\<open>runtime.py\<close>): registration, heartbeat and deactivation. The first two
  commit more than once, so they return their result next to the database of their last commit.
  A deactivation is one transaction, and its events of one agent form a chain: each carries its
  number and the id of the one before.
\<close>

section \<open>Registration\<close>

record agent_reply =
  ap_agent :: agent_row
  ap_event :: event_row
  ap_event_created :: bool

text \<open>\<open>_agent\<close>.\<close>

definition read_agent :: "db \<Rightarrow> string \<Rightarrow> agent_row result" where
  "read_agent s agent_id =
     (case get_agent s agent_id of None \<Rightarrow> raise RuntimeErr ''unknown agent'' | Some a \<Rightarrow> Inr a)"

definition registered_row :: "timestamp \<Rightarrow> string \<Rightarrow> string \<Rightarrow> string \<Rightarrow> fields \<Rightarrow> agent_row" where
  "registered_row now agent_id host_id client_type caps =
     \<lparr>ag_id = agent_id, ag_name = agent_id, ag_role = Some client_type, ag_capabilities = PyDict caps,
      ag_online_state = ''online'', ag_current_load = 0, ag_host_id = Some host_id, ag_client_type = Some client_type,
      ag_last_seen_at = Some now, ag_created_at = now, ag_updated_at = now\<rparr>"

text \<open>The upsert: a conflict keeps the load and the creation time.\<close>

definition upsert_agent :: "agent_row \<Rightarrow> db \<Rightarrow> db" where
  "upsert_agent row s =
     (let here = (\<lambda>a. ag_id a = ag_id row) in
      if list_ex here (db_agents s)
      then s\<lparr>db_agents := update_where here
             (\<lambda>a. row\<lparr>ag_current_load := ag_current_load a, ag_created_at := ag_created_at a\<rparr>) (db_agents s)\<rparr>
      else s\<lparr>db_agents := db_agents s @ [row]\<rparr>)"

definition upsert_runner_profile :: "runner_row \<Rightarrow> db \<Rightarrow> db" where
  "upsert_runner_profile row s =
     (if list_ex (\<lambda>r. rn_id r = rn_id row) (db_runner_profiles s)
      then s\<lparr>db_runner_profiles := update_where (\<lambda>r. rn_id r = rn_id row) (\<lambda>_. row) (db_runner_profiles s)\<rparr>
      else s\<lparr>db_runner_profiles := db_runner_profiles s @ [row]\<rparr>)"

definition agentd_profile :: "string \<Rightarrow> runner_row" where
  "agentd_profile agent_id =
     \<lparr>rn_id = agent_id, rn_runner_type = ''agentd'', rn_command = [], rn_working_directory_strategy = ''current_dir'',
      rn_supports_stream_attach = False, rn_env = PyDict []\<rparr>"

definition registered_key :: "string \<Rightarrow> string \<Rightarrow> string \<Rightarrow> string" where
  "registered_key agent_id host_id client_type =
     ''runtime:agent:'' @ agent_id @ '':registered:'' @ host_id @ '':'' @ client_type"

definition agent_event :: "string \<Rightarrow> string \<Rightarrow> string \<Rightarrow> fields \<Rightarrow> new_event" where
  "agent_event event_type actor agent_id payload =
     \<lparr>ne_event_type = event_type, ne_actor = actor, ne_workspace_id = None, ne_target = Some agent_id,
      ne_task_id = None, ne_causation_id = None, ne_payload = PyDict payload\<rparr>"

text \<open>The event of a registration and of a heartbeat, with the agent as it is read afterwards.\<close>

definition log_agent :: "stamp \<Rightarrow> string \<Rightarrow> new_event \<Rightarrow> string \<Rightarrow> db \<Rightarrow> agent_reply result \<times> db" where
  "log_agent u key e agent_id s =
     (case append_with u key e s of
        Inl x \<Rightarrow> (Inl x, s)
      | Inr ((row, created), s') \<Rightarrow>
          (bindE (read_agent s' agent_id) (\<lambda>a. Inr \<lparr>ap_agent = a, ap_event = row, ap_event_created = created\<rparr>), s'))"

definition register_agent ::
  "timestamp \<Rightarrow> stamp \<Rightarrow> string \<Rightarrow> string \<Rightarrow> fields \<Rightarrow> string \<Rightarrow> string \<Rightarrow> db \<Rightarrow> agent_reply result \<times> db" where
  "register_agent now u agent_id host_id caps client_type actor s =
     (if strip agent_id = [] then (raise RuntimeErr ''agent_id is required'', s)
      else if strip host_id = [] then (raise RuntimeErr ''host_id is required'', s)
      else if \<not> List.member [''agentd'', ''bridge''] client_type
        then (raise RuntimeErr ''client_type must be agentd or bridge'', s)
      else
        let s1 = upsert_agent (registered_row now agent_id host_id client_type caps) s;
            s2 = (if client_type = ''agentd'' \<and> get_runner_profile s1 agent_id = None
                  then upsert_runner_profile (agentd_profile agent_id) s1 else s1)
        in log_agent u (registered_key agent_id host_id client_type)
             (agent_event ''agent.registered'' actor agent_id
                [(''agent_id'', PyStr agent_id), (''host_id'', PyStr host_id), (''client_type'', PyStr client_type),
                 (''capabilities'', PyDict caps), (''last_seen_at'', PyStr (iso_of now))]) agent_id s2)"

section \<open>Heartbeat\<close>

definition heartbeat_key :: "string \<Rightarrow> timestamp \<Rightarrow> string" where
  "heartbeat_key agent_id now = ''runtime:agent:'' @ agent_id @ '':heartbeat:'' @ iso_of now"

text \<open>The agent is read before the transaction of the update: \<open>s0\<close>, and then \<open>s\<close>.\<close>

definition heartbeat_agent ::
  "timestamp \<Rightarrow> stamp \<Rightarrow> string \<Rightarrow> string \<Rightarrow> string \<Rightarrow> db \<Rightarrow> db \<Rightarrow> agent_reply result \<times> db" where
  "heartbeat_agent now u agent_id host_id actor s0 s =
     (case get_agent s0 agent_id of
        None \<Rightarrow> (raise RuntimeErr ''unknown agent'', s)
      | Some row \<Rightarrow>
          if or_str (ag_host_id row) None \<noteq> None \<and> ag_host_id row \<noteq> Some host_id
          then (raise RuntimeErr ''agent is registered on another host'', s)
          else log_agent u (heartbeat_key agent_id now)
                 (agent_event ''agent.heartbeat'' actor agent_id
                    [(''agent_id'', PyStr agent_id), (''host_id'', PyStr host_id), (''last_seen_at'', PyStr (iso_of now))])
                 agent_id
                 (s\<lparr>db_agents := update_where (\<lambda>a. ag_id a = agent_id)
                     (\<lambda>a. a\<lparr>ag_online_state := ''online'', ag_host_id := Some host_id, ag_last_seen_at := Some now,
                            ag_updated_at := now\<rparr>) (db_agents s)\<rparr>))"

section \<open>Deactivation\<close>

text \<open>\<open>COUNT(*)\<close> and \<open>MIN(id)\<close> of the rows of one category.\<close>

type_synonym blocker = "nat \<times> string option"

definition blocker_of :: "string list \<Rightarrow> blocker" where
  "blocker_of ids = (length ids, case ids of [] \<Rightarrow> None | i # is \<Rightarrow> Some (fold min is i))"

record blockers =
  bl_active_leases :: blocker
  bl_pending_jobs :: blocker
  bl_running_jobs :: blocker
  bl_recoverable_timed_out_jobs :: blocker

definition jobs_blocking :: "(job_row \<Rightarrow> bool) \<Rightarrow> string \<Rightarrow> db \<Rightarrow> blocker" where
  "jobs_blocking p agent_id s =
     blocker_of (map jb_id (filter (\<lambda>j. jb_assigned_agent j = Some agent_id \<and> p j) (db_jobs s)))"

definition deactivation_blockers :: "db \<Rightarrow> string \<Rightarrow> blockers" where
  "deactivation_blockers s agent_id =
     \<lparr>bl_active_leases = blocker_of
        (map lr_lease_id (filter (\<lambda>l. lr_agent_id l = agent_id \<and> lr_status l = Active) (db_leases s))),
      bl_pending_jobs = jobs_blocking (\<lambda>j. jb_status j = ''pending'') agent_id s,
      bl_running_jobs = jobs_blocking (\<lambda>j. jb_status j = ''running'') agent_id s,
      bl_recoverable_timed_out_jobs = jobs_blocking (\<lambda>j. jb_status j = ''timed_out'' \<and> jb_recoverable j) agent_id s\<rparr>"

definition blocked :: "blockers \<Rightarrow> bool" where
  "blocked b \<longleftrightarrow> list_ex (\<lambda>x. fst x \<noteq> 0)
     [bl_active_leases b, bl_pending_jobs b, bl_running_jobs b, bl_recoverable_timed_out_jobs b]"

definition DEACTIVATION_KEYS :: "string list" where
  "DEACTIVATION_KEYS = [''agent_id'', ''host_id'', ''actor'', ''reason'', ''previous_online_state'', ''deactivated_at'',
     ''generation'', ''previous_deactivation_event_id'']"

definition deactivated_key :: "string \<Rightarrow> nat \<Rightarrow> string" where
  "deactivated_key agent_id generation =
     ''runtime:agent:'' @ agent_id @ '':deactivated:'' @ dec_int (int generation)"

definition deactivation_rows :: "db \<Rightarrow> string \<Rightarrow> event_row list" where
  "deactivation_rows s agent_id =
     filter (\<lambda>e. ev_event_type e = ''agent.deactivated'' \<and> ev_target e = Some agent_id) (db_events s)"

text \<open>One row of the chain; a Python \<open>bool\<close> is no generation.\<close>

definition check_deactivation :: "string \<Rightarrow> string \<Rightarrow> nat \<Rightarrow> string option \<Rightarrow> event_row \<Rightarrow> unit result" where
  "check_deactivation agent_id host_id generation previous e =
     (case as_dict (ev_payload e) of
        None \<Rightarrow> raise RuntimeErr ''invalid agent.deactivated audit payload''
      | Some p \<Rightarrow>
          if \<not> same_keys DEACTIVATION_KEYS p then raise RuntimeErr ''invalid agent.deactivated audit payload''
          else if dget p ''agent_id'' \<noteq> PyStr agent_id \<or> dget p ''host_id'' \<noteq> PyStr host_id \<or>
                  dget p ''previous_online_state'' \<noteq> PyStr ''online'' \<or>
                  as_bool (dget p ''generation'') \<noteq> None \<or>
                  \<not> py_eq (dget p ''generation'') (PyInt (int generation)) \<or>
                  dget p ''previous_deactivation_event_id'' \<noteq> opt_str previous \<or>
                  dget p ''actor'' \<noteq> PyStr (ev_actor e) \<or>
                  ev_idempotency_key e \<noteq> deactivated_key agent_id generation
          then raise RuntimeErr ''invalid agent.deactivated audit chain''
          else reraise RuntimeLeaseErr RuntimeErr ''invalid field''
                 (bindE (validate_id (PyStr (ev_id e))) (\<lambda>_.
                  bindE (validate_id (dget p ''actor'')) (\<lambda>_.
                  bindE (validate_claim_reason (dget p ''reason'')) (\<lambda>_.
                  bindE (validate_utc_timestamp (dget p ''deactivated_at'')) (\<lambda>_. Inr ()))))))"

fun check_chain :: "string \<Rightarrow> string \<Rightarrow> nat \<Rightarrow> string option \<Rightarrow> event_row list \<Rightarrow> unit result" where
  "check_chain agent_id host_id generation previous [] = Inr ()"
| "check_chain agent_id host_id generation previous (e # es) =
     bindE (check_deactivation agent_id host_id generation previous e) (\<lambda>_.
       check_chain agent_id host_id (Suc generation) (Some (ev_id e)) es)"

definition validated_deactivation_events :: "db \<Rightarrow> string \<Rightarrow> string \<Rightarrow> event_row list result" where
  "validated_deactivation_events s agent_id host_id =
     bindE (check_chain agent_id host_id 1 None (deactivation_rows s agent_id)) (\<lambda>_. Inr (deactivation_rows s agent_id))"

record deactivate_args =
  dx_agent_id :: pyval
  dx_host_id :: pyval
  dx_reason :: pyval
  dx_actor :: pyval
  dx_dry_run :: pyval

record deactivate_reply =
  dy_agent :: agent_row
  dy_changed :: bool
  dy_deactivated :: bool
  dy_dry_run :: bool
  dy_blocked :: bool
  dy_reason :: pyval
  dy_blockers :: blockers
  dy_event :: "event_row option"
  dy_event_created :: bool

text \<open>The checks of the arguments: agent, host, reason, actor and \<open>dry_run\<close>.\<close>

definition deactivate_request :: "deactivate_args \<Rightarrow> (string \<times> string \<times> string \<times> string \<times> bool) result" where
  "deactivate_request a =
     bindE (reraise RuntimeLeaseErr RuntimeErr ''invalid argument''
       (bindE (validate_id (dx_agent_id a)) (\<lambda>agent_id.
        bindE (validate_id (dx_host_id a)) (\<lambda>host_id.
        bindE (validate_claim_reason (dx_reason a)) (\<lambda>reason.
        bindE (validate_id (dx_actor a)) (\<lambda>actor. Inr (agent_id, host_id, reason, actor))))))) (\<lambda>(agent_id, host_id, reason, actor).
     case as_bool (dx_dry_run a) of
       None \<Rightarrow> raise RuntimeErr ''dry_run must be a boolean''
     | Some dry_run \<Rightarrow> Inr (agent_id, host_id, reason, actor, dry_run))"

definition deactivable_agent :: "db \<Rightarrow> string \<Rightarrow> string \<Rightarrow> agent_row result" where
  "deactivable_agent s agent_id host_id =
     bindE (read_agent s agent_id) (\<lambda>agent.
     if ag_client_type agent \<noteq> Some ''agentd'' then raise RuntimeErr ''only agentd clients can be deactivated''
     else if or_str (ag_host_id agent) None = None then raise RuntimeErr ''agent has no host_id''
     else if ag_host_id agent \<noteq> Some host_id then raise RuntimeErr ''host mismatch for agent''
     else if ag_online_state agent \<noteq> ''online'' \<and> ag_online_state agent \<noteq> ''offline'' then raise RuntimeErr ''unknown online_state''
     else Inr agent)"

definition deactivation_payload :: "timestamp \<Rightarrow> string \<Rightarrow> string \<Rightarrow> string \<Rightarrow> string \<Rightarrow> string \<Rightarrow> event_row list \<Rightarrow> fields" where
  "deactivation_payload now agent_id host_id reason actor online_state prior =
     [(''agent_id'', PyStr agent_id), (''host_id'', PyStr host_id), (''actor'', PyStr actor), (''reason'', PyStr reason),
      (''previous_online_state'', PyStr online_state), (''deactivated_at'', PyStr (iso_of now)),
      (''generation'', PyInt (int (length prior + 1))),
      (''previous_deactivation_event_id'', opt_str (if prior = [] then None else Some (ev_id (last prior))))]"

definition switch_off :: "timestamp \<Rightarrow> string \<Rightarrow> string \<Rightarrow> agent_row \<Rightarrow> agent_row" where
  "switch_off now agent_id host_id a =
     (if ag_id a = agent_id \<and> ag_host_id a = Some host_id \<and> ag_online_state a = ''online''
      then a\<lparr>ag_online_state := ''offline'', ag_updated_at := now\<rparr> else a)"

text \<open>The two ends of a deactivation that is not blocked: of an agent online, and of one already offline.\<close>

definition deactivate_online ::
  "timestamp \<Rightarrow> stamp \<Rightarrow> string \<Rightarrow> string \<Rightarrow> string \<Rightarrow> string \<Rightarrow> agent_row \<Rightarrow> blockers \<Rightarrow> db \<Rightarrow> (deactivate_reply \<times> db) result" where
  "deactivate_online now u agent_id host_id reason actor agent b s =
     bindE (validated_deactivation_events s agent_id host_id) (\<lambda>prior.
     let here = (\<lambda>a. ag_id a = agent_id \<and> ag_host_id a = Some host_id \<and> ag_online_state a = ''online'');
         s1 = s\<lparr>db_agents := map (switch_off now agent_id host_id) (db_agents s)\<rparr>
     in if rowcount here (db_agents s) \<noteq> 1 then raise RuntimeErr ''agent deactivate compare-and-swap failed''
        else
          bindE (append_with u (deactivated_key agent_id (length prior + 1))
              (agent_event ''agent.deactivated'' actor agent_id
                 (deactivation_payload now agent_id host_id reason actor (ag_online_state agent) prior)) s1) (\<lambda>((e, created), s2).
          if \<not> created then raise RuntimeErr ''unexpected existing deactivation event''
          else
            bindE (read_agent s2 agent_id) (\<lambda>updated.
              Inr (\<lparr>dy_agent = updated, dy_changed = True, dy_deactivated = True, dy_dry_run = False, dy_blocked = False,
                    dy_reason = PyStr reason, dy_blockers = b, dy_event = Some e, dy_event_created = True\<rparr>, s2))))"

definition deactivate_offline ::
  "string \<Rightarrow> string \<Rightarrow> agent_row \<Rightarrow> blockers \<Rightarrow> db \<Rightarrow> (deactivate_reply \<times> db) result" where
  "deactivate_offline agent_id host_id agent b s =
     bindE (validated_deactivation_events s agent_id host_id) (\<lambda>prior.
     if prior = [] then raise RuntimeErr ''offline_without_deactivation_audit''
     else Inr (\<lparr>dy_agent = agent, dy_changed = False, dy_deactivated = True, dy_dry_run = False, dy_blocked = False,
                dy_reason = dget (dict_of (ev_payload (last prior))) ''reason'', dy_blockers = b,
                dy_event = Some (last prior), dy_event_created = False\<rparr>, s))"

definition deactivate_agent ::
  "timestamp \<Rightarrow> stamp \<Rightarrow> deactivate_args \<Rightarrow> db \<Rightarrow> (deactivate_reply \<times> db) result" where
  "deactivate_agent now u a s =
     bindE (deactivate_request a) (\<lambda>(agent_id, host_id, reason, actor, dry_run).
     bindE (deactivable_agent s agent_id host_id) (\<lambda>agent.
     let b = deactivation_blockers s agent_id in
     if blocked b \<or> dry_run
     then Inr (\<lparr>dy_agent = agent, dy_changed = False, dy_deactivated = False, dy_dry_run = dry_run,
                dy_blocked = blocked b, dy_reason = PyStr reason, dy_blockers = b, dy_event = None,
                dy_event_created = False\<rparr>, s)
     else if ag_online_state agent = ''online'' then deactivate_online now u agent_id host_id reason actor agent b s
     else deactivate_offline agent_id host_id agent b s))"

section \<open>What a deactivation leaves\<close>

lemma blocker_of_0 [simp]: "fst (blocker_of ids) = 0 \<longleftrightarrow> ids = []"
  by (simp add: blocker_of_def)

text \<open>Nothing of an agent is in flight: no active lease, no job that a claim or a report may change.\<close>

definition idle :: "db \<Rightarrow> string \<Rightarrow> bool" where
  "idle s g \<longleftrightarrow> (\<forall>l \<in> set (db_leases s). lr_agent_id l = g \<longrightarrow> lr_status l \<noteq> Active) \<and>
     (\<forall>j \<in> set (db_jobs s). jb_assigned_agent j = Some g \<longrightarrow>
        jb_status j \<noteq> ''pending'' \<and> jb_status j \<noteq> ''running'' \<and> \<not> (jb_status j = ''timed_out'' \<and> jb_recoverable j))"

lemma jobs_blocking_0: "fst (jobs_blocking p g s) = 0 \<longleftrightarrow> (\<forall>j \<in> set (db_jobs s). jb_assigned_agent j = Some g \<longrightarrow> \<not> p j)"
  by (simp add: jobs_blocking_def filter_empty_conv)

lemma not_blocked_iff: "\<not> blocked (deactivation_blockers s g) \<longleftrightarrow> idle s g"
  unfolding blocked_def deactivation_blockers_def idle_def
  by (simp add: jobs_blocking_0 filter_empty_conv imp_conjR ball_conj_distrib)

lemma find_map_key: "(\<And>x. key (f x) = key x) \<Longrightarrow> find (\<lambda>x. key x = k) (map f xs) = map_option f (find (\<lambda>x. key x = k) xs)"
  by (induction xs) auto

lemma get_agent_switch_off:
  "get_agent (s\<lparr>db_agents := map (switch_off now g h) (db_agents s)\<rparr>) x = map_option (switch_off now g h) (get_agent s x)"
  unfolding get_agent_def by (simp add: find_map_key [where key = ag_id] switch_off_def)

lemma read_agent_Inr: "read_agent s g = Inr a \<longleftrightarrow> get_agent s g = Some a"
  by (auto simp: read_agent_def split: option.splits)

lemma deactivable_agentD:
  assumes "deactivable_agent s g h = Inr a"
  shows "get_agent s g = Some a" "ag_client_type a = Some ''agentd''" "ag_host_id a = Some h"
    "ag_online_state a = ''online'' \<or> ag_online_state a = ''offline''"
  using assms unfolding deactivable_agent_def by (auto simp add: read_agent_Inr split: if_split_asm)

lemma deactivable_agentI:
  "get_agent s g = Some a \<Longrightarrow> ag_client_type a = Some ''agentd'' \<Longrightarrow> ag_host_id a = Some h \<Longrightarrow> h \<noteq> [] \<Longrightarrow>
     ag_online_state a = ''online'' \<or> ag_online_state a = ''offline'' \<Longrightarrow> deactivable_agent s g h = Inr a"
  by (auto simp add: deactivable_agent_def read_agent_def or_str_def)

lemma get_agent_id: "get_agent s g = Some a \<Longrightarrow> ag_id a = g"
  by (auto simp: get_agent_def dest: find_Some_in)

text \<open>A deactivation of an agent that was online, taken apart.\<close>

lemma deactivate_online_Inr:
  assumes "deactivate_online now u g h reason actor agent b s = Inr (r, s')" "get_agent s g = Some agent"
  obtains prior e where
    "validated_deactivation_events s g h = Inr prior" "prior = deactivation_rows s g"
    "e = event_of (fst u) (snd u) (deactivated_key g (length prior + 1)) (agent_event ''agent.deactivated'' actor g
       (deactivation_payload now g h reason actor (ag_online_state agent) prior))"
    "s' = s\<lparr>db_agents := map (switch_off now g h) (db_agents s), db_events := db_events s @ [e]\<rparr>"
    "r = \<lparr>dy_agent = switch_off now g h agent, dy_changed = True, dy_deactivated = True, dy_dry_run = False,
       dy_blocked = False, dy_reason = PyStr reason, dy_blockers = b, dy_event = Some e, dy_event_created = True\<rparr>"
proof -
  let ?s1 = "s\<lparr>db_agents := map (switch_off now g h) (db_agents s)\<rparr>"
  from assms(1) obtain prior e s2 updated where a:
    "validated_deactivation_events s g h = Inr prior"
    "append_with u (deactivated_key g (length prior + 1)) (agent_event ''agent.deactivated'' actor g
       (deactivation_payload now g h reason actor (ag_online_state agent) prior)) ?s1 = Inr ((e, True), s2)"
    "read_agent s2 g = Inr updated" "s' = s2"
    "r = \<lparr>dy_agent = updated, dy_changed = True, dy_deactivated = True, dy_dry_run = False,
       dy_blocked = False, dy_reason = PyStr reason, dy_blockers = b, dy_event = Some e, dy_event_created = True\<rparr>"
    unfolding deactivate_online_def Let_def by (auto simp: bindE_eq_Inr split: if_splits)
  have p: "prior = deactivation_rows s g"
    using a(1) by (auto simp: validated_deactivation_events_def bindE_eq_Inr)
  have key: "event_key (fst u) (Some (deactivated_key g n)) = deactivated_key g n" for n
    by (simp add: event_key_def deactivated_key_def)
  have e: "e = event_of (fst u) (snd u) (deactivated_key g (length prior + 1)) (agent_event ''agent.deactivated'' actor g
       (deactivation_payload now g h reason actor (ag_online_state agent) prior))" "s2 = ?s1\<lparr>db_events := db_events ?s1 @ [e]\<rparr>"
    using append_event_created [OF a(2) [unfolded append_with_def]] by (simp_all only: key)
  have "updated = switch_off now g h agent"
    using a(3) get_agent_switch_off [where s = s and now = now and g = g and h = h and x = g] assms(2) by (simp add: read_agent_Inr e(2) get_agent_def)
  then show thesis using that a p e by simp
qed

lemma deactivate_agent_Inr:
  assumes "deactivate_agent now u a s = Inr (r, s')" "dy_deactivated r"
  obtains g h reason actor agent where
    "deactivate_request a = Inr (g, h, reason, actor, False)" "deactivable_agent s g h = Inr agent" "idle s g"
    "if ag_online_state agent = ''online''
     then deactivate_online now u g h reason actor agent (deactivation_blockers s g) s = Inr (r, s')
     else deactivate_offline g h agent (deactivation_blockers s g) s = Inr (r, s')"
proof -
  from assms(1) obtain g h reason actor dry agent where a:
    "deactivate_request a = Inr (g, h, reason, actor, dry)" "deactivable_agent s g h = Inr agent"
    and t: "(let b = deactivation_blockers s g in
     if blocked b \<or> dry
     then Inr (\<lparr>dy_agent = agent, dy_changed = False, dy_deactivated = False, dy_dry_run = dry,
                dy_blocked = blocked b, dy_reason = PyStr reason, dy_blockers = b, dy_event = None,
                dy_event_created = False\<rparr>, s)
     else if ag_online_state agent = ''online'' then deactivate_online now u g h reason actor agent b s
     else deactivate_offline g h agent b s) = Inr (r, s')"
    unfolding deactivate_agent_def by (auto simp: bindE_eq_Inr)
  from t assms(2) have nb: "\<not> (blocked (deactivation_blockers s g) \<or> dry)" by (auto simp: Let_def)
  then have i: "idle s g" "dry = False" by (simp_all add: not_blocked_iff)
  show thesis
    using that [of g h reason actor agent] a i t nb by (simp add: Let_def split: if_splits)
qed


section \<open>The chain of deactivations\<close>

lemma bindE_unit: "bindE m Inr = m"
  by (cases m) simp_all

lemma check_chain_snoc:
  "check_chain g h n prev (es @ [e]) = bindE (check_chain g h n prev es)
     (\<lambda>_. check_deactivation g h (n + length es) (if es = [] then prev else Some (ev_id (last es))) e)"
proof (induction es arbitrary: n prev)
  case (Cons x es)
  show ?case by (cases "check_deactivation g h n prev x") (simp_all add: Cons.IH)
qed (simp add: bindE_unit)

lemma validate_iso_of: "in_calendar t \<Longrightarrow> validate_utc_timestamp (PyStr (iso_of t)) = Inr t"
  using parse_iso_of [of t] by (simp add: validate_utc_timestamp_def iso_of_def)

lemma deactivation_keys: "same_keys DEACTIVATION_KEYS (deactivation_payload now g h reason actor st prior)"
  by (simp add: same_keys_def DEACTIVATION_KEYS_def deactivation_payload_def)

lemma new_deactivation_ok:
  assumes "validate_id (PyStr uuid) = Inr uuid" "validate_id (PyStr actor) = Inr actor"
    "validate_claim_reason (PyStr reason) = Inr reason" "in_calendar now"
  shows "check_deactivation g h (length prior + 1) (if prior = [] then None else Some (ev_id (last prior)))
     (event_of uuid t (deactivated_key g (length prior + 1)) (agent_event ''agent.deactivated'' actor g
       (deactivation_payload now g h reason actor ''online'' prior))) = Inr ()"
proof -
  let ?p = "deactivation_payload now g h reason actor ''online'' prior"
  have payload: "json_col (PyDict ?p) = PyDict ?p" by (simp add: json_col_def deactivation_payload_def)
  have fields: "dget ?p ''agent_id'' = PyStr g" "dget ?p ''host_id'' = PyStr h" "dget ?p ''actor'' = PyStr actor"
    "dget ?p ''reason'' = PyStr reason" "dget ?p ''previous_online_state'' = PyStr ''online''"
    "dget ?p ''deactivated_at'' = PyStr (iso_of now)" "dget ?p ''generation'' = PyInt (int (length prior + 1))"
    "dget ?p ''previous_deactivation_event_id'' = opt_str (if prior = [] then None else Some (ev_id (last prior)))"
    by (simp_all add: deactivation_payload_def)
  show ?thesis
    unfolding check_deactivation_def event_of_sel agent_event_def new_event.simps payload as_dict.simps option.case fields
    by (simp add: deactivation_keys assms validate_iso_of event_of_def as_bool_def)
qed

lemma request_ids:
  assumes "deactivate_request a = Inr (g, h, reason, actor, d)"
  shows "validate_id (dx_agent_id a) = Inr g" "validate_id (dx_host_id a) = Inr h"
    "validate_id (PyStr actor) = Inr actor" "validate_claim_reason (PyStr reason) = Inr reason" "h \<noteq> []"
proof -
  have self: "validate_id v = Inr x \<Longrightarrow> validate_id (PyStr x) = Inr x \<and> x \<noteq> []" for v x
    by (auto simp: validate_id_def bounded_text_def split: option.splits if_split_asm)
  have self': "validate_claim_reason v = Inr x \<Longrightarrow> validate_claim_reason (PyStr x) = Inr x" for v x
    by (auto simp: validate_claim_reason_def bounded_text_def split: option.splits if_split_asm)
  from assms show "validate_id (dx_agent_id a) = Inr g" "validate_id (dx_host_id a) = Inr h"
    "validate_id (PyStr actor) = Inr actor" "validate_claim_reason (PyStr reason) = Inr reason" "h \<noteq> []"
    using self self' [of "dx_reason a" reason] self [of "dx_host_id a" h] self [of "dx_actor a" actor]
    by (auto simp: deactivate_request_def bindE_eq_Inr split: option.splits)
qed

lemma deactivation_rows_snoc:
  "deactivation_rows (s\<lparr>db_agents := as, db_events := db_events s @ [event_of uuid t k (agent_event ''agent.deactivated'' actor g p)]\<rparr>) g =
     deactivation_rows s g @ [event_of uuid t k (agent_event ''agent.deactivated'' actor g p)]"
  by (simp add: deactivation_rows_def event_of_def agent_event_def)

text \<open>The chain that a deactivation leaves is valid, with its event at the end.\<close>

lemma chain_extended:
  assumes "deactivate_online now u g h reason actor agent b s = Inr (r, s')" "get_agent s g = Some agent"
    "ag_online_state agent = ''online''" "validate_id (PyStr (fst u)) = Inr (fst u)" "validate_id (PyStr actor) = Inr actor"
    "validate_claim_reason (PyStr reason) = Inr reason" "in_calendar now"
  obtains e where "dy_event r = Some e" "deactivation_rows s' g = deactivation_rows s g @ [e]"
    "validated_deactivation_events s' g h = Inr (deactivation_rows s' g)"
    "dget (dict_of (ev_payload e)) ''reason'' = PyStr reason"
proof -
  from assms(1,2) obtain prior e where d: "validated_deactivation_events s g h = Inr prior" "prior = deactivation_rows s g"
    "e = event_of (fst u) (snd u) (deactivated_key g (length prior + 1)) (agent_event ''agent.deactivated'' actor g
       (deactivation_payload now g h reason actor (ag_online_state agent) prior))"
    "s' = s\<lparr>db_agents := map (switch_off now g h) (db_agents s), db_events := db_events s @ [e]\<rparr>" "dy_event r = Some e"
    by (rule deactivate_online_Inr) simp
  have rows: "deactivation_rows s' g = prior @ [e]" by (simp add: d(2,3,4) deactivation_rows_snoc)
  have c: "check_chain g h 1 None prior = Inr ()"
    using d(1,2) by (auto simp: validated_deactivation_events_def bindE_eq_Inr)
  have "check_deactivation g h (1 + length prior) (if prior = [] then None else Some (ev_id (last prior))) e = Inr ()"
    using new_deactivation_ok [OF assms(4-7), of g h prior "snd u"] by (simp add: d(3) assms(3))
  with c have "validated_deactivation_events s' g h = Inr (deactivation_rows s' g)"
    by (simp add: validated_deactivation_events_def rows check_chain_snoc)
  moreover have "dget (dict_of (ev_payload e)) ''reason'' = PyStr reason"
    by (simp add: d(3) agent_event_def json_col_def deactivation_payload_def dict_of_def)
  ultimately show thesis using that d(5) rows d(2) by simp
qed

lemma deactivable_after:
  assumes "deactivable_agent s g h = Inr agent" "ag_online_state agent = ''online''"
  shows "deactivable_agent (s\<lparr>db_agents := map (switch_off now g h) (db_agents s), db_events := es\<rparr>) g h =
     Inr (switch_off now g h agent)"
proof -
  note a = deactivable_agentD [OF assms(1)]
  have h: "h \<noteq> []" using assms(1) a(3) unfolding deactivable_agent_def
    by (auto simp: read_agent_Inr or_str_def split: if_split_asm)
  have "get_agent (s\<lparr>db_agents := map (switch_off now g h) (db_agents s), db_events := es\<rparr>) g = Some (switch_off now g h agent)"
    using get_agent_switch_off [where s = s and now = now and g = g and h = h and x = g] a(1) by (simp add: get_agent_def)
  then show ?thesis
    by (rule deactivable_agentI) (use a(2,3) h get_agent_id [OF a(1)] assms(2) in \<open>simp_all add: switch_off_def\<close>)
qed

lemma blockers_same:
  "db_leases s' = db_leases s \<Longrightarrow> db_jobs s' = db_jobs s \<Longrightarrow> deactivation_blockers s' g = deactivation_blockers s g"
  by (simp add: deactivation_blockers_def jobs_blocking_def)

lemma deactivate_not_blocked:
  assumes "deactivate_request a = Inr (g, h, reason, actor, False)" "deactivable_agent s g h = Inr agent" "idle s g"
  shows "deactivate_agent now u a s =
    (if ag_online_state agent = ''online'' then deactivate_online now u g h reason actor agent (deactivation_blockers s g) s
     else deactivate_offline g h agent (deactivation_blockers s g) s)"
proof -
  have "\<not> blocked (deactivation_blockers s g)" using assms(3) by (simp add: not_blocked_iff)
  then show ?thesis unfolding deactivate_agent_def assms(1) bindE_simps prod.case assms(2) Let_def by simp
qed

text \<open>A registration puts the agent online on its host, and leaves leases, jobs and earlier events alone.\<close>

lemma find_updated:
  "(\<And>r. key r = k \<Longrightarrow> key (f r) = k) \<Longrightarrow>
     find (\<lambda>r. key r = k) (update_where (\<lambda>r. key r = k) f rows) = map_option f (find (\<lambda>r. key r = k) rows)"
  by (induction rows) (auto simp: update_where_def)

lemma get_agent_upsert:
  "\<exists>a. get_agent (upsert_agent row s) (ag_id row) = Some a \<and> ag_online_state a = ag_online_state row \<and>
     ag_host_id a = ag_host_id row \<and> ag_client_type a = ag_client_type row"
proof (cases "list_ex (\<lambda>a. ag_id a = ag_id row) (db_agents s)")
  case True
  then have "find (\<lambda>a. ag_id a = ag_id row) (db_agents s) \<noteq> None" by (auto simp: find_None_notin list_ex_iff)
  then show ?thesis
    using True by (auto simp: upsert_agent_def get_agent_def Let_def find_updated [where key = ag_id])
next
  case False
  then have "find (\<lambda>a. ag_id a = ag_id row) (db_agents s) = None" by (auto simp: find_None_notin list_ex_iff)
  with False show ?thesis by (simp add: upsert_agent_def get_agent_def Let_def find_append)
qed

lemma log_agent_Inr: "log_agent u k ev g s = (Inr y, s') \<Longrightarrow> \<exists>x. append_with u k ev s = Inr (x, s')"
  by (auto simp: log_agent_def split: sum.splits)

lemma registered_post:
  assumes "register_agent now u g h caps ''agentd'' actor s = (Inr y, s')"
  shows "\<exists>a. get_agent s' g = Some a \<and> ag_online_state a = ''online'' \<and> ag_host_id a = Some h \<and> ag_client_type a = Some ''agentd''"
    and "db_jobs s' = db_jobs s" "db_leases s' = db_leases s" "\<exists>es. db_events s' = db_events s @ es"
proof -
  let ?row = "registered_row now g h ''agentd'' caps"
  let ?s1 = "upsert_agent ?row s"
  let ?s2 = "if get_runner_profile ?s1 g = None then upsert_runner_profile (agentd_profile g) ?s1 else ?s1"
  have c: "strip g \<noteq> []" "strip h \<noteq> []" using assms by (auto simp: register_agent_def split: if_split_asm)
  have "\<exists>k ev. log_agent u k ev g ?s2 = (Inr y, s')"
    using assms c by (intro exI) (simp add: register_agent_def Let_def)
  then obtain e b k ev where "append_with u k ev ?s2 = Inr ((e, b), s')"
    using log_agent_Inr by (metis surj_pair)
  then obtain es where s': "s' = ?s2\<lparr>db_events := db_events ?s2 @ es\<rparr>"
    unfolding append_with_def using append_event_prefix by blast
  have f1: "db_jobs ?s1 = db_jobs s" "db_leases ?s1 = db_leases s" "db_events ?s1 = db_events s"
    by (simp_all add: upsert_agent_def Let_def)
  have f2: "db_agents ?s2 = db_agents ?s1" "db_jobs ?s2 = db_jobs ?s1" "db_leases ?s2 = db_leases ?s1" "db_events ?s2 = db_events ?s1"
    by (simp_all add: upsert_runner_profile_def)
  have "get_agent s' g = get_agent ?s1 g" using f2(1) by (simp add: s' get_agent_def)
  with get_agent_upsert [of ?row s] show "\<exists>a. get_agent s' g = Some a \<and> ag_online_state a = ''online'' \<and> ag_host_id a = Some h \<and>
      ag_client_type a = Some ''agentd''"
    by (simp add: registered_row_def)
  show "db_jobs s' = db_jobs s" "db_leases s' = db_leases s" "\<exists>es. db_events s' = db_events s @ es"
    using f1 f2 by (auto simp: s')
qed

lemma deactivation_rows_append: "db_events s' = db_events s @ es \<Longrightarrow> \<exists>rs. deactivation_rows s' g = deactivation_rows s g @ rs"
  by (simp add: deactivation_rows_def)

lemma idle_same: "db_leases s' = db_leases s \<Longrightarrow> db_jobs s' = db_jobs s \<Longrightarrow> idle s' g = idle s g"
  by (simp add: idle_def)

text \<open>A chain of one host is no chain of another.\<close>

lemma check_deactivationD:
  assumes "check_deactivation g h n prev e = Inr ()"
  obtains p where "ev_payload e = PyDict p" "same_keys DEACTIVATION_KEYS p" "dget p ''host_id'' = PyStr h"
  using assms unfolding check_deactivation_def by (auto split: option.splits if_split_asm)

lemma other_host_chain:
  assumes "check_deactivation g h 1 None e = Inr ()" "h' \<noteq> h"
  shows "check_chain g h' 1 None (e # es) = raise RuntimeErr ''invalid agent.deactivated audit chain''"
proof -
  from assms(1) obtain p where "ev_payload e = PyDict p" "same_keys DEACTIVATION_KEYS p" "dget p ''host_id'' = PyStr h"
    by (rule check_deactivationD)
  with assms(2) show ?thesis by (simp add: check_deactivation_def)
qed

lemma changed_deactivated: "deactivate_agent now u a s = Inr (r, s') \<Longrightarrow> dy_changed r \<Longrightarrow> dy_deactivated r"
  by (auto simp: deactivate_agent_def deactivate_online_def deactivate_offline_def bindE_eq_Inr Let_def split: if_split_asm)



section \<open>A sample\<close>

definition seat_db :: db where
  "seat_db = empty_db\<lparr>db_agents := [registered_row 1 ''a'' ''h'' ''agentd'' []]\<rparr>"

definition off_args :: "string \<Rightarrow> deactivate_args" where
  "off_args h = \<lparr>dx_agent_id = PyStr ''a'', dx_host_id = PyStr h, dx_reason = PyStr ''done'', dx_actor = PyStr ''op'',
     dx_dry_run = PyBool False\<rparr>"

lemma seat_sel [simp]: "db_agents seat_db = [registered_row 1 ''a'' ''h'' ''agentd'' []]" "db_events seat_db = []"
  "db_jobs seat_db = []" "db_leases seat_db = []" "db_instances seat_db = []"
  by (simp_all add: seat_db_def empty_db_def)

lemma off_request:
  "deactivate_request (off_args ''h'') = Inr (''a'', ''h'', ''done'', ''op'', False)"
  "deactivate_request (off_args ''h2'') = Inr (''a'', ''h2'', ''done'', ''op'', False)"
  "validate_id (PyStr ''e1'') = Inr ''e1''"
  by code_simp+

lemma off_args_sel [simp]: "dx_agent_id (off_args h) = PyStr ''a''" "dx_host_id (off_args h) = PyStr h"
  by (simp_all add: off_args_def)

lemma seat_agent: "deactivable_agent seat_db ''a'' ''h'' = Inr (registered_row 1 ''a'' ''h'' ''agentd'' [])" "idle seat_db ''a''"
  by (simp_all add: deactivable_agentI get_agent_def registered_row_def idle_def)

lemma seat_off:
  "\<exists>r s'. deactivate_agent 86400 (''e1'', 86400) (off_args ''h'') seat_db = Inr (r, s') \<and> dy_changed r \<and>
     map ev_id (db_events s') = [''e1''] \<and> map ev_idempotency_key (db_events s') = [deactivated_key ''a'' 1]"
proof -
  have "validated_deactivation_events seat_db ''a'' ''h'' = Inr []"
    by (simp add: validated_deactivation_events_def deactivation_rows_def)
  then show ?thesis
    unfolding deactivate_not_blocked [OF off_request(1) seat_agent]
    by (simp add: deactivate_online_def registered_row_def append_with_def append_event_def insert_event_def workspace_fk_def
      agent_event_def rowcount_def event_of_def Let_def read_agent_def get_agent_def switch_off_def event_key_def
      deactivated_key_def)
qed

lemma seat_registers:
  assumes "map ev_id (db_events s) = [''e1'']" "map ev_idempotency_key (db_events s) = [deactivated_key ''a'' 1]"
  shows "\<exists>y s'. register_agent 86500 (''e2'', 86500) ''a'' ''h2'' [] ''agentd'' ''op'' s = (Inr y, s')"
proof -
  obtain e where e: "db_events s = [e]" "ev_id e = ''e1''" "ev_idempotency_key e = deactivated_key ''a'' 1"
    using assms by auto
  let ?s1 = "upsert_agent (registered_row 86500 ''a'' ''h2'' ''agentd'' []) s"
  let ?s2 = "if get_runner_profile ?s1 ''a'' = None then upsert_runner_profile (agentd_profile ''a'') ?s1 else ?s1"
  have ev: "db_events ?s2 = [e]" using e(1) by (simp add: upsert_agent_def upsert_runner_profile_def Let_def)
  obtain x where x: "get_agent ?s1 ''a'' = Some x" using get_agent_upsert [of "registered_row 86500 ''a'' ''h2'' ''agentd'' []" s]
    by (auto simp: registered_row_def)
  then have x2: "get_agent (?s2\<lparr>db_events := es\<rparr>) ''a'' = Some x" for es
    by (simp add: get_agent_def upsert_runner_profile_def)
  have strips: "strip ''a'' \<noteq> []" "strip ''h2'' \<noteq> []" by code_simp+
  have "\<exists>y s'. log_agent (''e2'', 86500) (registered_key ''a'' ''h2'' ''agentd'') (agent_event t actor g p) ''a'' ?s2 = (Inr y, s')" for t actor g p
    using e(2,3) x2 by (simp add: log_agent_def append_with_def append_event_def insert_event_def ev workspace_fk_def agent_event_def
      event_of_def event_key_def registered_key_def deactivated_key_def Let_def read_agent_def)
  then show ?thesis using strips by (simp add: register_agent_def Let_def)
qed

section \<open>Properties\<close>

text \<open>
  An agent that was deactivated while online can be deactivated again by anyone who gives its
  id and host: nothing is written and the answer carries the first event, whatever the new reason.
\<close>

theorem deactivation_idempotent:
  assumes "deactivate_agent now u a s = Inr (r, s')" "dy_changed r" "validate_id (PyStr (fst u)) = Inr (fst u)"
    "in_calendar now" "deactivate_request a' = Inr (g, h, reason', actor', False)"
    "dx_agent_id a' = dx_agent_id a" "dx_host_id a' = dx_host_id a"
  shows "deactivate_agent now' u' a' s' = Inr (r\<lparr>dy_changed := False, dy_event_created := False\<rparr>, s')"
proof -
  have "dy_deactivated r"
    by (rule changed_deactivated [OF assms(1,2)])
  with assms(1) obtain g1 h1 reason actor agent where d:
    "deactivate_request a = Inr (g1, h1, reason, actor, False)" "deactivable_agent s g1 h1 = Inr agent" "idle s g1"
    "if ag_online_state agent = ''online''
     then deactivate_online now u g1 h1 reason actor agent (deactivation_blockers s g1) s = Inr (r, s')
     else deactivate_offline g1 h1 agent (deactivation_blockers s g1) s = Inr (r, s')"
    by (rule deactivate_agent_Inr)
  note q = request_ids [OF d(1)] and q' = request_ids [OF assms(5)] and ag = deactivable_agentD [OF d(2)]
  have gh: "g1 = g" "h1 = h" using q(1,2) q'(1,2) assms(6,7) by simp_all
  have on: "ag_online_state agent = ''online''"
    using d(4) assms(2) by (auto simp: deactivate_offline_def bindE_eq_Inr split: if_split_asm)
  with d(4) have x: "deactivate_online now u g h reason actor agent (deactivation_blockers s g) s = Inr (r, s')"
    by (simp add: gh)
  obtain e where e: "dy_event r = Some e" "deactivation_rows s' g = deactivation_rows s g @ [e]"
    "validated_deactivation_events s' g h = Inr (deactivation_rows s' g)" "dget (dict_of (ev_payload e)) ''reason'' = PyStr reason"
    by (rule chain_extended [OF x ag(1) [unfolded gh] on assms(3) q(3,4) assms(4)])
  obtain e' where s': "s' = s\<lparr>db_agents := map (switch_off now g h) (db_agents s), db_events := db_events s @ [e']\<rparr>"
    "r = \<lparr>dy_agent = switch_off now g h agent, dy_changed = True, dy_deactivated = True, dy_dry_run = False,
       dy_blocked = False, dy_reason = PyStr reason, dy_blockers = deactivation_blockers s g, dy_event = Some e', dy_event_created = True\<rparr>"
    by (rule deactivate_online_Inr [OF x ag(1) [unfolded gh]]) simp
  have again: "deactivable_agent s' g h = Inr (switch_off now g h agent)" "idle s' g"
    "deactivation_blockers s' g = deactivation_blockers s g"
    using deactivable_after [OF d(2) [unfolded gh] on, where now = now] d(3) gh idle_same [of s' s g] blockers_same [of s' s g]
    by (simp_all add: s'(1))
  have off: "ag_online_state (switch_off now g h agent) = ''offline''"
    using on ag(3) get_agent_id [OF ag(1)] by (simp add: switch_off_def gh)
  show ?thesis
    unfolding deactivate_not_blocked [OF assms(5) again(1,2)] off again(3) deactivate_offline_def e(3) bindE_simps e(2)
    using e(1,4) s'(2) by simp
qed

theorem deactivation_idempotent_witness:
  "\<exists>r s'. deactivate_agent 86400 (''e1'', 86400) (off_args ''h'') seat_db = Inr (r, s') \<and>
     deactivate_agent 86500 (''e2'', 86500) (off_args ''h'') s' = Inr (r\<lparr>dy_changed := False, dy_event_created := False\<rparr>, s')"
proof -
  obtain r s' where d: "deactivate_agent 86400 (''e1'', 86400) (off_args ''h'') seat_db = Inr (r, s')" "dy_changed r"
    using seat_off by blast
  have "deactivate_agent 86500 (''e2'', 86500) (off_args ''h'') s' = Inr (r\<lparr>dy_changed := False, dy_event_created := False\<rparr>, s')"
    by (rule deactivation_idempotent [OF d _ _ off_request(1)]) (simp_all add: off_request in_calendar_def)
  with d(1) show ?thesis by blast
qed


definition seat_claim :: claim_args where
  "seat_claim = \<lparr>ca_agent_id = PyStr ''a'', ca_recoverable = False, ca_ttl = PyNone, ca_recovery_reason = PyNone,
     ca_stopped = PyNone, ca_reap_mode = PyStr ''global'', ca_reap_reason = PyNone, ca_request_id = PyNone\<rparr>"

lemma seat_claim_sel [simp]: "ca_agent_id seat_claim = PyStr ''a''" "ca_reap_mode seat_claim = PyStr ''global''"
  "ca_reap_reason seat_claim = PyNone" "ca_request_id seat_claim = PyNone" "ca_recoverable seat_claim = False"
  by (simp_all add: seat_claim_def)

text \<open>
  The agent of \<open>lapsed_db\<close> has a job that timed out and may be recovered; in \<open>spent_db\<close> the job was claimed
  once more and timed out without that, so that the agent can be deactivated.
\<close>

definition lapsed_job :: job_row where
  "lapsed_job = \<lparr>jb_id = ''j1'', jb_workspace_id = Some ''w1'', jb_task_id = None, jb_runner_profile_id = Some ''a'',
     jb_assigned_agent = Some ''a'', jb_status = ''timed_out'', jb_prompt_path = None, jb_branch = None, jb_worktree_path = None,
     jb_terminal_session_id = None, jb_logs_path = None, jb_attempt_count = 1, jb_timeout_seconds = None,
     jb_payload_json = Some (PyDict [(''origin'', PyDict [(''session_scope_id'', PyStr ''s'')])]), jb_result_json = None, jb_created_at = 1, jb_started_at = None,
     jb_completed_at = None, jb_last_activity_at = None, jb_progress_json = None, jb_recoverable = True, jb_updated_at = 1\<rparr>"

definition lapsed_db :: db where
  "lapsed_db = empty_db\<lparr>db_workspaces := [sample_ws], db_agents := [registered_row 1 ''a'' ''h1'' ''agentd'' []],
     db_profiles := [\<lparr>pf_workspace_id = ''w1'', pf_host_id = ''h1'', pf_workspace_path = ''/srv/repo'', pf_harness_root = None,
       pf_worktree_roots = None, pf_created_at = 1, pf_updated_at = 1\<rparr>],
     db_jobs := [lapsed_job]\<rparr>"

definition spent_db :: db where
  "spent_db = lapsed_db\<lparr>db_jobs := [lapsed_job\<lparr>jb_attempt_count := 2, jb_recoverable := False\<rparr>]\<rparr>"

definition stale_claim :: claim_args where
  "stale_claim = seat_claim\<lparr>ca_recoverable := True\<rparr>"

definition stale_env :: claim_env where
  "stale_env = \<lparr>cl_now = 5, cl_reap = (\<lambda>n. ((''x'', 5), (''y'', 5))), cl_count_now = 6, cl_lease_uuid = ''l1'', cl_reserve_now = 7,
     cl_reserve_count_now = 8, cl_claimed = (''e2'', 8), cl_marker = (''e3'', 8), cl_server_now = 9\<rparr>"

lemma stale_mode: "ca_reap_mode stale_claim = PyStr ''global''" "ca_recoverable stale_claim"
  by (simp_all add: stale_claim_def)

lemma lapsed_sel [simp]: "jb_id lapsed_job = ''j1''" "jb_status lapsed_job = ''timed_out''" "jb_attempt_count lapsed_job = 1"
  "jb_workspace_id lapsed_job = Some ''w1''" "jb_assigned_agent lapsed_job = Some ''a''" "jb_recoverable lapsed_job"
  by (simp_all add: lapsed_job_def)

lemma spent_sel [simp]: "db_agents spent_db = [registered_row 1 ''a'' ''h1'' ''agentd'' []]" "db_events spent_db = []"
  "db_leases spent_db = []" "db_jobs spent_db = [lapsed_job\<lparr>jb_attempt_count := 2, jb_recoverable := False\<rparr>]"
  "db_workspaces spent_db = [sample_ws]" "db_profiles spent_db = db_profiles lapsed_db"
  by (simp_all add: spent_db_def lapsed_db_def empty_db_def)

lemma spent_agent: "deactivable_agent spent_db ''a'' ''h1'' = Inr (registered_row 1 ''a'' ''h1'' ''agentd'' [])" "idle spent_db ''a''"
  by (simp_all add: deactivable_agentI get_agent_def registered_row_def idle_def)

lemma spent_off:
  "\<exists>r s'. deactivate_agent 5 (''e1'', 5) (off_args ''h1'') spent_db = Inr (r, s') \<and> dy_deactivated r \<and>
     map ev_id (db_events s') = [''e1''] \<and> db_jobs s' = db_jobs spent_db \<and> db_workspaces s' = db_workspaces spent_db \<and>
     db_profiles s' = db_profiles spent_db"
proof -
  have q: "deactivate_request (off_args ''h1'') = Inr (''a'', ''h1'', ''done'', ''op'', False)" by code_simp
  have "validated_deactivation_events spent_db ''a'' ''h1'' = Inr []"
    by (simp add: validated_deactivation_events_def deactivation_rows_def)
  then show ?thesis
    unfolding deactivate_not_blocked [OF q spent_agent]
    by (simp add: deactivate_online_def registered_row_def append_with_def append_event_def insert_event_def workspace_fk_def
      agent_event_def rowcount_def event_of_def Let_def read_agent_def get_agent_def switch_off_def event_key_def
      deactivated_key_def)
qed

lemma stale_claim_granted:
  "\<exists>r s' y t. deactivate_agent 5 (''e1'', 5) (off_args ''h1'') spent_db = Inr (r, s') \<and> dy_deactivated r \<and>
     claim_job ctx_H stale_env stale_claim lapsed_db s' = Inr (y, t) \<and> cy_claimed y \<and> \<not> cy_replayed y"
proof -
  obtain r s' where d: "deactivate_agent 5 (''e1'', 5) (off_args ''h1'') spent_db = Inr (r, s')" "dy_deactivated r"
    "map ev_id (db_events s') = [''e1'']" "db_jobs s' = [lapsed_job\<lparr>jb_attempt_count := 2, jb_recoverable := False\<rparr>]"
    "db_workspaces s' = [sample_ws]" "db_profiles s' = db_profiles lapsed_db"
    using spent_off by auto
  have q: "claim_request ctx_H stale_claim lapsed_db = Inr (''a'', ''h1'', None)" by code_simp
  have b: "resolve_exact_executor_binding ctx_H lapsed_db ''a'' = Inr None" by code_simp
  have queue: "claim_queue (ca_recoverable stale_claim) ''a'' lapsed_db = [lapsed_job]"
    by (simp add: claim_queue_def lapsed_db_def claimable_def stale_claim_def)
  have "is_ok (bindE (legacy_context ctx_H lapsed_db lapsed_job ''a'' ''h1'') (\<lambda>c. check_worktree_containment_policy (ec_worktree_path c) ''/srv/repo'' []))"
    by code_simp
  then obtain ctx w where c: "legacy_context ctx_H lapsed_db lapsed_job ''a'' ''h1'' = Inr ctx"
    "check_worktree_containment_policy (ec_worktree_path ctx) ''/srv/repo'' [] = Inr w" by (auto simp: is_ok_iff bindE_eq_Inr)
  let ?f = "claim_job_row 5 2 (dset ''execution_context'' (to_dict ctx) (job_payload lapsed_job))"
  let ?x = "lapsed_job\<lparr>jb_attempt_count := 2, jb_recoverable := False\<rparr>"
  let ?s = "s'\<lparr>db_jobs := [?f ?x]\<rparr>"
  have u: "update_where (\<lambda>x. jb_id x = ''j1'' \<and> jb_status x = ''timed_out'') ?f (db_jobs s') = [?f ?x]"
    and rc: "\<not> rowcount (\<lambda>x. jb_id x = ''j1'' \<and> jb_status x = ''timed_out'') (db_jobs s') = 0"
    by (simp_all add: d(4) update_where_def rowcount_0_iff)
  have "get_workspace_host_profile lapsed_db ''w1'' ''h1'' = Inr (Some \<lparr>hp_workspace_id = ''w1'', hp_host_id = ''h1'',
      hp_workspace_path = ''/srv/repo'', hp_harness_root = None, hp_worktree_roots = []\<rparr>)" by code_simp
  then have p: "get_workspace_host_profile s' ''w1'' ''h1'' = Inr (Some \<lparr>hp_workspace_id = ''w1'', hp_host_id = ''h1'',
      hp_workspace_path = ''/srv/repo'', hp_harness_root = None, hp_worktree_roots = []\<rparr>)"
    by (simp add: get_workspace_host_profile_def d(6))
  have ro: "routing_claim_evidence ctx_H (job_payload lapsed_job) lapsed_job = Inr []" by code_simp
  have n: "cl_now stale_env = 5" "fst (cl_claimed stale_env) = ''e2''" by (simp_all add: stale_env_def)
  have "set (map ev_id (db_events s')) = {''e1''}" unfolding d(3) by simp
  then have w: "fst (cl_claimed stale_env) \<notin> ev_id ` set (db_events ?s)" "workspace_fk ?s (jb_workspace_id lapsed_job)"
    by (simp_all add: n workspace_fk_def workspace_exists_def d(5) sample_ws_def)
  obtain x t where e: "append_with (cl_claimed stale_env) (claim_key ''j1'' 2)
      (job_event ''job.claimed'' ''a'' (Some ''a'') lapsed_job (legacy_event_payload lapsed_job ''a'' ctx [])) ?s = Inr (x, t)"
    using append_with_total [OF w] by blast
  have "db_jobs t = [?f ?x]" using e by (cases x) (auto simp: append_with_def dest!: append_event_prefix)
  then have g: "get_job t ''j1'' = Inr (?f ?x)" by (simp add: get_job_def find_job_def claim_job_row_def)
  have "claim_legacy_tx ctx_H stale_env stale_claim ''a'' ''h1'' None lapsed_job ctx s' =
      Inr (claimed_reply (?f ?x) (jb_attempt_count (?f ?x)) ctx PyNone False, t)"
    using p c(2) ro e g u rc n(1)
    by (simp add: replay_request_def claim_legacy_tx_def Let_def append_claim_request_marker_def)
  then have "claim_job ctx_H stale_env stale_claim lapsed_db s' = Inr (claimed_reply (?f ?x) (jb_attempt_count (?f ?x)) ctx PyNone False, t)"
    by (simp add: claim_job_def q replay_request_def b stale_mode queue [simplified stale_mode] c(1))
  moreover have "cy_claimed (claimed_reply (?f ?x) (jb_attempt_count (?f ?x)) ctx PyNone False)"
    "\<not> cy_replayed (claimed_reply (?f ?x) (jb_attempt_count (?f ?x)) ctx PyNone False)" by (simp_all add: claimed_reply_def)
  ultimately show ?thesis using d(1,2) by blast
qed


text \<open>
  The exception happens: an agent is deactivated, and a claim of it that had read the job before then takes the
  timed out job, although the job may no longer be recovered and the agent is off.
\<close>

theorem deactivated_agent_takes_stale_job:
  "\<exists>r s' y t. deactivate_agent 5 (''e1'', 5) (off_args ''h1'') spent_db = Inr (r, s') \<and> dy_deactivated r \<and>
     claim_job ctx_H stale_env stale_claim lapsed_db s' = Inr (y, t) \<and> cy_claimed y \<and> \<not> cy_replayed y"
  by (rule stale_claim_granted)
text \<open>
  C39: An agent that was deactivated on one host and then registered on another cannot be deactivated
  again: its audit events name the first host, and the chain is checked against the second.
\<close>

theorem moved_agent_stays_online:
  assumes "deactivate_agent now u a s = Inr (r, s1)" "dy_changed r" "validate_id (PyStr (fst u)) = Inr (fst u)" "in_calendar now"
    "register_agent now1 u1 g h' caps ''agentd'' actor1 s1 = (Inr y, s2)"
    "deactivate_request a' = Inr (g, h', reason', actor', False)" "dx_agent_id a' = dx_agent_id a" "dx_host_id a = PyStr h" "h' \<noteq> h"
  shows "deactivate_agent now' u' a' s2 = raise RuntimeErr ''invalid agent.deactivated audit chain''"
proof -
  have "dy_deactivated r"
    by (rule changed_deactivated [OF assms(1,2)])
  with assms(1) obtain g1 h1 reason actor agent where d:
    "deactivate_request a = Inr (g1, h1, reason, actor, False)" "deactivable_agent s g1 h1 = Inr agent" "idle s g1"
    "if ag_online_state agent = ''online''
     then deactivate_online now u g1 h1 reason actor agent (deactivation_blockers s g1) s = Inr (r, s1)
     else deactivate_offline g1 h1 agent (deactivation_blockers s g1) s = Inr (r, s1)"
    by (rule deactivate_agent_Inr)
  note q = request_ids [OF d(1)] and q' = request_ids [OF assms(6)] and ag = deactivable_agentD [OF d(2)]
  have h1: "h1 = h" using q(2) assms(8) by (auto simp: validate_id_def bounded_text_def split: if_split_asm)
  have g1: "g1 = g" using q(1) q'(1) assms(7) by simp
  have on: "ag_online_state agent = ''online''"
    using d(4) assms(2) by (auto simp: deactivate_offline_def bindE_eq_Inr split: if_split_asm)
  with d(4) have x: "deactivate_online now u g h reason actor agent (deactivation_blockers s g) s = Inr (r, s1)"
    by (simp add: g1 h1)
  obtain e where e: "deactivation_rows s1 g = deactivation_rows s g @ [e]"
    "validated_deactivation_events s1 g h = Inr (deactivation_rows s1 g)"
    by (rule chain_extended [OF x ag(1) [unfolded g1] on assms(3) q(3,4) assms(4)])
  then obtain e0 es where rows: "deactivation_rows s1 g = e0 # es" by (metis append_is_Nil_conv list.exhaust not_Cons_self2)
  have "check_deactivation g h 1 None e0 = Inr ()"
    using e(2) by (auto simp: validated_deactivation_events_def rows bindE_eq_Inr)
  note other = other_host_chain [OF this assms(9)]
  note p = registered_post [OF assms(5)]
  obtain es' where "deactivation_rows s2 g = e0 # es'"
    using p(4) deactivation_rows_append [of s2 s1 _ g] rows by auto
  then have v: "validated_deactivation_events s2 g h' = raise RuntimeErr ''invalid agent.deactivated audit chain''"
    using other by (simp add: validated_deactivation_events_def)
  obtain b where b: "get_agent s2 g = Some b" "ag_online_state b = ''online''" "ag_host_id b = Some h'" "ag_client_type b = Some ''agentd''"
    using p(1) by blast
  have "deactivable_agent s2 g h' = Inr b" using b q'(5) by (intro deactivable_agentI) simp_all
  moreover have "idle s2 g"
    using d(3) p(2,3) x by (auto simp: g1 idle_def elim!: deactivate_online_Inr [OF _ ag(1) [unfolded g1]])
  ultimately show ?thesis
    using deactivate_not_blocked [OF assms(6)] b(2) v by (simp add: deactivate_online_def)
qed

theorem moved_agent_stays_online_witness:
  "\<exists>r s1 y s2. deactivate_agent 86400 (''e1'', 86400) (off_args ''h'') seat_db = Inr (r, s1) \<and>
     register_agent 86500 (''e2'', 86500) ''a'' ''h2'' [] ''agentd'' ''op'' s1 = (Inr y, s2) \<and>
     deactivate_agent 86600 (''e3'', 86600) (off_args ''h2'') s2 = raise RuntimeErr ''invalid agent.deactivated audit chain''"
proof -
  obtain r s1 where d: "deactivate_agent 86400 (''e1'', 86400) (off_args ''h'') seat_db = Inr (r, s1)" "dy_changed r"
    and ev: "map ev_id (db_events s1) = [''e1'']" "map ev_idempotency_key (db_events s1) = [deactivated_key ''a'' 1]"
    using seat_off by (elim exE conjE) (rule that)
  obtain y s2 where reg: "register_agent 86500 (''e2'', 86500) ''a'' ''h2'' [] ''agentd'' ''op'' s1 = (Inr y, s2)"
    using seat_registers [OF ev] by blast
  have "deactivate_agent 86600 (''e3'', 86600) (off_args ''h2'') s2 = raise RuntimeErr ''invalid agent.deactivated audit chain''"
    by (rule moved_agent_stays_online [OF d _ _ reg off_request(2), where h = "''h''"]) (simp_all add: off_request in_calendar_def)
  with d(1) reg show ?thesis by blast
qed

end
