(* ===== verification/RuntimeRequests.thy ===== *)
theory RuntimeRequests
  imports RuntimeAgents
begin

text \<open>
  The submission of a request (\<open>submit_request\<close> of \<^verbatim>\<open>runtime.py\<close>): an event under an idempotency key
  and a job named after it, either for an agent that the caller names (exact) or for one that
  routing selects (routed). A key that is taken is a replay: the stored event and job are checked
  against the arguments and returned. The reads before the transaction see the database \<open>s0\<close>, the
  transaction finds \<open>s\<close>. \<open>A\<close> is \<open>_absolute_path\<close>.
\<close>

section \<open>Arguments and keys\<close>

text \<open>A \<open>RoutingRequest\<close> is given as its dict, which the code parses again.\<close>

record submit_args =
  sb_workspace_id :: string
  sb_target_agent :: "string option"
  sb_prompt :: string
  sb_origin :: pyval
  sb_reply :: pyval
  sb_actor :: string
  sb_task_id :: "string option"
  sb_idempotency_key :: "string option"
  sb_routing_request :: "pyval option"
  sb_worktree_path :: "string option"

record submit_env =
  se_event :: stamp
  se_job_now :: timestamp
  se_registry_now :: timestamp
  se_liveness_now :: timestamp

record request_reply =
  rq_event :: event_row
  rq_event_created :: bool
  rq_job :: job_row
  rq_job_created :: bool

definition origin_text :: "fields \<Rightarrow> string" where
  "origin_text origin = py_str (dget origin ''platform'') @ '':'' @ py_str (dget origin ''destination'') @ '':''"

definition request_key :: "string \<Rightarrow> string \<Rightarrow> fields \<Rightarrow> string result" where
  "request_key workspace_id target_agent origin =
     (if \<not> truthy (dget origin ''message_id'') then raise RuntimeErr ''origin.message_id is required''
      else Inr (''runtime:request:'' @ workspace_id @ '':'' @ origin_text origin @ py_str (dget origin ''message_id'') @
                '':'' @ target_agent))"

definition routed_request_key :: "string \<Rightarrow> routing_request \<Rightarrow> fields \<Rightarrow> string" where
  "routed_request_key workspace_id r origin =
     ''runtime:request:'' @ workspace_id @ '':'' @ origin_text origin @
       (case map_of origin ''message_id'' of None \<Rightarrow> [] | Some m \<Rightarrow> py_str m) @ '':'' @ rq_routing_request_id r"

text \<open>The \<open>if ...: raise RuntimeError(...)\<close> checks of a replay, in their order.\<close>

fun first_conflict :: "(bool \<times> string) list \<Rightarrow> unit result" where
  "first_conflict [] = Inr ()"
| "first_conflict ((bad, msg) # checks) = (if bad then raise RuntimeErr msg else first_conflict checks)"

section \<open>The execution context of a request\<close>

text \<open>\<open>row_to_dict\<close> of a task mirror.\<close>

definition mirror_dict :: "task_row \<Rightarrow> fields" where
  "mirror_dict t = dpop ''payload_json'' (task_dict t) @ [(''payload'', tk_payload t)]"

definition submit_task :: "db \<Rightarrow> string \<Rightarrow> string option \<Rightarrow> fields option result" where
  "submit_task s workspace_id task_id =
     (case task_id of
        None \<Rightarrow> Inr None
      | Some t \<Rightarrow> (case get_task_mirror s workspace_id t of
          None \<Rightarrow> raise RuntimeErr ''task mirror not found'' | Some r \<Rightarrow> Inr (Some (mirror_dict r))))"

definition resolve_submit_context ::
  "(string \<Rightarrow> string) \<Rightarrow> db \<Rightarrow> string \<Rightarrow> string \<Rightarrow> string option \<Rightarrow> pyval \<Rightarrow> string \<Rightarrow> string option \<Rightarrow> execution_context result" where
  "resolve_submit_context H s workspace_id target_agent task_id origin job_id worktree_path =
     (case or_str (agent_host_id s target_agent) None of
        None \<Rightarrow> raise RuntimeErr ''agent has no host_id''
      | Some host_id \<Rightarrow>
          bindE (get_workspace_host_profile s workspace_id host_id) (\<lambda>p.
          case p of
            None \<Rightarrow> raise RuntimeErr ''workspace has no host profile for host''
          | Some profile \<Rightarrow>
              bindE (submit_task s workspace_id task_id) (\<lambda>task.
              case get_workspace s workspace_id of
                None \<Rightarrow> raise AttributeErr ''id''
              | Some ws \<Rightarrow> reraise ContextErr RuntimeErr ''invalid execution context''
                  (resolve_execution_context_v1 H job_id ws task target_agent host_id profile origin None worktree_path None))))"

section \<open>Exact requests\<close>

definition compare_bindings :: "pyval \<Rightarrow> fields option \<Rightarrow> unit result" where
  "compare_bindings stored current =
     (case current of
        None \<Rightarrow> raise RuntimeErr ''executor_binding was removed from the catalog''
      | Some cur \<Rightarrow>
          (case as_dict stored of
             None \<Rightarrow> raise AttributeErr ''keys''
           | Some d \<Rightarrow>
               bindE (binding_snapshot_canonical_dict d) (\<lambda>x. bindE (binding_snapshot_canonical_dict cur) (\<lambda>y.
                 first_conflict [(\<not> py_eq (PyDict x) (PyDict y), ''executor_binding conflicts with stored snapshot'')]))))"

text \<open>The payload of an event, of which \<open>_job_payload\<close> keeps only an object.\<close>

definition event_fields :: "event_row \<Rightarrow> fields" where
  "event_fields e = dict_of (ev_payload e)"

definition exact_event_conflicts :: "submit_args \<Rightarrow> string \<Rightarrow> string option \<Rightarrow> event_row \<Rightarrow> (bool \<times> string) list" where
  "exact_event_conflicts a target worktree e =
     (let p = event_fields e in
      [(ev_event_type e \<noteq> ''request.received'', ''idempotency key conflicts with existing non-request event''),
       (ev_workspace_id e \<noteq> Some (sb_workspace_id a), ''stored event workspace_id conflicts''),
       (ev_target e \<noteq> Some target, ''stored event target conflicts''),
       (dget p ''target_agent'' \<noteq> PyStr target, ''stored event payload target_agent conflicts''),
       (dget p ''prompt'' \<noteq> PyStr (sb_prompt a), ''prompt conflicts with stored event''),
       (dget p ''worktree_path'' \<noteq> opt_str worktree, ''worktree_path conflicts with stored event''),
       (dget p ''routing_request'' \<noteq> PyNone \<or> dget p ''routing_decision'' \<noteq> PyNone, ''key conflicts with routed request'')])"

definition exact_job_conflicts :: "submit_args \<Rightarrow> string \<Rightarrow> string option \<Rightarrow> event_row \<Rightarrow> job_row \<Rightarrow> (bool \<times> string) list" where
  "exact_job_conflicts a target worktree e j =
     (let p = job_payload j in
      [(jb_workspace_id j \<noteq> Some (sb_workspace_id a), ''stored job workspace_id conflicts''),
       (jb_assigned_agent j \<noteq> Some target, ''stored job assignment conflicts''),
       (jb_worktree_path j \<noteq> worktree, ''stored job worktree_path conflicts''),
       (dget p ''request_event_id'' \<noteq> PyStr (ev_id e), ''stored job request_event_id conflicts with event''),
       (dget p ''prompt'' \<noteq> PyStr (sb_prompt a), ''prompt conflicts with stored job''),
       (\<not> py_eq (dget p ''reply'') (sb_reply a), ''reply conflicts with stored job'')])"

text \<open>Origin, reply and task of the event and of the job; a job without a snapshot has its own order.\<close>

definition exact_origin_conflicts :: "submit_args \<Rightarrow> event_row \<Rightarrow> job_row \<Rightarrow> (bool \<times> string) list" where
  "exact_origin_conflicts a e j =
     (let job_origin = (\<not> py_eq (dget (job_payload j) ''origin'') (sb_origin a), ''origin conflicts with stored job'');
          event = [(\<not> py_eq (dget (event_fields e) ''origin'') (sb_origin a), ''origin conflicts with stored event''),
                   (\<not> py_eq (dget (event_fields e) ''reply'') (sb_reply a), ''reply conflicts with stored event''),
                   (dget (event_fields e) ''task_id'' \<noteq> opt_str (sb_task_id a), ''task_id conflicts with stored event'')];
          rows = [(ev_task_id e \<noteq> sb_task_id a, ''event row task_id conflicts with request''),
                  (jb_task_id j \<noteq> sb_task_id a, ''stored job task_id conflicts with request'')]
      in if dget (job_payload j) ''execution_context'' \<noteq> PyNone then job_origin # event @ rows
         else event @ job_origin # rows)"

definition replay_context ::
  "(string \<Rightarrow> string) \<Rightarrow> db \<Rightarrow> submit_args \<Rightarrow> string \<Rightarrow> pyval \<Rightarrow> string \<Rightarrow> string option \<Rightarrow> unit result" where
  "replay_context H s a target stored job_id worktree =
     bindE (resolve_submit_context H s (sb_workspace_id a) target (sb_task_id a) (sb_origin a) job_id worktree) (\<lambda>ctx.
     bindE (execution_context_dict_matches H stored (to_dict ctx)) (\<lambda>same.
       first_conflict [(\<not> same, ''execution_context conflicts with stored snapshot'')]))"

definition request_job_id :: "event_row \<Rightarrow> string" where
  "request_job_id e = ''request:'' @ ev_id e"

definition replay_exact_request ::
  "(string \<Rightarrow> string) \<Rightarrow> db \<Rightarrow> submit_args \<Rightarrow> string \<Rightarrow> string option \<Rightarrow> event_row \<Rightarrow> request_reply result" where
  "replay_exact_request H s a target worktree e =
     bindE (first_conflict (exact_event_conflicts a target worktree e)) (\<lambda>_.
     case find_job s (request_job_id e) of
       None \<Rightarrow> raise RuntimeErr ''stored event exists but job is missing''
     | Some j \<Rightarrow>
         bindE (first_conflict (exact_job_conflicts a target worktree e j)) (\<lambda>_.
         bindE (if dget (job_payload j) ''execution_context'' = PyNone then Inr ()
                else replay_context H s a target (dget (job_payload j) ''execution_context'') (request_job_id e) worktree) (\<lambda>_.
         bindE (first_conflict (exact_origin_conflicts a e j)) (\<lambda>_.
         bindE (if dget (job_payload j) ''execution_context'' = PyNone \<or> dget (job_payload j) ''executor_binding'' = PyNone then Inr ()
                else bindE (resolve_exact_executor_binding H s target) (compare_bindings (dget (job_payload j) ''executor_binding''))) (\<lambda>_.
           Inr \<lparr>rq_event = e, rq_event_created = False, rq_job = j, rq_job_created = False\<rparr>)))))"

text \<open>The job row that is there although its event is new.\<close>

definition existing_exact_job ::
  "(string \<Rightarrow> string) \<Rightarrow> db \<Rightarrow> submit_args \<Rightarrow> string \<Rightarrow> string option \<Rightarrow> fields option \<Rightarrow> string \<Rightarrow> job_row \<Rightarrow> unit result" where
  "existing_exact_job H s a target worktree binding job_id j =
     (let p = job_payload j in
      if dget p ''execution_context'' \<noteq> PyNone
      then bindE (replay_context H s a target (dget p ''execution_context'') job_id worktree) (\<lambda>_.
           bindE (first_conflict
             [(dget p ''prompt'' \<noteq> PyStr (sb_prompt a), ''prompt conflicts with stored job''),
              (\<not> py_eq (dget p ''origin'') (sb_origin a), ''origin conflicts with stored job''),
              (\<not> py_eq (dget p ''reply'') (sb_reply a), ''reply conflicts with stored job'')]) (\<lambda>_.
           if dget p ''executor_binding'' = PyNone then Inr () else compare_bindings (dget p ''executor_binding'') binding))
      else first_conflict
        [(\<not> py_eq (dget p ''origin'') (sb_origin a), ''origin conflicts with stored job''),
         (jb_task_id j \<noteq> sb_task_id a, ''task_id conflicts with stored job''),
         (dget p ''prompt'' \<noteq> PyStr (sb_prompt a), ''prompt conflicts with stored job''),
         (\<not> py_eq (dget p ''reply'') (sb_reply a), ''reply conflicts with stored job'')])"

definition exact_event_payload :: "submit_args \<Rightarrow> string \<Rightarrow> string option \<Rightarrow> fields" where
  "exact_event_payload a target worktree =
     [(''target_agent'', PyStr target), (''prompt'', PyStr (sb_prompt a)), (''origin'', sb_origin a),
      (''reply'', sb_reply a), (''task_id'', opt_str (sb_task_id a))] @
     (case worktree of None \<Rightarrow> [] | Some w \<Rightarrow> [(''worktree_path'', PyStr w)])"

definition request_event :: "submit_args \<Rightarrow> string \<Rightarrow> fields \<Rightarrow> new_event" where
  "request_event a target payload =
     \<lparr>ne_event_type = ''request.received'', ne_actor = sb_actor a, ne_workspace_id = Some (sb_workspace_id a),
      ne_target = Some target, ne_task_id = sb_task_id a, ne_causation_id = None, ne_payload = PyDict payload\<rparr>"

definition request_job :: "submit_args \<Rightarrow> string \<Rightarrow> string \<Rightarrow> string option \<Rightarrow> bool \<Rightarrow> fields \<Rightarrow> new_job" where
  "request_job a target runner worktree authoritative payload =
     \<lparr>nj_workspace_id = Some (sb_workspace_id a), nj_task_id = sb_task_id a, nj_runner_profile_id = Some runner,
      nj_assigned_agent = Some target, nj_prompt_path = None, nj_branch = None, nj_worktree_path = worktree,
      nj_terminal_session_id = None, nj_logs_path = None, nj_timeout_seconds = None, nj_payload = PyDict payload,
      nj_authoritative_worktree_path = authoritative\<rparr>"

definition base_job_payload :: "submit_args \<Rightarrow> string \<Rightarrow> execution_context \<Rightarrow> fields" where
  "base_job_payload a event_id ctx =
     [(''prompt'', PyStr (sb_prompt a)), (''origin'', sb_origin a), (''reply'', sb_reply a),
      (''request_event_id'', PyStr event_id), (''execution_context'', to_dict ctx)]"

text \<open>A path under the control root is resolved on the control host; any other is taken as normalised.\<close>

definition submit_worktree ::
  "(string \<Rightarrow> string) \<Rightarrow> (string option \<Rightarrow> string \<Rightarrow> string) \<Rightarrow> db \<Rightarrow> submit_args \<Rightarrow> string \<Rightarrow> execution_context
   \<Rightarrow> (string option \<times> bool) result" where
  "submit_worktree H A s a target ctx =
     (case sb_worktree_path a of
        None \<Rightarrow> Inr (None, False)
      | Some w \<Rightarrow>
          (case get_workspace s (sb_workspace_id a) of
             None \<Rightarrow> raise AttributeErr ''path''
           | Some ws \<Rightarrow>
               if classify_worktree_raw_path (ws_path ws) w = Control
               then bindE (resolve_submit_context H s (sb_workspace_id a) target (sb_task_id a) (sb_origin a)
                        ''request:preflight'' (Some (A None w))) (\<lambda>_. Inr (Some (A None w), False))
               else Inr (Some (ec_worktree_path ctx), True)))"

definition submit_exact_tx ::
  "(string \<Rightarrow> string) \<Rightarrow> (string option \<Rightarrow> string \<Rightarrow> string) \<Rightarrow> submit_env \<Rightarrow> submit_args \<Rightarrow> string \<Rightarrow> string \<Rightarrow> fields option
   \<Rightarrow> string option \<Rightarrow> bool \<Rightarrow> db \<Rightarrow> (request_reply \<times> db) result" where
  "submit_exact_tx H A env a target key binding worktree authoritative s =
     bindE (append_with (se_event env) key (request_event a target (exact_event_payload a target worktree)) s) (\<lambda>((e, created), s1).
     if \<not> created then bindE (replay_exact_request H s a target worktree e) (\<lambda>r. Inr (r, s))
     else case find_job s1 (request_job_id e) of
       Some j \<Rightarrow>
         bindE (existing_exact_job H s1 a target worktree binding (request_job_id e) j) (\<lambda>_.
           Inr (\<lparr>rq_event = e, rq_event_created = True, rq_job = j, rq_job_created = False\<rparr>, s1))
     | None \<Rightarrow>
         bindE (resolve_submit_context H s1 (sb_workspace_id a) target (sb_task_id a) (sb_origin a) (request_job_id e) worktree) (\<lambda>ctx.
         bindE (create_job A (request_job_id e) (se_job_now env)
             (request_job a target (case binding of None \<Rightarrow> target | Some b \<Rightarrow> str_of (dget b ''runner_profile_id''))
                worktree authoritative
                (base_job_payload a (ev_id e) ctx @
                 (case binding of None \<Rightarrow> [] | Some b \<Rightarrow> [(''executor_binding'', PyDict b)]))) s1) (\<lambda>(j, s2).
           Inr (\<lparr>rq_event = e, rq_event_created = True, rq_job = j, rq_job_created = True\<rparr>, s2))))"

definition submit_exact_request ::
  "(string \<Rightarrow> string) \<Rightarrow> (string option \<Rightarrow> string \<Rightarrow> string) \<Rightarrow> submit_env \<Rightarrow> submit_args \<Rightarrow> string \<Rightarrow> fields \<Rightarrow> db \<Rightarrow> db
   \<Rightarrow> (request_reply \<times> db) result" where
  "submit_exact_request H A env a target origin s0 s =
     bindE (read_agent s0 target) (\<lambda>_.
     bindE (case or_str (sb_idempotency_key a) None of
              Some k \<Rightarrow> Inr k | None \<Rightarrow> request_key (sb_workspace_id a) target origin) (\<lambda>key.
     bindE (resolve_exact_executor_binding H s0 target) (\<lambda>binding.
     bindE (resolve_submit_context H s0 (sb_workspace_id a) target (sb_task_id a) (sb_origin a) ''request:preflight''
         (sb_worktree_path a)) (\<lambda>ctx.
     bindE (submit_worktree H A s0 a target ctx) (\<lambda>(worktree, authoritative).
     case get_event_by_idempotency_key s0 key of
       Some e \<Rightarrow> bindE (replay_exact_request H s0 a target worktree e) (\<lambda>r. Inr (r, s))
     | None \<Rightarrow> submit_exact_tx H A env a target key binding worktree authoritative s)))))"

section \<open>Routed requests\<close>

definition routed_event_conflicts :: "submit_args \<Rightarrow> routing_request \<Rightarrow> event_row \<Rightarrow> (bool \<times> string) list" where
  "routed_event_conflicts a r e =
     (let p = event_fields e in
      [(ev_event_type e \<noteq> ''request.received'', ''idempotency key conflicts with existing non-request event''),
       (ev_workspace_id e \<noteq> Some (sb_workspace_id a), ''stored event workspace_id conflicts''),
       (ev_task_id e \<noteq> sb_task_id a, ''event row task_id conflicts with request''),
       (dget p ''prompt'' \<noteq> PyStr (sb_prompt a), ''prompt conflicts with stored event''),
       (\<not> py_eq (dget p ''origin'') (sb_origin a), ''origin conflicts with stored event''),
       (\<not> py_eq (dget p ''reply'') (sb_reply a), ''reply conflicts with stored event''),
       (dget p ''task_id'' \<noteq> opt_str (sb_task_id a), ''payload task_id conflicts with stored event''),
       (\<not> py_eq (dget p ''routing_request'') (routing_request_to_dict r), ''routing_request conflicts with stored event''),
       (as_dict (dget p ''routing_decision'') = None, ''routing_decision missing in stored event'')])"

definition routed_job_conflicts :: "submit_args \<Rightarrow> event_row \<Rightarrow> job_row \<Rightarrow> (bool \<times> string) list" where
  "routed_job_conflicts a e j =
     (let p = job_payload j in
      [(jb_workspace_id j \<noteq> Some (sb_workspace_id a), ''stored job workspace_id conflicts with event''),
       (jb_task_id j \<noteq> sb_task_id a, ''stored job task_id conflicts with request''),
       (dget p ''prompt'' \<noteq> PyStr (sb_prompt a), ''prompt conflicts with stored job''),
       (\<not> py_eq (dget p ''origin'') (sb_origin a), ''origin conflicts with stored job''),
       (\<not> py_eq (dget p ''reply'') (sb_reply a), ''reply conflicts with stored job''),
       (dget p ''request_event_id'' \<noteq> PyStr (ev_id e), ''stored job request_event_id conflicts with event''),
       (\<not> py_eq (dget p ''routing_request'') (dget (event_fields e) ''routing_request''), ''routing_request conflicts with stored job''),
       (\<not> py_eq (dget p ''routing_decision'') (dget (event_fields e) ''routing_decision''), ''routing_decision conflicts with stored job''),
       (dget p ''executor_binding'' = PyNone \<or> dget p ''execution_context'' = PyNone, ''routed job requires snapshots'')])"

definition replay_routed_request ::
  "(string \<Rightarrow> string) \<Rightarrow> db \<Rightarrow> submit_args \<Rightarrow> routing_request \<Rightarrow> event_row \<Rightarrow> request_reply result" where
  "replay_routed_request H s a r e =
     bindE (first_conflict (routed_event_conflicts a r e)) (\<lambda>_.
     bindE (reraise RoutingErr RuntimeErr ''invalid stored routing_decision''
         (validate_routing_decision H r (dget (event_fields e) ''routing_decision''))) (\<lambda>decision.
     bindE (first_conflict
       [(dget (event_fields e) ''target_agent'' \<noteq> dget decision ''selected_agent_id'', ''payload target_agent conflicts with stored decision''),
        (opt_str (ev_target e) \<noteq> dget decision ''selected_agent_id'', ''stored event target conflicts with stored decision'')]) (\<lambda>_.
     case find_job s (request_job_id e) of
       None \<Rightarrow> raise RuntimeErr ''stored event exists but job is missing''
     | Some j \<Rightarrow>
         bindE (first_conflict (routed_job_conflicts a e j)) (\<lambda>_.
         bindE (reraise RoutingErr RuntimeErr ''invalid routing cross-links''
             (validate_routing_cross_links decision j (dget (job_payload j) ''executor_binding'')
                (dget (job_payload j) ''execution_context''))) (\<lambda>_.
         bindE (case jb_assigned_agent j of None \<Rightarrow> Inr None | Some g \<Rightarrow> resolve_exact_executor_binding H s g) (\<lambda>current.
         bindE (compare_bindings (dget (job_payload j) ''executor_binding'') current) (\<lambda>_.
         bindE (replay_context H s a (case jb_assigned_agent j of None \<Rightarrow> [] | Some g \<Rightarrow> g)
             (dget (job_payload j) ''execution_context'') (request_job_id e) None) (\<lambda>_.
           Inr \<lparr>rq_event = e, rq_event_created = False, rq_job = j, rq_job_created = False\<rparr>))))))))"

definition routing_fields :: "routing_request \<Rightarrow> routing_decision \<Rightarrow> fields" where
  "routing_fields r d =
     [(''routing_request'', routing_request_to_dict r), (''routing_decision'', routing_decision_to_dict d)]"

definition routed_event_payload :: "submit_args \<Rightarrow> routing_request \<Rightarrow> routing_decision \<Rightarrow> fields" where
  "routed_event_payload a r d =
     [(''target_agent'', PyStr (cd_agent_id (dc_selected d))), (''prompt'', PyStr (sb_prompt a)), (''origin'', sb_origin a),
      (''reply'', sb_reply a), (''task_id'', opt_str (sb_task_id a))] @ routing_fields r d"

text \<open>
  \<open>next(c for c in candidates if c.agent_id == decision.selected_agent_id)\<close>; the decision selects one
  of the candidates, so there is a first.
\<close>

definition selected_candidate :: "candidate list \<Rightarrow> routing_decision \<Rightarrow> candidate" where
  "selected_candidate cs d =
     (case find (\<lambda>c. cd_agent_id c = cd_agent_id (dc_selected d)) cs of None \<Rightarrow> dc_selected d | Some c \<Rightarrow> c)"

definition submit_routed_tx ::
  "(string \<Rightarrow> string) \<Rightarrow> (string option \<Rightarrow> string \<Rightarrow> string) \<Rightarrow> submit_env \<Rightarrow> submit_args \<Rightarrow> string \<Rightarrow> routing_request
   \<Rightarrow> routing_decision \<Rightarrow> candidate \<Rightarrow> db \<Rightarrow> (request_reply \<times> db) result" where
  "submit_routed_tx H A env a key r d c s =
     bindE (append_with (se_event env) key (request_event a (cd_agent_id c) (routed_event_payload a r d)) s) (\<lambda>((e, created), s1).
     if \<not> created then bindE (replay_routed_request H s a r e) (\<lambda>y. Inr (y, s))
     else case find_job s1 (request_job_id e) of
       Some j \<Rightarrow>
         bindE (first_conflict
           [(\<not> py_eq (dget (job_payload j) ''routing_request'') (routing_request_to_dict r), ''routing_request conflicts with stored job''),
            (\<not> py_eq (dget (job_payload j) ''routing_decision'') (routing_decision_to_dict d), ''routing_decision conflicts with stored job'')])
           (\<lambda>_. Inr (\<lparr>rq_event = e, rq_event_created = True, rq_job = j, rq_job_created = False\<rparr>, s1))
     | None \<Rightarrow>
         bindE (resolve_submit_context H s1 (sb_workspace_id a) (cd_agent_id c) (sb_task_id a) (sb_origin a) (request_job_id e) None) (\<lambda>ctx.
         bindE (create_job A (request_job_id e) (se_job_now env)
             (request_job a (cd_agent_id c) (cd_runner_profile_id c) None False
                (base_job_payload a (ev_id e) ctx @
                 [(''executor_binding'', PyDict (cd_binding_snapshot c))] @ routing_fields r d)) s1) (\<lambda>(j, s2).
           Inr (\<lparr>rq_event = e, rq_event_created = True, rq_job = j, rq_job_created = True\<rparr>, s2))))"

definition submit_routed_request ::
  "(string \<Rightarrow> string) \<Rightarrow> (string option \<Rightarrow> string \<Rightarrow> string) \<Rightarrow> submit_env \<Rightarrow> submit_args \<Rightarrow> pyval \<Rightarrow> fields \<Rightarrow> db \<Rightarrow> db
   \<Rightarrow> (request_reply \<times> db) result" where
  "submit_routed_request H A env a routing origin s0 s =
     (case as_dict routing of
        None \<Rightarrow> raise RuntimeErr ''routing_request must be a dict or RoutingRequest''
      | Some _ \<Rightarrow>
          bindE (parse_routing_request H routing) (\<lambda>r.
          let key = (case or_str (sb_idempotency_key a) None of
                       Some k \<Rightarrow> k | None \<Rightarrow> routed_request_key (sb_workspace_id a) r origin)
          in case get_event_by_idempotency_key s0 key of
            Some e \<Rightarrow> bindE (replay_routed_request H s0 a r e) (\<lambda>y. Inr (y, s))
          | None \<Rightarrow>
              bindE (resolve_routing_candidates H (se_registry_now env) (se_liveness_now env) s0 (sb_workspace_id a) r) (\<lambda>cs.
              bindE (reraise RoutingErr RuntimeErr ''routing'' (select_routing_decision H r cs)) (\<lambda>d.
              let c = selected_candidate cs d in
              bindE (resolve_submit_context H s0 (sb_workspace_id a) (cd_agent_id c) (sb_task_id a) (sb_origin a)
                  ''request:preflight'' None) (\<lambda>_.
                submit_routed_tx H A env a key r d c s)))))"

section \<open>Submission\<close>

definition submit_request ::
  "(string \<Rightarrow> string) \<Rightarrow> (string option \<Rightarrow> string \<Rightarrow> string) \<Rightarrow> submit_env \<Rightarrow> submit_args \<Rightarrow> db \<Rightarrow> db
   \<Rightarrow> (request_reply \<times> db) result" where
  "submit_request H A env a s0 s =
     (if get_workspace s0 (sb_workspace_id a) = None then raise RuntimeErr ''unknown workspace''
      else if strip (sb_prompt a) = [] then raise RuntimeErr ''prompt is required''
      else
        bindE (validate_destination (sb_origin a)) (\<lambda>origin.
        bindE (validate_destination (sb_reply a)) (\<lambda>_.
        case (sb_target_agent a, sb_routing_request a) of
          (Some _, Some _) \<Rightarrow> raise RuntimeErr ''target_agent and routing_request are mutually exclusive''
        | (None, None) \<Rightarrow> raise RuntimeErr ''target_agent or routing_request is required''
        | (None, Some r) \<Rightarrow>
            if sb_worktree_path a \<noteq> None then raise RuntimeErr ''routed request does not support worktree_path''
            else submit_routed_request H A env a r origin s0 s
        | (Some target, None) \<Rightarrow> submit_exact_request H A env a target origin s0 s)))"

section \<open>Replays\<close>

lemma first_conflict_Inr: "first_conflict checks = Inr () \<longleftrightarrow> (\<forall>c \<in> set checks. \<not> fst c)"
proof (induction checks)
  case (Cons c checks)
  then show ?case by (cases c) simp
qed simp

lemma replay_exact_Inr:
  assumes "replay_exact_request H s a target worktree e = Inr r"
  shows "rq_event r = e" "\<not> rq_job_created r" "\<not> rq_event_created r" "find_job s (request_job_id e) = Some (rq_job r)"
    "first_conflict (exact_event_conflicts a target worktree e) = Inr ()"
    "first_conflict (exact_job_conflicts a target worktree e (rq_job r)) = Inr ()"
    "first_conflict (exact_origin_conflicts a e (rq_job r)) = Inr ()"
  using assms unfolding replay_exact_request_def by (auto split: option.splits)

lemma replay_routed_Inr:
  assumes "replay_routed_request H s a r e = Inr y"
  shows "rq_event y = e" "\<not> rq_job_created y" "\<not> rq_event_created y" "find_job s (request_job_id e) = Some (rq_job y)"
    "first_conflict (routed_event_conflicts a r e) = Inr ()" "first_conflict (routed_job_conflicts a e (rq_job y)) = Inr ()"
  using assms unfolding replay_routed_request_def by (auto split: option.splits)

text \<open>The key of a submission, and the two ways in which one returns: it replays the event of the key, or inserts it.\<close>

definition submit_key :: "(string \<Rightarrow> string) \<Rightarrow> submit_args \<Rightarrow> string result" where
  "submit_key H a =
     (case (sb_target_agent a, sb_routing_request a) of
        (Some target, None) \<Rightarrow>
          (case or_str (sb_idempotency_key a) None of Some k \<Rightarrow> Inr k
           | None \<Rightarrow> request_key (sb_workspace_id a) target (dict_of (sb_origin a)))
      | (None, Some v) \<Rightarrow>
          bindE (parse_routing_request H v) (\<lambda>r.
            Inr (case or_str (sb_idempotency_key a) None of Some k \<Rightarrow> k
                 | None \<Rightarrow> routed_request_key (sb_workspace_id a) r (dict_of (sb_origin a))))
      | _ \<Rightarrow> raise RuntimeErr ''one of target_agent and routing_request is required'')"

lemma submit_key_ne: "submit_key H a = Inr key \<Longrightarrow> key \<noteq> []"
  by (auto simp: submit_key_def or_str_def request_key_def routed_request_key_def
      split: option.splits prod.splits if_split_asm)

lemma validate_destination_dict: "validate_destination v = Inr d \<Longrightarrow> v = PyDict d"
  by (auto simp: validate_destination_def split: option.splits if_split_asm)

definition replays :: "submit_args \<Rightarrow> event_row \<Rightarrow> request_reply \<Rightarrow> bool" where
  "replays a e r \<longleftrightarrow> rq_event r = e \<and> \<not> rq_event_created r \<and> \<not> rq_job_created r"

lemma submit_exact_tx_Inr:
  assumes "submit_exact_tx H A env a target key binding worktree auth s = Inr (r, s')" "key \<noteq> []"
  shows "case get_event_by_idempotency_key s key of
      Some e \<Rightarrow> s' = s \<and> replays a e r
    | None \<Rightarrow> get_event_by_idempotency_key s' key = Some (rq_event r)"
proof -
  from assms(1) obtain e created s1 where ap: "append_with (se_event env) key (request_event a target (exact_event_payload a target worktree)) s =
      Inr ((e, created), s1)"
    unfolding submit_exact_tx_def by auto
  note t = assms(1) [unfolded submit_exact_tx_def ap bindE_simps prod.case]
  have key: "event_key x (Some key) = key" for x using assms(2) by (simp add: event_key_def)
  note c = ap [unfolded append_with_def append_event_cases key]
  show ?thesis
  proof (cases created)
    case False
    with t c show ?thesis using replay_exact_Inr by (auto simp: replays_def)
  next
    case True
    with c have k0: "get_event_by_idempotency_key s key = None" by (simp add: event_by_key_None)
    with True c have k: "get_event_by_idempotency_key s1 key = Some e" "db_events s1 = db_events s @ [e]"
      by (auto simp: event_by_key_append)
    have "rq_event r = e \<and> db_events s' = db_events s1"
      using t True by (auto simp: create_job_def Let_def split: option.splits if_split_asm)
    then have "get_event_by_idempotency_key s' key = Some (rq_event r)"
      using k(1) by (simp add: get_event_by_idempotency_key_def)
    with k0 show ?thesis by simp
  qed
qed

lemma submit_routed_tx_Inr:
  assumes "submit_routed_tx H A env a key q d c s = Inr (r, s')" "key \<noteq> []"
  shows "case get_event_by_idempotency_key s key of
      Some e \<Rightarrow> s' = s \<and> replays a e r
    | None \<Rightarrow> get_event_by_idempotency_key s' key = Some (rq_event r)"
proof -
  from assms(1) obtain e created s1 where ap: "append_with (se_event env) key
      (request_event a (cd_agent_id c) (routed_event_payload a q d)) s = Inr ((e, created), s1)"
    unfolding submit_routed_tx_def by auto
  note t = assms(1) [unfolded submit_routed_tx_def ap bindE_simps prod.case]
  have key: "event_key x (Some key) = key" for x using assms(2) by (simp add: event_key_def)
  note c = ap [unfolded append_with_def append_event_cases key]
  show ?thesis
  proof (cases created)
    case False
    with t c show ?thesis using replay_routed_Inr by (auto simp: replays_def)
  next
    case True
    with c have k0: "get_event_by_idempotency_key s key = None" by (simp add: event_by_key_None)
    with True c have k: "get_event_by_idempotency_key s1 key = Some e" "db_events s1 = db_events s @ [e]"
      by (auto simp: event_by_key_append)
    have "rq_event r = e \<and> db_events s' = db_events s1"
      using t True by (auto simp: create_job_def Let_def split: option.splits if_split_asm)
    then have "get_event_by_idempotency_key s' key = Some (rq_event r)"
      using k(1) by (simp add: get_event_by_idempotency_key_def)
    with k0 show ?thesis by simp
  qed
qed

text \<open>
  A submission under the reads \<open>s0\<close> and the transaction on \<open>s\<close>: a key that either of them has is
  replayed, and the database is left alone.
\<close>

lemma submit_request_Inr:
  assumes "submit_request H A env a s0 s = Inr (r, s')" "submit_key H a = Inr key"
  shows "case get_event_by_idempotency_key s0 key of
      Some e \<Rightarrow> s' = s \<and> replays a e r
    | None \<Rightarrow> (case get_event_by_idempotency_key s key of
        Some e \<Rightarrow> s' = s \<and> replays a e r
      | None \<Rightarrow> get_event_by_idempotency_key s' key = Some (rq_event r))"
proof -
  from assms(1) obtain origin where o: "validate_destination (sb_origin a) = Inr origin"
    unfolding submit_request_def by (auto split: if_split_asm)
  note d = validate_destination_dict [OF o]
  have ne: "key \<noteq> []" by (rule submit_key_ne [OF assms(2)])
  consider (exact) target where "sb_target_agent a = Some target" "sb_routing_request a = None"
    | (routed) v where "sb_target_agent a = None" "sb_routing_request a = Some v"
    using assms(2) by (auto simp: submit_key_def split: option.splits)
  then show ?thesis
  proof cases
    case exact
    with assms(1) o have t: "submit_exact_request H A env a target origin s0 s = Inr (r, s')"
      unfolding submit_request_def by (auto split: if_split_asm)
    have k: "(case or_str (sb_idempotency_key a) None of
              Some k \<Rightarrow> Inr k | None \<Rightarrow> request_key (sb_workspace_id a) target origin) = Inr key"
      using assms(2) exact d by (simp add: submit_key_def dict_of_def split: option.splits)
    from t obtain binding worktree auth where
      "(case get_event_by_idempotency_key s0 key of
       Some e \<Rightarrow> bindE (replay_exact_request H s0 a target worktree e) (\<lambda>r. Inr (r, s))
     | None \<Rightarrow> submit_exact_tx H A env a target key binding worktree auth s) = Inr (r, s')"
      unfolding submit_exact_request_def k bindE_simps by (elim bindE_eq_InrE) auto
    then show ?thesis
      using submit_exact_tx_Inr [OF _ ne] replay_exact_Inr by (fastforce simp: replays_def split: option.splits)
  next
    case routed
    with assms(1) o have t: "submit_routed_request H A env a v origin s0 s = Inr (r, s')"
      unfolding submit_request_def by (auto split: if_split_asm)
    from assms(2) routed d obtain q where q: "parse_routing_request H v = Inr q"
      "(case or_str (sb_idempotency_key a) None of Some k \<Rightarrow> k | None \<Rightarrow> routed_request_key (sb_workspace_id a) q origin) = key"
      by (auto simp: submit_key_def dict_of_def bindE_eq_Inr split: option.splits)
    from t obtain dd c where
      "(case get_event_by_idempotency_key s0 key of
       Some e \<Rightarrow> bindE (replay_routed_request H s0 a q e) (\<lambda>r. Inr (r, s))
     | None \<Rightarrow> submit_routed_tx H A env a key q dd c s) = Inr (r, s')"
      unfolding submit_routed_request_def Let_def q bindE_simps by (auto split: option.splits)
    then show ?thesis
      using submit_routed_tx_Inr [OF _ ne] replay_routed_Inr by (fastforce simp: replays_def split: option.splits)
  qed
qed

section \<open>What a submission stores\<close>

lemma job_payload_request [simp]: "p \<noteq> [] \<Longrightarrow> job_payload (job_of A jid now wp (request_job a t r w au p)) = p"
  by (simp add: job_payload_def job_of_def request_job_def json_col_def dict_of_def)

lemma job_of_request [simp]:
  "jb_id (job_of A jid now wp (request_job a t r w au p)) = jid"
  "jb_workspace_id (job_of A jid now wp (request_job a t r w au p)) = Some (sb_workspace_id a)"
  "jb_task_id (job_of A jid now wp (request_job a t r w au p)) = sb_task_id a"
  "t \<noteq> [] \<Longrightarrow> jb_assigned_agent (job_of A jid now wp (request_job a t r w au p)) = Some t"
  "jb_worktree_path (job_of A jid now wp (request_job a t r None au p)) = None"
  by (simp_all add: job_of_def request_job_def or_str_def map_truthy_def)

lemma base_job_payload_sel [simp]:
  "dget (base_job_payload a i ctx @ q) ''prompt'' = PyStr (sb_prompt a)"
  "dget (base_job_payload a i ctx @ q) ''request_event_id'' = PyStr i"
  "dget (base_job_payload a i ctx @ q) ''origin'' = sb_origin a"
  "dget (base_job_payload a i ctx @ q) ''reply'' = sb_reply a"
  "dget (base_job_payload a i ctx @ q) ''execution_context'' = to_dict ctx"
  "dget (base_job_payload a i ctx @ q) ''executor_binding'' = dget q ''executor_binding''"
  "base_job_payload a i ctx @ q \<noteq> []"
  by (simp_all add: base_job_payload_def)

lemmas base_job_payload_plain [simp] = base_job_payload_sel [where q = "[]", simplified]

lemma create_job_Inr:
  "create_job A jid now a s = Inr (j, s') \<Longrightarrow> \<exists>wp. j = job_of A jid now wp a \<and> s' = s\<lparr>db_jobs := db_jobs s @ [j]\<rparr> \<and>
     find_job s jid = None"
  by (auto simp: create_job_def Let_def find_job_def find_None_notin list_ex_iff split: option.splits if_split_asm)

text \<open>
  What the job of a request has to be: named after the event and linked to it, of the event's agent,
  which is the one that an exact request names, with the workspace, the task, the prompt, the origin and
  the reply of the request, and without a worktree path when an exact request gives none. Python compares
  the stored origin and reply of a replay by \<open>==\<close>.
\<close>

definition same_value :: "pyval \<Rightarrow> pyval \<Rightarrow> bool" where
  "same_value x y \<longleftrightarrow> x = y \<or> py_eq x y"

definition requested_job :: "submit_args \<Rightarrow> event_row \<Rightarrow> job_row \<Rightarrow> bool" where
  "requested_job a e j \<longleftrightarrow>
     jb_id j = request_job_id e \<and> dget (job_payload j) ''request_event_id'' = PyStr (ev_id e) \<and>
     jb_assigned_agent j = ev_target e \<and> (sb_target_agent a = None \<or> ev_target e = sb_target_agent a) \<and>
     jb_workspace_id j = Some (sb_workspace_id a) \<and> jb_task_id j = sb_task_id a \<and>
     dget (job_payload j) ''prompt'' = PyStr (sb_prompt a) \<and>
     same_value (dget (job_payload j) ''origin'') (sb_origin a) \<and> same_value (dget (job_payload j) ''reply'') (sb_reply a) \<and>
     (sb_target_agent a = None \<or> sb_worktree_path a \<noteq> None \<or> jb_worktree_path j = None)"

lemma replayed_exact_job:
  assumes "replay_exact_request H s a target worktree e = Inr r" "sb_target_agent a = Some target"
    "sb_worktree_path a \<noteq> None \<or> worktree = None"
  shows "requested_job a (rq_event r) (rq_job r)"
  using replay_exact_Inr [OF assms(1)] find_job_id assms(2,3)
  by (auto simp: first_conflict_Inr requested_job_def same_value_def exact_event_conflicts_def exact_job_conflicts_def exact_origin_conflicts_def
    Let_def split: if_split_asm simp del: first_conflict.simps)

lemma replayed_routed_job:
  assumes "replay_routed_request H s a q e = Inr r" "sb_target_agent a = None"
  shows "requested_job a (rq_event r) (rq_job r)"
proof -
  note c = replay_routed_Inr [OF assms(1)]
  from assms(1) obtain decision b x where d: "opt_str (ev_target e) = dget decision ''selected_agent_id''"
    "validate_routing_cross_links decision (rq_job r) b x = Inr ()"
    unfolding replay_routed_request_def c(4) option.case
    by (elim bindE_eq_InrE) (simp add: first_conflict_Inr del: first_conflict.simps)
  from d(2) have "opt_str (jb_assigned_agent (rq_job r)) = dget decision ''selected_agent_id''"
    unfolding validate_routing_cross_links_def by (elim bindE_eq_InrE) (simp add: routing_require_def split: if_split_asm)
  with d(1) have "opt_str (jb_assigned_agent (rq_job r)) = opt_str (ev_target e)" by simp
  then have "jb_assigned_agent (rq_job r) = ev_target e" by simp
  then show ?thesis using c find_job_id assms(2)
    by (simp add: first_conflict_Inr requested_job_def same_value_def routed_job_conflicts_def Let_def del: first_conflict.simps)
qed

lemma request_event_target: "append_with u key (request_event a target p) s = Inr ((e, c), s1) \<Longrightarrow> c \<Longrightarrow> ev_target e = Some target"
  by (auto simp: append_with_def append_event_cases event_of_def request_event_def)

lemma fresh_no_job:
  "append_with u key e s = Inr ((ev, c), s1) \<Longrightarrow> c \<Longrightarrow> find_job s (''request:'' @ fst u) = None \<Longrightarrow> find_job s1 (request_job_id ev) = None"
  by (auto simp: append_with_def append_event_cases request_job_id_def find_job_def)

lemma submit_context_agent: "resolve_submit_context H s w g t og jid wt = Inr ctx \<Longrightarrow> g \<noteq> []"
  by (auto simp: resolve_submit_context_def bindE_eq_Inr dest!: resolve_fields split: option.splits)

lemma exact_tx_job:
  assumes "submit_exact_tx H A env a target key binding worktree auth s = Inr (r, s')"
    "find_job s (''request:'' @ fst (se_event env)) = None" "sb_target_agent a = Some target" "sb_worktree_path a \<noteq> None \<or> worktree = None"
  shows "requested_job a (rq_event r) (rq_job r)"
proof -
  from assms(1) obtain e created s1 where ap: "append_with (se_event env) key (request_event a target (exact_event_payload a target worktree)) s =
      Inr ((e, created), s1)"
    unfolding submit_exact_tx_def by auto
  note t = assms(1) [unfolded submit_exact_tx_def ap bindE_simps prod.case]
  show ?thesis
  proof (cases created)
    case False
    with t show ?thesis using replayed_exact_job [OF _ assms(3,4)] by auto
  next
    case True
    with fresh_no_job [OF ap True assms(2)] t request_event_target [OF ap True] assms(3,4) show ?thesis
      by (auto dest!: create_job_Inr submit_context_agent simp: requested_job_def same_value_def)
  qed
qed

lemma routed_tx_job:
  assumes "submit_routed_tx H A env a key q d c s = Inr (r, s')" "find_job s (''request:'' @ fst (se_event env)) = None"
    "sb_target_agent a = None"
  shows "requested_job a (rq_event r) (rq_job r)"
proof -
  from assms(1) obtain e created s1 where ap: "append_with (se_event env) key
      (request_event a (cd_agent_id c) (routed_event_payload a q d)) s = Inr ((e, created), s1)"
    unfolding submit_routed_tx_def by auto
  note t = assms(1) [unfolded submit_routed_tx_def ap bindE_simps prod.case]
  show ?thesis
  proof (cases created)
    case False
    with t show ?thesis using replayed_routed_job [OF _ assms(3)] by auto
  next
    case True
    with fresh_no_job [OF ap True assms(2)] t request_event_target [OF ap True] assms(3) show ?thesis
      by (auto dest!: create_job_Inr submit_context_agent simp: requested_job_def same_value_def)
  qed
qed

section \<open>Resubmission\<close>

lemma resolve_submit_context_cong:
  assumes "db_agents s' = db_agents s" "db_profiles s' = db_profiles s" "db_tasks s' = db_tasks s" "db_workspaces s' = db_workspaces s"
  shows "resolve_submit_context H s' = resolve_submit_context H s"
proof -
  have r: "agent_host_id s' = agent_host_id s" "get_workspace_host_profile s' = get_workspace_host_profile s"
    "get_workspace s' = get_workspace s" "get_task_mirror s' = get_task_mirror s"
    by (simp_all add: fun_eq_iff agent_host_id_def get_agent_def get_workspace_host_profile_def get_task_mirror_def get_workspace_def assms)
  show ?thesis by (intro ext) (simp only: resolve_submit_context_def submit_task_def r)
qed

text \<open>
  What a request rests on: its workspace, the host, the profile and the binding of its agent, and its task.
  \<open>same_order j j'\<close>: \<open>j'\<close> still has the place and the payload of \<open>j\<close>.
\<close>

definition same_grounds :: "(string \<Rightarrow> string) \<Rightarrow> submit_args \<Rightarrow> string \<Rightarrow> db \<Rightarrow> db \<Rightarrow> bool" where
  "same_grounds H a target s s' \<longleftrightarrow>
     get_workspace s' (sb_workspace_id a) = get_workspace s (sb_workspace_id a) \<and>
     agent_host_id s' target = agent_host_id s target \<and>
     (\<forall>h. get_workspace_host_profile s' (sb_workspace_id a) h = get_workspace_host_profile s (sb_workspace_id a) h) \<and>
     submit_task s' (sb_workspace_id a) (sb_task_id a) = submit_task s (sb_workspace_id a) (sb_task_id a) \<and>
     resolve_exact_executor_binding H s' target = resolve_exact_executor_binding H s target"

definition same_order :: "job_row \<Rightarrow> job_row \<Rightarrow> bool" where
  "same_order j j' \<longleftrightarrow> jb_workspace_id j' = jb_workspace_id j \<and> jb_task_id j' = jb_task_id j \<and>
     jb_assigned_agent j' = jb_assigned_agent j \<and> jb_worktree_path j' = jb_worktree_path j \<and> job_payload j' = job_payload j"

lemma same_grounds_context:
  "same_grounds H a target s s' \<Longrightarrow> resolve_submit_context H s' (sb_workspace_id a) target (sb_task_id a) og jid w =
     resolve_submit_context H s (sb_workspace_id a) target (sb_task_id a) og jid w"
  by (simp only: same_grounds_def resolve_submit_context_def)

lemma same_grounds_agent:
  assumes "same_grounds H a target s s'" "resolve_submit_context H s w target t og jid wt = Inr ctx"
  shows "\<exists>x. read_agent s' target = Inr x"
proof -
  from assms(2) have "agent_host_id s target \<noteq> None" by (auto simp: resolve_submit_context_def or_str_def split: option.splits)
  with assms(1) have "agent_host_id s' target \<noteq> None" by (simp add: same_grounds_def)
  then show ?thesis by (auto simp: agent_host_id_def read_agent_def split: option.splits)
qed

definition ground_tables :: "db \<Rightarrow> _" where
  "ground_tables s = ((db_agents s, db_profiles s, db_tasks s, db_workspaces s),
     (db_instances s, db_runner_profiles s, db_definitions s, db_catalog_sources s))"

lemma same_grounds_tables:
  assumes "ground_tables s' = ground_tables s"
  shows "same_grounds H a target s s'"
proof -
  have r: "agent_host_id s' = agent_host_id s" "get_workspace_host_profile s' = get_workspace_host_profile s"
    "get_workspace s' = get_workspace s" "get_task_mirror s' = get_task_mirror s"
    "get_executor_instance_binding s' = get_executor_instance_binding s" "get_runner_profile s' = get_runner_profile s"
    "get_executor_catalog_source s' = get_executor_catalog_source s" "db_definitions s' = db_definitions s"
    using assms by (simp_all add: ground_tables_def fun_eq_iff agent_host_id_def get_agent_def get_workspace_host_profile_def
      get_task_mirror_def get_workspace_def get_executor_instance_binding_def get_runner_profile_def get_executor_catalog_source_def)
  show ?thesis unfolding same_grounds_def submit_task_def resolve_exact_executor_binding_def r by simp
qed

lemma resolved_binding_canonical:
  assumes "resolve_exact_executor_binding H s g = Inr (Some b)"
  shows "compare_bindings (PyDict b) (Some b) = Inr ()"
proof -
  obtain src d i where "build_executor_binding_snapshot H src d i = Inr b"
    using assms by (auto simp: resolve_exact_executor_binding_def bindE_eq_Inr split: option.splits if_split_asm)
  with build_snapshot_Inr [of H src d i] have "binding_snapshot_canonical_dict b = Inr (snapshot_body src d i)" by auto
  then show ?thesis by (simp add: compare_bindings_def py_eq_snapshot_refl del: py_eq.simps)
qed

lemma to_dict_ne [simp]: "to_dict ctx \<noteq> PyNone"
  by (simp add: to_dict_def)

text \<open>The replay of a new event and its job, on the database that its transaction left.\<close>

lemma replay_of_new:
  assumes parsed: "parse_snapshot H (to_dict ctx) = Inr c" and "target \<noteq> []"
    "resolve_submit_context H s (sb_workspace_id a) target (sb_task_id a) (sb_origin a) (request_job_id e) None = Inr ctx"
    "resolve_exact_executor_binding H s target = Inr binding" "py_eq (sb_origin a) (sb_origin a)" "py_eq (sb_reply a) (sb_reply a)"
    "e = event_of u t key (request_event a target (exact_event_payload a target None))"
    "find_job s (request_job_id e) = Some j" "same_order x j"
    "x = job_of A (request_job_id e) now wp (request_job a target runner None auth (base_job_payload a (ev_id e) ctx @
       (case binding of None \<Rightarrow> [] | Some b \<Rightarrow> [(''executor_binding'', PyDict b)])))"
  shows "replay_exact_request H s a target None e = Inr \<lparr>rq_event = e, rq_event_created = False, rq_job = j, rq_job_created = False\<rparr>"
proof -
  let ?p = "base_job_payload a (ev_id e) ctx @ (case binding of None \<Rightarrow> [] | Some b \<Rightarrow> [(''executor_binding'', PyDict b)])"
  have p: "job_payload j = ?p" using assms(9) by (simp add: same_order_def assms(10))
  have ef: "event_fields e = exact_event_payload a target None"
    by (simp add: assms(7) event_fields_def request_event_def json_col_def exact_event_payload_def dict_of_def)
  have er: "ev_event_type e = ''request.received''" "ev_workspace_id e = Some (sb_workspace_id a)" "ev_target e = Some target"
    "ev_task_id e = sb_task_id a"
    by (simp_all add: assms(7) request_event_def event_of_def)
  have c1: "first_conflict (exact_event_conflicts a target None e) = Inr ()"
    by (simp add: exact_event_conflicts_def ef er Let_def) (simp add: exact_event_payload_def)
  have jr: "jb_workspace_id j = Some (sb_workspace_id a)" "jb_assigned_agent j = Some target" "jb_worktree_path j = None"
    "jb_task_id j = sb_task_id a"
    using assms(2,9) by (simp_all add: same_order_def assms(10))
  have c2: "first_conflict (exact_job_conflicts a target None e j) = Inr ()"
    by (simp add: exact_job_conflicts_def jr p assms(6))
  have c3: "first_conflict (exact_origin_conflicts a e j) = Inr ()"
    by (simp add: exact_origin_conflicts_def jr er p ef assms(5,6) Let_def) (simp add: exact_event_payload_def assms(5,6))
  have ctx: "replay_context H s a target (to_dict ctx) (request_job_id e) None = Inr ()"
    by (simp add: replay_context_def parsed assms(3) execution_context_dict_matches_def)
  have b: "(if dget ?p ''executor_binding'' = PyNone then Inr ()
      else bindE (resolve_exact_executor_binding H s target) (compare_bindings (dget ?p ''executor_binding''))) = Inr ()"
  proof (cases binding)
    case (Some b)
    then show ?thesis using resolved_binding_canonical assms(4) by simp
  qed simp
  show ?thesis
    unfolding replay_exact_request_def c1 bindE_simps assms(8) option.case c2 c3 p
    using ctx b by simp
qed

section \<open>A sample\<close>

definition req_origin :: pyval where
  "req_origin = PyDict [(''platform'', PyStr ''discord''), (''destination'', PyStr ''c1''), (''message_id'', PyStr ''m1''),
     (''session_scope_id'', PyStr ''thread:9'')]"

definition req_args :: "string \<Rightarrow> submit_args" where
  "req_args prompt = \<lparr>sb_workspace_id = ''w1'', sb_target_agent = Some ''a'', sb_prompt = prompt, sb_origin = req_origin,
     sb_reply = req_origin, sb_actor = ''bridge'', sb_task_id = None, sb_idempotency_key = None, sb_routing_request = None,
     sb_worktree_path = None\<rparr>"

definition req_env :: "string \<Rightarrow> submit_env" where
  "req_env u = \<lparr>se_event = (u, 5), se_job_now = 5, se_registry_now = 5, se_liveness_now = 5\<rparr>"

definition same_path :: "string option \<Rightarrow> string \<Rightarrow> string" where
  "same_path base p = p"

lemma req_submits:
  obtains r s1 c where "submit_request ctx_H same_path (req_env ''e1'') (req_args ''go'') route_base route_base = Inr (r, s1)"
    "rq_job_created r" "parse_snapshot ctx_H (dget (job_payload (rq_job r)) ''execution_context'') = Inr c"
    "find_job s1 (jb_id (rq_job r)) = Some (rq_job r)" "ground_tables s1 = ground_tables route_base"
proof -
  have "(case submit_request ctx_H same_path (req_env ''e1'') (req_args ''go'') route_base route_base of Inl e \<Rightarrow> False
    | Inr (r, s1) \<Rightarrow> rq_job_created r \<and> is_ok (parse_snapshot ctx_H (dget (job_payload (rq_job r)) ''execution_context'')) \<and>
        find_job s1 (jb_id (rq_job r)) = Some (rq_job r) \<and> ground_tables s1 = ground_tables route_base)"
    by code_simp
  then show thesis using that by (auto simp: is_ok_iff split: sum.splits)
qed

lemma req_submits_twice:
  obtains r s1 r' s2 where "submit_request ctx_H same_path (req_env ''e1'') (req_args ''go'') route_base route_base = Inr (r, s1)"
    "submit_request ctx_H same_path (req_env ''e2'') (req_args ''go'') s1 s1 = Inr (r', s2)"
proof -
  have "(case submit_request ctx_H same_path (req_env ''e1'') (req_args ''go'') route_base route_base of Inl e \<Rightarrow> False
    | Inr (r, s1) \<Rightarrow> is_ok (submit_request ctx_H same_path (req_env ''e2'') (req_args ''go'') s1 s1))"
    by code_simp
  then show thesis using that by (auto simp: is_ok_iff split: sum.splits)
qed

lemma req_facts:
  "is_ok (submit_key ctx_H (req_args ''go''))" "py_eq req_origin req_origin" "find_job route_base (''request:'' @ ''e1'') = None"
  by code_simp+

section \<open>Properties\<close>

text \<open>
  C6: A key names one event and so one job. Whatever the arguments of a later submission under the
  key of an earlier one, and however its reads raced with other writers of the event log, it either
  raises or returns the event of the first, creates no job and leaves the database alone.
\<close>

theorem key_names_one_job:
  assumes "submit_request H A env a s0 s = Inr (r, s1)" "submit_key H a = Inr key" "db_events s = db_events s0 @ ea"
    "db_events s2 = db_events s1 @ eb" "db_events s2 = db_events t0 @ ec"
    "submit_request H A env' b t0 s2 = Inr (r', s3)" "submit_key H b = Inr key"
  shows "(rq_event r', rq_job_created r', s3) = (rq_event r, False, s2)"
proof -
  have prefix: "get_event_by_idempotency_key y key = Some e"
    if "db_events y = db_events x @ es" "get_event_by_idempotency_key x key = Some e" for x y es e
    using that by (simp add: get_event_by_idempotency_key_def find_append)
  have "get_event_by_idempotency_key s1 key = Some (rq_event r)"
    using submit_request_Inr [OF assms(1,2)] prefix [OF assms(3)] by (auto simp: replays_def split: option.splits)
  then have k: "get_event_by_idempotency_key s2 key = Some (rq_event r)" by (rule prefix [OF assms(4)])
  show ?thesis
    using submit_request_Inr [OF assms(6,7)] k prefix [OF assms(5)] by (auto simp: replays_def split: option.splits)
qed

theorem key_names_one_job_witness:
  "\<exists>r s1 r' s2. submit_request ctx_H same_path (req_env ''e1'') (req_args ''go'') route_base route_base = Inr (r, s1) \<and>
     submit_request ctx_H same_path (req_env ''e2'') (req_args ''go'') s1 s1 = Inr (r', s2) \<and>
     (rq_event r', rq_job_created r', s2) = (rq_event r, False, s1)"
proof -
  obtain r s1 r' s2 where d: "submit_request ctx_H same_path (req_env ''e1'') (req_args ''go'') route_base route_base = Inr (r, s1)"
    "submit_request ctx_H same_path (req_env ''e2'') (req_args ''go'') s1 s1 = Inr (r', s2)"
    by (rule req_submits_twice)
  obtain key where k: "submit_key ctx_H (req_args ''go'') = Inr key" using req_facts(1) by (auto simp: is_ok_iff)
  have "(rq_event r', rq_job_created r', s2) = (rq_event r, False, s1)"
    by (rule key_names_one_job [OF d(1) k _ _ _ d(2) k, where ea = "[]" and eb = "[]" and ec = "[]"]) simp_all
  with d show ?thesis by blast
qed

text \<open>
  C25: What a submission returns is what was asked for, replayed or new, exact or routed: a job named
  after the event and linked to it, assigned to the event's agent, which for an exact request is the agent that it
  names, of the workspace and the task, with the prompt, the origin and the reply of the request, and, for an exact request
  that gives no worktree path, without one. The UUID of a new event is fresh for jobs.
\<close>

theorem submitted_job_is_requested:
  assumes "submit_request H A env a s0 s = Inr (r, s')" "find_job s (''request:'' @ fst (se_event env)) = None"
  shows "requested_job a (rq_event r) (rq_job r)"
proof -
  from assms(1) obtain origin where o: "validate_destination (sb_origin a) = Inr origin"
    unfolding submit_request_def by (auto split: if_split_asm)
  consider (exact) target where "submit_exact_request H A env a target origin s0 s = Inr (r, s')" "sb_target_agent a = Some target"
    | (routed) v where "submit_routed_request H A env a v origin s0 s = Inr (r, s')" "sb_target_agent a = None"
    using assms(1) o unfolding submit_request_def by (auto split: option.splits if_split_asm)
  then show ?thesis
  proof cases
    case exact
    have w: "sb_worktree_path a \<noteq> None \<or> w = None" if "submit_worktree H A s0 a target ctx = Inr (w, auth)" for ctx w auth
      using that by (cases "sb_worktree_path a") (simp_all add: submit_worktree_def)
    from exact(1) obtain ctx w auth key binding where "submit_worktree H A s0 a target ctx = Inr (w, auth)"
      and t: "(case get_event_by_idempotency_key s0 key of
          Some e \<Rightarrow> bindE (replay_exact_request H s0 a target w e) (\<lambda>r. Inr (r, s))
        | None \<Rightarrow> submit_exact_tx H A env a target key binding w auth s) = Inr (r, s')"
      unfolding submit_exact_request_def by (elim bindE_eq_InrE) auto
    from this(1) have "sb_worktree_path a \<noteq> None \<or> w = None" by (rule w)
    with t show ?thesis
      by (auto split: option.splits dest: replayed_exact_job [OF _ exact(2)] exact_tx_job [OF _ assms(2) exact(2)])
  next
    case routed
    from routed(1) show ?thesis
      unfolding submit_routed_request_def Let_def
      by (auto split: option.splits dest: replayed_routed_job [OF _ routed(2)] routed_tx_job [OF _ assms(2) routed(2)])
  qed
qed

theorem submitted_job_is_requested_witness:
  "\<exists>r s1. submit_request ctx_H same_path (req_env ''e1'') (req_args ''go'') route_base route_base = Inr (r, s1) \<and>
     requested_job (req_args ''go'') (rq_event r) (rq_job r)"
proof -
  obtain r s1 c where d: "submit_request ctx_H same_path (req_env ''e1'') (req_args ''go'') route_base route_base = Inr (r, s1)"
    by (rule req_submits)
  have "requested_job (req_args ''go'') (rq_event r) (rq_job r)"
    by (rule submitted_job_is_requested [OF d]) (use req_facts(3) in \<open>simp add: req_env_def\<close>)
  with d show ?thesis by blast
qed

text \<open>What an exact submission that created its job found and stored.\<close>

lemma exact_submission_created:
  assumes "submit_request H A env a s0 s = Inr (r, s1)" "rq_job_created r" "sb_target_agent a = Some target" "sb_worktree_path a = None"
  obtains origin x key binding ctx0 ctx e wp where
    "validate_destination (sb_origin a) = Inr origin" "validate_destination (sb_reply a) = Inr x"
    "get_workspace s0 (sb_workspace_id a) \<noteq> None" "strip (sb_prompt a) \<noteq> []" "sb_routing_request a = None"
    "(case or_str (sb_idempotency_key a) None of Some k \<Rightarrow> Inr k | None \<Rightarrow> request_key (sb_workspace_id a) target origin) = Inr key"
    "resolve_exact_executor_binding H s0 target = Inr binding"
    "resolve_submit_context H s0 (sb_workspace_id a) target (sb_task_id a) (sb_origin a) ''request:preflight'' None = Inr ctx0"
    "e = event_of (fst (se_event env)) (snd (se_event env)) key (request_event a target (exact_event_payload a target None))"
    "resolve_submit_context H s (sb_workspace_id a) target (sb_task_id a) (sb_origin a) (request_job_id e) None = Inr ctx"
    "rq_event r = e" "get_event_by_idempotency_key s1 key = Some e"
    "rq_job r = job_of A (request_job_id e) (se_job_now env) wp
       (request_job a target (case binding of None \<Rightarrow> target | Some b \<Rightarrow> str_of (dget b ''runner_profile_id''))
          None False (base_job_payload a (ev_id e) ctx @
            (case binding of None \<Rightarrow> [] | Some b \<Rightarrow> [(''executor_binding'', PyDict b)])))"
proof -
  from assms(1) obtain origin x where o: "validate_destination (sb_origin a) = Inr origin" "validate_destination (sb_reply a) = Inr x"
    unfolding submit_request_def by (auto split: if_split_asm)
  have g: "get_workspace s0 (sb_workspace_id a) \<noteq> None" "strip (sb_prompt a) \<noteq> []" "sb_routing_request a = None"
    using assms(1,3) unfolding submit_request_def by (auto split: if_split_asm option.splits)
  have t: "submit_exact_request H A env a target origin s0 s = Inr (r, s1)"
    using assms(1) unfolding submit_request_def by (simp add: o g assms(3))
  let ?key = "case or_str (sb_idempotency_key a) None of
              Some k \<Rightarrow> Inr k | None \<Rightarrow> request_key (sb_workspace_id a) target origin"
  from t obtain agent key binding ctx0 where q: "read_agent s0 target = Inr agent" "?key = Inr key"
    "resolve_exact_executor_binding H s0 target = Inr binding"
    "resolve_submit_context H s0 (sb_workspace_id a) target (sb_task_id a) (sb_origin a) ''request:preflight'' None = Inr ctx0"
    unfolding submit_exact_request_def assms(4) by (elim bindE_eq_InrE) blast
  note t1 = t [unfolded submit_exact_request_def assms(4) q bindE_simps submit_worktree_def option.case prod.case]
  have none: "get_event_by_idempotency_key s0 key = None"
    using t1 assms(2) replay_exact_Inr(2) by (auto split: option.splits)
  note t2 = t1 [unfolded none option.case]
  have sk: "submit_key H a = Inr key"
    using q(2) validate_destination_dict [OF o(1)] by (simp add: submit_key_def assms(3) g(3) dict_of_def split: option.splits)
  have ek: "event_key y (Some key) = key" for y using submit_key_ne [OF sk] by (simp add: event_key_def)
  from t2 obtain e created se where ap: "append_with (se_event env) key (request_event a target (exact_event_payload a target None)) s =
      Inr ((e, created), se)"
    unfolding submit_exact_tx_def by auto
  note t3 = t2 [unfolded submit_exact_tx_def ap bindE_simps prod.case]
  have cr: created using t3 assms(2) replay_exact_Inr(2) by (auto split: if_split_asm)
  with ap have e: "e = event_of (fst (se_event env)) (snd (se_event env)) key (request_event a target (exact_event_payload a target None))"
    "se = s\<lparr>db_events := db_events s @ [e]\<rparr>" and fresh: "get_event_by_idempotency_key s key = None"
    unfolding append_with_def append_event_cases ek by (auto simp: event_by_key_None)
  from t3 cr assms(2) obtain ctx where ctx: "resolve_submit_context H se (sb_workspace_id a) target (sb_task_id a) (sb_origin a) (request_job_id e) None = Inr ctx"
    and mk: "create_job A (request_job_id e) (se_job_now env)
             (request_job a target (case binding of None \<Rightarrow> target | Some b \<Rightarrow> str_of (dget b ''runner_profile_id''))
                None False (base_job_payload a (ev_id e) ctx @
                 (case binding of None \<Rightarrow> [] | Some b \<Rightarrow> [(''executor_binding'', PyDict b)]))) se = Inr (rq_job r, s1)"
    and r: "rq_event r = e"
    by (auto split: option.splits)
  from create_job_Inr [OF mk] obtain wp where j: "rq_job r = job_of A (request_job_id e) (se_job_now env) wp
       (request_job a target (case binding of None \<Rightarrow> target | Some b \<Rightarrow> str_of (dget b ''runner_profile_id''))
                None False (base_job_payload a (ev_id e) ctx @
                 (case binding of None \<Rightarrow> [] | Some b \<Rightarrow> [(''executor_binding'', PyDict b)])))"
    by blast
  have "resolve_submit_context H se = resolve_submit_context H s"
    by (rule resolve_submit_context_cong) (simp_all add: e(2))
  with ctx have c: "resolve_submit_context H s (sb_workspace_id a) target (sb_task_id a) (sb_origin a) (request_job_id e) None = Inr ctx"
    by simp
  have "get_event_by_idempotency_key s1 key = Some e" using submit_request_Inr [OF assms(1) sk] none fresh r by simp
  from that [OF o g q(2-4) e(1) c r this j] show thesis .
qed

text \<open>
  C22: An exact request without a worktree path that is submitted again, by a client that never saw the
  answer, gets the event and the job of the first submission, as the job is then, and nothing is written, whatever
  the transaction finds. In the database \<open>s2\<close> that it reads, what the request rests on is as the first
  submission found it, the event log was only appended to, and the job has the payload and the place that it got; the job's
  status may have changed. The snapshot has to be one that a claim accepts, and the
  origin and the reply equal themselves (no \<open>nan\<close>, no repeated key).
\<close>

theorem resubmission_returns_first:
  assumes "submit_request H A env a s0 s = Inr (r, s1)" "rq_job_created r" "sb_target_agent a = Some target"
    "sb_worktree_path a = None" "py_eq (sb_origin a) (sb_origin a)" "py_eq (sb_reply a) (sb_reply a)"
    "parse_snapshot H (dget (job_payload (rq_job r)) ''execution_context'') = Inr c"
    and "same_grounds H a target s0 s2" "same_grounds H a target s s2" "db_events s2 = db_events s1 @ es"
    "find_job s2 (jb_id (rq_job r)) = Some j" "same_order (rq_job r) j"
  shows "submit_request H A env' a s2 s3 =
    Inr (\<lparr>rq_event = rq_event r, rq_event_created = False, rq_job = j, rq_job_created = False\<rparr>, s3)"
proof -
  from exact_submission_created [OF assms(1-4)] obtain origin x key binding ctx0 ctx e wp where
    o: "validate_destination (sb_origin a) = Inr origin" "validate_destination (sb_reply a) = Inr x"
    and g: "get_workspace s0 (sb_workspace_id a) \<noteq> None" "strip (sb_prompt a) \<noteq> []" "sb_routing_request a = None"
    and q: "(case or_str (sb_idempotency_key a) None of Some k \<Rightarrow> Inr k | None \<Rightarrow> request_key (sb_workspace_id a) target origin) = Inr key"
      "resolve_exact_executor_binding H s0 target = Inr binding"
      "resolve_submit_context H s0 (sb_workspace_id a) target (sb_task_id a) (sb_origin a) ''request:preflight'' None = Inr ctx0"
    and e: "e = event_of (fst (se_event env)) (snd (se_event env)) key (request_event a target (exact_event_payload a target None))"
    and ctx: "resolve_submit_context H s (sb_workspace_id a) target (sb_task_id a) (sb_origin a) (request_job_id e) None = Inr ctx"
    and r: "rq_event r = e" "get_event_by_idempotency_key s1 key = Some e"
    and jr: "rq_job r = job_of A (request_job_id e) (se_job_now env) wp
       (request_job a target (case binding of None \<Rightarrow> target | Some b \<Rightarrow> str_of (dget b ''runner_profile_id''))
          None False (base_job_payload a (ev_id e) ctx @
            (case binding of None \<Rightarrow> [] | Some b \<Rightarrow> [(''executor_binding'', PyDict b)])))" .
  note c2 = ctx [folded same_grounds_context [OF assms(9)]] and p2 = q(3) [folded same_grounds_context [OF assms(8)]]
  have b2: "resolve_exact_executor_binding H s2 target = Inr binding" "get_workspace s2 (sb_workspace_id a) \<noteq> None"
    using assms(8) q(2) g(1) by (simp_all add: same_grounds_def)
  obtain agent2 where agent2: "read_agent s2 target = Inr agent2" using same_grounds_agent [OF assms(8) q(3)] by blast
  have found: "find_job s2 (request_job_id e) = Some j" using assms(11) by (simp add: jr)
  have ev: "get_event_by_idempotency_key s2 key = Some e"
    using r(2) assms(10) by (simp add: get_event_by_idempotency_key_def find_append)
  have pay: "dget (job_payload (rq_job r)) ''execution_context'' = to_dict ctx" by (simp add: jr)
  have rep: "replay_exact_request H s2 a target None e = Inr \<lparr>rq_event = e, rq_event_created = False, rq_job = j, rq_job_created = False\<rparr>"
    by (rule replay_of_new [OF assms(7) [unfolded pay] submit_context_agent [OF q(3)] c2 b2(1) assms(5,6) e found assms(12) jr])
  have "submit_exact_request H A env' a target origin s2 s3 =
      Inr (\<lparr>rq_event = rq_event r, rq_event_created = False, rq_job = j, rq_job_created = False\<rparr>, s3)"
    unfolding submit_exact_request_def agent2 q(1) b2(1) p2 assms(4) bindE_simps submit_worktree_def option.case prod.case ev rep
    by (simp add: r(1))
  then show ?thesis using g b2(2) by (simp add: submit_request_def o assms(3))
qed

text \<open>Between the two submissions the job is claimed.\<close>

definition start_first :: "db \<Rightarrow> db" where
  "start_first s = s\<lparr>db_jobs := map (\<lambda>j. j\<lparr>jb_status := ''claimed''\<rparr>) (db_jobs s)\<rparr>"

theorem resubmission_returns_first_witness:
  "\<exists>r s1 r'. submit_request ctx_H same_path (req_env ''e1'') (req_args ''go'') route_base route_base = Inr (r, s1) \<and>
     submit_request ctx_H same_path (req_env ''e2'') (req_args ''go'') (start_first s1) (start_first s1) = Inr (r', start_first s1) \<and>
     rq_event r' = rq_event r \<and> jb_status (rq_job r') = ''claimed''"
proof -
  obtain r s1 c where d: "submit_request ctx_H same_path (req_env ''e1'') (req_args ''go'') route_base route_base = Inr (r, s1)"
    "rq_job_created r" "parse_snapshot ctx_H (dget (job_payload (rq_job r)) ''execution_context'') = Inr c"
    "find_job s1 (jb_id (rq_job r)) = Some (rq_job r)" "ground_tables s1 = ground_tables route_base"
    by (rule req_submits)
  let ?s = "start_first s1"
  let ?j = "rq_job r\<lparr>jb_status := ''claimed''\<rparr>"
  have g: "same_grounds ctx_H (req_args ''go'') ''a'' route_base ?s"
    using d(5) by (intro same_grounds_tables) (simp add: ground_tables_def start_first_def)
  have "find_job ?s (jb_id (rq_job r)) = Some ?j"
    using d(4) by (simp add: find_job_def start_first_def find_map_key [where key = jb_id])
  moreover have "same_order (rq_job r) ?j" by (simp add: same_order_def job_payload_def)
  ultimately have "submit_request ctx_H same_path (req_env ''e2'') (req_args ''go'') ?s ?s =
      Inr (\<lparr>rq_event = rq_event r, rq_event_created = False, rq_job = ?j, rq_job_created = False\<rparr>, ?s)"
    using req_facts(2) by (intro resubmission_returns_first [OF d(1,2) _ _ _ _ d(3) g g, where es = "[]"])
      (simp_all add: req_args_def start_first_def)
  then obtain r' where "submit_request ctx_H same_path (req_env ''e2'') (req_args ''go'') ?s ?s = Inr (r', ?s)"
    "rq_event r' = rq_event r" "jb_status (rq_job r') = ''claimed''" by simp
  with d(1) show ?thesis by blast
qed

end
