(* ===== verification/Checklist.thy ===== *)
theory Checklist
  imports PyValues
begin

text \<open>
  \<^verbatim>\<open>src/coordinate/checklist_contract.py\<close>: the validator of a harness checklist, the JSON file that
  holds the tasks of a project. It collects errors and warnings; a list without errors admits the
  file to every reader and writer. A test \<open>x in s\<close> on a set raises for a list or a dict \<open>x\<close>, which
  is not hashable, so the validator is a \<open>result\<close>.
\<close>

section \<open>Constants\<close>

definition ALLOWED_STATUSES :: "string list" where
  "ALLOWED_STATUSES = [''todo'', ''doing'', ''done'', ''blocked'']"

definition ALLOWED_PRIORITIES :: "string list" where
  "ALLOWED_PRIORITIES = [''p0'', ''p1'', ''p2'']"

definition ALLOWED_WORKFLOW_STATUSES :: "string list" where
  "ALLOWED_WORKFLOW_STATUSES =
     [''todo'', ''assigned'', ''accepted'', ''running'', ''handoff_requested'', ''review_requested'',
      ''ready_for_review'', ''closeout_requested'', ''review_approved'', ''changes_requested'', ''blocked'',
      ''unblocked'', ''released'', ''closed'']"

text \<open>\<open>ALLOWED_REVIEW_DECISIONS\<close> without its member \<open>None\<close>.\<close>

definition ALLOWED_REVIEW_DECISIONS :: "string list" where
  "ALLOWED_REVIEW_DECISIONS = [''approved'', ''changes_requested'', ''blocked'']"

definition WORKFLOW_MODES :: "string list" where
  "WORKFLOW_MODES = [''ordinary'', ''high-risk'']"

definition TOP_REQUIRED :: "string list" where
  "TOP_REQUIRED = [''project'', ''harness_root'', ''updated_at'', ''items'']"

definition ITEM_REQUIRED :: "string list" where
  "ITEM_REQUIRED =
     [''id'', ''title'', ''status'', ''priority'', ''owner'', ''selected_in_session'', ''updated_at'', ''dependencies'',
      ''blocked_by'', ''blocked_reason'', ''acceptance'', ''verification'', ''handoff'']"

section \<open>Tests on values\<close>

definition quoted :: "string \<Rightarrow> string" where
  "quoted s = CHR 0x27 # s @ [CHR 0x27]"

definition is_non_empty_string :: "pyval \<Rightarrow> bool" where
  "is_non_empty_string v = (case as_str v of None \<Rightarrow> False | Some s \<Rightarrow> strip s \<noteq> [])"

definition has_key :: "(string \<times> pyval) list \<Rightarrow> string \<Rightarrow> bool" where
  "has_key d k = List.member (map fst d) k"

text \<open>\<open>v in s\<close> for a set \<open>s\<close> of strings.\<close>

fun in_set :: "string list \<Rightarrow> pyval \<Rightarrow> bool result" where
  "in_set S (PyStr s) = Inr (List.member S s)"
| "in_set S (PyList xs) = raise TypeErr ''unhashable type: list''"
| "in_set S (PyDict d) = raise TypeErr ''unhashable type: dict''"
| "in_set S v = Inr False"

definition sorted_repr :: "string list \<Rightarrow> string" where
  "sorted_repr S = py_repr (PyList (map PyStr (sort S)))"

text \<open>\<open>if b: errors.append(msg)\<close>.\<close>

definition note_if :: "bool \<Rightarrow> string \<Rightarrow> string list" where
  "note_if b msg = (if b then [msg] else [])"

definition item_label :: "pyval \<Rightarrow> nat \<Rightarrow> string" where
  "item_label item index =
     (case as_dict item of
        Some d \<Rightarrow> if is_non_empty_string (dget d ''id'') then ''item '' @ py_repr (dget d ''id'')
                  else ''item at index '' @ dec_nat index
      | None \<Rightarrow> ''item at index '' @ dec_nat index)"

section \<open>Optional objects of an item\<close>

type_synonym report = "string list \<times> string list"

definition validate_optional_workflow :: "(string \<times> pyval) list \<Rightarrow> string \<Rightarrow> report result" where
  "validate_optional_workflow item label =
     (let workflow = dget item ''workflow'' in
      if workflow = PyNone then Inr ([], [])
      else case as_dict workflow of
        None \<Rightarrow> Inr ([label @ '' optional field 'workflow' must be an object when present''], [])
      | Some flow \<Rightarrow>
          bindE (if has_key flow ''mode'' then in_set WORKFLOW_MODES (dget flow ''mode'') else Inr True) (\<lambda>mode_ok.
          let mode_errors = note_if (\<not> mode_ok) (label @ '' workflow.mode must be one of '' @
                sorted_repr WORKFLOW_MODES @ '', got '' @ py_repr (dget flow ''mode''));
              status = dget flow ''status''; coarse = dget item ''status'';
              keys = sorted_repr (map fst flow)
          in if status = PyNone then
               (if \<not> has_key flow ''mode'' then
                  Inr (mode_errors @ [label @ '' workflow without 'status' must carry exactly 'mode', got keys '' @ keys], [])
                else if \<not> list_all (\<lambda>k. k = ''mode'') (map fst flow) then
                  Inr (mode_errors @ [label @ '' mode-only workflow may only carry 'mode', got keys '' @ keys], [])
                else if coarse \<noteq> PyStr ''todo'' then
                  Inr (mode_errors @ [label @ '' mode-only workflow requires coarse status 'todo', got '' @ py_repr coarse], [])
                else Inr (mode_errors, []))
             else
               bindE (in_set ALLOWED_WORKFLOW_STATUSES status) (\<lambda>status_ok.
                 Inr (mode_errors @ note_if (\<not> status_ok) (label @ '' workflow.status must be one of '' @
                        sorted_repr ALLOWED_WORKFLOW_STATUSES @ '', got '' @ py_repr status),
                      note_if (coarse = PyStr ''done'' \<and> status \<noteq> PyStr ''closed'')
                        (label @ '' is done but workflow.status is not '' @ quoted ''closed'') @
                      note_if (coarse = PyStr ''blocked'' \<and> status \<noteq> PyStr ''blocked'')
                        (label @ '' is blocked but workflow.status is not '' @ quoted ''blocked'') @
                      note_if (status = PyStr ''closed'' \<and> coarse \<noteq> PyStr ''done'')
                        (label @ '' workflow.status is closed but coarse status is not done'') @
                      note_if (status = PyStr ''running'' \<and> coarse \<noteq> PyStr ''doing'')
                        (label @ '' workflow.status is running but coarse status is not doing'')))))"

text \<open>\<open>isinstance(v, int)\<close>: a Boolean is one.\<close>

fun is_int_or_bool :: "pyval \<Rightarrow> bool" where
  "is_int_or_bool (PyInt i) = True"
| "is_int_or_bool (PyBool b) = True"
| "is_int_or_bool v = False"

definition validate_optional_lease :: "(string \<times> pyval) list \<Rightarrow> string \<Rightarrow> report" where
  "validate_optional_lease item label =
     (let lease = dget item ''lease'' in
      if lease = PyNone then ([], [])
      else case as_dict lease of
        None \<Rightarrow> ([label @ '' optional field 'lease' must be an object or null''], [])
      | Some l \<Rightarrow>
          (concat (map (\<lambda>field. note_if (\<not> is_non_empty_string (dget l field))
               (label @ '' lease.'' @ field @ '' must be a non-empty string''))
               [''owner'', ''session'', ''acquired_at'', ''expires_at'']) @
           note_if (has_key l ''ttl_minutes'' \<and> \<not> is_int_or_bool (dget l ''ttl_minutes''))
             (label @ '' lease.ttl_minutes must be an integer when present''),
           note_if (truthy (dget item ''owner'') \<and> is_non_empty_string (dget l ''owner'') \<and>
               \<not> py_eq (dget l ''owner'') (dget item ''owner''))
             (label @ '' owner and lease.owner differ'')))"

definition artifact_errors :: "string \<Rightarrow> string \<times> pyval \<Rightarrow> string list" where
  "artifact_errors label kv =
     (case kv of (key, value) \<Rightarrow>
        note_if (\<not> is_non_empty_string (PyStr key)) (label @ '' artifacts keys must be non-empty strings'') @
        (case as_list value of
           Some entries \<Rightarrow> note_if (\<not> list_all is_non_empty_string entries)
             (label @ '' artifacts.'' @ key @ '' list entries must be non-empty strings'')
         | None \<Rightarrow> note_if (\<not> is_non_empty_string value)
             (label @ '' artifacts.'' @ key @ '' must be a string or list of strings'')))"

definition validate_optional_artifacts :: "(string \<times> pyval) list \<Rightarrow> string \<Rightarrow> string list" where
  "validate_optional_artifacts item label =
     (let artifacts = dget item ''artifacts'' in
      if artifacts = PyNone then []
      else case as_dict artifacts of
        None \<Rightarrow> [label @ '' optional field 'artifacts' must be an object when present'']
      | Some d \<Rightarrow> concat (map (artifact_errors label) d))"

definition validate_optional_review :: "(string \<times> pyval) list \<Rightarrow> string \<Rightarrow> report result" where
  "validate_optional_review item label =
     (let review = dget item ''review'' in
      if review = PyNone then Inr ([], [])
      else case as_dict review of
        None \<Rightarrow> Inr ([label @ '' optional field 'review' must be an object when present''], [])
      | Some r \<Rightarrow>
          let decision = dget r ''decision'' in
          bindE (if decision = PyNone then Inr True else in_set ALLOWED_REVIEW_DECISIONS decision) (\<lambda>ok.
            Inr (note_if (\<not> ok) (label @ '' review.decision must be one of '' @
                   sorted_repr ALLOWED_REVIEW_DECISIONS @ '' or null''),
                 note_if (dget item ''status'' = PyStr ''done'' \<and> as_dict (dget item ''workflow'') \<noteq> None \<and>
                     decision \<noteq> PyStr ''approved'')
                   (label @ '' is done under extended workflow but review.decision is not approved''))))"

section \<open>The checklist\<close>

text \<open>The field checks of an item that come before those of its optional objects.\<close>

definition item_field_errors :: "(string \<times> pyval) list \<Rightarrow> string \<Rightarrow> string list \<Rightarrow> bool \<Rightarrow> bool \<Rightarrow> string list" where
  "item_field_errors item label seen status_ok priority_ok =
     (let status = dget item ''status''; priority = dget item ''priority''; ident = dget item ''id'' in
      concat (map (\<lambda>field. note_if (\<not> has_key item field) (label @ '' missing required field: '' @ field))
        (sort ITEM_REQUIRED)) @
      (if \<not> is_non_empty_string ident then [label @ '' field 'id' must be a non-empty string'']
       else note_if (List.member seen (py_str ident)) (label @ '' has duplicate id'')) @
      concat (map (\<lambda>field. note_if (has_key item field \<and> \<not> is_non_empty_string (dget item field))
        (label @ '' field '' @ quoted field @ '' must be a non-empty string'')) [''title'', ''updated_at'', ''acceptance'']) @
      note_if (\<not> status_ok) (label @ '' field 'status' must be one of '' @ sorted_repr ALLOWED_STATUSES @
        '', got '' @ py_repr status) @
      note_if (\<not> priority_ok) (label @ '' field 'priority' must be one of '' @ sorted_repr ALLOWED_PRIORITIES @
        '', got '' @ py_repr priority) @
      note_if (has_key item ''dependencies'' \<and> as_list (dget item ''dependencies'') = None)
        (label @ '' field 'dependencies' must be an array'') @
      note_if (has_key item ''blocked_by'' \<and> as_list (dget item ''blocked_by'') = None)
        (label @ '' field 'blocked_by' must be an array'') @
      note_if (has_key item ''blocked_reason'' \<and> dget item ''blocked_reason'' \<noteq> PyNone \<and>
          as_str (dget item ''blocked_reason'') = None)
        (label @ '' field 'blocked_reason' must be a string or null'') @
      note_if (status = PyStr ''doing'' \<and> \<not> is_non_empty_string (dget item ''owner''))
        (label @ '' with status 'doing' must have non-empty owner'') @
      note_if (status = PyStr ''doing'' \<and> \<not> is_non_empty_string (dget item ''selected_in_session''))
        (label @ '' with status 'doing' must have non-empty selected_in_session'') @
      note_if (status = PyStr ''done'' \<and> \<not> is_non_empty_string (dget item ''verification''))
        (label @ '' with status 'done' must have non-empty verification''))"

definition item_field_warnings :: "(string \<times> pyval) list \<Rightarrow> string \<Rightarrow> string list" where
  "item_field_warnings item label =
     (let blocked = (dget item ''status'' = PyStr ''blocked'') in
      note_if (blocked \<and> dget item ''blocked_by'' = PyList [])
        (label @ '' with status 'blocked' should list blocked_by item ids when another checklist item is the blocker'') @
      note_if (blocked \<and> \<not> is_non_empty_string (dget item ''blocked_reason''))
        (label @ '' with status 'blocked' should include blocked_reason'') @
      note_if (blocked \<and> \<not> is_non_empty_string (dget item ''handoff''))
        (label @ '' with status 'blocked' should include handoff''))"

text \<open>One round of the first loop: the report of an item and the ids seen so far.\<close>

definition validate_item :: "nat \<Rightarrow> pyval \<Rightarrow> string list \<Rightarrow> (report \<times> string list) result" where
  "validate_item index v seen =
     (let label = item_label v index in
      case as_dict v of
        None \<Rightarrow> Inr (([label @ '' must be an object''], []), seen)
      | Some item \<Rightarrow>
          bindE (in_set ALLOWED_STATUSES (dget item ''status'')) (\<lambda>status_ok.
          bindE (in_set ALLOWED_PRIORITIES (dget item ''priority'')) (\<lambda>priority_ok.
          bindE (validate_optional_workflow item label) (\<lambda>(we, ww).
          bindE (validate_optional_review item label) (\<lambda>(re, rw).
            let (le, lw) = validate_optional_lease item label in
            Inr ((item_field_errors item label seen status_ok priority_ok @ we @ le @
                    validate_optional_artifacts item label @ re,
                  item_field_warnings item label @ ww @ lw @ rw),
                 (if is_non_empty_string (dget item ''id'') then py_str (dget item ''id'') # seen else seen)))))))"

fun validate_items :: "nat \<Rightarrow> pyval list \<Rightarrow> string list \<Rightarrow> (report \<times> string list) result" where
  "validate_items index [] seen = Inr (([], []), seen)"
| "validate_items index (v # vs) seen =
     bindE (validate_item index v seen) (\<lambda>((es, ws), seen').
     bindE (validate_items (Suc index) vs seen') (\<lambda>((es', ws'), seen'').
       Inr ((es @ es', ws @ ws'), seen'')))"

text \<open>The references that a list field of an item makes to other items.\<close>

definition reference_errors :: "string \<Rightarrow> string \<Rightarrow> string \<Rightarrow> string list \<Rightarrow> pyval list \<Rightarrow> string list" where
  "reference_errors label field noun seen refs =
     concat (map (\<lambda>(i, r).
       if \<not> is_non_empty_string r then [label @ CHR '' '' # field @ ''['' @ dec_nat i @ ''] must be a non-empty string'']
       else note_if (\<not> List.member seen (py_str r)) (label @ CHR '' '' # noun @ CHR '' '' # py_repr r @ '' does not exist''))
       (enumerate 0 refs))"

definition item_reference_errors :: "string list \<Rightarrow> nat \<times> pyval \<Rightarrow> string list" where
  "item_reference_errors seen iv =
     (case iv of (index, v) \<Rightarrow>
        let label = item_label v index in
        case as_dict v of None \<Rightarrow> [] | Some item \<Rightarrow>
          (case as_list (dget item ''dependencies'') of None \<Rightarrow> [] | Some deps \<Rightarrow>
             reference_errors label ''dependencies'' ''dependency'' seen deps @
             (case as_list (dget item ''blocked_by'') of None \<Rightarrow> [] | Some bs \<Rightarrow>
                reference_errors label ''blocked_by'' ''blocked_by item'' seen bs)))"

definition validate_checklist :: "pyval \<Rightarrow> report result" where
  "validate_checklist v =
     (case as_dict v of
        None \<Rightarrow> Inr ([''root must be a JSON object''], [])
      | Some d \<Rightarrow>
          let errors =
                concat (map (\<lambda>f. note_if (\<not> has_key d f) (''root missing required field: '' @ f)) (sort TOP_REQUIRED)) @
                concat (map (\<lambda>f. note_if (has_key d f \<and> \<not> is_non_empty_string (dget d f))
                  (''root field '' @ quoted f @ '' must be a non-empty string'')) [''project'', ''harness_root'', ''updated_at''])
          in case as_list (dget_or d ''items'' (PyList [])) of
               None \<Rightarrow> Inr (errors @ [''root field 'items' must be an array''], [])
             | Some items \<Rightarrow>
                 bindE (validate_items 0 items []) (\<lambda>((es, ws), seen).
                   Inr (errors @ es @ concat (map (item_reference_errors seen) (enumerate 0 items)), ws)))"

section \<open>What an accepted checklist is\<close>

text \<open>
  The contract without its traversal: an item by its fields, ids that are distinct, references that
  name items of the file.
\<close>

definition one_of :: "string list \<Rightarrow> pyval \<Rightarrow> bool" where
  "one_of S v = (case as_str v of None \<Rightarrow> False | Some s \<Rightarrow> List.member S s)"

definition workflow_ok :: "(string \<times> pyval) list \<Rightarrow> bool" where
  "workflow_ok item =
     (dget item ''workflow'' = PyNone \<or>
      (case as_dict (dget item ''workflow'') of None \<Rightarrow> False | Some flow \<Rightarrow>
         (has_key flow ''mode'' \<longrightarrow> one_of WORKFLOW_MODES (dget flow ''mode'')) \<and>
         (if dget flow ''status'' = PyNone
          then has_key flow ''mode'' \<and> list_all (\<lambda>k. k = ''mode'') (map fst flow) \<and> dget item ''status'' = PyStr ''todo''
          else one_of ALLOWED_WORKFLOW_STATUSES (dget flow ''status''))))"

definition item_lease_ok :: "(string \<times> pyval) list \<Rightarrow> bool" where
  "item_lease_ok item =
     (dget item ''lease'' = PyNone \<or>
      (case as_dict (dget item ''lease'') of None \<Rightarrow> False | Some l \<Rightarrow>
         list_all (\<lambda>f. is_non_empty_string (dget l f)) [''owner'', ''session'', ''acquired_at'', ''expires_at''] \<and>
         (has_key l ''ttl_minutes'' \<longrightarrow> is_int_or_bool (dget l ''ttl_minutes''))))"

definition artifact_ok :: "string \<times> pyval \<Rightarrow> bool" where
  "artifact_ok kv =
     (strip (fst kv) \<noteq> [] \<and>
      (case as_list (snd kv) of Some xs \<Rightarrow> list_all is_non_empty_string xs | None \<Rightarrow> is_non_empty_string (snd kv)))"

definition artifacts_ok :: "(string \<times> pyval) list \<Rightarrow> bool" where
  "artifacts_ok item =
     (dget item ''artifacts'' = PyNone \<or>
      (case as_dict (dget item ''artifacts'') of None \<Rightarrow> False | Some d \<Rightarrow> list_all artifact_ok d))"

definition review_ok :: "(string \<times> pyval) list \<Rightarrow> bool" where
  "review_ok item =
     (dget item ''review'' = PyNone \<or>
      (case as_dict (dget item ''review'') of None \<Rightarrow> False | Some r \<Rightarrow>
         dget r ''decision'' = PyNone \<or> one_of ALLOWED_REVIEW_DECISIONS (dget r ''decision'')))"

definition fields_ok :: "(string \<times> pyval) list \<Rightarrow> bool" where
  "fields_ok item =
     (list_all (has_key item) ITEM_REQUIRED \<and>
      list_all (\<lambda>f. is_non_empty_string (dget item f)) [''id'', ''title'', ''updated_at'', ''acceptance''] \<and>
      one_of ALLOWED_STATUSES (dget item ''status'') \<and> one_of ALLOWED_PRIORITIES (dget item ''priority'') \<and>
      as_list (dget item ''dependencies'') \<noteq> None \<and> as_list (dget item ''blocked_by'') \<noteq> None \<and>
      (dget item ''blocked_reason'' = PyNone \<or> as_str (dget item ''blocked_reason'') \<noteq> None) \<and>
      (dget item ''status'' = PyStr ''doing'' \<longrightarrow>
         is_non_empty_string (dget item ''owner'') \<and> is_non_empty_string (dget item ''selected_in_session'')) \<and>
      (dget item ''status'' = PyStr ''done'' \<longrightarrow> is_non_empty_string (dget item ''verification'')))"

definition item_ok :: "pyval \<Rightarrow> bool" where
  "item_ok v = (case as_dict v of None \<Rightarrow> False | Some item \<Rightarrow>
     fields_ok item \<and> workflow_ok item \<and> item_lease_ok item \<and> artifacts_ok item \<and> review_ok item)"

definition item_id :: "pyval \<Rightarrow> string" where
  "item_id v = (case as_dict v of None \<Rightarrow> [] | Some item \<Rightarrow> py_str (dget item ''id''))"

definition field_list :: "pyval \<Rightarrow> string \<Rightarrow> pyval list" where
  "field_list v f = (case as_dict v of None \<Rightarrow> [] | Some item \<Rightarrow>
     (case as_list (dget item f) of None \<Rightarrow> [] | Some xs \<Rightarrow> xs))"

definition references_ok :: "string list \<Rightarrow> pyval \<Rightarrow> bool" where
  "references_ok ids v = list_all (\<lambda>r. is_non_empty_string r \<and> List.member ids (py_str r))
     (field_list v ''dependencies'' @ field_list v ''blocked_by'')"

definition checklist_ok :: "pyval \<Rightarrow> bool" where
  "checklist_ok v = (case as_dict v of None \<Rightarrow> False | Some d \<Rightarrow>
     list_all (\<lambda>f. is_non_empty_string (dget d f)) [''project'', ''harness_root'', ''updated_at''] \<and>
     (case as_list (dget d ''items'') of None \<Rightarrow> False | Some items \<Rightarrow>
        list_all item_ok items \<and> distinct (map item_id items) \<and>
        list_all (references_ok (map item_id items)) items))"

section \<open>The validator accepts exactly these\<close>

lemma note_if_Nil [simp]: "note_if b m = [] \<longleftrightarrow> \<not> b"
  by (simp add: note_if_def)

lemma in_set_True [simp]: "in_set S v = Inr True \<longleftrightarrow> one_of S v"
  by (cases v) (auto simp: one_of_def)

lemma in_set_one_of [simp]: "one_of S v \<Longrightarrow> in_set S v = Inr True"
  by simp

lemma non_empty_string_None [simp]: "\<not> is_non_empty_string PyNone"
  by (simp add: is_non_empty_string_def as_str.simps)

lemma non_empty_stringE: "is_non_empty_string v \<Longrightarrow> (\<And>s. v = PyStr s \<Longrightarrow> strip s \<noteq> [] \<Longrightarrow> P) \<Longrightarrow> P"
  by (auto simp: is_non_empty_string_def split: option.splits)

lemma non_empty_has_key: "is_non_empty_string (dget d k) \<Longrightarrow> has_key d k"
proof (rule ccontr)
  assume "is_non_empty_string (dget d k)" "\<not> has_key d k"
  then have "map_of d k = None" by (simp add: has_key_def map_of_eq_None_iff)
  then have "dget d k = PyNone" by (simp add: dget_def)
  then show False using \<open>is_non_empty_string (dget d k)\<close> by simp
qed

text \<open>A report without errors.\<close>

definition accepts :: "('a list \<times> 'b) result \<Rightarrow> bool" where
  "accepts r = (case r of Inl _ \<Rightarrow> False | Inr (es, _) \<Rightarrow> es = [])"

lemma accepts_iff: "accepts r \<longleftrightarrow> (\<exists>ws. r = Inr ([], ws))"
  by (auto simp: accepts_def split: sum.splits)

lemma accepts_simps [simp]: "accepts (Inl e) = False" "accepts (Inr (es, ws)) \<longleftrightarrow> es = []"
  by (simp_all add: accepts_def)

lemma accepts_in_set: "accepts (bindE (in_set S v) f) \<longleftrightarrow>
    one_of S v \<and> accepts (f True) \<or> in_set S v = Inr False \<and> accepts (f False)"
proof (cases "in_set S v")
  case (Inr b)
  then show ?thesis using in_set_True [of S v] by (cases b) auto
next
  case (Inl e)
  then show ?thesis using in_set_True [of S v] by auto
qed

lemma workflow_accepts: "accepts (validate_optional_workflow item label) \<longleftrightarrow> workflow_ok item"
proof (cases "dget item ''workflow''")
  case (PyDict flow)
  show ?thesis
    by (cases "has_key flow ''mode''"; cases "dget flow ''status'' = PyNone")
      (simp_all add: validate_optional_workflow_def workflow_ok_def PyDict Let_def accepts_in_set)
qed (simp_all add: validate_optional_workflow_def workflow_ok_def)

lemma lease_accepts: "fst (validate_optional_lease item label) = [] \<longleftrightarrow> item_lease_ok item"
  by (cases "dget item ''lease''") (auto simp: validate_optional_lease_def item_lease_ok_def Let_def)

lemma artifact_accepts: "artifact_errors label kv = [] \<longleftrightarrow> artifact_ok kv"
  by (cases kv) (auto simp: artifact_errors_def artifact_ok_def is_non_empty_string_def split: option.splits)

lemma artifacts_accepts: "validate_optional_artifacts item label = [] \<longleftrightarrow> artifacts_ok item"
  by (cases "dget item ''artifacts''")
    (auto simp: validate_optional_artifacts_def artifacts_ok_def artifact_accepts list_all_iff)

lemma review_accepts: "accepts (validate_optional_review item label) \<longleftrightarrow> review_ok item"
proof (cases "dget item ''review''")
  case (PyDict r)
  show ?thesis
    by (cases "dget r ''decision'' = PyNone")
      (simp_all add: validate_optional_review_def review_ok_def PyDict Let_def accepts_in_set)
qed (simp_all add: validate_optional_review_def review_ok_def)

lemma field_accepts:
  "item_field_errors item label seen status_ok priority_ok = [] \<and>
     status_ok = one_of ALLOWED_STATUSES (dget item ''status'') \<and> priority_ok = one_of ALLOWED_PRIORITIES (dget item ''priority'')
   \<longleftrightarrow> fields_ok item \<and> status_ok \<and> priority_ok \<and> py_str (dget item ''id'') \<notin> set seen"
  using non_empty_has_key [of item]
  by (auto simp: item_field_errors_def fields_ok_def Let_def list_all_iff ITEM_REQUIRED_def split: if_splits)

lemma validate_item_accepts:
  "(\<exists>ws. validate_item index v seen = Inr (([], ws), seen')) \<longleftrightarrow>
     item_ok v \<and> item_id v \<notin> set seen \<and> seen' = item_id v # seen"
proof (cases "as_dict v")
  case None
  then show ?thesis by (simp add: validate_item_def item_ok_def Let_def)
next
  case (Some item)
  let ?l = "item_label v index" and ?s = "dget item ''status''" and ?p = "dget item ''priority''"
  obtain le lw where lease: "validate_optional_lease item ?l = (le, lw)" by force
  show ?thesis
  proof
    assume "\<exists>ws. validate_item index v seen = Inr (([], ws), seen')"
    then obtain so po ww rw where so: "in_set ALLOWED_STATUSES ?s = Inr so" and po: "in_set ALLOWED_PRIORITIES ?p = Inr po"
      and e: "item_field_errors item ?l seen so po = []"
      and w: "validate_optional_workflow item ?l = Inr ([], ww)" and r: "validate_optional_review item ?l = Inr ([], rw)"
      and l: "le = []" and a: "validate_optional_artifacts item ?l = []"
      and s: "seen' = (if is_non_empty_string (dget item ''id'') then py_str (dget item ''id'') # seen else seen)"
      using lease unfolding validate_item_def Some option.case Let_def bindE_eq_Inr by auto
    from e have "so \<and> po" by (simp add: item_field_errors_def Let_def)
    with so po e field_accepts [of item ?l seen True True]
    have f: "fields_ok item" "py_str (dget item ''id'') \<notin> set seen" by auto
    then have "is_non_empty_string (dget item ''id'')" by (simp add: fields_ok_def)
    with f w r l a s Some show "item_ok v \<and> item_id v \<notin> set seen \<and> seen' = item_id v # seen"
      using workflow_accepts [of item ?l] review_accepts [of item ?l] lease_accepts [of item ?l] artifacts_accepts [of item ?l] lease
      by (auto simp: item_ok_def item_id_def)
  next
    assume *: "item_ok v \<and> item_id v \<notin> set seen \<and> seen' = item_id v # seen"
    with Some have ok: "fields_ok item" "workflow_ok item" "item_lease_ok item" "artifacts_ok item" "review_ok item"
      and seen: "py_str (dget item ''id'') \<notin> set seen" "seen' = py_str (dget item ''id'') # seen"
      by (simp_all add: item_ok_def item_id_def)
    from ok(1) have one: "one_of ALLOWED_STATUSES ?s" "one_of ALLOWED_PRIORITIES ?p"
      and ident: "is_non_empty_string (dget item ''id'')" by (simp_all add: fields_ok_def)
    have e: "item_field_errors item ?l seen True True = []" using field_accepts [of item ?l seen True True] ok(1) seen one by simp
    obtain ww where w: "validate_optional_workflow item ?l = Inr ([], ww)" using workflow_accepts [of item ?l] ok(2) by (auto simp: accepts_iff)
    obtain rw where r: "validate_optional_review item ?l = Inr ([], rw)" using review_accepts [of item ?l] ok(5) by (auto simp: accepts_iff)
    have l: "validate_optional_lease item ?l = ([], lw)" using lease_accepts [of item ?l] ok(3) lease by simp
    have a: "validate_optional_artifacts item ?l = []" using artifacts_accepts ok(4) by blast
    show "\<exists>ws. validate_item index v seen = Inr (([], ws), seen')"
      using Some one e w r l a ident seen(2) by (simp add: validate_item_def Let_def)
  qed
qed

lemma validate_items_accepts:
  "(\<exists>ws. validate_items index vs seen = Inr (([], ws), seen')) \<longleftrightarrow>
     list_all item_ok vs \<and> distinct (map item_id vs) \<and> set (map item_id vs) \<inter> set seen = {} \<and>
     seen' = rev (map item_id vs) @ seen"
proof (induction vs arbitrary: index seen)
  case (Cons v vs)
  have "(\<exists>ws. validate_items index (v # vs) seen = Inr (([], ws), seen')) \<longleftrightarrow>
      (\<exists>mid. (\<exists>ws. validate_item index v seen = Inr (([], ws), mid)) \<and> (\<exists>ws. validate_items (Suc index) vs mid = Inr (([], ws), seen')))"
    by (auto simp: bindE_eq_Inr)
  also have "\<dots> \<longleftrightarrow> item_ok v \<and> item_id v \<notin> set seen \<and>
      (\<exists>ws. validate_items (Suc index) vs (item_id v # seen) = Inr (([], ws), seen'))"
    unfolding validate_item_accepts by blast
  also have "\<dots> \<longleftrightarrow> list_all item_ok (v # vs) \<and> distinct (map item_id (v # vs)) \<and>
      set (map item_id (v # vs)) \<inter> set seen = {} \<and> seen' = rev (map item_id (v # vs)) @ seen"
    unfolding Cons.IH by auto
  finally show ?case .
qed auto

lemma concat_enumerate_Nil:
  "(\<And>i x. f (i, x) = [] \<longleftrightarrow> P x) \<Longrightarrow> concat (map f (enumerate n xs)) = [] \<longleftrightarrow> list_all P xs"
  by (induction xs arbitrary: n) auto

lemma reference_errors_Nil:
  "reference_errors label field noun seen refs = [] \<longleftrightarrow>
     list_all (\<lambda>r. is_non_empty_string r \<and> List.member seen (py_str r)) refs"
  unfolding reference_errors_def by (rule concat_enumerate_Nil) simp

lemma item_reference_errors_Nil:
  "item_ok v \<Longrightarrow> item_reference_errors seen (i, v) = [] \<longleftrightarrow> references_ok seen v"
  by (cases "as_dict v") (auto simp: item_reference_errors_def item_ok_def fields_ok_def references_ok_def
      field_list_def reference_errors_Nil Let_def)

lemma concat_references_Nil:
  assumes "list_all item_ok items"
  shows "concat (map (item_reference_errors seen) (enumerate n items)) = [] \<longleftrightarrow> list_all (references_ok seen) items"
  using assms by (induction items arbitrary: n) (simp_all add: item_reference_errors_Nil)

lemma references_ok_cong: "set a = set b \<Longrightarrow> references_ok a = references_ok b"
  by (auto simp: references_ok_def list_all_iff fun_eq_iff)

lemma root_accepts:
  "concat (map (\<lambda>f. note_if (\<not> has_key d f) (m f)) (sort TOP_REQUIRED)) @
     concat (map (\<lambda>f. note_if (has_key d f \<and> \<not> is_non_empty_string (dget d f)) (m' f)) [''project'', ''harness_root'', ''updated_at'']) = []
   \<longleftrightarrow> list_all (\<lambda>f. is_non_empty_string (dget d f)) [''project'', ''harness_root'', ''updated_at''] \<and> has_key d ''items''"
  using non_empty_has_key [of d] by (auto simp: TOP_REQUIRED_def)

lemma dget_or_key: "has_key d k \<Longrightarrow> dget_or d k v = dget d k"
  by (auto simp: dget_or_def dget_def has_key_def map_of_eq_None_iff split: option.splits)

lemma list_has_key: "as_list (dget d k) = Some xs \<Longrightarrow> has_key d k"
proof (cases "map_of d k")
  case (Some v)
  then show ?thesis by (force simp: has_key_def dest: map_of_SomeD)
qed (simp add: dget_def)

text \<open>
  C18: The validator accepts exactly the checklists of the contract: every item well-formed by itself,
  ids distinct, every dependency and blocker the id of an item of the same file.
\<close>

theorem checklist_accepted_iff: "accepts (validate_checklist v) \<longleftrightarrow> checklist_ok v"
proof (cases "as_dict v")
  case None
  then show ?thesis by (simp add: accepts_def validate_checklist_def checklist_ok_def)
next
  case (Some d)
  let ?root = "concat (map (\<lambda>f. note_if (\<not> has_key d f) (''root missing required field: '' @ f)) (sort TOP_REQUIRED)) @
    concat (map (\<lambda>f. note_if (has_key d f \<and> \<not> is_non_empty_string (dget d f))
      (''root field '' @ quoted f @ '' must be a non-empty string'')) [''project'', ''harness_root'', ''updated_at''])"
  let ?strs = "list_all (\<lambda>f. is_non_empty_string (dget d f)) [''project'', ''harness_root'', ''updated_at'']"
  note root = root_accepts [of d "\<lambda>f. ''root missing required field: '' @ f" "\<lambda>f. ''root field '' @ quoted f @ '' must be a non-empty string''"]
  show ?thesis
  proof (cases "as_list (dget_or d ''items'' (PyList []))")
    case None
    then have "as_list (dget d ''items'') = None"
      using list_has_key dget_or_key by (metis option.exhaust)
    with Some None show ?thesis by (simp add: accepts_def validate_checklist_def checklist_ok_def Let_def)
  next
    case items: (Some items)
    let ?ids = "map item_id items"
    have "accepts (validate_checklist v) \<longleftrightarrow> ?root = [] \<and> (\<exists>seen. (\<exists>ws. validate_items 0 items [] = Inr (([], ws), seen)) \<and>
        concat (map (item_reference_errors seen) (enumerate 0 items)) = [])"
      unfolding validate_checklist_def Some option.case items Let_def accepts_iff by (auto simp: bindE_eq_Inr)
    also have "\<dots> \<longleftrightarrow> ?root = [] \<and> list_all item_ok items \<and> distinct ?ids \<and>
        concat (map (item_reference_errors (rev ?ids)) (enumerate 0 items)) = []"
      unfolding validate_items_accepts by auto
    also have "\<dots> \<longleftrightarrow> ?strs \<and> has_key d ''items'' \<and> list_all item_ok items \<and> distinct ?ids \<and> list_all (references_ok ?ids) items"
      using concat_references_Nil [of items "rev ?ids" 0] references_ok_cong [of "rev ?ids" ?ids] unfolding root by auto
    also have "\<dots> \<longleftrightarrow> checklist_ok v"
    proof (cases "has_key d ''items''")
      case True
      with items have "as_list (dget d ''items'') = Some items" by (metis dget_or_key)
      with True Some show ?thesis by (simp add: checklist_ok_def)
    next
      case False
      with list_has_key [of d "''items''"] have "as_list (dget d ''items'') = None" by (cases "as_list (dget d ''items'')") auto
      with False Some show ?thesis by (simp add: checklist_ok_def)
    qed
    finally show ?thesis .
  qed
qed


lemma validate_items_raises:
  assumes "PyDict item \<in> set vs" "as_list (dget item ''status'') \<noteq> None \<or> as_dict (dget item ''status'') \<noteq> None"
  shows "\<not> is_ok (validate_items index vs seen)"
  using assms(1)
proof (induction vs arbitrary: index seen)
  case (Cons v vs)
  show ?case
  proof (cases "v = PyDict item")
    case True
    have "\<not> is_ok (in_set ALLOWED_STATUSES (dget item ''status''))" using assms(2) by (cases "dget item ''status''") auto
    then obtain e where "in_set ALLOWED_STATUSES (dget item ''status'') = Inl e"
      by (cases "in_set ALLOWED_STATUSES (dget item ''status'')") auto
    then show ?thesis by (simp add: True validate_item_def Let_def)
  next
    case False
    with Cons have "PyDict item \<in> set vs" by simp
    from Cons.IH [OF this] show ?thesis by (auto simp: is_ok_iff bindE_eq_Inr)
  qed
qed simp

text \<open>
  A field of an item whose value is a list or an object where a name is expected is not reported
  but raises \<open>TypeError\<close> out of the validator: here its status.
\<close>

theorem unhashable_status_raises:
  assumes "as_list (dget d ''items'') = Some items" "PyDict item \<in> set items"
    and "as_list (dget item ''status'') \<noteq> None \<or> as_dict (dget item ''status'') \<noteq> None"
  shows "\<not> is_ok (validate_checklist (PyDict d))"
proof -
  have "dget_or d ''items'' (PyList []) = dget d ''items''" using dget_or_key list_has_key [OF assms(1)] by blast
  then have "as_list (dget_or d ''items'' (PyList [])) = Some items" using assms(1) by simp
  then show ?thesis using validate_items_raises [OF assms(2,3), of 0 "[]"]
    by (auto simp: validate_checklist_def is_ok_iff bindE_eq_Inr Let_def)
qed

theorem unhashable_status_raises_witness:
  "\<not> is_ok (validate_checklist (PyDict [(''items'', PyList [PyDict [(''status'', PyList [PyStr ''todo''])]])]))"
  by (rule unhashable_status_raises [where items = "[PyDict [(''status'', PyList [PyStr ''todo''])]]"
        and item = "[(''status'', PyList [PyStr ''todo''])]"]) simp_all

end
