(* ===== verification/ChecklistIO.thy ===== *)
theory ChecklistIO
  imports Checklist Resources
begin

text \<open>
  \<^verbatim>\<open>src/coordinate/checklist_io.py\<close>: the only reader and writer of checklist files. The directory of
  the harness root maps names to entries; the text of a file is turned into a value by
  \<open>json.loads\<close>, the parameter \<open>loads\<close>, and written with \<open>json.dumps(indent=2)\<close>. An operation that
  writes returns the directory as it leaves it next to its result, because it can raise after
  the file was replaced. A \<open>ChecklistError\<close> carries its \<open>reason\<close> in place of its message.
\<close>

section \<open>Files\<close>

datatype entry = RegularFile (file_text: string) (file_mode: nat) | OtherEntry

type_synonym directory = "string \<Rightarrow> entry option"

definition is_file :: "directory \<Rightarrow> string \<Rightarrow> bool" where
  "is_file dir n = (case dir n of Some (RegularFile _ _) \<Rightarrow> True | _ \<Rightarrow> False)"

definition lexists :: "directory \<Rightarrow> string \<Rightarrow> bool" where
  "lexists dir n = (dir n \<noteq> None)"

definition CHECKLIST_NEW_NAME :: string where "CHECKLIST_NEW_NAME = ''harness-checklist.json''"
definition CHECKLIST_LEGACY_NAME :: string where "CHECKLIST_LEGACY_NAME = ''mvp-checklist.json''"

section \<open>Resolution\<close>

text \<open>A resolved checklist is the name of its file.\<close>

definition resolve_checklist :: "directory \<Rightarrow> string \<Rightarrow> string result" where
  "resolve_checklist dir purpose =
     (if \<not> List.member [''read'', ''mutation'', ''migrate''] purpose then raise ValueErr ''unknown checklist purpose''
      else
        let has_new = is_file dir CHECKLIST_NEW_NAME; has_legacy = is_file dir CHECKLIST_LEGACY_NAME in
        if has_new \<and> has_legacy then raise ChecklistErr ''dual_authority''
        else if purpose = ''migrate'' then
          (if has_new then raise ChecklistErr ''dual_authority''
           else if \<not> has_legacy then raise ChecklistErr ''checklist_missing''
           else Inr CHECKLIST_LEGACY_NAME)
        else if has_new then Inr CHECKLIST_NEW_NAME
        else if has_legacy then Inr CHECKLIST_LEGACY_NAME
        else raise ChecklistErr ''checklist_missing'')"

text \<open>\<open>load_checklist\<close> with its \<open>resolved\<close> argument, and without it.\<close>

definition load_resolved :: "(string \<Rightarrow> pyval option) \<Rightarrow> directory \<Rightarrow> string \<Rightarrow> (string \<times> pyval) list result" where
  "load_resolved loads dir name =
     (if \<not> is_file dir name then raise ChecklistErr ''validation_error''
      else case loads (file_text (the (dir name))) of
        None \<Rightarrow> raise ChecklistErr ''validation_error''
      | Some data \<Rightarrow>
          (case as_dict data of
             None \<Rightarrow> raise ChecklistErr ''validation_error''
           | Some d \<Rightarrow>
               bindE (validate_checklist data) (\<lambda>(errors, warnings).
                 if errors \<noteq> [] then raise ChecklistErr ''validation_error'' else Inr d)))"

definition load_checklist ::
  "(string \<Rightarrow> pyval option) \<Rightarrow> directory \<Rightarrow> string \<Rightarrow> ((string \<times> pyval) list \<times> string) result" where
  "load_checklist loads dir purpose =
     bindE (resolve_checklist dir purpose) (\<lambda>name.
     bindE (load_resolved loads dir name) (\<lambda>d. Inr (d, name)))"

section \<open>Plan locators\<close>

text \<open>\<open>unicodedata.category(c)\<close> is \<open>Cc\<close> or \<open>Cf\<close>.\<close>

definition category_C :: "char \<Rightarrow> bool" where
  "category_C c = (let n = (of_char c :: nat) in n < 32 \<or> 127 \<le> n \<and> n < 160 \<or> n = 173)"

fun type_name :: "pyval \<Rightarrow> string" where
  "type_name PyNone = ''NoneType''"
| "type_name (PyBool b) = ''bool''"
| "type_name (PyInt i) = ''int''"
| "type_name (PyFloat r) = ''float''"
| "type_name (PyStr s) = ''str''"
| "type_name (PyList xs) = ''list''"
| "type_name (PyDict d) = ''dict''"

definition code_point_04X :: "char \<Rightarrow> string" where
  "code_point_04X c =
     (let n = (of_char c :: nat) in ''00'' @ upper [hex_digit (n div 16), hex_digit (n mod 16)])"

definition safe_item_id_problem :: "pyval \<Rightarrow> string option" where
  "safe_item_id_problem v =
     (case as_str v of
        None \<Rightarrow> Some (''item id must be a string, got '' @ type_name v)
      | Some s \<Rightarrow>
          if strip s = [] then Some ''item id must be a non-empty string''
          else if s = ''.'' \<or> s = ''..'' then Some (''item id '' @ py_repr v @ '' is not a safe path component'')
          else if slash \<in> set s \<or> bslash \<in> set s then Some (''item id '' @ py_repr v @ '' contains a path separator'')
          else case find category_C s of
            Some c \<Rightarrow> Some (''item id '' @ py_repr v @ '' contains a control/format/surrogate character (U+'' @
              code_point_04X c @ '')'')
          | None \<Rightarrow> None)"

definition item_plan_locator_fields :: "(string \<times> pyval) list \<Rightarrow> (string \<times> string) list result" where
  "item_plan_locator_fields item =
     bindE (if truthy (dget item ''artifacts'') then
              (case as_dict (dget item ''artifacts'') of
                 None \<Rightarrow> raise AttributeErr ''object has no attribute get'' | Some a \<Rightarrow> Inr (dget a ''plan''))
            else Inr PyNone) (\<lambda>plan.
       Inr (concat (map (\<lambda>(key, value).
              if is_non_empty_string value then [(key, strip (py_str value))] else [])
         [(''plan_path'', dget item ''plan_path''), (''artifacts.plan'', plan), (''artifact_path'', dget item ''artifact_path'')])))"

definition locator_norms :: "(string \<times> string) list \<Rightarrow> string list" where
  "locator_norms locators =
     remdups (map (\<lambda>(key, raw). posix_normpath (path_str raw))
       (filter (\<lambda>(key, raw). \<not> List.member (path_parts raw) ''..'') locators))"

fun semicolons :: "string list \<Rightarrow> string" where
  "semicolons [] = []"
| "semicolons [w] = w"
| "semicolons (w # ws) = w @ ''; '' @ semicolons ws"

definition item_runtime_problems :: "pyval \<Rightarrow> string list result" where
  "item_runtime_problems v =
     (case as_dict v of
        None \<Rightarrow> Inr []
      | Some item \<Rightarrow>
          let ident = py_repr (dget item ''id''); plan_path = dget item ''plan_path''; artifact_path = dget item ''artifact_path'' in
          bindE (item_plan_locator_fields item) (\<lambda>locators.
            Inr ((case safe_item_id_problem (dget item ''id'') of None \<Rightarrow> [] | Some p \<Rightarrow> [p]) @
              note_if (plan_path \<noteq> PyNone \<and> as_str plan_path = None)
                (''item '' @ ident @ '' plan_path must be a string or null, got '' @ type_name plan_path) @
              note_if (artifact_path \<noteq> PyNone \<and> \<not> is_non_empty_string artifact_path)
                (''item '' @ ident @ '' artifact_path must be a non-empty string or null, got '' @ py_repr artifact_path) @
              (case as_dict (dget item ''artifacts'') of None \<Rightarrow> [] | Some a \<Rightarrow>
                 note_if (dget a ''plan'' \<noteq> PyNone \<and> as_str (dget a ''plan'') = None)
                   (''item '' @ ident @ '' artifacts.plan must be a string or null, got '' @ type_name (dget a ''plan''))) @
              concat (map (\<lambda>(key, raw). note_if (List.member (path_parts raw) ''..'')
                (''item '' @ ident @ CHR '' '' # key @ '' locator contains '' @ quoted ''..'' @ '': '' @ repr_str raw)) locators) @
              note_if (length (locator_norms locators) > 1)
                (''item '' @ ident @ '' has conflicting plan locators: '' @
                 semicolons (map (\<lambda>(key, raw). key @ CHR ''='' # repr_str raw) locators)))))"

definition checklist_runtime_problems :: "(string \<times> pyval) list \<Rightarrow> string list result" where
  "checklist_runtime_problems d =
     bindE (py_iter (dget_or d ''items'' (PyList []))) (\<lambda>items.
     bindE (mapE item_runtime_problems items) (\<lambda>problems. Inr (concat problems)))"

section \<open>Phases\<close>

definition LIFECYCLE_PHASES :: "string list" where
  "LIFECYCLE_PHASES =
     [''assigned'', ''accepted'', ''awaiting_operator'', ''running'', ''handoff_requested'', ''review_requested'',
      ''ready_for_review'', ''closeout_requested'', ''review_approved'', ''changes_requested'', ''unblocked'']"

definition TERMINAL_PHASES :: "string list" where
  "TERMINAL_PHASES = [''released'', ''closed'', ''done'']"

definition SAFE_PLANNING_PHASES :: "string list" where
  "SAFE_PLANNING_PHASES = [''ready'', ''planned'', ''todo'']"

definition initial_projection :: "pyval \<Rightarrow> (string \<times> string) result" where
  "initial_projection phase =
     (case as_str phase of
        None \<Rightarrow> raise ChecklistErr ''phase_not_creatable''
      | Some p \<Rightarrow>
          if strip p = [] then raise ChecklistErr ''phase_not_creatable''
          else if p \<noteq> strip p then raise ChecklistErr ''phase_not_creatable''
          else if List.member SAFE_PLANNING_PHASES p then Inr (''todo'', ''todo'')
          else if List.member LIFECYCLE_PHASES p then raise ChecklistErr ''phase_not_creatable''
          else if p = ''blocked'' then raise ChecklistErr ''phase_not_creatable''
          else if List.member TERMINAL_PHASES p then raise ChecklistErr ''phase_not_creatable''
          else Inr (''todo'', ''todo''))"

definition reconstruct_projection :: "string \<Rightarrow> string \<times> string" where
  "reconstruct_projection phase =
     (if List.member [''done'', ''closed'', ''released''] phase then
        (''done'', if List.member [''done'', ''closed''] phase then ''closed'' else ''released'')
      else if phase = ''blocked'' then (''blocked'', ''blocked'')
      else if List.member LIFECYCLE_PHASES phase \<or> phase = ''assigned'' then (''doing'', phase)
      else (''todo'', ''todo''))"

section \<open>The atomic writer\<close>

text \<open>\<open>json.dumps(value, ensure_ascii=False, indent=2)\<close>, at a given depth.\<close>

definition newline_indent :: "nat \<Rightarrow> string" where
  "newline_indent n = CHR 0x0A # replicate (2 * n) CHR '' ''"

fun join_with :: "string \<Rightarrow> string list \<Rightarrow> string" where
  "join_with sep [] = []"
| "join_with sep [w] = w"
| "join_with sep (w # ws) = w @ sep @ join_with sep ws"

fun json_pretty :: "nat \<Rightarrow> pyval \<Rightarrow> string" where
  "json_pretty n (PyList xs) =
     (if xs = [] then ''[]''
      else CHR ''['' # newline_indent (Suc n) @ join_with (CHR '','' # newline_indent (Suc n)) (map (json_pretty (Suc n)) xs) @
        newline_indent n @ '']'')"
| "json_pretty n (PyDict d) =
     (if d = [] then [CHR 0x7B, CHR 0x7D]
      else CHR 0x7B # newline_indent (Suc n) @
        join_with (CHR '','' # newline_indent (Suc n)) (map (\<lambda>(k, v). json_str k @ '': '' @ v)
          (map (\<lambda>(k, v). (k, json_pretty (Suc n) v)) d)) @
        newline_indent n @ [CHR 0x7D])"
| "json_pretty n v = json v"

definition checklist_text :: "(string \<times> pyval) list \<Rightarrow> string" where
  "checklist_text d = json_pretty 0 (PyDict d) @ [CHR 0x0A]"

text \<open>
  The calls of \<open>atomic_write_bytes\<close> that can fail, in their order: what a run of the writer does
  is decided by the first that raises, by whether the temporary file can be removed then, and by whether the
  process dies there instead.
\<close>

datatype write_call = MkTemp | WriteData | Chmod | FsyncFile | ReplaceFile | FsyncDir

definition write_calls :: "write_call list" where
  "write_calls = [MkTemp, WriteData, Chmod, FsyncFile, ReplaceFile, FsyncDir]"

definition default_mode :: nat where "default_mode = 384"

fun do_write_call :: "string \<Rightarrow> string \<Rightarrow> string \<Rightarrow> nat option \<Rightarrow> write_call \<Rightarrow> directory \<Rightarrow> directory" where
  "do_write_call path tmp data mode MkTemp dir = dir(tmp \<mapsto> RegularFile [] default_mode)"
| "do_write_call path tmp data mode WriteData dir =
     (case dir tmp of Some (RegularFile _ m) \<Rightarrow> dir(tmp \<mapsto> RegularFile data m) | _ \<Rightarrow> dir)"
| "do_write_call path tmp data mode Chmod dir =
     (case (mode, dir tmp) of (Some m, Some (RegularFile t _)) \<Rightarrow> dir(tmp \<mapsto> RegularFile t m) | _ \<Rightarrow> dir)"
| "do_write_call path tmp data mode FsyncFile dir = dir"
| "do_write_call path tmp data mode ReplaceFile dir = (dir(path := dir tmp))(tmp := None)"
| "do_write_call path tmp data mode FsyncDir dir = dir"

text \<open>
  The \<open>finally\<close> block: a temporary file that was made and not renamed is removed; an \<open>OSError\<close> of
  that removal is swallowed, so that the file stays (\<open>stuck\<close>).
\<close>

definition write_cleanup :: "string \<Rightarrow> bool \<Rightarrow> write_call \<Rightarrow> directory \<Rightarrow> directory" where
  "write_cleanup tmp stuck c dir = (if c = MkTemp \<or> c = FsyncDir \<or> stuck then dir else dir(tmp := None))"

datatype write_end = Completes | RaisesAt write_call bool | DiesAt write_call

fun run_write :: "string \<Rightarrow> string \<Rightarrow> string \<Rightarrow> nat option \<Rightarrow> write_end \<Rightarrow> write_call list \<Rightarrow> directory \<Rightarrow> directory \<times> bool" where
  "run_write path tmp data mode how [] dir = (dir, True)"
| "run_write path tmp data mode how (c # cs) dir =
     (if how = RaisesAt c True then (write_cleanup tmp True c dir, False)
      else if how = RaisesAt c False then (write_cleanup tmp False c dir, False)
      else if how = DiesAt c then (dir, False)
      else run_write path tmp data mode how cs (do_write_call path tmp data mode c dir))"

definition atomic_write_bytes ::
  "string \<Rightarrow> string \<Rightarrow> string \<Rightarrow> nat option \<Rightarrow> write_end \<Rightarrow> directory \<Rightarrow> directory \<times> bool" where
  "atomic_write_bytes path tmp data mode how dir =
     (let mode = (if mode = None then (case dir path of Some (RegularFile _ m) \<Rightarrow> Some m | _ \<Rightarrow> None) else mode)
      in run_write path tmp data mode how write_calls dir)"

section \<open>Initialisation\<close>

definition resolve_checklist_for_init :: "(string \<Rightarrow> pyval option) \<Rightarrow> directory \<Rightarrow> (string \<times> bool) result" where
  "resolve_checklist_for_init loads dir =
     (let has_new = lexists dir CHECKLIST_NEW_NAME; has_legacy = lexists dir CHECKLIST_LEGACY_NAME in
      if has_new \<and> has_legacy then raise ChecklistErr ''dual_authority''
      else if \<not> has_new \<and> \<not> has_legacy then Inr (CHECKLIST_NEW_NAME, True)
      else
        let name = (if has_new then CHECKLIST_NEW_NAME else CHECKLIST_LEGACY_NAME) in
        if \<not> is_file dir name then raise ChecklistErr ''validation_error''
        else bindE (load_resolved loads dir name) (\<lambda>_. Inr (name, False)))"

definition empty_checklist :: "pyval \<Rightarrow> pyval \<Rightarrow> string option \<Rightarrow> string \<Rightarrow> (string \<times> pyval) list" where
  "empty_checklist project root_rel updated_at today =
     [(''project'', project), (''harness_root'', root_rel), (''version'', PyInt 1),
      (''updated_at'', PyStr (case updated_at of Some t \<Rightarrow> if t = [] then today else t | None \<Rightarrow> today)),
      (''items'', PyList [])]"

text \<open>What an operation reads from its environment: the date, the name of its temporary file, how its write ends.\<close>

record io_env =
  io_today :: string
  io_tmp :: string
  io_write :: write_end
  io_lock :: bool

definition create_empty_checklist ::
  "(string \<Rightarrow> pyval option) \<Rightarrow> io_env \<Rightarrow> pyval \<Rightarrow> pyval \<Rightarrow> string option \<Rightarrow> directory \<Rightarrow> directory \<times> string result" where
  "create_empty_checklist loads env project root_rel updated_at dir =
     (case resolve_checklist_for_init loads dir of
        Inl e \<Rightarrow> (dir, Inl e)
      | Inr (name, create_new) \<Rightarrow>
          if \<not> create_new then (dir, raise ChecklistErr ''validation_error'')
          else
            let data = empty_checklist project root_rel updated_at (io_today env) in
            (case validate_checklist (PyDict data) of
               Inl e \<Rightarrow> (dir, Inl e)
             | Inr (errors, _) \<Rightarrow>
                 if errors \<noteq> [] then (dir, raise ChecklistErr ''validation_error'')
                 else case atomic_write_bytes name (io_tmp env) (checklist_text data) None (io_write env) dir of
                   (dir', ok) \<Rightarrow> (dir', if ok then Inr name else raise OSErr ''write'')))"

section \<open>The mutation pipeline\<close>

text \<open>
  The callback changes the candidate and says whether it did. \<open>dir0\<close> is the directory when the
  path is resolved, \<open>dir\<close> the one under the lock.
\<close>

type_synonym callback = "(string \<times> pyval) list \<Rightarrow> ((string \<times> pyval) list \<times> bool) result"

definition checked_candidate :: "string \<Rightarrow> (string \<times> pyval) list \<Rightarrow> (string \<times> pyval) list result" where
  "checked_candidate today candidate =
     (let d = dset ''updated_at'' (PyStr today) candidate in
      bindE (validate_checklist (PyDict d)) (\<lambda>(errors, warnings).
        if errors \<noteq> [] then raise ChecklistErr ''validation_error''
        else bindE (checklist_runtime_problems d) (\<lambda>problems.
          if problems \<noteq> [] then raise ChecklistErr ''validation_error'' else Inr d)))"

definition mutate_checklist ::
  "(string \<Rightarrow> pyval option) \<Rightarrow> io_env \<Rightarrow> callback \<Rightarrow> directory \<Rightarrow> directory \<Rightarrow>
   directory \<times> ((string \<times> pyval) list \<times> bool) result" where
  "mutate_checklist loads env cb dir0 dir =
     (case resolve_checklist dir0 ''mutation'' of
        Inl e \<Rightarrow> (dir, Inl e)
      | Inr name \<Rightarrow>
          if \<not> io_lock env then (dir, raise ChecklistErr ''lock_timeout'')
          else case bindE (load_resolved loads dir name) cb of
            Inl e \<Rightarrow> (dir, Inl e)
          | Inr (candidate, changed) \<Rightarrow>
              if \<not> changed then (dir, Inr (candidate, False))
              else case checked_candidate (io_today env) candidate of
                Inl e \<Rightarrow> (dir, Inl e)
              | Inr d \<Rightarrow>
                  let mode = (case dir name of Some (RegularFile _ m) \<Rightarrow> Some m | _ \<Rightarrow> None) in
                  (case atomic_write_bytes name (io_tmp env) (checklist_text d) mode (io_write env) dir of
                     (dir', ok) \<Rightarrow> (dir', if ok then Inr (d, True) else raise OSErr ''write'')))"

section \<open>A write is all or nothing\<close>

definition reaches_replace :: "write_end \<Rightarrow> bool" where
  "reaches_replace how = List.member [Completes, RaisesAt FsyncDir True, RaisesAt FsyncDir False, DiesAt FsyncDir] how"

definition written_mode :: "nat option \<Rightarrow> entry option \<Rightarrow> nat" where
  "written_mode mode old =
     (case mode of Some m \<Rightarrow> m | None \<Rightarrow> (case old of Some (RegularFile _ m) \<Rightarrow> m | _ \<Rightarrow> default_mode))"

lemma atomic_write_effect:
  assumes "atomic_write_bytes path tmp data mode how dir = (dir', ok)" "path \<noteq> tmp"
  shows "dir' path = (if reaches_replace how then Some (RegularFile data (written_mode mode (dir path))) else dir path) \<and>
    (\<forall>n. n \<noteq> path \<longrightarrow> n \<noteq> tmp \<longrightarrow> dir' n = dir n) \<and>
    (\<forall>c stuck. how = RaisesAt c stuck \<longrightarrow> (if c = MkTemp then dir' = dir else stuck \<or> dir' tmp = None)) \<and> (ok \<longleftrightarrow> how = Completes)"
proof -
  have r: "run_write path tmp data mode how write_calls dir = (dir', ok) \<Longrightarrow>
    dir' path = (if reaches_replace how then Some (RegularFile data (written_mode mode None)) else dir path) \<and>
    (\<forall>n. n \<noteq> path \<longrightarrow> n \<noteq> tmp \<longrightarrow> dir' n = dir n) \<and>
    (\<forall>c stuck. how = RaisesAt c stuck \<longrightarrow> (if c = MkTemp then dir' = dir else stuck \<or> dir' tmp = None)) \<and> (ok \<longleftrightarrow> how = Completes)" for mode
  proof (cases how)
    case Completes
    assume "run_write path tmp data mode how write_calls dir = (dir', ok)"
    then show ?thesis using assms(2)
      by (cases mode) (auto simp: Completes write_calls_def reaches_replace_def written_mode_def)
  next
    case (RaisesAt c stuck)
    assume "run_write path tmp data mode how write_calls dir = (dir', ok)"
    then show ?thesis using assms(2)
      by (cases mode; cases c; cases stuck) (auto simp: RaisesAt write_calls_def reaches_replace_def written_mode_def write_cleanup_def)
  next
    case (DiesAt c)
    assume "run_write path tmp data mode how write_calls dir = (dir', ok)"
    then show ?thesis using assms(2)
      by (cases mode; cases c) (auto simp: DiesAt write_calls_def reaches_replace_def written_mode_def)
  qed
  let ?m = "if mode = None then (case dir path of Some (RegularFile _ m) \<Rightarrow> Some m | _ \<Rightarrow> None) else mode"
  have "written_mode ?m None = written_mode mode (dir path)"
    by (auto simp: written_mode_def split: option.splits entry.splits)
  then show ?thesis using r [of ?m] assms(1) by (simp add: atomic_write_bytes_def Let_def)
qed

text \<open>
  C23: However a write ends, at whatever call it raises or the process dies: the target has its old
  entry or the whole new text with the mode it had, the new one exactly when the rename was
  reached; no other file changes; a raise leaves no temporary file unless the file's removal fails too, and
  a raise before the file is made changes nothing; and the writer reports success only when everything was done.
\<close>

theorem atomic_write_all_or_nothing:
  assumes "atomic_write_bytes path tmp data mode how dir = (dir', ok)" "path \<noteq> tmp"
  shows "dir' path = (if reaches_replace how then Some (RegularFile data (written_mode mode (dir path))) else dir path) \<and>
    (\<forall>n. n \<noteq> path \<longrightarrow> n \<noteq> tmp \<longrightarrow> dir' n = dir n) \<and>
    (\<forall>c stuck. how = RaisesAt c stuck \<longrightarrow> (if c = MkTemp then dir' = dir else stuck \<or> dir' tmp = None)) \<and> (ok \<longleftrightarrow> how = Completes)"
  using atomic_write_effect [OF assms] .

definition sample_dir :: directory where
  "sample_dir = [''a.json'' \<mapsto> RegularFile ''old'' 420]"

theorem atomic_write_all_or_nothing_witness:
  "fst (atomic_write_bytes ''a.json'' ''.a.tmp'' ''new'' None (RaisesAt FsyncFile False) sample_dir) ''a.json'' = Some (RegularFile ''old'' 420)"
proof -
  obtain dir' ok where w: "atomic_write_bytes ''a.json'' ''.a.tmp'' ''new'' None (RaisesAt FsyncFile False) sample_dir = (dir', ok)" by force
  from atomic_write_all_or_nothing [OF w] show ?thesis unfolding w by (simp add: reaches_replace_def sample_dir_def)
qed

section \<open>What the operations leave behind\<close>

lemma write_path_cases:
  assumes "atomic_write_bytes path tmp data mode how dir = (dir', ok)" "path \<noteq> tmp"
  shows "(dir' path = dir path \<and> \<not> ok \<or> dir' path = Some (RegularFile data (written_mode mode (dir path)))) \<and>
    (\<forall>n. n \<noteq> path \<longrightarrow> n \<noteq> tmp \<longrightarrow> dir' n = dir n)"
  using atomic_write_effect [OF assms] by (auto simp: reaches_replace_def)

definition checklist_names :: "string list" where
  "checklist_names = [CHECKLIST_NEW_NAME, CHECKLIST_LEGACY_NAME]"

lemma checklist_names_distinct [simp]: "CHECKLIST_NEW_NAME \<noteq> CHECKLIST_LEGACY_NAME"
  by (simp add: CHECKLIST_NEW_NAME_def CHECKLIST_LEGACY_NAME_def)

lemma resolve_checklist_Inr:
  "resolve_checklist dir purpose = Inr name \<Longrightarrow> name \<in> set checklist_names \<and> is_file dir name"
  by (auto simp: resolve_checklist_def checklist_names_def Let_def split: if_splits)

lemma load_resolved_Inr:
  "load_resolved loads dir name = Inr d \<longleftrightarrow> (\<exists>t m. dir name = Some (RegularFile t m) \<and> loads t = Some (PyDict d)) \<and> checklist_ok (PyDict d)"
  using checklist_accepted_iff [of "PyDict d"]
  by (auto simp: load_resolved_def is_file_def accepts_iff bindE_eq_Inr split: option.splits entry.splits if_splits)

lemma checked_candidate_Inr:
  "checked_candidate today candidate = Inr d \<longleftrightarrow>
     d = dset ''updated_at'' (PyStr today) candidate \<and> checklist_ok (PyDict d) \<and> checklist_runtime_problems d = Inr []"
  using checklist_accepted_iff [of "PyDict d"]
  by (auto simp: checked_candidate_def accepts_iff bindE_eq_Inr Let_def split: if_splits)


text \<open>The outcomes of a mutation, for a temporary file that is not a checklist.\<close>

definition only_tmp :: "io_env \<Rightarrow> directory \<Rightarrow> directory \<Rightarrow> bool" where
  "only_tmp env dir dir' \<longleftrightarrow> (\<forall>n. n \<noteq> io_tmp env \<longrightarrow> dir' n = dir n)"

definition checklist_written :: "io_env \<Rightarrow> string \<Rightarrow> (string \<times> pyval) list \<Rightarrow> directory \<Rightarrow> directory \<Rightarrow> bool" where
  "checklist_written env name d dir dir' \<longleftrightarrow>
     name \<in> set checklist_names \<and> (\<exists>t m. dir name = Some (RegularFile t m) \<and> dir' name = Some (RegularFile (checklist_text d) m)) \<and>
     (\<forall>n. n \<noteq> name \<longrightarrow> n \<noteq> io_tmp env \<longrightarrow> dir' n = dir n) \<and>
     checklist_ok (PyDict d) \<and> checklist_runtime_problems d = Inr []"

lemma mutate_cases:
  assumes "mutate_checklist loads env cb dir0 dir = (dir', r)" "io_tmp env \<notin> set checklist_names"
  obtains (unwritten) "only_tmp env dir dir'" "\<And>d. r \<noteq> Inr (d, True)"
  | (written) name x candidate d where "load_resolved loads dir name = Inr x" "cb x = Inr (candidate, True)"
      "checked_candidate (io_today env) candidate = Inr d" "checklist_written env name d dir dir'"
      "r = Inr (d, True) \<or> r = raise OSErr ''write''"
proof -
  have same: "only_tmp env dir dir" by (simp add: only_tmp_def)
  note m = assms(1) [unfolded mutate_checklist_def]
  show ?thesis
  proof (cases "resolve_checklist dir0 ''mutation''")
    case (Inl e)
    with m same show ?thesis by (auto intro: unwritten)
  next
    case name: (Inr name)
    then have nm: "name \<in> set checklist_names" using resolve_checklist_Inr by blast
    show ?thesis
    proof (cases "\<exists>x candidate d. io_lock env \<and> load_resolved loads dir name = Inr x \<and> cb x = Inr (candidate, True) \<and>
        checked_candidate (io_today env) candidate = Inr d")
      case False
      have "dir' = dir \<and> (\<forall>d. r \<noteq> Inr (d, True))"
      proof (cases "bindE (load_resolved loads dir name) cb")
        case (Inl e)
        then show ?thesis using m name by (auto split: if_splits)
      next
        case (Inr cc)
        then obtain x candidate changed where "load_resolved loads dir name = Inr x" "cb x = Inr (candidate, changed)" "cc = (candidate, changed)"
          by (cases cc) auto
        with False Inr show ?thesis using m name by (auto split: if_splits sum.splits)
      qed
      with same show ?thesis by (auto intro: unwritten)
    next
      case True
      then obtain x candidate d where x: "io_lock env" "load_resolved loads dir name = Inr x" "cb x = Inr (candidate, True)"
        "checked_candidate (io_today env) candidate = Inr d" by blast
      from x(2) obtain t md where f: "dir name = Some (RegularFile t md)" by (auto simp: load_resolved_Inr)
      have ne: "name \<noteq> io_tmp env" using nm assms(2) by auto
      obtain w ok where w: "atomic_write_bytes name (io_tmp env) (checklist_text d) (Some md) (io_write env) dir = (w, ok)" by force
      have "dir' = w \<and> r = (if ok then Inr (d, True) else raise OSErr ''write'')"
        using m name x f w by simp
      moreover have "w name = dir name \<and> \<not> ok \<or> w name = Some (RegularFile (checklist_text d) md)"
        "\<forall>n. n \<noteq> name \<longrightarrow> n \<noteq> io_tmp env \<longrightarrow> w n = dir n"
        using write_path_cases [OF w ne] by (auto simp: written_mode_def)
      moreover have "checklist_ok (PyDict d)" "checklist_runtime_problems d = Inr []"
        using x(4) unfolding checked_candidate_Inr by blast+
      ultimately show ?thesis
      proof (cases "w name = dir name \<and> \<not> ok")
        case True
        then have "only_tmp env dir w" using \<open>\<forall>n. n \<noteq> name \<longrightarrow> n \<noteq> io_tmp env \<longrightarrow> w n = dir n\<close> unfolding only_tmp_def by metis
        with True \<open>dir' = w \<and> _\<close> show ?thesis by (auto intro: unwritten)
      next
        case False
        then have "checklist_written env name d dir w" unfolding checklist_written_def
          using nm f \<open>w name = dir name \<and> \<not> ok \<or> _\<close> \<open>\<forall>n. _\<close> \<open>checklist_ok (PyDict d)\<close> \<open>checklist_runtime_problems d = Inr []\<close> by blast
        with x \<open>dir' = w \<and> _\<close> show ?thesis by (intro written) auto
      qed
    qed
  qed
qed

text \<open>
  C26: A mutation either leaves every file but its temporary one as it was, or it replaced one existing
  checklist by the text of a candidate that satisfies the contract and has no runtime problem,
  with the mode of the old file. It reports a change only in the second case, and in the second
  case it can still raise: the directory could not be synchronised after the rename.
\<close>

theorem mutation_writes_valid:
  assumes "mutate_checklist loads env cb dir0 dir = (dir', r)" "io_tmp env \<notin> set checklist_names"
  shows "only_tmp env dir dir' \<and> (\<forall>d. r \<noteq> Inr (d, True)) \<or>
    (\<exists>name d. checklist_written env name d dir dir' \<and> (r = Inr (d, True) \<or> r = raise OSErr ''write''))"
  using assms by (rule mutate_cases) blast+

section \<open>One valid authority\<close>

definition single_authority :: "(string \<Rightarrow> pyval option) \<Rightarrow> directory \<Rightarrow> bool" where
  "single_authority loads dir \<longleftrightarrow>
     (\<forall>n \<in> set checklist_names. dir n \<noteq> None \<longrightarrow> (\<exists>d. load_resolved loads dir n = Inr d)) \<and>
     \<not> (dir CHECKLIST_NEW_NAME \<noteq> None \<and> dir CHECKLIST_LEGACY_NAME \<noteq> None)"

text \<open>
  The steps: a mutation and an initialisation, by any caller, that end in any way. What is
  written is read back as it was, which is what \<open>json\<close> promises.
\<close>

definition reads_back :: "(string \<Rightarrow> pyval option) \<Rightarrow> (string \<times> pyval) list \<Rightarrow> bool" where
  "reads_back loads d \<longleftrightarrow> loads (checklist_text d) = Some (PyDict d)"

inductive io_step :: "(string \<Rightarrow> pyval option) \<Rightarrow> directory \<Rightarrow> directory \<Rightarrow> bool" for loads where
  mutate: "mutate_checklist loads env cb dir0 dir = (dir', r) \<Longrightarrow> io_tmp env \<notin> set checklist_names \<Longrightarrow>
    (\<And>x candidate d. cb x = Inr (candidate, True) \<Longrightarrow> checked_candidate (io_today env) candidate = Inr d \<Longrightarrow> reads_back loads d) \<Longrightarrow>
    io_step loads dir dir'"
| create: "create_empty_checklist loads env project root_rel updated_at dir = (dir', r) \<Longrightarrow> io_tmp env \<notin> set checklist_names \<Longrightarrow>
    reads_back loads (empty_checklist project root_rel updated_at (io_today env)) \<Longrightarrow> io_step loads dir dir'"

lemma load_resolved_cong: "dir' n = dir n \<Longrightarrow> load_resolved loads dir' n = load_resolved loads dir n"
  by (simp add: load_resolved_def is_file_def)

lemma single_authority_cong:
  assumes "single_authority loads dir" "\<And>n. n \<in> set checklist_names \<Longrightarrow> dir' n = dir n"
  shows "single_authority loads dir'"
proof -
  have "load_resolved loads dir' n = load_resolved loads dir n" if "n \<in> set checklist_names" for n
    using load_resolved_cong assms(2) that by blast
  moreover have "dir' CHECKLIST_NEW_NAME = dir CHECKLIST_NEW_NAME" "dir' CHECKLIST_LEGACY_NAME = dir CHECKLIST_LEGACY_NAME"
    using assms(2) by (simp_all add: checklist_names_def)
  ultimately show ?thesis using assms unfolding single_authority_def by auto
qed

lemma single_authority_put:
  assumes inv: "single_authority loads dir" and name: "name \<in> set checklist_names"
    and new: "dir' name = Some (RegularFile (checklist_text d) m)" "checklist_ok (PyDict d)" "reads_back loads d"
    and others: "\<And>n. n \<in> set checklist_names \<Longrightarrow> n \<noteq> name \<Longrightarrow> dir' n = dir n"
    and old: "dir name \<noteq> None \<or> (\<forall>n \<in> set checklist_names. dir n = None)"
  shows "single_authority loads dir'"
proof -
  have here: "load_resolved loads dir' name = Inr d"
    unfolding load_resolved_Inr using new by (auto simp: reads_back_def)
  have "\<exists>d. load_resolved loads dir' n = Inr d" if n: "n \<in> set checklist_names" "dir' n \<noteq> None" for n
  proof (cases "n = name")
    case False
    then have "dir' n = dir n" using others n by blast
    then show ?thesis using inv n load_resolved_cong [of dir' n dir loads] unfolding single_authority_def by auto
  qed (use here in blast)
  moreover have "\<not> (dir' CHECKLIST_NEW_NAME \<noteq> None \<and> dir' CHECKLIST_LEGACY_NAME \<noteq> None)"
    using inv old name others checklist_names_distinct unfolding single_authority_def checklist_names_def
    by (metis list.set_intros empty_iff empty_set insert_iff list.simps(15))
  ultimately show ?thesis unfolding single_authority_def by blast
qed

lemma create_cases:
  assumes "create_empty_checklist loads env project root_rel updated_at dir = (dir', r)" "io_tmp env \<notin> set checklist_names"
  defines "d \<equiv> empty_checklist project root_rel updated_at (io_today env)"
  shows "only_tmp env dir dir' \<or>
    (\<forall>n \<in> set checklist_names. dir n = None) \<and> checklist_ok (PyDict d) \<and>
    (\<exists>m. dir' CHECKLIST_NEW_NAME = Some (RegularFile (checklist_text d) m)) \<and>
    (\<forall>n. n \<noteq> CHECKLIST_NEW_NAME \<longrightarrow> n \<noteq> io_tmp env \<longrightarrow> dir' n = dir n)"
proof (cases "resolve_checklist_for_init loads dir")
  case (Inl e)
  with assms(1) show ?thesis by (simp add: create_empty_checklist_def only_tmp_def)
next
  case (Inr nc)
  obtain name new where nc: "nc = (name, new)" by force
  have init: "new \<Longrightarrow> name = CHECKLIST_NEW_NAME \<and> (\<forall>n \<in> set checklist_names. dir n = None)"
    using Inr nc by (auto simp: resolve_checklist_for_init_def lexists_def checklist_names_def Let_def split: if_splits)
  show ?thesis
  proof (cases "new \<and> accepts (validate_checklist (PyDict d))")
    case False
    then have "dir' = dir" using assms(1) Inr nc unfolding create_empty_checklist_def d_def
      by (auto simp: accepts_def Let_def split: sum.splits if_splits)
    then show ?thesis by (simp add: only_tmp_def)
  next
    case True
    then obtain ws where v: "validate_checklist (PyDict d) = Inr ([], ws)" by (auto simp: accepts_iff)
    obtain ok where w: "atomic_write_bytes name (io_tmp env) (checklist_text d) None (io_write env) dir = (dir', ok)"
      using assms(1) Inr nc True v unfolding create_empty_checklist_def d_def
      by (auto simp: Let_def split: prod.splits)
    have ne: "name \<noteq> io_tmp env" using init True assms(2) by (auto simp: checklist_names_def)
    from write_path_cases [OF w ne] True init checklist_accepted_iff [of "PyDict d"] show ?thesis
      unfolding only_tmp_def by metis
  qed
qed

lemma single_authority_step:
  assumes "io_step loads dir dir'" "single_authority loads dir"
  shows "single_authority loads dir'"
  using assms(1)
proof cases
  case (mutate env cb dir0 r)
  note rb = mutate(3)
  from mutate(1,2) show ?thesis
  proof (rule mutate_cases)
    assume "only_tmp env dir dir'"
    then show ?thesis using single_authority_cong [OF assms(2), of dir'] mutate(2) unfolding only_tmp_def by metis
  next
    fix name x candidate d
    assume "cb x = Inr (candidate, True)" "checked_candidate (io_today env) candidate = Inr d"
    then have b: "reads_back loads d" by (rule rb)
    assume w: "checklist_written env name d dir dir'"
    then obtain m where "dir' name = Some (RegularFile (checklist_text d) m)" "dir name \<noteq> None"
      by (auto simp: checklist_written_def)
    with w b show ?thesis using single_authority_put [OF assms(2), of name dir' d m] mutate(2)
      unfolding checklist_written_def by metis
  qed
next
  case (create env project root_rel updated_at r)
  let ?d = "empty_checklist project root_rel updated_at (io_today env)"
  from create_cases [OF create(1,2)] show ?thesis
  proof (elim disjE conjE exE)
    assume "only_tmp env dir dir'"
    then show ?thesis using single_authority_cong [OF assms(2), of dir'] create(2) unfolding only_tmp_def by metis
  next
    fix m
    assume "\<forall>n \<in> set checklist_names. dir n = None" "checklist_ok (PyDict ?d)"
      "dir' CHECKLIST_NEW_NAME = Some (RegularFile (checklist_text ?d) m)"
      "\<forall>n. n \<noteq> CHECKLIST_NEW_NAME \<longrightarrow> n \<noteq> io_tmp env \<longrightarrow> dir' n = dir n"
    then show ?thesis using single_authority_put [OF assms(2), of CHECKLIST_NEW_NAME dir' ?d m] create(2,3)
      unfolding checklist_names_def by (metis list.set_intros(1))
  qed
qed

interpretation checklist_files: invariant_system "single_authority loads" "io_step loads" "single_authority loads" for loads
  by unfold_locales (auto intro: single_authority_step)

text \<open>
  C12: Whatever mutations and initialisations ran, by any callers, ending in any way, also in a crash:
  a reader finds either no checklist at all or one that satisfies the contract, never two and
  never a broken one.
\<close>

theorem readers_find_valid_checklist:
  assumes "single_authority loads dir" "(io_step loads)\<^sup>*\<^sup>* dir dir'"
  shows "load_checklist loads dir' ''read'' = raise ChecklistErr ''checklist_missing'' \<or>
    (\<exists>d n. load_checklist loads dir' ''read'' = Inr (d, n) \<and> checklist_ok (PyDict d))"
proof -
  have inv: "single_authority loads dir'" by (rule checklist_files.inv_reachable [OF assms])
  have f: "is_file dir' n \<and> (\<exists>d. load_resolved loads dir' n = Inr d \<and> checklist_ok (PyDict d))"
    if "n \<in> set checklist_names" "dir' n \<noteq> None" for n
    using inv that unfolding single_authority_def by (force simp: load_resolved_Inr is_file_def)
  have absent: "dir' n = None \<Longrightarrow> \<not> is_file dir' n" for n by (simp add: is_file_def)
  show ?thesis
  proof (cases "dir' CHECKLIST_NEW_NAME"; cases "dir' CHECKLIST_LEGACY_NAME")
    assume "dir' CHECKLIST_NEW_NAME = None" "dir' CHECKLIST_LEGACY_NAME = None"
    then show ?thesis using absent by (simp add: load_checklist_def resolve_checklist_def)
  next
    fix e assume "dir' CHECKLIST_NEW_NAME = None" "dir' CHECKLIST_LEGACY_NAME = Some e"
    then show ?thesis using absent f [of CHECKLIST_LEGACY_NAME]
      by (auto simp: load_checklist_def resolve_checklist_def checklist_names_def)
  next
    fix e assume "dir' CHECKLIST_NEW_NAME = Some e" "dir' CHECKLIST_LEGACY_NAME = None"
    then show ?thesis using absent f [of CHECKLIST_NEW_NAME]
      by (auto simp: load_checklist_def resolve_checklist_def checklist_names_def)
  next
    fix e e' assume "dir' CHECKLIST_NEW_NAME = Some e" "dir' CHECKLIST_LEGACY_NAME = Some e'"
    then show ?thesis using inv by (simp add: single_authority_def)
  qed
qed

definition sample_env :: io_env where
  "sample_env = \<lparr>io_today = ''2026-01-02'', io_tmp = ''.x.tmp'', io_write = Completes, io_lock = True\<rparr>"

definition sample_empty :: "(string \<times> pyval) list" where
  "sample_empty = empty_checklist (PyStr ''p'') (PyStr ''h'') None ''2026-01-02''"

definition sample_loads :: "string \<Rightarrow> pyval option" where
  "sample_loads t = (if t = checklist_text sample_empty then Some (PyDict sample_empty) else None)"

theorem readers_find_valid_checklist_witness:
  "load_checklist sample_loads (fst (create_empty_checklist sample_loads sample_env (PyStr ''p'') (PyStr ''h'') None Map.empty)) ''read''
     = Inr (sample_empty, CHECKLIST_NEW_NAME)"
proof -
  let ?dir = "fst (create_empty_checklist sample_loads sample_env (PyStr ''p'') (PyStr ''h'') None Map.empty)"
  have start: "single_authority sample_loads Map.empty" by (simp add: single_authority_def)
  have tmp: "io_tmp sample_env \<notin> set checklist_names"
    by (simp add: sample_env_def checklist_names_def CHECKLIST_NEW_NAME_def CHECKLIST_LEGACY_NAME_def)
  have step: "io_step sample_loads Map.empty ?dir"
    by (rule io_step.create [OF prod.collapse [symmetric] tmp])
      (simp add: reads_back_def sample_loads_def sample_empty_def sample_env_def)
  have v: "validate_checklist (PyDict sample_empty) = Inr ([], [])" by code_simp
  have here: "?dir CHECKLIST_NEW_NAME = Some (RegularFile (checklist_text sample_empty) default_mode) \<and> ?dir CHECKLIST_LEGACY_NAME = None"
    using v by (simp add: create_empty_checklist_def resolve_checklist_for_init_def lexists_def sample_env_def sample_empty_def
      atomic_write_bytes_def write_calls_def checklist_names_def CHECKLIST_NEW_NAME_def CHECKLIST_LEGACY_NAME_def Let_def)
  have "load_checklist sample_loads ?dir ''read'' \<noteq> raise ChecklistErr ''checklist_missing''"
    using here v by (simp add: load_checklist_def resolve_checklist_def is_file_def load_resolved_def sample_loads_def)
  with readers_find_valid_checklist [OF start r_into_rtranclp [where r = "io_step sample_loads", OF step]]
  obtain d n where d: "load_checklist sample_loads ?dir ''read'' = Inr (d, n)" by auto
  moreover have "load_resolved sample_loads ?dir CHECKLIST_NEW_NAME = Inr d \<and> n = CHECKLIST_NEW_NAME"
    using d here by (auto simp: load_checklist_def resolve_checklist_def is_file_def)
  ultimately show ?thesis using here by (auto simp: load_resolved_Inr sample_loads_def)
qed

definition sample_authority :: directory where
  "sample_authority = [CHECKLIST_NEW_NAME \<mapsto> RegularFile (checklist_text sample_empty) 420]"

theorem mutation_writes_valid_witness:
  "\<exists>name d. checklist_written sample_env name d sample_authority
     (fst (mutate_checklist sample_loads sample_env (\<lambda>d. Inr (d, True)) sample_authority sample_authority))"
proof -
  obtain dir' r where m: "mutate_checklist sample_loads sample_env (\<lambda>d. Inr (d, True)) sample_authority sample_authority = (dir', r)" by force
  have tmp: "io_tmp sample_env \<notin> set checklist_names"
    by (simp add: sample_env_def checklist_names_def CHECKLIST_NEW_NAME_def CHECKLIST_LEGACY_NAME_def)
  have v: "validate_checklist (PyDict sample_empty) = Inr ([], [])" by code_simp
  have c: "checked_candidate (io_today sample_env) sample_empty = Inr sample_empty" by code_simp
  have "load_resolved sample_loads sample_authority CHECKLIST_NEW_NAME = Inr sample_empty"
    using v by (simp add: load_resolved_def is_file_def sample_authority_def sample_loads_def)
  moreover have "resolve_checklist sample_authority ''mutation'' = Inr CHECKLIST_NEW_NAME"
    using checklist_names_distinct by (simp add: resolve_checklist_def is_file_def sample_authority_def del: checklist_names_distinct)
  ultimately have "r = Inr (sample_empty, True)"
    using m c by (simp add: mutate_checklist_def sample_env_def atomic_write_bytes_def write_calls_def sample_authority_def Let_def)
  with mutation_writes_valid [OF m tmp] show ?thesis unfolding m by auto
qed

section \<open>Locators and phases\<close>

text \<open>In a checklist without runtime problems all plan locators of an item name one path.\<close>

theorem locators_agree:
  assumes "checklist_runtime_problems d = Inr []" "dget d ''items'' = PyList items" "PyDict item \<in> set items"
    and "item_plan_locator_fields item = Inr locators" "(k, a) \<in> set locators" "(k', b) \<in> set locators"
  shows "posix_normpath (path_str a) = posix_normpath (path_str b) \<and> ''..'' \<notin> set (path_parts a)"
proof -
  have "dget_or d ''items'' (PyList []) = PyList items"
    using assms(2) dget_or_key [of d "''items''"] list_has_key [of d "''items''" items] by simp
  then obtain ps where ps: "mapE item_runtime_problems items = Inr ps" "concat ps = []"
    using assms(1) by (auto simp: checklist_runtime_problems_def)
  then have "item_runtime_problems (PyDict item) = Inr []"
    using assms(3) unfolding mapE_eq_Inr list_all2_conv_all_nth in_set_conv_nth by (metis concat_eq_Nil_conv nth_mem)
  then have n: "length (locator_norms locators) \<le> 1" "\<forall>(k, a) \<in> set locators. ''..'' \<notin> set (path_parts a)"
    using assms(4) by (auto simp: item_runtime_problems_def Let_def split: prod.splits)
  then have "posix_normpath (path_str a) \<in> set (locator_norms locators)" "posix_normpath (path_str b) \<in> set (locator_norms locators)"
    using assms(5,6) unfolding locator_norms_def by force+
  with n(1) have "posix_normpath (path_str a) = posix_normpath (path_str b)"
    by (cases "locator_norms locators") (auto simp: Suc_le_eq)
  then show ?thesis using n(2) assms(5) by auto
qed

theorem locators_agree_witness:
  "posix_normpath (path_str ''docs/a.md'') = posix_normpath (path_str ''docs/./a.md'') \<and> ''..'' \<notin> set (path_parts ''docs/a.md'')"
proof (rule locators_agree)
  let ?item = "[(''id'', PyStr ''T1''), (''plan_path'', PyStr ''docs/a.md''), (''artifact_path'', PyStr ''docs/./a.md'')]"
  show "checklist_runtime_problems [(''items'', PyList [PyDict ?item])] = Inr []" by code_simp
  show "item_plan_locator_fields ?item = Inr [(''plan_path'', ''docs/a.md''), (''artifact_path'', ''docs/./a.md'')]" by code_simp
  show "PyDict ?item \<in> set [PyDict ?item]" by (rule list.set_intros)
qed simp_all

text \<open>
  A phase can be created exactly when it is a clean planning label, and what creation writes for it
  is what the historical projection reconstructs.
\<close>

theorem created_phase_reconstructed:
  "initial_projection (PyStr p) = Inr (reconstruct_projection p) \<longleftrightarrow>
     strip p = p \<and> p \<noteq> [] \<and> p \<notin> set (''blocked'' # LIFECYCLE_PHASES @ TERMINAL_PHASES)"
  by (auto simp: initial_projection_def reconstruct_projection_def LIFECYCLE_PHASES_def TERMINAL_PHASES_def
      SAFE_PLANNING_PHASES_def)

end
