(* ===== verification/ChecklistLock.thy ===== *)
theory ChecklistLock
  imports Prelude
begin

text \<open>
  \<open>ChecklistLock\<close> of \<^verbatim>\<open>src/coordinate/checklist_io.py\<close>: the lock file of a checklist, created
  with \<open>O_CREAT | O_EXCL\<close>, whose text names the process that owns it. The processes interleave
  between any two system calls, and a process can die at any point.
\<close>

section \<open>The protocol\<close>

type_synonym pid = nat

text \<open>The lock file: the process that created it, and whether its text has been written.\<close>

record lock_file =
  lf_creator :: pid
  lf_written :: bool

text \<open>
  Where a process is in \<open>acquire\<close> and \<open>release\<close>: \<open>Away\<close> holds nothing and wants nothing, \<open>Trying\<close>
  is about to open the file, \<open>Writing\<close> has created it, \<open>Reading\<close> found it there and is about to
  read its owner, \<open>Checking q\<close> has read that owner, \<open>Breaking\<close> has found the owner dead and is about to
  remove the file, \<open>Waiting\<close> is at the deadline test, \<open>Holding\<close> is inside the \<open>with\<close> block.
\<close>

datatype lock_pc = Away | Trying | Writing | Reading | Checking pid | Breaking | Waiting | Holding

record lock_state =
  ls_file :: "lock_file option"
  ls_pc :: "pid \<Rightarrow> lock_pc"
  ls_alive :: "pid \<Rightarrow> bool"

datatype lock_call =
    Enter | TryCreate | WriteOwner | FailWrite | ReadOwner | CheckAlive | BreakStale | SleepAgain | TimeOut | Release | Die

definition goto :: "pid \<Rightarrow> lock_pc \<Rightarrow> lock_state \<Rightarrow> lock_state" where
  "goto p pc s = s\<lparr>ls_pc := (ls_pc s)(p := pc)\<rparr>"

text \<open>\<open>_read_owner_pid\<close>: no owner when the file is gone or its text is not there yet.\<close>

definition read_owner :: "lock_state \<Rightarrow> pid option" where
  "read_owner s = (case ls_file s of None \<Rightarrow> None | Some f \<Rightarrow> if lf_written f then Some (lf_creator f) else None)"

text \<open>
  One system call of process \<open>p\<close>; \<open>None\<close> where \<open>p\<close> is not at that call. \<open>WriteOwner\<close> writes to the
  open file: when the name has been removed or recreated meanwhile, the text is lost.
\<close>

fun lock_call_step :: "pid \<Rightarrow> lock_call \<Rightarrow> lock_state \<Rightarrow> lock_state option" where
  "lock_call_step p Enter s = (if ls_pc s p = Away then Some (goto p Trying s) else None)"
| "lock_call_step p TryCreate s =
     (if ls_pc s p \<noteq> Trying then None
      else if ls_file s = None then Some (goto p Writing (s\<lparr>ls_file := Some \<lparr>lf_creator = p, lf_written = False\<rparr>\<rparr>))
      else Some (goto p Reading s))"
| "lock_call_step p WriteOwner s =
     (if ls_pc s p \<noteq> Writing then None
      else Some (goto p Holding (if map_option lf_creator (ls_file s) = Some p
        then s\<lparr>ls_file := Some \<lparr>lf_creator = p, lf_written = True\<rparr>\<rparr> else s)))"
| "lock_call_step p FailWrite s = (if ls_pc s p \<noteq> Writing then None else Some (goto p Away (s\<lparr>ls_file := None\<rparr>)))"
| "lock_call_step p ReadOwner s =
     (if ls_pc s p \<noteq> Reading then None
      else case read_owner s of None \<Rightarrow> Some (goto p Waiting s) | Some q \<Rightarrow> Some (goto p (Checking q) s))"
| "lock_call_step p CheckAlive s =
     (case ls_pc s p of
        Checking q \<Rightarrow> if q = p \<or> ls_alive s q then Some (goto p Waiting s) else Some (goto p Breaking s)
      | _ \<Rightarrow> None)"
| "lock_call_step p BreakStale s = (if ls_pc s p \<noteq> Breaking then None else Some (goto p Trying (s\<lparr>ls_file := None\<rparr>)))"
| "lock_call_step p SleepAgain s = (if ls_pc s p \<noteq> Waiting then None else Some (goto p Trying s))"
| "lock_call_step p TimeOut s = (if ls_pc s p \<noteq> Waiting then None else Some (goto p Away s))"
| "lock_call_step p Release s = (if ls_pc s p \<noteq> Holding then None else Some (goto p Away (s\<lparr>ls_file := None\<rparr>)))"
| "lock_call_step p Die s = Some (s\<lparr>ls_alive := (ls_alive s)(p := False)\<rparr>)"

text \<open>A dead process makes no more calls.\<close>

definition lock_process_step :: "pid \<Rightarrow> lock_call \<Rightarrow> lock_state \<Rightarrow> lock_state option" where
  "lock_process_step p c s = (if ls_alive s p then lock_call_step p c s else None)"

fun lock_run :: "(pid \<times> lock_call) list \<Rightarrow> lock_state \<Rightarrow> lock_state option" where
  "lock_run [] s = Some s"
| "lock_run ((p, c) # cs) s = (case lock_process_step p c s of None \<Rightarrow> None | Some s' \<Rightarrow> lock_run cs s')"

definition no_lock :: lock_state where
  "no_lock = \<lparr>ls_file = None, ls_pc = (\<lambda>_. Away), ls_alive = (\<lambda>_. True)\<rparr>"

text \<open>\<open>p\<close> is alive inside the \<open>with\<close> block.\<close>

definition holds :: "lock_state \<Rightarrow> pid \<Rightarrow> bool" where
  "holds s p = (ls_alive s p \<and> ls_pc s p = Holding)"

section \<open>Mutual exclusion while nobody dies\<close>

definition inside :: "lock_pc \<Rightarrow> bool" where
  "inside pc = (pc = Writing \<or> pc = Holding)"

definition lock_inv :: "lock_state \<Rightarrow> bool" where
  "lock_inv s \<longleftrightarrow> (\<forall>p. ls_alive s p) \<and> (\<forall>p. ls_pc s p \<noteq> Breaking) \<and>
     (\<forall>p. inside (ls_pc s p) \<longrightarrow> (\<exists>w. ls_file s = Some \<lparr>lf_creator = p, lf_written = w\<rparr>))"

text \<open>A call of \<open>p\<close> moves only \<open>p\<close>, and touches the file only when it is free or \<open>p\<close> is inside.\<close>

lemma lock_call_effect:
  assumes "lock_call_step p c s = Some s'" "c \<noteq> Die" "ls_pc s p \<noteq> Breaking"
    and "inside (ls_pc s p) \<Longrightarrow> \<exists>w. ls_file s = Some \<lparr>lf_creator = p, lf_written = w\<rparr>"
  shows "ls_alive s' = ls_alive s \<and> (\<forall>q. q \<noteq> p \<longrightarrow> ls_pc s' q = ls_pc s q) \<and>
    (ls_pc s' p = Breaking \<longrightarrow> (\<exists>q. q \<noteq> p \<and> \<not> ls_alive s q)) \<and>
    (inside (ls_pc s' p) \<longrightarrow> (\<exists>w. ls_file s' = Some \<lparr>lf_creator = p, lf_written = w\<rparr>)) \<and>
    (ls_file s' = ls_file s \<or> ls_file s = None \<or> inside (ls_pc s p))"
  using assms by (cases c) (auto simp: goto_def inside_def split: if_splits option.splits lock_pc.splits)

lemma lock_inv_call:
  assumes inv: "lock_inv s" and step: "lock_call_step p c s = Some s'" "c \<noteq> Die"
  shows "lock_inv s'"
proof -
  have own: "inside (ls_pc s q) \<Longrightarrow> \<exists>w. ls_file s = Some \<lparr>lf_creator = q, lf_written = w\<rparr>" for q
    using inv by (simp add: lock_inv_def)
  have nb: "ls_pc s p \<noteq> Breaking" using inv by (simp add: lock_inv_def)
  note e = lock_call_effect [OF step nb own]
  have "\<exists>w. ls_file s' = Some \<lparr>lf_creator = q, lf_written = w\<rparr>" if q: "inside (ls_pc s' q)" for q
  proof (cases "q = p")
    case False
    with e q have i: "inside (ls_pc s q)" by simp
    then obtain w where w: "ls_file s = Some \<lparr>lf_creator = q, lf_written = w\<rparr>" using own by blast
    have "\<not> inside (ls_pc s p)" using own [of p] w False by auto
    with e w show ?thesis by auto
  qed (use e q in blast)
  moreover have "\<forall>q. ls_pc s' q \<noteq> Breaking" using e inv unfolding lock_inv_def by metis
  ultimately show ?thesis using e inv unfolding lock_inv_def by auto
qed

definition lock_any_step :: "lock_state \<Rightarrow> lock_state \<Rightarrow> bool" where
  "lock_any_step s s' = (\<exists>p c. c \<noteq> Die \<and> lock_process_step p c s = Some s')"

interpretation checklist_lock: invariant_system "\<lambda>s. s = no_lock" lock_any_step lock_inv
proof
  show "s = no_lock \<Longrightarrow> lock_inv s" for s by (simp add: lock_inv_def no_lock_def inside_def)
  show "lock_inv s \<Longrightarrow> lock_any_step s s' \<Longrightarrow> lock_inv s'" for s s'
    using lock_inv_call by (auto simp: lock_any_step_def lock_process_step_def split: if_splits)
qed

lemma lock_run_steps:
  "lock_run cs s = Some s' \<Longrightarrow> (\<And>p. (p, Die) \<notin> set cs) \<Longrightarrow> lock_any_step\<^sup>*\<^sup>* s s'"
proof (induction cs arbitrary: s)
  case (Cons x cs)
  obtain p c where x: "x = (p, c)" by force
  with Cons.prems obtain m where m: "lock_process_step p c s = Some m" "lock_run cs m = Some s'" by (auto split: option.splits)
  have "c \<noteq> Die" using Cons.prems(2) [of p] x by auto
  then have "lock_any_step s m" unfolding lock_any_step_def using m(1) by blast
  moreover have "lock_any_step\<^sup>*\<^sup>* m s'" using Cons.IH [OF m(2)] Cons.prems(2) by simp
  ultimately show ?case by (rule converse_rtranclp_into_rtranclp)
qed simp

text \<open>
  C21: As long as no process dies, at most one process is between the acquisition and the release of
  the lock, in every interleaving of system calls, failed writes and time outs included.
\<close>

theorem checklist_lock_exclusive:
  assumes "lock_run cs no_lock = Some s" "\<And>p. (p, Die) \<notin> set cs" "holds s p" "holds s q"
  shows "p = q"
proof -
  have "lock_inv s" using checklist_lock.inv_reachable [OF refl lock_run_steps [OF assms(1,2)]] .
  then show ?thesis using assms(3,4) unfolding lock_inv_def holds_def inside_def
    by (metis lock_file.ext_inject option.inject)
qed

theorem checklist_lock_exclusive_witness:
  "\<exists>s. lock_run [(1, Enter), (2, Enter), (1, TryCreate), (2, TryCreate), (1, WriteOwner), (2, ReadOwner), (2, CheckAlive)] no_lock = Some s \<and>
     holds s 1 \<and> (\<forall>q. holds s q \<longrightarrow> q = 1)"
proof -
  let ?cs = "[(1, Enter), (2, Enter), (1, TryCreate), (2, TryCreate), (1, WriteOwner), (2, ReadOwner), (2, CheckAlive)] :: (pid \<times> lock_call) list"
  obtain s where s: "lock_run ?cs no_lock = Some s" "holds s 1"
    by (simp add: lock_process_step_def no_lock_def goto_def read_owner_def holds_def)
  have "q = 1" if "holds s q" for q
    by (rule checklist_lock_exclusive [OF s(1) _ that s(2)]) auto
  with s show ?thesis by blast
qed

section \<open>A stale lock breaks it\<close>

text \<open>
  C38: The removal of a stale lock does not check that the file is still the one whose owner was found
  dead. Two processes that wait for a dead owner can both reach the removal: the first removes the
  stale file and takes the lock, the second removes the file of the first and takes it too.
\<close>

theorem stale_lock_held_twice:
  "\<exists>cs s. lock_run cs no_lock = Some s \<and> holds s 2 \<and> holds s 3"
proof -
  let ?cs = "[(1, Enter), (1, TryCreate), (1, WriteOwner), (1, Die), (2, Enter), (2, TryCreate), (2, ReadOwner), (2, CheckAlive),
    (3, Enter), (3, TryCreate), (3, ReadOwner), (3, CheckAlive), (2, BreakStale), (2, TryCreate), (2, WriteOwner),
    (3, BreakStale), (3, TryCreate), (3, WriteOwner)] :: (pid \<times> lock_call) list"
  have "\<exists>s. lock_run ?cs no_lock = Some s \<and> holds s 2 \<and> holds s 3"
    by (simp add: lock_process_step_def no_lock_def goto_def read_owner_def holds_def)
  then show ?thesis by blast
qed

text \<open>A lock file without an owner text, whose creator is dead; nobody else is inside.\<close>

definition orphaned :: "lock_state \<Rightarrow> bool" where
  "orphaned s \<longleftrightarrow> (\<exists>c. ls_file s = Some \<lparr>lf_creator = c, lf_written = False\<rparr> \<and> \<not> ls_alive s c) \<and>
     (\<forall>p. ls_alive s p \<longrightarrow> ls_pc s p \<in> {Away, Trying, Reading, Waiting})"

lemma orphaned_step:
  assumes "orphaned s" "lock_process_step p c s = Some s'"
  shows "orphaned s'"
  using assms by (cases c)
    (auto simp: orphaned_def lock_process_step_def goto_def read_owner_def split: if_splits option.splits lock_pc.splits)

text \<open>
  A process that dies between the creation of the file and the writing of its owner leaves a lock
  that nobody breaks: no other process gets in, however long it tries.
\<close>

theorem orphaned_lock_never_taken:
  assumes "orphaned s" "lock_run cs s = Some s'"
  shows "\<not> holds s' p"
proof -
  have "orphaned s'" using assms
  proof (induction cs arbitrary: s)
    case (Cons x cs)
    then show ?case by (cases x) (auto split: option.splits dest: orphaned_step)
  qed simp
  then show ?thesis by (auto simp: orphaned_def holds_def)
qed

theorem orphaned_lock_never_taken_witness:
  "\<exists>s. lock_run [(1, Enter), (1, TryCreate), (1, Die)] no_lock = Some s \<and>
     (\<forall>s' p. lock_run [(2, Enter), (2, TryCreate), (2, ReadOwner), (2, TimeOut)] s = Some s' \<longrightarrow> \<not> holds s' p)"
proof -
  let ?s = "\<lparr>ls_file = Some \<lparr>lf_creator = 1, lf_written = False\<rparr>, ls_pc = (\<lambda>_. Away)(1 := Writing), ls_alive = (\<lambda>_. True)(1 := False)\<rparr> :: lock_state"
  have "lock_run [(1, Enter), (1, TryCreate), (1, Die)] no_lock = Some ?s"
    by (simp add: lock_process_step_def no_lock_def goto_def)
  moreover have "orphaned ?s" by (auto simp: orphaned_def)
  ultimately show ?thesis using orphaned_lock_never_taken by blast
qed

end
