(* ===== verification/SplitContract.thy ===== *)
theory SplitContract
  imports ChecklistIO CanonicalJson Timestamps
begin

text \<open>
  The contract of split operations (\<^verbatim>\<open>src/coordinate/split_operations.py\<close>, its first part): an
  operation on a task has a half that edits the checklist on the coding host and a half that
  records it in the database, and the two are tied by digests of canonical JSON: of the input, and
  of the item before and after. \<open>H\<close> is SHA-256.
\<close>

section \<open>Constants and validation\<close>

definition SPLIT_CONTRACT_VERSION :: int where "SPLIT_CONTRACT_VERSION = 1"
definition OPERATION_KIND_TASK_CREATE :: string where "OPERATION_KIND_TASK_CREATE = ''task.create''"
definition OPERATION_KIND_ISSUE_MATERIALIZE :: string where "OPERATION_KIND_ISSUE_MATERIALIZE = ''issue.materialize''"
definition OPERATION_KIND_TASK_ADOPT :: string where "OPERATION_KIND_TASK_ADOPT = ''task.adopt''"
definition TARGET_KIND_CHECKLIST_TASK :: string where "TARGET_KIND_CHECKLIST_TASK = ''checklist_task''"
definition SOURCE_KIND_ISSUE_TRIAGED_EVENT :: string where "SOURCE_KIND_ISSUE_TRIAGED_EVENT = ''issue_triaged_event''"
definition STATUS_RECORD_APPLIED :: string where "STATUS_RECORD_APPLIED = ''record_applied''"

text \<open>A \<open>SplitOperationError\<close> carries its \<open>reason\<close>; as a subclass it is caught as \<open>ChecklistError\<close>.\<close>

definition require_creatable_phase :: "pyval \<Rightarrow> unit result" where
  "require_creatable_phase phase =
     (case initial_projection phase of Inl e \<Rightarrow> raise SplitErr (exn_msg e) | Inr _ \<Rightarrow> Inr ())"

definition validate_priority :: "pyval \<Rightarrow> unit result" where
  "validate_priority v =
     bindE (in_set ALLOWED_PRIORITIES v) (\<lambda>ok. if ok then Inr () else raise SplitErr ''validation_error'')"

definition validate_task_create_contract :: "pyval \<Rightarrow> pyval \<Rightarrow> unit result" where
  "validate_task_create_contract phase priority =
     bindE (require_creatable_phase phase) (\<lambda>_. validate_priority priority)"

definition canonical_hash :: "(string \<Rightarrow> string) \<Rightarrow> pyval \<Rightarrow> string" where
  "canonical_hash H v = H (json v)"

definition validate_files_applied_at :: "pyval \<Rightarrow> string result" where
  "validate_files_applied_at v =
     (case as_str v of
        None \<Rightarrow> raise SplitErr ''fingerprint_drift''
      | Some s \<Rightarrow> if parse_iso s = None then raise SplitErr ''fingerprint_drift'' else Inr s)"

text \<open>
  \<open>_UUID_RE\<close>. A text that matches but for a trailing newline is refused by \<open>uuid.UUID\<close>, and one
  that matches is its own canonical form.
\<close>

definition uuid_body :: "string \<Rightarrow> bool" where
  "uuid_body s = (map length (split_ch CHR ''-'' s) = [8, 4, 4, 4, 12] \<and>
     list_all (list_all is_lower_hex) (split_ch CHR ''-'' s))"

definition validate_uuid :: "pyval \<Rightarrow> string result" where
  "validate_uuid v =
     (case as_str v of
        None \<Rightarrow> raise SplitErr ''validation_error''
      | Some s \<Rightarrow> if uuid_body (lower s) then Inr (lower s) else raise SplitErr ''validation_error'')"

definition validate_sha256 :: "pyval \<Rightarrow> string result" where
  "validate_sha256 v =
     (case as_str v of
        None \<Rightarrow> raise SplitErr ''validation_error''
      | Some s \<Rightarrow> if hex64_body s then Inr s else raise SplitErr ''validation_error'')"

definition validate_workspace_relative_path :: "pyval \<Rightarrow> string result" where
  "validate_workspace_relative_path v =
     (case as_str v of
        None \<Rightarrow> raise SplitErr ''validation_error''
      | Some s \<Rightarrow>
          if bslash \<in> set s then raise SplitErr ''validation_error''
          else if startswith s [slash] then raise SplitErr ''validation_error''
          else if list_ex (\<lambda>part. part = [] \<or> part = ''..'') (split_ch slash s) then raise SplitErr ''validation_error''
          else Inr s)"

section \<open>The metadata of a task mirror\<close>

definition TASK_MIRROR_SPLIT_OPERATION_KEYS :: "string list" where
  "TASK_MIRROR_SPLIT_OPERATION_KEYS =
     [''contract_version'', ''operation_id'', ''operation_kind'', ''input_fingerprint'', ''before_fingerprint'', ''after_fingerprint'']"

definition SPLIT_OPERATION_ENVELOPE_KEYS :: "string list" where
  "SPLIT_OPERATION_ENVELOPE_KEYS =
     [''contract_version'', ''operation_id'', ''operation_kind'', ''workspace_id'', ''target_kind'', ''target_id'', ''source_kind'',
      ''source_id'', ''input_fingerprint'', ''before_fingerprint'', ''after_fingerprint'', ''files_applied_at'']"

definition KNOWN_OPERATION_KINDS :: "string list" where
  "KNOWN_OPERATION_KINDS = [OPERATION_KIND_TASK_CREATE, OPERATION_KIND_ISSUE_MATERIALIZE, OPERATION_KIND_TASK_ADOPT]"

text \<open>\<open>set(d.keys()) == keys\<close>.\<close>

definition key_set_is :: "(string \<times> pyval) list \<Rightarrow> string list \<Rightarrow> bool" where
  "key_set_is d keys = (list_all (List.member keys) (map fst d) \<and> list_all (has_key d) keys)"

definition validate_task_mirror_split_operation :: "pyval \<Rightarrow> (string \<times> pyval) list result" where
  "validate_task_mirror_split_operation v =
     (case as_dict v of
        None \<Rightarrow> raise SplitErr ''validation_error''
      | Some d \<Rightarrow>
          if \<not> key_set_is d TASK_MIRROR_SPLIT_OPERATION_KEYS then raise SplitErr ''validation_error''
          else if \<not> eq_int (dget d ''contract_version'') SPLIT_CONTRACT_VERSION then raise SplitErr ''validation_error''
          else
            bindE (in_set KNOWN_OPERATION_KINDS (dget d ''operation_kind'')) (\<lambda>known.
              if \<not> known then raise SplitErr ''validation_error''
              else
                bindE (validate_uuid (dget d ''operation_id'')) (\<lambda>_.
                bindE (mapE (\<lambda>k. validate_sha256 (dget d k)) [''input_fingerprint'', ''before_fingerprint'', ''after_fingerprint'']) (\<lambda>_.
                  Inr d))))"

definition project_task_mirror_split_operation :: "pyval \<Rightarrow> (string \<times> pyval) list result" where
  "project_task_mirror_split_operation v =
     (case as_dict v of
        None \<Rightarrow> raise SplitErr ''validation_error''
      | Some d \<Rightarrow>
          if \<not> key_set_is d SPLIT_OPERATION_ENVELOPE_KEYS then raise SplitErr ''validation_error''
          else validate_task_mirror_split_operation (PyDict (map (\<lambda>k. (k, dget d k)) TASK_MIRROR_SPLIT_OPERATION_KEYS)))"

section \<open>Fingerprints\<close>

definition target_dict :: "string \<Rightarrow> pyval" where
  "target_dict task_id = PyDict [(''kind'', PyStr TARGET_KIND_CHECKLIST_TASK), (''id'', PyStr task_id)]"

definition task_create_input :: "string \<Rightarrow> string \<Rightarrow> string \<Rightarrow> string \<Rightarrow> string \<Rightarrow> string \<Rightarrow> string \<Rightarrow> pyval" where
  "task_create_input wid tid plan_doc plan_sha title phase priority = PyDict
     [(''contract_version'', PyInt SPLIT_CONTRACT_VERSION), (''operation_kind'', PyStr OPERATION_KIND_TASK_CREATE),
      (''workspace_id'', PyStr wid), (''target'', target_dict tid), (''source'', PyNone), (''plan_doc'', PyStr plan_doc),
      (''plan_sha256'', PyStr plan_sha), (''title'', PyStr title), (''phase'', PyStr phase), (''priority'', PyStr priority)]"

definition build_task_create_input_fingerprint ::
  "(string \<Rightarrow> string) \<Rightarrow> string \<Rightarrow> string \<Rightarrow> pyval \<Rightarrow> pyval \<Rightarrow> string \<Rightarrow> string \<Rightarrow> string \<Rightarrow> string result" where
  "build_task_create_input_fingerprint H wid tid plan_doc plan_sha title phase priority =
     bindE (validate_workspace_relative_path plan_doc) (\<lambda>doc.
     bindE (validate_sha256 plan_sha) (\<lambda>sha.
       Inr (canonical_hash H (task_create_input wid tid doc sha title phase priority))))"

definition build_issue_materialize_input_fingerprint ::
  "(string \<Rightarrow> string) \<Rightarrow> string \<Rightarrow> string \<Rightarrow> pyval \<Rightarrow> pyval \<Rightarrow> pyval \<Rightarrow> string \<Rightarrow> string \<Rightarrow> string \<Rightarrow> string result" where
  "build_issue_materialize_input_fingerprint H wid tid source plan_doc plan_sha title phase priority =
     bindE (validate_uuid source) (\<lambda>src.
     bindE (validate_workspace_relative_path plan_doc) (\<lambda>doc.
     bindE (validate_sha256 plan_sha) (\<lambda>sha.
       Inr (canonical_hash H (PyDict
         [(''contract_version'', PyInt SPLIT_CONTRACT_VERSION), (''operation_kind'', PyStr OPERATION_KIND_ISSUE_MATERIALIZE),
          (''workspace_id'', PyStr wid), (''target'', target_dict tid),
          (''source'', PyDict [(''kind'', PyStr SOURCE_KIND_ISSUE_TRIAGED_EVENT), (''id'', PyStr src)]),
          (''plan_doc'', PyStr doc), (''plan_sha256'', PyStr sha), (''title'', PyStr title), (''phase'', PyStr phase),
          (''priority'', PyStr priority)])))))"

definition build_task_adopt_input_fingerprint ::
  "(string \<Rightarrow> string) \<Rightarrow> string \<Rightarrow> string \<Rightarrow> pyval \<Rightarrow> pyval \<Rightarrow> pyval \<Rightarrow> string result" where
  "build_task_adopt_input_fingerprint H wid tid plan_doc plan_sha item_fp =
     bindE (validate_workspace_relative_path plan_doc) (\<lambda>doc.
     bindE (validate_sha256 plan_sha) (\<lambda>sha.
     bindE (validate_sha256 item_fp) (\<lambda>fp.
       Inr (canonical_hash H (PyDict
         [(''contract_version'', PyInt SPLIT_CONTRACT_VERSION), (''operation_kind'', PyStr OPERATION_KIND_TASK_ADOPT),
          (''workspace_id'', PyStr wid), (''target'', target_dict tid), (''source'', PyNone),
          (''plan_doc'', PyStr doc), (''plan_sha256'', PyStr sha), (''item_fingerprint'', PyStr fp)])))))"

definition FINGERPRINT_EXCLUDED_KEYS :: "string list" where
  "FINGERPRINT_EXCLUDED_KEYS = [''updated_at'', ''split_operation'', ''completion_receipt'', ''verification'', ''artifact_path'']"

fun project_value :: "pyval \<Rightarrow> pyval" where
  "project_value (PyDict d) =
     PyDict (sort_key fst (filter (\<lambda>(k, v). \<not> List.member FINGERPRINT_EXCLUDED_KEYS k) (map (\<lambda>(k, v). (k, project_value v)) d)))"
| "project_value (PyList xs) = PyList (map project_value xs)"
| "project_value v = v"

definition project_checklist_item_for_fingerprint :: "(string \<times> pyval) list option \<Rightarrow> string \<Rightarrow> pyval" where
  "project_checklist_item_for_fingerprint item task_id =
     (case item of
        None \<Rightarrow> PyDict [(''state'', PyStr ''absent''), (''target'', target_dict task_id)]
      | Some d \<Rightarrow>
          let projected = filter (\<lambda>(k, v). \<not> List.member FINGERPRINT_EXCLUDED_KEYS k) d;
              without = (case as_dict (dget projected ''workflow'') of
                 None \<Rightarrow> projected | Some w \<Rightarrow> dset ''workflow'' (PyDict (dpop ''updated_at'' w)) projected)
          in project_value (PyDict without))"

definition compute_task_item_fingerprint :: "(string \<Rightarrow> string) \<Rightarrow> (string \<times> pyval) list option \<Rightarrow> string \<Rightarrow> string" where
  "compute_task_item_fingerprint H item task_id = canonical_hash H (project_checklist_item_for_fingerprint item task_id)"

section \<open>Envelopes\<close>

text \<open>The three builders write the same twelve keys.\<close>

definition envelope_dict ::
  "string \<Rightarrow> pyval \<Rightarrow> pyval \<Rightarrow> string \<Rightarrow> string \<Rightarrow> string \<Rightarrow> string \<Rightarrow> string \<Rightarrow> string \<Rightarrow> string \<Rightarrow> (string \<times> pyval) list" where
  "envelope_dict kind source_kind source_id oid wid tid input_fp before_fp after_fp applied_at =
     [(''contract_version'', PyInt SPLIT_CONTRACT_VERSION), (''operation_id'', PyStr oid), (''operation_kind'', PyStr kind),
      (''workspace_id'', PyStr wid), (''target_kind'', PyStr TARGET_KIND_CHECKLIST_TASK), (''target_id'', PyStr tid),
      (''source_kind'', source_kind), (''source_id'', source_id), (''input_fingerprint'', PyStr input_fp),
      (''before_fingerprint'', PyStr before_fp), (''after_fingerprint'', PyStr after_fp), (''files_applied_at'', PyStr applied_at)]"

definition build_task_create_envelope where
  "build_task_create_envelope = envelope_dict OPERATION_KIND_TASK_CREATE PyNone PyNone"

definition build_task_adopt_envelope where
  "build_task_adopt_envelope = envelope_dict OPERATION_KIND_TASK_ADOPT PyNone PyNone"

definition build_issue_materialize_envelope ::
  "pyval \<Rightarrow> string \<Rightarrow> string \<Rightarrow> string \<Rightarrow> string \<Rightarrow> string \<Rightarrow> string \<Rightarrow> string \<Rightarrow> (string \<times> pyval) list result" where
  "build_issue_materialize_envelope source oid wid tid input_fp before_fp after_fp applied_at =
     bindE (validate_uuid source) (\<lambda>src.
       Inr (envelope_dict OPERATION_KIND_ISSUE_MATERIALIZE (PyStr SOURCE_KIND_ISSUE_TRIAGED_EVENT) (PyStr src)
         oid wid tid input_fp before_fp after_fp applied_at))"

section \<open>What a mirror keeps of an envelope\<close>

lemma has_key_map: "has_key (map (\<lambda>k. (k, f k)) ks) k \<longleftrightarrow> k \<in> set ks"
  by (auto simp: has_key_def comp_def)

lemma dget_map: "k \<in> set ks \<Longrightarrow> dget (map (\<lambda>k. (k, f k)) ks) k = f k"
  by (induction ks) auto

lemma eq_int_PyInt [simp]: "eq_int (PyInt i) j \<longleftrightarrow> i = j"
  by simp

lemma validate_uuid_Inr: "validate_uuid v = Inr u \<longleftrightarrow> (\<exists>s. v = PyStr s \<and> uuid_body (lower s) \<and> u = lower s)"
  by (auto simp: validate_uuid_def split: option.splits if_splits)

lemma validate_sha256_Inr: "validate_sha256 v = Inr h \<longleftrightarrow> v = PyStr h \<and> hex64_body h"
  by (auto simp: validate_sha256_def split: option.splits if_splits)

lemma mapE_ok: "is_ok (mapE f xs) \<longleftrightarrow> (\<forall>x \<in> set xs. is_ok (f x))"
proof (induction xs)
  case (Cons x xs)
  then show ?case by (cases "f x"; cases "mapE f xs") auto
qed simp

lemma bindE_const_Inr: "bindE m (\<lambda>_. Inr d) = Inr e \<longleftrightarrow> is_ok m \<and> e = d"
  by (auto simp: is_ok_iff bindE_eq_Inr)

lemma bindE_skip_Inr: "bindE m (\<lambda>_. n) = Inr e \<longleftrightarrow> is_ok m \<and> n = Inr e"
  by (auto simp: is_ok_iff bindE_eq_Inr)

lemma bindE_in_set_Inr: "bindE (in_set S v) (\<lambda>b. if \<not> b then raise c m else n) = Inr e \<longleftrightarrow> one_of S v \<and> n = Inr e"
proof (cases "in_set S v")
  case (Inr b)
  then show ?thesis using in_set_True [of S v] by (cases b) auto
next
  case (Inl x)
  then show ?thesis using in_set_True [of S v] by auto
qed

lemma if_raise_Inr: "(if b then raise c m else n) = Inr e \<longleftrightarrow> \<not> b \<and> n = Inr e"
  by simp

lemma mirror_metadata_Inr:
  "validate_task_mirror_split_operation v = Inr d \<longleftrightarrow>
     v = PyDict d \<and> key_set_is d TASK_MIRROR_SPLIT_OPERATION_KEYS \<and> eq_int (dget d ''contract_version'') SPLIT_CONTRACT_VERSION \<and>
     one_of KNOWN_OPERATION_KINDS (dget d ''operation_kind'') \<and> is_ok (validate_uuid (dget d ''operation_id'')) \<and>
     (\<forall>k \<in> set [''input_fingerprint'', ''before_fingerprint'', ''after_fingerprint'']. is_ok (validate_sha256 (dget d k)))"
proof (cases "as_dict v")
  case None
  then show ?thesis by (auto simp: validate_task_mirror_split_operation_def)
next
  case (Some e)
  show ?thesis unfolding validate_task_mirror_split_operation_def Some option.case if_raise_Inr bindE_in_set_Inr
      bindE_skip_Inr bindE_const_Inr mapE_ok using Some by auto
qed

text \<open>
  What the mirror keeps of an envelope is accepted as stored metadata when it is read back, and it
  carries the operation's identity: the projection of two envelopes with the same operation id,
  kind and fingerprints is the same.
\<close>

theorem projection_is_metadata:
  assumes "project_task_mirror_split_operation v = Inr d"
  shows "validate_task_mirror_split_operation (PyDict d) = Inr d \<and>
    (\<forall>k \<in> set TASK_MIRROR_SPLIT_OPERATION_KEYS. \<exists>e. v = PyDict e \<and> dget d k = dget e k)"
proof -
  from assms obtain e where e: "v = PyDict e"
    and m: "validate_task_mirror_split_operation (PyDict (map (\<lambda>k. (k, dget e k)) TASK_MIRROR_SPLIT_OPERATION_KEYS)) = Inr d"
    by (auto simp: project_task_mirror_split_operation_def split: option.splits if_splits)
  then have "d = map (\<lambda>k. (k, dget e k)) TASK_MIRROR_SPLIT_OPERATION_KEYS" by (simp add: mirror_metadata_Inr)
  with m e show ?thesis by (simp add: dget_map)
qed

definition sample_uuid :: string where
  "sample_uuid = ''0f8fad5b-d9cb-469f-a165-70867728950e''"

definition sample_sha :: string where
  "sample_sha = replicate 64 (CHR ''a'')"

definition sample_envelope :: "(string \<times> pyval) list" where
  "sample_envelope = build_task_create_envelope sample_uuid ''w1'' ''T1'' sample_sha sample_sha sample_sha ''2026-01-01T00:00:00Z''"

theorem projection_is_metadata_witness:
  "\<exists>d. project_task_mirror_split_operation (PyDict sample_envelope) = Inr d \<and> validate_task_mirror_split_operation (PyDict d) = Inr d"
proof -
  have "is_ok (project_task_mirror_split_operation (PyDict sample_envelope))" by code_simp
  then obtain d where d: "project_task_mirror_split_operation (PyDict sample_envelope) = Inr d" by (auto simp: is_ok_iff)
  with projection_is_metadata [OF this] show ?thesis by blast
qed

text \<open>The three builders write envelopes that are accepted, for accepted arguments.\<close>

lemma envelope_projects:
  assumes "kind \<in> set KNOWN_OPERATION_KINDS" "is_ok (validate_uuid (PyStr oid))"
    and "hex64_body a" "hex64_body b" "hex64_body c"
  shows "project_task_mirror_split_operation (PyDict (envelope_dict kind sk sid oid wid tid a b c at)) =
    Inr [(''contract_version'', PyInt SPLIT_CONTRACT_VERSION), (''operation_id'', PyStr oid), (''operation_kind'', PyStr kind),
      (''input_fingerprint'', PyStr a), (''before_fingerprint'', PyStr b), (''after_fingerprint'', PyStr c)]"
proof -
  have "key_set_is (envelope_dict kind sk sid oid wid tid a b c at) SPLIT_OPERATION_ENVELOPE_KEYS"
    by (simp add: key_set_is_def has_key_def envelope_dict_def SPLIT_OPERATION_ENVELOPE_KEYS_def)
  moreover have "one_of KNOWN_OPERATION_KINDS (PyStr kind)" using assms(1) by (simp add: one_of_def)
  ultimately show ?thesis using assms
    by (auto simp: project_task_mirror_split_operation_def mirror_metadata_Inr TASK_MIRROR_SPLIT_OPERATION_KEYS_def
        envelope_dict_def key_set_is_def has_key_def validate_sha256_def)
qed

section \<open>What a fingerprint binds\<close>

lemma canonical_hash_eq:
  assumes "canonical_hash H v = canonical_hash H w" "jnormal (jcanon v)" "jnormal (jcanon w)"
  shows "jcanon v = jcanon w \<or> collision H"
  using digest_eq assms by (simp add: canonical_hash_def)

text \<open>A value as JSON has it: no floats, and no key twice in a dict.\<close>

fun json_value :: "pyval \<Rightarrow> bool" where
  "json_value (PyFloat r) = False"
| "json_value (PyList xs) = list_all json_value xs"
| "json_value (PyDict d) = (distinct (map fst d) \<and> list_all (\<lambda>(k, v). json_value v) d)"
| "json_value v = True"

lemma sorted_distinct_keys: "distinct (map fst d) \<Longrightarrow> sorted_wrt (<) (map fst (sort_key fst d))"
  by (simp add: strict_sorted_iff distinct_map)

lemma json_value_normal: "json_value v \<Longrightarrow> jnormal (jcanon v)"
proof (induction v)
  case (PyDict d)
  have "distinct (map fst (map (\<lambda>(k, v). (k, jcanon v)) d))" using PyDict.prems by (simp add: comp_def case_prod_beta)
  then have "sorted_wrt (<) (map fst (sort_key fst (map (\<lambda>(k, v). (k, jcanon v)) d)))" by (rule sorted_distinct_keys)
  moreover have "jnormal (jcanon v)" if "(k, v) \<in> set d" for k v
    using PyDict that by (force simp: list_all_iff snds.simps)
  ultimately show ?case by (auto simp: list_all_iff)
qed (auto simp: list_all_iff)

text \<open>
  C36: Equal inputs of a creation come from equal requests: the input fingerprint binds the workspace,
  the task, the plan's path and content, the title, the phase and the priority.
\<close>

theorem create_fingerprint_binds:
  assumes "build_task_create_input_fingerprint H w t doc sha title phase prio = Inr fp"
    and "build_task_create_input_fingerprint H w' t' doc' sha' title' phase' prio' = Inr fp"
  shows "(w, t, doc, sha, title, phase, prio) = (w', t', doc', sha', title', phase', prio') \<or> collision H"
proof -
  from assms(1) obtain d s where a: "doc = PyStr d" "sha = PyStr s" "canonical_hash H (task_create_input w t d s title phase prio) = fp"
    by (auto simp: build_task_create_input_fingerprint_def bindE_eq_Inr validate_sha256_Inr validate_workspace_relative_path_def
        split: option.splits if_splits)
  from assms(2) obtain d' s' where b: "doc' = PyStr d'" "sha' = PyStr s'" "canonical_hash H (task_create_input w' t' d' s' title' phase' prio') = fp"
    by (auto simp: build_task_create_input_fingerprint_def bindE_eq_Inr validate_sha256_Inr validate_workspace_relative_path_def
        split: option.splits if_splits)
  have j: "json_value (task_create_input w t d s title phase prio)" for w t d s title phase prio
    by (simp add: task_create_input_def target_dict_def)
  from a(3) b(3) have "canonical_hash H (task_create_input w t d s title phase prio) = canonical_hash H (task_create_input w' t' d' s' title' phase' prio')"
    by simp
  from canonical_hash_eq [OF this json_value_normal [OF j] json_value_normal [OF j]]
  have "jcanon (task_create_input w t d s title phase prio) = jcanon (task_create_input w' t' d' s' title' phase' prio') \<or> collision H" .
  then show ?thesis using a b by (auto simp: task_create_input_def target_dict_def)
qed

theorem create_fingerprint_binds_witness:
  "\<exists>x y. build_task_create_input_fingerprint id ''w1'' ''T1'' (PyStr ''docs/a.md'') (PyStr sample_sha) ''t'' ''todo'' ''p1'' = Inr x \<and>
     build_task_create_input_fingerprint id ''w1'' ''T2'' (PyStr ''docs/a.md'') (PyStr sample_sha) ''t'' ''todo'' ''p1'' = Inr y \<and> x \<noteq> y"
proof -
  have "is_ok (build_task_create_input_fingerprint id ''w1'' t (PyStr ''docs/a.md'') (PyStr sample_sha) ''t'' ''todo'' ''p1'')" for t
    by (simp add: build_task_create_input_fingerprint_def validate_workspace_relative_path_def validate_sha256_def hex64_body_def
        sample_sha_def startswith_def list_all_iff is_lower_hex_def is_digit_def)
  then obtain f where f: "\<And>t. build_task_create_input_fingerprint id ''w1'' t (PyStr ''docs/a.md'') (PyStr sample_sha) ''t'' ''todo'' ''p1'' = Inr (f t)"
    unfolding is_ok_iff by metis
  have "\<not> collision id" by (simp add: collision_def)
  then have "f ''T1'' \<noteq> f ''T2''" using create_fingerprint_binds [OF f [of "''T1''"], of "''w1''" "''T2''" "PyStr ''docs/a.md''" "PyStr sample_sha" "''t''" "''todo''" "''p1''"]
    f [of "''T2''"] by auto
  with f show ?thesis by blast
qed

lemma filter_excluded_dset:
  "k \<in> set FINGERPRINT_EXCLUDED_KEYS \<Longrightarrow>
     filter (\<lambda>(k, v). \<not> List.member FINGERPRINT_EXCLUDED_KEYS k) (dset k v d) = filter (\<lambda>(k, v). \<not> List.member FINGERPRINT_EXCLUDED_KEYS k) d"
proof (induction d)
  case (Cons e d)
  then show ?case by (cases e; cases "fst e = k") simp_all
qed simp

text \<open>
  The fields that the operations themselves write, and the free text of the verification, do not
  show in the fingerprint of an item.
\<close>

theorem fingerprint_ignores:
  assumes "k \<in> set FINGERPRINT_EXCLUDED_KEYS"
  shows "compute_task_item_fingerprint H (Some (dset k v item)) tid = compute_task_item_fingerprint H (Some item) tid"
  using filter_excluded_dset [OF assms] by (simp add: compute_task_item_fingerprint_def project_checklist_item_for_fingerprint_def)

theorem fingerprint_ignores_witness:
  "compute_task_item_fingerprint id (Some (dset ''verification'' (PyStr ''tests'') [(''id'', PyStr ''T1'')])) ''T1'' =
     compute_task_item_fingerprint id (Some [(''id'', PyStr ''T1'')]) ''T1''"
  by (rule fingerprint_ignores) (simp add: FINGERPRINT_EXCLUDED_KEYS_def)

end
