(* ===== verification/Spec2Isabelle.thy ===== *)
theory Spec2Isabelle
  imports Prelude PyValues Resources Timestamps Envelope ExecContext Store JobStore Leases LeaseSafety Bindings Bus Deliveries DeliverySafety Jobs JobSafety UsageEvidence UsagePolicy Registry CanonicalJson Identity Liveness Routing AgentReport RuntimeLease Runtime RuntimeSafety RuntimeRuns RuntimeAgents RuntimeRequests Checklist ChecklistIO ChecklistLock SplitContract
begin

text \<open>
  A model of the coordinator (\<^verbatim>\<open>src/coordinate/\<close>): the process that owns a SQLite database of
  workspaces, tasks, jobs and messages, hands jobs to agents on execution hosts, and posts to chat
  platforms. Paths below are relative to \<^verbatim>\<open>src/coordinate/\<close>.

  The program. A channel message is bound to a workspace (channel bindings of \<^verbatim>\<open>db.py\<close>). A job of
  the workspace (\<^verbatim>\<open>job_repository.py\<close>) runs either as a subprocess of the control host (\<^verbatim>\<open>jobs.py\<close>)
  or is claimed by an agent. A catalog says which executor an agent runs (\<^verbatim>\<open>executor_identity.py\<close>),
  a registry which agents a workspace admits (\<^verbatim>\<open>db.py\<close>), and routing picks one of them by
  capabilities, host and load (\<^verbatim>\<open>executor_routing.py\<close>). An agent gets a digest-bound execution context
  (\<^verbatim>\<open>execution_context.py\<close>) that says where it works, and a lease of that worktree
  (\<^verbatim>\<open>execution_leases.py\<close>), sent as an envelope (\<^verbatim>\<open>lease_envelope.py\<close>). The identity of a worktree
  is computed lexically from a host and a path (\<^verbatim>\<open>execution_resources.py\<close>). When the attempt ends it
  may leave usage evidence (\<^verbatim>\<open>usage_evidence.py\<close>), which a policy turns into a warning
  (\<^verbatim>\<open>usage_policy.py\<close>). The agent runtime (\<^verbatim>\<open>runtime.py\<close>, \<^verbatim>\<open>runtime_lease.py\<close>) ties these together: a
  request under an idempotency key becomes a job, an agent claims its oldest free one, renews its
  lease, reports a result in a fixed text format (\<^verbatim>\<open>agent_report.py\<close>), and a reaper gives expired
  attempts back. The tasks of a project are a checklist file (\<^verbatim>\<open>checklist_contract.py\<close>,
  \<^verbatim>\<open>checklist_io.py\<close>), and operations on them are tied to the database by fingerprints
  (\<^verbatim>\<open>split_operations.py\<close>). Every step appends an event under
  an idempotency key (\<^verbatim>\<open>db.py\<close>), and events become deliveries, which a worker posts (\<^verbatim>\<open>bus.py\<close>,
  \<^verbatim>\<open>worker.py\<close>).

  Conventions. A Python call is a function into \<open>result\<close>: \<open>Inl\<close> the exception that it raises,
  \<open>Inr\<close> its value, with the new database where it writes one. A raise carries no database: the
  transaction is rolled back. A function that commits more than once returns its result next to
  the database as its last commit left it.

  Interleaving. SQLite runs one writer at a time, and a read outside a transaction sees what is committed then.
  What other connections commit meanwhile is an argument where the code can be disturbed and a theorem speaks of it:
  a claim, a report, a progress note, a submission and a binding take the database \<open>s0\<close> that they read before
  their transaction as well as the \<open>s\<close> that the transaction finds; a cancellation takes one for each of its three reads;
  the start of a local run takes the one in which it found the job pending, and \<open>run_job\<close> what others
  do before, between and during its transactions; a sweep of the reaper, a send and a pump take what others do between their
  commits. The reads that \<open>s0\<close> stands for are taken in one database, also where the code reads several
  times. On one database, without interruption, stand: a read and the write that
  follows it at once in the state changes of a delivery (\<open>mark_delivery_sending\<close>, \<open>recover_sending_deliveries\<close>),
  \<open>retry_job\<close>, the last transaction of a local run, and the registration, heartbeat and deactivation of agents,
  policies, catalogs and rosters, whether or not the code opens a transaction before its first read. Whole runs interleave
  at transactions (\<open>runtime_step\<close>, \<open>world_step\<close>, \<open>lease_step\<close>), those of the checklist lock at single system calls (\<open>lock_call_step\<close>).

  Readings of the clock, fresh UUIDs, SHA-256 (\<open>H\<close>), the file system, subprocesses, HTTP and the
  environment are arguments. A string is a list of code points below 256 and is read as ASCII: on
  it NFC normalisation is the identity and \<open>casefold\<close> is lower-casing. A time stamp is its number
  of seconds; \<open>Timestamps\<close> shows that the strings compare in the same way. Python integers are
  \<open>int\<close>; a value that SQLite stores is tested against its 64 bits (\<open>Store.int64\<close>) where the code
  can reach them. A value of type \<open>Any\<close> is a \<open>pyval\<close>, where \<open>True == 1\<close> holds as it does in Python.

  The theories.
  \<^item> \<open>Prelude\<close>: results, exceptions, Python's string operations, tables, and the interfaces
    that components share (a keyed table, a codec, a versioned register and others) as locales.
  \<^item> \<open>PyValues\<close>: dynamic values and canonical JSON (\<open>_json_dumps\<close> of \<^verbatim>\<open>db_support.py\<close>);
    \<open>CanonicalJson\<close>: that text is uniquely readable on normal values, so digests identify up to
    collisions of \<open>H\<close>.
  \<^item> \<open>Resources\<close> (\<^verbatim>\<open>execution_resources.py\<close>): path flavours, normalisation, containment and
    resource keys. Containment is the strict prefix order of path components, normalisation never
    lengthens a path, stored roots are read back unchanged.
  \<^item> \<open>Timestamps\<close> (\<open>utc_now\<close>, \<open>_compute_expires\<close>): the calendar and the order of ISO strings.
  \<^item> \<open>Envelope\<close> (\<^verbatim>\<open>lease_envelope.py\<close>, \<open>build_lease_envelope\<close>): parser and builder agree; what an
    accepted envelope guarantees.
  \<^item> \<open>ExecContext\<close> (\<^verbatim>\<open>execution_context.py\<close>): resolution, snapshot validation and digest; where a
    worktree can lie, in path components, and where the gates can be passed by.
  \<^item> \<open>Store\<close>, \<open>JobStore\<close> (\<^verbatim>\<open>schema.py\<close>, \<^verbatim>\<open>db.py\<close>, \<^verbatim>\<open>job_repository.py\<close>): the record \<open>db\<close> with one
    list of rows for each table, in rowid order, and the primitives over it, with the unique
    indexes and checks of the schema as \<open>IntegrityErr\<close>.
  \<^item> \<open>Leases\<close>, \<open>LeaseSafety\<close> (\<^verbatim>\<open>execution_leases.py\<close>, two reads of \<^verbatim>\<open>executor_capacity.py\<close>): the lease
    machine and its guarantees in every reachable state: mutual exclusion, capacity, fencing,
    finality of ended leases, and the refinement of a lock table.
  \<^item> \<open>Bindings\<close> (\<^verbatim>\<open>db.py\<close>): channel bindings as a refinement of a replay of their audit events.
  \<^item> \<open>Bus\<close>, \<open>Deliveries\<close>, \<open>DeliverySafety\<close> (\<^verbatim>\<open>bus.py\<close>, \<^verbatim>\<open>worker.py\<close>, \<^verbatim>\<open>channel_delivery.py\<close>): adapters,
    state changes and the worker loop; at most one post of a channel message with crashes at
    any commit, which rows a pump takes and what it does to each beside other processes that leave them
    alone, and the death of a failing delivery.
  \<^item> \<open>Jobs\<close>, \<open>JobSafety\<close> (\<^verbatim>\<open>jobs.py\<close>): command rendering, run, cancel, retry and pump. A cancellation
    keeps the lease invariants under every interleaving and ends the job and its lease when both are as it read them;
    it can leave the lease of a claim that it missed.
  \<^item> \<open>UsageEvidence\<close>, \<open>UsagePolicy\<close> (\<^verbatim>\<open>usage_evidence.py\<close>, \<^verbatim>\<open>usage_policy.py\<close>): canonical evidence with
    exact totals, the final usage row of an attempt, policies and their warnings.
  \<^item> \<open>Registry\<close> (\<^verbatim>\<open>db.py\<close>): the agents of a workspace, from authoritative entries, overrides that
    lapse and legacy entries: the effective agents, the finality of a roster's source, what a
    synchronisation writes, and how a lapsing override blocks a workspace.
  \<^item> \<open>Identity\<close> (\<^verbatim>\<open>executor_identity.py\<close>): the executor catalog, its synchronisation, and the binding
    snapshot that a job carries: bindings resolve, a catalog hash identifies the catalog, and a job
    in flight keeps its binding.
  \<^item> \<open>Liveness\<close>, \<open>Routing\<close> (\<^verbatim>\<open>agent_liveness.py\<close>, \<^verbatim>\<open>executor_routing.py\<close>): the agents that may take a
    job and the choice among them; which stored decisions a claim accepts, and what the evidence
    of a routed claim binds.
  \<^item> \<open>AgentReport\<close> (\<^verbatim>\<open>agent_report.py\<close>): the text report of an agent: which lines are fields, which
    decision it carries, and when a report signals a result.
  \<^item> \<open>RuntimeLease\<close> (\<^verbatim>\<open>runtime_lease.py\<close>): the work that a claim may take, the start of an attempt
    with its lease, renewal, the reaper and the recovery of timed out jobs. \<open>Runtime\<close>
    (\<^verbatim>\<open>runtime.py\<close>): claims with their replay, progress, reports and late results.
  \<^item> \<open>RuntimeSafety\<close>, \<open>RuntimeRuns\<close>: the transactions of these operations and of \<^verbatim>\<open>jobs.py\<close>, one step each (the reaper one for
    each lease), interleaved with stale readings. The lease invariants hold in every reachable state.
    That an active lease belongs to the current attempt of a running job, and that a finished job stays finished, is
    not enforced by the code when a cancellation, a legacy claim or the start of a local run decides on a row that has changed
    since, or when a local run ends a job that an agent has leased: it is proved for the jobs of a set \<open>G\<close>, which no such
    stale operation touches while anything happens to the others, and what goes wrong otherwise is stated
    (\<open>cancel_misses_claim\<close>, \<open>run_starts_stale\<close>, \<open>legacy_claim_reuses_token\<close>). Only the live lease reports;
    claims take the oldest free job; the reaper gives a job of a silent agent back; and what later attempts of one job lose.
  \<^item> \<open>RuntimeAgents\<close> (\<^verbatim>\<open>runtime.py\<close>): registration, heartbeat and deactivation. A deactivated agent takes
    no work, but for a legacy claim of a row that was stale, a second deactivation is a no-op, and an agent that moved cannot be deactivated.
  \<^item> \<open>RuntimeRequests\<close> (\<^verbatim>\<open>runtime.py\<close>): exact and routed submission. An idempotency key names one event and
    one job under every race, a submission returns the job that was asked for, and a resubmission on
    unchanged grounds returns the first job.
  \<^item> \<open>Checklist\<close> (\<^verbatim>\<open>checklist_contract.py\<close>): the validator of a harness checklist, with all its texts;
    it accepts exactly the checklists of a contract that is stated without its traversal.
  \<^item> \<open>ChecklistIO\<close> (\<^verbatim>\<open>checklist_io.py\<close>): resolution of the file, locators, phases, the atomic writer as the
    sequence of its system calls, initialisation and the mutation pipeline. A write is all or
    nothing, and readers only ever find one valid checklist, also after crashes and when the temporary
    file cannot be removed.
  \<^item> \<open>ChecklistLock\<close> (\<^verbatim>\<open>checklist_io.py\<close>): the lock file, one system call at a time. It excludes while no
    process dies; a stale lock can be taken twice, and one without an owner is never broken.
  \<^item> \<open>SplitContract\<close> (\<^verbatim>\<open>split_operations.py\<close>): validation, fingerprints and envelopes of operations that
    have a half on the coding host and a half in the database, and what the fingerprints bind.

  Bounds. The recursions follow the lists that the loops iterate over; the worker loop has the
  parameter \<open>patience\<close>, the number of rounds it is watched, and the theorems about it hold for every
  value. The attempt limit of a delivery is its constant in the code (three).

  Not modelled. Command line and rendering modules, which print rows; clients of git, GitHub,
  Discord and MCP, whose logic is in the services; the two halves of the split operations, the
  lifecycle transitions that run harness commands, reconciliation, pull requests and completion
  receipts, which are not translated yet; connections, migrations and the JSON text of columns,
  which are read back as written.
\<close>

end
